(* ===== verification/Hfs_Prelude.thy ===== *)
theory Hfs_Prelude
  imports Main "HOL-Library.Word"
begin

text \<open>
  What every component of the model shares.
  \<^item> The C integer types as words of their width, and buffers as lists of bytes.
  \<^item> \<open>outcome\<close>: what a call can end in. \<open>Done\<close> is a return; \<open>Critical\<close> is the \<open>critical\<close> macro of
    \<^verbatim>\<open>src/src/logging/logging.h\<close>, whose \<open>PrintLine\<close> reaches \<open>abort\<close> (or a trap) at every log level,
    so the process ends there; \<open>Fault\<close> is an access outside the object it addresses or through a null
    pointer, which C leaves undefined. The \<open>assert\<close>s are compiled out of the default build
    (\<^verbatim>\<open>-DNDEBUG\<close> in the Makefile) and are not steps of the model.
  \<^item> Little-endian loads and stores on a buffer (the Makefile builds with \<^verbatim>\<open>-msse4.2\<close>, so the host is
    x86), the big-endian reading that the on-disk formats use, and the lemmas that relate both.
  The collections \<open>bytes\<close>, \<open>outcome_simps\<close> and \<open>layout\<close> gather the rewriting rules that the
  component theories share.
\<close>

unbundle bit_operations_syntax

named_theorems bytes \<open>rules for loads, stores and chunks of buffers\<close>
named_theorems outcome_simps \<open>rules for calls that may abort or fault\<close>
named_theorems layout \<open>offsets and sizes of on-disk structures\<close>

section \<open>Integers\<close>

type_synonym u8 = "8 word"
type_synonym u16 = "16 word"
type_synonym u32 = "32 word"
type_synonym u64 = "64 word"
type_synonym buffer = "u8 list"

text \<open>The \<open>cmp\<close> macro, on values that C compares as unsigned numbers.\<close>

definition cmp_nat :: "nat \<Rightarrow> nat \<Rightarrow> int" where
  "cmp_nat a b = (if a > b then 1 else if a < b then -1 else 0)"

lemma cmp_nat_range: "cmp_nat a b \<in> {-1, 0, 1}"
  by (simp add: cmp_nat_def)

lemma cmp_nat_anti: "cmp_nat b a = - cmp_nat a b"
  by (simp add: cmp_nat_def)

lemma cmp_nat_zero [simp]: "cmp_nat a b = 0 \<longleftrightarrow> a = b"
  by (simp add: cmp_nat_def)

lemma cmp_nat_signs [simp]:
  "cmp_nat a b < 0 \<longleftrightarrow> a < b" "0 < cmp_nat a b \<longleftrightarrow> b < a"
  "cmp_nat a b \<le> 0 \<longleftrightarrow> a \<le> b" "0 \<le> cmp_nat a b \<longleftrightarrow> b \<le> a"
  by (auto simp: cmp_nat_def)

text \<open>Words as numbers.\<close>

lemma unat_bound: "unat (w :: 'a::len word) < 2 ^ LENGTH('a)"
  by (rule unsigned_less)

lemma unat_ucast_up: "LENGTH('a) \<le> LENGTH('b) \<Longrightarrow> unat (ucast (w :: 'a::len word) :: 'b::len word) = unat w"
proof -
  assume "LENGTH('a) \<le> LENGTH('b)"
  then have "(2 :: nat) ^ LENGTH('a) \<le> 2 ^ LENGTH('b)" by simp
  with unat_bound [of w] have "unat w < 2 ^ LENGTH('b)" by (rule less_le_trans)
  then show ?thesis by (simp add: unsigned_ucast_eq take_bit_nat_eq_self)
qed

lemma unat_ucast_widen [simp]:
  "unat (ucast (a :: u8) :: u16) = unat a" "unat (ucast (a :: u8) :: u32) = unat a"
  "unat (ucast (a :: u8) :: u64) = unat a" "unat (ucast (b :: u16) :: u32) = unat b"
  "unat (ucast (b :: u16) :: u64) = unat b" "unat (ucast (c :: u32) :: u64) = unat c"
  by (simp_all add: unat_ucast_up)

lemma unat_plus: "unat a + unat b < 2 ^ LENGTH('a) \<Longrightarrow> unat (a + b :: 'a::len word) = unat a + unat b"
  by (simp only: unat_word_ariths mod_less)

lemma unat_times: "unat a * unat b < 2 ^ LENGTH('a) \<Longrightarrow> unat (a * b :: 'a::len word) = unat a * unat b"
  by (simp only: unat_word_ariths mod_less)

lemma unat_minus_le: "unat b \<le> unat a \<Longrightarrow> unat (a - b :: 'a::len word) = unat a - unat b"
  by (simp add: unat_sub word_le_nat_alt)

lemma unat_of_nat_small: "n < 2 ^ LENGTH('a) \<Longrightarrow> unat (of_nat n :: 'a::len word) = n"
  by (simp only: unat_of_nat mod_less)

lemma sint_nonneg:
  assumes "unat (w :: 'a::len word) < 2 ^ (LENGTH('a) - 1)"
  shows "sint w = int (unat w)"
proof -
  have "int (unat w) < int (2 ^ (LENGTH('a) - 1))" using assms by (simp only: of_nat_less_iff)
  then have hi: "uint w < 2 ^ (LENGTH('a) - Suc 0)" by simp
  have lo: "- (2 ^ (LENGTH('a) - Suc 0)) \<le> uint w" by (rule order_trans [of _ 0]) simp_all
  have "sint w = signed_take_bit (LENGTH('a) - Suc 0) (uint w)" by (rule sint_uint)
  also have "\<dots> = uint w" using lo hi by (rule signed_take_bit_int_eq_self)
  finally show ?thesis by simp
qed

section \<open>Outcomes\<close>

datatype 'a outcome = Done 'a | Critical | Fault

fun obind :: "'a outcome \<Rightarrow> ('a \<Rightarrow> 'b outcome) \<Rightarrow> 'b outcome" where
  "obind (Done x) f = f x"
| "obind Critical f = Critical"
| "obind Fault f = Fault"

text \<open>Statements that update one buffer, executed in order.\<close>

fun steps :: "('m \<Rightarrow> 'm outcome) list \<Rightarrow> 'm \<Rightarrow> 'm outcome" where
  "steps [] m = Done m"
| "steps (f # fs) m = obind (f m) (steps fs)"

definition returns :: "'a outcome \<Rightarrow> bool" where
  "returns r \<longleftrightarrow> (case r of Done _ \<Rightarrow> True | _ \<Rightarrow> False)"

lemma returns_simps [simp, outcome_simps]:
  "returns (Done x)" "\<not> returns Critical" "\<not> returns Fault"
  by (simp_all add: returns_def)

lemma returns_iff: "returns r \<longleftrightarrow> (\<exists>x. r = Done x)"
  by (cases r) simp_all

lemma obind_Done_iff [outcome_simps]:
  "obind m f = Done y \<longleftrightarrow> (\<exists>x. m = Done x \<and> f x = Done y)"
  by (cases m) simp_all

lemma obind_assoc: "obind (obind m f) g = obind m (\<lambda>x. obind (f x) g)"
  by (cases m) simp_all

lemma obind_cong [fundef_cong]:
  assumes "m = m'" and "\<And>x. m' = Done x \<Longrightarrow> f x = f' x"
  shows "obind m f = obind m' f'"
  using assms by (cases m') simp_all

lemma steps_append: "steps (fs @ gs) m = obind (steps fs m) (steps gs)"
proof (induction fs arbitrary: m)
  case (Cons f fs)
  then show ?case by (cases "f m") simp_all
qed simp

section \<open>Chunks of buffers\<close>

definition chunk :: "nat \<Rightarrow> nat \<Rightarrow> 'a list \<Rightarrow> 'a list" where
  "chunk p n m = take n (drop p m)"

lemma length_chunk [simp]: "length (chunk p n m) = min n (length m - p)"
  by (simp add: chunk_def min.commute)

lemma nth_chunk [bytes]: "i < n \<Longrightarrow> p + i < length m \<Longrightarrow> chunk p n m ! i = m ! (p + i)"
  by (simp add: chunk_def)

lemma chunk_0 [simp]: "chunk p 0 m = []"
  by (simp add: chunk_def)

lemma chunk_whole [simp]: "chunk 0 (length m) m = m"
  by (simp add: chunk_def)

lemma chunk_chunk [bytes]: "q + k \<le> n \<Longrightarrow> chunk q k (chunk p n m) = chunk (p + q) k m"
  by (simp add: chunk_def drop_take add.commute)

lemma chunk_append [bytes]: "chunk p (a + b) m = chunk p a m @ chunk (p + a) b m"
  by (simp add: chunk_def take_add add.commute)

definition store :: "nat \<Rightarrow> 'a list \<Rightarrow> 'a list \<Rightarrow> 'a list" where
  "store p xs m = take p m @ xs @ drop (p + length xs) m"

lemma length_store [simp]: "p + length xs \<le> length m \<Longrightarrow> length (store p xs m) = length m"
  by (simp add: store_def)

lemma chunk_store_same [bytes]:
  "p + length xs \<le> length m \<Longrightarrow> chunk p (length xs) (store p xs m) = xs"
  by (simp add: chunk_def store_def)

lemma chunk_store_before [bytes]:
  assumes "q + n \<le> p" "p + length xs \<le> length m"
  shows "chunk q n (store p xs m) = chunk q n m"
  using assms by (auto simp: chunk_def store_def drop_take min_def)

lemma chunk_store_after [bytes]:
  assumes "p + length xs \<le> q" "p + length xs \<le> length m"
  shows "chunk q n (store p xs m) = chunk q n m"
  using assms by (simp add: chunk_def store_def)

lemma store_chunk_id [simp]: "p + n \<le> length m \<Longrightarrow> store p (chunk p n m) m = m"
  by (simp add: chunk_def store_def flip: append_assoc drop_drop take_add)
     (metis append_assoc append_take_drop_id add.commute drop_drop)

lemma store_store_same [bytes]:
  "length xs = length ys \<Longrightarrow> p + length xs \<le> length m \<Longrightarrow> store p ys (store p xs m) = store p ys m"
  by (simp add: store_def)

section \<open>Words in memory\<close>

text \<open>The bytes of a word, least significant first, and the word that a byte list spells.\<close>

definition byte_of :: "nat \<Rightarrow> 'a::len word \<Rightarrow> u8" where
  "byte_of k w = ucast (drop_bit (8 * k) w)"

fun le_word :: "u8 list \<Rightarrow> 'a::len word" where
  "le_word [] = 0"
| "le_word (b # bs) = ucast b OR push_bit 8 (le_word bs)"

definition word_bytes :: "nat \<Rightarrow> 'a::len word \<Rightarrow> u8 list" where
  "word_bytes n w = map (\<lambda>k. byte_of k w) [0..<n]"

definition width :: "'a::len itself \<Rightarrow> nat" where
  "width _ = LENGTH('a) div 8"

lemma width_simps [simp]:
  "width TYPE(8) = 1" "width TYPE(16) = 2" "width TYPE(32) = 4" "width TYPE(64) = 8"
  by (simp_all add: width_def)

lemma bit_byte_of [bytes]: "bit (byte_of k w) n \<longleftrightarrow> n < 8 \<and> bit w (8 * k + n)"
  by (auto simp: byte_of_def bit_simps add.commute)

lemma bit_le_word [bytes]:
  "bit (le_word bs :: 'a::len word) n \<longleftrightarrow>
     n < LENGTH('a) \<and> n div 8 < length bs \<and> bit (bs ! (n div 8)) (n mod 8)"
proof (induction bs arbitrary: n)
  case (Cons b bs)
  show ?case
  proof (cases "n < 8")
    case True
    then show ?thesis by (auto simp: bit_simps)
  next
    case False
    then obtain k where k: "n = 8 + k" by (metis le_add_diff_inverse not_less)
    have "\<not> bit b (8 + k)" by (auto dest: bit_imp_le_length)
    moreover have "(8 + k) div 8 = Suc (k div 8)" "(8 + k) mod 8 = k mod 8" by simp_all
    ultimately show ?thesis by (auto simp: bit_simps k Cons.IH)
  qed
qed simp

lemma length_word_bytes [simp]: "length (word_bytes n w) = n"
  by (simp add: word_bytes_def)

lemma nth_word_bytes [bytes]: "k < n \<Longrightarrow> word_bytes n w ! k = byte_of k w"
  by (simp add: word_bytes_def)

lemma le_word_bytes [bytes]:
  assumes "LENGTH('a) \<le> 8 * n"
  shows "le_word (word_bytes n w) = (w :: 'a::len word)"
proof (rule bit_word_eqI)
  fix i assume "i < LENGTH('a)"
  with assms have "i div 8 < n" by auto
  with \<open>i < LENGTH('a)\<close> show "bit (le_word (word_bytes n w) :: 'a word) i = bit w i"
    by (simp add: bytes)
qed

lemma byte_of_le_word [bytes]:
  assumes "8 * k + 8 \<le> LENGTH('a)"
  shows "byte_of k (le_word bs :: 'a::len word) = (if k < length bs then bs ! k else 0)"
proof (rule bit_word_eqI)
  fix i assume "i < LENGTH(8)"
  then have i: "i < 8" by simp
  then have "(8 * k + i) div 8 = k" "(8 * k + i) mod 8 = i" by auto
  with i assms show "bit (byte_of k (le_word bs :: 'a word)) i = bit (if k < length bs then bs ! k else 0) i"
    by (simp add: bytes)
qed

lemma word_bytes_le_word [bytes]:
  assumes "8 * length bs \<le> LENGTH('a)" "n = length bs"
  shows "word_bytes n (le_word bs :: 'a::len word) = bs"
  using assms by (intro nth_equalityI) (auto simp: nth_word_bytes byte_of_le_word)

text \<open>
  A load of the host at address \<open>p\<close> and a store; \<open>be_at\<close> is the reading that the on-disk formats
  prescribe, most significant byte first.
\<close>

definition rd :: "buffer \<Rightarrow> nat \<Rightarrow> 'a::len word" where
  "rd m p = le_word (chunk p (width TYPE('a)) m)"

definition be_at :: "buffer \<Rightarrow> nat \<Rightarrow> 'a::len word" where
  "be_at m p = le_word (rev (chunk p (width TYPE('a)) m))"

definition wr :: "nat \<Rightarrow> 'a::len word \<Rightarrow> buffer \<Rightarrow> buffer" where
  "wr p w m = store p (word_bytes (width TYPE('a)) w) m"

definition fits :: "nat \<Rightarrow> nat \<Rightarrow> buffer \<Rightarrow> bool" where
  "fits p n m \<longleftrightarrow> p + n \<le> length m"

lemma length_wr [simp]:
  "p + width TYPE('a) \<le> length m \<Longrightarrow> length (wr p (w :: 'a::len word) m) = length m"
  by (simp add: wr_def)

text \<open>Loads from a part of a buffer, or from what was stored at its start.\<close>

lemma rd_chunk: "q + width TYPE('a) \<le> n \<Longrightarrow> (rd (chunk p n m) q :: 'a::len word) = rd m (p + q)"
  by (simp add: rd_def chunk_chunk)

lemma be_at_chunk: "q + width TYPE('a) \<le> n \<Longrightarrow> (be_at (chunk p n m) q :: 'a::len word) = be_at m (p + q)"
  by (simp add: be_at_def chunk_chunk)

lemma be_at_store_0:
  "q + width TYPE('a) \<le> length xs \<Longrightarrow> length xs \<le> length m \<Longrightarrow>
   (be_at (store 0 xs m) q :: 'a::len word) = be_at xs q"
  by (simp add: be_at_def store_def chunk_def)

text \<open>A checked load: reading outside the buffer is a fault.\<close>

definition load :: "buffer \<Rightarrow> nat \<Rightarrow> 'a::len word outcome" where
  "load m p = (if fits p (width TYPE('a)) m then Done (rd m p) else Fault)"

end
