(* ===== verification/Byte_Order.thy ===== *)
theory Byte_Order
  imports Hfs_Prelude
begin

text \<open>
  \<^verbatim>\<open>src/src/volumes/_endian.h\<close>: the byte-swapping fallbacks, the \<open>be##toh\<close> macros on a
  little-endian host, and the \<open>Swap\<close> family that converts a field of a structure in place. The
  lemmas show that each fallback reverses the bytes of its argument and that an in-place swap turns
  a host load into the big-endian reading of the bytes that were there.
\<close>

unbundle bit_operations_syntax

section \<open>bswap16, bswap32, bswap64\<close>

definition bswap16 :: "u16 \<Rightarrow> u16" where
  "bswap16 x = push_bit 8 (x AND 0x00ff) OR drop_bit 8 (x AND 0xff00)"

definition bswap32 :: "u32 \<Rightarrow> u32" where
  "bswap32 x =
     push_bit 24 (x AND 0x000000ff) OR
     push_bit  8 (x AND 0x0000ff00) OR
     drop_bit  8 (x AND 0x00ff0000) OR
     drop_bit 24 (x AND 0xff000000)"

definition bswap64 :: "u64 \<Rightarrow> u64" where
  "bswap64 x =
     push_bit 56 (x AND 0x00000000000000ff) OR
     push_bit 40 (x AND 0x000000000000ff00) OR
     push_bit 24 (x AND 0x0000000000ff0000) OR
     push_bit  8 (x AND 0x00000000ff000000) OR
     drop_bit  8 (x AND 0x000000ff00000000) OR
     drop_bit 24 (x AND 0x0000ff0000000000) OR
     drop_bit 40 (x AND 0x00ff000000000000) OR
     drop_bit 56 (x AND 0xff00000000000000)"

text \<open>Bytes of the operations in these formulas.\<close>

lemma byte_of_or [bytes]: "byte_of k (x OR y) = byte_of k x OR byte_of k y"
  by (rule bit_word_eqI) (auto simp: bit_byte_of bit_simps)

lemma byte_of_and [bytes]: "byte_of k (x AND y) = byte_of k x AND byte_of k y"
  by (rule bit_word_eqI) (auto simp: bit_byte_of bit_simps)

lemma byte_of_push [bytes]:
  assumes "8 * k + 8 \<le> LENGTH('a)"
  shows "byte_of k (push_bit (8 * j) (x :: 'a::len word)) = (if j \<le> k then byte_of (k - j) x else 0)"
proof (rule bit_word_eqI)
  fix n assume "n < LENGTH(8)"
  then have n: "n < 8" by simp
  show "bit (byte_of k (push_bit (8 * j) x)) n = bit (if j \<le> k then byte_of (k - j) x else 0) n"
  proof (cases "j \<le> k")
    case True
    then have "8 * k + n - 8 * j = 8 * (k - j) + n" by simp
    with True n assms show ?thesis by (auto simp: bit_byte_of bit_simps)
  next
    case False
    then have "8 * k + n < 8 * j" using n by arith
    with False show ?thesis by (simp add: bit_byte_of bit_simps)
  qed
qed

lemma byte_of_drop [bytes]: "byte_of k (drop_bit (8 * j) x) = byte_of (k + j) x"
  by (rule bit_word_eqI) (auto simp: bit_byte_of bit_simps algebra_simps)

lemma byte_of_beyond [bytes]: "LENGTH('a) \<le> 8 * k \<Longrightarrow> byte_of k (x :: 'a::len word) = 0"
  by (rule bit_word_eqI) (auto simp: bit_byte_of dest: bit_imp_le_length)

lemma byte_mask [simp]: "(b :: u8) AND 255 = b"
proof -
  have "(255 :: u8) = - 1" by simp
  then show ?thesis by (simp only: and.right_neutral)
qed

lemmas byte_of_push_num = byte_of_push [where j = 1, simplified] byte_of_push [where j = 3, simplified]
  byte_of_push [where j = 5, simplified] byte_of_push [where j = 7, simplified]

lemmas byte_of_drop_num = byte_of_drop [where j = 1, simplified] byte_of_drop [where j = 3, simplified]
  byte_of_drop [where j = 5, simplified] byte_of_drop [where j = 7, simplified]

lemma word_bytes_eqI:
  assumes "\<And>k. k < n \<Longrightarrow> byte_of k x = bs ! k" and "length bs = n" and "LENGTH('a) = 8 * n"
  shows "(x :: 'a::len word) = le_word bs"
proof -
  have "word_bytes n x = bs"
    using assms by (intro nth_equalityI) (auto simp: nth_word_bytes)
  with assms(3) show ?thesis by (metis le_word_bytes order_refl)
qed

lemma upt_2: "[0..<2] = [0, 1]" and upt_4: "[0..<4] = [0, 1, 2, 3]"
  and upt_8: "[0..<8] = [0, 1, 2, 3, 4, 5, 6, 7]"
  by (simp_all add: upt_rec)

lemma u8_wrap: "(0xff00 :: u8) = 0" "(0xff0000 :: u8) = 0" "(0xff000000 :: u8) = 0"
  by (simp_all only: word_numeral_alt word_of_int_eq_iff) simp_all

lemmas bswap_rules = u8_wrap numeral_2_eq_2 [symmetric] byte_of_or byte_of_push_num byte_of_drop_num byte_of_and byte_of_beyond
  word_bytes_def upt_2 upt_4 upt_8 byte_of_def [of _ "numeral _"]

lemma bswap16_bytes: "bswap16 x = le_word (rev (word_bytes 2 x))"
proof (rule word_bytes_eqI [where n = 2])
  fix k :: nat assume "k < 2"
  then have "k \<in> {0, 1}" by auto
  then show "byte_of k (bswap16 x) = rev (word_bytes 2 x) ! k"
    by (auto simp: bswap16_def bswap_rules)
qed simp_all

lemma bswap32_bytes: "bswap32 x = le_word (rev (word_bytes 4 x))"
proof (rule word_bytes_eqI [where n = 4])
  fix k :: nat assume "k < 4"
  then have "k \<in> {0, 1, 2, 3}" by auto
  then show "byte_of k (bswap32 x) = rev (word_bytes 4 x) ! k"
    by (auto simp: bswap32_def bswap_rules)
qed simp_all

lemma bswap64_bytes: "bswap64 x = le_word (rev (word_bytes 8 x))"
proof (rule word_bytes_eqI [where n = 8])
  fix k :: nat assume "k < 8"
  then have "k \<in> {0, 1, 2, 3, 4, 5, 6, 7}" by auto
  then show "byte_of k (bswap64 x) = rev (word_bytes 8 x) ! k"
    by (auto simp: bswap64_def bswap_rules)
qed simp_all

section \<open>be16toh, be32toh, be64toh and the Swap macros\<close>

definition be16toh :: "u16 \<Rightarrow> u16" where "be16toh x = bswap16 x"
definition be32toh :: "u32 \<Rightarrow> u32" where "be32toh x = bswap32 x"
definition be64toh :: "u64 \<Rightarrow> u64" where "be64toh x = bswap64 x"

text \<open>\<open>Swap16(x)\<close> assigns \<open>be16toh(x)\<close> to the field \<open>x\<close>, here the field at address \<open>p\<close>.\<close>

definition Swap16 :: "nat \<Rightarrow> buffer \<Rightarrow> buffer outcome" where
  "Swap16 p m = obind (load m p) (\<lambda>x. Done (wr p (be16toh x) m))"

definition Swap32 :: "nat \<Rightarrow> buffer \<Rightarrow> buffer outcome" where
  "Swap32 p m = obind (load m p) (\<lambda>x. Done (wr p (be32toh x) m))"

definition Swap64 :: "nat \<Rightarrow> buffer \<Rightarrow> buffer outcome" where
  "Swap64 p m = obind (load m p) (\<lambda>x. Done (wr p (be64toh x) m))"

text \<open>
  The type-generic \<open>Swap\<close>. With Clang it is a \<open>_Generic\<close> selection on the field's type; elsewhere a
  \<open>switch\<close> on \<open>sizeof(x)\<close>, which counts bytes, with the cases 16, 32 and 64.
\<close>

datatype compiler = Clang | Other_Compiler

definition Swap :: "compiler \<Rightarrow> nat \<Rightarrow> nat \<Rightarrow> buffer \<Rightarrow> buffer outcome" where
  "Swap cc sz p m =
     (case cc of
        Clang \<Rightarrow>
          (if sz = 2 then Swap16 p m
           else if sz = 4 then Swap32 p m
           else if sz = 8 then Swap64 p m
           else Done m)
      | Other_Compiler \<Rightarrow>
          (if sz = 16 then Swap16 p m
           else if sz = 32 then Swap32 p m
           else if sz = 64 then Swap64 p m
           else Done m))"

section \<open>What a swap does to memory\<close>

definition rev_at :: "nat \<Rightarrow> nat \<Rightarrow> buffer \<Rightarrow> buffer" where
  "rev_at p n m = store p (rev (chunk p n m)) m"

lemma length_rev_at [simp]: "p + n \<le> length m \<Longrightarrow> length (rev_at p n m) = length m"
  by (simp add: rev_at_def)

lemma chunk_rev_at_same [bytes]: "p + n \<le> length m \<Longrightarrow> chunk p n (rev_at p n m) = rev (chunk p n m)"
  using chunk_store_same [of p "rev (chunk p n m)" m] by (simp add: rev_at_def)

lemma chunk_rev_at_disjoint [bytes]:
  assumes "p + n \<le> q \<or> q + k \<le> p" and "p + n \<le> length m"
  shows "chunk q k (rev_at p n m) = chunk q k m"
  using assms by (auto simp: rev_at_def chunk_store_before chunk_store_after)

lemma rev_at_twice [simp]: "p + n \<le> length m \<Longrightarrow> rev_at p n (rev_at p n m) = m"
  by (simp add: rev_at_def [of _ _ "rev_at p n m"] chunk_rev_at_same)
     (simp add: rev_at_def store_store_same)

lemma be16toh_rd: "p + 2 \<le> length m \<Longrightarrow> wr p (be16toh (rd m p)) m = rev_at p 2 m"
  by (simp add: be16toh_def bswap16_bytes wr_def rev_at_def rd_def word_bytes_le_word)

lemma be32toh_rd: "p + 4 \<le> length m \<Longrightarrow> wr p (be32toh (rd m p)) m = rev_at p 4 m"
  by (simp add: be32toh_def bswap32_bytes wr_def rev_at_def rd_def word_bytes_le_word)

lemma be64toh_rd: "p + 8 \<le> length m \<Longrightarrow> wr p (be64toh (rd m p)) m = rev_at p 8 m"
  by (simp add: be64toh_def bswap64_bytes wr_def rev_at_def rd_def word_bytes_le_word)

lemma Swap16_eq [outcome_simps]: "Swap16 p m = (if fits p 2 m then Done (rev_at p 2 m) else Fault)"
  by (simp add: Swap16_def load_def fits_def be16toh_rd)

lemma Swap32_eq [outcome_simps]: "Swap32 p m = (if fits p 4 m then Done (rev_at p 4 m) else Fault)"
  by (simp add: Swap32_def load_def fits_def be32toh_rd)

lemma Swap64_eq [outcome_simps]: "Swap64 p m = (if fits p 8 m then Done (rev_at p 8 m) else Fault)"
  by (simp add: Swap64_def load_def fits_def be64toh_rd)

lemma rd_rev_at_same [bytes]:
  "p + width TYPE('a) \<le> length m \<Longrightarrow> (rd (rev_at p (width TYPE('a)) m) p :: 'a::len word) = be_at m p"
  by (simp add: rd_def be_at_def chunk_rev_at_same)

section \<open>Swapping the fields of a structure\<close>

text \<open>A list of fields, each an address and a size, reversed one after the other.\<close>

definition swap_fields :: "(nat \<times> nat) list \<Rightarrow> buffer \<Rightarrow> buffer" where
  "swap_fields fs m = fold (\<lambda>(p, n). rev_at p n) fs m"

definition swaps :: "(nat \<times> nat) list \<Rightarrow> buffer \<Rightarrow> buffer outcome" where
  "swaps fs m = (if list_all (\<lambda>(p, n). fits p n m) fs then Done (swap_fields fs m) else Fault)"

fun disjoint_fields :: "(nat \<times> nat) list \<Rightarrow> bool" where
  "disjoint_fields [] = True"
| "disjoint_fields ((p, n) # fs) =
     (list_all (\<lambda>(q, k). p + n \<le> q \<or> q + k \<le> p) fs \<and> disjoint_fields fs)"

lemma swaps_Nil [simp]: "swaps [] m = Done m"
  by (simp add: swaps_def swap_fields_def)

lemma swaps_Cons: "swaps ((p, n) # fs) m = (if fits p n m then swaps fs (rev_at p n m) else Fault)"
  by (auto simp: swaps_def swap_fields_def fits_def list_all_iff)

lemma swaps_append: "swaps (fs @ gs) m = obind (swaps fs m) (swaps gs)"
  by (induction fs arbitrary: m) (auto simp: swaps_Cons)

lemma Swap_as_swaps [layout]:
  "Swap16 p = swaps [(p, 2)]" "Swap32 p = swaps [(p, 4)]" "Swap64 p = swaps [(p, 8)]"
  by (auto simp: fun_eq_iff outcome_simps swaps_Cons)

lemma steps_swaps [layout]: "steps (map swaps fss) = swaps (concat fss)"
proof (rule ext)
  show "steps (map swaps fss) m = swaps (concat fss) m" for m
  proof (induction fss arbitrary: m)
    case (Cons fs fss)
    then show ?case by (simp add: swaps_append) (metis ext)
  qed simp
qed

lemma length_swap_fields [simp]:
  "list_all (\<lambda>(p, n). fits p n m) fs \<Longrightarrow> length (swap_fields fs m) = length m"
proof (induction fs arbitrary: m)
  case (Cons f fs)
  obtain p n where f: "f = (p, n)" by force
  with Cons.prems have "length (rev_at p n m) = length m"
    and "list_all (\<lambda>(p, n). fits p n (rev_at p n m)) fs"
    by (auto simp: fits_def list_all_iff)
  with Cons.IH [of "rev_at p n m"] Cons.prems f show ?case
    by (simp add: swap_fields_def fits_def)
qed (simp add: swap_fields_def)

lemma fields_fit_rev_at [simp]:
  "p + n \<le> length m \<Longrightarrow>
     list_all (\<lambda>(q, k). fits q k (rev_at p n m)) fs = list_all (\<lambda>(q, k). fits q k m) fs"
  by (simp add: fits_def)

lemma swap_fields_Cons [simp]: "swap_fields ((p, n) # fs) m = swap_fields fs (rev_at p n m)"
  by (simp add: swap_fields_def)

text \<open>Bytes outside every field of the list are untouched.\<close>

lemma chunk_swap_fields_disjoint:
  "list_all (\<lambda>(p, n). fits p n m) fs \<Longrightarrow> list_all (\<lambda>(p, n). p + n \<le> q \<or> q + k \<le> p) fs \<Longrightarrow>
     chunk q k (swap_fields fs m) = chunk q k m"
proof (induction fs arbitrary: m)
  case (Cons f fs)
  obtain p n where f: "f = (p, n)" by force
  with Cons.prems have "p + n \<le> length m" "p + n \<le> q \<or> q + k \<le> p" by (auto simp: fits_def)
  with Cons f show ?case by (simp add: chunk_rev_at_disjoint)
qed (simp add: swap_fields_def)

text \<open>The bytes of a field of the list are reversed, when the fields do not overlap.\<close>

lemma chunk_swap_fields_same:
  "list_all (\<lambda>(p, n). fits p n m) fs \<Longrightarrow> disjoint_fields fs \<Longrightarrow> (q, k) \<in> set fs \<Longrightarrow>
     chunk q k (swap_fields fs m) = rev (chunk q k m)"
proof (induction fs arbitrary: m)
  case (Cons f fs)
  obtain p n where f: "f = (p, n)" by force
  with Cons.prems have fit: "p + n \<le> length m" by (simp add: fits_def)
  show ?case
  proof (cases "(q, k) = (p, n)")
    case True
    with Cons.prems f have "list_all (\<lambda>(p, n). p + n \<le> q \<or> q + k \<le> p) fs"
      by (auto simp: list_all_iff)
    with True Cons.prems f fit show ?thesis
      by (simp add: chunk_swap_fields_disjoint chunk_rev_at_same)
  next
    case False
    with Cons.prems f have mem: "(q, k) \<in> set fs" by auto
    with Cons.prems f have "p + n \<le> q \<or> q + k \<le> p" by (auto simp: list_all_iff)
    with Cons f fit mem show ?thesis by (simp add: chunk_rev_at_disjoint)
  qed
qed simp

text \<open>A host load after the swap is the big-endian reading before it.\<close>

lemma rd_swap_fields:
  assumes "list_all (\<lambda>(p, n). fits p n m) fs" "disjoint_fields fs" "(p, width TYPE('a)) \<in> set fs"
  shows "(rd (swap_fields fs m) p :: 'a::len word) = be_at m p"
  using assms by (simp add: rd_def be_at_def chunk_swap_fields_same)

lemma rd_swap_fields_disjoint:
  assumes "list_all (\<lambda>(p, n). fits p n m) fs"
    and "list_all (\<lambda>(p, n). p + n \<le> q \<or> q + width TYPE('a) \<le> p) fs"
  shows "(rd (swap_fields fs m) q :: 'a::len word) = rd m q"
  using assms by (simp add: rd_def chunk_swap_fields_disjoint)

text \<open>Swapping twice restores the buffer.\<close>

lemma nth_of_chunk: "q \<le> i \<Longrightarrow> i < q + k \<Longrightarrow> i < length m \<Longrightarrow> m ! i = chunk q k m ! (i - q)"
  by (simp add: nth_chunk)

lemma swap_fields_twice:
  assumes fit: "list_all (\<lambda>(p, n). fits p n m) fs" and disj: "disjoint_fields fs"
  shows "swap_fields fs (swap_fields fs m) = m"
proof (rule nth_equalityI)
  have len: "length (swap_fields fs m) = length m" using fit by simp
  then have fit': "list_all (\<lambda>(p, n). fits p n (swap_fields fs m)) fs"
    using fit by (simp add: fits_def)
  then show len2: "length (swap_fields fs (swap_fields fs m)) = length m" by (simp add: len)
  fix i assume "i < length (swap_fields fs (swap_fields fs m))"
  then have i: "i < length m" by (simp add: len2)
  show "swap_fields fs (swap_fields fs m) ! i = m ! i"
  proof (cases "\<exists>(q, k) \<in> set fs. q \<le> i \<and> i < q + k")
    case True
    then obtain q k where qk: "(q, k) \<in> set fs" "q \<le> i" "i < q + k" by auto
    have "chunk q k (swap_fields fs (swap_fields fs m)) = chunk q k m"
      using chunk_swap_fields_same [OF fit disj qk(1)] chunk_swap_fields_same [OF fit' disj qk(1)]
      by simp
    with qk i len2 show ?thesis by (metis nth_of_chunk)
  next
    case False
    then have out: "list_all (\<lambda>(p, n). p + n \<le> i \<or> i + 1 \<le> p) fs"
      by (fastforce simp: list_all_iff)
    have "chunk i 1 (swap_fields fs (swap_fields fs m)) = chunk i 1 m"
      by (simp only: chunk_swap_fields_disjoint [OF fit' out] chunk_swap_fields_disjoint [OF fit out])
    with i len2 show ?thesis by (metis nth_of_chunk less_add_one order_refl)
  qed
qed

end
