(* ===== verification/Disk_Layout.thy ===== *)
theory Disk_Layout
  imports Byte_Order
begin

text \<open>
  \<^verbatim>\<open>src/src/hfs/Apple/hfs_format.h\<close>, \<^verbatim>\<open>hfs_unistr.h\<close>, \<^verbatim>\<open>vfs_journal.h\<close> and \<^verbatim>\<open>src/src/hfs/types.h\<close>: the on-disk
  structures, as descriptions from which sizes and field addresses are computed. All of them are
  declared \<open>packed\<close> (or have naturally aligned members only), so a member starts where the previous
  one ends; the members of a union all start at its own address.
\<close>

section \<open>C types, sizes and offsets\<close>

datatype ctype =
    C8 | C16 | C32 | C64
  | CArray nat ctype
  | CStruct "(string \<times> ctype) list"
  | CUnion "(string \<times> ctype) list"

fun sizeof :: "ctype \<Rightarrow> nat" and sizeof_fields :: "(string \<times> ctype) list \<Rightarrow> nat"
  and sizeof_union :: "(string \<times> ctype) list \<Rightarrow> nat" where
  "sizeof C8 = 1"
| "sizeof C16 = 2"
| "sizeof C32 = 4"
| "sizeof C64 = 8"
| "sizeof (CArray n t) = n * sizeof t"
| "sizeof (CStruct fs) = sizeof_fields fs"
| "sizeof (CUnion fs) = sizeof_union fs"
| "sizeof_fields [] = 0"
| "sizeof_fields ((_, t) # fs) = sizeof t + sizeof_fields fs"
| "sizeof_union [] = 0"
| "sizeof_union ((_, t) # fs) = max (sizeof t) (sizeof_union fs)"

fun field_offset :: "(string \<times> ctype) list \<Rightarrow> string \<Rightarrow> nat option" where
  "field_offset [] f = None"
| "field_offset ((g, t) # fs) f =
     (if f = g then Some 0 else map_option (\<lambda>n. sizeof t + n) (field_offset fs f))"

fun offsetof :: "ctype \<Rightarrow> string \<Rightarrow> nat" where
  "offsetof (CStruct fs) f = (case field_offset fs f of Some n \<Rightarrow> n | None \<Rightarrow> sizeof_fields fs)"
| "offsetof _ f = 0"

text \<open>\<open>&((T*)p)->f\<close>, and the address of an element of an array of \<open>T\<close>.\<close>

definition fld :: "ctype \<Rightarrow> string \<Rightarrow> nat \<Rightarrow> nat" where
  "fld t f p = p + offsetof t f"

definition elem :: "ctype \<Rightarrow> nat \<Rightarrow> nat \<Rightarrow> nat" where
  "elem t i p = p + i * sizeof t"

section \<open>The structures\<close>

definition HFSUniStr255_t :: ctype where
  "HFSUniStr255_t = CStruct
    [(''length'', C16),
     (''unicode'', (CArray 255 C16))]"

definition HFSExtentKey_t :: ctype where
  "HFSExtentKey_t = CStruct
    [(''keyLength'', C8),
     (''forkType'', C8),
     (''fileID'', C32),
     (''startBlock'', C16)]"

definition HFSPlusExtentKey_t :: ctype where
  "HFSPlusExtentKey_t = CStruct
    [(''keyLength'', C16),
     (''forkType'', C8),
     (''pad'', C8),
     (''fileID'', C32),
     (''startBlock'', C32)]"

definition HFSExtentDescriptor_t :: ctype where
  "HFSExtentDescriptor_t = CStruct
    [(''startBlock'', C16),
     (''blockCount'', C16)]"

definition HFSPlusExtentDescriptor_t :: ctype where
  "HFSPlusExtentDescriptor_t = CStruct
    [(''startBlock'', C32),
     (''blockCount'', C32)]"

definition FndrFileInfo_t :: ctype where
  "FndrFileInfo_t = CStruct
    [(''fdType'', C32),
     (''fdCreator'', C32),
     (''fdFlags'', C16),
     (''fdLocation'', (CStruct [(''v'', C16), (''h'', C16)])),
     (''opaque'', C16)]"

definition FndrDirInfo_t :: ctype where
  "FndrDirInfo_t = CStruct
    [(''frRect'', (CStruct [(''top'', C16), (''left'', C16), (''bottom'', C16), (''right'', C16)])),
     (''frFlags'', C16),
     (''frLocation'', (CStruct [(''v'', C16), (''h'', C16)])),
     (''opaque'', C16)]"

definition FndrOpaqueInfo_t :: ctype where
  "FndrOpaqueInfo_t = CStruct
    [(''opaque'', (CArray 16 C8))]"

definition FndrExtendedDirInfo_t :: ctype where
  "FndrExtendedDirInfo_t = CStruct
    [(''point'', C32),
     (''date_added'', C32),
     (''extended_flags'', C16),
     (''reserved3'', C16),
     (''reserved4'', C32)]"

definition FndrExtendedFileInfo_t :: ctype where
  "FndrExtendedFileInfo_t = CStruct
    [(''reserved1'', C32),
     (''date_added'', C32),
     (''extended_flags'', C16),
     (''reserved2'', C16),
     (''write_gen_counter'', C32)]"

definition HFSPlusForkData_t :: ctype where
  "HFSPlusForkData_t = CStruct
    [(''logicalSize'', C64),
     (''clumpSize'', C32),
     (''totalBlocks'', C32),
     (''extents'', (CArray 8 HFSPlusExtentDescriptor_t))]"

definition HFSPlusBSDInfo_t :: ctype where
  "HFSPlusBSDInfo_t = CStruct
    [(''ownerID'', C32),
     (''groupID'', C32),
     (''adminFlags'', C8),
     (''ownerFlags'', C8),
     (''fileMode'', C16),
     (''special'', (CUnion [(''iNodeNum'', C32), (''linkCount'', C32), (''rawDevice'', C32)]))]"

definition HFSCatalogKey_t :: ctype where
  "HFSCatalogKey_t = CStruct
    [(''keyLength'', C8),
     (''reserved'', C8),
     (''parentID'', C32),
     (''nodeName'', (CArray 32 C8))]"

definition HFSPlusCatalogKey_t :: ctype where
  "HFSPlusCatalogKey_t = CStruct
    [(''keyLength'', C16),
     (''parentID'', C32),
     (''nodeName'', HFSUniStr255_t)]"

definition HFSCatalogFolder_t :: ctype where
  "HFSCatalogFolder_t = CStruct
    [(''recordType'', C16),
     (''flags'', C16),
     (''valence'', C16),
     (''folderID'', C32),
     (''createDate'', C32),
     (''modifyDate'', C32),
     (''backupDate'', C32),
     (''userInfo'', FndrDirInfo_t),
     (''finderInfo'', FndrOpaqueInfo_t),
     (''reserved'', (CArray 4 C32))]"

definition HFSPlusCatalogFolder_t :: ctype where
  "HFSPlusCatalogFolder_t = CStruct
    [(''recordType'', C16),
     (''flags'', C16),
     (''valence'', C32),
     (''folderID'', C32),
     (''createDate'', C32),
     (''contentModDate'', C32),
     (''attributeModDate'', C32),
     (''accessDate'', C32),
     (''backupDate'', C32),
     (''bsdInfo'', HFSPlusBSDInfo_t),
     (''userInfo'', FndrDirInfo_t),
     (''finderInfo'', FndrOpaqueInfo_t),
     (''textEncoding'', C32),
     (''folderCount'', C32)]"

definition HFSCatalogFile_t :: ctype where
  "HFSCatalogFile_t = CStruct
    [(''recordType'', C16),
     (''flags'', C8),
     (''fileType'', C8),
     (''userInfo'', FndrFileInfo_t),
     (''fileID'', C32),
     (''dataStartBlock'', C16),
     (''dataLogicalSize'', C32),
     (''dataPhysicalSize'', C32),
     (''rsrcStartBlock'', C16),
     (''rsrcLogicalSize'', C32),
     (''rsrcPhysicalSize'', C32),
     (''createDate'', C32),
     (''modifyDate'', C32),
     (''backupDate'', C32),
     (''finderInfo'', FndrOpaqueInfo_t),
     (''clumpSize'', C16),
     (''dataExtents'', (CArray 3 HFSExtentDescriptor_t)),
     (''rsrcExtents'', (CArray 3 HFSExtentDescriptor_t)),
     (''reserved'', C32)]"

definition HFSPlusCatalogFile_t :: ctype where
  "HFSPlusCatalogFile_t = CStruct
    [(''recordType'', C16),
     (''flags'', C16),
     (''reserved1'', C32),
     (''fileID'', C32),
     (''createDate'', C32),
     (''contentModDate'', C32),
     (''attributeModDate'', C32),
     (''accessDate'', C32),
     (''backupDate'', C32),
     (''bsdInfo'', HFSPlusBSDInfo_t),
     (''userInfo'', FndrFileInfo_t),
     (''finderInfo'', FndrOpaqueInfo_t),
     (''textEncoding'', C32),
     (''reserved2'', C32),
     (''dataFork'', HFSPlusForkData_t),
     (''resourceFork'', HFSPlusForkData_t)]"

definition HFSCatalogThread_t :: ctype where
  "HFSCatalogThread_t = CStruct
    [(''recordType'', C16),
     (''reserved'', (CArray 2 C32)),
     (''parentID'', C32),
     (''nodeName'', (CArray 32 C8))]"

definition HFSPlusCatalogThread_t :: ctype where
  "HFSPlusCatalogThread_t = CStruct
    [(''recordType'', C16),
     (''reserved'', C16),
     (''parentID'', C32),
     (''nodeName'', HFSUniStr255_t)]"

definition HFSPlusAttrForkData_t :: ctype where
  "HFSPlusAttrForkData_t = CStruct
    [(''recordType'', C32),
     (''reserved'', C32),
     (''theFork'', HFSPlusForkData_t)]"

definition HFSPlusAttrExtents_t :: ctype where
  "HFSPlusAttrExtents_t = CStruct
    [(''recordType'', C32),
     (''reserved'', C32),
     (''extents'', (CArray 8 HFSPlusExtentDescriptor_t))]"

definition HFSPlusAttrData_t :: ctype where
  "HFSPlusAttrData_t = CStruct
    [(''recordType'', C32),
     (''reserved'', (CArray 2 C32)),
     (''attrSize'', C32),
     (''attrData'', (CArray 2 C8))]"

definition HFSPlusAttrInlineData_t :: ctype where
  "HFSPlusAttrInlineData_t = CStruct
    [(''recordType'', C32),
     (''reserved'', C32),
     (''logicalSize'', C32),
     (''userData'', (CArray 2 C8))]"

definition HFSPlusAttrRecord_t :: ctype where
  "HFSPlusAttrRecord_t = CUnion
    [(''recordType'', C32),
     (''inlineData'', HFSPlusAttrInlineData_t),
     (''attrData'', HFSPlusAttrData_t),
     (''forkData'', HFSPlusAttrForkData_t),
     (''overflowExtents'', HFSPlusAttrExtents_t)]"

definition HFSPlusAttrKey_t :: ctype where
  "HFSPlusAttrKey_t = CStruct
    [(''keyLength'', C16),
     (''pad'', C16),
     (''fileID'', C32),
     (''startBlock'', C32),
     (''attrNameLen'', C16),
     (''attrName'', (CArray 127 C16))]"

definition HFSMasterDirectoryBlock_t :: ctype where
  "HFSMasterDirectoryBlock_t = CStruct
    [(''drSigWord'', C16),
     (''drCrDate'', C32),
     (''drLsMod'', C32),
     (''drAtrb'', C16),
     (''drNmFls'', C16),
     (''drVBMSt'', C16),
     (''drAllocPtr'', C16),
     (''drNmAlBlks'', C16),
     (''drAlBlkSiz'', C32),
     (''drClpSiz'', C32),
     (''drAlBlSt'', C16),
     (''drNxtCNID'', C32),
     (''drFreeBks'', C16),
     (''drVN'', (CArray 28 C8)),
     (''drVolBkUp'', C32),
     (''drVSeqNum'', C16),
     (''drWrCnt'', C32),
     (''drXTClpSiz'', C32),
     (''drCTClpSiz'', C32),
     (''drNmRtDirs'', C16),
     (''drFilCnt'', C32),
     (''drDirCnt'', C32),
     (''drFndrInfo'', (CArray 8 C32)),
     (''drEmbedSigWord'', C16),
     (''drEmbedExtent'', HFSExtentDescriptor_t),
     (''drXTFlSize'', C32),
     (''drXTExtRec'', (CArray 3 HFSExtentDescriptor_t)),
     (''drCTFlSize'', C32),
     (''drCTExtRec'', (CArray 3 HFSExtentDescriptor_t))]"

definition HFSPlusVolumeHeader_t :: ctype where
  "HFSPlusVolumeHeader_t = CStruct
    [(''signature'', C16),
     (''version'', C16),
     (''attributes'', C32),
     (''lastMountedVersion'', C32),
     (''journalInfoBlock'', C32),
     (''createDate'', C32),
     (''modifyDate'', C32),
     (''backupDate'', C32),
     (''checkedDate'', C32),
     (''fileCount'', C32),
     (''folderCount'', C32),
     (''blockSize'', C32),
     (''totalBlocks'', C32),
     (''freeBlocks'', C32),
     (''nextAllocation'', C32),
     (''rsrcClumpSize'', C32),
     (''dataClumpSize'', C32),
     (''nextCatalogID'', C32),
     (''writeCount'', C32),
     (''encodingsBitmap'', C64),
     (''finderInfo'', (CArray 32 C8)),
     (''allocationFile'', HFSPlusForkData_t),
     (''extentsFile'', HFSPlusForkData_t),
     (''catalogFile'', HFSPlusForkData_t),
     (''attributesFile'', HFSPlusForkData_t),
     (''startupFile'', HFSPlusForkData_t)]"

definition BTreeKey_t :: ctype where
  "BTreeKey_t = CUnion
    [(''length8'', C8),
     (''length16'', C16),
     (''rawData'', (CArray 522 C8))]"

definition BTNodeDescriptor_t :: ctype where
  "BTNodeDescriptor_t = CStruct
    [(''fLink'', C32),
     (''bLink'', C32),
     (''kind'', C8),
     (''height'', C8),
     (''numRecords'', C16),
     (''reserved'', C16)]"

definition BTHeaderRec_t :: ctype where
  "BTHeaderRec_t = CStruct
    [(''treeDepth'', C16),
     (''rootNode'', C32),
     (''leafRecords'', C32),
     (''firstLeafNode'', C32),
     (''lastLeafNode'', C32),
     (''nodeSize'', C16),
     (''maxKeyLength'', C16),
     (''totalNodes'', C32),
     (''freeNodes'', C32),
     (''reserved1'', C16),
     (''clumpSize'', C32),
     (''btreeType'', C8),
     (''keyCompareType'', C8),
     (''attributes'', C32),
     (''reserved3'', (CArray 16 C32))]"

definition JournalInfoBlock_t :: ctype where
  "JournalInfoBlock_t = CStruct
    [(''flags'', C32),
     (''device_signature'', (CArray 8 C32)),
     (''offset'', C64),
     (''size'', C64),
     (''ext_jnl_uuid'', (CArray 37 C8)),
     (''machine_serial_num'', (CArray 48 C8)),
     (''reserved'', (CArray 43 C8))]"

definition HFSPlusVolumeFinderInfo_t :: ctype where
  "HFSPlusVolumeFinderInfo_t = CStruct
    [(''bootDirID'', C32),
     (''bootParentID'', C32),
     (''openWindowDirID'', C32),
     (''os9DirID'', C32),
     (''reserved'', C32),
     (''osXDirID'', C32),
     (''volID'', C64)]"

definition HFSPlusCatalogRecord_t :: ctype where
  "HFSPlusCatalogRecord_t = CUnion
    [(''record_type'', C16),
     (''catalogFile'', HFSPlusCatalogFile_t),
     (''catalogFolder'', HFSPlusCatalogFolder_t),
     (''catalogThread'', HFSPlusCatalogThread_t)]"

definition journal_header_t :: ctype where
  "journal_header_t = CStruct
    [(''magic'', C32),
     (''endian'', C32),
     (''start'', C64),
     (''end'', C64),
     (''size'', C64),
     (''blhdr_size'', C32),
     (''checksum'', C32),
     (''jhdr_size'', C32),
     (''sequence_num'', C32)]"

text \<open>Lengths of the extent records, and the signatures, identifiers, record and node types.\<close>

abbreviation (input) kHFSExtentDensity :: nat where "kHFSExtentDensity \<equiv> 3"
abbreviation (input) kHFSPlusExtentDensity :: nat where "kHFSPlusExtentDensity \<equiv> 8"

abbreviation (input) kHFSSigWord :: u16 where "kHFSSigWord \<equiv> 0x4244"
abbreviation (input) kHFSPlusSigWord :: u16 where "kHFSPlusSigWord \<equiv> 0x482B"
abbreviation (input) kHFSXSigWord :: u16 where "kHFSXSigWord \<equiv> 0x4858"

abbreviation (input) kHardLinkFileType :: u32 where "kHardLinkFileType \<equiv> 0x686C6E6B"
abbreviation (input) kHFSPlusCreator :: u32 where "kHFSPlusCreator \<equiv> 0x6866732B"
abbreviation (input) kSymLinkFileType :: u32 where "kSymLinkFileType \<equiv> 0x736C6E6B"
abbreviation (input) kSymLinkCreator :: u32 where "kSymLinkCreator \<equiv> 0x72686170"

abbreviation (input) kHFSRootParentID :: u32 where "kHFSRootParentID \<equiv> 1"
abbreviation (input) kHFSRootFolderID :: u32 where "kHFSRootFolderID \<equiv> 2"
abbreviation (input) kHFSExtentsFileID :: u32 where "kHFSExtentsFileID \<equiv> 3"
abbreviation (input) kHFSCatalogFileID :: u32 where "kHFSCatalogFileID \<equiv> 4"
abbreviation (input) kHFSBadBlockFileID :: u32 where "kHFSBadBlockFileID \<equiv> 5"
abbreviation (input) kHFSAllocationFileID :: u32 where "kHFSAllocationFileID \<equiv> 6"
abbreviation (input) kHFSStartupFileID :: u32 where "kHFSStartupFileID \<equiv> 7"
abbreviation (input) kHFSAttributesFileID :: u32 where "kHFSAttributesFileID \<equiv> 8"

abbreviation (input) kHFSPlusFolderRecord :: u16 where "kHFSPlusFolderRecord \<equiv> 1"
abbreviation (input) kHFSPlusFileRecord :: u16 where "kHFSPlusFileRecord \<equiv> 2"
abbreviation (input) kHFSPlusFolderThreadRecord :: u16 where "kHFSPlusFolderThreadRecord \<equiv> 3"
abbreviation (input) kHFSPlusFileThreadRecord :: u16 where "kHFSPlusFileThreadRecord \<equiv> 4"
abbreviation (input) kHFSHasLinkChainMask :: u16 where "kHFSHasLinkChainMask \<equiv> 0x20"

abbreviation (input) kHFSPlusAttrInlineData :: u32 where "kHFSPlusAttrInlineData \<equiv> 0x10"
abbreviation (input) kHFSPlusAttrForkData :: u32 where "kHFSPlusAttrForkData \<equiv> 0x20"
abbreviation (input) kHFSPlusAttrExtents :: u32 where "kHFSPlusAttrExtents \<equiv> 0x30"

abbreviation (input) kBTLeafNode :: int where "kBTLeafNode \<equiv> - 1"
abbreviation (input) kBTIndexNode :: int where "kBTIndexNode \<equiv> 0"
abbreviation (input) kBTHeaderNode :: int where "kBTHeaderNode \<equiv> 1"
abbreviation (input) kBTMapNode :: int where "kBTMapNode \<equiv> 2"

abbreviation (input) kBTBigKeysMask :: u32 where "kBTBigKeysMask \<equiv> 2"
abbreviation (input) kBTVariableIndexKeysMask :: u32 where "kBTVariableIndexKeysMask \<equiv> 4"
abbreviation (input) kHFSCaseFolding :: u8 where "kHFSCaseFolding \<equiv> 0xCF"
abbreviation (input) kHFSBinaryCompare :: u8 where "kHFSBinaryCompare \<equiv> 0xBC"

definition kHFSPlusExtentKeyMaximumLength :: nat where
  "kHFSPlusExtentKeyMaximumLength = sizeof HFSPlusExtentKey_t - sizeof C16"

definition kHFSPlusCatalogKeyMaximumLength :: nat where
  "kHFSPlusCatalogKeyMaximumLength = sizeof HFSPlusCatalogKey_t - sizeof C16"

definition kHFSPlusCatalogKeyMinimumLength :: nat where
  "kHFSPlusCatalogKeyMinimumLength =
     kHFSPlusCatalogKeyMaximumLength - sizeof HFSUniStr255_t + sizeof C16"

text \<open>The rules that unfold every structure.\<close>

lemmas struct_defs =
  HFSUniStr255_t_def
  HFSExtentKey_t_def
  HFSPlusExtentKey_t_def
  HFSExtentDescriptor_t_def
  HFSPlusExtentDescriptor_t_def
  FndrFileInfo_t_def
  FndrDirInfo_t_def
  FndrOpaqueInfo_t_def
  FndrExtendedDirInfo_t_def
  FndrExtendedFileInfo_t_def
  HFSPlusForkData_t_def
  HFSPlusBSDInfo_t_def
  HFSCatalogKey_t_def
  HFSPlusCatalogKey_t_def
  HFSCatalogFolder_t_def
  HFSPlusCatalogFolder_t_def
  HFSCatalogFile_t_def
  HFSPlusCatalogFile_t_def
  HFSCatalogThread_t_def
  HFSPlusCatalogThread_t_def
  HFSPlusAttrForkData_t_def
  HFSPlusAttrExtents_t_def
  HFSPlusAttrData_t_def
  HFSPlusAttrInlineData_t_def
  HFSPlusAttrRecord_t_def
  HFSPlusAttrKey_t_def
  HFSMasterDirectoryBlock_t_def
  HFSPlusVolumeHeader_t_def
  BTreeKey_t_def
  BTNodeDescriptor_t_def
  BTHeaderRec_t_def
  JournalInfoBlock_t_def
  HFSPlusVolumeFinderInfo_t_def
  HFSPlusCatalogRecord_t_def
  journal_header_t_def

section \<open>Sizes\<close>

text \<open>
  The sizes that the format prescribes: 512 bytes for the volume header, 162 for the master
  directory block, 80 for a fork, 16 for the BSD information, 14 and 106 for the B-tree structures
  and those of the catalog, extents and attribute records.
\<close>

lemma structure_sizes:
  "map sizeof
     [HFSPlusVolumeHeader_t, HFSMasterDirectoryBlock_t, HFSPlusForkData_t, HFSPlusBSDInfo_t,
      BTNodeDescriptor_t, BTHeaderRec_t, HFSPlusCatalogFile_t, HFSPlusCatalogFolder_t,
      HFSCatalogFolder_t, HFSCatalogFile_t, HFSCatalogThread_t, HFSPlusCatalogThread_t,
      HFSPlusExtentKey_t, HFSExtentKey_t, HFSPlusExtentDescriptor_t, HFSUniStr255_t,
      FndrFileInfo_t, FndrDirInfo_t, FndrOpaqueInfo_t, FndrExtendedDirInfo_t,
      FndrExtendedFileInfo_t, HFSPlusAttrData_t, HFSPlusAttrForkData_t, HFSPlusAttrExtents_t,
      BTreeKey_t, JournalInfoBlock_t]
   = [512, 162, 80, 16, 14, 106, 248, 88, 70, 102, 46, 520, 12, 8, 8, 512,
      16, 16, 16, 16, 16, 18, 88, 72, 522, 180]"
  by code_simp

section \<open>Offsets\<close>

text \<open>The offset of every member of the structures that the code reads, for rewriting.\<close>

lemma HFSPlusForkData_offset_table:
  "map (offsetof HFSPlusForkData_t)
     [''logicalSize'', ''clumpSize'', ''totalBlocks'', ''extents'']
   = [0, 8, 12, 16]"
  by code_simp

lemmas HFSPlusForkData_offsets [layout] = HFSPlusForkData_offset_table [unfolded list.map list.inject]

lemma HFSPlusVolumeHeader_offset_table:
  "map (offsetof HFSPlusVolumeHeader_t)
     [''signature'', ''version'', ''attributes'', ''lastMountedVersion'',
      ''journalInfoBlock'', ''createDate'', ''modifyDate'', ''backupDate'', ''checkedDate'',
      ''fileCount'', ''folderCount'', ''blockSize'', ''totalBlocks'', ''freeBlocks'',
      ''nextAllocation'', ''rsrcClumpSize'', ''dataClumpSize'', ''nextCatalogID'',
      ''writeCount'', ''encodingsBitmap'', ''finderInfo'', ''allocationFile'',
      ''extentsFile'', ''catalogFile'', ''attributesFile'', ''startupFile'']
   = [0, 2, 4, 8, 12, 16, 20, 24, 28, 32, 36, 40, 44, 48, 52, 56, 60, 64, 68, 72, 80, 112,
      192, 272, 352, 432]"
  by code_simp

lemmas HFSPlusVolumeHeader_offsets [layout] = HFSPlusVolumeHeader_offset_table [unfolded list.map list.inject]

lemma HFSPlusVolumeFinderInfo_offset_table:
  "map (offsetof HFSPlusVolumeFinderInfo_t)
     [''bootDirID'', ''bootParentID'', ''openWindowDirID'', ''os9DirID'', ''reserved'',
      ''osXDirID'', ''volID'']
   = [0, 4, 8, 12, 16, 20, 24]"
  by code_simp

lemmas HFSPlusVolumeFinderInfo_offsets [layout] = HFSPlusVolumeFinderInfo_offset_table [unfolded list.map list.inject]

lemma HFSPlusBSDInfo_offset_table:
  "map (offsetof HFSPlusBSDInfo_t)
     [''ownerID'', ''groupID'', ''adminFlags'', ''ownerFlags'', ''fileMode'', ''special'']
   = [0, 4, 8, 9, 10, 12]"
  by code_simp

lemmas HFSPlusBSDInfo_offsets [layout] = HFSPlusBSDInfo_offset_table [unfolded list.map list.inject]

lemma FndrFileInfo_offset_table:
  "map (offsetof FndrFileInfo_t)
     [''fdType'', ''fdCreator'', ''fdFlags'', ''fdLocation'', ''opaque'']
   = [0, 4, 8, 10, 14]"
  by code_simp

lemmas FndrFileInfo_offsets [layout] = FndrFileInfo_offset_table [unfolded list.map list.inject]

lemma FndrDirInfo_offset_table:
  "map (offsetof FndrDirInfo_t)
     [''frRect'', ''frFlags'', ''frLocation'', ''opaque'']
   = [0, 8, 10, 14]"
  by code_simp

lemmas FndrDirInfo_offsets [layout] = FndrDirInfo_offset_table [unfolded list.map list.inject]

lemma HFSPlusCatalogFile_offset_table:
  "map (offsetof HFSPlusCatalogFile_t)
     [''recordType'', ''flags'', ''reserved1'', ''fileID'', ''createDate'',
      ''contentModDate'', ''attributeModDate'', ''accessDate'', ''backupDate'', ''bsdInfo'',
      ''userInfo'', ''finderInfo'', ''textEncoding'', ''reserved2'', ''dataFork'',
      ''resourceFork'']
   = [0, 2, 4, 8, 12, 16, 20, 24, 28, 32, 48, 64, 80, 84, 88, 168]"
  by code_simp

lemmas HFSPlusCatalogFile_offsets [layout] = HFSPlusCatalogFile_offset_table [unfolded list.map list.inject]

lemma HFSPlusCatalogFolder_offset_table:
  "map (offsetof HFSPlusCatalogFolder_t)
     [''recordType'', ''flags'', ''valence'', ''folderID'', ''createDate'',
      ''contentModDate'', ''attributeModDate'', ''accessDate'', ''backupDate'', ''bsdInfo'',
      ''userInfo'', ''finderInfo'', ''textEncoding'', ''folderCount'']
   = [0, 2, 4, 8, 12, 16, 20, 24, 28, 32, 48, 64, 80, 84]"
  by code_simp

lemmas HFSPlusCatalogFolder_offsets [layout] = HFSPlusCatalogFolder_offset_table [unfolded list.map list.inject]

lemma HFSPlusCatalogThread_offset_table:
  "map (offsetof HFSPlusCatalogThread_t)
     [''recordType'', ''reserved'', ''parentID'', ''nodeName'']
   = [0, 2, 4, 8]"
  by code_simp

lemmas HFSPlusCatalogThread_offsets [layout] = HFSPlusCatalogThread_offset_table [unfolded list.map list.inject]

lemma HFSPlusCatalogKey_offset_table:
  "map (offsetof HFSPlusCatalogKey_t)
     [''keyLength'', ''parentID'', ''nodeName'']
   = [0, 2, 6]"
  by code_simp

lemmas HFSPlusCatalogKey_offsets [layout] = HFSPlusCatalogKey_offset_table [unfolded list.map list.inject]

lemma HFSUniStr255_offset_table:
  "map (offsetof HFSUniStr255_t)
     [''length'', ''unicode'']
   = [0, 2]"
  by code_simp

lemmas HFSUniStr255_offsets [layout] = HFSUniStr255_offset_table [unfolded list.map list.inject]

lemma HFSMasterDirectoryBlock_offset_table:
  "map (offsetof HFSMasterDirectoryBlock_t)
     [''drSigWord'', ''drCrDate'', ''drLsMod'', ''drAtrb'', ''drNmFls'', ''drVBMSt'',
      ''drAllocPtr'', ''drNmAlBlks'', ''drAlBlkSiz'', ''drClpSiz'', ''drAlBlSt'',
      ''drNxtCNID'', ''drFreeBks'', ''drVN'', ''drVolBkUp'', ''drVSeqNum'', ''drWrCnt'',
      ''drXTClpSiz'', ''drCTClpSiz'', ''drNmRtDirs'', ''drFilCnt'', ''drDirCnt'',
      ''drFndrInfo'', ''drEmbedSigWord'', ''drEmbedExtent'', ''drXTFlSize'', ''drXTExtRec'',
      ''drCTFlSize'', ''drCTExtRec'']
   = [0, 2, 6, 10, 12, 14, 16, 18, 20, 24, 28, 30, 34, 36, 64, 68, 70, 74, 78, 82, 84, 88,
      92, 124, 126, 130, 134, 146, 150]"
  by code_simp

lemmas HFSMasterDirectoryBlock_offsets [layout] = HFSMasterDirectoryBlock_offset_table [unfolded list.map list.inject]

lemma BTNodeDescriptor_offset_table:
  "map (offsetof BTNodeDescriptor_t)
     [''fLink'', ''bLink'', ''kind'', ''height'', ''numRecords'', ''reserved'']
   = [0, 4, 8, 9, 10, 12]"
  by code_simp

lemmas BTNodeDescriptor_offsets [layout] = BTNodeDescriptor_offset_table [unfolded list.map list.inject]

lemma BTHeaderRec_offset_table:
  "map (offsetof BTHeaderRec_t)
     [''treeDepth'', ''rootNode'', ''leafRecords'', ''firstLeafNode'', ''lastLeafNode'',
      ''nodeSize'', ''maxKeyLength'', ''totalNodes'', ''freeNodes'', ''reserved1'',
      ''clumpSize'', ''btreeType'', ''keyCompareType'', ''attributes'', ''reserved3'']
   = [0, 2, 6, 10, 14, 18, 20, 22, 26, 30, 32, 36, 37, 38, 42]"
  by code_simp

lemmas BTHeaderRec_offsets [layout] = BTHeaderRec_offset_table [unfolded list.map list.inject]

lemma JournalInfoBlock_offset_table:
  "map (offsetof JournalInfoBlock_t)
     [''flags'', ''device_signature'', ''offset'', ''size'', ''ext_jnl_uuid'',
      ''machine_serial_num'', ''reserved'']
   = [0, 4, 36, 44, 52, 89, 137]"
  by code_simp

lemmas JournalInfoBlock_offsets [layout] = JournalInfoBlock_offset_table [unfolded list.map list.inject]

lemma HFSPlusExtentKey_offset_table:
  "map (offsetof HFSPlusExtentKey_t)
     [''keyLength'', ''forkType'', ''pad'', ''fileID'', ''startBlock'']
   = [0, 2, 3, 4, 8]"
  by code_simp

lemmas HFSPlusExtentKey_offsets [layout] = HFSPlusExtentKey_offset_table [unfolded list.map list.inject]

lemma HFSPlusExtentDescriptor_offset_table:
  "map (offsetof HFSPlusExtentDescriptor_t)
     [''startBlock'', ''blockCount'']
   = [0, 4]"
  by code_simp

lemmas HFSPlusExtentDescriptor_offsets [layout] = HFSPlusExtentDescriptor_offset_table [unfolded list.map list.inject]

lemma HFSExtentDescriptor_offset_table:
  "map (offsetof HFSExtentDescriptor_t)
     [''startBlock'', ''blockCount'']
   = [0, 2]"
  by code_simp

lemmas HFSExtentDescriptor_offsets [layout] = HFSExtentDescriptor_offset_table [unfolded list.map list.inject]

lemma HFSPlusAttrKey_offset_table:
  "map (offsetof HFSPlusAttrKey_t)
     [''keyLength'', ''pad'', ''fileID'', ''startBlock'', ''attrNameLen'', ''attrName'']
   = [0, 2, 4, 8, 12, 14]"
  by code_simp

lemmas HFSPlusAttrKey_offsets [layout] = HFSPlusAttrKey_offset_table [unfolded list.map list.inject]

lemma HFSPlusAttrData_offset_table:
  "map (offsetof HFSPlusAttrData_t)
     [''recordType'', ''reserved'', ''attrSize'', ''attrData'']
   = [0, 4, 12, 16]"
  by code_simp

lemmas HFSPlusAttrData_offsets [layout] = HFSPlusAttrData_offset_table [unfolded list.map list.inject]

lemma HFSPlusAttrForkData_offset_table:
  "map (offsetof HFSPlusAttrForkData_t)
     [''recordType'', ''reserved'', ''theFork'']
   = [0, 4, 8]"
  by code_simp

lemmas HFSPlusAttrForkData_offsets [layout] = HFSPlusAttrForkData_offset_table [unfolded list.map list.inject]

lemma HFSPlusAttrExtents_offset_table:
  "map (offsetof HFSPlusAttrExtents_t)
     [''recordType'', ''reserved'', ''extents'']
   = [0, 4, 8]"
  by code_simp

lemmas HFSPlusAttrExtents_offsets [layout] = HFSPlusAttrExtents_offset_table [unfolded list.map list.inject]

end
