(* ===== verification/Disk_Swap.thy ===== *)
theory Disk_Swap
  imports Disk_Layout
begin

text \<open>
  \<^verbatim>\<open>src/src/hfs/hfs_endian.c\<close> and the structure swaps of \<^verbatim>\<open>src/src/hfs/btree/btree_endian.c\<close>: each
  function converts one on-disk structure to host order in place, one \<open>Swap\<close> per field in the order
  of the code. The lemmas reduce each to a list of fields, and the theorems compare these lists with
  the multi-byte members that the structure declares.
\<close>

section \<open>Fields relative to a structure\<close>

definition shifted :: "nat \<Rightarrow> (nat \<times> nat) list \<Rightarrow> (nat \<times> nat) list" where
  "shifted p fs = map (\<lambda>(o', n). (p + o', n)) fs"

text \<open>The multi-byte members of a type at offset \<open>p\<close>; of a union, those of its first member.\<close>

fun scalars :: "ctype \<Rightarrow> nat \<Rightarrow> (nat \<times> nat) list"
  and scalars_fields :: "(string \<times> ctype) list \<Rightarrow> nat \<Rightarrow> (nat \<times> nat) list" where
  "scalars C8 p = []"
| "scalars C16 p = [(p, 2)]"
| "scalars C32 p = [(p, 4)]"
| "scalars C64 p = [(p, 8)]"
| "scalars (CArray n t) p = concat (map (\<lambda>i. scalars t (p + i * sizeof t)) [0..<n])"
| "scalars (CStruct fs) p = scalars_fields fs p"
| "scalars (CUnion fs) p = (case fs of [] \<Rightarrow> [] | (_, t) # _ \<Rightarrow> scalars t p)"
| "scalars_fields [] p = []"
| "scalars_fields ((_, t) # fs) p = scalars t p @ scalars_fields fs (p + sizeof t)"

lemma shifted_simps [simp]:
  "shifted p [] = []" "shifted p ((o', n) # fs) = (p + o', n) # shifted p fs"
  "shifted p (fs @ gs) = shifted p fs @ shifted p gs"
  "shifted p (shifted q fs) = shifted (p + q) fs"
  by (auto simp: shifted_def add.assoc)

lemma shifted_concat: "shifted p (concat fss) = concat (map (shifted p) fss)"
  by (induction fss) simp_all

lemma disjoint_fields_shifted [simp]: "disjoint_fields (shifted p fs) = disjoint_fields fs"
  by (induction fs) (auto simp: shifted_def list_all_iff split: prod.splits)

lemma fits_shifted:
  assumes "list_all (\<lambda>(o', n). o' + n \<le> k) fs" "fits p k m"
  shows "list_all (\<lambda>(q, n). fits q n m) (shifted p fs)"
  using assms by (fastforce simp: shifted_def fits_def list_all_iff)

text \<open>Fields in ascending order do not overlap.\<close>

fun ascending :: "(nat \<times> nat) list \<Rightarrow> bool" where
  "ascending ((p, n) # (q, k) # fs) = (p + n \<le> q \<and> ascending ((q, k) # fs))"
| "ascending _ = True"

lemma ascending_head: "ascending ((p, n) # fs) \<Longrightarrow> list_all (\<lambda>(q, k). p + n \<le> q) fs"
proof (induction fs arbitrary: p n)
  case (Cons f fs)
  obtain q k where "f = (q, k)" by force
  with Cons.prems Cons.IH [of q k] show ?case by (auto simp: list_all_iff)
qed simp

lemma ascending_tail: "ascending (f # fs) \<Longrightarrow> ascending fs"
  by (cases "f # fs" rule: ascending.cases) simp_all

lemma ascending_disjoint: "ascending fs \<Longrightarrow> disjoint_fields fs"
proof (induction fs)
  case (Cons f fs)
  obtain p n where "f = (p, n)" by force
  with Cons ascending_tail [of f fs] ascending_head [of p n fs] show ?case
    by (fastforce simp: list_all_iff)
qed simp

text \<open>
  What a conversion of a structure at \<open>p\<close> achieves for the fields \<open>fs\<close>: their bytes are reversed,
  every other byte of the buffer is kept, and a second conversion restores the buffer.
\<close>

definition converted :: "nat \<Rightarrow> (nat \<times> nat) list \<Rightarrow> buffer \<Rightarrow> buffer \<Rightarrow> bool" where
  "converted p fs m m' \<longleftrightarrow>
     length m' = length m \<and>
     list_all (\<lambda>(o', n). chunk (p + o') n m' = rev (chunk (p + o') n m)) fs \<and>
     list_all (\<lambda>i. list_ex (\<lambda>(o', n). p + o' \<le> i \<and> i < p + o' + n) fs \<or> m' ! i = m ! i)
       [0..<length m]"

lemma swaps_converts:
  assumes "list_all (\<lambda>(o', n). o' + n \<le> k) fs" "disjoint_fields fs" "fits p k m"
  shows "\<exists>m'. swaps (shifted p fs) m = Done m' \<and> converted p fs m m' \<and>
              swaps (shifted p fs) m' = Done m"
proof -
  let ?fs = "shifted p fs" and ?m = "swap_fields (shifted p fs) m"
  have fit: "list_all (\<lambda>(q, n). fits q n m) ?fs" by (rule fits_shifted [OF assms(1,3)])
  then have len: "length ?m = length m" by simp
  have disj: "disjoint_fields ?fs" using assms(2) by simp
  have mem: "(p + o', n) \<in> set ?fs" if "(o', n) \<in> set fs" for o' n
    using that by (force simp: shifted_def)
  have same: "list_all (\<lambda>(o', n). chunk (p + o') n ?m = rev (chunk (p + o') n m)) fs"
    using chunk_swap_fields_same [OF fit disj mem] by (auto simp: list_all_iff)
  have keep: "?m ! i = m ! i"
    if i: "i < length m" and out: "\<not> list_ex (\<lambda>(o', n). p + o' \<le> i \<and> i < p + o' + n) fs" for i
  proof -
    have "list_all (\<lambda>(q, n). q + n \<le> i \<or> i + 1 \<le> q) ?fs"
      using out by (auto simp: list_all_iff list_ex_iff shifted_def not_less_eq_eq)
    from chunk_swap_fields_disjoint [OF fit this] have "chunk i 1 ?m = chunk i 1 m" .
    with i len show ?thesis by (metis nth_of_chunk less_add_one order_refl)
  qed
  have "swaps ?fs m = Done ?m" "swaps ?fs ?m = Done m"
    using fit len by (simp_all add: swaps_def swap_fields_twice [OF fit disj] fits_def)
  moreover have "list_all (\<lambda>i. list_ex (\<lambda>(o', n). p + o' \<le> i \<and> i < p + o' + n) fs \<or> ?m ! i = m ! i)
      [0..<length m]"
    unfolding list_all_iff set_upt using keep by (metis (no_types, lifting) atLeastLessThan_iff)
  then have "converted p fs m ?m"
    unfolding converted_def using same len by blast
  ultimately show ?thesis by blast
qed

lemma steps_Cons_fun: "steps (f # fs) = (\<lambda>m. obind (f m) (steps fs))"
  by (simp add: fun_eq_iff)

lemma steps_merge [layout]:
  "steps (swaps fs # swaps gs # hs) = steps (swaps (fs @ gs) # hs)"
  "steps [swaps fs] = swaps fs"
  "steps [] = swaps []"
proof -
  have Done: "obind r Done = r" for r :: "'a outcome" by (cases r) simp_all
  have Nil: "steps [] = Done" by (simp add: fun_eq_iff)
  show "steps (swaps fs # swaps gs # hs) = steps (swaps (fs @ gs) # hs)"
    by (simp add: steps_Cons_fun swaps_append obind_assoc)
  show "steps [swaps fs] = swaps fs" by (simp add: steps_Cons_fun Nil Done)
  show "steps [] = swaps []" by (simp add: fun_eq_iff)
qed

lemma steps_map_swaps [layout]: "steps (map (\<lambda>x. swaps (f x)) xs) = swaps (concat (map f xs))"
  using steps_swaps [of "map f xs"] by (simp add: comp_def)

text \<open>Disjoint fields may be swapped in any order.\<close>

lemma swaps_same_fields:
  assumes "set fs = set gs" "disjoint_fields fs" "disjoint_fields gs"
  shows "swaps fs = swaps gs"
proof (rule ext)
  fix m
  have fit: "list_all (\<lambda>(q, n). fits q n m) fs = list_all (\<lambda>(q, n). fits q n m) gs"
    using assms(1) by (simp add: list_all_iff)
  have "swap_fields fs m = swap_fields gs m" if f: "list_all (\<lambda>(q, n). fits q n m) fs"
  proof (rule nth_equalityI)
    have len: "length (swap_fields fs m) = length m" "length (swap_fields gs m) = length m"
      using f fit by simp_all
    then show "length (swap_fields fs m) = length (swap_fields gs m)" by simp
    fix i assume "i < length (swap_fields fs m)"
    then have i: "i < length m" by (simp add: len)
    show "swap_fields fs m ! i = swap_fields gs m ! i"
    proof (cases "\<exists>(q, k) \<in> set fs. q \<le> i \<and> i < q + k")
      case True
      then obtain q k where qk: "(q, k) \<in> set fs" "q \<le> i" "i < q + k" by auto
      with assms f fit have "chunk q k (swap_fields fs m) = chunk q k (swap_fields gs m)"
        by (simp add: chunk_swap_fields_same)
      with qk i len show ?thesis by (metis nth_of_chunk)
    next
      case False
      then have "list_all (\<lambda>(p, n). p + n \<le> i \<or> i + 1 \<le> p) fs"
        "list_all (\<lambda>(p, n). p + n \<le> i \<or> i + 1 \<le> p) gs"
        using assms(1) by (fastforce simp: list_all_iff)+
      with f fit have "chunk i 1 (swap_fields fs m) = chunk i 1 (swap_fields gs m)"
        by (simp add: chunk_swap_fields_disjoint)
      with i len show ?thesis by (metis nth_of_chunk less_add_one order_refl)
    qed
  qed
  with fit show "swaps fs m = swaps gs m" by (simp add: swaps_def)
qed

lemma swaps_shifted_same:
  assumes "set fs = set gs" "disjoint_fields fs" "disjoint_fields gs"
  shows "swaps (shifted p fs) = swaps (shifted p gs)"
  using assms by (intro swaps_same_fields) (simp_all, simp add: shifted_def)

section \<open>Extents and forks\<close>

definition swap_HFSExtentDescriptor :: "compiler \<Rightarrow> nat \<Rightarrow> buffer \<Rightarrow> buffer outcome" where
  "swap_HFSExtentDescriptor cc p = steps
     [Swap cc 2 (fld HFSExtentDescriptor_t ''startBlock'' p),
      Swap cc 2 (fld HFSExtentDescriptor_t ''blockCount'' p)]"

text \<open>
  The parameter is a pointer to the array type \<open>HFSExtentRecord\<close>, so \<open>record[i]\<close> is the \<open>i\<close>-th
  record, three descriptors wide, and decays to the address of its first descriptor.
\<close>

definition swap_HFSExtentRecord :: "compiler \<Rightarrow> nat \<Rightarrow> buffer \<Rightarrow> buffer outcome" where
  "swap_HFSExtentRecord cc p = steps
     (map (\<lambda>i. swap_HFSExtentDescriptor cc (elem (CArray kHFSExtentDensity HFSExtentDescriptor_t) i p))
       [0..<kHFSExtentDensity])"

definition swap_HFSPlusExtentDescriptor :: "nat \<Rightarrow> buffer \<Rightarrow> buffer outcome" where
  "swap_HFSPlusExtentDescriptor p = steps
     [Swap32 (fld HFSPlusExtentDescriptor_t ''startBlock'' p),
      Swap32 (fld HFSPlusExtentDescriptor_t ''blockCount'' p)]"

definition swap_HFSPlusExtentRecord :: "nat \<Rightarrow> buffer \<Rightarrow> buffer outcome" where
  "swap_HFSPlusExtentRecord p = steps
     (map (\<lambda>i. swap_HFSPlusExtentDescriptor (elem HFSPlusExtentDescriptor_t i p))
       [0..<kHFSPlusExtentDensity])"

definition swap_HFSPlusForkData :: "nat \<Rightarrow> buffer \<Rightarrow> buffer outcome" where
  "swap_HFSPlusForkData p = steps
     [Swap64 (fld HFSPlusForkData_t ''logicalSize'' p),
      Swap32 (fld HFSPlusForkData_t ''totalBlocks'' p),
      Swap32 (fld HFSPlusForkData_t ''clumpSize'' p),
      swap_HFSPlusExtentRecord (fld HFSPlusForkData_t ''extents'' p)]"

definition swap_HFSPlusExtentKey :: "nat \<Rightarrow> buffer \<Rightarrow> buffer outcome" where
  "swap_HFSPlusExtentKey p = steps
     [Swap32 (fld HFSPlusExtentKey_t ''fileID'' p),
      Swap32 (fld HFSPlusExtentKey_t ''startBlock'' p)]"

section \<open>The volume header\<close>

definition swap_HFSPlusVolumeHeader :: "nat \<Rightarrow> buffer \<Rightarrow> buffer outcome" where
  "swap_HFSPlusVolumeHeader p =
     (let vh = (\<lambda>f. fld HFSPlusVolumeHeader_t f p);
          finderInfo = (\<lambda>f. fld HFSPlusVolumeFinderInfo_t f (vh ''finderInfo'')) in steps
     [Swap16 (vh ''signature''), Swap16 (vh ''version''), Swap32 (vh ''attributes''),
      Swap32 (vh ''lastMountedVersion''), Swap32 (vh ''journalInfoBlock''),
      Swap32 (vh ''createDate''), Swap32 (vh ''modifyDate''), Swap32 (vh ''backupDate''),
      Swap32 (vh ''checkedDate''),
      Swap32 (vh ''fileCount''), Swap32 (vh ''folderCount''),
      Swap32 (vh ''blockSize''), Swap32 (vh ''totalBlocks''), Swap32 (vh ''freeBlocks''),
      Swap32 (vh ''nextAllocation''), Swap32 (vh ''rsrcClumpSize''), Swap32 (vh ''dataClumpSize''),
      Swap32 (vh ''nextCatalogID''),
      Swap32 (vh ''writeCount''), Swap64 (vh ''encodingsBitmap''),
      Swap32 (finderInfo ''bootDirID''), Swap32 (finderInfo ''bootParentID''),
      Swap32 (finderInfo ''openWindowDirID''), Swap32 (finderInfo ''os9DirID''),
      Swap32 (finderInfo ''osXDirID''), Swap64 (finderInfo ''volID''),
      swap_HFSPlusForkData (vh ''allocationFile''),
      swap_HFSPlusForkData (vh ''extentsFile''),
      swap_HFSPlusForkData (vh ''catalogFile''),
      swap_HFSPlusForkData (vh ''attributesFile''),
      swap_HFSPlusForkData (vh ''startupFile'')])"

definition swap_JournalInfoBlock :: "nat \<Rightarrow> buffer \<Rightarrow> buffer outcome" where
  "swap_JournalInfoBlock p =
     (let jib = (\<lambda>f. fld JournalInfoBlock_t f p) in steps
     [Swap32 (jib ''flags''),
      steps (map (\<lambda>i. Swap32 (elem C32 i (jib ''device_signature''))) [0..<8]),
      Swap64 (jib ''offset''),
      Swap64 (jib ''size'')])"

section \<open>Catalog records\<close>

definition swap_HFSPlusBSDInfo :: "nat \<Rightarrow> buffer \<Rightarrow> buffer outcome" where
  "swap_HFSPlusBSDInfo p = steps
     [Swap32 (fld HFSPlusBSDInfo_t ''ownerID'' p),
      Swap32 (fld HFSPlusBSDInfo_t ''groupID'' p),
      Swap16 (fld HFSPlusBSDInfo_t ''fileMode'' p),
      Swap32 (fld HFSPlusBSDInfo_t ''special'' p)]"

definition swap_FndrDirInfo :: "nat \<Rightarrow> buffer \<Rightarrow> buffer outcome" where
  "swap_FndrDirInfo p =
     (let info = (\<lambda>f. fld FndrDirInfo_t f p);
          frRect = elem C16 0 (info ''frRect''); frLocation = elem C16 0 (info ''frLocation'') in steps
     [Swap16 (elem C16 0 frRect), Swap16 (elem C16 1 frRect),
      Swap16 (elem C16 2 frRect), Swap16 (elem C16 3 frRect),
      Swap16 (elem C16 0 frLocation), Swap16 (elem C16 1 frLocation),
      Swap16 (info ''opaque'')])"

definition swap_FndrFileInfo :: "nat \<Rightarrow> buffer \<Rightarrow> buffer outcome" where
  "swap_FndrFileInfo p =
     (let info = (\<lambda>f. fld FndrFileInfo_t f p); fdLocation = info ''fdLocation'' in steps
     [Swap32 (info ''fdType''), Swap32 (info ''fdCreator''), Swap16 (info ''fdFlags''),
      Swap16 (elem C16 0 fdLocation), Swap16 (elem C16 1 fdLocation),
      Swap16 (info ''opaque'')])"

definition swap_FndrOpaqueInfo :: "nat \<Rightarrow> buffer \<Rightarrow> buffer outcome" where
  "swap_FndrOpaqueInfo p m = Done m"

definition swap_HFSPlusCatalogFile :: "nat \<Rightarrow> buffer \<Rightarrow> buffer outcome" where
  "swap_HFSPlusCatalogFile p =
     (let rec = (\<lambda>f. fld HFSPlusCatalogFile_t f p) in steps
     [Swap16 (rec ''flags''), Swap32 (rec ''reserved1''), Swap32 (rec ''fileID''),
      Swap32 (rec ''createDate''), Swap32 (rec ''contentModDate''),
      Swap32 (rec ''attributeModDate''), Swap32 (rec ''accessDate''), Swap32 (rec ''backupDate''),
      swap_HFSPlusBSDInfo (rec ''bsdInfo''),
      swap_FndrFileInfo (rec ''userInfo''),
      swap_FndrOpaqueInfo (rec ''finderInfo''),
      Swap32 (rec ''textEncoding''), Swap32 (rec ''reserved2''),
      swap_HFSPlusForkData (rec ''dataFork''),
      swap_HFSPlusForkData (rec ''resourceFork'')])"

definition swap_HFSPlusCatalogFolder :: "nat \<Rightarrow> buffer \<Rightarrow> buffer outcome" where
  "swap_HFSPlusCatalogFolder p =
     (let rec = (\<lambda>f. fld HFSPlusCatalogFolder_t f p) in steps
     [Swap16 (rec ''flags''), Swap32 (rec ''valence''), Swap32 (rec ''folderID''),
      Swap32 (rec ''createDate''), Swap32 (rec ''contentModDate''),
      Swap32 (rec ''attributeModDate''), Swap32 (rec ''accessDate''), Swap32 (rec ''backupDate''),
      swap_HFSPlusBSDInfo (rec ''bsdInfo''),
      swap_FndrDirInfo (rec ''userInfo''),
      swap_FndrOpaqueInfo (rec ''finderInfo''),
      Swap32 (rec ''textEncoding''), Swap32 (rec ''folderCount'')])"

text \<open>
  The length is converted first and then bounds the loop over the characters: at most 256 of them,
  one more than the array has (a longer length is only warned about).
\<close>

definition swap_HFSUniStr255 :: "nat \<Rightarrow> buffer \<Rightarrow> buffer outcome" where
  "swap_HFSUniStr255 p m =
     obind (Swap16 (fld HFSUniStr255_t ''length'' p) m) (\<lambda>m.
     obind (load m (fld HFSUniStr255_t ''length'' p)) (\<lambda>len :: u16.
       steps (map (\<lambda>i. Swap16 (elem C16 i (fld HFSUniStr255_t ''unicode'' p)))
               [0..<min 256 (unat len)]) m))"

definition swap_HFSPlusCatalogKey :: "nat \<Rightarrow> buffer \<Rightarrow> buffer outcome" where
  "swap_HFSPlusCatalogKey p = steps
     [Swap32 (fld HFSPlusCatalogKey_t ''parentID'' p),
      swap_HFSUniStr255 (fld HFSPlusCatalogKey_t ''nodeName'' p)]"

text \<open>
  \<open>reserved\<close> is an \<open>int16_t\<close>: \<open>Swap32\<close> widens it with its sign, reverses four bytes and keeps the low
  half of the result.
\<close>

definition Swap32_int16 :: "nat \<Rightarrow> buffer \<Rightarrow> buffer outcome" where
  "Swap32_int16 p m =
     obind (load m p) (\<lambda>x :: u16. Done (wr p (ucast (be32toh (scast x)) :: u16) m))"

definition swap_HFSPlusCatalogThread :: "nat \<Rightarrow> buffer \<Rightarrow> buffer outcome" where
  "swap_HFSPlusCatalogThread p = steps
     [Swap32_int16 (fld HFSPlusCatalogThread_t ''reserved'' p),
      Swap32 (fld HFSPlusCatalogThread_t ''parentID'' p),
      swap_HFSUniStr255 (fld HFSPlusCatalogThread_t ''nodeName'' p)]"

definition swap_HFSPlusCatalogRecord :: "nat \<Rightarrow> buffer \<Rightarrow> buffer outcome" where
  "swap_HFSPlusCatalogRecord p m =
     obind (Swap16 (fld HFSPlusCatalogRecord_t ''record_type'' p) m) (\<lambda>m.
     obind (load m (fld HFSPlusCatalogRecord_t ''record_type'' p)) (\<lambda>record_type.
       if record_type = kHFSPlusFileRecord then swap_HFSPlusCatalogFile p m
       else if record_type = kHFSPlusFolderRecord then swap_HFSPlusCatalogFolder p m
       else if record_type = kHFSPlusFileThreadRecord \<or> record_type = kHFSPlusFolderThreadRecord
       then swap_HFSPlusCatalogThread p m
       else Done m))"

section \<open>Attribute records\<close>

text \<open>The loop reads \<open>attrNameLen\<close> again in every round; the characters it writes lie behind it.\<close>

definition swap_HFSPlusAttrKey :: "nat \<Rightarrow> buffer \<Rightarrow> buffer outcome" where
  "swap_HFSPlusAttrKey p m =
     obind (steps
       [Swap16 (fld HFSPlusAttrKey_t ''pad'' p),
        Swap32 (fld HFSPlusAttrKey_t ''fileID'' p),
        Swap32 (fld HFSPlusAttrKey_t ''startBlock'' p),
        Swap16 (fld HFSPlusAttrKey_t ''attrNameLen'' p)] m) (\<lambda>m.
     obind (load m (fld HFSPlusAttrKey_t ''attrNameLen'' p)) (\<lambda>len :: u16.
       steps (map (\<lambda>i. Swap16 (elem C16 i (fld HFSPlusAttrKey_t ''attrName'' p)))
               [0..<unat len]) m))"

definition swap_HFSPlusAttrData :: "nat \<Rightarrow> buffer \<Rightarrow> buffer outcome" where
  "swap_HFSPlusAttrData p = Swap32 (fld HFSPlusAttrData_t ''attrSize'' p)"

definition swap_HFSPlusAttrForkData :: "nat \<Rightarrow> buffer \<Rightarrow> buffer outcome" where
  "swap_HFSPlusAttrForkData p = swap_HFSPlusForkData (fld HFSPlusAttrForkData_t ''theFork'' p)"

definition swap_HFSPlusAttrExtents :: "nat \<Rightarrow> buffer \<Rightarrow> buffer outcome" where
  "swap_HFSPlusAttrExtents p = swap_HFSPlusExtentRecord (fld HFSPlusAttrExtents_t ''extents'' p)"

definition swap_HFSPlusAttrRecord :: "nat \<Rightarrow> buffer \<Rightarrow> buffer outcome" where
  "swap_HFSPlusAttrRecord p m =
     obind (Swap32 (fld HFSPlusAttrRecord_t ''recordType'' p) m) (\<lambda>m.
     obind (load m (fld HFSPlusAttrRecord_t ''recordType'' p)) (\<lambda>recordType.
       if recordType = kHFSPlusAttrInlineData then swap_HFSPlusAttrData p m
       else if recordType = kHFSPlusAttrForkData then swap_HFSPlusAttrForkData p m
       else if recordType = kHFSPlusAttrExtents then swap_HFSPlusAttrExtents p m
       else Critical))"

section \<open>The master directory block\<close>

definition swap_HFSMasterDirectoryBlock :: "compiler \<Rightarrow> nat \<Rightarrow> buffer \<Rightarrow> buffer outcome" where
  "swap_HFSMasterDirectoryBlock cc p =
     (let mdb = (\<lambda>f. fld HFSMasterDirectoryBlock_t f p) in steps
     [Swap cc 2 (mdb ''drSigWord''), Swap cc 4 (mdb ''drCrDate''), Swap cc 4 (mdb ''drLsMod''),
      Swap cc 2 (mdb ''drAtrb''), Swap cc 2 (mdb ''drNmFls''), Swap cc 2 (mdb ''drVBMSt''),
      Swap cc 2 (mdb ''drAllocPtr''), Swap cc 2 (mdb ''drNmAlBlks''), Swap cc 4 (mdb ''drAlBlkSiz''),
      Swap cc 4 (mdb ''drClpSiz''), Swap cc 2 (mdb ''drAlBlSt''), Swap cc 4 (mdb ''drNxtCNID''),
      Swap cc 2 (mdb ''drFreeBks''),
      Swap cc 4 (mdb ''drVolBkUp''), Swap cc 2 (mdb ''drVSeqNum''), Swap cc 4 (mdb ''drWrCnt''),
      Swap cc 4 (mdb ''drXTClpSiz''), Swap cc 4 (mdb ''drCTClpSiz''), Swap cc 2 (mdb ''drNmRtDirs''),
      Swap cc 4 (mdb ''drFilCnt''), Swap cc 4 (mdb ''drDirCnt''),
      Swap cc 2 (mdb ''drEmbedSigWord''),
      swap_HFSExtentDescriptor cc (mdb ''drEmbedExtent''),
      Swap cc 4 (mdb ''drXTFlSize''),
      swap_HFSExtentRecord cc (mdb ''drXTExtRec''),
      Swap cc 4 (mdb ''drCTFlSize''),
      swap_HFSExtentRecord cc (mdb ''drCTExtRec'')])"

section \<open>B-tree structures\<close>

text \<open>The range checks of \<open>swap_BTNodeDescriptor\<close> only warn.\<close>

definition swap_BTNodeDescriptor :: "nat \<Rightarrow> buffer \<Rightarrow> buffer outcome" where
  "swap_BTNodeDescriptor p = steps
     [Swap32 (fld BTNodeDescriptor_t ''fLink'' p),
      Swap32 (fld BTNodeDescriptor_t ''bLink'' p),
      Swap16 (fld BTNodeDescriptor_t ''numRecords'' p)]"

definition swap_BTHeaderRec :: "nat \<Rightarrow> buffer \<Rightarrow> buffer outcome" where
  "swap_BTHeaderRec p =
     (let hdr = (\<lambda>f. fld BTHeaderRec_t f p) in steps
     [Swap16 (hdr ''treeDepth''), Swap32 (hdr ''rootNode''), Swap32 (hdr ''leafRecords''),
      Swap32 (hdr ''firstLeafNode''), Swap32 (hdr ''lastLeafNode''), Swap16 (hdr ''nodeSize''),
      Swap16 (hdr ''maxKeyLength''), Swap32 (hdr ''totalNodes''), Swap32 (hdr ''freeNodes''),
      Swap32 (hdr ''clumpSize''),
      Swap32 (hdr ''attributes'')])"

section \<open>The fields that each conversion swaps\<close>

lemmas swap_rules = Let_def Swap_as_swaps steps_merge steps_map_swaps fld_def elem_def

lemma concat_map_singleton: "concat (map (\<lambda>x. [f x]) xs) = map f xs"
  by (induction xs) simp_all

lemma swap_HFSPlusExtentRecord_fields:
  "swap_HFSPlusExtentRecord p =
     swaps (shifted p (scalars (CArray kHFSPlusExtentDensity HFSPlusExtentDescriptor_t) 0))"
  by (simp add: swap_HFSPlusExtentRecord_def swap_HFSPlusExtentDescriptor_def swap_rules struct_defs
        upt_8 ac_simps)

lemma scalars_HFSPlusForkData:
  "scalars HFSPlusForkData_t 0 =
     [(0, 8), (8, 4), (12, 4)] @ concat (map (\<lambda>i. [(16 + 8 * i, 4), (20 + 8 * i, 4)]) [0..<8])"
  by code_simp

lemma swap_HFSPlusForkData_fields [layout]:
  "swap_HFSPlusForkData p = swaps (shifted p (scalars HFSPlusForkData_t 0))"
proof -
  have "swap_HFSPlusForkData p =
    swaps (shifted p ([(0, 8), (12, 4), (8, 4)] @
      shifted 16 (scalars (CArray kHFSPlusExtentDensity HFSPlusExtentDescriptor_t) 0)))"
    by (simp add: swap_HFSPlusForkData_def swap_HFSPlusExtentRecord_fields swap_rules
          HFSPlusForkData_offsets)
  also have "\<dots> = swaps (shifted p (scalars HFSPlusForkData_t 0))"
    by (rule swaps_shifted_same; code_simp)
  finally show ?thesis .
qed

lemma scalars_HFSPlusVolumeHeader:
  "scalars HFSPlusVolumeHeader_t 0 =
     [(0, 2), (2, 2), (4, 4), (8, 4), (12, 4), (16, 4), (20, 4), (24, 4), (28, 4), (32, 4), (36, 4),
      (40, 4), (44, 4), (48, 4), (52, 4), (56, 4), (60, 4), (64, 4), (68, 4), (72, 8)] @
     concat (map (\<lambda>f. shifted (offsetof HFSPlusVolumeHeader_t f) (scalars HFSPlusForkData_t 0))
       [''allocationFile'', ''extentsFile'', ''catalogFile'', ''attributesFile'', ''startupFile''])"
  by code_simp

definition volume_header_fields :: "(nat \<times> nat) list" where
  "volume_header_fields =
     take 20 (scalars HFSPlusVolumeHeader_t 0) @
     filter (\<lambda>(p, n). p \<noteq> 80 + offsetof HFSPlusVolumeFinderInfo_t ''reserved'')
       (scalars HFSPlusVolumeFinderInfo_t 80) @
     drop 20 (scalars HFSPlusVolumeHeader_t 0)"

lemma swap_HFSPlusVolumeHeader_fields:
  "swap_HFSPlusVolumeHeader p = swaps (shifted p volume_header_fields)"
proof -
  have "filter (\<lambda>(p, n). p \<noteq> 80 + offsetof HFSPlusVolumeFinderInfo_t ''reserved'')
          (scalars HFSPlusVolumeFinderInfo_t 80) =
        [(80, 4), (84, 4), (88, 4), (92, 4), (100, 4), (104, 8)]"
    by code_simp
  then show ?thesis
    by (simp add: volume_header_fields_def scalars_HFSPlusVolumeHeader swap_HFSPlusVolumeHeader_def
          swap_HFSPlusForkData_fields swap_rules HFSPlusVolumeHeader_offsets
          HFSPlusVolumeFinderInfo_offsets ac_simps)
qed

lemma swap_HFSPlusBSDInfo_fields [layout]:
  "swap_HFSPlusBSDInfo p = swaps (shifted p (scalars HFSPlusBSDInfo_t 0))"
  by (simp add: swap_HFSPlusBSDInfo_def swap_rules HFSPlusBSDInfo_offsets HFSPlusBSDInfo_t_def)

lemma swap_FndrFileInfo_fields [layout]:
  "swap_FndrFileInfo p = swaps (shifted p (scalars FndrFileInfo_t 0))"
  by (simp add: swap_FndrFileInfo_def swap_rules FndrFileInfo_offsets FndrFileInfo_t_def
        ac_simps)

lemma swap_FndrDirInfo_fields [layout]:
  "swap_FndrDirInfo p =
     swaps (shifted p (filter (\<lambda>(q, n). q \<noteq> offsetof FndrDirInfo_t ''frFlags'')
       (scalars FndrDirInfo_t 0)))"
proof -
  have "filter (\<lambda>(q, n). q \<noteq> offsetof FndrDirInfo_t ''frFlags'') (scalars FndrDirInfo_t 0) =
        [(0, 2), (2, 2), (4, 2), (6, 2), (10, 2), (12, 2), (14, 2)]"
    by code_simp
  then show ?thesis by (simp add: swap_FndrDirInfo_def swap_rules FndrDirInfo_offsets ac_simps)
qed

lemma swap_FndrOpaqueInfo_fields [layout]: "swap_FndrOpaqueInfo p = swaps []"
  by (simp add: fun_eq_iff swap_FndrOpaqueInfo_def)

lemma scalars_HFSPlusCatalogFile:
  "tl (scalars HFSPlusCatalogFile_t 0) =
     [(2, 2), (4, 4), (8, 4), (12, 4), (16, 4), (20, 4), (24, 4), (28, 4)] @
     shifted 32 (scalars HFSPlusBSDInfo_t 0) @ shifted 48 (scalars FndrFileInfo_t 0) @
     [(80, 4), (84, 4)] @
     shifted 88 (scalars HFSPlusForkData_t 0) @ shifted 168 (scalars HFSPlusForkData_t 0)"
  by code_simp

lemma swap_HFSPlusCatalogFile_fields:
  "swap_HFSPlusCatalogFile p = swaps (shifted p (tl (scalars HFSPlusCatalogFile_t 0)))"
  by (simp add: scalars_HFSPlusCatalogFile swap_HFSPlusCatalogFile_def swap_rules
        swap_HFSPlusBSDInfo_fields swap_FndrFileInfo_fields swap_FndrOpaqueInfo_fields
        swap_HFSPlusForkData_fields HFSPlusCatalogFile_offsets)

lemma scalars_HFSPlusCatalogFolder:
  "filter (\<lambda>(q, n). q \<noteq> 48 + offsetof FndrDirInfo_t ''frFlags'')
     (tl (scalars HFSPlusCatalogFolder_t 0)) =
     [(2, 2), (4, 4), (8, 4), (12, 4), (16, 4), (20, 4), (24, 4), (28, 4)] @
     shifted 32 (scalars HFSPlusBSDInfo_t 0) @
     shifted 48 (filter (\<lambda>(q, n). q \<noteq> offsetof FndrDirInfo_t ''frFlags'') (scalars FndrDirInfo_t 0)) @
     [(80, 4), (84, 4)]"
  by code_simp

lemma swap_HFSPlusCatalogFolder_fields:
  "swap_HFSPlusCatalogFolder p =
     swaps (shifted p (filter (\<lambda>(q, n). q \<noteq> 48 + offsetof FndrDirInfo_t ''frFlags'')
       (tl (scalars HFSPlusCatalogFolder_t 0))))"
  by (simp only: scalars_HFSPlusCatalogFolder)
     (simp add: swap_HFSPlusCatalogFolder_def swap_rules
        swap_HFSPlusBSDInfo_fields swap_FndrDirInfo_fields swap_FndrOpaqueInfo_fields
        HFSPlusCatalogFolder_offsets)

lemma swap_BTNodeDescriptor_fields:
  "swap_BTNodeDescriptor p = swaps (shifted p [(0, 4), (4, 4), (10, 2)])"
  by (simp add: swap_BTNodeDescriptor_def swap_rules BTNodeDescriptor_offsets)

lemma swap_BTHeaderRec_fields:
  "swap_BTHeaderRec p =
     swaps (shifted p
       [(0, 2), (2, 4), (6, 4), (10, 4), (14, 4), (18, 2), (20, 2), (22, 4), (26, 4), (32, 4), (38, 4)])"
  by (simp add: swap_BTHeaderRec_def swap_rules BTHeaderRec_offsets)

lemma scalars_JournalInfoBlock:
  "scalars JournalInfoBlock_t 0 =
     [(0, 4), (4, 4), (8, 4), (12, 4), (16, 4), (20, 4), (24, 4), (28, 4), (32, 4), (36, 8), (44, 8)]"
proof -
  have "concat (map (\<lambda>x. []) xs) = []" for xs :: "nat list" by (induction xs) simp_all
  then show ?thesis by (simp add: JournalInfoBlock_t_def upt_8 del: upt_rec_numeral)
qed

lemma swap_JournalInfoBlock_fields:
  "swap_JournalInfoBlock p = swaps (shifted p (scalars JournalInfoBlock_t 0))"
  unfolding scalars_JournalInfoBlock swap_JournalInfoBlock_def Let_def Swap_as_swaps upt_8 list.map
    steps_merge append.simps fld_def elem_def
  by (simp only: JournalInfoBlock_offsets) (simp add: add.commute)

text \<open>Characters of a name: the list of fields depends on the length stored before them.\<close>

definition name_fields :: "nat \<Rightarrow> nat \<Rightarrow> (nat \<times> nat) list" where
  "name_fields q n = map (\<lambda>i. (q + 2 * i, 2)) [0..<n]"

lemma disjoint_name_fields [simp]: "disjoint_fields (name_fields q n)"
proof -
  have "disjoint_fields (map (\<lambda>i. (q + 2 * i, 2)) xs)" if "sorted_wrt (<) xs" for xs :: "nat list"
    using that by (induction xs) (auto simp: list_all_iff)
  then show ?thesis by (simp add: name_fields_def)
qed

lemma concat_name_fields:
  "concat (map (\<lambda>i. [(q + i * 2, 2)]) [0..<n]) = name_fields q n"
  "map (\<lambda>i. (Suc (Suc (q + i * 2)), 2)) [0..<n] = name_fields (Suc (Suc q)) n"
  by (simp_all add: name_fields_def mult.commute)

lemma load_after_swaps:
  assumes "fits q (width TYPE('a)) m" "swaps fs m = Done m'"
  shows "load m' q = Done (rd m' q :: 'a::len word)"
proof -
  have "length m' = length m" using assms(2) by (auto simp: swaps_def split: if_splits)
  with assms(1) show ?thesis by (simp add: load_def fits_def)
qed

lemma swap_HFSUniStr255_fields:
  assumes "fits p 2 m"
  shows "swap_HFSUniStr255 p m =
    swaps ((p, 2) # name_fields (p + 2) (min 256 (unat (be_at m p :: u16)))) m"
proof -
  have "rd (rev_at p 2 m) p = (be_at m p :: u16)"
    using assms rd_rev_at_same [where 'a = 16] by (simp add: fits_def)
  with assms show ?thesis
    by (simp add: swap_HFSUniStr255_def swap_rules HFSUniStr255_offsets swaps_Cons load_def fits_def
          concat_name_fields)
qed

lemma volume_header_fields_ok:
  "list_all (\<lambda>(o', n). o' + n \<le> sizeof HFSPlusVolumeHeader_t) volume_header_fields"
  "ascending volume_header_fields"
  by code_simp+

lemma swap_HFSPlusVolumeHeader_converts:
  assumes "fits p (sizeof HFSPlusVolumeHeader_t) m"
  shows "\<exists>m'. swap_HFSPlusVolumeHeader p m = Done m' \<and> converted p volume_header_fields m m' \<and>
              swap_HFSPlusVolumeHeader p m' = Done m"
  using swaps_converts [OF volume_header_fields_ok(1) ascending_disjoint [OF volume_header_fields_ok(2)] assms]
  by (simp only: swap_HFSPlusVolumeHeader_fields)

section \<open>Correctness\<close>

text \<open>
  C37. Converting a volume header of 512 bytes: the call returns, every multi-byte member of the
  header, of its Finder information (the reserved word apart) and of its five forks holds the
  big-endian value of the bytes that were there, no other byte of memory changes, and converting
  again restores the original.
\<close>

theorem swap_volume_header_correct:
  assumes "fits p (sizeof HFSPlusVolumeHeader_t) m"
  shows "\<exists>m'. swap_HFSPlusVolumeHeader p m = Done m' \<and> converted p volume_header_fields m m' \<and>
              swap_HFSPlusVolumeHeader p m' = Done m"
  using assms by (rule swap_HFSPlusVolumeHeader_converts)

lemma swap_volume_header_correct_witness:
  "\<exists>m'. swap_HFSPlusVolumeHeader 0 (replicate 512 7) = Done m' \<and>
     swap_HFSPlusVolumeHeader 0 m' = Done (replicate 512 7)"
proof -
  have "sizeof HFSPlusVolumeHeader_t = 512" by code_simp
  then have "fits 0 (sizeof HFSPlusVolumeHeader_t) (replicate 512 7)" by (simp add: fits_def)
  from swap_volume_header_correct [OF this] show ?thesis by blast
qed

text \<open>The record type decides how a catalog record is converted.\<close>

lemma rd_after_swap16:
  "fits p 2 m \<Longrightarrow> (rd (rev_at p 2 m) p :: u16) = be_at m p"
  using rd_rev_at_same [where 'a = 16] by (simp add: fits_def)

lemma record_type_load:
  assumes "fits p 2 m"
  shows "obind (Swap16 (fld HFSPlusCatalogRecord_t ''record_type'' p) m) (\<lambda>m.
     obind (load m (fld HFSPlusCatalogRecord_t ''record_type'' p)) (f m)) = f (rev_at p 2 m) (be_at m p :: u16)"
proof -
  have "offsetof HFSPlusCatalogRecord_t ''record_type'' = 0" by code_simp
  with assms show ?thesis
    by (simp add: fld_def Swap16_eq load_def rd_after_swap16) (simp add: fits_def)
qed

definition catalog_record_fields :: "u16 \<Rightarrow> (nat \<times> nat) list" where
  "catalog_record_fields record_type =
     (if record_type = kHFSPlusFileRecord then (0, 2) # tl (scalars HFSPlusCatalogFile_t 0)
      else if record_type = kHFSPlusFolderRecord
      then (0, 2) # filter (\<lambda>(q, n). q \<noteq> 48 + offsetof FndrDirInfo_t ''frFlags'')
             (tl (scalars HFSPlusCatalogFolder_t 0))
      else [(0, 2)])"

lemma swap_HFSPlusCatalogRecord_fields:
  assumes "fits p 2 m"
    and "be_at m p \<notin> {kHFSPlusFileThreadRecord, kHFSPlusFolderThreadRecord}"
  shows "swap_HFSPlusCatalogRecord p m = swaps (shifted p (catalog_record_fields (be_at m p))) m"
proof -
  let ?type = "be_at m p :: u16"
  have "swap_HFSPlusCatalogRecord p m =
    (if ?type = kHFSPlusFileRecord then swap_HFSPlusCatalogFile p (rev_at p 2 m)
     else if ?type = kHFSPlusFolderRecord then swap_HFSPlusCatalogFolder p (rev_at p 2 m)
     else Done (rev_at p 2 m))"
    unfolding swap_HFSPlusCatalogRecord_def using assms by (simp only: record_type_load) auto
  with assms(1) show ?thesis
    by (simp add: catalog_record_fields_def swap_HFSPlusCatalogFile_fields
          swap_HFSPlusCatalogFolder_fields swaps_Cons)
qed

text \<open>
  A catalog record whose big-endian type is not a thread's is converted completely: in a buffer
  of the size of a file record, every multi-byte member of the file record (or of the folder record,
  its undocumented Finder flags apart) is reversed, the rest of memory is kept, and the type alone is
  converted when it is unknown.
\<close>

lemma swap_catalog_record_correct:
  assumes "fits p (sizeof HFSPlusCatalogFile_t) m"
    and "be_at m p \<noteq> kHFSPlusFileThreadRecord" "be_at m p \<noteq> kHFSPlusFolderThreadRecord"
  shows "\<exists>m'. swap_HFSPlusCatalogRecord p m = Done m' \<and>
              converted p (catalog_record_fields (be_at m p)) m m'"
proof -
  have all: "list_all (\<lambda>(o', n). o' + n \<le> sizeof HFSPlusCatalogFile_t) (catalog_record_fields t)"
    "ascending (catalog_record_fields t)" for t
  proof -
    have "t = kHFSPlusFileRecord \<or> t = kHFSPlusFolderRecord \<or> catalog_record_fields t = [(0, 2)]"
      by (simp add: catalog_record_fields_def)
    moreover have "list_all (\<lambda>(o', n). o' + n \<le> sizeof HFSPlusCatalogFile_t) [(0, 2)]"
      "ascending [(0, 2)]"
      "list_all (\<lambda>(o', n). o' + n \<le> sizeof HFSPlusCatalogFile_t) (catalog_record_fields kHFSPlusFileRecord)"
      "ascending (catalog_record_fields kHFSPlusFileRecord)"
      "list_all (\<lambda>(o', n). o' + n \<le> sizeof HFSPlusCatalogFile_t) (catalog_record_fields kHFSPlusFolderRecord)"
      "ascending (catalog_record_fields kHFSPlusFolderRecord)"
      by code_simp+
    ultimately show "list_all (\<lambda>(o', n). o' + n \<le> sizeof HFSPlusCatalogFile_t) (catalog_record_fields t)"
      "ascending (catalog_record_fields t)" by auto
  qed
  have "sizeof HFSPlusCatalogFile_t = 248" by code_simp
  with assms(1) have fit: "fits p 2 m" by (simp add: fits_def)
  from swaps_converts [OF all(1) ascending_disjoint [OF all(2)] assms(1), of "be_at m p"] assms(2,3)
  show ?thesis by (auto simp: swap_HFSPlusCatalogRecord_fields [OF fit])
qed

lemma swap_catalog_record_correct_witness:
  "\<exists>m'. swap_HFSPlusCatalogRecord 0 (replicate 248 0) = Done m' \<and> length m' = 248"
proof -
  have "sizeof HFSPlusCatalogFile_t = 248" by code_simp
  then have "fits 0 (sizeof HFSPlusCatalogFile_t) (replicate 248 0)" by (simp add: fits_def)
  moreover have z: "(be_at (replicate 248 0) 0 :: u16) = 0" by (simp add: be_at_def chunk_def numeral_2_eq_2)
  ultimately show ?thesis
    using swap_catalog_record_correct [of 0 "replicate 248 0"] by (fastforce simp: z converted_def)
qed

section \<open>Bounds\<close>

lemma returns_swaps: "returns (swaps fs m) \<longleftrightarrow> list_all (\<lambda>(p, n). fits p n m) fs"
  by (simp add: swaps_def)

text \<open>
  How far the conversion of a name reaches: past its length field it touches two bytes for each
  of the first 256 characters that the stored length announces, so a name whose length field is 256
  or more makes it read and write the two bytes behind the 255 characters of the structure.
\<close>

lemma swap_name_bounds:
  assumes "fits p 2 m"
  shows "returns (swap_HFSUniStr255 p m) \<longleftrightarrow> fits p (2 + 2 * min 256 (unat (be_at m p :: u16))) m"
proof -
  let ?n = "min 256 (unat (be_at m p :: u16))"
  have "list_all (\<lambda>(q, n). fits q n m) (name_fields (p + 2) n) \<longleftrightarrow> fits p (2 + 2 * n) m" for n
  proof
    show "list_all (\<lambda>(q, n). fits q n m) (name_fields (p + 2) n) \<Longrightarrow> fits p (2 + 2 * n) m"
      using assms by (cases n) (auto simp: list_all_iff name_fields_def fits_def)
    show "fits p (2 + 2 * n) m \<Longrightarrow> list_all (\<lambda>(q, n). fits q n m) (name_fields (p + 2) n)"
      by (auto simp: list_all_iff name_fields_def fits_def)
  qed
  with assms show ?thesis by (simp add: swap_HFSUniStr255_fields returns_swaps)
qed

lemma swap_name_bounds_witness: "returns (swap_HFSUniStr255 0 [0, 1, 0, 65])"
proof -
  have "fits 0 2 [0, 1, 0, 65 :: u8]" by (simp add: fits_def)
  moreover have "(be_at [0, 1, 0, 65] 0 :: u16) = 1" by (simp add: be_at_def chunk_def)
  moreover have "fits 0 (2 + 2 * min 256 (unat (1 :: u16))) [0, 1, 0, 65 :: u8]" by (simp add: fits_def)
  ultimately show ?thesis using swap_name_bounds [of 0 "[0, 1, 0, 65]"] by simp
qed

text \<open>The type-generic \<open>Swap\<close>, as the master directory block uses it.\<close>

lemma Swap_Clang: "Swap Clang 2 p = Swap16 p" "Swap Clang 4 p = Swap32 p"
  by (simp_all add: fun_eq_iff Swap_def)

lemma Swap_Other: "Swap Other_Compiler 2 p = swaps []" "Swap Other_Compiler 4 p = swaps []"
  by (simp_all add: fun_eq_iff Swap_def)

lemma swap_HFSExtentDescriptor_fields:
  "swap_HFSExtentDescriptor Clang p = swaps [(p, 2), (p + 2, 2)]"
  "swap_HFSExtentDescriptor Other_Compiler p = swaps []"
  by (simp_all add: swap_HFSExtentDescriptor_def Swap_Clang Swap_Other swap_rules
        HFSExtentDescriptor_offsets)

lemma swap_HFSExtentRecord_fields:
  "swap_HFSExtentRecord Clang p =
     swaps [(p, 2), (p + 2, 2), (p + 12, 2), (p + 14, 2), (p + 24, 2), (p + 26, 2)]"
  "swap_HFSExtentRecord Other_Compiler p = swaps []"
proof -
  have s: "sizeof HFSExtentDescriptor_t = 4" by code_simp
  have "[0..<3::nat] = [0, 1, 2]" by (simp add: upt_rec)
  then show "swap_HFSExtentRecord Clang p =
       swaps [(p, 2), (p + 2, 2), (p + 12, 2), (p + 14, 2), (p + 24, 2), (p + 26, 2)]"
    "swap_HFSExtentRecord Other_Compiler p = swaps []"
    by (simp_all add: swap_HFSExtentRecord_def elem_def s swap_HFSExtentDescriptor_fields steps_merge
          add.commute)
qed

definition mdb_fields :: "(nat \<times> nat) list" where
  "mdb_fields =
     [(0, 2), (2, 4), (6, 4), (10, 2), (12, 2), (14, 2), (16, 2), (18, 2), (20, 4), (24, 4), (28, 2),
      (30, 4), (34, 2), (64, 4), (68, 2), (70, 4), (74, 4), (78, 4), (82, 2), (84, 4), (88, 4),
      (124, 2), (126, 2), (128, 2), (130, 4),
      (134, 2), (136, 2), (146, 2), (148, 2), (158, 2), (160, 2),
      (146, 4),
      (150, 2), (152, 2), (162, 2), (164, 2), (174, 2), (176, 2)]"

lemma swap_HFSMasterDirectoryBlock_fields:
  "swap_HFSMasterDirectoryBlock Clang p = swaps (shifted p mdb_fields)"
  "swap_HFSMasterDirectoryBlock Other_Compiler p = swaps []"
  by (simp_all add: swap_HFSMasterDirectoryBlock_def mdb_fields_def Swap_Clang Swap_Other swap_rules
        swap_HFSExtentDescriptor_fields swap_HFSExtentRecord_fields HFSMasterDirectoryBlock_offsets add.commute)

text \<open>
  The conversion of a master directory block steps through each of its two extent records in
  strides of a whole record: built with Clang it returns only if sixteen more bytes follow the 162
  of the structure, the second and third extent of the extents file then keep their disk order and
  the size of the catalog file is reversed both as two halves and as a whole. With any other compiler
  the type-generic \<open>Swap\<close> converts nothing at all.
\<close>

lemma swap_master_directory_block_bounds:
  "(returns (swap_HFSMasterDirectoryBlock Clang p m) \<longleftrightarrow>
      fits p (sizeof HFSMasterDirectoryBlock_t + 16) m) \<and>
   (case swap_HFSMasterDirectoryBlock Clang p m of
      Done m' \<Rightarrow>
        chunk (p + 138) 8 m' = chunk (p + 138) 8 m \<and>
        chunk (p + 146) 4 m' = chunk (p + 148) 2 m @ chunk (p + 146) 2 m
    | _ \<Rightarrow> True) \<and>
   swap_HFSMasterDirectoryBlock Other_Compiler p m = Done m"
proof (intro conjI)
  have "sizeof HFSMasterDirectoryBlock_t = 162" by code_simp
  then show ret: "returns (swap_HFSMasterDirectoryBlock Clang p m) \<longleftrightarrow>
     fits p (sizeof HFSMasterDirectoryBlock_t + 16) m"
    by (auto simp: swap_HFSMasterDirectoryBlock_fields returns_swaps mdb_fields_def fits_def)
  show "swap_HFSMasterDirectoryBlock Other_Compiler p m = Done m"
    by (simp add: swap_HFSMasterDirectoryBlock_fields)
  have "chunk (p + 138) 8 m' = chunk (p + 138) 8 m \<and>
        chunk (p + 146) 4 m' = chunk (p + 148) 2 m @ chunk (p + 146) 2 m"
    if "swap_HFSMasterDirectoryBlock Clang p m = Done m'" for m'
  proof -
    let ?pre = "shifted p (take 27 mdb_fields)" and ?post = "shifted p (drop 32 mdb_fields)"
    let ?mid = "shifted p [(146, 2), (148, 2), (158, 2), (160, 2), (146, 4)]"
    have split: "shifted p mdb_fields = ?pre @ ?mid @ ?post" by (simp add: mdb_fields_def)
    from that have m': "m' = swap_fields (?pre @ ?mid @ ?post) m"
      and fit: "list_all (\<lambda>(q, n). fits q n m) (?pre @ ?mid @ ?post)"
      by (auto simp only: swap_HFSMasterDirectoryBlock_fields swaps_def split split: if_splits)
    define a where "a = swap_fields ?pre m"
    define b where "b = swap_fields ?mid a"
    have m'_b: "m' = swap_fields ?post b" by (simp add: m' a_def b_def swap_fields_def)
    have fit_m: "list_all (\<lambda>(q, n). fits q n m) ?pre" "list_all (\<lambda>(q, n). fits q n m) ?mid"
      "list_all (\<lambda>(q, n). fits q n m) ?post" using fit by (simp_all only: list_all_append)
    have la: "length a = length m" using fit_m(1) by (simp only: a_def length_swap_fields)
    then have fit_a: "list_all (\<lambda>(q, n). fits q n a) ?mid" using fit_m(2) by (simp only: fits_def)
    then have lb: "length b = length m" by (simp only: b_def length_swap_fields la)
    then have fit_b: "list_all (\<lambda>(q, n). fits q n b) ?post" using fit_m(3) by (simp only: fits_def)
    have len: "p + 176 \<le> length m" using fit_m(3) by (simp add: mdb_fields_def fits_def)
    have a: "chunk (p + 138) 8 a = chunk (p + 138) 8 m" "chunk (p + 146) 4 a = chunk (p + 146) 4 m"
      unfolding a_def by (rule chunk_swap_fields_disjoint [OF fit_m(1)]; simp add: mdb_fields_def)+
    have b: "chunk (p + 138) 8 m' = chunk (p + 138) 8 b" "chunk (p + 146) 4 m' = chunk (p + 146) 4 b"
      unfolding m'_b by (rule chunk_swap_fields_disjoint [OF fit_b]; simp add: mdb_fields_def)+
    have "chunk (p + 138) 8 b = chunk (p + 138) 8 a"
      unfolding b_def by (rule chunk_swap_fields_disjoint [OF fit_a]) simp
    moreover have "chunk (p + 146) 4 b = chunk (p + 148) 2 a @ chunk (p + 146) 2 a"
    proof -
      define c where "c = rev_at (p + 148) 2 (rev_at (p + 146) 2 a)"
      have "b = rev_at (p + 146) 4 (rev_at (p + 160) 2 (rev_at (p + 158) 2 c))"
        by (simp add: b_def c_def) (simp add: swap_fields_def)
      then have "chunk (p + 146) 4 b = rev (chunk (p + 146) 4 c)"
        using len la by (simp add: c_def chunk_rev_at_same chunk_rev_at_disjoint)
      also have "\<dots> = rev (chunk (p + 148) 2 c) @ rev (chunk (p + 146) 2 c)"
        using chunk_append [of "p + 146" 2 2 c] by (simp add: add.commute)
      also have "\<dots> = chunk (p + 148) 2 a @ chunk (p + 146) 2 a"
        using len la by (simp add: c_def chunk_rev_at_same chunk_rev_at_disjoint)
      finally show ?thesis .
    qed
    moreover have "chunk (p + 148) 2 a = chunk (p + 148) 2 m" "chunk (p + 146) 2 a = chunk (p + 146) 2 m"
      using chunk_chunk [of 2 2 4 "p + 146" a] chunk_chunk [of 2 2 4 "p + 146" m]
        chunk_chunk [of 0 2 4 "p + 146" a] chunk_chunk [of 0 2 4 "p + 146" m] a(2)
      by (simp_all add: add.commute)
    ultimately show ?thesis by (simp add: a b)
  qed
  then show "case swap_HFSMasterDirectoryBlock Clang p m of
      Done m' \<Rightarrow>
        chunk (p + 138) 8 m' = chunk (p + 138) 8 m \<and>
        chunk (p + 146) 4 m' = chunk (p + 148) 2 m @ chunk (p + 146) 2 m
    | _ \<Rightarrow> True" by (simp split: outcome.split)
qed

end
