(* ===== verification/BTree_Node.thy ===== *)
theory BTree_Node
  imports Disk_Swap
begin

text \<open>
  The record accessors of \<^verbatim>\<open>src/src/hfs/btree/btree.c\<close> and the conversion of a whole node in
  \<^verbatim>\<open>src/src/hfs/btree/btree_endian.c\<close>. A node is the buffer that holds it, with the size the tree's
  header prescribes; the offsets of its records stand at its end, last record first, the constant 14
  (the offset of record 0) in the last two bytes. Every load and store is checked against the
  buffer, since the code bounds none of them by the node size.
\<close>

section \<open>Trees and nodes\<close>

record BTHeaderRec =
  treeDepth :: u16
  rootNode :: u32
  leafRecords :: u32
  firstLeafNode :: u32
  lastLeafNode :: u32
  nodeSize :: u16
  maxKeyLength :: u16
  totalNodes :: u32
  freeNodes :: u32
  clumpSize :: u32
  btreeType :: u8
  keyCompareType :: u8
  attributes :: u32

definition BTHeaderRec_of :: "buffer \<Rightarrow> nat \<Rightarrow> BTHeaderRec" where
  "BTHeaderRec_of m p = \<lparr>
     treeDepth = rd m (fld BTHeaderRec_t ''treeDepth'' p),
     rootNode = rd m (fld BTHeaderRec_t ''rootNode'' p),
     leafRecords = rd m (fld BTHeaderRec_t ''leafRecords'' p),
     firstLeafNode = rd m (fld BTHeaderRec_t ''firstLeafNode'' p),
     lastLeafNode = rd m (fld BTHeaderRec_t ''lastLeafNode'' p),
     nodeSize = rd m (fld BTHeaderRec_t ''nodeSize'' p),
     maxKeyLength = rd m (fld BTHeaderRec_t ''maxKeyLength'' p),
     totalNodes = rd m (fld BTHeaderRec_t ''totalNodes'' p),
     freeNodes = rd m (fld BTHeaderRec_t ''freeNodes'' p),
     clumpSize = rd m (fld BTHeaderRec_t ''clumpSize'' p),
     btreeType = rd m (fld BTHeaderRec_t ''btreeType'' p),
     keyCompareType = rd m (fld BTHeaderRec_t ''keyCompareType'' p),
     attributes = rd m (fld BTHeaderRec_t ''attributes'' p)\<rparr>"

record btnode =
  header :: BTHeaderRec
  nodeNumber :: u32
  node_size :: nat
  node_data :: buffer

text \<open>The node descriptor, in host order.\<close>

definition nd_fLink :: "btnode \<Rightarrow> u32" where
  "nd_fLink node = rd (node_data node) (fld BTNodeDescriptor_t ''fLink'' 0)"

definition nd_kind :: "btnode \<Rightarrow> int" where
  "nd_kind node = sint (rd (node_data node) (fld BTNodeDescriptor_t ''kind'' 0) :: u8)"

definition nd_height :: "btnode \<Rightarrow> u8" where
  "nd_height node = rd (node_data node) (fld BTNodeDescriptor_t ''height'' 0)"

definition nd_numRecords :: "btnode \<Rightarrow> u16" where
  "nd_numRecords node = rd (node_data node) (fld BTNodeDescriptor_t ''numRecords'' 0)"

section \<open>Records\<close>

text \<open>A load at an address computed by pointer arithmetic, which may lie before the buffer.\<close>

definition load_int :: "buffer \<Rightarrow> int \<Rightarrow> 'a::len word outcome" where
  "load_int m a = (if a < 0 then Fault else load m (nat a))"

definition BTGetRecordOffset :: "btnode \<Rightarrow> u16 \<Rightarrow> u16 outcome" where
  "BTGetRecordOffset node recNum =
     (let recordCount = int (unat (nd_numRecords node));
          offsets = int (node_size node) - 2 * recordCount - 2
      in obind (load_int (node_data node) (offsets + 2 * recordCount)) (\<lambda>sentinel :: u16.
           if sentinel \<noteq> 14 then Critical
           else load_int (node_data node) (offsets + 2 * (recordCount - int (unat recNum)))))"

text \<open>The address of a record within its node.\<close>

definition BTGetRecord :: "btnode \<Rightarrow> u16 \<Rightarrow> nat outcome" where
  "BTGetRecord node recNum = obind (BTGetRecordOffset node recNum) (\<lambda>off. Done (unat off))"

text \<open>The stored key length, cut to the maximum of the tree, with its length field and padding.\<close>

definition adjust_key_size :: "BTHeaderRec \<Rightarrow> u16 \<Rightarrow> u16" where
  "adjust_key_size headerRecord keySize =
     (let keySize = (if keySize > maxKeyLength headerRecord then maxKeyLength headerRecord else keySize);
          keySize = keySize + (if attributes headerRecord AND kBTBigKeysMask \<noteq> 0 then 2 else 1)
      in keySize + keySize mod 2)"

definition BTGetRecordKeyLength :: "btnode \<Rightarrow> u16 \<Rightarrow> u16 outcome" where
  "BTGetRecordKeyLength node recNum =
     (let headerRecord = header node; kind = nd_kind node;
          big = attributes headerRecord AND kBTBigKeysMask \<noteq> 0 in
      if kind \<noteq> kBTIndexNode \<and> kind \<noteq> kBTLeafNode then Done 0
      else
        obind (BTGetRecord node recNum) (\<lambda>record.
        obind
          (if kind = kBTLeafNode \<or>
              (kind = kBTIndexNode \<and> attributes headerRecord AND kBTVariableIndexKeysMask \<noteq> 0)
           then if big then load (node_data node) record
                else obind (load (node_data node) record) (\<lambda>length8 :: u8. Done (ucast length8))
           else Done (maxKeyLength headerRecord)) (\<lambda>keySize :: u16.
        Done (adjust_key_size headerRecord keySize))))"

record BTNodeRecord =
  rec_num :: u16
  rec_offset :: u16
  recordLen :: u16
  keyLen :: u16
  rec_value :: nat
  valueLen :: u16

definition BTGetBTNodeRecord :: "btnode \<Rightarrow> u16 \<Rightarrow> BTNodeRecord outcome" where
  "BTGetBTNodeRecord node n =
     obind (BTGetRecordOffset node n) (\<lambda>offset.
     obind (BTGetRecordOffset node (n + 1)) (\<lambda>nextRecOff.
     obind (BTGetRecordKeyLength node n) (\<lambda>key_len.
       let len = nextRecOff - offset; vlen = len - key_len in
       Done \<lparr>rec_num = n, rec_offset = offset, recordLen = len, keyLen = key_len,
             rec_value = unat offset + unat key_len, valueLen = vlen + vlen mod 2\<rparr>)))"

text \<open>\<open>None\<close> is the result -1; otherwise the addresses of the key and of the data.\<close>

definition btree_get_record :: "btnode \<Rightarrow> u16 \<Rightarrow> (nat \<times> nat) option outcome" where
  "btree_get_record node recordID =
     (if recordID \<ge> nd_numRecords node then Done None
      else
        obind (BTGetRecord node recordID) (\<lambda>record.
        obind (BTGetRecordKeyLength node recordID) (\<lambda>keySize.
          Done (Some (record, record + unat keySize)))))"

section \<open>The bitmap\<close>

definition BTIsBlockUsed :: "u32 \<Rightarrow> buffer \<Rightarrow> nat \<Rightarrow> bool outcome" where
  "BTIsBlockUsed thisAllocationBlock contents len =
     (let idx = unat (thisAllocationBlock div 8) in
      if idx > len then Done False
      else obind (load contents idx) (\<lambda>thisByte :: u8.
        Done ((ucast thisByte :: u32) AND push_bit (7 - unat (thisAllocationBlock mod 8)) 1 \<noteq> 0)))"

section \<open>Converting a node\<close>

text \<open>The value is the result of the call and the buffer after it.\<close>

definition swap_record :: "btnode \<Rightarrow> bool \<Rightarrow> nat \<Rightarrow> buffer \<Rightarrow> buffer outcome" where
  "swap_record node swapKeys recordNum m =
     (let at = (\<lambda>m. node\<lparr>node_data := m\<rparr>) in
      obind (BTGetRecord (at m) (of_nat recordNum)) (\<lambda>record.
      obind (if swapKeys then Swap16 record m else Done m) (\<lambda>m.
        let kind = nd_kind (at m) in
        if kind = kBTHeaderNode then (if recordNum = 0 then swap_BTHeaderRec record m else Done m)
        else if kind = kBTIndexNode then
          obind (BTGetRecordKeyLength (at m) (of_nat recordNum)) (\<lambda>key_len.
            Swap32 (record + unat key_len) m)
        else Done m)))"

definition swap_BTreeNode :: "btnode \<Rightarrow> (int \<times> buffer) outcome" where
  "swap_BTreeNode node =
     (let m = node_data node; nsz = node_size node in
      obind (load_int m (int nsz - 2)) (\<lambda>sentinel :: u16.
      if sentinel = 14 then Done (0, m)
      else if be16toh sentinel \<noteq> 14 then Done (- 1, m)
      else
        obind (swap_BTNodeDescriptor 0 m) (\<lambda>m.
        let kind = nd_kind (node\<lparr>node_data := m\<rparr>);
            numRecords = unat (nd_numRecords (node\<lparr>node_data := m\<rparr>));
            offsets = int nsz - 2 * int numRecords - 2 in
        if kind < kBTLeafNode \<or> kind > kBTMapNode then Done (- 1, m)
        else if offsets < 0 then Fault
        else
          obind (steps (map (\<lambda>i. Swap16 (nat offsets + 2 * i)) [0..<numRecords + 1]) m) (\<lambda>m.
          let swapKeys = (kind = kBTIndexNode \<or> kind = kBTLeafNode) \<and>
                attributes (header node) AND kBTBigKeysMask \<noteq> 0 in
          obind (steps (map (swap_record node swapKeys) [0..<numRecords]) m) (\<lambda>m.
            Done (1, m))))))"

section \<open>The accessors on a well-formed node\<close>

lemmas node_layout = fld_def BTNodeDescriptor_offsets

text \<open>A node in host order whose offset table lies in its buffer.\<close>

definition node_ok :: "btnode \<Rightarrow> bool" where
  "node_ok node \<longleftrightarrow>
     length (node_data node) = node_size node \<and>
     14 + 2 * (unat (nd_numRecords node) + 1) \<le> node_size node \<and>
     rd (node_data node) (node_size node - 2) = (14 :: u16)"

definition record_offset :: "btnode \<Rightarrow> nat \<Rightarrow> u16" where
  "record_offset node i = rd (node_data node) (node_size node - 2 - 2 * i)"

lemma load_int_nat: "load_int m (int a) = load m a"
  by (simp add: load_int_def)

lemma BTGetRecordOffset_ok:
  assumes "node_ok node" "unat n \<le> unat (nd_numRecords node)"
  shows "BTGetRecordOffset node n = Done (record_offset node (unat n))"
proof -
  let ?sz = "node_size node" and ?c = "unat (nd_numRecords node)"
  from assms(1) have sz: "14 + 2 * (?c + 1) \<le> ?sz" and len: "length (node_data node) = ?sz"
    and sent: "rd (node_data node) (?sz - 2) = (14 :: u16)" by (simp_all add: node_ok_def)
  have a: "int ?sz - 2 * int ?c - 2 + 2 * int ?c = int (?sz - 2)"
    "int ?sz - 2 * int ?c - 2 + 2 * (int ?c - int (unat n)) = int (?sz - 2 - 2 * unat n)"
    using sz assms(2) by (simp_all add: of_nat_diff)
  have f: "fits (?sz - 2) 2 (node_data node)" "fits (?sz - 2 - 2 * unat n) 2 (node_data node)"
    using sz assms(2) len by (simp_all add: fits_def)
  show ?thesis
    unfolding BTGetRecordOffset_def Let_def a load_int_nat
    using f sent by (simp add: load_def record_offset_def)
qed

text \<open>
  The length of a record's key, whenever it is computed: it is even, and at most three bytes more
  than the tree's maximal key length (the size of the length field and one pad byte), whatever the
  length field of the record claims.
\<close>

lemma key_length_bounds:
  assumes "BTGetRecordKeyLength node n = Done k" "unat (maxKeyLength (header node)) \<le> 2 ^ 16 - 4"
  shows "even (unat k) \<and> unat k \<le> unat (maxKeyLength (header node)) + 3"
proof (cases "nd_kind node \<noteq> kBTIndexNode \<and> nd_kind node \<noteq> kBTLeafNode")
  case True
  with assms(1) have "k = 0" by (simp add: BTGetRecordKeyLength_def Let_def)
  then show ?thesis by simp
next
  case False
  define big where "big = (attributes (header node) AND kBTBigKeysMask \<noteq> 0)"
  from False assms(1) obtain s where s: "k = adjust_key_size (header node) s"
    unfolding BTGetRecordKeyLength_def Let_def by (auto simp: obind_Done_iff split: if_splits)
  define t where "t = (if s > maxKeyLength (header node) then maxKeyLength (header node) else s)"
  define u where "u = t + (if big then 2 else 1)"
  have t: "unat t \<le> unat (maxKeyLength (header node))" by (auto simp: t_def word_less_nat_alt)
  have "unat t + unat (if big then 2 else 1 :: u16) < 2 ^ LENGTH(16)"
    using t assms(2) by simp
  then have u: "unat u = unat t + (if big then 2 else 1)" by (simp add: u_def unat_plus)
  have m: "unat (u mod 2) = unat u mod 2" by (simp add: unat_mod)
  have "unat u mod 2 \<le> 1" by (simp add: mod_2_eq_odd)
  moreover have "unat u \<le> 65534" using u t assms(2) by (simp split: if_splits)
  ultimately have "unat u + unat (u mod 2) < 65536" using m by linarith
  then have "unat u + unat (u mod 2) < 2 ^ LENGTH(16)" by simp
  then have "unat (u + u mod 2) = unat u + unat u mod 2" by (simp add: unat_plus m)
  moreover have "k = u + u mod 2" by (simp add: s adjust_key_size_def Let_def u_def t_def big_def)
  moreover have "unat u + unat u mod 2 \<le> unat (maxKeyLength (header node)) + 3"
    using u t \<open>unat u mod 2 \<le> 1\<close> by (simp split: if_splits)
  moreover have "even (unat u + unat u mod 2)" by presburger
  ultimately show ?thesis by simp
qed

text \<open>
  The bitmap test on a bitmap of its stated length: the bit of the block, most significant bit
  first, for every block within the map, and \<open>false\<close> beyond it, except that the blocks of the byte just
  behind the map pass the range check and read that byte.
\<close>

lemma BTIsBlockUsed_spec:
  "BTIsBlockUsed blk bits (length bits) =
     (if unat blk div 8 < length bits then Done (bit (bits ! (unat blk div 8)) (7 - unat blk mod 8))
      else if unat blk div 8 = length bits then Fault
      else Done False)"
proof -
  let ?i = "unat blk div 8" and ?k = "7 - unat blk mod 8"
  have i: "unat (blk div 8) = ?i" by (simp add: unat_div)
  have r: "unat (blk mod 8) = unat blk mod 8" by (simp add: unat_mod)
  have byte: "rd bits ?i = bits ! ?i" if "?i < length bits"
  proof -
    have "chunk ?i 1 bits = [bits ! ?i]"
      using that by (intro nth_equalityI) (auto simp: nth_chunk)
    moreover have "le_word [b] = b" for b :: u8 by (rule bit_word_eqI) (auto simp: bit_simps)
    ultimately show ?thesis by (simp add: rd_def)
  qed
  have mask: "(ucast b :: u32) AND push_bit ?k 1 \<noteq> 0 \<longleftrightarrow> bit b ?k" for b :: u8
  proof
    assume "bit b ?k"
    then have "bit ((ucast b :: u32) AND push_bit ?k 1) ?k"
      using bit_imp_le_length [of b ?k] by (simp add: bit_simps)
    then show "(ucast b :: u32) AND push_bit ?k 1 \<noteq> 0" by auto
  next
    assume "(ucast b :: u32) AND push_bit ?k 1 \<noteq> 0"
    then obtain j where "bit ((ucast b :: u32) AND push_bit ?k 1) j" by (metis bit_eq_iff bit_0_eq bot_apply bot_bool_def)
    then show "bit b ?k" by (auto simp: bit_simps)
  qed
  show ?thesis
    using byte by (auto simp: BTIsBlockUsed_def Let_def i r load_def fits_def mask
          simp del: push_bit_of_1)
qed

lemma key_length_bounds_witness:
  "\<exists>hdr. adjust_key_size hdr 1000 = 518 \<and>
     even (unat (518 :: u16)) \<and> unat (518 :: u16) \<le> unat (maxKeyLength hdr) + 3"
proof -
  define hdr where "hdr = \<lparr>treeDepth = 1, rootNode = 1, leafRecords = 1, firstLeafNode = 1,
    lastLeafNode = 1, nodeSize = 20, maxKeyLength = 516, totalNodes = 2, freeNodes = 0,
    clumpSize = 0, btreeType = 0, keyCompareType = 0, attributes = 2\<rparr>"
  define node where "node = \<lparr>header = hdr, nodeNumber = 1, node_size = 20,
    node_data = [0,0,0,0, 0,0,0,0, 0xFF, 1, 1,0, 0,0, 0xe8,3, 18,0, 14,0]\<rparr>"
  have n: "node_ok node" "nd_kind node = kBTLeafNode" "record_offset node 0 = 14"
    "unat (nd_numRecords node) = 1"
    by (simp_all add: node_ok_def node_def nd_kind_def nd_numRecords_def record_offset_def node_layout
          rd_def chunk_def)
  have l: "load (node_data node) 14 = Done (1000 :: u16)"
    by (simp add: node_def load_def fits_def rd_def chunk_def)
  have a: "adjust_key_size hdr 1000 = 518" by (simp add: adjust_key_size_def hdr_def)
  have "BTGetRecord node 0 = Done 14"
    using BTGetRecordOffset_ok [OF n(1), of 0] n(3) by (simp add: BTGetRecord_def)
  then have "BTGetRecordKeyLength node 0 = Done 518"
    using n(2) l a by (simp add: BTGetRecordKeyLength_def) (simp add: node_def hdr_def)
  from key_length_bounds [OF this] a show ?thesis
    by (intro exI [of _ hdr]) (simp add: node_def hdr_def)
qed

section \<open>Converting a leaf node\<close>

text \<open>
  A leaf node as it is on disk, of a tree with two-byte key lengths: the big-endian sentinel is 14, the
  offset table lies behind the descriptor, and the records start between both, in ascending order.
\<close>

definition raw_count :: "btnode \<Rightarrow> nat" where
  "raw_count node = unat (be_at (node_data node) 10 :: u16)"

definition raw_offset :: "btnode \<Rightarrow> nat \<Rightarrow> nat" where
  "raw_offset node i = unat (be_at (node_data node) (node_size node - 2 - 2 * i) :: u16)"

definition raw_leaf :: "btnode \<Rightarrow> bool" where
  "raw_leaf node \<longleftrightarrow>
     length (node_data node) = node_size node \<and>
     14 + 2 * (raw_count node + 1) \<le> node_size node \<and>
     be_at (node_data node) (node_size node - 2) = (14 :: u16) \<and>
     nd_kind node = kBTLeafNode \<and>
     attributes (header node) AND kBTBigKeysMask \<noteq> 0 \<and>
     (\<forall>i < raw_count node. 14 \<le> raw_offset node i \<and>
        raw_offset node i + 2 \<le> node_size node - 2 * raw_count node - 2 \<and>
        (i + 1 < raw_count node \<longrightarrow> raw_offset node i + 2 \<le> raw_offset node (i + 1)))"

definition table_start :: "btnode \<Rightarrow> nat" where
  "table_start node = node_size node - 2 * raw_count node - 2"

definition key_fields :: "btnode \<Rightarrow> nat \<Rightarrow> (nat \<times> nat) list" where
  "key_fields node k = map (\<lambda>i. (raw_offset node i, 2)) [0..<k]"

definition leaf_fields :: "btnode \<Rightarrow> (nat \<times> nat) list" where
  "leaf_fields node =
     [(0, 4), (4, 4), (10, 2)] @ name_fields (table_start node) (raw_count node + 1) @
     key_fields node (raw_count node)"

lemma raw_offset_mono:
  assumes "raw_leaf node" "i < j" "j < raw_count node"
  shows "raw_offset node i + 2 \<le> raw_offset node j"
  using assms(2,3)
proof (induction j)
  case (Suc j)
  have step: "raw_offset node j + 2 \<le> raw_offset node (Suc j)"
    using assms(1) Suc.prems by (simp add: raw_leaf_def)
  show ?case
  proof (cases "i = j")
    case False
    with Suc have "raw_offset node i + 2 \<le> raw_offset node j" by simp
    with step show ?thesis by linarith
  qed (use step in simp)
qed simp

lemma disjoint_fields_append:
  "disjoint_fields (fs @ gs) \<longleftrightarrow> disjoint_fields fs \<and> disjoint_fields gs \<and>
     (\<forall>(p, n) \<in> set fs. \<forall>(q, k) \<in> set gs. p + n \<le> q \<or> q + k \<le> p)"
  by (induction fs rule: disjoint_fields.induct) (auto simp: list_all_iff)

lemma leaf_fields_facts:
  assumes "raw_leaf node"
  shows "disjoint_fields (leaf_fields node)"
    and "list_all (\<lambda>(p, n). p + n \<le> node_size node) (leaf_fields node)"
proof -
  let ?n = "raw_count node" and ?T = "table_start node"
  have T: "14 \<le> ?T" "?T + 2 * (?n + 1) = node_size node"
    using assms by (auto simp: raw_leaf_def table_start_def)
  have o': "14 \<le> raw_offset node i" "raw_offset node i + 2 \<le> ?T" if "i < ?n" for i
    using assms that by (auto simp: raw_leaf_def table_start_def)
  have keys: "disjoint_fields (key_fields node k)" if "k \<le> ?n" for k
    using that
  proof (induction k)
    case (Suc k)
    then show ?case
      using raw_offset_mono [OF assms]
      by (auto simp: key_fields_def disjoint_fields_append)
  qed (simp add: key_fields_def)
  have d1: "\<forall>(p, n) \<in> set [(0 :: nat, 4 :: nat), (4, 4), (10, 2)]. p + n \<le> 14" by simp
  have d2: "\<forall>(q, k) \<in> set (name_fields ?T (?n + 1)). ?T \<le> q \<and> q + k \<le> node_size node"
    using T(2) by (auto simp: name_fields_def)
  have d3: "\<forall>(q, k) \<in> set (key_fields node ?n). 14 \<le> q \<and> q + k \<le> ?T"
    using o' by (auto simp: key_fields_def)
  have "disjoint_fields (name_fields ?T (?n + 1) @ key_fields node ?n)"
    unfolding disjoint_fields_append using d2 d3 keys [of ?n] by fastforce
  moreover have "\<forall>(q, k) \<in> set (name_fields ?T (?n + 1) @ key_fields node ?n). 14 \<le> q \<and> q + k \<le> node_size node"
    using d2 d3 T by fastforce
  ultimately show "disjoint_fields (leaf_fields node)"
    "list_all (\<lambda>(p, n). p + n \<le> node_size node) (leaf_fields node)"
    using d1 T unfolding leaf_fields_def disjoint_fields_append [of "[(0, 4), (4, 4), (10, 2)]"]
    by (fastforce simp: list_all_iff)+
qed

text \<open>Once the descriptor and the table are converted, the accessors read the big-endian values.\<close>

definition leaf_head :: "btnode \<Rightarrow> (nat \<times> nat) list" where
  "leaf_head node =
     [(0, 4), (4, 4), (10, 2)] @ name_fields (table_start node) (raw_count node + 1)"

lemma leaf_prefix:
  assumes raw: "raw_leaf node" and k: "k \<le> raw_count node"
    and node': "node' = node\<lparr>node_data := swap_fields (leaf_head node @ key_fields node k) (node_data node)\<rparr>"
  shows "list_all (\<lambda>(p, n). fits p n (node_data node)) (leaf_head node @ key_fields node k)"
    and "node_ok node'" and "nd_kind node' = kBTLeafNode"
    and "unat (nd_numRecords node') = raw_count node"
    and "i \<le> raw_count node \<Longrightarrow> unat (record_offset node' i) = raw_offset node i"
proof -
  let ?fs = "leaf_head node @ key_fields node k" and ?m = "node_data node" and ?n = "raw_count node"
  let ?T = "table_start node"
  have T: "14 \<le> ?T" "?T + 2 * (?n + 1) = node_size node" and len: "length ?m = node_size node"
    using raw by (auto simp: raw_leaf_def table_start_def)
  have o': "14 \<le> raw_offset node i" if "i < ?n" for i using raw that by (auto simp: raw_leaf_def)
  have all: "leaf_fields node = ?fs @ map (\<lambda>i. (raw_offset node i, 2)) [k..<?n]"
  proof -
    have "[0..<?n] = [0..<k] @ [k..<?n]" using k by (metis le0 upt_add_eq_append le_add_diff_inverse)
    then show ?thesis by (simp add: leaf_fields_def leaf_head_def key_fields_def)
  qed
  have disj: "disjoint_fields ?fs"
    using leaf_fields_facts(1) [OF raw] unfolding all disjoint_fields_append [of ?fs] by blast
  show fit: "list_all (\<lambda>(p, n). fits p n ?m) ?fs"
    using leaf_fields_facts(2) [OF raw] unfolding all by (auto simp: list_all_iff fits_def len)
  have d': "node_data node' = swap_fields ?fs ?m" "node_size node' = node_size node"
    by (simp_all add: node')
  have cnt: "rd (node_data node') 10 = (be_at ?m 10 :: u16)"
    unfolding d' using fit disj by (rule rd_swap_fields) (simp add: leaf_head_def)
  then show num: "unat (nd_numRecords node') = ?n"
    by (simp add: nd_numRecords_def node_layout raw_count_def)
  have entry: "(rd (node_data node') (node_size node - 2 - 2 * i) :: u16) =
      be_at ?m (node_size node - 2 - 2 * i)" if i: "i \<le> ?n" for i
  proof -
    have "node_size node - 2 - 2 * i = ?T + 2 * (?n - i)" using T i by simp
    moreover have "(?T + 2 * (?n - i), 2) \<in> set (name_fields ?T (?n + 1))" by (auto simp: name_fields_def)
    ultimately show ?thesis
      unfolding d' using fit disj by (intro rd_swap_fields) (simp_all add: leaf_head_def)
  qed
  show "i \<le> ?n \<Longrightarrow> unat (record_offset node' i) = raw_offset node i"
    using entry by (simp add: record_offset_def raw_offset_def node')
  have "be_at ?m (node_size node - 2) = (14 :: u16)" using raw by (simp add: raw_leaf_def)
  with entry [of 0] have sent: "rd (node_data node') (node_size node' - 2) = (14 :: u16)"
    by (simp add: d')
  have "length (node_data node') = node_size node'" using fit len by (simp add: d')
  with sent num T show "node_ok node'" by (simp add: node_ok_def d')
  have "list_all (\<lambda>(p, n). p + n \<le> 8 \<or> 8 + width TYPE(8) \<le> p) ?fs"
  proof -
    have "9 \<le> raw_offset node i" if "i < k" for i using o' [of i] k that by linarith
    then have "list_all (\<lambda>(p, n). p + n \<le> 8 \<or> 8 + width TYPE(8) \<le> p) (key_fields node k)"
      by (auto simp: key_fields_def list_all_iff)
    moreover have "list_all (\<lambda>(p, n). p + n \<le> 8 \<or> 8 + width TYPE(8) \<le> p) (leaf_head node)"
      using T(1) by (auto simp: leaf_head_def name_fields_def list_all_iff)
    ultimately show ?thesis by simp
  qed
  from rd_swap_fields_disjoint [OF fit this] have "rd (node_data node') 8 = (rd ?m 8 :: u8)"
    by (simp add: d')
  with raw show "nd_kind node' = kBTLeafNode" by (simp add: raw_leaf_def nd_kind_def node_layout)
qed

lemma swap_fields_append: "swap_fields (fs @ gs) m = swap_fields gs (swap_fields fs m)"
  by (simp add: swap_fields_def)

lemma swap_leaf_keys:
  assumes raw: "raw_leaf node" and k: "k \<le> raw_count node"
  shows "steps (map (swap_record node True) [0..<k]) (swap_fields (leaf_head node) (node_data node)) =
    Done (swap_fields (leaf_head node @ key_fields node k) (node_data node))"
  using k
proof (induction k)
  case (Suc k)
  let ?m = "swap_fields (leaf_head node @ key_fields node k) (node_data node)"
  let ?node = "node\<lparr>node_data := ?m\<rparr>"
  from Suc.prems have k: "k \<le> raw_count node" "k < raw_count node" by simp_all
  note p = leaf_prefix [OF raw k(1) refl]
  have raw16: "raw_count node < 2 ^ 16" using unat_bound [of "be_at (node_data node) 10 :: u16"]
    by (simp add: raw_count_def)
  then have ku: "unat (of_nat k :: u16) = k" using k by (intro unat_of_nat_small) simp
  have rec: "BTGetRecord ?node (of_nat k) = Done (raw_offset node k)"
    using BTGetRecordOffset_ok [OF p(2), of "of_nat k"] p(4) p(5) [of k] k by (simp add: BTGetRecord_def ku)
  have kf: "key_fields node (Suc k) = key_fields node k @ [(raw_offset node k, 2)]"
    by (simp add: key_fields_def)
  have "list_all (\<lambda>(p, n). fits p n (node_data node)) (leaf_head node @ key_fields node (Suc k))"
    by (rule leaf_prefix(1) [OF raw Suc.prems refl])
  then have fit: "fits (raw_offset node k) 2 (node_data node)" by (simp add: kf)
  have "length ?m = length (node_data node)" using p(1) by simp
  with fit have fit': "fits (raw_offset node k) 2 ?m" by (simp add: fits_def)
  let ?m' = "rev_at (raw_offset node k) 2 ?m"
  have m': "?m' = swap_fields (leaf_head node @ key_fields node (Suc k)) (node_data node)"
    by (simp add: kf swap_fields_append flip: append_assoc) (simp add: swap_fields_def)
  have kind: "nd_kind (node\<lparr>node_data := ?m'\<rparr>) = kBTLeafNode"
    unfolding m' by (rule leaf_prefix(3) [OF raw Suc.prems refl])
  have "swap_record node True k ?m = Done ?m'"
    using rec fit' kind by (simp add: swap_record_def Swap16_eq)
  with Suc.IH k show ?case by (simp add: steps_append m')
qed (simp add: key_fields_def)

lemma swap_BTreeNode_leaf:
  assumes raw: "raw_leaf node"
  shows "swap_BTreeNode node = Done (1, swap_fields (leaf_fields node) (node_data node))"
proof -
  let ?m = "node_data node" and ?n = "raw_count node" and ?T = "table_start node"
  let ?d = "[(0, 4), (4, 4), (10, 2)] :: (nat \<times> nat) list"
  let ?m1 = "swap_fields ?d ?m" and ?m2 = "swap_fields (leaf_head node) ?m"
  have T: "14 \<le> ?T" "?T + 2 * (?n + 1) = node_size node" and len: "length ?m = node_size node"
    using raw by (auto simp: raw_leaf_def table_start_def)
  have be: "be_at ?m (node_size node - 2) = (14 :: u16)" using raw by (simp add: raw_leaf_def)
  define s where "s = (rd ?m (node_size node - 2) :: u16)"
  have fit: "fits (node_size node - 2) 2 ?m" using T len by (simp add: fits_def)
  have s: "be16toh s = 14"
  proof -
    have "length (chunk (node_size node - 2) 2 ?m) = 2" using T len by simp
    then have "be16toh s = be_at ?m (node_size node - 2)"
      by (simp add: be16toh_def bswap16_bytes s_def rd_def be_at_def word_bytes_le_word)
    with be show ?thesis by simp
  qed
  have "be16toh 14 = 0xe00" by (simp add: be16toh_def bswap16_def)
  with s have s14: "s \<noteq> 14" by auto
  have ad: "int (node_size node) - 2 = int (node_size node - 2)" using T by simp
  have load_s: "load_int ?m (int (node_size node) - 2) = Done s"
    using fit by (simp add: ad load_int_nat load_def s_def)
  have fit_d: "list_all (\<lambda>(p, n). fits p n ?m) ?d" using T len by (simp add: fits_def)
  have "shifted 0 ?d = ?d" by simp
  then have desc: "swap_BTNodeDescriptor 0 ?m = Done ?m1"
    using fit_d by (simp add: swap_BTNodeDescriptor_fields swaps_def)
  have disj_d: "disjoint_fields ?d" by simp
  have num1: "unat (nd_numRecords (node\<lparr>node_data := ?m1\<rparr>)) = ?n"
  proof -
    have "rd ?m1 10 = (be_at ?m 10 :: u16)" by (rule rd_swap_fields [OF fit_d disj_d]) simp
    then show ?thesis by (simp add: nd_numRecords_def node_layout raw_count_def)
  qed
  have kind1: "nd_kind (node\<lparr>node_data := ?m1\<rparr>) = kBTLeafNode"
  proof -
    have "rd ?m1 8 = (rd ?m 8 :: u8)" by (rule rd_swap_fields_disjoint [OF fit_d]) simp
    with raw show ?thesis by (simp add: raw_leaf_def nd_kind_def node_layout)
  qed
  have off: "int (node_size node) - 2 * int ?n - 2 = int ?T" using T by simp
  have table: "steps (map (\<lambda>i. Swap16 (?T + 2 * i)) [0..<?n + 1]) ?m1 = Done ?m2"
  proof -
    have "steps (map (\<lambda>i. Swap16 (?T + 2 * i)) [0..<?n + 1]) = swaps (name_fields ?T (?n + 1))"
      by (simp only: Swap_as_swaps steps_map_swaps concat_map_singleton name_fields_def)
    moreover have "list_all (\<lambda>(p, n). fits p n ?m1) (name_fields ?T (?n + 1))"
      using T len fit_d by (auto simp: name_fields_def list_all_iff fits_def)
    ultimately show ?thesis by (simp only: swaps_def leaf_head_def swap_fields_append if_True)
  qed
  have keys: "steps (map (swap_record node True) [0..<?n]) ?m2 =
      Done (swap_fields (leaf_fields node) ?m)"
    using swap_leaf_keys [OF raw order_refl] by (simp add: leaf_fields_def leaf_head_def)
  have big: "attributes (header node) AND kBTBigKeysMask \<noteq> 0" using raw by (simp add: raw_leaf_def)
  show ?thesis
    unfolding swap_BTreeNode_def Let_def load_s obind.simps desc num1 kind1 off nat_int
    using s s14 table keys big by simp
qed

text \<open>
  C36. Converting a leaf node read from disk: the call returns 1, and in the converted buffer the links
  and the record count of the descriptor, the whole offset table and the key length of every record
  hold the big-endian values of the original, every other byte is unchanged, and the record accessors
  then find each record at the offset that the disk states. Converting the node a second time returns
  0 and changes nothing.
\<close>

theorem swap_BTreeNode_correct:
  assumes "raw_leaf node"
  shows "\<exists>m'. swap_BTreeNode node = Done (1, m') \<and>
    converted 0 (leaf_fields node) (node_data node) m' \<and>
    (\<forall>i < raw_count node. BTGetRecord (node\<lparr>node_data := m'\<rparr>) (of_nat i) = Done (raw_offset node i)) \<and>
    swap_BTreeNode (node\<lparr>node_data := m'\<rparr>) = Done (0, m')"
proof -
  let ?m' = "swap_fields (leaf_fields node) (node_data node)" and ?node = "node\<lparr>node_data := swap_fields (leaf_fields node) (node_data node)\<rparr>"
  have lf: "leaf_fields node = leaf_head node @ key_fields node (raw_count node)"
    by (simp add: leaf_fields_def leaf_head_def)
  note p = leaf_prefix [OF assms order_refl, of ?node, folded lf, OF refl]
  have len: "length (node_data node) = node_size node" using assms by (simp add: raw_leaf_def)
  have sh: "shifted 0 (leaf_fields node) = leaf_fields node" by (auto simp: shifted_def)
  have "fits 0 (node_size node) (node_data node)" by (simp add: fits_def len)
  from swaps_converts [OF leaf_fields_facts(2,1) [OF assms] this]
  have conv: "converted 0 (leaf_fields node) (node_data node) ?m'"
    by (auto simp: sh swaps_def split: if_splits)
  have rec: "BTGetRecord ?node (of_nat i) = Done (raw_offset node i)" if "i < raw_count node" for i
  proof -
    have "raw_count node < 2 ^ 16" using unat_bound [of "be_at (node_data node) 10 :: u16"]
      by (simp add: raw_count_def)
    then have "unat (of_nat i :: u16) = i" using that by (intro unat_of_nat_small) simp
    with BTGetRecordOffset_ok [OF p(2), of "of_nat i"] p(4) p(5) [of i] that show ?thesis
      by (simp add: BTGetRecord_def)
  qed
  have "node_size node \<ge> 2" using assms by (simp add: raw_leaf_def)
  then have ad: "int (node_size ?node) - 2 = int (node_size ?node - 2)" by simp
  have "load_int (node_data ?node) (int (node_size ?node) - 2) = Done (14 :: u16)"
  proof -
    have "node_size node - 2 + 2 = node_size node" using \<open>node_size node \<ge> 2\<close> by linarith
    moreover have "length ?m' = node_size node" using p(2) by (simp add: node_ok_def)
    ultimately have "fits (node_size node - 2) (width TYPE(16)) ?m'" by (simp only: fits_def width_simps)
    with p(2) show ?thesis unfolding ad load_int_nat by (simp add: node_ok_def load_def)
  qed
  then have "swap_BTreeNode ?node = Done (0, ?m')" by (simp add: swap_BTreeNode_def)
  with swap_BTreeNode_leaf [OF assms] conv rec show ?thesis by blast
qed

text \<open>A leaf of twenty-two bytes with one record, whose key length is stored as 0, 6.\<close>

definition sample_header :: BTHeaderRec where
  "sample_header = \<lparr>treeDepth = 1, rootNode = 1, leafRecords = 1, firstLeafNode = 1,
    lastLeafNode = 1, nodeSize = 22, maxKeyLength = 516, totalNodes = 2, freeNodes = 0,
    clumpSize = 0, btreeType = 0, keyCompareType = 0, attributes = 2\<rparr>"

definition sample_leaf :: btnode where
  "sample_leaf = \<lparr>header = sample_header, nodeNumber = 1, node_size = 22,
    node_data = [0,0,0,2, 0,0,0,0, 0xFF, 1, 0,1, 0,0, 0,6, 7,7, 0,18, 0,14]\<rparr>"

lemma swap_BTreeNode_correct_witness:
  "\<exists>m'. swap_BTreeNode sample_leaf = Done (1, m') \<and>
     BTGetRecord (sample_leaf\<lparr>node_data := m'\<rparr>) 0 = Done 14 \<and> length m' = 22"
proof -
  have "raw_count sample_leaf = 1"
    by (simp add: raw_count_def sample_leaf_def be_at_def chunk_def)
  moreover from this have raw: "raw_leaf sample_leaf"
    by (simp add: raw_leaf_def raw_offset_def)
       (simp add: sample_leaf_def sample_header_def be_at_def chunk_def nd_kind_def node_layout rd_def)
  moreover have "raw_offset sample_leaf 0 = 14"
    by (simp add: raw_offset_def sample_leaf_def be_at_def chunk_def)
  moreover have "length (node_data sample_leaf) = 22" by (simp add: sample_leaf_def)
  ultimately show ?thesis
    using swap_BTreeNode_correct [OF raw] by (fastforce simp: converted_def)
qed

end
