(* ===== verification/BTree_Search.thy ===== *)
theory BTree_Search
  imports BTree_Node Key_Order
begin

text \<open>
  Looking a key up in a tree: \<open>btree_search_node\<close>, \<open>btree_search\<close> and \<open>btree_walk\<close> of
  \<^verbatim>\<open>src/src/hfs/btree/btree.c\<close>. The two function pointers of a tree are arguments: \<open>keyCompare\<close>
  compares a key in memory with the key stored at an address of a node's buffer, and \<open>getNode\<close>
  fetches a node and changes the state of the tree (its cache). What the callers of these pointers rely
  on is stated in two locales, \<open>stored_keys\<close> and \<open>node_source\<close>; the lemmas on the search are proved
  from them once, for every tree.
\<close>

section \<open>The search within a node\<close>

text \<open>The binary search; the last values of \<open>result\<close> and \<open>recNum\<close> are part of its result.\<close>

function search_loop :: "(nat \<Rightarrow> int outcome) \<Rightarrow> int \<Rightarrow> int \<Rightarrow> int \<Rightarrow> int \<Rightarrow> (bool \<times> int \<times> int) outcome" where
  "search_loop test low high result recNum =
     (if low \<le> high
      then let recNum = (low + high) div 2 in
        obind (test (nat recNum)) (\<lambda>result.
          if result < 0 then search_loop test low (recNum - 1) result recNum
          else if result > 0 then search_loop test (recNum + 1) high result recNum
          else Done (True, result, recNum))
      else Done (False, result, recNum))"
  by pat_completeness auto
termination by (relation "measure (\<lambda>(_, low, high, _, _). nat (high + 1 - low))") auto

declare search_loop.simps [simp del]

definition btree_search_node ::
  "('k \<Rightarrow> buffer \<Rightarrow> nat \<Rightarrow> int outcome) \<Rightarrow> btnode \<Rightarrow> 'k \<Rightarrow> (bool \<times> u16) outcome" where
  "btree_search_node keyCompare node searchKey =
     (let test = (\<lambda>recNum.
            obind (btree_get_record node (of_nat recNum)) (\<lambda>r.
              case r of None \<Rightarrow> Fault
              | Some (testKey, _) \<Rightarrow> keyCompare searchKey (node_data node) testKey)) in
      obind (search_loop test 0 (int (unat (nd_numRecords node)) - 1) 0 0) (\<lambda>(found, result, recNum).
        Done (found, word_of_int (if \<not> found \<and> recNum \<noteq> 0 \<and> result < 0 then recNum - 1 else recNum))))"

section \<open>The descent\<close>

text \<open>
  \<open>lfind\<close> over the history of visited nodes, with \<open>icmp\<close>, which compares eight bytes at each address
  although an identifier has four: the second half of an entry is the next entry of the array, that of
  the key is the word that follows \<open>currentNode\<close> in memory, \<open>adjacent\<close> here.
\<close>

fun lfind_icmp :: "u32 \<Rightarrow> u32 \<Rightarrow> u32 list \<Rightarrow> nat \<Rightarrow> nat \<Rightarrow> bool outcome" where
  "lfind_icmp key adjacent history i 0 = Done False"
| "lfind_icmp key adjacent history i (Suc n) =
     (if length history \<le> i + 1 then Fault
      else if history ! i = key \<and> history ! (i + 1) = adjacent then Done True
      else lfind_icmp key adjacent history (i + 1) n)"

text \<open>
  One turn of the loop per level. The result is what the call returns and what it stores through its
  two pointers; \<open>None\<close> there means that it stores nothing. Level 0 is never reached: a node at level 1
  that is no leaf is critical.
\<close>

fun search_level ::
  "('k \<Rightarrow> buffer \<Rightarrow> nat \<Rightarrow> int outcome) \<Rightarrow> (u32 \<Rightarrow> 's \<Rightarrow> (int \<times> btnode option \<times> 's) outcome) \<Rightarrow>
   BTHeaderRec \<Rightarrow> (nat \<Rightarrow> u32) \<Rightarrow> 'k \<Rightarrow> nat \<Rightarrow> u32 \<Rightarrow> u32 list \<Rightarrow> 's \<Rightarrow>
   (bool \<times> (btnode \<times> u16) option \<times> 's) outcome" where
  "search_level keyCompare getNode hdr adjacent searchKey 0 currentNode history s = Fault"
| "search_level keyCompare getNode hdr adjacent searchKey (Suc lv) currentNode history s =
     (if currentNode > totalNodes hdr then Critical
      else
        obind (lfind_icmp currentNode (adjacent (Suc lv)) history 0 (unat (treeDepth hdr))) (\<lambda>hit.
        if hit then Critical
        else if length history \<le> lv then Fault
        else
          let history = history[lv := currentNode] in
          obind (getNode currentNode s) (\<lambda>(rc, n, s).
          if rc < 0 then Done (False, None, s)
          else case n of None \<Rightarrow> Critical
          | Some node \<Rightarrow>
              if unat (nd_height node) \<noteq> Suc lv then Critical
              else if (if Suc lv = 1 then nd_kind node \<noteq> kBTLeafNode else nd_kind node \<noteq> kBTIndexNode)
              then Critical
              else
                obind (btree_search_node keyCompare node searchKey) (\<lambda>(search_result, searchIndex).
                if nd_kind node = kBTLeafNode then Done (search_result, Some (node, searchIndex), s)
                else
                  obind (BTGetBTNodeRecord node searchIndex) (\<lambda>currentRecord.
                  obind (load (node_data node) (rec_value currentRecord)) (\<lambda>next :: u32.
                  if next = 0 then Critical
                  else
                    obind (keyCompare searchKey (node_data node) (unat (rec_offset currentRecord))) (\<lambda>c.
                    if c = - 1 then Critical
                    else search_level keyCompare getNode hdr adjacent searchKey lv next history s)))))))"

definition btree_search ::
  "('k \<Rightarrow> buffer \<Rightarrow> nat \<Rightarrow> int outcome) \<Rightarrow> (u32 \<Rightarrow> 's \<Rightarrow> (int \<times> btnode option \<times> 's) outcome) \<Rightarrow>
   BTHeaderRec \<Rightarrow> (nat \<Rightarrow> u32) \<Rightarrow> 'k \<Rightarrow> 's \<Rightarrow> (bool \<times> (btnode \<times> u16) option \<times> 's) outcome" where
  "btree_search keyCompare getNode hdr adjacent searchKey s =
     (if treeDepth hdr = 0 then Done (False, None, s)
      else search_level keyCompare getNode hdr adjacent searchKey (unat (treeDepth hdr)) (rootNode hdr)
             (replicate 256 0) s)"

text \<open>
  The walk along the forward links of the leaves. A chain of links may be a cycle, so the walk takes
  fuel and is \<open>None\<close> when that runs out.
\<close>

fun walk_from ::
  "(u32 \<Rightarrow> 's \<Rightarrow> (int \<times> btnode option \<times> 's) outcome) \<Rightarrow> (btnode \<Rightarrow> 's \<Rightarrow> 's) \<Rightarrow>
   nat \<Rightarrow> btnode option \<Rightarrow> 's \<Rightarrow> 's outcome option" where
  "walk_from getNode walker 0 node s = None"
| "walk_from getNode walker (Suc fuel) node s =
     (case node of None \<Rightarrow> Some Fault
      | Some node \<Rightarrow>
          let s = walker node s in
          if 0 < sint (nd_fLink node)
          then case getNode (nd_fLink node) s of
                 Done (_, right, s) \<Rightarrow> walk_from getNode walker fuel right s
               | Critical \<Rightarrow> Some Critical | Fault \<Rightarrow> Some Fault
          else Some (Done s))"

definition btree_walk ::
  "(u32 \<Rightarrow> 's \<Rightarrow> (int \<times> btnode option \<times> 's) outcome) \<Rightarrow> BTHeaderRec \<Rightarrow> (btnode \<Rightarrow> 's \<Rightarrow> 's) \<Rightarrow>
   nat \<Rightarrow> btnode option \<Rightarrow> 's \<Rightarrow> 's outcome option" where
  "btree_walk getNode hdr walker fuel node s =
     (case node of
        Some _ \<Rightarrow> walk_from getNode walker fuel node s
      | None \<Rightarrow>
          (case getNode (firstLeafNode hdr) s of
             Done (_, first, s) \<Rightarrow> walk_from getNode walker fuel first s
           | Critical \<Rightarrow> Some Critical | Fault \<Rightarrow> Some Fault))"

section \<open>Binary search\<close>

text \<open>
  The loop on a test that is positive on the records before a point, and negative behind it, as the
  comparison with ascending keys is: it returns a record that compares equal, or else stops with the last
  record of the positive part (record 0 if that part is empty).
\<close>

definition back_up :: "int \<Rightarrow> int \<Rightarrow> int" where
  "back_up result recNum = (if recNum \<noteq> 0 \<and> result < 0 then recNum - 1 else recNum)"

lemma search_loop_spec:
  assumes test: "\<And>i. i < n \<Longrightarrow> test i = Done (f i)"
    and mono: "\<And>i j. i < j \<Longrightarrow> j < n \<Longrightarrow> 0 \<le> f j \<Longrightarrow> 0 < f i"
    and "0 \<le> low" "low \<le> high + 1" "high < int n"
    and "\<And>i. int i < low \<Longrightarrow> 0 < f i" "\<And>i. high < int i \<Longrightarrow> i < n \<Longrightarrow> f i < 0"
    and "high < low \<Longrightarrow> back_up result recNum = max 0 (low - 1)"
  shows "\<exists>found r k. search_loop test low high result recNum = Done (found, r, k) \<and>
    (found \<longrightarrow> 0 \<le> k \<and> k < int n \<and> f (nat k) = 0) \<and>
    (\<not> found \<longrightarrow> (\<exists>m \<le> n. (\<forall>i < m. 0 < f i) \<and> (\<forall>i < n. m \<le> i \<longrightarrow> f i < 0) \<and>
        back_up r k = max 0 (int m - 1)))"
  using assms(3-)
proof (induction "nat (high + 1 - low)" arbitrary: low high result recNum rule: less_induct)
  case less
  show ?case
  proof (cases "low \<le> high")
    case False
    with less.prems have "low = high + 1" by simp
    define m where "m = nat low"
    have m: "int m = low" using less.prems(1) by (simp add: m_def)
    with False less.prems have "m \<le> n" "\<forall>i < m. 0 < f i" "\<forall>i < n. m \<le> i \<longrightarrow> f i < 0"
      "back_up result recNum = max 0 (int m - 1)" by auto
    moreover have "search_loop test low high result recNum = Done (False, result, recNum)"
      using False by (subst search_loop.simps) simp
    ultimately show ?thesis by blast
  next
    case True
    define k where "k = (low + high) div 2"
    have k: "low \<le> k" "k \<le> high" using True by (auto simp: k_def)
    then have nk: "int (nat k) = k" "nat k < n" using less.prems by auto
    have step: "search_loop test low high result recNum =
        (if f (nat k) < 0 then search_loop test low (k - 1) (f (nat k)) k
         else if f (nat k) > 0 then search_loop test (k + 1) high (f (nat k)) k
         else Done (True, f (nat k), k))"
      using True by (subst search_loop.simps) (simp add: test [OF nk(2)] flip: k_def)
    show ?thesis
    proof (cases "f (nat k)" "0 :: int" rule: linorder_cases)
      case less': less
      have "f i < 0" if "k - 1 < int i" "i < n" for i
      proof (cases "i = nat k")
        case False
        then have "nat k < i" using that k by linarith
        with mono [of "nat k" i] that less' show ?thesis by force
      qed (use less' in simp)
      moreover have "back_up (f (nat k)) k = max 0 (low - 1)" if "k - 1 < low"
        using that k less' less.prems(1) by (auto simp: back_up_def)
      moreover have "search_loop test low high result recNum = search_loop test low (k - 1) (f (nat k)) k"
        using less' by (simp add: step)
      ultimately show ?thesis
        using less.hyps [of "k - 1" low "f (nat k)" k] k less.prems by simp
    next
      case equal
      then show ?thesis using k less.prems nk by (auto simp: step)
    next
      case greater
      have "0 < f i" if "int i < k + 1" for i
      proof (cases "i = nat k")
        case False
        then have "i < nat k" using that k by linarith
        with mono [of i "nat k"] nk greater show ?thesis by simp
      qed (use greater in simp)
      moreover have "back_up (f (nat k)) k = max 0 (k + 1 - 1)"
        using k greater less.prems(1) by (auto simp: back_up_def)
      moreover have "search_loop test low high result recNum = search_loop test (k + 1) high (f (nat k)) k"
        using greater by (simp add: step)
      ultimately show ?thesis
        using less.hyps [of high "k + 1" "f (nat k)" k] k less.prems by simp
    qed
  qed
qed


text \<open>The search depends on the key through its comparisons only.\<close>

lemma btree_search_node_cong:
  "keyCompare k = keyCompare' k' \<Longrightarrow> btree_search_node keyCompare node k = btree_search_node keyCompare' node k'"
  by (simp add: btree_search_node_def)

lemma search_level_cong:
  assumes "keyCompare k = keyCompare' k'"
  shows "search_level keyCompare getNode hdr adjacent k l n history s =
    search_level keyCompare' getNode hdr adjacent k' l n history s"
proof (induction l arbitrary: n history s)
  case (Suc l)
  show ?case by (simp only: search_level.simps Suc.IH assms btree_search_node_cong [of keyCompare k keyCompare' k', OF assms])
qed simp

lemma btree_search_cong:
  "keyCompare k = keyCompare' k' \<Longrightarrow>
   btree_search keyCompare getNode hdr adjacent k s = btree_search keyCompare' getNode hdr adjacent k' s"
  by (simp add: btree_search_def search_level_cong [of keyCompare k keyCompare' k'])

section \<open>What a search relies on\<close>

text \<open>A comparison with stored keys that implements an order on the keys they spell.\<close>

locale stored_keys = key_order compare_keys for compare_keys :: "'k \<Rightarrow> 'k \<Rightarrow> int" +
  fixes keyCompare :: "'k \<Rightarrow> buffer \<Rightarrow> nat \<Rightarrow> int outcome"
    and key_at :: "buffer \<Rightarrow> nat \<Rightarrow> 'k option"
  assumes stored: "key_at m p = Some k' \<Longrightarrow> keyCompare k m p = Done (compare_keys k k')"

text \<open>A source of nodes: in a good state, fetching a node of the tree delivers it and keeps the state good.\<close>

locale node_source =
  fixes getNode :: "u32 \<Rightarrow> 's \<Rightarrow> (int \<times> btnode option \<times> 's) outcome"
    and good :: "'s \<Rightarrow> bool"
    and view :: "u32 \<Rightarrow> btnode option"
  assumes fetch: "good s \<Longrightarrow> view n = Some node \<Longrightarrow> \<exists>s'. getNode n s = Done (0, Some node, s') \<and> good s'"

text \<open>A node that holds the keys \<open>ks\<close>, and the number of keys up to a key.\<close>

definition holds_keys :: "(buffer \<Rightarrow> nat \<Rightarrow> 'k option) \<Rightarrow> btnode \<Rightarrow> 'k list \<Rightarrow> bool" where
  "holds_keys key_at node ks \<longleftrightarrow>
     node_ok node \<and> length ks = unat (nd_numRecords node) \<and>
     (\<forall>i < length ks. key_at (node_data node) (unat (record_offset node i)) = Some (ks ! i) \<and>
        returns (BTGetRecordKeyLength node (of_nat i)))"

definition rank :: "('k \<Rightarrow> 'k \<Rightarrow> int) \<Rightarrow> 'k \<Rightarrow> 'k list \<Rightarrow> nat" where
  "rank c key ks = length (filter (\<lambda>k. c k key \<le> 0) ks)"

lemma length_filter_prefix:
  assumes "m \<le> length ks" "\<And>i. i < m \<Longrightarrow> P (ks ! i)" "\<And>i. m \<le> i \<Longrightarrow> i < length ks \<Longrightarrow> \<not> P (ks ! i)"
  shows "length (filter P ks) = m"
proof -
  have "filter P (take m ks) = take m ks"
    using assms(1,2) by (auto simp: filter_id_conv in_set_conv_nth)
  moreover have "filter P (drop m ks) = []"
    using assms(1,3) by (auto simp: filter_empty_conv in_set_conv_nth)
  moreover have "filter P ks = filter P (take m ks) @ filter P (drop m ks)" by (simp flip: filter_append)
  ultimately show ?thesis using assms(1) by simp
qed

lemma holds_keys_record:
  assumes "holds_keys key_at node ks" "i < length ks"
  obtains d where "btree_get_record node (of_nat i) = Done (Some (unat (record_offset node i), d))"
proof -
  from assms have ok: "node_ok node" and n: "i < unat (nd_numRecords node)"
    and kl: "returns (BTGetRecordKeyLength node (of_nat i))" by (auto simp: holds_keys_def)
  have "i < 2 ^ 16" using n unat_bound [of "nd_numRecords node"] by simp
  then have u: "unat (of_nat i :: u16) = i" by (intro unat_of_nat_small) simp
  have "BTGetRecord node (of_nat i) = Done (unat (record_offset node i))"
    using BTGetRecordOffset_ok [OF ok, of "of_nat i"] n by (simp add: BTGetRecord_def u)
  moreover have "\<not> nd_numRecords node \<le> of_nat i" using n by (simp add: word_le_nat_alt u)
  ultimately show thesis
    using kl that by (auto simp: btree_get_record_def returns_iff)
qed


context stored_keys
begin

lemma key_le_iff: "compare_keys k key \<le> 0 \<longleftrightarrow> 0 \<le> compare_keys key k"
  using anti [of k key] by simp

lemma ascending_desc:
  assumes "ascending_keys ks" "i < j" "j < length ks" "0 \<le> compare_keys key (ks ! j)"
  shows "0 < compare_keys key (ks ! i)"
  using less_trans [of "ks ! i" "ks ! j" key] ascending_keysD [OF assms(1-3)] assms(4)
    less_iff(1) [of "ks ! i" key] by (simp add: key_le_iff)

lemma rank_prefix:
  assumes "m \<le> length ks" "\<And>i. i < m \<Longrightarrow> 0 \<le> compare_keys key (ks ! i)"
    "\<And>i. m \<le> i \<Longrightarrow> i < length ks \<Longrightarrow> compare_keys key (ks ! i) < 0"
  shows "rank compare_keys key ks = m"
  unfolding rank_def
proof (rule length_filter_prefix [OF assms(1)])
  show "i < m \<Longrightarrow> compare_keys (ks ! i) key \<le> 0" for i using assms(2) by (simp add: key_le_iff)
  show "m \<le> i \<Longrightarrow> i < length ks \<Longrightarrow> \<not> compare_keys (ks ! i) key \<le> 0" for i
    using assms(3) [of i] by (simp add: key_le_iff)
qed

lemma rank_exact:
  assumes asc: "ascending_keys ks" and i: "i < length ks" "compare_keys key (ks ! i) = 0"
  shows "rank compare_keys key ks = i + 1"
proof (rule rank_prefix)
  show "0 \<le> compare_keys key (ks ! j)" if "j < i + 1" for j
    using that i ascending_desc [OF asc, of j i key] by (cases "j = i") simp_all
  show "compare_keys key (ks ! j) < 0" if j: "i + 1 \<le> j" "j < length ks" for j
  proof (rule ccontr)
    assume "\<not> compare_keys key (ks ! j) < 0"
    then have "0 < compare_keys key (ks ! i)" using j by (intro ascending_desc [OF asc, of i j key]) simp_all
    with i(2) show False by simp
  qed
qed (use i in simp)

lemma search_node:
  assumes holds: "holds_keys key_at node ks" and asc: "ascending_keys ks"
  shows "\<exists>i. btree_search_node keyCompare node key =
      Done (\<exists>k \<in> set ks. compare_keys key k = 0, i) \<and> unat i = rank compare_keys key ks - 1"
proof -
  define test where "test = (\<lambda>recNum.
            obind (btree_get_record node (of_nat recNum)) (\<lambda>r.
              case r of None \<Rightarrow> Fault
              | Some (testKey, _) \<Rightarrow> keyCompare key (node_data node) testKey))"
  let ?f = "\<lambda>i. compare_keys key (ks ! i)"
  have n: "length ks = unat (nd_numRecords node)" using holds by (simp add: holds_keys_def)
  have test: "test i = Done (?f i)" if i: "i < length ks" for i
  proof -
    obtain d where "btree_get_record node (of_nat i) = Done (Some (unat (record_offset node i), d))"
      by (rule holds_keys_record [OF holds i])
    moreover have "key_at (node_data node) (unat (record_offset node i)) = Some (ks ! i)"
      using holds i by (simp add: holds_keys_def)
    ultimately show ?thesis by (simp add: test_def stored)
  qed
  have "\<exists>found r k. search_loop test 0 (int (length ks) - 1) 0 0 = Done (found, r, k) \<and>
    (found \<longrightarrow> 0 \<le> k \<and> k < int (length ks) \<and> ?f (nat k) = 0) \<and>
    (\<not> found \<longrightarrow> (\<exists>m \<le> length ks. (\<forall>i < m. 0 < ?f i) \<and> (\<forall>i < length ks. m \<le> i \<longrightarrow> ?f i < 0) \<and>
        back_up r k = max 0 (int m - 1)))"
    using test ascending_desc [OF asc]
    by (intro search_loop_spec [where f = ?f]) (auto simp: back_up_def)
  then obtain found r k where loop: "search_loop test 0 (int (length ks) - 1) 0 0 = Done (found, r, k)"
    and hit: "found \<Longrightarrow> 0 \<le> k \<and> k < int (length ks) \<and> ?f (nat k) = 0"
    and miss: "\<not> found \<Longrightarrow> \<exists>m \<le> length ks. (\<forall>i < m. 0 < ?f i) \<and>
        (\<forall>i < length ks. m \<le> i \<longrightarrow> ?f i < 0) \<and> back_up r k = max 0 (int m - 1)" by blast
  define idx where "idx = (if \<not> found \<and> k \<noteq> 0 \<and> r < 0 then k - 1 else k)"
  have res: "btree_search_node keyCompare node key = Done (found, word_of_int idx)"
    unfolding btree_search_node_def Let_def test_def [symmetric] n [symmetric]
    by (simp add: loop idx_def)
  have small: "length ks < 2 ^ 16" using n unat_bound [of "nd_numRecords node"] by simp
  show ?thesis
  proof (cases found)
    case True
    let ?i = "nat k"
    from hit [OF True] have i: "?i < length ks" "?f ?i = 0" "int ?i = k" by auto
    have "rank compare_keys key ks = ?i + 1" using i by (intro rank_exact [OF asc]) simp_all
    moreover have "unat (word_of_int idx :: u16) = ?i"
    proof -
      have "idx = int ?i" using True i(3) by (simp only: idx_def) simp
      moreover have "unat (of_nat ?i :: u16) = ?i" using i(1) small by (intro unat_of_nat_small) simp
      ultimately show ?thesis by (simp only: of_int_of_nat_eq)
    qed
    moreover have "\<exists>k \<in> set ks. compare_keys key k = 0" using i nth_mem by blast
    ultimately show ?thesis using res True by simp
  next
    case False
    from miss [OF False] obtain m where m: "m \<le> length ks" "\<And>i. i < m \<Longrightarrow> 0 < ?f i"
      "\<And>i. i < length ks \<Longrightarrow> m \<le> i \<Longrightarrow> ?f i < 0" "back_up r k = max 0 (int m - 1)" by blast
    have "rank compare_keys key ks = m" using m by (intro rank_prefix) (auto intro: less_imp_le)
    moreover have "idx = int (m - 1)" using m(4) False by (auto simp: idx_def back_up_def)
    then have "unat (word_of_int idx :: u16) = m - 1"
      using m(1) small unat_of_nat_small [of "m - 1", where 'a = 16] by simp
    moreover have "\<not> (\<exists>k \<in> set ks. compare_keys key k = 0)"
      using m(2,3) by (metis in_set_conv_nth less_irrefl not_le)
    ultimately show ?thesis using res False by simp
  qed
qed

end

section \<open>The search of a tree\<close>

text \<open>
  \<open>subtree view key_at c maxnode l n ks\<close>: node \<open>n\<close> is the root of a tree of \<open>l\<close> levels whose leaves
  hold the keys \<open>ks\<close>, from left to right, and the key of an index record equals the first key below its
  child in the order \<open>c\<close>.
\<close>

definition child_pointer :: "btnode \<Rightarrow> u16 \<Rightarrow> u32 outcome" where
  "child_pointer node i =
     obind (BTGetBTNodeRecord node i) (\<lambda>r. load (node_data node) (rec_value r))"

inductive subtree ::
  "(u32 \<Rightarrow> btnode option) \<Rightarrow> (buffer \<Rightarrow> nat \<Rightarrow> 'k option) \<Rightarrow> ('k \<Rightarrow> 'k \<Rightarrow> int) \<Rightarrow> u32 \<Rightarrow>
   nat \<Rightarrow> u32 \<Rightarrow> 'k list \<Rightarrow> bool"
  for view and key_at and c and maxnode where
  subtree_leaf:
    "view n = Some node \<Longrightarrow> n \<noteq> 0 \<Longrightarrow> n \<le> maxnode \<Longrightarrow> unat (nd_height node) = 1 \<Longrightarrow>
     nd_kind node = kBTLeafNode \<Longrightarrow> holds_keys key_at node ks \<Longrightarrow>
     subtree view key_at c maxnode 1 n ks"
| subtree_index:
    "view n = Some node \<Longrightarrow> n \<noteq> 0 \<Longrightarrow> n \<le> maxnode \<Longrightarrow> unat (nd_height node) = Suc l \<Longrightarrow> 1 \<le> l \<Longrightarrow>
     nd_kind node = kBTIndexNode \<Longrightarrow> holds_keys key_at node is \<Longrightarrow> is \<noteq> [] \<Longrightarrow> length kss = length is \<Longrightarrow>
     (\<And>i. i < length is \<Longrightarrow> child_pointer node (of_nat i) = Done (cs i)) \<Longrightarrow>
     (\<And>i. i < length is \<Longrightarrow> subtree view key_at c maxnode l (cs i) (kss ! i)) \<Longrightarrow>
     (\<And>i. i < length is \<Longrightarrow> kss ! i \<noteq> [] \<and> c (hd (kss ! i)) (is ! i) = 0) \<Longrightarrow>
     subtree view key_at c maxnode (Suc l) n (concat kss)"

inductive_cases subtree_cases: "subtree view key_at c maxnode l n ks"

lemma subtree_node:
  assumes "subtree view key_at c maxnode l n ks"
  obtains node where "view n = Some node" "n \<noteq> 0" "n \<le> maxnode" "unat (nd_height node) = l" "1 \<le> l"
  using assms by (cases rule: subtree.cases) auto

text \<open>A history that knows only nodes above the level does not contain a node of the level.\<close>

lemma lfind_misses:
  assumes "\<And>j. j < length history \<Longrightarrow> history ! j \<noteq> key" "i + n < length history"
  shows "lfind_icmp key adj history i n = Done False"
  using assms(2)
proof (induction n arbitrary: i)
  case (Suc n)
  have "history ! i \<noteq> key" using Suc.prems by (intro assms(1)) simp
  with Suc show ?case by simp
qed simp

definition above :: "(u32 \<Rightarrow> btnode option) \<Rightarrow> nat \<Rightarrow> u32 list \<Rightarrow> bool" where
  "above view l history \<longleftrightarrow>
     (\<forall>h \<in> set history. h = 0 \<or> (\<exists>node. view h = Some node \<and> l < unat (nd_height node)))"

lemma above_start: "above view l (replicate n 0)"
  by (simp add: above_def)

lemma above_miss:
  assumes "above view l history" "view n = Some node" "n \<noteq> 0" "unat (nd_height node) \<le> l" "j < length history"
  shows "history ! j \<noteq> n"
  using assms nth_mem [OF assms(5)] by (fastforce simp: above_def)

lemma above_step:
  assumes "above view (Suc l) history" "view n = Some node" "unat (nd_height node) = Suc l"
  shows "above view l (history[j := n])"
  using assms set_update_subset_insert [of history j n] by (fastforce simp: above_def)

context stored_keys
begin

lemma ascending_sorted: "ascending_keys ks \<longleftrightarrow> sorted_wrt (\<lambda>a b. compare_keys a b < 0) ks"
  by (auto simp: ascending_keys_def sorted_wrt_iff_nth_less)

lemma rank_Nil [simp]: "rank compare_keys key [] = 0"
  and rank_Cons: "rank compare_keys key (k # ks) =
    (if compare_keys k key \<le> 0 then 1 else 0) + rank compare_keys key ks"
  and rank_append: "rank compare_keys key (ks @ ls) = rank compare_keys key ks + rank compare_keys key ls"
  by (simp_all add: rank_def)

lemma rank_zero: "(\<And>k. k \<in> set ks \<Longrightarrow> compare_keys key k < 0) \<Longrightarrow> rank compare_keys key ks = 0"
  by (auto simp: rank_def filter_empty_conv key_le_iff not_le)

lemma rank_all: "(\<And>k. k \<in> set ks \<Longrightarrow> compare_keys k key \<le> 0) \<Longrightarrow> rank compare_keys key ks = length ks"
  by (auto simp: rank_def filter_id_conv)

lemma rank_le: "rank compare_keys key ks \<le> length ks"
  by (simp add: rank_def)

lemma rank_nth:
  assumes "ascending_keys ks" "i < length ks"
  shows "compare_keys (ks ! i) key \<le> 0 \<longleftrightarrow> i < rank compare_keys key ks"
  using assms
proof (induction ks arbitrary: i)
  case (Cons k ks)
  then have asc: "ascending_keys ks" and first: "\<And>x. x \<in> set ks \<Longrightarrow> compare_keys k x < 0"
    by (simp_all add: ascending_sorted)
  show ?case
  proof (cases "compare_keys k key \<le> 0")
    case True
    with Cons.IH [OF asc] Cons.prems(2) show ?thesis by (cases i) (simp_all add: rank_Cons)
  next
    case False
    then have lt: "compare_keys key k < 0" by (simp add: key_le_iff)
    then have all: "compare_keys key x < 0" if "x \<in> set ks" for x
      using first [OF that] less_trans [of key k x] by simp
    then have "rank compare_keys key (k # ks) = 0" using False by (simp add: rank_Cons rank_zero)
    moreover have "\<not> compare_keys ((k # ks) ! i) key \<le> 0"
      using lt all Cons.prems(2) by (cases i) (simp_all add: key_le_iff not_le)
    ultimately show ?thesis by simp
  qed
qed simp

lemma exact_iff:
  assumes "ascending_keys ks" "0 < rank compare_keys key ks"
  shows "(\<exists>k \<in> set ks. compare_keys key k = 0) \<longleftrightarrow> compare_keys key (ks ! (rank compare_keys key ks - 1)) = 0"
proof
  let ?r = "rank compare_keys key ks - 1"
  assume "\<exists>k \<in> set ks. compare_keys key k = 0"
  then obtain j where j: "j < length ks" "compare_keys key (ks ! j) = 0" by (auto simp: in_set_conv_nth)
  with rank_exact [OF assms(1) j] show "compare_keys key (ks ! ?r) = 0" by simp
next
  assume "compare_keys key (ks ! (rank compare_keys key ks - 1)) = 0"
  moreover have "rank compare_keys key ks - 1 < length ks" using assms(2) rank_le [of key ks] by linarith
  ultimately show "\<exists>k \<in> set ks. compare_keys key k = 0" using nth_mem by blast
qed

text \<open>Among consecutive runs of keys, the run whose first key is the last one up to the search key.\<close>

lemma rank_run:
  assumes asc: "ascending_keys (A @ B @ C)" and B: "B \<noteq> []" "compare_keys (hd B) key \<le> 0"
    and C: "C \<noteq> [] \<Longrightarrow> compare_keys key (hd C) < 0"
  shows "rank compare_keys key (A @ B @ C) = length A + rank compare_keys key B"
    and "0 < rank compare_keys key B"
    and "(\<exists>k \<in> set (A @ B @ C). compare_keys key k = 0) \<longleftrightarrow> (\<exists>k \<in> set B. compare_keys key k = 0)"
proof -
  have s: "sorted_wrt (\<lambda>a b. compare_keys a b < 0) (A @ B @ C)" using asc by (simp add: ascending_sorted)
  have inA: "compare_keys a key < 0" if "a \<in> set A" for a
  proof -
    have "compare_keys a (hd B) < 0" using s that B(1) by (simp add: sorted_wrt_append)
    with B(2) show ?thesis by (rule less_trans [rotated])
  qed
  have inC: "compare_keys key c < 0" if "c \<in> set C" for c
  proof (cases C)
    case (Cons d ds)
    with C have "compare_keys key d < 0" by simp
    moreover have "c = d \<or> compare_keys d c < 0" using s that by (auto simp: Cons sorted_wrt_append)
    ultimately show ?thesis using less_trans [of key d c] by auto
  qed (use that in simp)
  show "rank compare_keys key (A @ B @ C) = length A + rank compare_keys key B"
    using inA inC by (simp add: rank_append rank_zero rank_all less_imp_le)
  show "0 < rank compare_keys key B" using B by (cases B) (simp_all add: rank_Cons)
  have "compare_keys key a \<noteq> 0" if "a \<in> set A" for a
    using inA [OF that] anti [of a key] by simp
  moreover have "compare_keys key c \<noteq> 0" if "c \<in> set C" for c using inC [OF that] by simp
  ultimately show "(\<exists>k \<in> set (A @ B @ C). compare_keys key k = 0) \<longleftrightarrow> (\<exists>k \<in> set B. compare_keys key k = 0)"
    by auto
qed

lemma index_keys_ascending:
  assumes "ascending_keys (concat kss)" "length kss = length is"
    "\<And>i. i < length is \<Longrightarrow> kss ! i \<noteq> [] \<and> compare_keys (hd (kss ! i)) (is ! i) = 0"
  shows "ascending_keys is"
  using assms
proof (induction kss arbitrary: "is")
  case (Cons xs kss)
  then obtain i "is'" where i: "is = i # is'" by (cases "is") auto
  have xs: "xs \<noteq> []" "compare_keys (hd xs) i = 0" using Cons.prems(3) [of 0] by (simp_all add: i)
  have rest: "kss ! j \<noteq> [] \<and> compare_keys (hd (kss ! j)) (is' ! j) = 0" if "j < length is'" for j
    using Cons.prems(3) [of "Suc j"] that by (simp add: i)
  have "compare_keys i k < 0" if k: "k \<in> set is'" for k
  proof -
    obtain j where j: "j < length is'" "k = is' ! j" using k by (auto simp: in_set_conv_nth)
    let ?h = "hd (kss ! j)"
    have "?h \<in> set (kss ! j)" using rest [OF j(1)] by simp
    moreover have "kss ! j \<in> set kss" using j Cons.prems(2) i by simp
    ultimately have "?h \<in> set (concat kss)" by auto
    then have "compare_keys (hd xs) ?h < 0"
      using Cons.prems(1) xs(1) by (auto simp: ascending_sorted sorted_wrt_append)
    then show ?thesis using eq_left [OF xs(2)] eq_right [of ?h k] rest [OF j(1)] j(2) by simp
  qed
  moreover have "ascending_keys is'"
    using Cons.IH [OF _ _ rest] Cons.prems(1,2) i by (simp add: ascending_sorted sorted_wrt_append)
  ultimately show ?case by (simp add: ascending_sorted i)
qed simp

end

text \<open>A tree that can be searched: an order on its stored keys, and a source of its nodes.\<close>

locale search_tree = stored_keys compare_keys keyCompare key_at + node_source getNode good view
  for compare_keys :: "'k \<Rightarrow> 'k \<Rightarrow> int" and keyCompare :: "'k \<Rightarrow> buffer \<Rightarrow> nat \<Rightarrow> int outcome"
    and key_at :: "buffer \<Rightarrow> nat \<Rightarrow> 'k option"
    and getNode :: "u32 \<Rightarrow> 's \<Rightarrow> (int \<times> btnode option \<times> 's) outcome" and good :: "'s \<Rightarrow> bool"
    and view :: "u32 \<Rightarrow> btnode option"
begin

text \<open>One turn of the loop, once the checks on the node have passed.\<close>

lemma search_level_step:
  assumes "view n = Some node" "n \<noteq> 0" "n \<le> totalNodes hdr" "unat (nd_height node) = Suc lv"
    and "if Suc lv = 1 then nd_kind node = kBTLeafNode else nd_kind node = kBTIndexNode"
    and "above view (Suc lv) history" "length history = 256" "unat (treeDepth hdr) < 256" "good s"
  shows "\<exists>s'. good s' \<and> search_level keyCompare getNode hdr adjacent key (Suc lv) n history s =
    obind (btree_search_node keyCompare node key) (\<lambda>(search_result, searchIndex).
      if nd_kind node = kBTLeafNode then Done (search_result, Some (node, searchIndex), s')
      else
        obind (BTGetBTNodeRecord node searchIndex) (\<lambda>currentRecord.
        obind (load (node_data node) (rec_value currentRecord)) (\<lambda>next :: u32.
        if next = 0 then Critical
        else
          obind (keyCompare key (node_data node) (unat (rec_offset currentRecord))) (\<lambda>c.
          if c = - 1 then Critical
          else search_level keyCompare getNode hdr adjacent key lv next (history[lv := n]) s'))))"
proof -
  have "lfind_icmp n (adjacent (Suc lv)) history 0 (unat (treeDepth hdr)) = Done False"
    using assms above_miss [OF assms(6,1,2)] by (intro lfind_misses) simp_all
  moreover have "lv < 256" using assms(4) unat_bound [of "nd_height node"] by simp
  moreover obtain s' where "getNode n s = Done (0, Some node, s')" "good s'"
    using fetch [OF assms(9,1)] by blast
  ultimately have "search_level keyCompare getNode hdr adjacent key (Suc lv) n history s =
    obind (btree_search_node keyCompare node key) (\<lambda>(search_result, searchIndex).
      if nd_kind node = kBTLeafNode then Done (search_result, Some (node, searchIndex), s')
      else
        obind (BTGetBTNodeRecord node searchIndex) (\<lambda>currentRecord.
        obind (load (node_data node) (rec_value currentRecord)) (\<lambda>next :: u32.
        if next = 0 then Critical
        else
          obind (keyCompare key (node_data node) (unat (rec_offset currentRecord))) (\<lambda>c.
          if c = - 1 then Critical
          else search_level keyCompare getNode hdr adjacent key lv next (history[lv := n]) s'))))"
    using assms(3,4,5,7) by (auto simp: Let_def not_less)
  with \<open>good s'\<close> show ?thesis by blast
qed

lemma index_record:
  assumes holds: "holds_keys key_at node is" and i: "unat i < length is"
    and child: "child_pointer node i = Done c"
  obtains r where "BTGetBTNodeRecord node i = Done r" "load (node_data node) (rec_value r) = Done c"
    and "key_at (node_data node) (unat (rec_offset r)) = Some (is ! unat i)"
proof -
  from child obtain r where r: "BTGetBTNodeRecord node i = Done r" and v: "load (node_data node) (rec_value r) = Done c"
    by (auto simp: child_pointer_def obind_Done_iff)
  have "BTGetRecordOffset node i = Done (record_offset node (unat i))"
    using holds i by (intro BTGetRecordOffset_ok) (simp_all add: holds_keys_def)
  with r have "rec_offset r = record_offset node (unat i)"
    by (auto simp: BTGetBTNodeRecord_def obind_Done_iff Let_def)
  then have "key_at (node_data node) (unat (rec_offset r)) = Some (is ! unat i)"
    using holds i by (simp add: holds_keys_def)
  with r v show thesis by (rule that)
qed

text \<open>
  The descent ends in a leaf, at the record with the greatest key up to the search key, and tells
  whether that key is equal.
\<close>

definition lands :: "'k \<Rightarrow> 'k list \<Rightarrow> (bool \<times> (btnode \<times> u16) option \<times> 's) outcome \<Rightarrow> bool" where
  "lands key ks r \<longleftrightarrow>
     (\<exists>node i s'. r = Done (\<exists>k \<in> set ks. compare_keys key k = 0, Some (node, i), s') \<and> good s' \<and>
        (\<exists>n. view n = Some node) \<and> nd_kind node = kBTLeafNode \<and>
        (\<exists>ls. holds_keys key_at node ls \<and> set ls \<subseteq> set ks \<and> unat i = rank compare_keys key ls - 1 \<and>
          (0 < rank compare_keys key ks \<longrightarrow>
             unat i < length ls \<and> ls ! unat i = ks ! (rank compare_keys key ks - 1))))"

lemma lands_run:
  assumes "lands key B r" and asc: "ascending_keys (A @ B @ C)" and B: "B \<noteq> []" "compare_keys (hd B) key \<le> 0"
    and C: "C \<noteq> [] \<Longrightarrow> compare_keys key (hd C) < 0"
  shows "lands key (A @ B @ C) r"
proof -
  have run: "rank compare_keys key (A @ B @ C) = length A + rank compare_keys key B"
    "0 < rank compare_keys key B"
    "(\<exists>k \<in> set (A @ B @ C). compare_keys key k = 0) \<longleftrightarrow> (\<exists>k \<in> set B. compare_keys key k = 0)"
    using rank_run [of A B C key] asc B C by blast+
  have "(A @ B @ C) ! (rank compare_keys key (A @ B @ C) - 1) = B ! (rank compare_keys key B - 1)"
  proof -
    have "rank compare_keys key (A @ B @ C) - 1 = length A + (rank compare_keys key B - 1)"
      using run(1,2) by simp
    moreover have "rank compare_keys key B - 1 < length B" using run(2) rank_le [of key B] by linarith
    ultimately show ?thesis by (simp only: nth_append_length_plus nth_append_left)
  qed
  note eq = this
  from assms(1) obtain node i s' ls where
    "r = Done (\<exists>k \<in> set B. compare_keys key k = 0, Some (node, i), s')" "good s'"
    "\<exists>n. view n = Some node" "nd_kind node = kBTLeafNode" "holds_keys key_at node ls" "set ls \<subseteq> set B"
    "unat i = rank compare_keys key ls - 1" "unat i < length ls" "ls ! unat i = B ! (rank compare_keys key B - 1)"
    using run(2) unfolding lands_def by blast
  moreover from this have "set ls \<subseteq> set (A @ B @ C)" by auto
  ultimately show ?thesis unfolding lands_def run(3) eq by blast
qed

lemma search_level_lands:
  assumes "subtree view key_at compare_keys (totalNodes hdr) l n ks" "ascending_keys ks"
    and "1 < l \<Longrightarrow> compare_keys (hd ks) key \<le> 0"
    and "above view l history" "length history = 256" "unat (treeDepth hdr) < 256" "good s"
  shows "lands key ks (search_level keyCompare getNode hdr adjacent key l n history s)"
  using assms
proof (induction arbitrary: history s rule: subtree.induct)
  case (subtree_leaf n node ks)
  have k: "if Suc 0 = 1 then nd_kind node = kBTLeafNode else nd_kind node = kBTIndexNode"
    using subtree_leaf by simp
  obtain s' where s': "good s'" and step:
    "search_level keyCompare getNode hdr adjacent key (Suc 0) n history s =
      obind (btree_search_node keyCompare node key) (\<lambda>(search_result, searchIndex).
        Done (search_result, Some (node, searchIndex), s'))"
    using search_level_step [OF subtree_leaf(1,2,3) _ k, of history s adjacent key] subtree_leaf by auto
  obtain i where i: "btree_search_node keyCompare node key = Done (\<exists>k \<in> set ks. compare_keys key k = 0, i)"
    "unat i = rank compare_keys key ks - 1"
    using search_node [OF subtree_leaf(6,7)] by blast
  have "lands key ks (Done (\<exists>k \<in> set ks. compare_keys key k = 0, Some (node, i), s'))"
    unfolding lands_def using s' i(2) subtree_leaf(1,5,6) rank_le [of key ks] by fastforce
  with step i(1) show ?case by simp
next
  case (subtree_index n node l "is" kss cs)
  note h = subtree_index.hyps and p = subtree_index.prems
  let ?ks = "concat kss"
  have asc_is: "ascending_keys is" using p(1) h(9,12) by (rule index_keys_ascending)
  have k: "if Suc l = 1 then nd_kind node = kBTLeafNode else nd_kind node = kBTIndexNode"
    using h(5,6) by simp
  obtain s' where s': "good s'" and step:
    "search_level keyCompare getNode hdr adjacent key (Suc l) n history s =
    obind (btree_search_node keyCompare node key) (\<lambda>(search_result, searchIndex).
        obind (BTGetBTNodeRecord node searchIndex) (\<lambda>currentRecord.
        obind (load (node_data node) (rec_value currentRecord)) (\<lambda>next :: u32.
        if next = 0 then Critical
        else
          obind (keyCompare key (node_data node) (unat (rec_offset currentRecord))) (\<lambda>c.
          if c = - 1 then Critical
          else search_level keyCompare getNode hdr adjacent key l next (history[l := n]) s'))))"
    using search_level_step [OF h(1-4) k p(3-6), of adjacent key] h(6)
    by auto
  obtain i where i: "btree_search_node keyCompare node key = Done (\<exists>k \<in> set is. compare_keys key k = 0, i)"
    "unat i = rank compare_keys key is - 1"
    using search_node [OF h(7) asc_is] by blast
  define j where "j = unat i"
  have ofj: "of_nat j = i" by (simp add: j_def)
  have ne: "kss \<noteq> []" "kss ! 0 \<noteq> []" "compare_keys (hd (kss ! 0)) (is ! 0) = 0"
    using h(8,9) h(12) [of 0] by auto
  then have "hd ?ks = hd (kss ! 0)" by (cases kss) simp_all
  with h(5) p(2) have "compare_keys (is ! 0) key \<le> 0" using eq_left [OF ne(3), of key] by simp
  then have pos: "0 < rank compare_keys key is" using rank_nth [OF asc_is] h(8) by simp
  then have j: "j < length is" "compare_keys (is ! j) key \<le> 0"
    using i(2) rank_le [of key "is"] rank_nth [OF asc_is, of j key] by (simp_all add: j_def)
  let ?A = "concat (take j kss)" and ?B = "kss ! j" and ?C = "concat (drop (Suc j) kss)"
  have split: "?ks = ?A @ ?B @ ?C"
    using j(1) h(9) by (metis concat.simps(2) concat_append id_take_nth_drop)
  have B: "?B \<noteq> []" "compare_keys (hd ?B) key \<le> 0"
    using h(12) [OF j(1)] eq_left [of "hd ?B" "is ! j" key] j(2) by simp_all
  have C: "compare_keys key (hd ?C) < 0" if "?C \<noteq> []"
  proof -
    from that have j': "Suc j < length is" using h(9) by (cases "Suc j < length is") auto
    then have "compare_keys (hd ?C) (is ! Suc j) = 0"
      using h(12) [OF j'] h(9) by (simp flip: Cons_nth_drop_Suc)
    then have "compare_keys key (hd ?C) = compare_keys key (is ! Suc j)" by (rule eq_right)
    moreover have "\<not> compare_keys (is ! Suc j) key \<le> 0"
      using rank_nth [OF asc_is j'] i(2) pos by (simp add: j_def)
    ultimately show ?thesis by (simp add: key_le_iff)
  qed
  obtain r where r: "BTGetBTNodeRecord node i = Done r" "load (node_data node) (rec_value r) = Done (cs j)"
    and key_r: "key_at (node_data node) (unat (rec_offset r)) = Some (is ! unat i)"
    using index_record [OF h(7), of i "cs j"] j(1) h(10) [OF j(1)]
    by (auto simp: ofj simp flip: j_def)
  have "cs j \<noteq> 0" using h(11) [OF j(1)] by (auto elim: subtree_node)
  moreover have "compare_keys key (is ! j) \<noteq> - 1" using j(2) by (simp add: key_le_iff)
  ultimately have go: "search_level keyCompare getNode hdr adjacent key (Suc l) n history s =
      search_level keyCompare getNode hdr adjacent key l (cs j) (history[l := n]) s'"
    using stored [OF key_r, of key] unfolding step i(1)
    by (simp add: r del: search_level.simps flip: j_def)
  have "lands key ?B (search_level keyCompare getNode hdr adjacent key l (cs j) (history[l := n]) s')"
  proof (rule subtree_index.IH [OF j(1)])
    show "ascending_keys ?B" using p(1) unfolding split by (simp add: ascending_sorted sorted_wrt_append)
    show "above view l (history[l := n])" using p(3) h(1,4) by (rule above_step)
  qed (use B s' p in simp_all)
  then show ?case unfolding go split by (rule lands_run [OF _ p(1)[unfolded split] B C])
qed

lemma search_lands:
  assumes "subtree view key_at compare_keys (totalNodes hdr) (unat (treeDepth hdr)) (rootNode hdr) ks" "ascending_keys ks"
    and "1 < treeDepth hdr \<Longrightarrow> compare_keys (hd ks) key \<le> 0" and "good s"
  shows "lands key ks (btree_search keyCompare getNode hdr adjacent key s)"
proof -
  obtain node where d: "unat (nd_height node) = unat (treeDepth hdr)" "1 \<le> unat (treeDepth hdr)"
    using subtree_node [OF assms(1)] by metis
  then have "unat (treeDepth hdr) < 256" using unat_bound [of "nd_height node"] by simp
  moreover have "compare_keys (hd ks) key \<le> 0" if "1 < unat (treeDepth hdr)"
    using assms(3) that by (simp add: word_less_nat_alt)
  ultimately have "lands key ks (search_level keyCompare getNode hdr adjacent key (unat (treeDepth hdr))
      (rootNode hdr) (replicate 256 0) s)"
    using assms(4) by (intro search_level_lands [OF assms(1,2)] above_start) simp_all
  moreover have "treeDepth hdr \<noteq> 0" using d(2) by auto
  ultimately show ?thesis by (simp add: btree_search_def)
qed

text \<open>In a tree with index nodes, a search for a key before the first one is aborted.\<close>

lemma search_before_first:
  assumes tree: "subtree view key_at compare_keys (totalNodes hdr) (unat (treeDepth hdr)) (rootNode hdr) ks"
    and asc: "ascending_keys ks" and deep: "1 < treeDepth hdr" and key: "compare_keys key (hd ks) < 0" and "good s"
  shows "btree_search keyCompare getNode hdr adjacent key s = Critical"
  using tree
proof (cases rule: subtree.cases)
  case subtree_leaf
  then show ?thesis using deep by (simp add: word_less_nat_alt)
next
  case (subtree_index node l "is" kss cs)
  note h = subtree_index
  have d: "unat (treeDepth hdr) < 256" using h(6) unat_bound [of "nd_height node"] by (simp add: h(1))
  have asc_is: "ascending_keys is"
    using asc h(11,14) unfolding h(2) by (rule index_keys_ascending)
  have k: "if Suc l = 1 then nd_kind node = kBTLeafNode else nd_kind node = kBTIndexNode"
    using h(7,8) by simp
  obtain s' where step:
    "search_level keyCompare getNode hdr adjacent key (Suc l) (rootNode hdr) (replicate 256 0) s =
    obind (btree_search_node keyCompare node key) (\<lambda>(search_result, searchIndex).
        obind (BTGetBTNodeRecord node searchIndex) (\<lambda>currentRecord.
        obind (load (node_data node) (rec_value currentRecord)) (\<lambda>next :: u32.
        if next = 0 then Critical
        else
          obind (keyCompare key (node_data node) (unat (rec_offset currentRecord))) (\<lambda>c.
          if c = - 1 then Critical
          else search_level keyCompare getNode hdr adjacent key l next
                 ((replicate 256 0)[l := rootNode hdr]) s'))))"
    using search_level_step [OF h(3-6) k above_start _ d \<open>good s\<close>, where adjacent = adjacent and key = key] h(8) by auto
  have ne: "kss \<noteq> []" "kss ! 0 \<noteq> []" "compare_keys (hd (kss ! 0)) (is ! 0) = 0"
    using h(10,11) h(14) [of 0] by auto
  then have "hd ks = hd (kss ! 0)" unfolding h(2) by (cases kss) simp_all
  with key have lt: "compare_keys key (is ! 0) < 0" using eq_right [OF ne(3), of key] by simp
  then have "rank compare_keys key is = 0"
    using rank_nth [OF asc_is, of 0 key] h(10) by (simp add: key_le_iff)
  then obtain i b where i: "btree_search_node keyCompare node key = Done (b, i)" "unat i = 0"
    using search_node [OF h(9) asc_is, of key] by auto
  have "of_nat (unat i) = i" by simp
  then have "of_nat 0 = i" by (simp only: i(2))
  then obtain r where r: "BTGetBTNodeRecord node i = Done r" "load (node_data node) (rec_value r) = Done (cs 0)"
    and key_r: "key_at (node_data node) (unat (rec_offset r)) = Some (is ! unat i)"
    using index_record [OF h(9), of i "cs 0"] h(12) [of 0] h(10) by auto
  have "compare_keys key (is ! 0) = - 1" using lt less_iff(2) by blast
  moreover have "cs 0 \<noteq> 0" using h(13) [of 0] h(10) by (auto elim: subtree_node)
  ultimately have "search_level keyCompare getNode hdr adjacent key (Suc l) (rootNode hdr) (replicate 256 0) s = Critical"
    using stored [OF key_r, of key] i(2) unfolding step i(1) by (simp add: r del: search_level.simps)
  moreover have "treeDepth hdr \<noteq> 0" using h(1) by auto
  ultimately show ?thesis by (simp add: btree_search_def h(1) del: search_level.simps)
qed

end

section \<open>The walk\<close>

text \<open>
  The nodes of a chain of forward links, and a source of nodes beside which the visits of the walk are
  logged.
\<close>

fun chain :: "(u32 \<Rightarrow> btnode option) \<Rightarrow> u32 \<Rightarrow> btnode list \<Rightarrow> bool" where
  "chain view n [] \<longleftrightarrow> False"
| "chain view n [node] \<longleftrightarrow> view n = Some node \<and> sint (nd_fLink node) \<le> 0"
| "chain view n (node # nodes) \<longleftrightarrow>
     view n = Some node \<and> 0 < sint (nd_fLink node) \<and> chain view (nd_fLink node) nodes"

definition logging ::
  "(u32 \<Rightarrow> 's \<Rightarrow> (int \<times> btnode option \<times> 's) outcome) \<Rightarrow>
   u32 \<Rightarrow> 's \<times> btnode list \<Rightarrow> (int \<times> btnode option \<times> 's \<times> btnode list) outcome" where
  "logging getNode n sl =
     obind (getNode n (fst sl)) (\<lambda>(rc, node, s). Done (rc, node, s, snd sl))"

definition visit :: "btnode \<Rightarrow> 's \<times> btnode list \<Rightarrow> 's \<times> btnode list" where
  "visit node sl = (fst sl, snd sl @ [node])"

lemma logging_apply:
  "logging getNode n (s, log) = obind (getNode n s) (\<lambda>(rc, node, s). Done (rc, node, s, log))"
  by (simp add: logging_def)

lemma visit_apply: "visit node (s, log) = (s, log @ [node])"
  by (simp add: visit_def)

context node_source
begin

lemma chain_head: "chain view n nodes \<Longrightarrow> \<exists>node rest. nodes = node # rest \<and> view n = Some node"
  by (cases "(view, n, nodes)" rule: chain.cases) auto

lemma walk_from_visits:
  assumes "chain view n nodes" "good s" "length nodes \<le> fuel"
  shows "\<exists>s'. walk_from (logging getNode) visit fuel (view n) (s, log) = Some (Done (s', log @ nodes)) \<and> good s'"
  using assms
proof (induction nodes arbitrary: n s log fuel)
  case (Cons node nodes)
  then obtain f where f: "fuel = Suc f" by (cases fuel) auto
  have node: "view n = Some node" using chain_head [OF Cons.prems(1)] by simp
  show ?case
  proof (cases nodes)
    case Nil
    then show ?thesis using Cons.prems node by (simp add: f visit_apply Let_def)
  next
    case (Cons a rest)
    then have link: "0 < sint (nd_fLink node)" "chain view (nd_fLink node) nodes"
      using Cons.prems(1) by simp_all
    obtain right where right: "view (nd_fLink node) = Some right" using chain_head [OF link(2)] by blast
    obtain s1 where s1: "getNode (nd_fLink node) s = Done (0, Some right, s1)" "good s1"
      using fetch [OF Cons.prems(2) right] by blast
    obtain s' where "walk_from (logging getNode) visit f (view (nd_fLink node)) (s1, log @ [node]) =
        Some (Done (s', (log @ [node]) @ nodes))" "good s'"
      using Cons.IH [OF link(2) s1(2), of f "log @ [node]"] Cons.prems(3) f by auto
    then show ?thesis using node link(1) s1 right by (simp add: f visit_apply Let_def logging_apply)
  qed
qed simp

text \<open>With fuel for the leaves of the chain, the walk visits them in their order and returns.\<close>

lemma walk_visits:
  assumes "chain view (firstLeafNode hdr) nodes" "good s" "length nodes \<le> fuel"
  shows "\<exists>s'. btree_walk (logging getNode) hdr visit fuel None (s, []) = Some (Done (s', nodes)) \<and> good s'"
proof -
  obtain node where v: "view (firstLeafNode hdr) = Some node" using chain_head [OF assms(1)] by blast
  then obtain s1 where s1: "getNode (firstLeafNode hdr) s = Done (0, Some node, s1)" "good s1"
    using fetch [OF assms(2)] by blast
  with walk_from_visits [OF assms(1) s1(2) assms(3), of "[]"] v show ?thesis
    by (simp add: btree_walk_def logging_apply)
qed

text \<open>A node that links to itself keeps the walk going for ever: no fuel is enough.\<close>

lemma walk_cycle:
  assumes "view n = Some node" "nd_fLink node = n" "0 < sint n" "good s"
  shows "walk_from (logging getNode) visit fuel (Some node) (s, log) = None"
  using assms(4)
proof (induction fuel arbitrary: s log)
  case (Suc fuel)
  obtain s1 where "getNode n s = Done (0, Some node, s1)" "good s1" using fetch [OF Suc.prems assms(1)] by blast
  then show ?case using assms(2,3) Suc.IH by (simp add: visit_apply Let_def logging_apply)
qed simp

end

end
