(* ===== verification/Node_Cache.thy ===== *)
theory Node_Cache
  imports Hfs_Prelude
begin

text \<open>
  \<^verbatim>\<open>src/src/hfs/btree/cache.c\<close>: the cache of B-tree nodes. A record lives in a queue, most recently
  used first, behind a dummy head, and in a search tree indexed by its key. The queue is a list of
  records with their addresses and the tree (\<open>tsearch\<close>, \<open>tfind\<close>, \<open>tdelete\<close>) a map from keys to
  addresses. \<open>ALLOC\<close> succeeds. The interface \<open>node_store\<close> states what the B-tree code relies on.
\<close>

section \<open>State\<close>

type_synonym ckey = u64

record cache_record =
  addr :: nat
  rec_key :: ckey
  rec_data :: buffer

record cache =
  max_records :: u64
  record_count :: u64
  index :: "ckey \<rightharpoonup> nat"
  records :: "cache_record list"
  next_addr :: nat

section \<open>Operations\<close>

definition key_compare :: "cache_record option \<Rightarrow> cache_record option \<Rightarrow> int" where
  "key_compare a b =
     (case a of None \<Rightarrow> -1
      | Some x \<Rightarrow> (case b of None \<Rightarrow> 1
          | Some y \<Rightarrow> cmp_nat (unat (rec_key x)) (unat (rec_key y))))"

definition cache_init :: "u64 \<Rightarrow> cache" where
  "cache_init num_records =
     \<lparr>max_records = num_records, record_count = 0, index = (\<lambda>_. None), records = [], next_addr = 0\<rparr>"

text \<open>The address that the tree holds for a key is the address of a record of the queue.\<close>

definition record_at :: "cache \<Rightarrow> nat \<Rightarrow> cache_record option" where
  "record_at c a = find (\<lambda>r. addr r = a) (records c)"

definition cache_record_get :: "cache \<Rightarrow> ckey \<Rightarrow> cache_record option" where
  "cache_record_get c key = (case index c key of None \<Rightarrow> None | Some a \<Rightarrow> record_at c a)"

definition remque :: "cache_record \<Rightarrow> cache_record list \<Rightarrow> cache_record list" where
  "remque r rs = filter (\<lambda>x. addr x \<noteq> addr r) rs"

definition insque :: "cache_record \<Rightarrow> cache_record list \<Rightarrow> cache_record list" where
  "insque r rs = r # rs"

definition cache_record_remove :: "cache \<Rightarrow> cache_record \<Rightarrow> cache" where
  "cache_record_remove c r = c
     \<lparr>record_count := (if record_count c > 0 then record_count c - 1 else record_count c),
      index := (if index c (rec_key r) \<noteq> None then (index c)(rec_key r := None) else index c),
      records := remque r (records c)\<rparr>"

text \<open>
  A new record is linked in front, zeroed; when the count, not yet incremented, exceeds the limit, the
  last record of the queue is removed.
\<close>

definition cache_record_new :: "cache \<Rightarrow> cache_record \<times> cache" where
  "cache_record_new c =
     (let r = \<lparr>addr = next_addr c, rec_key = 0, rec_data = []\<rparr>;
          c = c\<lparr>records := insque r (records c), next_addr := next_addr c + 1\<rparr>;
          c = (if record_count c > max_records c then cache_record_remove c (last (records c)) else c)
      in (r, c\<lparr>record_count := record_count c + 1\<rparr>))"

definition cache_rem :: "cache \<Rightarrow> ckey \<Rightarrow> cache" where
  "cache_rem c key =
     (case cache_record_get c key of None \<Rightarrow> c | Some r \<Rightarrow> cache_record_remove c r)"

text \<open>
  \<open>cache_get\<close> returns 1 and copies the data, cut to the length asked for, over the start of the
  caller's buffer; a miss returns 0.
\<close>

definition cache_get :: "cache \<Rightarrow> buffer \<Rightarrow> nat \<Rightarrow> ckey \<Rightarrow> int \<times> buffer \<times> cache" where
  "cache_get c buf len key =
     (case cache_record_get c key of
        None \<Rightarrow> (0, buf, c)
      | Some r \<Rightarrow>
          (1, store 0 (take (min (length (rec_data r)) len) (rec_data r)) buf,
           c\<lparr>records := insque r (remque r (records c))\<rparr>))"

definition update_record :: "cache_record \<Rightarrow> cache_record list \<Rightarrow> cache_record list" where
  "update_record r rs = map (\<lambda>x. if addr x = addr r then r else x) rs"

definition cache_set :: "cache \<Rightarrow> buffer \<Rightarrow> ckey \<Rightarrow> int \<times> cache" where
  "cache_set c data key =
     (let c = cache_rem c key;
          (r, c) = cache_record_new c;
          r = r\<lparr>rec_key := key, rec_data := data\<rparr>;
          c = c\<lparr>records := update_record r (records c)\<rparr>;
          c = (if index c key = None then c\<lparr>index := (index c)(key \<mapsto> addr r)\<rparr> else c)
      in (0, c))"

text \<open>
  \<open>cache_destroy\<close> walks the queue from the dummy head (address \<open>None\<close> here), frees each record it
  leaves, and then frees \<open>cache->records\<close>, the head, once more. Using an address twice is a fault.
\<close>

definition destroy_order :: "cache \<Rightarrow> nat option list" where
  "destroy_order c = butlast (None # map (Some \<circ> addr) (records c)) @ [None]"

fun free_all :: "nat option list \<Rightarrow> nat option list \<Rightarrow> nat option list outcome" where
  "free_all live [] = Done live"
| "free_all live (a # as) = (if a \<in> set live then free_all (remove1 a live) as else Fault)"

definition cache_destroy :: "cache \<Rightarrow> nat option list outcome" where
  "cache_destroy c = free_all (None # map (Some \<circ> addr) (records c)) (destroy_order c)"

section \<open>Invariant and abstraction\<close>

text \<open>
  The entries of the cache, most recently used first. The tree indexes exactly the records of the
  queue, addresses and keys are distinct, and the count is the length of the queue, at most one more
  than the limit.
\<close>

definition entries :: "cache \<Rightarrow> (ckey \<times> buffer) list" where
  "entries c = map (\<lambda>r. (rec_key r, rec_data r)) (records c)"

definition cache_ok :: "cache \<Rightarrow> bool" where
  "cache_ok c \<longleftrightarrow>
     unat (max_records c) < 2 ^ 64 - 1 \<and>
     unat (record_count c) = length (records c) \<and>
     length (records c) \<le> unat (max_records c) + 1 \<and>
     distinct (map addr (records c)) \<and>
     distinct (map rec_key (records c)) \<and>
     (\<forall>r \<in> set (records c). addr r < next_addr c) \<and>
     index c = map_of (map (\<lambda>r. (rec_key r, addr r)) (records c))"

definition lru_get :: "'k \<Rightarrow> ('k \<times> 'v) list \<Rightarrow> ('k \<times> 'v) list" where
  "lru_get k xs = (case map_of xs k of None \<Rightarrow> xs | Some v \<Rightarrow> (k, v) # filter (\<lambda>x. fst x \<noteq> k) xs)"

definition lru_set :: "nat \<Rightarrow> 'k \<Rightarrow> 'v \<Rightarrow> ('k \<times> 'v) list \<Rightarrow> ('k \<times> 'v) list" where
  "lru_set n k v xs = take n ((k, v) # filter (\<lambda>x. fst x \<noteq> k) xs)"

lemma option_eqI: "(\<And>a. x = Some a \<longleftrightarrow> y = Some a) \<Longrightarrow> x = y"
  by (cases x; cases y) auto

lemma map_of_index:
  "distinct (map rec_key rs) \<Longrightarrow> distinct (map addr rs) \<Longrightarrow>
   map_of (map (\<lambda>r. (rec_key r, addr r)) rs) k = Some a \<longleftrightarrow> (\<exists>r \<in> set rs. rec_key r = k \<and> addr r = a)"
  by (induction rs) (auto simp: image_iff)

lemma find_addr:
  "distinct (map addr rs) \<Longrightarrow> find (\<lambda>r. addr r = a) rs = Some r \<longleftrightarrow> r \<in> set rs \<and> addr r = a"
  by (induction rs) auto

lemma cache_record_get_iff:
  assumes "cache_ok c"
  shows "cache_record_get c k = Some r \<longleftrightarrow> r \<in> set (records c) \<and> rec_key r = k"
proof -
  from assms have d: "distinct (map addr (records c))" "distinct (map rec_key (records c))"
    and i: "index c = map_of (map (\<lambda>r. (rec_key r, addr r)) (records c))"
    by (simp_all add: cache_ok_def)
  show ?thesis
  proof
    assume "cache_record_get c k = Some r"
    then obtain a where "index c k = Some a" "record_at c a = Some r"
      by (auto simp: cache_record_get_def split: option.splits)
    then obtain r' where "r' \<in> set (records c)" "rec_key r' = k" "addr r' = a"
        "r \<in> set (records c)" "addr r = a"
      using d by (auto simp: i map_of_index record_at_def find_addr)
    with d(1) have "r' = r" by (metis distinct_map inj_onD)
    with \<open>r \<in> set (records c)\<close> \<open>rec_key r' = k\<close> show "r \<in> set (records c) \<and> rec_key r = k" by simp
  next
    assume r: "r \<in> set (records c) \<and> rec_key r = k"
    then have "index c k = Some (addr r)" using d by (auto simp: i map_of_index)
    moreover have "record_at c (addr r) = Some r" using d r by (simp add: record_at_def find_addr)
    ultimately show "cache_record_get c k = Some r" by (simp add: cache_record_get_def)
  qed
qed

lemma cache_record_get_entries:
  assumes "cache_ok c"
  shows "map_option rec_data (cache_record_get c k) = map_of (entries c) k"
proof -
  have "distinct (map rec_key rs) \<Longrightarrow> map_of (map (\<lambda>r. (rec_key r, rec_data r)) rs) k =
    (case find (\<lambda>r. rec_key r = k) rs of None \<Rightarrow> None | Some r \<Rightarrow> Some (rec_data r))" for rs :: "cache_record list"
    by (induction rs) auto
  moreover have "distinct (map rec_key (records c))" using assms by (simp add: cache_ok_def)
  moreover have "find (\<lambda>r. rec_key r = k) (records c) = cache_record_get c k"
  proof (cases "find (\<lambda>r. rec_key r = k) (records c)")
    case None
    then have "cache_record_get c k \<noteq> Some r" for r
      using assms by (auto simp: cache_record_get_iff find_None_iff)
    with None show ?thesis by (cases "cache_record_get c k") auto
  next
    case (Some r)
    then have "r \<in> set (records c) \<and> rec_key r = k" by (auto simp: find_Some_iff)
    with assms have "cache_record_get c k = Some r" by (simp only: cache_record_get_iff)
    with Some show ?thesis by simp
  qed
  ultimately show ?thesis by (cases "cache_record_get c k") (simp_all add: entries_def)
qed

text \<open>Removing a record of the queue removes its key from the entries.\<close>

lemma remque_key:
  assumes "distinct (map addr rs)" "distinct (map rec_key rs)" "r \<in> set rs"
  shows "remque r rs = filter (\<lambda>x. rec_key x \<noteq> rec_key r) rs"
  unfolding remque_def using assms
  by (intro filter_cong) (auto simp: distinct_map inj_on_def)

lemma remque_facts:
  assumes "distinct (map addr rs)" "r \<in> set rs"
  shows "length (remque r rs) = length rs - 1" "set (remque r rs) = set rs - {r}"
proof -
  show s: "set (remque r rs) = set rs - {r}"
    using assms by (auto simp: remque_def distinct_map inj_on_def)
  have "distinct (remque r rs)" using assms(1) by (simp add: remque_def distinct_map)
  then have "length (remque r rs) = card (set rs - {r})" by (metis s distinct_card)
  also have "\<dots> = length rs - 1"
    using assms by (simp add: distinct_map distinct_card)
  finally show "length (remque r rs) = length rs - 1" .
qed

lemma map_of_remove:
  "(map_of (map (\<lambda>r. (rec_key r, addr r)) rs))(k := None) =
    map_of (map (\<lambda>r. (rec_key r, addr r)) (filter (\<lambda>x. rec_key x \<noteq> k) rs))"
proof (rule ext)
  show "((map_of (map (\<lambda>r. (rec_key r, addr r)) rs))(k := None)) x =
    map_of (map (\<lambda>r. (rec_key r, addr r)) (filter (\<lambda>x. rec_key x \<noteq> k) rs)) x" for x
    by (induction rs) auto
qed

lemma cache_record_remove_ok:
  assumes ok: "cache_ok c" and r: "r \<in> set (records c)"
  shows "cache_ok (cache_record_remove c r)"
    and "entries (cache_record_remove c r) = filter (\<lambda>x. fst x \<noteq> rec_key r) (entries c)"
proof -
  let ?rs = "records c" and ?c = "cache_record_remove c r"
  from ok have d: "distinct (map addr ?rs)" "distinct (map rec_key ?rs)"
    and count: "unat (record_count c) = length ?rs" by (simp_all add: cache_ok_def)
  have rs': "records ?c = filter (\<lambda>x. rec_key x \<noteq> rec_key r) ?rs"
    using remque_key [OF d r] by (simp add: cache_record_remove_def)
  have len: "length (records ?c) = length ?rs - 1"
    using remque_facts [OF d(1) r] by (simp add: cache_record_remove_def)
  have "length ?rs > 0" using r by (cases ?rs) auto
  then have "record_count c > 0" using count by (simp add: word_less_nat_alt)
  moreover from this have "unat (record_count c - 1) = length ?rs - 1"
    using count by (simp add: unat_sub word_le_nat_alt Suc_le_eq word_less_nat_alt)
  ultimately have cnt: "unat (record_count ?c) = length (records ?c)"
    using len by (simp add: cache_record_remove_def)
  have idx: "index ?c = map_of (map (\<lambda>r. (rec_key r, addr r)) (records ?c))"
  proof -
    have "index ?c = (index c)(rec_key r := None)"
      by (auto simp: cache_record_remove_def fun_eq_iff)
    with ok show ?thesis by (simp add: cache_ok_def rs' map_of_remove)
  qed
  have sub: "set (records ?c) \<subseteq> set ?rs" by (auto simp: rs')
  have "distinct (map addr (records ?c))" "distinct (map rec_key (records ?c))"
    using d by (simp_all add: rs' distinct_map_filter)
  with cnt idx ok len sub show "cache_ok ?c"
    by (auto simp: cache_ok_def cache_record_remove_def)
  show "entries ?c = filter (\<lambda>x. fst x \<noteq> rec_key r) (entries c)"
    by (simp add: entries_def rs' filter_map comp_def)
qed

lemma cache_rem_ok:
  assumes "cache_ok c"
  shows "cache_ok (cache_rem c k)" "entries (cache_rem c k) = filter (\<lambda>x. fst x \<noteq> k) (entries c)"
    "max_records (cache_rem c k) = max_records c"
proof -
  have "cache_ok (cache_rem c k) \<and> entries (cache_rem c k) = filter (\<lambda>x. fst x \<noteq> k) (entries c)"
  proof (cases "cache_record_get c k")
    case None
    then have "map_of (entries c) k = None"
      using cache_record_get_entries [OF assms, of k] by simp
    then have "filter (\<lambda>x. fst x \<noteq> k) (entries c) = entries c"
      by (auto simp: map_of_eq_None_iff filter_id_conv)
    with None assms show ?thesis by (simp add: cache_rem_def)
  next
    case (Some r)
    with assms have "r \<in> set (records c)" "rec_key r = k" by (simp_all add: cache_record_get_iff)
    with Some assms show ?thesis by (simp add: cache_rem_def cache_record_remove_ok)
  qed
  then show "cache_ok (cache_rem c k)" "entries (cache_rem c k) = filter (\<lambda>x. fst x \<noteq> k) (entries c)"
    by auto
  show "max_records (cache_rem c k) = max_records c"
    by (simp add: cache_rem_def cache_record_remove_def split: option.split)
qed

text \<open>The record that a full cache gives up is the last of the queue.\<close>

definition kept :: "cache \<Rightarrow> cache_record list" where
  "kept c = (if length (records c) = unat (max_records c) + 1 then butlast (records c) else records c)"

lemma cache_record_new_eq:
  assumes ok: "cache_ok c"
  shows "cache_record_new c =
    (let r = \<lparr>addr = next_addr c, rec_key = 0, rec_data = []\<rparr> in
      (r, c\<lparr>records := r # kept c, next_addr := next_addr c + 1,
            index := map_of (map (\<lambda>r. (rec_key r, addr r)) (kept c)),
            record_count := of_nat (length (kept c)) + 1\<rparr>))"
proof -
  let ?rs = "records c" and ?r = "\<lparr>addr = next_addr c, rec_key = 0, rec_data = []\<rparr>"
  from ok have d: "distinct (map addr ?rs)" "distinct (map rec_key ?rs)"
    and count: "unat (record_count c) = length ?rs" and len: "length ?rs \<le> unat (max_records c) + 1"
    and fresh: "\<forall>r \<in> set ?rs. addr r < next_addr c"
    and idx: "index c = map_of (map (\<lambda>r. (rec_key r, addr r)) ?rs)" by (simp_all add: cache_ok_def)
  have full: "record_count c > max_records c \<longleftrightarrow> length ?rs = unat (max_records c) + 1"
    using count len by (auto simp: word_less_nat_alt)
  have cnt: "record_count c = of_nat (length ?rs)" by (simp flip: count)
  show ?thesis
  proof (cases "length ?rs = unat (max_records c) + 1")
    case False
    with full idx cnt show ?thesis by (simp add: cache_record_new_def Let_def insque_def kept_def)
  next
    case True
    then have ne: "?rs \<noteq> []" by auto
    let ?l = "last ?rs"
    have l: "?l \<in> set ?rs" using ne by simp
    have split: "?rs = butlast ?rs @ [?l]" using ne by simp
    have rem: "remque ?l ?rs = butlast ?rs"
    proof -
      have "distinct (map addr (butlast ?rs @ [?l]))" using d(1) split by simp
      then have "\<forall>x \<in> set (butlast ?rs). addr x \<noteq> addr ?l" by (simp, metis imageI)
      then have "filter (\<lambda>x. addr x \<noteq> addr ?l) (butlast ?rs @ [?l]) = butlast ?rs"
        by (simp add: filter_id_conv)
      with split show ?thesis by (simp add: remque_def)
    qed
    then have rem': "remque ?l (?r # ?rs) = ?r # butlast ?rs"
      using fresh l by (auto simp: remque_def)
    have "(index c)(rec_key ?l := None) = map_of (map (\<lambda>r. (rec_key r, addr r)) (butlast ?rs))"
      using remque_key [OF d l] rem by (simp add: idx map_of_remove)
    moreover have "index c (rec_key ?l) = Some (addr ?l)"
      using map_of_index [OF d(2) d(1)] l by (auto simp: idx)
    moreover have "record_count c - 1 = of_nat (length (butlast ?rs))"
      using True by (simp add: cnt)
    moreover have "record_count c > 0" using full True by (simp add: word_less_nat_alt)
    ultimately show ?thesis
      using full True ne rem' 
      by (simp add: cache_record_new_def Let_def insque_def kept_def cache_record_remove_def
            del: fun_upd_apply)
  qed
qed

lemma kept_facts:
  assumes "cache_ok c"
  shows "length (kept c) \<le> unat (max_records c)" "set (kept c) \<subseteq> set (records c)"
    "distinct (map addr (kept c))" "distinct (map rec_key (kept c))"
    "map (\<lambda>r. (rec_key r, rec_data r)) (kept c) = take (unat (max_records c)) (entries c)"
proof -
  from assms have len: "length (records c) \<le> unat (max_records c) + 1" by (simp add: cache_ok_def)
  then have k: "kept c = take (unat (max_records c)) (records c)"
    by (auto simp: kept_def butlast_conv_take)
  show "length (kept c) \<le> unat (max_records c)" "set (kept c) \<subseteq> set (records c)"
    by (auto simp: k dest: in_set_takeD)
  show "distinct (map addr (kept c))" "distinct (map rec_key (kept c))"
    using assms by (simp_all add: k cache_ok_def flip: take_map)
  show "map (\<lambda>r. (rec_key r, rec_data r)) (kept c) = take (unat (max_records c)) (entries c)"
    by (simp add: k entries_def take_map)
qed

lemma cache_set_ok:
  assumes ok: "cache_ok c"
  shows "cache_ok (snd (cache_set c data key))"
    and "entries (snd (cache_set c data key)) = lru_set (unat (max_records c) + 1) key data (entries c)"
proof -
  define c1 where "c1 = cache_rem c key"
  have ok1: "cache_ok c1" and e1: "entries c1 = filter (\<lambda>x. fst x \<noteq> key) (entries c)"
    and m1: "max_records c1 = max_records c"
    using cache_rem_ok [OF ok] by (simp_all add: c1_def)
  define r where "r = \<lparr>addr = next_addr c1, rec_key = key, rec_data = data\<rparr>"
  from ok1 have fresh: "\<forall>x \<in> set (records c1). addr x < next_addr c1" by (simp add: cache_ok_def)
  have new: "key \<notin> rec_key ` set (records c1)"
  proof -
    have "key \<notin> fst ` set (entries c1)" by (auto simp: e1)
    then show ?thesis by (auto simp: entries_def image_iff)
  qed
  note k = kept_facts [OF ok1]
  have upd: "update_record r (\<lparr>addr = next_addr c1, rec_key = 0, rec_data = []\<rparr> # kept c1) = r # kept c1"
  proof -
    have "\<forall>x \<in> set (kept c1). addr x \<noteq> addr r" using fresh k(2) by (fastforce simp: r_def)
    then have "map (\<lambda>x. if addr x = addr r then r else x) (kept c1) = kept c1"
      by (intro map_idI) auto
    moreover have "next_addr c1 = addr r" by (simp add: r_def)
    ultimately show ?thesis by (simp add: update_record_def)
  qed
  have none: "map_of (map (\<lambda>r. (rec_key r, addr r)) (kept c1)) key = None"
    using new k(2) by (auto simp: map_of_eq_None_iff)
  define c2 where "c2 = c1\<lparr>records := r # kept c1, next_addr := next_addr c1 + 1,
      index := (map_of (map (\<lambda>r. (rec_key r, addr r)) (kept c1)))(key \<mapsto> addr r),
      record_count := of_nat (length (kept c1)) + 1\<rparr>"
  have set: "cache_set c data key = (0, c2)"
    using upd none
    by (simp add: cache_set_def c1_def [symmetric] cache_record_new_eq [OF ok1] Let_def r_def c2_def)
  have max: "unat (max_records c1) < 2 ^ 64 - 1" using ok1 by (simp add: cache_ok_def)
  have "unat (of_nat (length (kept c1)) + 1 :: u64) = length (kept c1) + 1"
    using k(1) max by (simp add: unat_word_ariths unat_of_nat)
  then show "cache_ok (snd (cache_set c data key))"
    using k new fresh max by (auto simp: set cache_ok_def c2_def r_def less_Suc_eq)
  have "lru_set (unat (max_records c) + 1) key data (entries c) =
      (key, data) # take (unat (max_records c)) (entries c1)"
    by (simp add: lru_set_def e1)
  then show "entries (snd (cache_set c data key)) = lru_set (unat (max_records c) + 1) key data (entries c)"
    using k(5) by (simp add: set entries_def c2_def m1 r_def)
qed

lemma cache_get_ok:
  assumes ok: "cache_ok c"
  shows "cache_ok (snd (snd (cache_get c buf len key)))"
    and "entries (snd (snd (cache_get c buf len key))) = lru_get key (entries c)"
    and "fst (cache_get c buf len key) = (if key \<in> dom (map_of (entries c)) then 1 else 0)"
    and "map_of (entries c) key = Some data \<Longrightarrow>
      fst (snd (cache_get c buf len key)) = store 0 (take len data) buf"
    and "map_of (entries c) key = None \<Longrightarrow> fst (snd (cache_get c buf len key)) = buf"
proof -
  note e = cache_record_get_entries [OF ok, of key]
  have "cache_ok (snd (snd (cache_get c buf len key))) \<and>
    entries (snd (snd (cache_get c buf len key))) = lru_get key (entries c)"
  proof (cases "cache_record_get c key")
    case None
    with ok e show ?thesis by (simp add: cache_get_def lru_get_def)
  next
    case (Some r)
    with ok have r: "r \<in> set (records c)" "rec_key r = key" by (simp_all add: cache_record_get_iff)
    from ok have d: "distinct (map addr (records c))" "distinct (map rec_key (records c))"
      by (simp_all add: cache_ok_def)
    let ?rs = "r # filter (\<lambda>x. rec_key x \<noteq> key) (records c)"
    have q: "remque r (records c) = filter (\<lambda>x. rec_key x \<noteq> key) (records c)"
      using remque_key [OF d r(1)] r(2) by simp
    have get: "snd (snd (cache_get c buf len key)) = c\<lparr>records := ?rs\<rparr>"
      by (simp add: cache_get_def Some insque_def q)
    have len: "length ?rs = length (records c)"
      using remque_facts(1) [OF d(1) r(1)] r(1) q by (cases "records c") auto
    have set: "set ?rs = set (records c)"
      using remque_facts(2) [OF d(1) r(1)] r(1) q by auto
    have da: "distinct (map addr ?rs)"
    proof -
      have "distinct (map addr (remque r (records c)))" "addr r \<notin> addr ` set (remque r (records c))"
        using d(1) by (auto simp: remque_def distinct_map_filter)
      with q show ?thesis by simp
    qed
    have dk: "distinct (map rec_key ?rs)" using d(2) r(2) by (auto simp: distinct_map_filter)
    have "map_of (map (\<lambda>r. (rec_key r, addr r)) ?rs) k = map_of (map (\<lambda>r. (rec_key r, addr r)) (records c)) k"
      for k
    proof -
      have "(map_of (map (\<lambda>r. (rec_key r, addr r)) ?rs) k = Some a) =
        (map_of (map (\<lambda>r. (rec_key r, addr r)) (records c)) k = Some a)" for a
        by (simp only: map_of_index [OF dk da] map_of_index [OF d(2) d(1)] set)
      then show ?thesis by (rule option_eqI)
    qed
    then have "index c = map_of (map (\<lambda>r. (rec_key r, addr r)) ?rs)"
      using ok by (auto simp: cache_ok_def fun_eq_iff)
    then have "cache_ok (c\<lparr>records := ?rs\<rparr>)" using ok len set da dk by (auto simp: cache_ok_def)
    moreover have "entries (c\<lparr>records := ?rs\<rparr>) = lru_get key (entries c)"
      using e Some r by (auto simp: entries_def lru_get_def filter_map comp_def split: option.split)
    ultimately show ?thesis by (simp add: get)
  qed
  then show "cache_ok (snd (snd (cache_get c buf len key)))"
    "entries (snd (snd (cache_get c buf len key))) = lru_get key (entries c)" by auto
  show "fst (cache_get c buf len key) = (if key \<in> dom (map_of (entries c)) then 1 else 0)"
    by (simp add: cache_get_def domIff flip: e split: option.split)
  show "fst (snd (cache_get c buf len key)) = store 0 (take len data) buf"
    if "map_of (entries c) key = Some data"
    using e that by (auto simp: cache_get_def min_def split: option.split)
  show "fst (snd (cache_get c buf len key)) = buf" if "map_of (entries c) key = None"
    using e that by (auto simp: cache_get_def split: option.split)
qed

section \<open>The interface\<close>

text \<open>
  What a client of the cache relies on: \<open>view\<close> is the finite map of the entries, a hit returns what
  the view holds, a lookup does not change the view, and after a store the new key is bound while any
  other key keeps its binding or is evicted.
\<close>

locale node_store =
  fixes ok :: "'c \<Rightarrow> bool"
    and view :: "'c \<Rightarrow> u64 \<rightharpoonup> buffer"
    and get :: "'c \<Rightarrow> buffer \<Rightarrow> nat \<Rightarrow> u64 \<Rightarrow> int \<times> buffer \<times> 'c"
    and put :: "'c \<Rightarrow> buffer \<Rightarrow> u64 \<Rightarrow> int \<times> 'c"
  assumes get_ok: "ok c \<Longrightarrow> get c buf len k = (r, buf', c') \<Longrightarrow> ok c'"
    and get_view: "ok c \<Longrightarrow> get c buf len k = (r, buf', c') \<Longrightarrow> view c' = view c"
    and get_miss: "ok c \<Longrightarrow> get c buf len k = (r, buf', c') \<Longrightarrow> view c k = None \<Longrightarrow>
      r = 0 \<and> buf' = buf"
    and get_hit: "ok c \<Longrightarrow> get c buf len k = (r, buf', c') \<Longrightarrow> view c k = Some d \<Longrightarrow>
      r = 1 \<and> buf' = store 0 (take len d) buf"
    and put_ok: "ok c \<Longrightarrow> put c d k = (r, c') \<Longrightarrow> ok c'"
    and put_same: "ok c \<Longrightarrow> put c d k = (r, c') \<Longrightarrow> r = 0 \<and> view c' k = Some d"
    and put_other: "ok c \<Longrightarrow> put c d k = (r, c') \<Longrightarrow> k' \<noteq> k \<Longrightarrow>
      view c' k' = None \<or> view c' k' = view c k'"
begin

text \<open>A store all of whose entries agree with a backing function never returns stale data.\<close>

definition coherent :: "(u64 \<Rightarrow> buffer) \<Rightarrow> 'c \<Rightarrow> bool" where
  "coherent disk c \<longleftrightarrow> (\<forall>k d. view c k = Some d \<longrightarrow> d = disk k)"

lemma coherent_get:
  assumes "ok c" "coherent disk c" "get c buf len k = (r, buf', c')"
  shows "ok c'" "coherent disk c'" "r = 1 \<Longrightarrow> buf' = store 0 (take len (disk k)) buf"
    "r = 0 \<Longrightarrow> buf' = buf" "r \<in> {0, 1}"
proof -
  show "ok c'" by (rule get_ok [OF assms(1,3)])
  show "coherent disk c'" using assms(2) get_view [OF assms(1,3)] by (simp add: coherent_def)
  show "r = 1 \<Longrightarrow> buf' = store 0 (take len (disk k)) buf" "r = 0 \<Longrightarrow> buf' = buf" "r \<in> {0, 1}"
    using assms(2) get_miss [OF assms(1,3)] get_hit [OF assms(1,3)]
    by (cases "view c k"; force simp: coherent_def)+
qed

lemma coherent_put:
  assumes "ok c" "coherent disk c" "put c (disk k) k = (r, c')"
  shows "ok c'" "coherent disk c'"
proof -
  show "ok c'" by (rule put_ok [OF assms(1,3)])
  show "coherent disk c'"
    unfolding coherent_def
  proof (intro allI impI)
    fix k' d assume "view c' k' = Some d"
    then show "d = disk k'"
      using assms(2) put_same [OF assms(1,3)] put_other [OF assms(1,3), of k']
      by (cases "k' = k") (auto simp: coherent_def)
  qed
qed

end

definition cache_view :: "cache \<Rightarrow> ckey \<rightharpoonup> buffer" where
  "cache_view c = map_of (entries c)"

lemma map_of_lru_get: "map_of (lru_get k xs) = map_of xs"
proof (rule ext)
  have f: "map_of (filter (\<lambda>x. fst x \<noteq> k) xs) k' = (if k' = k then None else map_of xs k')" for k'
    by (induction xs) auto
  show "map_of (lru_get k xs) k' = map_of xs k'" for k'
    by (auto simp: lru_get_def f split: option.split)
qed

lemma map_of_take_Some:
  assumes "distinct (map fst xs)" "map_of (take n xs) k = Some v"
  shows "map_of xs k = Some v"
proof -
  have "(k, v) \<in> set (take n xs)" using assms(2) by (rule map_of_SomeD)
  then have "(k, v) \<in> set xs" by (rule in_set_takeD)
  with assms(1) show ?thesis by simp
qed

lemma entries_distinct: "cache_ok c \<Longrightarrow> distinct (map fst (entries c))"
  by (simp add: cache_ok_def entries_def comp_def)

lemma lru_set_view:
  assumes "distinct (map fst xs)" "k' \<noteq> k"
  shows "map_of (lru_set (n + 1) k v xs) k' \<in> {None, map_of xs k'}"
proof -
  let ?ys = "filter (\<lambda>x. fst x \<noteq> k) xs"
  have d: "distinct (map fst ?ys)" using assms(1) by (rule distinct_map_filter)
  have f: "map_of ?ys k' = map_of xs k'" using assms(2) by (induction xs) auto
  have "map_of (take n ?ys) k' \<in> {None, map_of ?ys k'}"
    using map_of_take_Some [OF d, of n k'] by (cases "map_of (take n ?ys) k'") auto
  with f assms(2) show ?thesis by (simp add: lru_set_def)
qed

interpretation node_cache: node_store cache_ok cache_view cache_get cache_set
proof
  fix c buf len k r buf' c'
  assume ok: "cache_ok c" and get: "cache_get c buf len k = (r, buf', c')"
  note g = cache_get_ok [OF ok, where buf = buf and len = len and key = k]
  show "cache_ok c'" "cache_view c' = cache_view c"
    using g(1,2) by (simp_all add: get cache_view_def map_of_lru_get)
  show "cache_view c k = None \<Longrightarrow> r = 0 \<and> buf' = buf"
    "cache_view c k = Some d \<Longrightarrow> r = 1 \<and> buf' = store 0 (take len d) buf" for d
    using g(3,4,5) by (auto simp: get cache_view_def domIff split: if_splits)
next
  fix c d k r c'
  assume ok: "cache_ok c" and set: "cache_set c d k = (r, c')"
  note s = cache_set_ok [OF ok, of d k]
  show "cache_ok c'" using s(1) by (simp add: set)
  have "r = 0" using set by (simp add: cache_set_def Let_def split: prod.splits)
  then show "r = 0 \<and> cache_view c' k = Some d"
    using s(2) by (simp add: set cache_view_def lru_set_def)
  show "cache_view c' k' = None \<or> cache_view c' k' = cache_view c k'" if "k' \<noteq> k" for k'
    using lru_set_view [OF entries_distinct [OF ok] that, of "unat (max_records c)" d] s(2)
    by (simp add: set cache_view_def)
qed

section \<open>Correctness\<close>

text \<open>
  C13. The cache is an LRU list: a cache that satisfies the invariant still does after a lookup and
  after a store; a lookup moves the entry it finds to the front, a store puts the new entry in front,
  drops an older entry of the same key and keeps the most recent entries, one more of them than the
  limit the cache was created with.
\<close>

theorem cache_is_lru:
  assumes "cache_ok c"
  shows "(case cache_get c buf len key of (_, _, c') \<Rightarrow>
            cache_ok c' \<and> entries c' = lru_get key (entries c)) \<and>
         (case cache_set c data key of (r, c') \<Rightarrow>
            r = 0 \<and> cache_ok c' \<and>
            entries c' = lru_set (unat (max_records c) + 1) key data (entries c))"
  using cache_get_ok(1,2) [OF assms, of buf len key] cache_set_ok [OF assms, of data key]
    node_cache.put_same [OF assms, of data key]
  by (auto split: prod.splits)

lemma cache_init_ok: "unat n < 2 ^ 64 - 1 \<Longrightarrow> cache_ok (cache_init n)"
  by (simp add: cache_init_def cache_ok_def)

lemma cache_is_lru_witness:
  "entries (snd (cache_set (cache_init 3) [1, 2] 7)) = [(7, [1, 2])]"
proof -
  have "cache_ok (cache_init 3)" by (rule cache_init_ok) simp
  moreover have "entries (cache_init 3) = []" "max_records (cache_init 3) = 3"
    by (simp_all add: cache_init_def entries_def)
  ultimately show ?thesis
    using cache_is_lru [of "cache_init 3", where data = "[1, 2]" and key = 7 and buf = "[]" and len = 0]
    by (cases "cache_set (cache_init 3) [1, 2] 7") (simp add: lru_set_def)
qed

text \<open>
  What a caller sees of the cache: a key that was just stored is found, and the buffer then
  starts with the stored bytes, as many as were asked for; a key that is not in the cache is a miss
  that leaves the buffer alone.
\<close>

lemma cache_get_after_set:
  assumes "cache_ok c"
  shows "(case cache_set c data key of (_, c') \<Rightarrow>
           case cache_get c' buf len key of (r, buf', c'') \<Rightarrow>
             r = 1 \<and> buf' = store 0 (take len data) buf) \<and>
         (cache_view c key = None \<longrightarrow> fst (cache_get c buf len key) = 0 \<and>
            fst (snd (cache_get c buf len key)) = buf)"
proof -
  obtain r c' where s: "cache_set c data key = (r, c')" by force
  obtain r' buf' c'' where g: "cache_get c' buf len key = (r', buf', c'')" using prod_cases3 by blast
  obtain r0 buf0 c0 where g0: "cache_get c buf len key = (r0, buf0, c0)" using prod_cases3 by blast
  show ?thesis
    using node_cache.get_hit [OF node_cache.put_ok [OF assms s] g] node_cache.put_same [OF assms s]
      node_cache.get_miss [OF assms g0]
    by (simp add: s g g0)
qed

lemma cache_get_after_set_witness:
  "(case cache_set (cache_init 3) [1, 2, 3] 7 of (_, c') \<Rightarrow>
      case cache_get c' [0, 0, 0] 2 7 of (r, buf, _) \<Rightarrow> r = 1 \<and> buf = [1, 2, 0])"
proof -
  have "cache_ok (cache_init 3)" by (rule cache_init_ok) simp
  from cache_get_after_set [OF this, where data = "[1, 2, 3]" and key = 7
      and buf = "[0, 0, 0]" and len = 2] show ?thesis
    by (auto simp: store_def split: prod.splits)
qed

text \<open>
  \<open>cache_destroy\<close> returns only for an empty cache: with any record in the queue it frees the
  dummy head first and once more at the end, which is a fault.
\<close>

lemma cache_destroy_double_free: "returns (cache_destroy c) \<longleftrightarrow> records c = []"
proof (cases "records c")
  case Nil
  then show ?thesis by (simp add: cache_destroy_def destroy_order_def)
next
  case (Cons r rs)
  have gone: "\<not> returns (free_all live (as @ [None]))" if "None \<notin> set live" for live as
    using that by (induction as arbitrary: live) (auto dest: in_set_remove1 notin_set_remove1)
  have "butlast (None # map (Some \<circ> addr) (records c)) =
      None # butlast (map (Some \<circ> addr) (records c))" using Cons by simp
  moreover have "None \<notin> set (map (Some \<circ> addr) (records c))" by auto
  ultimately show ?thesis
    using gone [of "map (Some \<circ> addr) (records c)"] Cons by (simp add: cache_destroy_def destroy_order_def)
qed

end
