(* ===== verification/Volume_IO.thy ===== *)
theory Volume_IO
  imports Hfs_Prelude
begin

text \<open>
  \<^verbatim>\<open>src/src/volumes/utilities.c\<close> and \<^verbatim>\<open>src/src/volumes/volume.c\<close>: opening a source, reading bytes of a
  volume through whole blocks of its source, and the tree of partitions. A stream is the list of the
  bytes of its file; sizes and offsets are 64-bit words, an \<open>off_t\<close> or \<open>ssize_t\<close> being one that is
  compared with its sign. The lemmas give the exact result of a read, aligned or not.
\<close>

section \<open>Streams\<close>

type_synonym stream = buffer

text \<open>
  \<open>fpread\<close>: \<open>fseeko\<close> refuses a negative offset only; \<open>fread\<close> delivers what the file has. The result
  is the value returned and the bytes stored at the start of the caller's buffer.
\<close>

definition fpread :: "stream \<Rightarrow> u64 \<Rightarrow> u64 \<Rightarrow> u64 \<times> buffer" where
  "fpread f nbytes off =
     (if 0 \<le> sint off
      then let data = chunk (unat off) (unat nbytes) f in (of_nat (length data), data)
      else (- 1, []))"

section \<open>Volumes\<close>

record geometry =
  source :: stream
  sector_count :: u64
  sector_size :: u32
  phy_sector_size :: u32
  vol_offset :: u64
  vol_length :: u64

datatype volume = Volume
  (geom: geometry) (vol_type: u32) (vol_subtype: u32) (depth: nat)
  (partition_count: nat) (partitions: "volume option list")

abbreviation (input) kTypeUnknown :: u32 where "kTypeUnknown \<equiv> 0"
abbreviation (input) S_BLKSIZE :: u32 where "S_BLKSIZE \<equiv> 512"

text \<open>
  \<open>vol_open\<close> on an existing file: what \<open>fstat\<close> and, for devices, \<open>ioctl\<close> report are arguments (a
  reported size of 0 means that the request failed). This is the branch compiled on Linux.
\<close>

record file_status =
  st_size :: u64
  st_blocks :: u64
  is_device :: bool
  blk_ssz :: u32
  blk_size64 :: u64

definition vol_open :: "stream \<Rightarrow> file_status \<Rightarrow> u64 \<Rightarrow> u64 \<Rightarrow> u64 \<Rightarrow> geometry" where
  "vol_open f s offset len block_size =
     (let g = (if len \<noteq> 0 \<and> block_size \<noteq> 0
               then \<lparr>source = f, sector_count = len div block_size, sector_size = ucast block_size,
                     phy_sector_size = 0, vol_offset = offset, vol_length = len\<rparr>
               else \<lparr>source = f, sector_count = st_blocks s, sector_size = S_BLKSIZE,
                     phy_sector_size = 0, vol_offset = offset, vol_length = st_size s\<rparr>);
          g = (if block_size = 0 \<and> is_device s
               then let sz = (if blk_ssz s \<noteq> 0 then blk_ssz s else S_BLKSIZE);
                        n = (if blk_size64 s \<noteq> 0 then blk_size64 s else st_size s)
                    in g\<lparr>sector_size := sz, vol_length := n, sector_count := n div ucast sz\<rparr>
               else g)
      in if len = 0 \<and> sector_size g \<noteq> 0 \<and> sector_count g \<noteq> 0
         then g\<lparr>vol_length := ucast (sector_size g) * sector_count g\<rparr> else g)"

definition vol_blk_get :: "geometry \<Rightarrow> u64 \<Rightarrow> u64 \<Rightarrow> u64 \<Rightarrow> u64 \<times> buffer" where
  "vol_blk_get vol count start blksz =
     (let off = start * blksz + vol_offset vol;
          (rval, data) = fpread (source vol) (blksz * count) off
      in (if sint rval > 0 then rval div blksz else rval, data))"

definition block_size_of :: "geometry \<Rightarrow> u64" where
  "block_size_of vol =
     (if phy_sector_size vol > 0 then ucast (phy_sector_size vol)
      else if sector_size vol > 0 then ucast (sector_size vol)
      else 512)"

text \<open>
  \<open>vol_read\<close> returns the number of bytes it claims and the caller's buffer. The block buffer is
  allocated zeroed; copying more than it holds, or more than the caller's buffer takes, is a fault.
\<close>

definition vol_read :: "geometry \<Rightarrow> buffer \<Rightarrow> u64 \<Rightarrow> u64 \<Rightarrow> (u64 \<times> buffer) outcome" where
  "vol_read vol buf sz offset =
     (if vol_length vol \<noteq> 0 \<and> sint (vol_length vol) < sint offset then Done (0, buf)
      else
        let sz = (if vol_length vol \<noteq> 0 \<and> offset + sz > vol_length vol
                  then vol_length vol - offset else sz) in
        if sz < 1 then Done (0, buf)
        else
          let blksz = block_size_of vol;
              block_count = sz div blksz + (if (offset + sz) mod blksz \<noteq> 0 then 1 else 0);
              start_block = offset div blksz;
              byte_offset = offset mod blksz;
              (read_blocks, data) = vol_blk_get vol block_count start_block blksz;
              read_buffer = store 0 data (replicate (unat (block_count * blksz)) 0);
              sz = min (read_blocks * blksz - byte_offset) sz
          in if read_blocks \<noteq> 0
             then if fits (unat byte_offset) (unat sz) read_buffer \<and> fits 0 (unat sz) buf
                  then Done (sz, store 0 (chunk (unat byte_offset) (unat sz) read_buffer) buf)
                  else Fault
             else Done (sz, buf))"

section \<open>The partition tree\<close>

text \<open>
  The new volume duplicates the descriptor of the outer one and makes a stream of it. Both calls are taken
  to succeed; when one fails the function returns a null pointer, which \<open>gpt_load\<close> skips and \<open>mbr_load\<close> and
  \<open>apm_load\<close> use.
\<close>

definition vol_make_partition :: "volume \<Rightarrow> nat \<Rightarrow> u64 \<Rightarrow> u64 \<Rightarrow> volume outcome" where
  "vol_make_partition vol pos offset len =
     (if ucast (sector_size (geom vol)) = (0 :: u64) then Fault
      else
       let g = (geom vol)\<lparr>vol_offset := offset, vol_length := len,
                 sector_count := len div ucast (sector_size (geom vol))\<rparr>;
           newvol = Volume g kTypeUnknown kTypeUnknown (depth vol + 1) 0 (replicate 128 None)
       in if pos < length (partitions vol)
          then Done (Volume (geom vol) (vol_type vol) (vol_subtype vol) (depth vol)
                 (partition_count vol + 1) ((partitions vol)[pos := Some newvol]))
          else Fault)"

lemma size_list_rev_take: "size_list f (rev (take n xs)) \<le> size_list f xs"
proof (induction xs arbitrary: n)
  case (Cons x xs)
  then show ?case by (cases n) (auto simp: size_list_append intro: le_SucI)
qed simp

text \<open>\<open>vol_close\<close> follows the first \<open>partition_count\<close> entries, the last one first.\<close>

function (sequential) vol_close :: "volume \<Rightarrow> unit outcome"
  and close_partitions :: "volume option list \<Rightarrow> unit outcome" where
  "vol_close (Volume g t s d n ps) =
     (if n > length ps then Fault else close_partitions (rev (take n ps)))"
| "close_partitions [] = Done ()"
| "close_partitions (None # ps) = Fault"
| "close_partitions (Some v # ps) = obind (vol_close v) (\<lambda>_. close_partitions ps)"
  by pat_completeness auto

termination
proof (relation "measure (\<lambda>x. case x of Inl v \<Rightarrow> 2 * size v + 1
    | Inr ps \<Rightarrow> 2 * size_list (size_option size) ps)")
  fix g :: geometry and t s :: u32 and d n :: nat and ps :: "volume option list"
  have "size_list (size_option size) (rev (take n ps)) \<le> size_list (size_option size) ps"
    by (rule size_list_rev_take)
  then show "(Inr (rev (take n ps)), Inl (Volume g t s d n ps))
    \<in> measure (\<lambda>x. case x of Inl v \<Rightarrow> 2 * size v + 1 | Inr ps \<Rightarrow> 2 * size_list (size_option size) ps)"
    by simp
qed auto

section \<open>What a read returns\<close>

text \<open>A volume whose numbers are in range: sizes and offsets below \<open>2 ^ 62\<close>.\<close>

definition geometry_ok :: "geometry \<Rightarrow> bool" where
  "geometry_ok vol \<longleftrightarrow>
     length (source vol) < 2 ^ 62 \<and> unat (vol_offset vol) < 2 ^ 62 \<and> unat (vol_length vol) < 2 ^ 62"

lemma sint_nonneg_small: "unat (x :: u64) < 2 ^ 63 \<Longrightarrow> sint x = int (unat x)"
  by (rule sint_nonneg) simp

lemma block_size_pos: "0 < unat (block_size_of vol)" "unat (block_size_of vol) < 2 ^ 32"
proof -
  show "0 < unat (block_size_of vol)"
    by (auto simp: block_size_of_def word_less_nat_alt)
  show "unat (block_size_of vol) < 2 ^ 32"
    using unat_bound [of "phy_sector_size vol"] unat_bound [of "sector_size vol"]
    by (auto simp: block_size_of_def)
qed

definition blocks_read :: "nat \<Rightarrow> nat \<Rightarrow> nat \<Rightarrow> nat" where
  "blocks_read b sz offset = sz div b + (if (offset + sz) mod b \<noteq> 0 then 1 else 0)"

definition blocks_needed :: "nat \<Rightarrow> nat \<Rightarrow> nat \<Rightarrow> nat" where
  "blocks_needed b sz offset = (offset mod b + sz + b - 1) div b"

lemma blocks_read_bound: "blocks_read b sz offset * b \<le> sz + b"
proof -
  have "sz div b * b \<le> sz" by (rule div_times_less_eq_dividend)
  moreover have "(if (offset + sz) mod b \<noteq> 0 then 1 else 0) * b \<le> b" by simp
  ultimately show ?thesis unfolding blocks_read_def add_mult_distrib by linarith
qed

text \<open>The block count is one too small exactly when the request crosses one more block boundary.\<close>

lemma blocks_read_needed:
  assumes "0 < b" "0 < sz"
  shows "blocks_read b sz offset = blocks_needed b sz offset \<longleftrightarrow> offset mod b + sz mod b < b"
    and "blocks_read b sz offset \<noteq> blocks_needed b sz offset \<Longrightarrow>
      blocks_needed b sz offset = blocks_read b sz offset + 1"
proof -
  let ?o = "offset mod b" and ?s = "sz mod b"
  have m: "(offset + sz) mod b = (?o + ?s) mod b" by (simp add: mod_add_eq)
  have o': "?o < b" "?s < b" using assms by simp_all
  have n: "blocks_needed b sz offset = sz div b + (?o + ?s + b - 1) div b"
  proof -
    have "?o + sz + b - 1 = sz div b * b + (?o + ?s + b - 1)"
      using assms div_mult_mod_eq [of sz b] by linarith
    also have "\<dots> div b = sz div b + (?o + ?s + b - 1) div b"
      using assms by (intro div_mult_self3) simp
    finally show ?thesis by (simp only: blocks_needed_def)
  qed
  have "blocks_read b sz offset = blocks_needed b sz offset \<and> ?o + ?s < b \<or>
        blocks_needed b sz offset = blocks_read b sz offset + 1 \<and> \<not> ?o + ?s < b"
  proof -
    consider "?o + ?s = 0" | "0 < ?o + ?s" "?o + ?s < b" | "?o + ?s = b" | "b < ?o + ?s"
      by linarith
    then show ?thesis
    proof cases
      case 1
      with n m assms show ?thesis by (simp add: blocks_read_def)
    next
      case 2
      have "?o + ?s + b - 1 = (?o + ?s - 1) + b" using 2 by linarith
      moreover have "(?o + ?s - 1) div b = 0" using 2 by simp
      ultimately have one: "(?o + ?s + b - 1) div b = 1"
        using assms(1) by (simp only: div_add_self2)
      have "(?o + ?s) mod b \<noteq> 0" using 2 by simp
      with 2 show ?thesis unfolding blocks_read_def n one m by simp
    next
      case 3
      then have "(?o + ?s + b - 1) div b = 1"
        using div_add_self2 [of b "b - 1"] assms by simp
      with 3 n m show ?thesis by (simp add: blocks_read_def)
    next
      case 4
      then have "(?o + ?s + b - 1) div b = 2"
        by (intro div_nat_eqI) (use o' 4 in \<open>simp_all, linarith\<close>)
      moreover have "(?o + ?s) mod b \<noteq> 0"
        using 4 o' by (simp add: mod_if)
      ultimately show ?thesis using 4 n m by (simp add: blocks_read_def)
    qed
  qed
  then show "blocks_read b sz offset = blocks_needed b sz offset \<longleftrightarrow> ?o + ?s < b"
    and "blocks_read b sz offset \<noteq> blocks_needed b sz offset \<Longrightarrow>
      blocks_needed b sz offset = blocks_read b sz offset + 1" by auto
qed

text \<open>What the arithmetic of a read amounts to when nothing wraps.\<close>

lemma vol_read_result:
  assumes ok: "geometry_ok vol" and off: "unat offset < 2 ^ 62" and sz: "unat sz < 2 ^ 62"
    and inside: "vol_length vol = 0 \<or> unat offset + unat sz \<le> unat (vol_length vol)"
    and pos: "0 < unat sz"
    and b: "b = unat (block_size_of vol)"
    and n: "n = blocks_read b (unat sz) (unat offset)"
    and data: "unat (vol_offset vol) + unat offset div b * b + n * b \<le> length (source vol)"
    and buf: "fits 0 (unat sz) buf"
  shows "vol_read vol buf sz offset =
    (if n = 0 then Done (sz, buf)
     else let got = min (n * b - unat offset mod b) (unat sz) in
       Done (of_nat got, store 0 (chunk (unat (vol_offset vol) + unat offset) got (source vol)) buf))"
proof -
  let ?B = "block_size_of vol" and ?o = "unat offset mod b"
  define bc where "bc = sz div ?B + (if (offset + sz) mod ?B \<noteq> 0 then 1 else 0)"
  define P where "P = unat (vol_offset vol) + unat offset div b * b"
  have ub: "unat ?B = b" by (simp add: b)
  have b0: "0 < b" "b < 2 ^ 32" using block_size_pos [of vol] by (simp_all add: ub)
  have pow: "(2 :: nat) ^ 62 + 2 ^ 62 \<le> 2 ^ 63" "(2 :: nat) ^ 32 \<le> 2 ^ 62" "(2 :: nat) ^ 63 + 1 < 2 ^ 64"
    by simp_all
  from ok have small: "length (source vol) < 2 ^ 62" "unat (vol_offset vol) < 2 ^ 62"
    "unat (vol_length vol) < 2 ^ 62" by (simp_all add: geometry_ok_def)
  have "unat offset + unat sz < 2 ^ LENGTH(64)" using off sz by simp
  then have sum: "unat (offset + sz) = unat offset + unat sz" by (rule unat_plus)
  have nz: "(offset + sz) mod ?B \<noteq> 0 \<longleftrightarrow> (unat offset + unat sz) mod b \<noteq> 0"
    by (simp add: word_unat_eq_iff unat_mod ub sum)
  have nb: "n * b \<le> unat sz + b" unfolding n by (rule blocks_read_bound)
  then have nb63: "n * b < 2 ^ 63" using sz b0 pow by linarith
  have "n * 1 \<le> n * b" using b0 by (intro mult_le_mono2) simp
  then have n63: "n < 2 ^ 63" using nb63 by linarith
  have bc: "unat bc = n"
  proof -
    have "unat sz div b \<le> unat sz" by (rule div_le_dividend)
    then have "unat sz div b + 1 < 2 ^ 64" using sz pow by linarith
    then have "unat (sz div ?B + 1) = unat (sz div ?B) + unat (1 :: u64)"
      by (intro unat_plus) (simp add: unat_div ub)
    then show ?thesis by (simp add: bc_def n blocks_read_def nz unat_div ub)
  qed
  have "unat ?B * unat bc < 2 ^ LENGTH(64)" "unat bc * unat ?B < 2 ^ LENGTH(64)"
    using nb63 pow by (simp_all add: ub bc mult.commute)
  then have len: "unat (?B * bc) = n * b" "unat (bc * ?B) = n * b"
    by (simp_all add: unat_times ub bc mult.commute)
  have start_le: "unat offset div b * b \<le> unat offset" by (rule div_times_less_eq_dividend)
  have P63: "P < 2 ^ 63" using start_le off small pow by (simp only: P_def)
  have start: "unat ((offset div ?B) * ?B + vol_offset vol) = P"
  proof -
    have "unat offset div b * b < 2 ^ 64" using start_le off pow by linarith
    then have "unat (offset div ?B) * unat ?B < 2 ^ LENGTH(64)" by (simp add: unat_div ub)
    then have "unat ((offset div ?B) * ?B) = unat offset div b * b"
      by (simp add: unat_times unat_div ub)
    moreover from this have "unat ((offset div ?B) * ?B) + unat (vol_offset vol) < 2 ^ LENGTH(64)"
      using P63 by (simp add: P_def)
    ultimately show ?thesis by (simp add: unat_plus P_def)
  qed
  have s0: "0 \<le> sint ((offset div ?B) * ?B + vol_offset vol)"
    using P63 by (simp add: sint_nonneg_small start)
  have fp: "fpread (source vol) (?B * bc) ((offset div ?B) * ?B + vol_offset vol) =
      (of_nat (n * b), chunk P (n * b) (source vol))"
    using s0 data by (simp add: fpread_def start len P_def)
  have u: "unat (of_nat (n * b) :: u64) = n * b" using nb63 by (intro unat_of_nat_small) simp
  have un: "unat (of_nat n :: u64) = n" using n63 by (intro unat_of_nat_small) simp
  have pos': "sint (of_nat (n * b) :: u64) > 0 \<longleftrightarrow> n \<noteq> 0"
    using b0 nb63 by (simp only: sint_nonneg_small u) (simp add: zero_less_mult_iff)
  have rb: "(if sint (of_nat (n * b) :: u64) > 0 then of_nat (n * b) div ?B else of_nat (n * b)) =
      (of_nat n :: u64)"
  proof (cases "n = 0")
    case False
    have "unat (of_nat (n * b) div ?B) = n" using b0 by (simp only: unat_div u ub) simp
    then have "of_nat (n * b) div ?B = (of_nat n :: u64)" by (simp only: word_unat_eq_iff un)
    with False pos' show ?thesis by (simp only: if_True not_False_eq_True)
  qed simp
  have get: "vol_blk_get vol bc (offset div ?B) ?B = (of_nat n, chunk P (n * b) (source vol))"
    unfolding vol_blk_get_def Let_def fp prod.case rb ..
  have bo: "unat (offset mod ?B) = ?o" by (simp add: unat_mod ub)
  have c1: "\<not> (vol_length vol \<noteq> 0 \<and> sint (vol_length vol) < sint offset)"
  proof -
    have "sint (vol_length vol) = int (unat (vol_length vol))" "sint offset = int (unat offset)"
      by (rule sint_nonneg_small, use small off pow in linarith)+
    with inside show ?thesis by (simp only: of_nat_less_iff) linarith
  qed
  have c2: "\<not> (vol_length vol \<noteq> 0 \<and> offset + sz > vol_length vol)"
    using inside by (auto simp: word_less_nat_alt sum)
  have c3: "\<not> sz < 1" using pos by (simp add: word_less_nat_alt)
  have whole: "store 0 (chunk P (n * b) (source vol)) (replicate (n * b) (0 :: u8)) = chunk P (n * b) (source vol)"
    using data by (simp add: store_def P_def)
  have rd: "vol_read vol buf sz offset =
    (if (of_nat n :: u64) \<noteq> 0
     then if fits ?o (unat (min (of_nat n * ?B - offset mod ?B) sz)) (chunk P (n * b) (source vol)) \<and>
             fits 0 (unat (min (of_nat n * ?B - offset mod ?B) sz)) buf
          then Done (min (of_nat n * ?B - offset mod ?B) sz,
             store 0 (chunk ?o (unat (min (of_nat n * ?B - offset mod ?B) sz)) (chunk P (n * b) (source vol))) buf)
          else Fault
     else Done (min (of_nat n * ?B - offset mod ?B) sz, buf))"
    unfolding vol_read_def if_not_P [OF c1] if_not_P [OF c2] Let_def if_not_P [OF c3]
      bc_def [symmetric] get prod.case len whole bo ..
  show ?thesis
  proof (cases "n = 0")
    case True
    then have z: "(unat offset + unat sz) mod b = 0" "unat sz < b"
      using b0 by (auto simp: n blocks_read_def div_eq_0_iff split: if_splits)
    have "?o \<noteq> 0"
    proof
      assume "?o = 0"
      with z(1) have "unat sz mod b = 0" by (metis add_0 mod_add_left_eq)
      with z(2) pos show False by simp
    qed
    then have o0: "0 < ?o" by simp
    have "?o < 2 ^ 32" using b0 mod_less_divisor [of b "unat offset"] by linarith
    then have "unat sz \<le> 2 ^ 64 - ?o" using sz by simp
    moreover have "unat (- (offset mod ?B)) = 2 ^ 64 - ?o"
    proof -
      have o': "offset mod ?B = of_nat ?o" by (simp flip: bo)
      have z: "(of_nat (2 ^ 64) :: u64) = 0" by simp
      have "2 ^ 64 - ?o + ?o = 2 ^ 64" using \<open>?o < 2 ^ 32\<close> by simp
      then have "of_nat (2 ^ 64 - ?o) + (offset mod ?B) = 0" using z o' by (metis of_nat_add)
      then have "- (offset mod ?B) = of_nat (2 ^ 64 - ?o)" by (metis eq_neg_iff_add_eq_0)
      moreover have "2 ^ 64 - ?o < 2 ^ LENGTH(64)" using o0 by simp
      ultimately show ?thesis by (simp only: unat_of_nat_small)
    qed
    ultimately have "sz \<le> - (offset mod ?B)" by (simp add: word_le_nat_alt)
    then show ?thesis by (simp add: rd True min_def)
  next
    case False
    have "of_nat n \<noteq> (0 :: u64)" using un False by auto
    have "1 * b \<le> n * b" using False by (intro mult_le_mono1) simp
    then have o_nb: "?o \<le> n * b" using b0 mod_less_divisor [of b "unat offset"] by linarith
    have "unat (of_nat n :: u64) * unat ?B < 2 ^ LENGTH(64)" using nb63 by (simp add: un ub)
    then have nB: "unat (of_nat n * ?B) = n * b" by (simp add: unat_times un ub)
    have "unat (of_nat n * ?B - offset mod ?B) = n * b - ?o"
      using o_nb by (subst unat_minus_le) (simp_all only: nB bo)
    then have got: "unat (min (of_nat n * ?B - offset mod ?B) sz) = min (n * b - ?o) (unat sz)"
      by (simp add: min_def word_le_nat_alt)
    have "min (n * b - ?o) (unat sz) < 2 ^ LENGTH(64)" using sz by simp
    then have uo: "unat (of_nat (min (n * b - ?o) (unat sz)) :: u64) = min (n * b - ?o) (unat sz)"
      by (rule unat_of_nat_small)
    with got have got': "min (of_nat n * ?B - offset mod ?B) sz = of_nat (min (n * b - ?o) (unat sz))"
      by (simp only: word_unat_eq_iff)
    have "chunk ?o (min (n * b - ?o) (unat sz)) (chunk P (n * b) (source vol)) =
        chunk (P + ?o) (min (n * b - ?o) (unat sz)) (source vol)"
      using o_nb by (intro chunk_chunk) simp
    moreover have "P + ?o = unat (vol_offset vol) + unat offset"
      by (simp add: P_def add.assoc div_mult_mod_eq)
    moreover have "fits ?o (min (n * b - ?o) (unat sz)) (chunk P (n * b) (source vol))"
      using data o_nb by (simp add: fits_def P_def)
    moreover have "fits 0 (min (n * b - ?o) (unat sz)) buf" using buf by (simp add: fits_def)
    ultimately show ?thesis
      unfolding rd got got' Let_def using \<open>of_nat n \<noteq> 0\<close> False
      by (simp only: uo if_True not_False_eq_True simp_thms if_False)
  qed
qed

lemma blocks_cover:
  assumes "0 < b" "0 < sz" "offset mod b + sz mod b < b"
  shows "0 < blocks_read b sz offset" "offset mod b + sz \<le> blocks_read b sz offset * b"
proof -
  let ?o = "offset mod b"
  have n: "blocks_read b sz offset = (?o + sz + b - 1) div b"
    using blocks_read_needed(1) [OF assms(1,2)] assms(3) by (simp add: blocks_needed_def)
  have "(?o + sz + b - 1) div b * b + (?o + sz + b - 1) mod b = ?o + sz + b - 1"
    by (rule div_mult_mod_eq)
  moreover have "(?o + sz + b - 1) mod b < b" using assms(1) by simp
  ultimately show "?o + sz \<le> blocks_read b sz offset * b"
    unfolding n using assms(1,2) by linarith
  then show "0 < blocks_read b sz offset" using assms(2) by (cases "blocks_read b sz offset") auto
qed

lemma blocks_short:
  assumes "0 < b" "0 < sz" "\<not> offset mod b + sz mod b < b"
  shows "blocks_read b sz offset * b < offset mod b + sz"
proof -
  let ?o = "offset mod b" and ?n = "blocks_read b sz offset"
  have "blocks_needed b sz offset = ?n + 1"
    using blocks_read_needed [OF assms(1,2), of offset] assms(3) by blast
  then have "(?o + sz + b - 1) div b = ?n + 1" by (simp add: blocks_needed_def)
  moreover have "(?o + sz + b - 1) div b * b \<le> ?o + sz + b - 1" by (rule div_times_less_eq_dividend)
  ultimately have "?n * b + b \<le> ?o + sz + b - 1" by simp
  then show ?thesis using assms by linarith
qed

lemma vol_read_whole:
  assumes "geometry_ok vol" "unat offset < 2 ^ 62" "unat sz < 2 ^ 62" "0 < unat sz"
    and "vol_length vol = 0 \<or> unat offset + unat sz \<le> unat (vol_length vol)"
    and "b = unat (block_size_of vol)"
    and "unat offset mod b + unat sz mod b < b"
    and "unat (vol_offset vol) + unat offset div b * b + blocks_read b (unat sz) (unat offset) * b
      \<le> length (source vol)"
    and "fits 0 (unat sz) buf"
  shows "vol_read vol buf sz offset =
    Done (sz, store 0 (chunk (unat (vol_offset vol) + unat offset) (unat sz) (source vol)) buf)"
proof -
  have b0: "0 < b" using block_size_pos [of vol] assms(6) by simp
  note c = blocks_cover [OF b0 assms(4,7)]
  have "min (blocks_read b (unat sz) (unat offset) * b - unat offset mod b) (unat sz) = unat sz"
    using c(2) by (intro min_absorb2) linarith
  then show ?thesis
    using c(1) by (simp add: vol_read_result [OF assms(1-3,5,4,6) refl assms(8,9)] Let_def)
qed

section \<open>Correctness\<close>

text \<open>
  C10. A read inside a volume that does not cross one block boundary more than its length asks for
  (in particular every read that starts on a block boundary) returns its length and puts exactly
  those bytes of the source at the start of the buffer, from the volume's own offset on.
\<close>

theorem vol_read_exact:
  assumes "geometry_ok vol" "unat offset < 2 ^ 62" "unat sz < 2 ^ 62" "0 < unat sz"
    and "vol_length vol = 0 \<or> unat offset + unat sz \<le> unat (vol_length vol)"
    and "b = unat (block_size_of vol)"
    and "unat offset mod b + unat sz mod b < b"
    and "unat (vol_offset vol) + unat offset div b * b + blocks_read b (unat sz) (unat offset) * b
      \<le> length (source vol)"
    and "fits 0 (unat sz) buf"
  shows "vol_read vol buf sz offset =
    Done (sz, store 0 (chunk (unat (vol_offset vol) + unat offset) (unat sz) (source vol)) buf)"
  using assms by (rule vol_read_whole)

lemma vol_read_exact_witness:
  "vol_read \<lparr>source = [10, 11, 12, 13, 14, 15, 16, 17], sector_count = 2, sector_size = 2,
     phy_sector_size = 0, vol_offset = 2, vol_length = 6\<rparr> [0, 0, 0] 3 2 = Done (3, [14, 15, 16])"
proof -
  let ?v = "\<lparr>source = [10, 11, 12, 13, 14, 15, 16, 17 :: u8], sector_count = 2, sector_size = 2,
     phy_sector_size = 0, vol_offset = 2, vol_length = 6\<rparr>"
  have b: "2 = unat (block_size_of ?v)" by (simp add: block_size_of_def)
  have "geometry_ok ?v" by (simp add: geometry_ok_def)
  from vol_read_exact [OF this _ _ _ _ b, of 2 3 "[0, 0, 0]"] show ?thesis
    by (simp add: blocks_read_def fits_def chunk_def store_def)
qed

text \<open>
  A read inside a volume that crosses one boundary more delivers less than was asked for: if the
  computed block count is zero the call claims the full length and leaves the buffer as it was,
  otherwise it returns the bytes up to the end of the last block it fetched, fewer than the request.
\<close>

lemma vol_read_short:
  assumes "geometry_ok vol" "unat offset < 2 ^ 62" "unat sz < 2 ^ 62" "0 < unat sz"
    and "vol_length vol = 0 \<or> unat offset + unat sz \<le> unat (vol_length vol)"
    and "b = unat (block_size_of vol)"
    and "\<not> unat offset mod b + unat sz mod b < b"
    and "unat (vol_offset vol) + unat offset div b * b + blocks_read b (unat sz) (unat offset) * b
      \<le> length (source vol)"
    and "fits 0 (unat sz) buf"
  shows "if blocks_read b (unat sz) (unat offset) = 0 then vol_read vol buf sz offset = Done (sz, buf)
    else \<exists>got < unat sz. vol_read vol buf sz offset =
      Done (of_nat got, store 0 (chunk (unat (vol_offset vol) + unat offset) got (source vol)) buf)"
proof -
  let ?n = "blocks_read b (unat sz) (unat offset)"
  have b0: "0 < b" using block_size_pos [of vol] assms(6) by simp
  have "?n * b < unat offset mod b + unat sz" by (rule blocks_short [OF b0 assms(4,7)])
  then have "min (?n * b - unat offset mod b) (unat sz) = ?n * b - unat offset mod b"
    and "?n * b - unat offset mod b < unat sz" using assms(4) by auto
  then show ?thesis
    by (auto simp: vol_read_result [OF assms(1-3,5,4,6) refl assms(8,9)] Let_def)
qed

lemma vol_read_short_witness:
  "vol_read \<lparr>source = [10, 11, 12, 13, 14, 15, 16, 17], sector_count = 2, sector_size = 4,
     phy_sector_size = 0, vol_offset = 0, vol_length = 8\<rparr> [0, 0, 0] 3 1 = Done (3, [0, 0, 0])"
proof -
  let ?v = "\<lparr>source = [10, 11, 12, 13, 14, 15, 16, 17 :: u8], sector_count = 2, sector_size = 4,
     phy_sector_size = 0, vol_offset = 0, vol_length = 8\<rparr>"
  have b: "4 = unat (block_size_of ?v)" by (simp add: block_size_of_def)
  have "geometry_ok ?v" by (simp add: geometry_ok_def)
  from vol_read_short [OF this _ _ _ _ b, of 1 3 "[0, 0, 0]"] show ?thesis
    by (simp add: blocks_read_def fits_def)
qed

text \<open>When a volume can be closed: every entry below the count is a volume that can be closed.\<close>

lemma close_partitions_returns:
  "returns (close_partitions ps) \<longleftrightarrow> (\<forall>p \<in> set ps. \<exists>v. p = Some v \<and> returns (vol_close v))"
proof (induction ps)
  case (Cons p ps)
  show ?case
  proof (cases p)
    case (Some v)
    with Cons show ?thesis by (cases "vol_close v") (auto simp: returns_iff)
  qed simp
qed simp

lemma vol_close_returns:
  "returns (vol_close v) \<longleftrightarrow> partition_count v \<le> length (partitions v) \<and>
     (\<forall>i < partition_count v. \<exists>w. partitions v ! i = Some w \<and> returns (vol_close w))"
proof (cases v)
  case (Volume g t s d n ps)
  have "(\<forall>p \<in> set (rev (take n ps)). P p) \<longleftrightarrow> (\<forall>i < n. P (ps ! i))" if "n \<le> length ps" for P
    using that by (auto simp flip: nth_image)
  then show ?thesis by (simp add: Volume close_partitions_returns not_less)
qed

text \<open>
  Closing a volume after one more partition was made in it: with a table that is filled without
  gaps so far, the volume can be closed exactly if the new partition was put at the position given by
  the count; at any later position the count stops at an empty entry, and closing follows a null
  pointer.
\<close>

lemma vol_close_after_make_partition:
  assumes "returns (vol_close v)" "partition_count v < 128" "length (partitions v) = 128"
    and "\<forall>i. partition_count v \<le> i \<and> i < 128 \<longrightarrow> partitions v ! i = None"
    and "sector_size (geom v) \<noteq> 0" "partition_count v \<le> pos" "pos < 128"
  shows "\<exists>v'. vol_make_partition v pos offset len = Done v' \<and>
    (returns (vol_close v') \<longleftrightarrow> pos = partition_count v)"
proof -
  let ?w = "Volume ((geom v)\<lparr>vol_offset := offset, vol_length := len,
      sector_count := len div ucast (sector_size (geom v))\<rparr>) kTypeUnknown kTypeUnknown (depth v + 1) 0
      (replicate 128 None)"
  let ?v = "Volume (geom v) (vol_type v) (vol_subtype v) (depth v) (partition_count v + 1)
      ((partitions v)[pos := Some ?w])"
  have "unat (ucast (sector_size (geom v)) :: u64) \<noteq> 0" using assms(5) by (simp add: unat_eq_0)
  then have "ucast (sector_size (geom v)) \<noteq> (0 :: u64)" by (metis unat_0)
  then have made: "vol_make_partition v pos offset len = Done ?v"
    using assms by (simp add: vol_make_partition_def)
  have new: "returns (vol_close ?w)" by (simp add: vol_close_returns [of ?w])
  have old: "\<exists>w. partitions v ! i = Some w \<and> returns (vol_close w)" if "i < partition_count v" for i
    using assms(1) that by (simp add: vol_close_returns [of v])
  have "returns (vol_close ?v) \<longleftrightarrow> pos = partition_count v"
  proof (cases "pos = partition_count v")
    case True
    with old new assms show ?thesis
      unfolding vol_close_returns [of ?v] by (auto simp: nth_list_update less_Suc_eq)
  next
    case False
    then have "(partitions v)[pos := Some ?w] ! partition_count v = None" using assms by simp
    with False show ?thesis
      unfolding vol_close_returns [of ?v] by (auto intro!: exI [of _ "partition_count v"])
  qed
  with made show ?thesis by blast
qed

lemma vol_close_after_make_partition_witness:
  "\<exists>v'. vol_make_partition (Volume \<lparr>source = [], sector_count = 0, sector_size = 512, phy_sector_size = 0,
      vol_offset = 0, vol_length = 0\<rparr> 0 0 0 0 (replicate 128 None)) 2 0 0 = Done v' \<and> \<not> returns (vol_close v')"
proof -
  let ?v = "Volume \<lparr>source = [], sector_count = 0, sector_size = 512, phy_sector_size = 0,
      vol_offset = 0, vol_length = 0\<rparr> 0 0 0 0 (replicate 128 None)"
  have "returns (vol_close ?v)" by (simp add: vol_close_returns [of ?v])
  from vol_close_after_make_partition [OF this, of 2 0 0] show ?thesis by simp
qed

end
