(* ===== verification/BTree_File.thy ===== *)
theory BTree_File
  imports BTree_Search Node_Cache Volume_IO
begin

text \<open>
  Trees on files: \<open>btree_init\<close>, \<open>btree_get_node\<close> and \<open>BTIsNodeUsed\<close> of \<^verbatim>\<open>src/src/hfs/btree/btree.c\<close>. The
  state is the \<open>struct _BTree\<close>; \<open>fpread\<close> on its stream, which reads through a fork, is the field
  \<open>bt_file\<close> (size and offset to the count returned and the bytes stored). The conversion of records
  that the \<open>getNode\<close> pointer of a tree adds to \<open>btree_get_node\<close> is the argument \<open>convert\<close>.
  \<open>BTIsNodeUsed\<close> loads the map of used nodes through the same pointer; it follows the links of the map
  nodes without a bound, so these functions take fuel, and \<open>None\<close> is the loop that does not end.
\<close>

section \<open>The state of a tree\<close>

record btree =
  bt_file :: "u64 \<Rightarrow> u64 \<Rightarrow> u64 \<times> buffer"
  nodeCache :: cache
  nodeBitmap :: "buffer option"
  nodeBitmapSize :: u64
  nodeDescriptor :: buffer
  headerRecord :: BTHeaderRec
  treeID :: u32
  loadingBitmap :: bool

text \<open>The allocation of a tree zeroes it.\<close>

definition btree_zero :: btree where
  "btree_zero = \<lparr>bt_file = (\<lambda>_ _. (- 1, [])), nodeCache = cache_init 0, nodeBitmap = None, nodeBitmapSize = 0,
     nodeDescriptor = replicate 14 0, headerRecord = BTHeaderRec_of (replicate 106 0) 0, treeID = 0,
     loadingBitmap = False\<rparr>"

definition btree_init :: "btree \<Rightarrow> (u64 \<Rightarrow> u64 \<Rightarrow> u64 \<times> buffer) \<Rightarrow> (int \<times> btree) outcome" where
  "btree_init btree fp =
     (let buf = replicate 512 0;
          btree = btree\<lparr>bt_file := fp\<rparr>;
          (nbytes, got) = fp (of_nat (sizeof BTNodeDescriptor_t)) 0 in
      if sint nbytes < 0 then Done (- 1, btree)
      else
        obind (swap_BTNodeDescriptor 0 (chunk 0 (sizeof BTNodeDescriptor_t) (store 0 got buf))) (\<lambda>desc.
        let btree = btree\<lparr>nodeDescriptor := desc\<rparr> in
        if (rd desc (fld BTNodeDescriptor_t ''numRecords'' 0) :: u16) > 0
        then
          let (nbytes, got) = fp (of_nat (sizeof BTHeaderRec_t)) (of_nat (sizeof BTNodeDescriptor_t)) in
          if sint nbytes < 0 then Done (- 1, btree)
          else
            obind (swap_BTHeaderRec 0 (chunk 0 (sizeof BTHeaderRec_t) (store 0 got buf))) (\<lambda>hdr.
              Done (0, btree\<lparr>headerRecord := BTHeaderRec_of hdr 0, nodeCache := cache_init 100\<rparr>))
        else Done (0, btree\<lparr>nodeCache := cache_init 100\<rparr>)))"

section \<open>Fetching a node\<close>

text \<open>
  \<open>btree_get_node\<close> behind its two checks: the node comes from the cache or from the file, a complete
  read is cached as it was read, and the node is converted.
\<close>

definition convert_node :: "btree \<Rightarrow> u32 \<Rightarrow> buffer \<Rightarrow> (int \<times> btnode option \<times> btree) outcome" where
  "convert_node tree n data =
     (let node = \<lparr>header = headerRecord tree, nodeNumber = n,
                  node_size = unat (nodeSize (headerRecord tree)), node_data = data\<rparr> in
      obind (swap_BTreeNode node) (\<lambda>(rc, m).
        if rc < 0 then Done (- 1, None, tree) else Done (0, Some (node\<lparr>node_data := m\<rparr>), tree)))"

definition read_node :: "btree \<Rightarrow> u32 \<Rightarrow> (int \<times> btnode option \<times> btree) outcome" where
  "read_node tree n =
     (let nsz = unat (nodeSize (headerRecord tree));
          off = ucast n * ucast (nodeSize (headerRecord tree)) :: u64;
          (hit, data, cache) = cache_get (nodeCache tree) (replicate nsz 0) nsz (ucast n);
          tree = tree\<lparr>nodeCache := cache\<rparr> in
      if hit = 1 then convert_node tree n data
      else
        let (bytes_read, got) = bt_file tree (of_nat nsz) off; data = store 0 got data in
        if sint bytes_read < 0 then Done (sint (ucast bytes_read :: u32), None, tree)
        else convert_node
          (if bytes_read \<noteq> of_nat nsz then tree
           else tree\<lparr>nodeCache := snd (cache_set cache data (ucast n))\<rparr>) n data)"

text \<open>
  The \<open>getNode\<close> pointer of a tree whose map of used nodes is loaded, or is being loaded: the answer of
  \<open>BTIsNodeUsed\<close> comes from what is there.
\<close>

definition node_used :: "btree \<Rightarrow> u32 \<Rightarrow> bool outcome" where
  "node_used tree n =
     (if loadingBitmap tree \<and> ucast n > nodeBitmapSize tree then Done True
      else case nodeBitmap tree of None \<Rightarrow> Fault
           | Some bits \<Rightarrow> BTIsBlockUsed n bits (unat (nodeBitmapSize tree)))"

definition then_convert ::
  "(btnode \<Rightarrow> btnode outcome) \<Rightarrow> (int \<times> btnode option \<times> btree) outcome \<Rightarrow>
   (int \<times> btnode option \<times> btree) outcome" where
  "then_convert convert r =
     obind r (\<lambda>(rc, node, tree).
       if rc < 0 then Done (- 1, None, tree)
       else case node of None \<Rightarrow> Done (0, None, tree)
            | Some node \<Rightarrow> obind (convert node) (\<lambda>node. Done (0, Some node, tree)))"

definition get_node_mapped ::
  "(btnode \<Rightarrow> btnode outcome) \<Rightarrow> btree \<Rightarrow> u32 \<Rightarrow> (int \<times> btnode option \<times> btree) outcome" where
  "get_node_mapped convert tree n =
     then_convert convert
       (if n \<ge> totalNodes (headerRecord tree) then Done (- 1, None, tree)
        else obind (if n \<noteq> 0 then node_used tree n else Done True) (\<lambda>used.
          if \<not> used then Done (- 1, None, tree) else read_node tree n))"

section \<open>The map of used nodes\<close>

text \<open>The bytes of a map record.\<close>

definition map_record :: "btnode \<Rightarrow> u16 \<Rightarrow> buffer outcome" where
  "map_record node n =
     obind (BTGetBTNodeRecord node n) (\<lambda>r.
       if fits (unat (rec_offset r)) (unat (recordLen r)) (node_data node)
       then Done (chunk (unat (rec_offset r)) (unat (recordLen r)) (node_data node))
       else Fault)"

definition resize :: "nat \<Rightarrow> buffer \<Rightarrow> buffer" where
  "resize n m = take n m @ replicate (n - length m) 0"

fun load_map ::
  "(btnode \<Rightarrow> btnode outcome) \<Rightarrow> nat \<Rightarrow> btree \<Rightarrow> btnode \<Rightarrow> btree outcome option" where
  "load_map convert 0 tree node = None"
| "load_map convert (Suc fuel) tree node =
     (let node_id = nd_fLink node in
      if node_id > 0 \<and> sint node_id \<noteq> - 1
      then case get_node_mapped convert tree node_id of
             Critical \<Rightarrow> Some Critical | Fault \<Rightarrow> Some Fault
           | Done (loaded, right, tree) \<Rightarrow>
               if loaded \<noteq> 0 then Some Critical
               else case right of None \<Rightarrow> Some Fault
               | Some node \<Rightarrow>
                   (case map_record node 0 of
                      Critical \<Rightarrow> Some Critical | Fault \<Rightarrow> Some Fault
                    | Done bits \<Rightarrow>
                        let old_size = nodeBitmapSize tree; new_size = old_size + of_nat (length bits);
                            old = (case nodeBitmap tree of None \<Rightarrow> [] | Some m \<Rightarrow> m) in
                        load_map convert fuel
                          (tree\<lparr>nodeBitmapSize := new_size,
                                nodeBitmap := Some (store (unat old_size) bits (resize (unat new_size) old))\<rparr>)
                          node)
      else Some (Done (tree\<lparr>loadingBitmap := False\<rparr>)))"

definition BTIsNodeUsed ::
  "(btnode \<Rightarrow> btnode outcome) \<Rightarrow> nat \<Rightarrow> btree \<Rightarrow> u32 \<Rightarrow> (bool \<times> btree) outcome option" where
  "BTIsNodeUsed convert fuel tree nodeNum =
     (if loadingBitmap tree \<and> ucast nodeNum > nodeBitmapSize tree then Some (Done (True, tree))
      else case nodeBitmap tree of
        Some bits \<Rightarrow>
          Some (obind (BTIsBlockUsed nodeNum bits (unat (nodeBitmapSize tree))) (\<lambda>used. Done (used, tree)))
      | None \<Rightarrow>
          (case get_node_mapped convert (tree\<lparr>loadingBitmap := True\<rparr>) 0 of
             Critical \<Rightarrow> Some Critical | Fault \<Rightarrow> Some Fault
           | Done (rc, node, tree) \<Rightarrow>
               if rc < 0 then Some (Done (False, tree))
               else case node of None \<Rightarrow> Some Fault
               | Some node \<Rightarrow>
                   let room = unat (nodeSize (headerRecord tree)) * 16 in
                   (case map_record node 2 of
                      Critical \<Rightarrow> Some Critical | Fault \<Rightarrow> Some Fault
                    | Done bits \<Rightarrow>
                        if length bits > room then Some Fault
                        else
                          (case load_map convert fuel
                                  (tree\<lparr>nodeBitmapSize := of_nat (length bits),
                                        nodeBitmap := Some (store 0 bits (replicate room 0))\<rparr>) node of
                             None \<Rightarrow> None
                           | Some r \<Rightarrow> Some (obind r (\<lambda>tree.
                               obind (node_used tree nodeNum) (\<lambda>used. Done (used, tree))))))))"

text \<open>\<open>btree_get_node\<close>, and the \<open>getNode\<close> pointer that converts the records of the node as well.\<close>

definition btree_get_node ::
  "(btnode \<Rightarrow> btnode outcome) \<Rightarrow> nat \<Rightarrow> btree \<Rightarrow> u32 \<Rightarrow> (int \<times> btnode option \<times> btree) outcome option" where
  "btree_get_node convert fuel tree n =
     (if n \<ge> totalNodes (headerRecord tree) then Some (Done (- 1, None, tree))
      else if n \<noteq> 0
      then case BTIsNodeUsed convert fuel tree n of
             None \<Rightarrow> None
           | Some r \<Rightarrow> Some (obind r (\<lambda>(used, tree).
               if \<not> used then Done (- 1, None, tree) else read_node tree n))
      else Some (read_node tree n))"

definition get_node ::
  "(btnode \<Rightarrow> btnode outcome) \<Rightarrow> nat \<Rightarrow> btree \<Rightarrow> u32 \<Rightarrow> (int \<times> btnode option \<times> btree) outcome option" where
  "get_node convert fuel tree n =
     (case btree_get_node convert fuel tree n of None \<Rightarrow> None | Some r \<Rightarrow> Some (then_convert convert r))"

section \<open>A tree on a readable file\<close>

text \<open>
  What the file of a tree holds: the header, the stream, and the conversion of its records. \<open>disk_node\<close>
  is what a complete read of a node delivers, \<open>plain_node\<close> the node after both conversions, without
  a cache, and \<open>tree_view\<close> the nodes within the file that the map marks as used.
\<close>

record tree_source =
  src_file :: "u64 \<Rightarrow> u64 \<Rightarrow> u64 \<times> buffer"
  src_header :: BTHeaderRec
  src_convert :: "btnode \<Rightarrow> btnode outcome"

definition src_size :: "tree_source \<Rightarrow> nat" where
  "src_size src = unat (nodeSize (src_header src))"

definition disk_node :: "tree_source \<Rightarrow> u64 \<Rightarrow> buffer" where
  "disk_node src k = snd (src_file src (of_nat (src_size src)) (k * ucast (nodeSize (src_header src))))"

definition plain_node :: "tree_source \<Rightarrow> u32 \<Rightarrow> btnode option" where
  "plain_node src n =
     (let node = \<lparr>header = src_header src, nodeNumber = n, node_size = src_size src,
                  node_data = disk_node src (ucast n)\<rparr> in
      case swap_BTreeNode node of
        Done (rc, m) \<Rightarrow>
          if rc < 0 then None
          else (case src_convert src (node\<lparr>node_data := m\<rparr>) of Done node \<Rightarrow> Some node | _ \<Rightarrow> None)
      | _ \<Rightarrow> None)"

definition source_map :: "tree_source \<Rightarrow> buffer" where
  "source_map src =
     (case plain_node src 0 of None \<Rightarrow> []
      | Some node \<Rightarrow> (case map_record node 2 of Done bits \<Rightarrow> bits | _ \<Rightarrow> []))"

definition loaded_map :: "tree_source \<Rightarrow> buffer" where
  "loaded_map src = store 0 (source_map src) (replicate (src_size src * 16) 0)"

definition tree_view :: "tree_source \<Rightarrow> u32 \<Rightarrow> btnode option" where
  "tree_view src n =
     (if n < totalNodes (src_header src) \<and>
         (n = 0 \<or> BTIsBlockUsed n (loaded_map src) (length (source_map src)) = Done True)
      then plain_node src n else None)"

text \<open>
  Every node within the file can be read completely, and the map of used nodes is the third record of a
  header node that links to no further map node.
\<close>

definition source_ok :: "tree_source \<Rightarrow> bool" where
  "source_ok src \<longleftrightarrow>
     (\<forall>n < totalNodes (src_header src). \<exists>data. length data = src_size src \<and>
        src_file src (of_nat (src_size src)) (ucast n * ucast (nodeSize (src_header src))) =
          (of_nat (src_size src), data)) \<and>
     0 < totalNodes (src_header src) \<and>
     (\<exists>node. plain_node src 0 = Some node \<and> returns (map_record node 2) \<and> nd_fLink node = 0 \<and>
        node_size node = src_size src \<and> length (node_data node) = src_size src)"

definition tree_good :: "tree_source \<Rightarrow> btree \<Rightarrow> bool" where
  "tree_good src tree \<longleftrightarrow>
     source_ok src \<and> bt_file tree = src_file src \<and> headerRecord tree = src_header src \<and>
     \<not> loadingBitmap tree \<and>
     cache_ok (nodeCache tree) \<and> node_cache.coherent (disk_node src) (nodeCache tree) \<and>
     (nodeBitmap tree = None \<or>
      nodeBitmap tree = Some (loaded_map src) \<and> unat (nodeBitmapSize tree) = length (source_map src))"

text \<open>What the cache may change of a tree while its map is being loaded.\<close>

definition same_tree :: "tree_source \<Rightarrow> btree \<Rightarrow> btree \<Rightarrow> bool" where
  "same_tree src tree tree' \<longleftrightarrow>
     (\<exists>cache. tree' = tree\<lparr>nodeCache := cache\<rparr> \<and> cache_ok cache \<and> node_cache.coherent (disk_node src) cache)"

lemma read_node_plain:
  assumes ok: "source_ok src" and t: "bt_file tree = src_file src" "headerRecord tree = src_header src"
    and c: "cache_ok (nodeCache tree)" "node_cache.coherent (disk_node src) (nodeCache tree)"
    and n: "n < totalNodes (src_header src)" and node: "plain_node src n = Some node"
  shows "\<exists>tree'. then_convert (src_convert src) (read_node tree n) = Done (0, Some node, tree') \<and>
    same_tree src tree tree'"
proof -
  let ?nsz = "src_size src" and ?k = "ucast n :: u64"
  define data where "data = disk_node src ?k"
  from ok n have len: "length data = ?nsz" and read: "src_file src (of_nat ?nsz)
      (?k * ucast (nodeSize (src_header src))) = (of_nat ?nsz, data)"
    by (force simp: source_ok_def disk_node_def data_def)+
  let ?node = "\<lparr>header = src_header src, nodeNumber = n, node_size = ?nsz, node_data = data\<rparr>"
  obtain rc m where swap: "swap_BTreeNode ?node = Done (rc, m)" "\<not> rc < 0"
    and conv: "src_convert src (?node\<lparr>node_data := m\<rparr>) = Done node"
    using node by (auto simp: plain_node_def Let_def data_def split: outcome.splits if_splits)
  have convert: "then_convert (src_convert src) (convert_node t n data) = Done (0, Some node, t)"
    if "headerRecord t = src_header src" for t
    using swap conv that by (simp add: convert_node_def then_convert_def src_size_def)
  obtain hit buf cache where get: "cache_get (nodeCache tree) (replicate ?nsz 0) ?nsz ?k = (hit, buf, cache)"
    by (metis prod_cases3)
  note g = node_cache.coherent_get [OF c get]
  have whole: "store 0 data (replicate ?nsz 0) = data" by (simp add: store_def len)
  have sz: "unat (nodeSize (src_header src)) = ?nsz" by (simp add: src_size_def)
  show ?thesis
  proof (cases "hit = 1")
    case True
    then have "buf = data" using g(3) whole by (simp add: len flip: data_def)
    with True have "read_node tree n = convert_node (tree\<lparr>nodeCache := cache\<rparr>) n data"
      by (simp add: read_node_def Let_def t sz get)
    moreover have "same_tree src tree (tree\<lparr>nodeCache := cache\<rparr>)" using g by (auto simp: same_tree_def)
    ultimately show ?thesis using convert [of "tree\<lparr>nodeCache := cache\<rparr>"] t by auto
  next
    case False
    then have buf: "buf = replicate ?nsz 0" using g(4,5) by auto
    have "?nsz < 2 ^ 16" using unat_bound [of "nodeSize (src_header src)"] by (simp add: src_size_def)
    then have "\<not> sint (of_nat ?nsz :: u64) < 0"
      using sint_nonneg [of "of_nat ?nsz :: u64"] by (simp add: unat_of_nat_small)
    moreover obtain r cache' where set: "cache_set cache data ?k = (r, cache')" by force
    ultimately have "read_node tree n = convert_node (tree\<lparr>nodeCache := cache'\<rparr>) n data"
      using False read by (simp add: read_node_def Let_def t sz get buf whole)
    moreover have "same_tree src tree (tree\<lparr>nodeCache := cache'\<rparr>)"
      using node_cache.coherent_put [OF g(1,2), of ?k r cache'] set by (auto simp: same_tree_def data_def)
    ultimately show ?thesis using convert [of "tree\<lparr>nodeCache := cache'\<rparr>"] t by auto
  qed
qed

lemma source_map_node:
  assumes "source_ok src"
  obtains node where "plain_node src 0 = Some node" "map_record node 2 = Done (source_map src)"
    "nd_fLink node = 0" "length (source_map src) \<le> src_size src"
proof -
  from assms obtain node where node: "plain_node src 0 = Some node" "returns (map_record node 2)"
    "nd_fLink node = 0" "length (node_data node) = src_size src" by (auto simp: source_ok_def)
  then have m: "map_record node 2 = Done (source_map src)" by (auto simp: source_map_def returns_iff)
  then obtain p n where "chunk p n (node_data node) = source_map src"
    by (auto simp: map_record_def obind_Done_iff split: if_splits)
  from this [symmetric] have "length (source_map src) \<le> src_size src" by (simp add: node(4))
  with node m show thesis by (intro that)
qed

lemma map_length:
  assumes "source_ok src"
  shows "unat (of_nat (length (source_map src)) :: u64) = length (source_map src)"
proof -
  have "src_size src < 2 ^ 16" using unat_bound [of "nodeSize (src_header src)"] by (simp add: src_size_def)
  with assms have "length (source_map src) < 2 ^ 16" by (metis source_map_node le_less_trans)
  then show ?thesis by (intro unat_of_nat_small) simp
qed

text \<open>In a good state, \<open>BTIsNodeUsed\<close> answers from the map of the file, which it loads if it has to.\<close>

lemma BTIsNodeUsed_good:
  assumes good: "tree_good src tree" and fuel: "0 < fuel"
  shows "\<exists>tree'. BTIsNodeUsed (src_convert src) fuel tree n =
      Some (obind (BTIsBlockUsed n (loaded_map src) (length (source_map src))) (\<lambda>used. Done (used, tree'))) \<and>
    tree_good src tree' \<and> nodeBitmap tree' = Some (loaded_map src)"
proof (cases "nodeBitmap tree")
  case (Some bits)
  with good show ?thesis by (auto simp: tree_good_def BTIsNodeUsed_def)
next
  case None
  from good have ok: "source_ok src" and t: "bt_file tree = src_file src" "headerRecord tree = src_header src"
    and c: "cache_ok (nodeCache tree)" "node_cache.coherent (disk_node src) (nodeCache tree)"
    and nl: "\<not> loadingBitmap tree" by (auto simp: tree_good_def)
  obtain node where node: "plain_node src 0 = Some node" "map_record node 2 = Done (source_map src)"
    "nd_fLink node = 0" and short: "length (source_map src) \<le> src_size src" by (rule source_map_node [OF ok])
  have total: "0 < totalNodes (src_header src)" using ok by (simp add: source_ok_def)
  let ?tree = "tree\<lparr>loadingBitmap := True\<rparr>"
  obtain cache where read: "then_convert (src_convert src) (read_node ?tree 0) =
      Done (0, Some node, ?tree\<lparr>nodeCache := cache\<rparr>)"
    and cache: "cache_ok cache" "node_cache.coherent (disk_node src) cache"
    using read_node_plain [OF ok _ _ _ _ total node(1), of ?tree] t c by (auto simp: same_tree_def)
  have get: "get_node_mapped (src_convert src) ?tree 0 = Done (0, Some node, ?tree\<lparr>nodeCache := cache\<rparr>)"
    using read total t by (auto simp: get_node_mapped_def not_le)
  obtain f where f: "fuel = Suc f" using fuel by (cases fuel) auto
  let ?tree' = "tree\<lparr>nodeCache := cache, nodeBitmapSize := of_nat (length (source_map src)),
    nodeBitmap := Some (loaded_map src), loadingBitmap := False\<rparr>"
  have room: "\<not> unat (nodeSize (src_header src)) * 16 < length (source_map src)"
    using short by (simp add: src_size_def)
  have "BTIsNodeUsed (src_convert src) fuel tree n =
      Some (obind (BTIsBlockUsed n (loaded_map src) (length (source_map src))) (\<lambda>used. Done (used, ?tree')))"
    using get node room nl None t
    by (simp add: BTIsNodeUsed_def Let_def f loaded_map_def src_size_def node_used_def map_length [OF ok])
  moreover have "tree_good src ?tree'"
    using ok t cache by (simp add: tree_good_def map_length)
  ultimately show ?thesis by auto
qed

lemma get_node_good:
  assumes good: "tree_good src tree" and view: "tree_view src n = Some node" and fuel: "0 < fuel"
  shows "\<exists>tree'. get_node (src_convert src) fuel tree n = Some (Done (0, Some node, tree')) \<and> tree_good src tree'"
proof -
  have plain: "plain_node src n = Some node" and total: "n < totalNodes (src_header src)"
    and used: "n \<noteq> 0 \<Longrightarrow> BTIsBlockUsed n (loaded_map src) (length (source_map src)) = Done True"
    using view by (auto simp: tree_view_def split: if_splits)
  have read: "\<exists>t'. then_convert (src_convert src) (read_node t n) = Done (0, Some node, t') \<and> tree_good src t'"
    if "tree_good src t" for t
  proof -
    from that have t: "source_ok src" "bt_file t = src_file src" "headerRecord t = src_header src"
      "cache_ok (nodeCache t)" "node_cache.coherent (disk_node src) (nodeCache t)" by (simp_all add: tree_good_def)
    obtain t' where "then_convert (src_convert src) (read_node t n) = Done (0, Some node, t')" "same_tree src t t'"
      using read_node_plain [OF t total plain] by blast
    with that show ?thesis by (auto simp: same_tree_def tree_good_def)
  qed
  have hdr: "headerRecord tree = src_header src" using good by (simp add: tree_good_def)
  show ?thesis
  proof (cases "n = 0")
    case True
    then show ?thesis
      using read [OF good] total hdr by (auto simp: get_node_def btree_get_node_def not_le)
  next
    case False
    obtain t where "BTIsNodeUsed (src_convert src) fuel tree n = Some (Done (True, t))" "tree_good src t"
      using BTIsNodeUsed_good [OF good fuel, of n] used [OF False] by auto
    with read [of t] False total hdr show ?thesis by (auto simp: get_node_def btree_get_node_def not_le)
  qed
qed

text \<open>
  The fetch as the searches use it: a load of the map that does not end is no return. The lemmas above
  show that it returns, for every positive fuel.
\<close>

definition run :: "'a outcome option \<Rightarrow> 'a outcome" where
  "run r = (case r of None \<Rightarrow> Fault | Some r \<Rightarrow> r)"

interpretation tree_file: node_source
  "\<lambda>n tree. run (get_node (src_convert src) (Suc fuel) tree n)" "tree_good src" "tree_view src"
  for src fuel
proof
  fix s n node assume "tree_good src s" "tree_view src n = Some node"
  then show "\<exists>s'. run (get_node (src_convert src) (Suc fuel) s n) = Done (0, Some node, s') \<and> tree_good src s'"
    using get_node_good [of src s n node "Suc fuel"] by (auto simp: run_def)
qed

end
