(* ===== verification/Block_Range.thy ===== *)
theory Block_Range
  imports Hfs_Prelude
begin

text \<open>
  \<^verbatim>\<open>src/src/hfs/range.c\<close>: half-open ranges of \<open>size_t\<close> values, with the wrap-around of the 64-bit
  arithmetic. The lemmas compare each operation with the set of numbers that a range stands for.
\<close>

section \<open>Ranges\<close>

record range =
  range_start :: u64
  range_count :: u64

definition make_range :: "u64 \<Rightarrow> u64 \<Rightarrow> range" where
  "make_range start count = \<lparr>range_start = start, range_count = count\<rparr>"

definition range_equal :: "range \<Rightarrow> range \<Rightarrow> bool" where
  "range_equal a b =
     (if range_start a = range_start b
      then if range_count a = range_count b then True else False
      else False)"

definition range_contains :: "u64 \<Rightarrow> range \<Rightarrow> bool" where
  "range_contains pos r =
     (let start = range_start r; end' = range_start r + range_count r - 1
      in start \<le> pos \<and> pos \<le> end')"

definition range_max :: "range \<Rightarrow> u64" where
  "range_max r = range_start r + range_count r"

definition range_intersection :: "range \<Rightarrow> range \<Rightarrow> range" where
  "range_intersection a b =
     (if (range_contains (range_start a) b \<or> range_contains (range_max a) b) \<or>
         (range_contains (range_start b) a \<or> range_contains (range_max b) a)
      then \<lparr>range_start = max (range_start a) (range_start b),
            range_count = min (range_count a) (range_count b)\<rparr>
      else \<lparr>range_start = 0, range_count = 0\<rparr>)"

section \<open>The numbers in a range\<close>

definition members :: "range \<Rightarrow> nat set" where
  "members r = {unat (range_start r)..<unat (range_start r) + unat (range_count r)}"

definition in_bounds :: "range \<Rightarrow> bool" where
  "in_bounds r \<longleftrightarrow> 0 < range_count r \<and> unat (range_start r) + unat (range_count r) < 2 ^ 64"

lemma range_make [simp]: "range_start (make_range s n) = s" "range_count (make_range s n) = n"
  by (simp_all add: make_range_def)

lemma range_equal_iff [simp]: "range_equal a b \<longleftrightarrow> a = b"
  by (cases a, cases b) (simp add: range_equal_def)

lemma unat_add_lt: "unat a + unat b < 2 ^ 64 \<Longrightarrow> unat (a + b :: u64) = unat a + unat b"
  by (simp add: unat_word_ariths)

lemma range_contains_members:
  assumes "in_bounds r"
  shows "range_contains pos r \<longleftrightarrow> unat pos \<in> members r"
proof -
  let ?e = "range_start r + range_count r"
  from assms have e: "unat ?e = unat (range_start r) + unat (range_count r)"
    and c: "0 < unat (range_count r)"
    by (simp_all add: in_bounds_def unat_add_lt word_less_nat_alt)
  then have "1 \<le> ?e" by (simp add: word_le_nat_alt)
  then have "unat (?e - 1) = unat ?e - 1" by (simp add: unat_sub)
  with e c show ?thesis
    by (auto simp: range_contains_def members_def word_le_nat_alt Let_def)
qed

text \<open>
  \<open>range_contains\<close>, for every position and every range that ends below \<open>2 ^ 64\<close>: a non-empty
  range contains exactly its numbers, an empty range contains nothing if it starts above zero, and
  the empty range at zero contains every position, because its end wraps to the largest \<open>size_t\<close>.
\<close>

lemma range_contains_spec:
  assumes "unat start + unat count < 2 ^ 64"
  shows "range_contains pos (make_range start count) \<longleftrightarrow>
     (if count = 0 then start = 0
      else unat start \<le> unat pos \<and> unat pos < unat start + unat count)"
proof -
  consider "count = 0" "start = 0" | "count = 0" "start \<noteq> 0" | "count \<noteq> 0" by blast
  then show ?thesis
  proof cases
    case 1
    have "pos \<le> - 1" by (rule word_n1_ge)
    with 1 show ?thesis by (simp add: range_contains_def)
  next
    case 2
    then have "1 \<le> start" by (simp add: word_le_nat_alt Suc_le_eq unat_gt_0)
    then have "unat (start - 1) < unat start" by (simp add: unat_sub word_le_nat_alt)
    then have "start - 1 < start" by (simp add: word_less_nat_alt)
    with 2 show ?thesis by (auto simp: range_contains_def Let_def)
  next
    case 3
    with assms have "in_bounds (make_range start count)"
      by (simp add: in_bounds_def word_neq_0_conv)
    from range_contains_members [OF this, of pos] 3 show ?thesis by (simp add: members_def)
  qed
qed

lemma range_contains_spec_witness:
  "range_contains 7 (make_range 5 3) \<and> \<not> range_contains 8 (make_range 5 3)"
  using range_contains_spec [of 5 3 7] range_contains_spec [of 5 3 8] by simp

text \<open>
  What \<open>range_intersection\<close> computes, for two non-empty ranges that end below \<open>2 ^ 64\<close>: the
  result covers every common number and starts at the first one if there is any; it can be longer
  than the intersection, since its length is the smaller length. Ranges that neither overlap nor
  touch give the empty range at zero.
\<close>

lemma range_intersection_spec:
  assumes "in_bounds a" "in_bounds b"
  shows "members a \<inter> members b \<subseteq> members (range_intersection a b) \<and>
    (members a \<inter> members b \<noteq> {} \<longrightarrow>
       unat (range_start (range_intersection a b)) = Min (members a \<inter> members b) \<and>
       range_count (range_intersection a b) = min (range_count a) (range_count b)) \<and>
    (unat (range_max a) < unat (range_start b) \<longrightarrow> range_intersection a b = make_range 0 0)"
proof -
  have mx: "unat (range_max a) = unat (range_start a) + unat (range_count a)"
    "unat (range_max b) = unat (range_start b) + unat (range_count b)"
    using assms by (simp_all add: range_max_def in_bounds_def unat_add_lt)
  let ?hit = "(range_contains (range_start a) b \<or> range_contains (range_max a) b) \<or>
         (range_contains (range_start b) a \<or> range_contains (range_max b) a)"
  have un: "unat (max x y) = max (unat x) (unat y)" "unat (min x y) = min (unat x) (unat y)" for x y :: u64
    by (simp_all add: max_def min_def word_le_nat_alt)
  have pos: "0 < unat (range_count a)" "0 < unat (range_count b)"
    using assms by (simp_all add: in_bounds_def word_less_nat_alt)
  have common: ?hit if "members a \<inter> members b \<noteq> {}"
    using that assms by (auto simp: range_contains_members members_def)
  have sub: "members a \<inter> members b \<subseteq> members (range_intersection a b)"
  proof (cases "members a \<inter> members b = {}")
    case False
    with common have ?hit by blast
    then show ?thesis by (auto simp: range_intersection_def members_def un)
  qed simp
  have first: "unat (range_start (range_intersection a b)) = Min (members a \<inter> members b) \<and>
       range_count (range_intersection a b) = min (range_count a) (range_count b)"
    if ne: "members a \<inter> members b \<noteq> {}"
  proof -
    let ?m = "max (unat (range_start a)) (unat (range_start b))"
    from ne obtain x where "x \<in> members a" "x \<in> members b" by blast
    then have "?m \<in> members a \<inter> members b" by (auto simp: members_def)
    moreover have "?m \<le> y" if "y \<in> members a \<inter> members b" for y
      using that by (auto simp: members_def)
    moreover have "finite (members a \<inter> members b)" by (simp add: members_def)
    ultimately have "Min (members a \<inter> members b) = ?m" by (intro Min_eqI)
    with common [OF ne] show ?thesis by (simp add: range_intersection_def un)
  qed
  have apart: "range_intersection a b = make_range 0 0" if "unat (range_max a) < unat (range_start b)"
    using that assms pos
    by (auto simp: range_intersection_def range_contains_members members_def mx make_range_def)
  from sub first apart show ?thesis by blast
qed

lemma range_intersection_spec_witness:
  "(let a = make_range 0 10; b = make_range 5 10 in
    members a \<inter> members b \<subseteq> members (range_intersection a b)) \<and>
   range_intersection (make_range 0 10) (make_range 5 10) = make_range 5 10"
proof -
  have "in_bounds (make_range 0 10)" "in_bounds (make_range 5 10)"
    by (simp_all add: in_bounds_def)
  from range_intersection_spec [OF this] show ?thesis
    by (simp add: range_intersection_def range_contains_def range_max_def make_range_def)
qed

end
