(* ===== verification/Extent_List.thy ===== *)
theory Extent_List
  imports Block_Range
begin

text \<open>
  \<^verbatim>\<open>src/src/hfs/hfs_extentlist.c\<close>: the list of extents of a fork, which maps the logical blocks of
  the fork to allocation blocks of the volume. The \<open>TAILQ\<close> of the code is a list of extents. The
  interface \<open>block_map\<close> states what its clients rely on: the list stands for the sequence of
  allocation blocks of the fork, adding appends a run, and finding returns a contiguous run that
  starts at the requested block.
\<close>

section \<open>Extents\<close>

record extent =
  logicalStart :: u64
  startBlock :: u64
  blockCount :: u64

record HFSPlusExtentDescriptor =
  d_startBlock :: u32
  d_blockCount :: u32

type_synonym extent_list = "extent list"
type_synonym extent_record = "HFSPlusExtentDescriptor list"

definition extentlist_make :: extent_list where
  "extentlist_make = []"

text \<open>
  The loop that numbers the extents after an insertion. Its accumulator is an \<open>int\<close>: it is widened
  with its sign when it is stored or added, and the sum is truncated to 32 bits.
\<close>

fun renumber :: "32 word \<Rightarrow> extent_list \<Rightarrow> extent_list" where
  "renumber block [] = []"
| "renumber block (extent # rest) =
     extent\<lparr>logicalStart := scast block\<rparr> #
     renumber (ucast (scast block + blockCount extent)) rest"

definition extentlist_add :: "extent_list \<Rightarrow> u64 \<Rightarrow> u64 \<Rightarrow> extent_list" where
  "extentlist_add list start count =
     (if count = 0 then list
      else let newExtent = \<lparr>logicalStart = 0, startBlock = start, blockCount = count\<rparr> in
        if list = [] then [newExtent\<lparr>logicalStart := 0\<rparr>]
        else renumber 0 (list @ [newExtent]))"

definition extentlist_add_descriptor :: "extent_list \<Rightarrow> HFSPlusExtentDescriptor \<Rightarrow> extent_list" where
  "extentlist_add_descriptor list d =
     extentlist_add list (ucast (d_startBlock d)) (ucast (d_blockCount d))"

definition extentlist_add_record :: "extent_list \<Rightarrow> extent_record \<Rightarrow> extent_list" where
  "extentlist_add_record list r = fold (\<lambda>d list. extentlist_add_descriptor list d) r list"

text \<open>The result is the allocation block and the length of the run, or \<open>None\<close> for \<open>false\<close>.\<close>

definition extentlist_find :: "extent_list \<Rightarrow> u64 \<Rightarrow> (u64 \<times> u64) option" where
  "extentlist_find list logical_block =
     (case find (\<lambda>extent. range_contains logical_block
                   (make_range (logicalStart extent) (blockCount extent))) list of
        None \<Rightarrow> None
      | Some extent \<Rightarrow>
          let extentOffset = logical_block - logicalStart extent in
          if sint (ucast (blockCount extent - extentOffset) :: 32 word) \<le> 0 then None
          else Some (startBlock extent + extentOffset, blockCount extent - extentOffset))"

definition extentlist_free :: "extent_list \<Rightarrow> extent_list" where
  "extentlist_free list = []"

section \<open>The interface\<close>

text \<open>
  A map from the blocks of a fork to those of the volume, as its clients see it: \<open>blocks\<close> are the
  allocation blocks in logical order.
\<close>

locale block_map =
  fixes ok :: "'s \<Rightarrow> bool"
    and blocks :: "'s \<Rightarrow> nat list"
    and make :: 's
    and add :: "'s \<Rightarrow> u64 \<Rightarrow> u64 \<Rightarrow> 's"
    and lookup :: "'s \<Rightarrow> u64 \<Rightarrow> (u64 \<times> u64) option"
    and capacity :: nat
  assumes ok_make: "ok make" and blocks_make: "blocks make = []"
    and ok_add: "ok s \<Longrightarrow> length (blocks s) + unat count < capacity \<Longrightarrow>
      unat start + unat count < 2 ^ 64 \<Longrightarrow> ok (add s start count)"
    and blocks_add: "ok s \<Longrightarrow> length (blocks s) + unat count < capacity \<Longrightarrow>
      unat start + unat count < 2 ^ 64 \<Longrightarrow>
      blocks (add s start count) = blocks s @ [unat start..<unat start + unat count]"
    and lookup_none: "ok s \<Longrightarrow> lookup s l = None \<longleftrightarrow> length (blocks s) \<le> unat l"
    and lookup_run: "ok s \<Longrightarrow> lookup s l = Some (d, n) \<Longrightarrow>
      0 < unat n \<and> unat l + unat n \<le> length (blocks s) \<and>
      chunk (unat l) (unat n) (blocks s) = [unat d..<unat d + unat n]"
begin

lemma lookup_block:
  assumes "ok s" "lookup s l = Some (d, n)"
  shows "blocks s ! unat l = unat d"
proof -
  from lookup_run [OF assms] have "0 < unat n" "unat l + unat n \<le> length (blocks s)"
    and run: "chunk (unat l) (unat n) (blocks s) = [unat d..<unat d + unat n]" by auto
  then have "chunk (unat l) (unat n) (blocks s) ! 0 = unat d" by simp
  with \<open>0 < unat n\<close> \<open>unat l + unat n \<le> length (blocks s)\<close> show ?thesis by (simp add: nth_chunk)
qed

text \<open>Adding a run never changes what an earlier block maps to.\<close>

lemma lookup_add_before:
  assumes "ok s" "length (blocks s) + unat count < capacity" "unat start + unat count < 2 ^ 64"
    and "unat l < length (blocks s)"
  shows "\<exists>d n. lookup (add s start count) l = Some (d, n) \<and> unat d = blocks s ! unat l"
proof -
  let ?s = "add s start count"
  have ok: "ok ?s" and b: "blocks ?s = blocks s @ [unat start..<unat start + unat count]"
    using assms by (simp_all add: ok_add blocks_add)
  with assms(4) have "lookup ?s l \<noteq> None" by (simp add: lookup_none)
  then obtain d n where dn: "lookup ?s l = Some (d, n)" by (cases "lookup ?s l") auto
  from lookup_block [OF ok dn] assms(4) have "unat d = blocks s ! unat l"
    by (simp add: b nth_append)
  with dn show ?thesis by blast
qed

end

section \<open>The list as a block map\<close>

definition extent_blocks :: "extent \<Rightarrow> nat list" where
  "extent_blocks e = [unat (startBlock e)..<unat (startBlock e) + unat (blockCount e)]"

definition list_blocks :: "extent_list \<Rightarrow> nat list" where
  "list_blocks es = concat (map extent_blocks es)"

definition extent_ok :: "extent \<Rightarrow> bool" where
  "extent_ok e \<longleftrightarrow> 0 < unat (blockCount e) \<and> unat (startBlock e) + unat (blockCount e) < 2 ^ 64"

fun numbered :: "nat \<Rightarrow> extent_list \<Rightarrow> bool" where
  "numbered k [] = (k < 2 ^ 31)"
| "numbered k (e # es) =
     (unat (logicalStart e) = k \<and> extent_ok e \<and> numbered (k + unat (blockCount e)) es)"

definition extentlist_ok :: "extent_list \<Rightarrow> bool" where
  "extentlist_ok es = numbered 0 es"

lemma length_extent_blocks [simp]: "length (extent_blocks e) = unat (blockCount e)"
  by (simp add: extent_blocks_def)

lemma list_blocks_simps [simp]:
  "list_blocks [] = []" "list_blocks (e # es) = extent_blocks e @ list_blocks es"
  "list_blocks (es @ fs) = list_blocks es @ list_blocks fs"
  by (simp_all add: list_blocks_def)

lemma extent_blocks_logicalStart [simp]:
  "extent_blocks (e\<lparr>logicalStart := x\<rparr>) = extent_blocks e"
  "extent_ok (e\<lparr>logicalStart := x\<rparr>) = extent_ok e"
  by (simp_all add: extent_blocks_def extent_ok_def)

lemma numbered_bound: "numbered k es \<Longrightarrow> k + length (list_blocks es) < 2 ^ 31"
  by (induction k es rule: numbered.induct) (auto simp: add.assoc)

lemma numbered_ok: "numbered k es \<Longrightarrow> list_all extent_ok es"
  by (induction k es rule: numbered.induct) auto

lemma list_blocks_renumber [simp]: "list_blocks (renumber block es) = list_blocks es"
  by (induction block es rule: renumber.induct) simp_all

lemma sint_small:
  assumes "unat (b :: 32 word) < 2 ^ 31"
  shows "sint b = int (unat b)"
proof -
  have "int (unat b) < int (2 ^ 31)" using assms by (simp only: of_nat_less_iff)
  then have hi: "uint b < 2 ^ 31" by simp
  have lo: "- (2 ^ 31) \<le> uint b" by (rule order_trans [of _ 0]) simp_all
  have len: "LENGTH(32) - Suc 0 = 31" by simp
  have "sint b = signed_take_bit 31 (uint b)" by (simp only: sint_uint len)
  also have "\<dots> = uint b" using lo hi by (rule signed_take_bit_int_eq_self)
  finally show ?thesis by simp
qed

lemma scast_small:
  assumes "unat (b :: 32 word) < 2 ^ 31"
  shows "unat (scast b :: u64) = unat b"
proof -
  have "(scast b :: u64) = ucast b" using sint_small [OF assms] by (simp only: scast_eq ucast_eq uint_nat)
  then show ?thesis using assms by (simp add: unsigned_ucast_eq take_bit_nat_eq_self)
qed

lemma numbered_renumber:
  assumes "list_all extent_ok es" "unat block + length (list_blocks es) < 2 ^ 31"
  shows "numbered (unat block) (renumber block es)"
  using assms
proof (induction block es rule: renumber.induct)
  case (2 block e es)
  let ?next = "ucast (scast block + blockCount e :: u64) :: 32 word"
  have s: "unat (scast block :: u64) = unat block"
    using "2.prems" by (intro scast_small) simp
  then have "unat (scast block + blockCount e :: u64) = unat block + unat (blockCount e)"
    using "2.prems" by (simp add: unat_word_ariths)
  then have n: "unat ?next = unat block + unat (blockCount e)"
    using "2.prems" by (simp add: unsigned_ucast_eq take_bit_nat_eq_self)
  with "2.IH" "2.prems" have "numbered (unat ?next) (renumber ?next es)" by simp
  with "2.prems" s n show ?case by simp
qed simp

lemma extentlist_add_blocks:
  assumes "extentlist_ok es" "length (list_blocks es) + unat n < 2 ^ 31" "unat s + unat n < 2 ^ 64"
  shows "extentlist_ok (extentlist_add es s n)"
    and "list_blocks (extentlist_add es s n) = list_blocks es @ [unat s..<unat s + unat n]"
proof -
  let ?e = "\<lparr>logicalStart = 0, startBlock = s, blockCount = n\<rparr>"
  have "extentlist_ok (extentlist_add es s n) \<and>
        list_blocks (extentlist_add es s n) = list_blocks es @ [unat s..<unat s + unat n]"
  proof (cases "n = 0")
    case True
    with assms(1) show ?thesis by (simp add: extentlist_add_def)
  next
    case False
    with assms have e: "extent_ok ?e" by (simp add: extent_ok_def unat_gt_0)
    have b: "extent_blocks ?e = [unat s..<unat s + unat n]" by (simp add: extent_blocks_def)
    show ?thesis
    proof (cases "es = []")
      case True
      with False assms e b show ?thesis
        by (simp add: extentlist_add_def extentlist_ok_def)
    next
      case ne: False
      have all: "list_all extent_ok (es @ [?e])"
        using numbered_ok [of 0 es] assms(1) e by (simp add: extentlist_ok_def)
      have "numbered 0 (renumber 0 (es @ [?e]))"
        using numbered_renumber [OF all, of 0] assms(2) b by simp
      with False ne b show ?thesis
        by (simp add: extentlist_add_def extentlist_ok_def)
    qed
  qed
  then show "extentlist_ok (extentlist_add es s n)"
    "list_blocks (extentlist_add es s n) = list_blocks es @ [unat s..<unat s + unat n]" by auto
qed

text \<open>Finding: the extent that holds the block, and the run from the block to its end.\<close>

lemma find_numbered:
  assumes "numbered k es" "k \<le> unat l"
  shows "case find (\<lambda>e. range_contains l (make_range (logicalStart e) (blockCount e))) es of
      None \<Rightarrow> k + length (list_blocks es) \<le> unat l
    | Some e \<Rightarrow> unat (logicalStart e) \<le> unat l \<and>
        unat l < unat (logicalStart e) + unat (blockCount e) \<and>
        unat (logicalStart e) + unat (blockCount e) \<le> k + length (list_blocks es) \<and>
        k + length (list_blocks es) < 2 ^ 31 \<and> extent_ok e \<and> k \<le> unat (logicalStart e) \<and>
        chunk (unat (logicalStart e) - k) (unat (blockCount e)) (list_blocks es) = extent_blocks e"
  using assms
proof (induction k es rule: numbered.induct)
  case (2 k e es)
  from numbered_bound [OF "2.prems"(1)]
  have bound: "k + unat (blockCount e) + length (list_blocks es) < 2 ^ 31" by simp
  have "in_bounds (make_range (logicalStart e) (blockCount e))"
    using "2.prems" bound by (simp add: in_bounds_def extent_ok_def word_less_nat_alt)
  from range_contains_members [OF this, of l] "2.prems"
  have hit: "range_contains l (make_range (logicalStart e) (blockCount e)) \<longleftrightarrow>
      unat l < k + unat (blockCount e)"
    by (auto simp: members_def)
  show ?case
  proof (cases "unat l < k + unat (blockCount e)")
    case True
    with hit bound "2.prems" show ?thesis by (simp add: chunk_def)
  next
    case False
    with "2.IH" "2.prems"
    have IH: "case find (\<lambda>e. range_contains l (make_range (logicalStart e) (blockCount e))) es of
      None \<Rightarrow> k + unat (blockCount e) + length (list_blocks es) \<le> unat l
    | Some e' \<Rightarrow> unat (logicalStart e') \<le> unat l \<and>
        unat l < unat (logicalStart e') + unat (blockCount e') \<and>
        unat (logicalStart e') + unat (blockCount e') \<le> k + unat (blockCount e) + length (list_blocks es) \<and>
        k + unat (blockCount e) + length (list_blocks es) < 2 ^ 31 \<and> extent_ok e' \<and>
        k + unat (blockCount e) \<le> unat (logicalStart e') \<and>
        chunk (unat (logicalStart e') - (k + unat (blockCount e))) (unat (blockCount e')) (list_blocks es) =
          extent_blocks e'"
      by simp
    have skip: "chunk (p - k) c (xs @ ys) = chunk (p - (k + length xs)) c ys"
      if "k + length xs \<le> p" for p c and xs ys :: "nat list"
      using that by (simp add: chunk_def)
    have "chunk (p - k) c (extent_blocks e @ list_blocks es) =
          chunk (p - (k + unat (blockCount e))) c (list_blocks es)"
      if "k + unat (blockCount e) \<le> p" for p c
      using skip [of "extent_blocks e" p c "list_blocks es"] that by simp
    with IH False hit show ?thesis by (auto split: option.splits)
  qed
qed simp

lemma find_run_positive:
  assumes "unat c < 2 ^ 31" "unat o' < unat (c :: u64)"
  shows "0 < sint (ucast (c - o') :: 32 word)"
proof -
  have d: "unat (c - o') = unat c - unat o'" using assms by (simp add: unat_sub word_le_nat_alt)
  then have "unat (ucast (c - o') :: 32 word) = unat c - unat o'"
    using assms by (simp add: unsigned_ucast_eq take_bit_nat_eq_self)
  then have "sint (ucast (c - o') :: 32 word) = int (unat c - unat o')"
    using assms by (subst sint_small) simp_all
  with assms(2) show ?thesis by (simp only: of_nat_0_less_iff zero_less_diff)
qed

lemma extentlist_find_run:
  assumes "extentlist_ok es"
  shows "case extentlist_find es l of
      None \<Rightarrow> length (list_blocks es) \<le> unat l
    | Some (d, n) \<Rightarrow> 0 < unat n \<and> unat l + unat n \<le> length (list_blocks es) \<and>
        chunk (unat l) (unat n) (list_blocks es) = [unat d..<unat d + unat n]"
proof -
  let ?P = "\<lambda>e. range_contains l (make_range (logicalStart e) (blockCount e))"
  note found = find_numbered [OF assms [unfolded extentlist_ok_def], of l]
  show ?thesis
  proof (cases "find ?P es")
    case None
    with found show ?thesis by (simp add: extentlist_find_def)
  next
    case (Some e)
    let ?o = "l - logicalStart e" and ?b = "list_blocks es"
    from Some found have e: "unat (logicalStart e) \<le> unat l"
        "unat l < unat (logicalStart e) + unat (blockCount e)"
        "unat (logicalStart e) + unat (blockCount e) \<le> length ?b" "length ?b < 2 ^ 31"
        "extent_ok e"
      and chunk: "chunk (unat (logicalStart e)) (unat (blockCount e)) ?b = extent_blocks e"
      by auto
    have o': "unat ?o = unat l - unat (logicalStart e)"
      using e by (simp add: unat_sub word_le_nat_alt)
    have n: "unat (blockCount e - ?o) = unat (blockCount e) - unat ?o"
      using e o' by (simp add: unat_sub word_le_nat_alt)
    have d: "unat (startBlock e + ?o) = unat (startBlock e) + unat ?o"
      using e o' by (simp add: extent_ok_def unat_word_ariths)
    have pos: "0 < sint (ucast (blockCount e - ?o) :: 32 word)"
      using e o' by (intro find_run_positive) auto
    have "chunk (unat l) (unat (blockCount e - ?o)) ?b =
        chunk (unat ?o) (unat (blockCount e - ?o)) (extent_blocks e)"
      using chunk_chunk [of "unat ?o" "unat (blockCount e - ?o)" "unat (blockCount e)"
          "unat (logicalStart e)" ?b] e o' n chunk by simp
    also have "\<dots> = [unat (startBlock e + ?o)..<unat (startBlock e + ?o) + unat (blockCount e - ?o)]"
      using e o' by (simp add: chunk_def extent_blocks_def d n)
    finally show ?thesis
      using Some pos e o' n by (simp add: extentlist_find_def Let_def)
  qed
qed

text \<open>The run that is found goes to the end of the extent that holds the block.\<close>

lemma extentlist_find_extent:
  assumes "extentlist_ok es" "extentlist_find es l = Some (d, n)"
  shows "\<exists>e \<in> set es. unat (logicalStart e) \<le> unat l \<and>
    unat l + unat n = unat (logicalStart e) + unat (blockCount e) \<and>
    unat d = unat (startBlock e) + (unat l - unat (logicalStart e))"
proof -
  let ?P = "\<lambda>e. range_contains l (make_range (logicalStart e) (blockCount e))"
  note found = find_numbered [OF assms(1) [unfolded extentlist_ok_def], of l]
  obtain e where e: "find ?P es = Some e" "d = startBlock e + (l - logicalStart e)" "n = blockCount e - (l - logicalStart e)"
    using assms(2) by (auto simp: extentlist_find_def Let_def split: option.splits if_splits)
  from e(1) found have b: "unat (logicalStart e) \<le> unat l" "unat l < unat (logicalStart e) + unat (blockCount e)" "extent_ok e"
    by auto
  have o': "unat (l - logicalStart e) = unat l - unat (logicalStart e)"
    using b by (simp add: unat_sub word_le_nat_alt)
  have "unat n = unat (blockCount e) - (unat l - unat (logicalStart e))"
    using b o' by (simp add: e(3) unat_sub word_le_nat_alt)
  moreover have "unat d = unat (startBlock e) + (unat l - unat (logicalStart e))"
    using b o' by (simp add: e(2) extent_ok_def unat_word_ariths)
  moreover have "e \<in> set es" using e(1) by (auto simp: find_Some_iff)
  ultimately show ?thesis using b by (intro bexI [of _ e]) auto
qed

interpretation fork_blocks: block_map extentlist_ok list_blocks extentlist_make extentlist_add
  extentlist_find "2 ^ 31"
proof
  show "extentlist_ok extentlist_make" "list_blocks extentlist_make = []"
    by (simp_all add: extentlist_make_def extentlist_ok_def)
  show "extentlist_ok (extentlist_add s start count)"
    "list_blocks (extentlist_add s start count) = list_blocks s @ [unat start..<unat start + unat count]"
    if "extentlist_ok s" "length (list_blocks s) + unat count < 2 ^ 31"
      "unat start + unat count < 2 ^ 64" for s start count
    using extentlist_add_blocks [OF that] by auto
  show "extentlist_find s l = None \<longleftrightarrow> length (list_blocks s) \<le> unat l"
    if "extentlist_ok s" for s l
    using extentlist_find_run [OF that, of l] by (auto split: option.splits)
  show "0 < unat n \<and> unat l + unat n \<le> length (list_blocks s) \<and>
      chunk (unat l) (unat n) (list_blocks s) = [unat d..<unat d + unat n]"
    if "extentlist_ok s" "extentlist_find s l = Some (d, n)" for s l d n
    using extentlist_find_run [OF that(1), of l] that(2) by simp
qed

section \<open>Correctness\<close>

text \<open>
  C11. Adding a run of allocation blocks: while a fork has fewer than \<open>2 ^ 31\<close> blocks, the list stays
  well numbered and its blocks are the old ones followed by the run, so every logical block keeps its
  place; an empty run changes nothing.
\<close>

theorem extentlist_add_correct:
  assumes "extentlist_ok es" "length (list_blocks es) + unat n < 2 ^ 31" "unat s + unat n < 2 ^ 64"
  shows "extentlist_ok (extentlist_add es s n) \<and>
         list_blocks (extentlist_add es s n) = list_blocks es @ [unat s..<unat s + unat n]"
  using assms by (simp add: fork_blocks.ok_add fork_blocks.blocks_add)

lemma extentlist_add_correct_witness:
  "extentlist_ok (extentlist_add (extentlist_add [] 100 3) 7 2) \<and>
   list_blocks (extentlist_add (extentlist_add [] 100 3) 7 2) = [100, 101, 102, 7, 8]"
proof -
  have l: "extentlist_add [] 100 3 = [\<lparr>logicalStart = 0, startBlock = 100, blockCount = 3\<rparr>]"
    by (simp add: extentlist_add_def)
  have "extentlist_ok (extentlist_add [] 100 3)" "list_blocks (extentlist_add [] 100 3) = [100, 101, 102]"
    by (simp_all add: l extentlist_ok_def extent_ok_def extent_blocks_def upt_rec)
  with extentlist_add_correct [of "extentlist_add [] 100 3" 2 7] show ?thesis
    by (simp add: upt_rec)
qed

text \<open>
  C12. Finding a logical block: in a well numbered list the search succeeds for exactly the blocks of
  the fork, and then returns the allocation block of the requested one with the number of blocks from
  there to the end of the extent that holds it, all of which follow each other on the volume.
\<close>

theorem extentlist_find_correct:
  assumes "extentlist_ok es"
  shows "case extentlist_find es l of
      None \<Rightarrow> length (list_blocks es) \<le> unat l
    | Some (d, n) \<Rightarrow> 0 < unat n \<and> unat l + unat n \<le> length (list_blocks es) \<and>
        chunk (unat l) (unat n) (list_blocks es) = [unat d..<unat d + unat n] \<and>
        (\<exists>e \<in> set es. unat (logicalStart e) \<le> unat l \<and>
           unat l + unat n = unat (logicalStart e) + unat (blockCount e) \<and>
           unat d = unat (startBlock e) + (unat l - unat (logicalStart e)))"
  using fork_blocks.lookup_none [OF assms] fork_blocks.lookup_run [OF assms] extentlist_find_extent [OF assms]
  by (auto split: option.split)

lemma extentlist_find_correct_witness:
  "extentlist_find (extentlist_add (extentlist_add [] 100 3) 7 2) 3 = Some (7, 2) \<and>
   chunk 3 2 (list_blocks (extentlist_add (extentlist_add [] 100 3) 7 2)) = [7, 8]"
proof -
  let ?es = "extentlist_add (extentlist_add [] 100 3) 7 2"
  have es: "?es = [\<lparr>logicalStart = 0, startBlock = 100, blockCount = 3\<rparr>,
      \<lparr>logicalStart = 3, startBlock = 7, blockCount = 2\<rparr>]"
    by (simp add: extentlist_add_def)
  then have ok: "extentlist_ok ?es" by (simp add: extentlist_ok_def extent_ok_def)
  have "extentlist_find ?es 3 = Some (7, 2)"
    by (simp add: es extentlist_find_def range_contains_def)
  with extentlist_find_correct [OF ok, of 3] show ?thesis by (simp add: upt_rec)
qed

end
