(* ===== verification/Extents_Overflow.thy ===== *)
theory Extents_Overflow
  imports BTree_File Extent_List
begin

text \<open>
  The extents overflow tree: \<^verbatim>\<open>src/src/hfs/extents.c\<close>. Its keys name a fork and the logical block with
  which a run of eight extents begins. The lookup of a record is the search of \<open>BTree_Search\<close> on this
  tree; the extent list of a fork is put together from the eight extents of its catalog record and the
  records of the tree.
\<close>

section \<open>Keys and records\<close>

definition HFSPlusExtentKey_of :: "buffer \<Rightarrow> nat \<Rightarrow> HFSPlusExtentKey" where
  "HFSPlusExtentKey_of m p =
     \<lparr>ek_keyLength = rd m (fld HFSPlusExtentKey_t ''keyLength'' p),
      ek_forkType = rd m (fld HFSPlusExtentKey_t ''forkType'' p),
      ek_fileID = rd m (fld HFSPlusExtentKey_t ''fileID'' p),
      ek_startBlock = rd m (fld HFSPlusExtentKey_t ''startBlock'' p)\<rparr>"

definition HFSPlusExtentRecord_of :: "buffer \<Rightarrow> nat \<Rightarrow> extent_record" where
  "HFSPlusExtentRecord_of m p = map (\<lambda>i.
     let d = elem HFSPlusExtentDescriptor_t i p in
     \<lparr>d_startBlock = rd m (fld HFSPlusExtentDescriptor_t ''startBlock'' d),
      d_blockCount = rd m (fld HFSPlusExtentDescriptor_t ''blockCount'' d)\<rparr>) [0..<kHFSPlusExtentDensity]"

definition extents_keyCompare :: "HFSPlusExtentKey \<Rightarrow> buffer \<Rightarrow> nat \<Rightarrow> int outcome" where
  "extents_keyCompare key m p =
     (if fits p (sizeof HFSPlusExtentKey_t) m
      then Done (hfsplus_extents_compare_keys key (HFSPlusExtentKey_of m p)) else Fault)"

section \<open>Fetching a node\<close>

text \<open>What \<open>hfsplus_extents_get_node\<close> adds to \<open>btree_get_node\<close>.\<close>

definition extents_convert_record :: "btnode \<Rightarrow> nat \<Rightarrow> buffer \<Rightarrow> buffer outcome" where
  "extents_convert_record node n m =
     obind (BTGetBTNodeRecord (node\<lparr>node_data := m\<rparr>) (of_nat n)) (\<lambda>record.
     let key = unat (rec_offset record) in
     obind (swap_HFSPlusExtentKey key m) (\<lambda>m.
     obind (load m (fld HFSPlusExtentKey_t ''keyLength'' key)) (\<lambda>keyLength :: u16.
       if unat keyLength \<noteq> kHFSPlusExtentKeyMaximumLength then Done m
       else if nd_kind (node\<lparr>node_data := m\<rparr>) = kBTLeafNode
       then swap_HFSPlusExtentRecord (rec_value record) m
       else Done m)))"

definition extents_convert :: "btnode \<Rightarrow> btnode outcome" where
  "extents_convert node =
     (if nd_kind node = kBTIndexNode \<or> nd_kind node = kBTLeafNode
      then obind (steps (map (extents_convert_record node) [0..<unat (nd_numRecords node)]) (node_data node))
             (\<lambda>m. Done (node\<lparr>node_data := m\<rparr>))
      else Done node)"

definition hfsplus_extents_get_node ::
  "nat \<Rightarrow> u32 \<Rightarrow> btree \<Rightarrow> (int \<times> btnode option \<times> btree) outcome" where
  "hfsplus_extents_get_node fuel n tree = run (get_node extents_convert fuel tree n)"

text \<open>The tree on a stream, once, with its map of used nodes loaded.\<close>

definition hfsplus_get_extents_btree ::
  "nat \<Rightarrow> (u64 \<Rightarrow> u64 \<Rightarrow> u64 \<times> buffer) \<Rightarrow> btree outcome" where
  "hfsplus_get_extents_btree fuel fp =
     obind (btree_init btree_zero fp) (\<lambda>(_, tree).
     obind (run (BTIsNodeUsed extents_convert fuel (tree\<lparr>treeID := kHFSExtentsFileID\<rparr>) 0)) (\<lambda>(_, tree).
       Done tree))"

section \<open>Forks and the lookup of an extent record\<close>

record HFSPlusFork =
  fork_logicalSize :: u64
  fork_totalBlocks :: u32
  fork_cnid :: u32
  forkType :: u8
  fork_first :: extent_record
  fork_extents :: extent_list

text \<open>
  The value is the result, what is stored through the two pointers, and the tree. If the search stores
  no node, the code reads \<open>node->dataLen\<close> through a null pointer.
\<close>

definition hfsplus_extents_find_record ::
  "nat \<Rightarrow> (nat \<Rightarrow> u32) \<Rightarrow> HFSPlusFork \<Rightarrow> u64 \<Rightarrow> btree \<Rightarrow>
   (int \<times> (extent_record \<times> u32) option \<times> btree) outcome" where
  "hfsplus_extents_find_record fuel adjacent fork start tree =
     (if rootNode (headerRecord tree) = 0 then Done (0, None, tree)
      else
        let searchKey = \<lparr>ek_keyLength = of_nat kHFSPlusExtentKeyMaximumLength, ek_forkType = forkType fork,
                         ek_fileID = fork_cnid fork, ek_startBlock = ucast start\<rparr> in
        obind (btree_search extents_keyCompare (hfsplus_extents_get_node fuel) (headerRecord tree) adjacent
                 searchKey tree) (\<lambda>(result, found, tree).
        case found of None \<Rightarrow> Fault
        | Some (node, idx) \<Rightarrow>
            if node_size node = 0 then Done (if result then - 1 else 0, None, tree)
            else
              obind (btree_get_record node idx) (\<lambda>r.
              case r of None \<Rightarrow> Fault
              | Some (recordKey, recordValue) \<Rightarrow>
                  if \<not> fits recordKey (sizeof HFSPlusExtentKey_t) (node_data node) then Fault
                  else
                    let returnedKey = HFSPlusExtentKey_of (node_data node) recordKey in
                    if ek_fileID returnedKey \<noteq> ek_fileID searchKey \<or>
                       ek_forkType returnedKey \<noteq> ek_forkType searchKey \<or>
                       ek_startBlock returnedKey > ek_startBlock searchKey
                    then Done (0, None, tree)
                    else if fits recordValue (kHFSPlusExtentDensity * sizeof HFSPlusExtentDescriptor_t)
                              (node_data node)
                    then Done (if result then 1 else 0,
                               Some (HFSPlusExtentRecord_of (node_data node) recordValue,
                                     ek_startBlock returnedKey), tree)
                    else Fault)))"

section \<open>The extent list of a fork\<close>

text \<open>
  The loop takes its lookup as an argument; the record and the start block keep their initial zeros
  where the lookup stores nothing.
\<close>

definition record_blocks :: "extent_record \<Rightarrow> u32" where
  "record_blocks r = fold (\<lambda>d blocks. blocks + d_blockCount d) r 0"

fun more_extents ::
  "(u64 \<Rightarrow> 's \<Rightarrow> (int \<times> (extent_record \<times> u32) option \<times> 's) outcome) \<Rightarrow> u32 \<Rightarrow> nat \<Rightarrow> u32 \<Rightarrow>
   extent_list \<Rightarrow> 's \<Rightarrow> (bool \<times> extent_list \<times> 's) outcome option" where
  "more_extents lookup totalBlocks 0 blocks list s = None"
| "more_extents lookup totalBlocks (Suc fuel) blocks list s =
     (if blocks < totalBlocks
      then case lookup (ucast blocks) s of
        Critical \<Rightarrow> Some Critical | Fault \<Rightarrow> Some Fault
      | Done (found, stored, s) \<Rightarrow>
          let (record, start) =
                (case stored of None \<Rightarrow> (replicate kHFSPlusExtentDensity \<lparr>d_startBlock = 0, d_blockCount = 0\<rparr>, 0)
                 | Some rs \<Rightarrow> rs) in
          if found < 0 then Some (Done (False, list, s))
          else if found = 0 then Some (Done (True, list, s))
          else if start > blocks then Some Critical
          else if extentlist_find list (ucast start) \<noteq> None then Some Critical
          else
            let list = extentlist_add_record list record in
            if d_blockCount (record ! 7) = 0 then Some (Done (True, list, s))
            else more_extents lookup totalBlocks fuel (blocks + record_blocks record) list s
      else Some (Done (True, list, s)))"

definition hfsplus_extents_get_extentlist_for_fork ::
  "(u64 \<Rightarrow> 's \<Rightarrow> (int \<times> (extent_record \<times> u32) option \<times> 's) outcome) \<Rightarrow> nat \<Rightarrow> HFSPlusFork \<Rightarrow>
   's \<Rightarrow> (bool \<times> extent_list \<times> 's) outcome option" where
  "hfsplus_extents_get_extentlist_for_fork lookup fuel fork s =
     more_extents lookup (fork_totalBlocks fork) fuel (record_blocks (fork_first fork))
       (extentlist_add_record (fork_extents fork) (fork_first fork)) s"

section \<open>The search of the tree\<close>

text \<open>
  A record of the tree as the lookups see it: its key and, behind a key of the fixed length, its extents.
\<close>

type_synonym extent_entry = "HFSPlusExtentKey \<times> extent_record option"

definition extent_entry_at :: "buffer \<Rightarrow> nat \<Rightarrow> extent_entry option" where
  "extent_entry_at m p =
     (if fits p 12 m
      then Some (HFSPlusExtentKey_of m p,
                 if fits (p + 12) 64 m then Some (HFSPlusExtentRecord_of m (p + 12)) else None)
      else None)"

definition entry_cmp :: "extent_entry \<Rightarrow> extent_entry \<Rightarrow> int" where
  "entry_cmp a b = hfsplus_extents_compare_keys (fst a) (fst b)"

lemma sizeof_extent: "sizeof HFSPlusExtentKey_t = 12" "sizeof HFSPlusExtentDescriptor_t = 8"
  "kHFSPlusExtentKeyMaximumLength = 10"
  by code_simp+

interpretation extents_search: search_tree entry_cmp "\<lambda>k. extents_keyCompare (fst k)" extent_entry_at
  "\<lambda>n tree. run (get_node (src_convert src) (Suc fuel) tree n)" "tree_good src" "tree_view src"
  for src fuel
proof (intro search_tree.intro stored_keys.intro stored_keys_axioms.intro)
  have "key_order (\<lambda>a b :: extent_entry. hfsplus_extents_compare_keys (fst a) (fst b))"
    by (rule key_order_map [OF extent_keys.key_order_axioms])
  then show "key_order entry_cmp" by (simp add: entry_cmp_def [abs_def])
  show "extents_keyCompare (fst k) m p = Done (entry_cmp k k')" if "extent_entry_at m p = Some k'" for k m p k'
    using that by (auto simp: extent_entry_at_def extents_keyCompare_def entry_cmp_def sizeof_extent split: if_splits)
qed (rule tree_file.node_source_axioms)

lemma extents_view_node:
  assumes "tree_view src n = Some node" "src_convert src = extents_convert"
  shows "header node = src_header src" "node_size node = src_size src"
proof -
  have "header node' = header node0 \<and> node_size node' = node_size node0"
    if "extents_convert node0 = Done node'" for node0 node'
    using that by (auto simp: extents_convert_def obind_Done_iff split: if_splits)
  with assms show "header node = src_header src" "node_size node = src_size src"
    by (force simp: tree_view_def plain_node_def Let_def split: if_splits outcome.splits)+
qed

lemma extent_leaf_record:
  assumes holds: "holds_keys extent_entry_at node ls" and i: "i < length ls"
    and node: "nd_kind node = kBTLeafNode" "attributes (header node) AND kBTBigKeysMask \<noteq> 0" "maxKeyLength (header node) = 10"
    and e: "ls ! i = (k, Some r)" "ek_keyLength k = 10"
  shows "btree_get_record node (of_nat i) =
      Done (Some (unat (record_offset node i), unat (record_offset node i) + 12))"
    and "fits (unat (record_offset node i) + 12) 64 (node_data node)"
    and "fits (unat (record_offset node i)) 12 (node_data node)"
    and "HFSPlusExtentKey_of (node_data node) (unat (record_offset node i)) = k"
    and "HFSPlusExtentRecord_of (node_data node) (unat (record_offset node i) + 12) = r"
proof -
  let ?o = "unat (record_offset node i)"
  have ent: "extent_entry_at (node_data node) ?o = Some (k, Some r)"
    using holds i e by (auto simp: holds_keys_def)
  then show fit: "fits (?o + 12) 64 (node_data node)" "fits ?o 12 (node_data node)"
    and k: "HFSPlusExtentKey_of (node_data node) ?o = k"
    and "HFSPlusExtentRecord_of (node_data node) (?o + 12) = r"
    by (auto simp: extent_entry_at_def split: if_splits)
  obtain d where d: "btree_get_record node (of_nat i) = Done (Some (?o, d))" by (rule holds_keys_record [OF holds i])
  have i16: "i < 2 ^ 16" using i holds unat_bound [of "nd_numRecords node"] by (simp add: holds_keys_def)
  have "BTGetRecord node (of_nat i) = Done ?o"
    using d by (auto simp: btree_get_record_def obind_Done_iff split: if_splits)
  moreover have "load (node_data node) ?o = Done (10 :: u16)"
    using fit(2) k e(2) by (auto simp: load_def fits_def HFSPlusExtentKey_of_def fld_def HFSPlusExtentKey_offsets)
  ultimately have "BTGetRecordKeyLength node (of_nat i) = Done 12"
    using node by (simp add: BTGetRecordKeyLength_def Let_def adjust_key_size_def)
  with d show "btree_get_record node (of_nat i) = Done (Some (?o, ?o + 12))"
    by (auto simp: btree_get_record_def obind_Done_iff split: if_splits)
qed

text \<open>The tree of a volume: its keys have the fixed length, and its entries ascend.\<close>

definition extents_tree :: "tree_source \<Rightarrow> extent_entry list \<Rightarrow> bool" where
  "extents_tree src es \<longleftrightarrow>
     src_convert src = extents_convert \<and>
     attributes (src_header src) AND kBTBigKeysMask \<noteq> 0 \<and> maxKeyLength (src_header src) = 10 \<and>
     subtree (tree_view src) extent_entry_at entry_cmp (totalNodes (src_header src))
       (unat (treeDepth (src_header src))) (rootNode (src_header src)) es \<and>
     sorted_wrt (\<lambda>a b. entry_cmp a b < 0) es \<and>
     (\<forall>e \<in> set es. ek_keyLength (fst e) = 10 \<and> snd e \<noteq> None)"

definition fork_key :: "HFSPlusFork \<Rightarrow> u32 \<Rightarrow> HFSPlusExtentKey" where
  "fork_key fork start =
     \<lparr>ek_keyLength = 10, ek_forkType = forkType fork, ek_fileID = fork_cnid fork, ek_startBlock = start\<rparr>"

definition same_fork :: "HFSPlusFork \<Rightarrow> HFSPlusExtentKey \<Rightarrow> bool" where
  "same_fork fork k \<longleftrightarrow> ek_fileID k = fork_cnid fork \<and> ek_forkType k = forkType fork"

lemma compare_same_fork:
  assumes "same_fork fork k"
  shows "hfsplus_extents_compare_keys (fork_key fork b) k = cmp_nat (unat b) (unat (ek_startBlock k))"
    and "hfsplus_extents_compare_keys k (fork_key fork b) = cmp_nat (unat (ek_startBlock k)) (unat b)"
  using assms by (auto simp: hfsplus_extents_compare_keys_def same_fork_def fork_key_def Let_def)

lemma compare_other_fork:
  "hfsplus_extents_compare_keys (fork_key fork b) k = 0 \<Longrightarrow> same_fork fork k"
  by (auto simp: hfsplus_extents_compare_keys_def same_fork_def fork_key_def Let_def word_unat_eq_iff split: if_splits)

lemma find_record_tree:
  assumes tree: "extents_tree src es" and good: "tree_good src tree" and ne: "es \<noteq> []"
    and first: "hfsplus_extents_compare_keys (fst (hd es)) (fork_key fork (ucast start)) \<le> 0"
    and e: "es ! (rank entry_cmp (fork_key fork (ucast start), None) es - 1) = (k, Some r)"
  shows "\<exists>tree'. tree_good src tree' \<and>
    hfsplus_extents_find_record (Suc fuel) adjacent fork start tree =
      Done (if same_fork fork k
            then (if ek_startBlock k = ucast start then 1 else 0, Some (r, ek_startBlock k), tree')
            else (0, None, tree'))"
proof -
  let ?key = "fork_key fork (ucast start)" and ?c = "\<lambda>k. extents_keyCompare (fst k)"
  let ?skey = "(?key, None) :: extent_entry"
  let ?gn = "\<lambda>n tree. run (get_node (src_convert src) (Suc fuel) tree n)" and ?h = "src_header src"
  note t = tree [unfolded extents_tree_def]
  have asc: "key_order.ascending_keys entry_cmp es" using t by (simp add: extents_search.ascending_sorted)
  have first': "entry_cmp (hd es) ?skey \<le> 0" using first by (simp add: entry_cmp_def)
  have pos: "0 < rank entry_cmp ?skey es"
    using extents_search.rank_nth [OF asc, of 0 ?skey] first' ne by (simp add: hd_conv_nth)
  let ?i = "rank entry_cmp ?skey es - 1"
  have i: "?i < length es" using extents_search.rank_le [of ?skey es] pos by linarith
  have le: "hfsplus_extents_compare_keys k ?key \<le> 0"
    using extents_search.rank_nth [OF asc i, of ?skey] pos e by (simp add: entry_cmp_def)
  have exact: "(\<exists>k \<in> set es. entry_cmp ?skey k = 0) \<longleftrightarrow> hfsplus_extents_compare_keys ?key k = 0"
    using extents_search.exact_iff [OF asc pos] e by (simp add: entry_cmp_def)
  have h: "headerRecord tree = ?h" using good by (simp add: tree_good_def)
  have "extents_search.lands src ?skey es (btree_search ?c ?gn ?h adjacent ?skey tree)"
    using t asc first' good by (intro extents_search.search_lands) auto
  then obtain node j tree' ls n where
    res: "btree_search ?c ?gn ?h adjacent ?skey tree =
      Done (hfsplus_extents_compare_keys ?key k = 0, Some (node, j), tree')"
    and good': "tree_good src tree'" and view: "tree_view src n = Some node" and leaf: "nd_kind node = kBTLeafNode"
    and holds: "holds_keys extent_entry_at node ls" and j: "unat j < length ls" "ls ! unat j = (k, Some r)"
    using pos e unfolding extents_search.lands_def exact by force
  have search: "btree_search extents_keyCompare (hfsplus_extents_get_node (Suc fuel)) ?h adjacent ?key tree =
      Done (hfsplus_extents_compare_keys ?key k = 0, Some (node, j), tree')"
  proof -
    have "btree_search extents_keyCompare ?gn ?h adjacent ?key tree = btree_search ?c ?gn ?h adjacent ?skey tree"
      by (rule btree_search_cong) simp
    moreover have "?gn = hfsplus_extents_get_node (Suc fuel)"
      using t by (intro ext) (simp add: hfsplus_extents_get_node_def)
    ultimately show ?thesis using res by simp
  qed
  have kl: "ek_keyLength k = 10" using t nth_mem [OF i] e by auto
  note n = extents_view_node [OF view]
  have nd: "header node = ?h" "node_size node = src_size src" using n t by auto
  note l = extent_leaf_record [OF holds j(1) leaf _ _ j(2) kl]
  have get: "btree_get_record node j =
      Done (Some (unat (record_offset node (unat j)), unat (record_offset node (unat j)) + 12))"
    using l(1) nd t by simp
  have facts: "fits (unat (record_offset node (unat j)) + 12) 64 (node_data node)"
    "fits (unat (record_offset node (unat j))) 12 (node_data node)"
    "HFSPlusExtentKey_of (node_data node) (unat (record_offset node (unat j))) = k"
    "HFSPlusExtentRecord_of (node_data node) (unat (record_offset node (unat j)) + 12) = r"
    using l(2-) nd t by simp_all
  have sz: "node_size node \<noteq> 0" using holds by (simp add: holds_keys_def node_ok_def)
  have root: "rootNode ?h \<noteq> 0" using t by (auto elim: subtree_node)
  have key: "?key = \<lparr>ek_keyLength = of_nat kHFSPlusExtentKeyMaximumLength, ek_forkType = forkType fork,
                         ek_fileID = fork_cnid fork, ek_startBlock = ucast start\<rparr>"
    by (simp add: fork_key_def sizeof_extent)
  have "hfsplus_extents_find_record (Suc fuel) adjacent fork start tree =
      Done (if same_fork fork k
            then (if ek_startBlock k = ucast start then 1 else 0, Some (r, ek_startBlock k), tree')
            else (0, None, tree'))"
  proof (cases "same_fork fork k")
    case True
    then have "\<not> ek_startBlock k > ucast start" "hfsplus_extents_compare_keys ?key k = 0 \<longleftrightarrow> ek_startBlock k = ucast start"
      using le compare_same_fork [OF True, of "ucast start"] by (auto simp: word_less_nat_alt word_unat_eq_iff)
    then show ?thesis
      using True search root sz get facts
      by (simp add: hfsplus_extents_find_record_def h Let_def sizeof_extent same_fork_def flip: key)
         (simp add: fork_key_def sizeof_extent)
  next
    case False
    then show ?thesis
      using search root sz get facts
      by (auto simp: hfsplus_extents_find_record_def h Let_def sizeof_extent same_fork_def simp flip: key)
         (auto simp: fork_key_def sizeof_extent)
  qed
  with good' show ?thesis by blast
qed

section \<open>The extent list of a fork that the tree covers\<close>

text \<open>
  A source of extent records: \<open>table b\<close> is the record of the fork that begins with logical block \<open>b\<close>.
\<close>

locale extent_source =
  fixes lookup :: "u64 \<Rightarrow> 's \<Rightarrow> (int \<times> (extent_record \<times> u32) option \<times> 's) outcome"
    and good :: "'s \<Rightarrow> bool"
    and table :: "u32 \<Rightarrow> extent_record option"
  assumes found: "good s \<Longrightarrow> table b = Some r \<Longrightarrow>
    \<exists>s'. lookup (ucast b) s = Done (1, Some (r, b), s') \<and> good s'"

definition record_list :: "extent_record \<Rightarrow> nat list" where
  "record_list r = concat (map (\<lambda>d. [unat (d_startBlock d)..<unat (d_startBlock d) + unat (d_blockCount d)]) r)"

text \<open>
  The records \<open>rs\<close> follow one another from block \<open>b\<close> to the last block of the fork; only the last one
  may leave its last descriptor unused.
\<close>

fun covers :: "(u32 \<Rightarrow> extent_record option) \<Rightarrow> nat \<Rightarrow> nat \<Rightarrow> extent_record list \<Rightarrow> bool" where
  "covers table tot b [] \<longleftrightarrow> b = tot"
| "covers table tot b (r # rs) \<longleftrightarrow>
     b < tot \<and> table (of_nat b) = Some r \<and> (d_blockCount (r ! 7) = 0 \<longrightarrow> rs = []) \<and>
     covers table tot (b + length (record_list r)) rs"

lemma covers_le: "covers table tot b rs \<Longrightarrow> b \<le> tot"
  by (cases rs) simp_all

lemma covers_sum: "covers table tot b rs \<Longrightarrow> tot = b + length (concat (map record_list rs))"
proof (induction rs arbitrary: b)
  case (Cons r rs)
  from Cons.prems have "covers table tot (b + length (record_list r)) rs" by simp
  from Cons.IH [OF this] show ?case by (simp only: list.map concat.simps length_append add.assoc)
qed simp

lemma record_blocks_fold:
  "fold (\<lambda>d blocks. blocks + d_blockCount d) r (of_nat b) = (of_nat (b + length (record_list r)) :: u32)"
proof (induction r arbitrary: b)
  case (Cons d r)
  have "(of_nat b :: u32) + d_blockCount d = of_nat (b + unat (d_blockCount d))" by simp
  with Cons [of "b + unat (d_blockCount d)"] show ?case
    by (simp add: record_list_def add.assoc del: of_nat_add)
qed (simp add: record_list_def)

lemma record_blocks_length: "of_nat b + record_blocks r = (of_nat (b + length (record_list r)) :: u32)"
  using record_blocks_fold [of r 0] by (simp add: record_blocks_def)

lemma add_record_ok:
  assumes "extentlist_ok es" "length (list_blocks es) + length (record_list r) < 2 ^ 31"
  shows "extentlist_ok (extentlist_add_record es r)"
    and "list_blocks (extentlist_add_record es r) = list_blocks es @ record_list r"
proof -
  have "extentlist_ok (extentlist_add_record es r) \<and>
    list_blocks (extentlist_add_record es r) = list_blocks es @ record_list r"
    using assms
  proof (induction r arbitrary: es)
    case (Cons d r)
    let ?es = "extentlist_add_descriptor es d"
    have "unat (d_startBlock d) + unat (d_blockCount d) < 2 ^ 64"
      using unat_bound [of "d_startBlock d"] unat_bound [of "d_blockCount d"] by simp
    then have "extentlist_ok ?es"
      "list_blocks ?es = list_blocks es @ [unat (d_startBlock d)..<unat (d_startBlock d) + unat (d_blockCount d)]"
      using Cons.prems fork_blocks.ok_add [of es "ucast (d_blockCount d)" "ucast (d_startBlock d)"]
        fork_blocks.blocks_add [of es "ucast (d_blockCount d)" "ucast (d_startBlock d)"]
      by (simp_all add: extentlist_add_descriptor_def record_list_def)
    with Cons.IH [of ?es] Cons.prems(2) show ?case
      by (simp add: extentlist_add_record_def record_list_def)
  qed (simp add: extentlist_add_record_def record_list_def)
  then show "extentlist_ok (extentlist_add_record es r)"
    and "list_blocks (extentlist_add_record es r) = list_blocks es @ record_list r" by simp_all
qed

context extent_source
begin

lemma more_extents_covers:
  assumes "covers table tot b rs" "tot < 2 ^ 31" "length rs < fuel"
    and "extentlist_ok es" "length (list_blocks es) = b" "good s"
  shows "\<exists>es' s'. more_extents lookup (of_nat tot) fuel (of_nat b) es s = Some (Done (True, es', s')) \<and>
    extentlist_ok es' \<and> list_blocks es' = list_blocks es @ concat (map record_list rs) \<and> good s'"
  using assms
proof (induction rs arbitrary: b fuel es s)
  case Nil
  then show ?case by (cases fuel) simp_all
next
  case (Cons r rs)
  then obtain f where f: "fuel = Suc f" by (cases fuel) auto
  let ?b = "of_nat b :: u32" and ?es = "extentlist_add_record es r" and ?b' = "b + length (record_list r)"
  from Cons.prems(1) have c: "b < tot" "table ?b = Some r" "d_blockCount (r ! 7) = 0 \<Longrightarrow> rs = []"
    "covers table tot ?b' rs" by simp_all
  obtain s1 where s1: "lookup (ucast ?b) s = Done (1, Some (r, ?b), s1)" "good s1"
    using found [OF Cons.prems(6) c(2)] by blast
  have ub: "unat ?b = b" "unat (of_nat tot :: u32) = tot"
    using c(1) Cons.prems(2) by (simp_all add: unat_of_nat_small)
  then have lt: "?b < of_nat tot" using c(1) by (simp add: word_less_nat_alt)
  have none: "extentlist_find es (ucast ?b) = None"
    using fork_blocks.lookup_none [OF Cons.prems(4), of "ucast ?b"] Cons.prems(5) ub by simp
  have es: "extentlist_ok ?es" "list_blocks ?es = list_blocks es @ record_list r"
    using add_record_ok [OF Cons.prems(4), of r] covers_le [OF c(4)] Cons.prems(2,5) by simp_all
  have step: "more_extents lookup (of_nat tot) fuel ?b es s =
      (if d_blockCount (r ! 7) = 0 then Some (Done (True, ?es, s1))
       else more_extents lookup (of_nat tot) f (of_nat ?b') ?es s1)"
    using lt s1(1) none by (simp add: f Let_def record_blocks_length del: of_nat_add)
  show ?case
  proof (cases "d_blockCount (r ! 7) = 0")
    case True
    with c(3) es s1 step show ?thesis by simp
  next
    case False
    obtain es' s' where "more_extents lookup (of_nat tot) f (of_nat ?b') ?es s1 = Some (Done (True, es', s'))"
      "extentlist_ok es'" "list_blocks es' = list_blocks ?es @ concat (map record_list rs)" "good s'"
      using Cons.IH [OF c(4) Cons.prems(2) _ es(1) _ s1(2), of f] Cons.prems(3,5) es(2) f by auto
    with False step es(2) show ?thesis by simp
  qed
qed

end

text \<open>The records that a tree has of a fork, by the block they begin with.\<close>

definition fork_table :: "extent_entry list \<Rightarrow> HFSPlusFork \<Rightarrow> u32 \<Rightarrow> extent_record option" where
  "fork_table es fork b =
     (case filter (\<lambda>e. same_fork fork (fst e) \<and> ek_startBlock (fst e) = b) es of
        [] \<Rightarrow> None | e # _ \<Rightarrow> snd e)"

lemma fork_table_entry:
  assumes "fork_table es fork b = Some r"
  obtains i k where "i < length es" "es ! i = (k, Some r)" "same_fork fork k" "ek_startBlock k = b"
proof -
  from assms obtain k es' where
    f: "filter (\<lambda>e. same_fork fork (fst e) \<and> ek_startBlock (fst e) = b) es = (k, Some r) # es'"
    by (auto simp: fork_table_def split: list.splits)
  then have "(k, Some r) \<in> set (filter (\<lambda>e. same_fork fork (fst e) \<and> ek_startBlock (fst e) = b) es)" by simp
  then have "(k, Some r) \<in> set es" "same_fork fork k" "ek_startBlock k = b" by simp_all
  with that show thesis by (auto simp: in_set_conv_nth)
qed

lemma find_record_table:
  assumes tree: "extents_tree src es" and good: "tree_good src tree" and r: "fork_table es fork b = Some r"
  shows "\<exists>tree'. hfsplus_extents_find_record (Suc fuel) adjacent fork (ucast b) tree =
    Done (1, Some (r, b), tree') \<and> tree_good src tree'"
proof -
  obtain i k where i: "i < length es" "es ! i = (k, Some r)" and k: "same_fork fork k" "ek_startBlock k = b"
    by (rule fork_table_entry [OF r])
  let ?key = "fork_key fork b" and ?skey = "(fork_key fork b, None) :: extent_entry"
  have asc: "key_order.ascending_keys entry_cmp es"
    using tree by (simp add: extents_tree_def extents_search.ascending_sorted)
  have "entry_cmp ?skey (es ! i) = 0" using compare_same_fork [OF k(1)] k(2) i(2) by (simp add: entry_cmp_def)
  from extents_search.rank_exact [OF asc i(1) this] have rank: "rank entry_cmp ?skey es = i + 1" .
  have ne: "es \<noteq> []" using i by auto
  have "hfsplus_extents_compare_keys (fst (hd es)) ?key \<le> 0"
    using extents_search.rank_nth [OF asc, of 0 ?skey] ne rank by (simp add: hd_conv_nth entry_cmp_def)
  moreover have b: "ucast (ucast b :: u64) = b" by (rule bit_word_eqI) (auto simp: bit_simps)
  ultimately show ?thesis
    using find_record_tree [OF tree good ne, of fork "ucast b" k r fuel adjacent] i(2) k rank by auto
qed

interpretation overflow_source: extent_source
  "hfsplus_extents_find_record (Suc fuel) adjacent fork"
  "\<lambda>tree. tree_good src tree \<and> extents_tree src es" "fork_table es fork"
  for fuel adjacent fork src es
proof
  fix s b r assume "tree_good src s \<and> extents_tree src es" "fork_table es fork b = Some r"
  then show "\<exists>s'. hfsplus_extents_find_record (Suc fuel) adjacent fork (ucast b) s = Done (1, Some (r, b), s') \<and>
      tree_good src s' \<and> extents_tree src es"
    using find_record_table [of src es s fork b r fuel adjacent] by blast
qed

section \<open>Correctness\<close>

lemma greatest_entry:
  assumes asc: "key_order.ascending_keys entry_cmp es" and e: "e \<in> set es" "entry_cmp e key \<le> 0"
    and max: "\<forall>e' \<in> set es. entry_cmp e' key \<le> 0 \<longrightarrow> entry_cmp e' e \<le> 0"
  shows "es ! (rank entry_cmp key es - 1) = e"
proof -
  obtain i where i: "i < length es" "es ! i = e" using e(1) by (auto simp: in_set_conv_nth)
  let ?r = "rank entry_cmp key es"
  have ir: "i < ?r" using extents_search.rank_nth [OF asc i(1), of key] e(2) i(2) by simp
  then have r: "?r - 1 < length es" using extents_search.rank_le [of key es] by linarith
  have "entry_cmp (es ! (?r - 1)) key \<le> 0" using extents_search.rank_nth [OF asc r, of key] ir by simp
  with max r have "entry_cmp (es ! (?r - 1)) e \<le> 0" by simp
  moreover have "entry_cmp e (es ! (?r - 1)) < 0" if "i < ?r - 1"
    using extents_search.ascending_keysD [OF asc that r] i(2) by simp
  ultimately have "\<not> i < ?r - 1" using extents_search.anti [of "es ! (?r - 1)" e] by fastforce
  with ir have "i = ?r - 1" by linarith
  with i(2) show ?thesis by simp
qed

text \<open>
  C1. The lookup in a well-formed extents tree: let \<open>k\<close> be the greatest key of the tree up to the key that
  is searched for (which is not before the first one). If \<open>k\<close> belongs to the fork, its record and its
  start block are delivered, and the result is 1 exactly if the start block is the one asked for; if it
  belongs to another fork, the result is 0 and nothing is delivered. The tree, whose cache the search
  changes, stays usable.
\<close>

theorem extents_find_record_correct:
  assumes "extents_tree src es" "tree_good src tree"
    and "hfsplus_extents_compare_keys (fst (hd es)) (fork_key fork (ucast start)) \<le> 0"
    and "(k, Some r) \<in> set es" "hfsplus_extents_compare_keys k (fork_key fork (ucast start)) \<le> 0"
    and "\<forall>e \<in> set es. hfsplus_extents_compare_keys (fst e) (fork_key fork (ucast start)) \<le> 0 \<longrightarrow>
           hfsplus_extents_compare_keys (fst e) k \<le> 0"
  shows "\<exists>tree'. tree_good src tree' \<and>
    hfsplus_extents_find_record (Suc fuel) adjacent fork start tree =
      Done (if same_fork fork k
            then (if ek_startBlock k = ucast start then 1 else 0, Some (r, ek_startBlock k), tree')
            else (0, None, tree'))"
proof (rule find_record_tree [OF assms(1,2) _ assms(3)])
  show "es \<noteq> []" using assms(4) by auto
  show "es ! (rank entry_cmp (fork_key fork (ucast start), None) es - 1) = (k, Some r)"
  proof (rule greatest_entry)
    show "key_order.ascending_keys entry_cmp es"
      using assms(1) by (simp add: extents_tree_def extents_search.ascending_sorted)
  qed (use assms in \<open>simp_all add: entry_cmp_def\<close>)
qed

text \<open>
  C2. The extent list of a fork: where the eight extents of the catalog record and the records \<open>rs\<close> of
  the tree cover the fork, the construction returns \<open>true\<close>, with as many rounds as there are records,
  and the list maps every block of the fork to the allocation block that these records state.
\<close>

theorem extentlist_for_fork_complete:
  assumes "extents_tree src es" "tree_good src tree" "fork_extents fork = []"
    and "unat (fork_totalBlocks fork) < 2 ^ 31"
    and "covers (fork_table es fork) (unat (fork_totalBlocks fork)) (length (record_list (fork_first fork))) rs"
  shows "\<exists>list tree'.
    hfsplus_extents_get_extentlist_for_fork (hfsplus_extents_find_record (Suc fuel) adjacent fork)
      (length rs + 1) fork tree = Some (Done (True, list, tree')) \<and> tree_good src tree' \<and>
    list_blocks list = record_list (fork_first fork) @ concat (map record_list rs) \<and>
    (\<forall>b < unat (fork_totalBlocks fork). \<exists>d n. extentlist_find list (of_nat b) = Some (d, n) \<and>
       unat d = (record_list (fork_first fork) @ concat (map record_list rs)) ! b)"
proof -
  let ?first = "extentlist_add_record [] (fork_first fork)" and ?tot = "unat (fork_totalBlocks fork)"
  let ?b = "length (record_list (fork_first fork))"
  have "extentlist_ok []" by (rule fork_blocks.ok_make [unfolded extentlist_make_def])
  then have first: "extentlist_ok ?first" "list_blocks ?first = record_list (fork_first fork)"
    using add_record_ok [of "[]" "fork_first fork"] covers_le [OF assms(5)] assms(4) by simp_all
  have b: "record_blocks (fork_first fork) = of_nat ?b" using record_blocks_length [of 0] by simp
  have "\<exists>list tree'. more_extents (hfsplus_extents_find_record (Suc fuel) adjacent fork) (of_nat ?tot)
        (length rs + 1) (of_nat ?b) ?first tree = Some (Done (True, list, tree')) \<and>
      extentlist_ok list \<and> list_blocks list = list_blocks ?first @ concat (map record_list rs) \<and>
      tree_good src tree' \<and> extents_tree src es"
    by (rule overflow_source.more_extents_covers [OF assms(5,4)]) (use first assms(1,2) in simp_all)
  then obtain list tree' where
    res: "more_extents (hfsplus_extents_find_record (Suc fuel) adjacent fork) (of_nat ?tot) (length rs + 1)
      (of_nat ?b) ?first tree = Some (Done (True, list, tree'))"
    and list: "extentlist_ok list" "list_blocks list = record_list (fork_first fork) @ concat (map record_list rs)"
    and good: "tree_good src tree'" using first(2) by auto
  have "\<exists>d n. extentlist_find list (of_nat k) = Some (d, n) \<and> unat d = list_blocks list ! k" if "k < ?tot" for k
  proof -
    have "?tot < 2 ^ 64" using assms(4) by simp
    then have k: "unat (of_nat k :: u64) = k" using that by (intro unat_of_nat_small) simp
    have "length (list_blocks list) = ?tot" using covers_sum [OF assms(5)] list(2) by simp
    with that have "extentlist_find list (of_nat k) \<noteq> None"
      using fork_blocks.lookup_none [OF list(1), of "of_nat k"] k by simp
    then obtain d n where dn: "extentlist_find list (of_nat k) = Some (d, n)" by (cases "extentlist_find list (of_nat k)") auto
    from fork_blocks.lookup_block [OF list(1) dn] k dn show ?thesis by simp
  qed
  with res list good show ?thesis
    by (auto simp: hfsplus_extents_get_extentlist_for_fork_def assms(3) b)
qed

section \<open>A tree of two nodes\<close>

text \<open>
  A header node and a leaf of 130 bytes, the offset tables of both in host order, with one record: block 8
  of the data fork of file 9 begins a run of four blocks at allocation block 256.
\<close>

definition sample_map_node :: buffer where
  "sample_map_node = [0,0,0,0, 0,0,0,0, 1, 0, 3,0, 0,0] @ replicate 106 0 @ [0xC0, 0] @ [122,0, 120,0, 120,0, 14,0]"

definition sample_leaf_bytes :: "buffer \<Rightarrow> buffer" where
  "sample_leaf_bytes record = [0,0,0,0, 0,0,0,0, 0xFF, 1, 1,0, 0,0, 10,0, 0, 0] @ record @ replicate 92 0 @ [90,0, 14,0]"

definition sample_tree_header :: BTHeaderRec where
  "sample_tree_header = \<lparr>treeDepth = 1, rootNode = 1, leafRecords = 1, firstLeafNode = 1,
    lastLeafNode = 1, nodeSize = 130, maxKeyLength = 10, totalNodes = 2, freeNodes = 0,
    clumpSize = 0, btreeType = 0, keyCompareType = 0, attributes = 2\<rparr>"

definition sample_extents :: tree_source where
  "sample_extents = \<lparr>src_file = (\<lambda>n off. (n, if off = 0 then sample_map_node
       else sample_leaf_bytes [0,0,0,9, 0,0,0,8, 0,0,1,0, 0,0,0,4])),
     src_header = sample_tree_header, src_convert = extents_convert\<rparr>"

definition sample_leaf_node :: btnode where
  "sample_leaf_node = \<lparr>header = sample_tree_header, nodeNumber = 1, node_size = 130,
     node_data = sample_leaf_bytes [9,0,0,0, 8,0,0,0, 0,1,0,0, 4,0,0,0]\<rparr>"

definition sample_key :: HFSPlusExtentKey where
  "sample_key = \<lparr>ek_keyLength = 10, ek_forkType = 0, ek_fileID = 9, ek_startBlock = 8\<rparr>"

definition sample_record :: extent_record where
  "sample_record = \<lparr>d_startBlock = 256, d_blockCount = 4\<rparr> # replicate 7 \<lparr>d_startBlock = 0, d_blockCount = 0\<rparr>"

definition sample_tree :: btree where
  "sample_tree = btree_zero\<lparr>bt_file := src_file sample_extents, headerRecord := sample_tree_header,
     nodeCache := cache_init 100\<rparr>"

lemma sample_nodes:
  "plain_node sample_extents 0 = Some \<lparr>header = sample_tree_header, nodeNumber = 0, node_size = 130,
     node_data = sample_map_node\<rparr>"
  "plain_node sample_extents 1 = Some sample_leaf_node"
  by code_simp+

lemma sample_map: "source_map sample_extents = [0xC0, 0]"
  by code_simp

lemma sample_view: "tree_view sample_extents 1 = Some sample_leaf_node"
proof -
  have "BTIsBlockUsed 1 (loaded_map sample_extents) 2 = Done True" by code_simp
  moreover have "1 < totalNodes (src_header sample_extents)"
    by (simp add: sample_extents_def sample_tree_header_def)
  ultimately show ?thesis by (simp add: tree_view_def sample_map sample_nodes numeral_2_eq_2)
qed

lemma sample_holds: "holds_keys extent_entry_at sample_leaf_node [(sample_key, Some sample_record)]"
proof -
  have "node_ok sample_leaf_node" "unat (nd_numRecords sample_leaf_node) = 1"
    "extent_entry_at (node_data sample_leaf_node) (unat (record_offset sample_leaf_node 0)) =
       Some (sample_key, Some sample_record)"
    "BTGetRecordKeyLength sample_leaf_node 0 = Done 12"
    by code_simp+
  then show ?thesis by (simp add: holds_keys_def)
qed

lemma sample_extents_tree: "extents_tree sample_extents [(sample_key, Some sample_record)]"
proof -
  have "nd_kind sample_leaf_node = kBTLeafNode" "unat (nd_height sample_leaf_node) = 1" by code_simp+
  then have "subtree (tree_view sample_extents) extent_entry_at entry_cmp 2 1 1 [(sample_key, Some sample_record)]"
    using sample_view sample_holds by (intro subtree_leaf) simp_all
  then show ?thesis
    by (simp add: extents_tree_def sample_extents_def sample_tree_header_def sample_key_def)
qed

lemma sample_good: "tree_good sample_extents sample_tree"
proof -
  have two: "n = 0 \<or> n = 1" if "n < 2" for n :: u32
  proof -
    have "unat n < 2" using that by (simp add: word_less_nat_alt)
    then have "unat n = 0 \<or> unat n = 1" by linarith
    then show ?thesis by (auto simp: word_unat_eq_iff)
  qed
  have "nd_fLink \<lparr>header = sample_tree_header, nodeNumber = 0, node_size = 130, node_data = sample_map_node\<rparr> = 0"
    "returns (map_record \<lparr>header = sample_tree_header, nodeNumber = 0, node_size = 130,
       node_data = sample_map_node\<rparr> 2)"
    by code_simp+
  then have "source_ok sample_extents"
    by (auto simp: source_ok_def sample_nodes src_size_def)
       (auto simp: sample_extents_def sample_tree_header_def sample_map_node_def sample_leaf_bytes_def dest!: two)
  moreover have "node_cache.coherent d (cache_init 100)" for d
    by (simp add: node_cache.coherent_def cache_view_def cache_init_def entries_def)
  ultimately show ?thesis
    by (simp add: tree_good_def sample_tree_def btree_zero_def sample_extents_def cache_init_ok)
qed

definition sample_fork :: HFSPlusFork where
  "sample_fork = \<lparr>fork_logicalSize = 49152, fork_totalBlocks = 12, fork_cnid = 9, forkType = 0,
     fork_first = replicate 8 \<lparr>d_startBlock = 100, d_blockCount = 1\<rparr>, fork_extents = []\<rparr>"

text \<open>Block 10 of the fork lies in the run that begins with block 8.\<close>

lemma extents_find_record_correct_witness:
  "\<exists>tree'. hfsplus_extents_find_record 1 (\<lambda>_. 0) sample_fork 10 sample_tree =
     Done (0, Some (sample_record, 8), tree')"
proof -
  have key: "same_fork sample_fork sample_key" "ek_startBlock sample_key = 8"
    by (simp_all add: same_fork_def sample_fork_def sample_key_def)
  have le: "hfsplus_extents_compare_keys sample_key (fork_key sample_fork (ucast (10 :: u64))) \<le> 0"
    using compare_same_fork(2) [OF key(1), of "ucast (10 :: u64)"] key(2) by simp
  have "(ucast (10 :: u64) :: u32) = 10" by simp
  then show ?thesis
    using extents_find_record_correct [OF sample_extents_tree sample_good, of sample_fork 10 sample_key
        sample_record 0 "\<lambda>_. 0"] le key
    by (auto simp: extent_keys.refl)
qed

lemma extentlist_for_fork_complete_witness:
  "\<exists>list tree'. hfsplus_extents_get_extentlist_for_fork
     (hfsplus_extents_find_record 1 (\<lambda>_. 0) sample_fork) 2 sample_fork sample_tree = Some (Done (True, list, tree')) \<and>
     list_blocks list = replicate 8 100 @ [256, 257, 258, 259]"
proof -
  have r: "record_list (fork_first sample_fork) = replicate 8 100" "record_list sample_record = [256, 257, 258, 259]"
    by code_simp+
  have "fork_table [(sample_key, Some sample_record)] sample_fork 8 = Some sample_record"
    by (simp add: fork_table_def same_fork_def sample_fork_def sample_key_def)
  with r have cov: "covers (fork_table [(sample_key, Some sample_record)] sample_fork) 12
      (length (record_list (fork_first sample_fork))) [sample_record]" by simp
  have t: "fork_extents sample_fork = []" "unat (fork_totalBlocks sample_fork) = 12"
    by (simp_all add: sample_fork_def)
  have two: "length [sample_record] + 1 = 2" "Suc 0 = 1" by simp_all
  have "(12 :: nat) < 2 ^ 31" by simp
  from extentlist_for_fork_complete [OF sample_extents_tree sample_good t(1), of "[sample_record]" 0 "\<lambda>_. 0",
      unfolded two t(2), OF this cov]
  obtain list tree' where
    "hfsplus_extents_get_extentlist_for_fork (hfsplus_extents_find_record 1 (\<lambda>_. 0) sample_fork) 2
       sample_fork sample_tree = Some (Done (True, list, tree'))"
    "list_blocks list = record_list (fork_first sample_fork) @ concat (map record_list [sample_record])"
    by blast
  moreover have "record_list (fork_first sample_fork) @ concat (map record_list [sample_record]) =
      replicate 8 100 @ [256, 257, 258, 259]" using r by simp
  ultimately show ?thesis by metis
qed

end
