(* ===== verification/Fork_IO.thy ===== *)
theory Fork_IO
  imports Extents_Overflow
begin

text \<open>
  \<^verbatim>\<open>src/src/hfs/hfs_io.c\<close>: reading the volume of a file system, reading blocks and byte ranges of a fork,
  and the two streams that \<open>fopencookie\<close> makes of them. A buffer of the caller is a list of bytes; the
  buffers that the functions allocate are zeroed. The lemmas compare what a read delivers with the
  content of the fork, the concatenation of its allocation blocks.
\<close>

section \<open>The file system\<close>

record HFSPlus =
  hfs_vol :: volume
  vh :: buffer
  hfs_offset :: u64
  hfs_length :: u64
  block_size :: u64
  block_count :: u64

definition hfs_read :: "buffer \<Rightarrow> HFSPlus \<Rightarrow> u64 \<Rightarrow> u64 \<Rightarrow> (u64 \<times> buffer) outcome" where
  "hfs_read buf hfs sz offset = vol_read (geom (hfs_vol hfs)) buf sz offset"

definition hfs_read_blocks :: "buffer \<Rightarrow> HFSPlus \<Rightarrow> u64 \<Rightarrow> u64 \<Rightarrow> (u64 \<times> buffer) outcome" where
  "hfs_read_blocks buf hfs count start_block =
     vol_read (geom (hfs_vol hfs)) buf (count * block_size hfs) (start_block * block_size hfs)"

section \<open>The stream of a volume\<close>

datatype whence = SEEK_SET | SEEK_CUR | SEEK_END

record HFSVolumeCookie =
  vol_cursor :: u64
  vol_hfs :: HFSPlus

definition hfs_readfn :: "HFSVolumeCookie \<Rightarrow> buffer \<Rightarrow> u64 \<Rightarrow> (u64 \<times> buffer \<times> HFSVolumeCookie) outcome" where
  "hfs_readfn cookie buf nbytes =
     obind (hfs_read buf (vol_hfs cookie) nbytes (vol_cursor cookie)) (\<lambda>(bytes, buf).
       Done (bytes, buf,
         if sint bytes > 0 then cookie\<lparr>vol_cursor := vol_cursor cookie + bytes\<rparr> else cookie))"

definition hfs_seekfn :: "HFSVolumeCookie \<Rightarrow> u64 \<Rightarrow> whence \<Rightarrow> u64 \<times> HFSVolumeCookie" where
  "hfs_seekfn cookie pos mode =
     (let pos = (case mode of
                   SEEK_CUR \<Rightarrow> pos + vol_cursor cookie
                 | SEEK_END \<Rightarrow> vol_length (geom (hfs_vol (vol_hfs cookie))) - pos
                 | SEEK_SET \<Rightarrow> pos)
      in (pos, cookie\<lparr>vol_cursor := pos\<rparr>))"

section \<open>Making a fork\<close>

record HFSPlusForkData =
  logicalSize :: u64
  clumpSize :: u32
  totalBlocks :: u32
  extents :: extent_record

definition HFSPlusForkData_of :: "buffer \<Rightarrow> nat \<Rightarrow> HFSPlusForkData" where
  "HFSPlusForkData_of m p =
     \<lparr>logicalSize = rd m (fld HFSPlusForkData_t ''logicalSize'' p),
      clumpSize = rd m (fld HFSPlusForkData_t ''clumpSize'' p),
      totalBlocks = rd m (fld HFSPlusForkData_t ''totalBlocks'' p),
      extents = HFSPlusExtentRecord_of m (fld HFSPlusForkData_t ''extents'' p)\<rparr>"

abbreviation (input) HFSDataForkType :: u8 where "HFSDataForkType \<equiv> 0x00"
abbreviation (input) HFSResourceForkType :: u8 where "HFSResourceForkType \<equiv> 0xFF"

text \<open>
  \<open>find\<close> is the lookup in the extents overflow tree, \<open>s\<close> the state it changes; \<open>None\<close> is the lookup
  loop that does not end.
\<close>

definition hfsfork_make ::
  "(HFSPlusFork \<Rightarrow> u64 \<Rightarrow> 's \<Rightarrow> (int \<times> (extent_record \<times> u32) option \<times> 's) outcome) \<Rightarrow> nat \<Rightarrow>
   HFSPlusForkData \<Rightarrow> u8 \<Rightarrow> u32 \<Rightarrow> 's \<Rightarrow> (int \<times> HFSPlusFork \<times> 's) outcome option" where
  "hfsfork_make lookup fuel forkData forktype cnid s =
     (let f = \<lparr>fork_logicalSize = logicalSize forkData, fork_totalBlocks = totalBlocks forkData,
               fork_cnid = cnid, forkType = forktype, fork_first = extents forkData,
               fork_extents = extentlist_make\<rparr> in
      case hfsplus_extents_get_extentlist_for_fork (lookup f) fuel f s of
        None \<Rightarrow> None
      | Some r \<Rightarrow> Some (obind r (\<lambda>(ok, list, s).
          if \<not> ok then Critical else Done (0, f\<lparr>fork_extents := list\<rparr>, s))))"

definition special_fork :: "HFSPlus \<Rightarrow> u32 \<Rightarrow> HFSPlusForkData option" where
  "special_fork hfs cnid =
     (let file = (\<lambda>f. Some (HFSPlusForkData_of (vh hfs) (fld HFSPlusVolumeHeader_t f 0))) in
      if cnid = kHFSExtentsFileID then file ''extentsFile''
      else if cnid = kHFSCatalogFileID then file ''catalogFile''
      else if cnid = kHFSBadBlockFileID then None
      else if cnid = kHFSAllocationFileID then file ''allocationFile''
      else if cnid = kHFSStartupFileID then file ''startupFile''
      else if cnid = kHFSAttributesFileID then file ''attributesFile''
      else None)"

definition hfsplus_get_special_fork ::
  "(HFSPlusFork \<Rightarrow> u64 \<Rightarrow> 's \<Rightarrow> (int \<times> (extent_record \<times> u32) option \<times> 's) outcome) \<Rightarrow> nat \<Rightarrow>
   HFSPlus \<Rightarrow> u32 \<Rightarrow> 's \<Rightarrow> (int \<times> HFSPlusFork option \<times> 's) outcome option" where
  "hfsplus_get_special_fork lookup fuel hfs cnid s =
     (case special_fork hfs cnid of
        None \<Rightarrow> Some (Done (- 1, None, s))
      | Some forkData \<Rightarrow>
          (case hfsfork_make lookup fuel forkData HFSDataForkType cnid s of
             None \<Rightarrow> None
           | Some r \<Rightarrow> Some (obind r (\<lambda>(rc, fork, s).
               if rc < 0 then Done (- 1, None, s) else Done (0, Some fork, s)))))"

section \<open>Reading blocks of a fork\<close>

text \<open>
  The read loop. Its first argument is what is left of the 2000 rounds that it allows; \<open>remaining\<close> is
  advanced by the result of \<open>hfs_read_blocks\<close>, and every round reads into the start of the buffer.
\<close>

fun read_loop ::
  "nat \<Rightarrow> HFSPlus \<Rightarrow> extent_list \<Rightarrow> u64 \<Rightarrow> range \<Rightarrow> buffer \<Rightarrow> buffer outcome" where
  "read_loop 0 hfs list count remaining read_buffer =
     (if range_count remaining = 0 then Done read_buffer else Critical)"
| "read_loop (Suc rounds) hfs list count remaining read_buffer =
     (if range_count remaining = 0 then Done read_buffer
      else case extentlist_find list (range_start remaining) of
        None \<Rightarrow> Critical
      | Some (start, found) \<Rightarrow>
          if found = 0 then read_loop rounds hfs list count remaining read_buffer
          else
            obind (hfs_read_blocks read_buffer hfs (min found count) start) (\<lambda>(blocks, read_buffer).
              if sint blocks < 0 then Critical
              else
                read_loop rounds hfs list count
                  (make_range (range_start remaining + blocks)
                     (range_count remaining - min blocks (range_count remaining)))
                  read_buffer))"

definition hfs_read_fork ::
  "buffer \<Rightarrow> HFSPlus \<Rightarrow> HFSPlusFork \<Rightarrow> u64 \<Rightarrow> u64 \<Rightarrow> (u64 \<times> buffer) outcome" where
  "hfs_read_fork buf hfs fork count start_block =
     (let request = make_range start_block count in
      if range_count request < 1 then Done (- 1, buf)
      else if range_start request > ucast (fork_totalBlocks fork) then Done (- 1, buf)
      else
        let request = (if range_max request \<ge> ucast (fork_totalBlocks fork)
                       then make_range (range_start request)
                              (max (ucast (fork_totalBlocks fork) - range_start request) 1)
                       else request) in
        obind (read_loop 2000 hfs (fork_extents fork) (range_count request) request
                 (replicate (unat (count * block_size hfs)) 0)) (\<lambda>read_buffer.
        let n = unat (min count (range_count request) * block_size hfs) in
        if fits 0 n read_buffer \<and> fits 0 n buf
        then Done (range_count request, store 0 (chunk 0 n read_buffer) buf)
        else Fault))"

text \<open>A byte range. A result of -1 of the read counts as success, and the size is returned anyway.\<close>

definition hfs_read_fork_range ::
  "buffer \<Rightarrow> HFSPlus \<Rightarrow> HFSPlusFork \<Rightarrow> u64 \<Rightarrow> u64 \<Rightarrow> (u64 \<times> buffer) outcome" where
  "hfs_read_fork_range buf hfs fork sz offset =
     (if offset > fork_logicalSize fork then Done (0, buf)
      else
        let sz = (if offset + sz > fork_logicalSize fork then fork_logicalSize fork - offset else sz) in
        if sz < 1 then Done (0, buf)
        else if block_size hfs = 0 then Fault
        else
          let start_block = offset div block_size hfs;
              byte_offset = offset mod block_size hfs;
              count = sz div block_size hfs + (if (offset + sz) mod block_size hfs \<noteq> 0 then 1 else 0) in
          obind (hfs_read_fork (replicate (unat (count * block_size hfs)) 0) hfs fork count start_block)
            (\<lambda>(read_blocks, read_buffer).
             if read_blocks \<noteq> 0
             then if fits (unat byte_offset) (unat sz) read_buffer \<and> fits 0 (unat sz) buf
                  then Done (sz, store 0 (chunk (unat byte_offset) (unat sz) read_buffer) buf)
                  else Fault
             else Done (sz, buf)))"

section \<open>The stream of a fork\<close>

record HFSPlusForkCookie =
  fork_cursor :: u64
  cookie_hfs :: HFSPlus
  cookie_fork :: HFSPlusFork

definition fork_readfn ::
  "HFSPlusForkCookie \<Rightarrow> buffer \<Rightarrow> u64 \<Rightarrow> (u64 \<times> buffer \<times> HFSPlusForkCookie) outcome" where
  "fork_readfn cookie buf nbytes =
     obind (hfs_read_fork_range buf (cookie_hfs cookie) (cookie_fork cookie) nbytes (fork_cursor cookie))
       (\<lambda>(bytes, buf).
        Done (bytes, buf,
          if bytes > 0 then cookie\<lparr>fork_cursor := fork_cursor cookie + bytes\<rparr> else cookie))"

definition fork_seekfn :: "HFSPlusForkCookie \<Rightarrow> u64 \<Rightarrow> whence \<Rightarrow> u64 \<times> HFSPlusForkCookie" where
  "fork_seekfn cookie pos mode =
     (let pos = (case mode of
                   SEEK_CUR \<Rightarrow> pos + fork_cursor cookie
                 | SEEK_END \<Rightarrow> fork_logicalSize (cookie_fork cookie) - pos
                 | SEEK_SET \<Rightarrow> pos)
      in (pos, cookie\<lparr>fork_cursor := pos\<rparr>))"

section \<open>The content of a fork\<close>

definition alloc_block :: "HFSPlus \<Rightarrow> nat \<Rightarrow> buffer" where
  "alloc_block hfs i =
     (let vol = geom (hfs_vol hfs); b = unat (block_size hfs) in
      chunk (unat (vol_offset vol) + i * b) b (source vol))"

definition fork_content :: "HFSPlus \<Rightarrow> HFSPlusFork \<Rightarrow> buffer" where
  "fork_content hfs fork = concat (map (alloc_block hfs) (list_blocks (fork_extents fork)))"

text \<open>A file system of \<open>n\<close> allocation blocks that all lie in the source, in whole sectors.\<close>

definition hfs_ok :: "HFSPlus \<Rightarrow> nat \<Rightarrow> bool" where
  "hfs_ok hfs n \<longleftrightarrow>
     (let vol = geom (hfs_vol hfs); b = unat (block_size hfs) in
      geometry_ok vol \<and> 0 < b \<and> unat (block_size_of vol) dvd b \<and> n * b < 2 ^ 62 \<and>
      (vol_length vol = 0 \<or> n * b \<le> unat (vol_length vol)) \<and>
      unat (vol_offset vol) + n * b \<le> length (source vol))"

text \<open>A fork whose extent list maps all its blocks into the file system.\<close>

definition fork_ok :: "nat \<Rightarrow> HFSPlusFork \<Rightarrow> bool" where
  "fork_ok n fork \<longleftrightarrow>
     extentlist_ok (fork_extents fork) \<and>
     length (list_blocks (fork_extents fork)) = unat (fork_totalBlocks fork) \<and>
     (\<forall>i \<in> set (list_blocks (fork_extents fork)). i < n)"

lemma concat_blocks:
  "concat (map (\<lambda>i. chunk (p + i * b) b m) [d..<d + k]) = chunk (p + d * b) (k * b) m"
proof (induction k)
  case (Suc k)
  have "chunk (p + d * b) (Suc k * b) m = chunk (p + d * b) (k * b + b) m" by (simp add: add.commute)
  also have "\<dots> = chunk (p + d * b) (k * b) m @ chunk (p + (d + k) * b) b m"
    by (simp add: chunk_append add.assoc distrib_right)
  finally show ?case using Suc by simp
qed simp

lemma alloc_blocks_run:
  "concat (map (alloc_block hfs) [d..<d + k]) =
     chunk (unat (vol_offset (geom (hfs_vol hfs))) + d * unat (block_size hfs)) (k * unat (block_size hfs))
       (source (geom (hfs_vol hfs)))"
  unfolding alloc_block_def Let_def by (rule concat_blocks)

lemma length_alloc_block:
  assumes "hfs_ok hfs n" "i < n"
  shows "length (alloc_block hfs i) = unat (block_size hfs)"
proof -
  let ?b = "unat (block_size hfs)" and ?vol = "geom (hfs_vol hfs)"
  have "(i + 1) * ?b \<le> n * ?b" using assms(2) by (intro mult_le_mono1) simp
  moreover have "unat (vol_offset ?vol) + n * ?b \<le> length (source ?vol)"
    using assms(1) by (simp add: hfs_ok_def Let_def)
  ultimately have "unat (vol_offset ?vol) + i * ?b + ?b \<le> length (source ?vol)" by simp
  then show ?thesis by (simp add: alloc_block_def Let_def)
qed

lemma length_alloc_blocks:
  assumes "hfs_ok hfs n" "\<forall>i \<in> set is. i < n"
  shows "length (concat (map (alloc_block hfs) is)) = length is * unat (block_size hfs)"
  using assms(2) by (induction "is") (simp_all add: length_alloc_block [OF assms(1)])

lemma chunk_concat:
  assumes "\<And>x. x \<in> set xs \<Longrightarrow> length (f x) = b"
  shows "chunk (s * b) (k * b) (concat (map f xs)) = concat (map f (chunk s k xs))"
  using assms
proof (induction xs arbitrary: s k)
  case (Cons x xs)
  then have len: "length (f x) = b" and IH: "\<And>s k. chunk (s * b) (k * b) (concat (map f xs)) = concat (map f (chunk s k xs))"
    by simp_all
  show ?case
  proof (cases s)
    case (Suc s')
    have "chunk (s * b) (k * b) (concat (map f (x # xs))) = chunk (s' * b) (k * b) (concat (map f xs))"
      by (simp add: chunk_def Suc len)
    then show ?thesis by (simp add: IH Suc) (simp add: chunk_def)
  next
    case 0
    show ?thesis
    proof (cases k)
      case (Suc k')
      have "chunk (s * b) (k * b) (concat (map f (x # xs))) = f x @ chunk 0 (k' * b) (concat (map f xs))"
        by (simp add: chunk_def 0 Suc len)
      then show ?thesis using IH [of 0 k'] by (simp add: 0 Suc) (simp add: chunk_def)
    qed simp
  qed
qed (simp add: chunk_def)

lemma hfs_read_blocks_exact:
  assumes ok: "hfs_ok hfs n" and run: "unat start + unat count \<le> n" and pos: "0 < unat count"
    and buf: "fits 0 (unat count * unat (block_size hfs)) buf"
  shows "hfs_read_blocks buf hfs count start =
    Done (count * block_size hfs, store 0 (concat (map (alloc_block hfs) [unat start..<unat start + unat count])) buf)"
    and "unat (count * block_size hfs) = unat count * unat (block_size hfs)"
    and "unat count * unat (block_size hfs) < 2 ^ 62"
proof -
  let ?vol = "geom (hfs_vol hfs)" and ?B = "unat (block_size hfs)"
  let ?b = "unat (block_size_of (geom (hfs_vol hfs)))"
  from ok have g: "geometry_ok ?vol" "0 < ?B" "?b dvd ?B" "n * ?B < 2 ^ 62"
    "vol_length ?vol = 0 \<or> n * ?B \<le> unat (vol_length ?vol)"
    "unat (vol_offset ?vol) + n * ?B \<le> length (source ?vol)" by (simp_all add: hfs_ok_def Let_def)
  have sum: "unat start * ?B + unat count * ?B \<le> n * ?B"
    using run by (metis add_mult_distrib mult_le_mono1)
  have pow: "(2 :: nat) ^ 62 < 2 ^ 64" by simp
  have c62: "unat count * ?B < 2 ^ 62" and s62: "unat start * ?B < 2 ^ 62" using sum g(4) by linarith+
  then show c62': "unat count * ?B < 2 ^ 62" by simp
  have uc: "unat (count * block_size hfs) = unat count * ?B" and us: "unat (start * block_size hfs) = unat start * ?B"
    using c62 s62 pow by (simp_all add: unat_times)
  show "unat (count * block_size hfs) = unat count * ?B" by (rule uc)
  have b0: "0 < ?b" by (rule block_size_pos)
  obtain q where q: "?B = ?b * q" using g(3) by (auto elim: dvdE)
  have mods: "unat start * ?B mod ?b = 0" "unat count * ?B mod ?b = 0" by (simp_all add: q)
  have starts: "unat start * ?B div ?b * ?b = unat start * ?B" using mods(1) by (simp add: dvd_imp_mod_0 mod_0_imp_dvd)
  have counts: "blocks_read ?b (unat count * ?B) (unat start * ?B) * ?b = unat count * ?B"
  proof -
    have "(unat start * ?B + unat count * ?B) mod ?b = 0" using mods by (simp add: mod_add_eq [symmetric])
    then show ?thesis using mods(2) by (simp add: blocks_read_def mod_0_imp_dvd)
  qed
  have "vol_read ?vol buf (count * block_size hfs) (start * block_size hfs) =
    Done (count * block_size hfs, store 0 (chunk (unat (vol_offset ?vol) + unat start * ?B) (unat count * ?B) (source ?vol)) buf)"
  proof -
    have "unat (vol_offset ?vol) + unat (start * block_size hfs) div ?b * ?b +
        blocks_read ?b (unat (count * block_size hfs)) (unat (start * block_size hfs)) * ?b \<le> length (source ?vol)"
      unfolding uc us starts counts using g(6) sum by linarith
    moreover have "unat (start * block_size hfs) mod ?b + unat (count * block_size hfs) mod ?b < ?b"
      unfolding uc us mods using b0 by simp
    moreover have "vol_length ?vol = 0 \<or>
        unat (start * block_size hfs) + unat (count * block_size hfs) \<le> unat (vol_length ?vol)"
      unfolding uc us using g(5) sum by linarith
    moreover have "0 < unat (count * block_size hfs)" unfolding uc using pos g(2) by simp
    moreover have "fits 0 (unat (count * block_size hfs)) buf" unfolding uc by (rule buf)
    ultimately show ?thesis
      using vol_read_whole [OF g(1) _ _ _ _ refl, of "start * block_size hfs" "count * block_size hfs" buf] c62 s62
      unfolding uc us by blast
  qed
  then show "hfs_read_blocks buf hfs count start =
    Done (count * block_size hfs, store 0 (concat (map (alloc_block hfs) [unat start..<unat start + unat count])) buf)"
    by (simp add: hfs_read_blocks_def alloc_blocks_run)
qed

lemma fork_content_run:
  assumes hfs: "hfs_ok hfs n" and fork: "fork_ok n fork"
    and found: "extentlist_find (fork_extents fork) l = Some (d, r)" and k: "k \<le> unat r"
  shows "concat (map (alloc_block hfs) [unat d..<unat d + k]) =
      chunk (unat l * unat (block_size hfs)) (k * unat (block_size hfs)) (fork_content hfs fork)" (is ?content)
    and "0 < k \<Longrightarrow> unat d + k \<le> n" (is "_ \<Longrightarrow> ?bound")
proof -
  let ?bs = "list_blocks (fork_extents fork)"
  have ok: "extentlist_ok (fork_extents fork)" and inside: "\<forall>i \<in> set ?bs. i < n"
    using fork by (simp_all add: fork_ok_def)
  note run = fork_blocks.lookup_run [OF ok found]
  have "chunk 0 k (chunk (unat l) (unat r) ?bs) = chunk 0 k [unat d..<unat d + unat r]" using run by simp
  then have upt: "chunk (unat l) k ?bs = [unat d..<unat d + k]"
    using k by (simp add: chunk_chunk) (simp add: chunk_def)
  have len: "\<And>i. i \<in> set ?bs \<Longrightarrow> length (alloc_block hfs i) = unat (block_size hfs)"
    using length_alloc_block [OF hfs] inside by blast
  show ?content using chunk_concat [of ?bs "alloc_block hfs", OF len] by (simp add: fork_content_def upt)
  assume "0 < k"
  then have "unat d + k - 1 \<in> set [unat d..<unat d + k]" by simp
  then have "unat d + k - 1 \<in> set ?bs"
    unfolding upt [symmetric] by (auto simp: chunk_def dest: in_set_takeD in_set_dropD)
  with inside have "unat d + k - 1 < n" by blast
  with \<open>0 < k\<close> show ?bound by simp
qed

lemma read_loop_once:
  assumes found: "extentlist_find list start = Some (d, r)" and c0: "0 < unat c" and r0: "0 < unat r"
    and blocks: "hfs_read_blocks buf hfs (min r count) d = Done (got, buf')"
    and got: "unat got < 2 ^ 63" "unat c \<le> unat got"
  shows "read_loop (Suc (Suc rounds)) hfs list count (make_range start c) buf = Done buf'"
proof -
  have "min got c = c" using got(2) by (auto simp: min_def word_le_nat_alt word_unat_eq_iff)
  then have "c - min got c = 0" by simp
  moreover have "\<not> sint got < 0" using sint_nonneg_small [OF got(1)] by simp
  moreover have "c \<noteq> 0" "r \<noteq> 0" using c0 r0 by auto
  ultimately show ?thesis by (simp add: found blocks)
qed

text \<open>
  What a read of a fork delivers. The first round asks for the run at the start of the request, at
  most as long as the request. If the bytes it returns number at least as many as the blocks that are
  requested, the loop ends there, and the rest of the allocated buffer is still zero.
\<close>

lemma hfs_read_fork_run:
  assumes hfs: "hfs_ok hfs n" and fork: "fork_ok n fork"
    and count: "0 < unat count" "unat count * unat (block_size hfs) < 2 ^ 62"
    and start: "unat start < unat (fork_totalBlocks fork)"
    and found: "extentlist_find (fork_extents fork) start = Some (d, r)"
    and c: "c = min (unat count) (unat (fork_totalBlocks fork) - unat start)"
    and k: "k = min (unat r) c" and whole: "c \<le> k * unat (block_size hfs)"
    and buf: "fits 0 (c * unat (block_size hfs)) buf"
  shows "hfs_read_fork buf hfs fork count start =
    Done (of_nat c, store 0 (chunk (unat start * unat (block_size hfs)) (k * unat (block_size hfs))
        (fork_content hfs fork) @ replicate ((c - k) * unat (block_size hfs)) 0) buf)"
proof -
  let ?B = "unat (block_size hfs)" and ?t = "unat (fork_totalBlocks fork)"
  have B: "0 < ?B" using hfs by (simp add: hfs_ok_def Let_def)
  have ok: "extentlist_ok (fork_extents fork)" using fork by (simp add: fork_ok_def)
  note run = fork_blocks.lookup_run [OF ok found]
  have t: "?t < 2 ^ 32" using unat_bound [of "fork_totalBlocks fork"] by simp
  have count62: "unat count < 2 ^ 62" using count(2) B by (metis dual_order.strict_trans2 le_less_trans mult.right_neutral nat_mult_le_cancel_disj Suc_leI One_nat_def)
  have c0: "0 < c" using c count(1) start by simp
  have c32: "c < 2 ^ 32" using c t by simp
  have uc: "unat (of_nat c :: u64) = c" using c32 by (intro unat_of_nat_small) simp
  have "k \<le> c" "0 < k" using k c0 run by simp_all
  then have uk: "unat (of_nat k :: u64) = k" using c32 by (intro unat_of_nat_small) simp
  have kB: "k * ?B \<le> unat count * ?B" using \<open>k \<le> c\<close> c by (intro mult_le_mono1) simp
  have maxr: "unat (start + count) = unat start + unat count"
    using count62 start t by (intro unat_plus) simp
  have trim: "(if start + count \<ge> ucast (fork_totalBlocks fork)
      then make_range start (max (ucast (fork_totalBlocks fork) - start) 1) else make_range start count) =
      make_range start (of_nat c)"
  proof (cases "?t \<le> unat start + unat count")
    case True
    have "unat (ucast (fork_totalBlocks fork) - start) = c"
      using True start by (subst unat_minus_le) (simp_all add: c)
    then have "ucast (fork_totalBlocks fork) - start = of_nat c" by (simp add: word_unat_eq_iff uc)
    moreover have "max (of_nat c :: u64) 1 = of_nat c" using c0 uc by (auto simp: max_def word_le_nat_alt word_unat_eq_iff)
    ultimately show ?thesis using True by (simp add: word_le_nat_alt maxr)
  next
    case False
    then have "c = unat count" using c by simp
    then show ?thesis using False by (simp add: word_le_nat_alt maxr)
  qed
  let ?zeros = "replicate (unat (count * block_size hfs)) (0 :: u8)"
  let ?data = "chunk (unat start * ?B) (k * ?B) (fork_content hfs fork)"
  have uz: "unat (count * block_size hfs) = unat count * ?B" using count(2) by (intro unat_times) simp
  have bound: "unat d + unat (of_nat k :: u64) \<le> n"
    using fork_content_run(2) [OF hfs fork found, of k] k \<open>0 < k\<close> unfolding uk by simp
  have zfits: "fits 0 (unat (of_nat k :: u64) * ?B) ?zeros" using kB by (simp add: fits_def uz uk)
  have kpos: "0 < unat (of_nat k :: u64)" using \<open>0 < k\<close> by (simp add: uk)
  note exact = hfs_read_blocks_exact [OF hfs bound kpos zfits]
  have mink: "min r (of_nat c) = of_nat k"
    using k uc uk by (auto simp: word_unat_eq_iff min_def word_le_nat_alt)
  have content: "concat (map (alloc_block hfs) [unat d..<unat d + k]) = ?data"
    using k by (intro fork_content_run(1) [OF hfs fork found]) simp
  then have blocks: "hfs_read_blocks ?zeros hfs (min r (of_nat c)) d =
      Done (of_nat k * block_size hfs, store 0 ?data ?zeros)"
    using exact(1) by (simp add: mink uk)
  have len: "length ?data = k * ?B"
    unfolding content [symmetric]
    using bound by (subst length_alloc_blocks [OF hfs]) (simp_all add: uk)
  have "read_loop (Suc (Suc 1998)) hfs (fork_extents fork) (of_nat c) (make_range start (of_nat c)) ?zeros =
      Done (store 0 ?data ?zeros)"
    using exact(2,3) whole run c0 by (intro read_loop_once [OF found _ _ blocks]) (simp_all add: uc uk)
  then have loop: "read_loop 2000 hfs (fork_extents fork) (of_nat c) (make_range start (of_nat c)) ?zeros =
      Done (store 0 ?data ?zeros)" by (simp del: read_loop.simps)
  have min: "min count (of_nat c) = of_nat c" using c uc by (auto simp: word_unat_eq_iff min_def word_le_nat_alt)
  have cB: "c * ?B \<le> unat count * ?B" using c by (intro mult_le_mono1) simp
  have ucB: "unat (of_nat c * block_size hfs) = c * ?B"
    using le_less_trans [OF cB count(2)] by (subst unat_times) (simp_all add: uc)
  have stored: "chunk 0 (c * ?B) (store 0 ?data ?zeros) = ?data @ replicate ((c - k) * ?B) 0"
  proof -
    have "chunk 0 (c * ?B) (store 0 ?data ?zeros) = ?data @ take (c * ?B - k * ?B) (replicate (unat count * ?B - k * ?B) 0)"
      using len kB \<open>k \<le> c\<close> by (simp add: chunk_def store_def uz)
    also have "c * ?B - k * ?B = (c - k) * ?B" by (simp add: diff_mult_distrib)
    also have "take ((c - k) * ?B) (replicate (unat count * ?B - k * ?B) (0 :: u8)) = replicate ((c - k) * ?B) 0"
      using diff_le_mono [OF cB, of "k * ?B"] by (simp only: diff_mult_distrib take_replicate min_absorb1)
    finally show ?thesis .
  qed
  have sfits: "fits 0 (c * ?B) (store 0 ?data ?zeros)" using len kB cB by (simp add: fits_def uz)
  have checks: "\<not> count < 1" "\<not> start > ucast (fork_totalBlocks fork)"
    using count(1) start by (simp_all add: word_less_nat_alt)
  show ?thesis
    unfolding hfs_read_fork_def Let_def range_make range_max_def trim if_not_P [OF checks(1)] if_not_P [OF checks(2)]
      loop obind.simps min ucB stored
    using sfits buf by (simp only: if_True simp_thms)
qed

lemma length_fork_run:
  assumes "hfs_ok hfs n" "fork_ok n fork" "extentlist_find (fork_extents fork) l = Some (d, r)" "k \<le> unat r"
  shows "length (chunk (unat l * unat (block_size hfs)) (k * unat (block_size hfs)) (fork_content hfs fork)) =
      k * unat (block_size hfs)"
proof (cases "k = 0")
  case False
  then have "\<forall>i \<in> set [unat d..<unat d + k]. i < n" using fork_content_run(2) [OF assms] by simp
  then show ?thesis
    unfolding fork_content_run(1) [OF assms, symmetric] by (subst length_alloc_blocks [OF assms(1)]) simp_all
qed simp

lemma hfs_read_fork_one_run:
  assumes "hfs_ok hfs n" "fork_ok n fork"
    and "0 < unat count" "unat count * unat (block_size hfs) < 2 ^ 62"
    and "unat start < unat (fork_totalBlocks fork)"
    and "extentlist_find (fork_extents fork) start = Some (d, r)"
    and "c = min (unat count) (unat (fork_totalBlocks fork) - unat start)" "c \<le> unat r"
    and "fits 0 (c * unat (block_size hfs)) buf"
  shows "hfs_read_fork buf hfs fork count start =
    Done (of_nat c, store 0 (chunk (unat start * unat (block_size hfs)) (c * unat (block_size hfs))
      (fork_content hfs fork)) buf)"
proof -
  have "0 < unat (block_size hfs)" using assms(1) by (simp add: hfs_ok_def Let_def)
  then show ?thesis
    using hfs_read_fork_run [OF assms(1-7) refl _ assms(9)] assms(8) by (simp add: min_absorb2)
qed

section \<open>Correctness\<close>

text \<open>
  C7. Reading blocks of a fork, when the blocks that are asked for lie in one run of the extent list: the
  request is trimmed to the fork, the number of blocks is returned, and the buffer holds exactly those
  blocks of the fork's content.
\<close>

theorem hfs_read_fork_contiguous:
  assumes "hfs_ok hfs n" "fork_ok n fork"
    and "0 < unat count" "unat count * unat (block_size hfs) < 2 ^ 62"
    and "unat start < unat (fork_totalBlocks fork)"
    and "extentlist_find (fork_extents fork) start = Some (d, r)"
    and "c = min (unat count) (unat (fork_totalBlocks fork) - unat start)" "c \<le> unat r"
    and "fits 0 (c * unat (block_size hfs)) buf"
  shows "hfs_read_fork buf hfs fork count start =
    Done (of_nat c, store 0 (chunk (unat start * unat (block_size hfs)) (c * unat (block_size hfs))
      (fork_content hfs fork)) buf)"
  using assms by (rule hfs_read_fork_one_run)

text \<open>
  C9. When the request goes on beyond the first run, but has no more blocks than that run has bytes, only the
  run is read: the result still claims all the blocks, but the bytes after the run are zeros, not the fork's
  content. The loop counts the bytes that were read as blocks, so one round ends it.
\<close>

theorem hfs_read_fork_fragmented:
  assumes "hfs_ok hfs n" "fork_ok n fork"
    and "0 < unat count" "unat count * unat (block_size hfs) < 2 ^ 62"
    and "unat start < unat (fork_totalBlocks fork)"
    and "extentlist_find (fork_extents fork) start = Some (d, r)"
    and "c = min (unat count) (unat (fork_totalBlocks fork) - unat start)"
    and "unat r < c" "c \<le> unat r * unat (block_size hfs)"
    and "fits 0 (c * unat (block_size hfs)) buf"
  shows "hfs_read_fork buf hfs fork count start =
    Done (of_nat c, store 0 (chunk (unat start * unat (block_size hfs)) (unat r * unat (block_size hfs))
      (fork_content hfs fork) @ replicate ((c - unat r) * unat (block_size hfs)) 0) buf)"
  using hfs_read_fork_run [OF assms(1-7) refl _ assms(10)] assms(8,9) by (simp add: min_absorb1)

text \<open>
  The requests that a fork refuses: no blocks, or a start beyond its end, leave the buffer alone and
  return -1; the block just after the last one passes that check and ends the process.
\<close>

lemma hfs_read_fork_refuses:
  assumes ok: "extentlist_ok (fork_extents fork)"
    and len: "length (list_blocks (fork_extents fork)) = unat (fork_totalBlocks fork)"
    and outside: "count = 0 \<or> unat (fork_totalBlocks fork) \<le> unat start"
  shows "hfs_read_fork buf hfs fork count start =
    (if 0 < count \<and> unat start = unat (fork_totalBlocks fork) then Critical else Done (- 1, buf))"
proof (cases "0 < count \<and> unat start = unat (fork_totalBlocks fork)")
  case True
  then have start: "start = ucast (fork_totalBlocks fork)" by (simp add: word_unat_eq_iff)
  have "extentlist_find (fork_extents fork) start = None"
    using fork_blocks.lookup_none [OF ok] len True by simp
  then have none: "read_loop 2000 hfs (fork_extents fork) c (make_range start k) b = Critical" if "k \<noteq> 0" for c k b
    using that read_loop.simps(2) [of 1999] by simp
  have max1: "max (x :: u64) 1 \<noteq> 0" for x by (auto simp: max_def)
  have "\<not> count < 1" "count \<noteq> 0" using True by (auto simp: word_less_nat_alt)
  then have "range_count (if b then make_range start (max x 1) else make_range start count) \<noteq> 0"
    and "range_start (if b then make_range start (max x 1) else make_range start count) = start" for b x
    using max1 by auto
  then have "read_loop 2000 hfs (fork_extents fork) c (if b then make_range start (max x 1) else make_range start count) m =
      Critical" for b x c m
    using none by (metis (full_types) \<open>count \<noteq> 0\<close> max1)
  then show ?thesis
    using True \<open>\<not> count < 1\<close> unfolding hfs_read_fork_def Let_def range_make start [symmetric] by simp
next
  case False
  then have "count < 1 \<or> start > ucast (fork_totalBlocks fork)"
    using outside by (auto simp: word_less_nat_alt)
  then show ?thesis using False unfolding hfs_read_fork_def Let_def range_make by auto
qed

lemma range_count:
  fixes offset sz bs :: u64
  assumes "unat offset + unat sz < 2 ^ 61"
  shows "unat (sz div bs + (if (offset + sz) mod bs \<noteq> 0 then 1 else 0)) = blocks_read (unat bs) (unat sz) (unat offset)"
proof -
  have sum: "unat (offset + sz) = unat offset + unat sz" using assms by (intro unat_plus) simp
  have cond: "((offset + sz) mod bs \<noteq> 0) = ((unat offset + unat sz) mod unat bs \<noteq> 0)"
    by (simp add: word_unat_eq_iff unat_mod sum)
  have "unat sz div unat bs < 2 ^ 62" using assms by (intro le_less_trans [OF div_le_dividend]) simp
  then have "unat (sz div bs + 1) = unat sz div unat bs + 1"
    by (subst unat_plus) (simp_all add: unat_div)
  then show ?thesis unfolding cond by (simp add: blocks_read_def unat_div)
qed

text \<open>
  C8. Reading bytes of a fork: a request inside the logical size whose blocks lie in one run of the extent
  list, and which does not cross one more block boundary than its length suggests, delivers exactly those
  bytes of the fork's content.
\<close>

theorem hfs_read_fork_range_exact:
  assumes hfs: "hfs_ok hfs n" and fork: "fork_ok n fork"
    and inside: "unat offset + unat sz \<le> unat (fork_logicalSize fork)" "unat (fork_logicalSize fork) < 2 ^ 61"
    and pos: "0 < unat sz" and B: "B = unat (block_size hfs)" "B < 2 ^ 32"
    and cross: "unat offset mod B + unat sz mod B < B"
    and found: "extentlist_find (fork_extents fork) (offset div block_size hfs) = Some (d, r)"
    and covers: "blocks_needed B (unat sz) (unat offset) \<le> unat r"
    and buf: "fits 0 (unat sz) buf"
  shows "hfs_read_fork_range buf hfs fork sz offset =
    Done (sz, store 0 (chunk (unat offset) (unat sz) (fork_content hfs fork)) buf)"
proof -
  let ?c = "blocks_read B (unat sz) (unat offset)" and ?start = "offset div block_size hfs"
  let ?count = "sz div block_size hfs + (if (offset + sz) mod block_size hfs \<noteq> 0 then 1 else 0)"
  have B0: "0 < B" and nB: "n * B < 2 ^ 62" using hfs by (simp_all add: hfs_ok_def Let_def B)
  have ok: "extentlist_ok (fork_extents fork)" and len: "length (list_blocks (fork_extents fork)) = unat (fork_totalBlocks fork)"
    using fork by (simp_all add: fork_ok_def)
  note run = fork_blocks.lookup_run [OF ok found, THEN conjunct1] fork_blocks.lookup_run [OF ok found, THEN conjunct2, THEN conjunct1]
  have cr: "?c \<le> unat r" using covers blocks_read_needed(1) [OF B0 pos, of "unat offset"] cross by simp
  have start: "unat ?start = unat offset div B" by (simp add: unat_div B(1))
  have sum: "unat (offset + sz) = unat offset + unat sz" using inside by (intro unat_plus) simp
  have count: "unat ?count = ?c" unfolding B(1) by (rule range_count) (use inside in simp)
  note cover = blocks_cover [OF B0 pos cross]
  have total: "unat ?start + ?c \<le> unat (fork_totalBlocks fork)" using run(2) cr len by simp
  have cmin: "?c = min (unat ?count) (unat (fork_totalBlocks fork) - unat ?start)"
    unfolding count using total by simp
  have "?c * B \<le> unat sz + B" by (rule blocks_read_bound)
  then have small: "?c * B < 2 ^ 62" using inside B(2) by simp
  have cpos: "0 < unat ?count" and csmall: "unat ?count * unat (block_size hfs) < 2 ^ 62"
    using cover(1) small unfolding count B(1) by simp_all
  have ucB: "unat (?count * block_size hfs) = ?c * B"
    using small by (subst unat_times) (simp_all only: count B(1), simp)
  have zfits: "fits 0 (?c * unat (block_size hfs)) (replicate (?c * B) 0)" by (simp add: fits_def B(1))
  have before: "unat ?start < unat (fork_totalBlocks fork)" using total cover(1) by simp
  let ?data = "chunk (unat ?start * B) (?c * B) (fork_content hfs fork)"
  have lend: "length ?data = ?c * B" using length_fork_run [OF hfs fork found cr] by (simp add: B(1))
  have read: "hfs_read_fork (replicate (?c * B) 0) hfs fork ?count ?start = Done (of_nat ?c, ?data)"
    using hfs_read_fork_one_run [OF hfs fork cpos csmall before found cmin cr zfits] lend
    by (simp add: B(1) store_def)
  have aligned: "unat ?start * B + unat offset mod B = unat offset" by (simp add: start)
  have part: "chunk (unat offset mod B) (unat sz) ?data = chunk (unat offset) (unat sz) (fork_content hfs fork)"
    using cover(2) by (simp add: chunk_chunk aligned)
  have dfits: "fits (unat (offset mod block_size hfs)) (unat sz) ?data"
    using cover(2) lend by (simp add: fits_def unat_mod B(1))
  have checks: "\<not> offset > fork_logicalSize fork" "\<not> offset + sz > fork_logicalSize fork" "\<not> sz < 1" "block_size hfs \<noteq> 0"
    using inside pos B0 B(1) by (auto simp: word_less_nat_alt sum)
  have "unat (of_nat ?c :: u64) = unat ?count" unfolding count [symmetric] by simp
  then have "(of_nat ?c :: u64) \<noteq> 0" using cpos by (auto simp: word_unat_eq_iff)
  then show ?thesis
    unfolding hfs_read_fork_range_def Let_def if_not_P [OF checks(1)] if_not_P [OF checks(2)] if_not_P [OF checks(3)]
      if_not_P [OF checks(4)] ucB read obind.simps prod.case
    using dfits buf part by (simp add: unat_mod B(1))
qed

section \<open>A sample\<close>

definition small_hfs :: HFSPlus where
  "small_hfs =
     \<lparr>hfs_vol = Volume \<lparr>source = [10, 11, 12, 13, 14, 15, 16, 17], sector_count = 4, sector_size = 2,
        phy_sector_size = 0, vol_offset = 0, vol_length = 0\<rparr> 0 0 0 0 [],
      vh = [], hfs_offset = 0, hfs_length = 8, block_size = 2, block_count = 4\<rparr>"

definition two_runs :: HFSPlusFork where
  "two_runs = \<lparr>fork_logicalSize = 6, fork_totalBlocks = 3, fork_cnid = 20, forkType = 0, fork_first = [],
     fork_extents = [\<lparr>logicalStart = 0, startBlock = 1, blockCount = 2\<rparr>,
       \<lparr>logicalStart = 2, startBlock = 0, blockCount = 1\<rparr>]\<rparr>"

lemma small_ok: "hfs_ok small_hfs 4" "fork_ok 4 two_runs"
  "fork_content small_hfs two_runs = [12, 13, 14, 15, 10, 11]"
  "extentlist_find (fork_extents two_runs) 0 = Some (1, 2)"
  "fork_totalBlocks two_runs = 3" "block_size small_hfs = 2" "fork_logicalSize two_runs = 6"
  by (simp_all add: small_hfs_def two_runs_def hfs_ok_def fork_ok_def geometry_ok_def block_size_of_def
      extentlist_ok_def extent_ok_def extent_blocks_def fork_content_def alloc_block_def chunk_def upt_rec
      extentlist_find_def range_contains_def Let_def)

lemma hfs_read_fork_contiguous_witness:
  "hfs_read_fork [0, 0, 0, 0, 9] small_hfs two_runs 2 0 = Done (2, [12, 13, 14, 15, 9])"
  using hfs_read_fork_contiguous [OF small_ok(1,2) _ _ _ small_ok(4) refl, of 2 "[0, 0, 0, 0, 9]"]
  by (simp add: small_ok fits_def chunk_def store_def)

lemma hfs_read_fork_fragmented_witness:
  "hfs_read_fork [1, 1, 1, 1, 1, 1] small_hfs two_runs 3 0 = Done (3, [12, 13, 14, 15, 0, 0])"
proof -
  have "replicate 2 (0 :: u8) = [0, 0]" by (simp add: numeral_2_eq_2)
  then show ?thesis
    using hfs_read_fork_fragmented [OF small_ok(1,2) _ _ _ small_ok(4) refl, of 3 "[1, 1, 1, 1, 1, 1]"]
    by (simp add: small_ok fits_def chunk_def store_def)
qed

lemma hfs_read_fork_refuses_witness: "hfs_read_fork [] small_hfs two_runs 1 3 = Critical"
  using hfs_read_fork_refuses [of two_runs 1 3 "[]" small_hfs] small_ok(2) by (simp add: fork_ok_def small_ok)

lemma hfs_read_fork_range_exact_witness:
  "hfs_read_fork_range [0, 0] small_hfs two_runs 2 0 = Done (2, [12, 13])"
  using hfs_read_fork_range_exact [OF small_ok(1,2) _ _ _ refl, of 0 2 1 2 "[0, 0]"]
  by (simp add: small_ok fits_def chunk_def store_def blocks_needed_def)

end
