(* ===== verification/Utf_Data.thy ===== *)
theory Utf_Data
  imports Hfs_Prelude
begin

text \<open>
  The tables of \<^verbatim>\<open>src/src/hfs/Apple/utfconvdata.h\<close>, number by number: the decomposition and composition
  mappings, and the bitmaps of decomposable and combining characters and of combining classes. A
  bitmap begins with an index of 256 bytes, which the pages follow. The long tables are written in
  parts.
\<close>

definition CFUniCharDecompositionTable_1 :: "u16 list" where
  "CFUniCharDecompositionTable_1 = [
     0x00c0, 0x2000, 0x00c1, 0x2002, 0x00c2, 0x2004, 0x00c3, 0x2006,
     0x00c4, 0x2008, 0x00c5, 0x200a, 0x00c7, 0x200c, 0x00c8, 0x200e,
     0x00c9, 0x2010, 0x00ca, 0x2012, 0x00cb, 0x2014, 0x00cc, 0x2016,
     0x00cd, 0x2018, 0x00ce, 0x201a, 0x00cf, 0x201c, 0x00d1, 0x201e,
     0x00d2, 0x2020, 0x00d3, 0x2022, 0x00d4, 0x2024, 0x00d5, 0x2026,
     0x00d6, 0x2028, 0x00d9, 0x202a, 0x00da, 0x202c, 0x00db, 0x202e,
     0x00dc, 0x2030, 0x00dd, 0x2032, 0x00e0, 0x2034, 0x00e1, 0x2036,
     0x00e2, 0x2038, 0x00e3, 0x203a, 0x00e4, 0x203c, 0x00e5, 0x203e,
     0x00e7, 0x2040, 0x00e8, 0x2042, 0x00e9, 0x2044, 0x00ea, 0x2046,
     0x00eb, 0x2048, 0x00ec, 0x204a, 0x00ed, 0x204c, 0x00ee, 0x204e,
     0x00ef, 0x2050, 0x00f1, 0x2052, 0x00f2, 0x2054, 0x00f3, 0x2056,
     0x00f4, 0x2058, 0x00f5, 0x205a, 0x00f6, 0x205c, 0x00f9, 0x205e,
     0x00fa, 0x2060, 0x00fb, 0x2062, 0x00fc, 0x2064, 0x00fd, 0x2066,
     0x00ff, 0x2068, 0x0100, 0x206a, 0x0101, 0x206c, 0x0102, 0x206e,
     0x0103, 0x2070, 0x0104, 0x2072, 0x0105, 0x2074, 0x0106, 0x2076,
     0x0107, 0x2078, 0x0108, 0x207a, 0x0109, 0x207c, 0x010a, 0x207e,
     0x010b, 0x2080, 0x010c, 0x2082, 0x010d, 0x2084, 0x010e, 0x2086,
     0x010f, 0x2088, 0x0112, 0x208a, 0x0113, 0x208c, 0x0114, 0x208e,
     0x0115, 0x2090, 0x0116, 0x2092, 0x0117, 0x2094, 0x0118, 0x2096,
     0x0119, 0x2098, 0x011a, 0x209a, 0x011b, 0x209c, 0x011c, 0x209e,
     0x011d, 0x20a0, 0x011e, 0x20a2, 0x011f, 0x20a4, 0x0120, 0x20a6,
     0x0121, 0x20a8, 0x0122, 0x20aa, 0x0123, 0x20ac, 0x0124, 0x20ae,
     0x0125, 0x20b0, 0x0128, 0x20b2, 0x0129, 0x20b4, 0x012a, 0x20b6,
     0x012b, 0x20b8, 0x012c, 0x20ba, 0x012d, 0x20bc, 0x012e, 0x20be,
     0x012f, 0x20c0, 0x0130, 0x20c2, 0x0134, 0x20c4, 0x0135, 0x20c6,
     0x0136, 0x20c8, 0x0137, 0x20ca, 0x0139, 0x20cc, 0x013a, 0x20ce,
     0x013b, 0x20d0, 0x013c, 0x20d2, 0x013d, 0x20d4, 0x013e, 0x20d6,
     0x0143, 0x20d8, 0x0144, 0x20da, 0x0145, 0x20dc, 0x0146, 0x20de,
     0x0147, 0x20e0, 0x0148, 0x20e2, 0x014c, 0x20e4, 0x014d, 0x20e6,
     0x014e, 0x20e8, 0x014f, 0x20ea, 0x0150, 0x20ec, 0x0151, 0x20ee,
     0x0154, 0x20f0, 0x0155, 0x20f2, 0x0156, 0x20f4, 0x0157, 0x20f6,
     0x0158, 0x20f8, 0x0159, 0x20fa, 0x015a, 0x20fc, 0x015b, 0x20fe]"

definition CFUniCharDecompositionTable_2 :: "u16 list" where
  "CFUniCharDecompositionTable_2 = [
     0x015c, 0x2100, 0x015d, 0x2102, 0x015e, 0x2104, 0x015f, 0x2106,
     0x0160, 0x2108, 0x0161, 0x210a, 0x0162, 0x210c, 0x0163, 0x210e,
     0x0164, 0x2110, 0x0165, 0x2112, 0x0168, 0x2114, 0x0169, 0x2116,
     0x016a, 0x2118, 0x016b, 0x211a, 0x016c, 0x211c, 0x016d, 0x211e,
     0x016e, 0x2120, 0x016f, 0x2122, 0x0170, 0x2124, 0x0171, 0x2126,
     0x0172, 0x2128, 0x0173, 0x212a, 0x0174, 0x212c, 0x0175, 0x212e,
     0x0176, 0x2130, 0x0177, 0x2132, 0x0178, 0x2134, 0x0179, 0x2136,
     0x017a, 0x2138, 0x017b, 0x213a, 0x017c, 0x213c, 0x017d, 0x213e,
     0x017e, 0x2140, 0x01a0, 0x2142, 0x01a1, 0x2144, 0x01af, 0x2146,
     0x01b0, 0x2148, 0x01cd, 0x214a, 0x01ce, 0x214c, 0x01cf, 0x214e,
     0x01d0, 0x2150, 0x01d1, 0x2152, 0x01d2, 0x2154, 0x01d3, 0x2156,
     0x01d4, 0x2158, 0x01d5, 0xa15a, 0x01d6, 0xa15c, 0x01d7, 0xa15e,
     0x01d8, 0xa160, 0x01d9, 0xa162, 0x01da, 0xa164, 0x01db, 0xa166,
     0x01dc, 0xa168, 0x01de, 0xa16a, 0x01df, 0xa16c, 0x01e0, 0xa16e,
     0x01e1, 0xa170, 0x01e2, 0x2172, 0x01e3, 0x2174, 0x01e6, 0x2176,
     0x01e7, 0x2178, 0x01e8, 0x217a, 0x01e9, 0x217c, 0x01ea, 0x217e,
     0x01eb, 0x2180, 0x01ec, 0xa182, 0x01ed, 0xa184, 0x01ee, 0x2186,
     0x01ef, 0x2188, 0x01f0, 0x218a, 0x01f4, 0x218c, 0x01f5, 0x218e,
     0x01f8, 0x2190, 0x01f9, 0x2192, 0x01fa, 0xa194, 0x01fb, 0xa196,
     0x01fc, 0x2198, 0x01fd, 0x219a, 0x01fe, 0x219c, 0x01ff, 0x219e,
     0x0200, 0x21a0, 0x0201, 0x21a2, 0x0202, 0x21a4, 0x0203, 0x21a6,
     0x0204, 0x21a8, 0x0205, 0x21aa, 0x0206, 0x21ac, 0x0207, 0x21ae,
     0x0208, 0x21b0, 0x0209, 0x21b2, 0x020a, 0x21b4, 0x020b, 0x21b6,
     0x020c, 0x21b8, 0x020d, 0x21ba, 0x020e, 0x21bc, 0x020f, 0x21be,
     0x0210, 0x21c0, 0x0211, 0x21c2, 0x0212, 0x21c4, 0x0213, 0x21c6,
     0x0214, 0x21c8, 0x0215, 0x21ca, 0x0216, 0x21cc, 0x0217, 0x21ce,
     0x0218, 0x21d0, 0x0219, 0x21d2, 0x021a, 0x21d4, 0x021b, 0x21d6,
     0x021e, 0x21d8, 0x021f, 0x21da, 0x0226, 0x21dc, 0x0227, 0x21de,
     0x0228, 0x21e0, 0x0229, 0x21e2, 0x022a, 0xa1e4, 0x022b, 0xa1e6,
     0x022c, 0xa1e8, 0x022d, 0xa1ea, 0x022e, 0x21ec, 0x022f, 0x21ee,
     0x0230, 0xa1f0, 0x0231, 0xa1f2, 0x0232, 0x21f4, 0x0233, 0x21f6,
     0x0340, 0x1300, 0x0341, 0x1301, 0x0343, 0x1313, 0x0344, 0x21f8]"

definition CFUniCharDecompositionTable_3 :: "u16 list" where
  "CFUniCharDecompositionTable_3 = [
     0x0374, 0x12b9, 0x037e, 0x103b, 0x0385, 0x21fa, 0x0386, 0x21fc,
     0x0387, 0x10b7, 0x0388, 0x21fe, 0x0389, 0x2200, 0x038a, 0x2202,
     0x038c, 0x2204, 0x038e, 0x2206, 0x038f, 0x2208, 0x0390, 0xa20a,
     0x03aa, 0x220c, 0x03ab, 0x220e, 0x03ac, 0x2210, 0x03ad, 0x2212,
     0x03ae, 0x2214, 0x03af, 0x2216, 0x03b0, 0xa218, 0x03ca, 0x221a,
     0x03cb, 0x221c, 0x03cc, 0x221e, 0x03cd, 0x2220, 0x03ce, 0x2222,
     0x03d3, 0x2224, 0x03d4, 0x2226, 0x0400, 0x2228, 0x0401, 0x222a,
     0x0403, 0x222c, 0x0407, 0x222e, 0x040c, 0x2230, 0x040d, 0x2232,
     0x040e, 0x2234, 0x0419, 0x2236, 0x0439, 0x2238, 0x0450, 0x223a,
     0x0451, 0x223c, 0x0453, 0x223e, 0x0457, 0x2240, 0x045c, 0x2242,
     0x045d, 0x2244, 0x045e, 0x2246, 0x0476, 0x2248, 0x0477, 0x224a,
     0x04c1, 0x224c, 0x04c2, 0x224e, 0x04d0, 0x2250, 0x04d1, 0x2252,
     0x04d2, 0x2254, 0x04d3, 0x2256, 0x04d6, 0x2258, 0x04d7, 0x225a,
     0x04da, 0x225c, 0x04db, 0x225e, 0x04dc, 0x2260, 0x04dd, 0x2262,
     0x04de, 0x2264, 0x04df, 0x2266, 0x04e2, 0x2268, 0x04e3, 0x226a,
     0x04e4, 0x226c, 0x04e5, 0x226e, 0x04e6, 0x2270, 0x04e7, 0x2272,
     0x04ea, 0x2274, 0x04eb, 0x2276, 0x04ec, 0x2278, 0x04ed, 0x227a,
     0x04ee, 0x227c, 0x04ef, 0x227e, 0x04f0, 0x2280, 0x04f1, 0x2282,
     0x04f2, 0x2284, 0x04f3, 0x2286, 0x04f4, 0x2288, 0x04f5, 0x228a,
     0x04f8, 0x228c, 0x04f9, 0x228e, 0x0622, 0x2290, 0x0623, 0x2292,
     0x0624, 0x2294, 0x0625, 0x2296, 0x0626, 0x2298, 0x06c0, 0x229a,
     0x06c2, 0x229c, 0x06d3, 0x229e, 0x0929, 0x22a0, 0x0931, 0x22a2,
     0x0934, 0x22a4, 0x0958, 0x22a6, 0x0959, 0x22a8, 0x095a, 0x22aa,
     0x095b, 0x22ac, 0x095c, 0x22ae, 0x095d, 0x22b0, 0x095e, 0x22b2,
     0x095f, 0x22b4, 0x09cb, 0x22b6, 0x09cc, 0x22b8, 0x09dc, 0x22ba,
     0x09dd, 0x22bc, 0x09df, 0x22be, 0x0a33, 0x22c0, 0x0a36, 0x22c2,
     0x0a59, 0x22c4, 0x0a5a, 0x22c6, 0x0a5b, 0x22c8, 0x0a5e, 0x22ca,
     0x0b48, 0x22cc, 0x0b4b, 0x22ce, 0x0b4c, 0x22d0, 0x0b5c, 0x22d2,
     0x0b5d, 0x22d4, 0x0b94, 0x22d6, 0x0bca, 0x22d8, 0x0bcb, 0x22da,
     0x0bcc, 0x22dc, 0x0c48, 0x22de, 0x0cc0, 0x22e0, 0x0cc7, 0x22e2,
     0x0cc8, 0x22e4, 0x0cca, 0x22e6, 0x0ccb, 0xa2e8, 0x0d4a, 0x22ea,
     0x0d4b, 0x22ec, 0x0d4c, 0x22ee, 0x0dda, 0x22f0, 0x0ddc, 0x22f2]"

definition CFUniCharDecompositionTable_4 :: "u16 list" where
  "CFUniCharDecompositionTable_4 = [
     0x0ddd, 0xa2f4, 0x0dde, 0x22f6, 0x0f43, 0x22f8, 0x0f4d, 0x22fa,
     0x0f52, 0x22fc, 0x0f57, 0x22fe, 0x0f5c, 0x2300, 0x0f69, 0x2302,
     0x0f73, 0x2304, 0x0f75, 0x2306, 0x0f76, 0x2308, 0x0f78, 0x230a,
     0x0f81, 0x230c, 0x0f93, 0x230e, 0x0f9d, 0x2310, 0x0fa2, 0x2312,
     0x0fa7, 0x2314, 0x0fac, 0x2316, 0x0fb9, 0x2318, 0x1026, 0x231a,
     0x1e00, 0x231c, 0x1e01, 0x231e, 0x1e02, 0x2320, 0x1e03, 0x2322,
     0x1e04, 0x2324, 0x1e05, 0x2326, 0x1e06, 0x2328, 0x1e07, 0x232a,
     0x1e08, 0xa32c, 0x1e09, 0xa32e, 0x1e0a, 0x2330, 0x1e0b, 0x2332,
     0x1e0c, 0x2334, 0x1e0d, 0x2336, 0x1e0e, 0x2338, 0x1e0f, 0x233a,
     0x1e10, 0x233c, 0x1e11, 0x233e, 0x1e12, 0x2340, 0x1e13, 0x2342,
     0x1e14, 0xa344, 0x1e15, 0xa346, 0x1e16, 0xa348, 0x1e17, 0xa34a,
     0x1e18, 0x234c, 0x1e19, 0x234e, 0x1e1a, 0x2350, 0x1e1b, 0x2352,
     0x1e1c, 0xa354, 0x1e1d, 0xa356, 0x1e1e, 0x2358, 0x1e1f, 0x235a,
     0x1e20, 0x235c, 0x1e21, 0x235e, 0x1e22, 0x2360, 0x1e23, 0x2362,
     0x1e24, 0x2364, 0x1e25, 0x2366, 0x1e26, 0x2368, 0x1e27, 0x236a,
     0x1e28, 0x236c, 0x1e29, 0x236e, 0x1e2a, 0x2370, 0x1e2b, 0x2372,
     0x1e2c, 0x2374, 0x1e2d, 0x2376, 0x1e2e, 0xa378, 0x1e2f, 0xa37a,
     0x1e30, 0x237c, 0x1e31, 0x237e, 0x1e32, 0x2380, 0x1e33, 0x2382,
     0x1e34, 0x2384, 0x1e35, 0x2386, 0x1e36, 0x2388, 0x1e37, 0x238a,
     0x1e38, 0xa38c, 0x1e39, 0xa38e, 0x1e3a, 0x2390, 0x1e3b, 0x2392,
     0x1e3c, 0x2394, 0x1e3d, 0x2396, 0x1e3e, 0x2398, 0x1e3f, 0x239a,
     0x1e40, 0x239c, 0x1e41, 0x239e, 0x1e42, 0x23a0, 0x1e43, 0x23a2,
     0x1e44, 0x23a4, 0x1e45, 0x23a6, 0x1e46, 0x23a8, 0x1e47, 0x23aa,
     0x1e48, 0x23ac, 0x1e49, 0x23ae, 0x1e4a, 0x23b0, 0x1e4b, 0x23b2,
     0x1e4c, 0xa3b4, 0x1e4d, 0xa3b6, 0x1e4e, 0xa3b8, 0x1e4f, 0xa3ba,
     0x1e50, 0xa3bc, 0x1e51, 0xa3be, 0x1e52, 0xa3c0, 0x1e53, 0xa3c2,
     0x1e54, 0x23c4, 0x1e55, 0x23c6, 0x1e56, 0x23c8, 0x1e57, 0x23ca,
     0x1e58, 0x23cc, 0x1e59, 0x23ce, 0x1e5a, 0x23d0, 0x1e5b, 0x23d2,
     0x1e5c, 0xa3d4, 0x1e5d, 0xa3d6, 0x1e5e, 0x23d8, 0x1e5f, 0x23da,
     0x1e60, 0x23dc, 0x1e61, 0x23de, 0x1e62, 0x23e0, 0x1e63, 0x23e2,
     0x1e64, 0xa3e4, 0x1e65, 0xa3e6, 0x1e66, 0xa3e8, 0x1e67, 0xa3ea,
     0x1e68, 0xa3ec, 0x1e69, 0xa3ee, 0x1e6a, 0x23f0, 0x1e6b, 0x23f2]"

definition CFUniCharDecompositionTable_5 :: "u16 list" where
  "CFUniCharDecompositionTable_5 = [
     0x1e6c, 0x23f4, 0x1e6d, 0x23f6, 0x1e6e, 0x23f8, 0x1e6f, 0x23fa,
     0x1e70, 0x23fc, 0x1e71, 0x23fe, 0x1e72, 0x2400, 0x1e73, 0x2402,
     0x1e74, 0x2404, 0x1e75, 0x2406, 0x1e76, 0x2408, 0x1e77, 0x240a,
     0x1e78, 0xa40c, 0x1e79, 0xa40e, 0x1e7a, 0xa410, 0x1e7b, 0xa412,
     0x1e7c, 0x2414, 0x1e7d, 0x2416, 0x1e7e, 0x2418, 0x1e7f, 0x241a,
     0x1e80, 0x241c, 0x1e81, 0x241e, 0x1e82, 0x2420, 0x1e83, 0x2422,
     0x1e84, 0x2424, 0x1e85, 0x2426, 0x1e86, 0x2428, 0x1e87, 0x242a,
     0x1e88, 0x242c, 0x1e89, 0x242e, 0x1e8a, 0x2430, 0x1e8b, 0x2432,
     0x1e8c, 0x2434, 0x1e8d, 0x2436, 0x1e8e, 0x2438, 0x1e8f, 0x243a,
     0x1e90, 0x243c, 0x1e91, 0x243e, 0x1e92, 0x2440, 0x1e93, 0x2442,
     0x1e94, 0x2444, 0x1e95, 0x2446, 0x1e96, 0x2448, 0x1e97, 0x244a,
     0x1e98, 0x244c, 0x1e99, 0x244e, 0x1e9b, 0x2450, 0x1ea0, 0x2452,
     0x1ea1, 0x2454, 0x1ea2, 0x2456, 0x1ea3, 0x2458, 0x1ea4, 0xa45a,
     0x1ea5, 0xa45c, 0x1ea6, 0xa45e, 0x1ea7, 0xa460, 0x1ea8, 0xa462,
     0x1ea9, 0xa464, 0x1eaa, 0xa466, 0x1eab, 0xa468, 0x1eac, 0xa46a,
     0x1ead, 0xa46c, 0x1eae, 0xa46e, 0x1eaf, 0xa470, 0x1eb0, 0xa472,
     0x1eb1, 0xa474, 0x1eb2, 0xa476, 0x1eb3, 0xa478, 0x1eb4, 0xa47a,
     0x1eb5, 0xa47c, 0x1eb6, 0xa47e, 0x1eb7, 0xa480, 0x1eb8, 0x2482,
     0x1eb9, 0x2484, 0x1eba, 0x2486, 0x1ebb, 0x2488, 0x1ebc, 0x248a,
     0x1ebd, 0x248c, 0x1ebe, 0xa48e, 0x1ebf, 0xa490, 0x1ec0, 0xa492,
     0x1ec1, 0xa494, 0x1ec2, 0xa496, 0x1ec3, 0xa498, 0x1ec4, 0xa49a,
     0x1ec5, 0xa49c, 0x1ec6, 0xa49e, 0x1ec7, 0xa4a0, 0x1ec8, 0x24a2,
     0x1ec9, 0x24a4, 0x1eca, 0x24a6, 0x1ecb, 0x24a8, 0x1ecc, 0x24aa,
     0x1ecd, 0x24ac, 0x1ece, 0x24ae, 0x1ecf, 0x24b0, 0x1ed0, 0xa4b2,
     0x1ed1, 0xa4b4, 0x1ed2, 0xa4b6, 0x1ed3, 0xa4b8, 0x1ed4, 0xa4ba,
     0x1ed5, 0xa4bc, 0x1ed6, 0xa4be, 0x1ed7, 0xa4c0, 0x1ed8, 0xa4c2,
     0x1ed9, 0xa4c4, 0x1eda, 0xa4c6, 0x1edb, 0xa4c8, 0x1edc, 0xa4ca,
     0x1edd, 0xa4cc, 0x1ede, 0xa4ce, 0x1edf, 0xa4d0, 0x1ee0, 0xa4d2,
     0x1ee1, 0xa4d4, 0x1ee2, 0xa4d6, 0x1ee3, 0xa4d8, 0x1ee4, 0x24da,
     0x1ee5, 0x24dc, 0x1ee6, 0x24de, 0x1ee7, 0x24e0, 0x1ee8, 0xa4e2,
     0x1ee9, 0xa4e4, 0x1eea, 0xa4e6, 0x1eeb, 0xa4e8, 0x1eec, 0xa4ea,
     0x1eed, 0xa4ec, 0x1eee, 0xa4ee, 0x1eef, 0xa4f0, 0x1ef0, 0xa4f2]"

definition CFUniCharDecompositionTable_6 :: "u16 list" where
  "CFUniCharDecompositionTable_6 = [
     0x1ef1, 0xa4f4, 0x1ef2, 0x24f6, 0x1ef3, 0x24f8, 0x1ef4, 0x24fa,
     0x1ef5, 0x24fc, 0x1ef6, 0x24fe, 0x1ef7, 0x2500, 0x1ef8, 0x2502,
     0x1ef9, 0x2504, 0x1f00, 0x2506, 0x1f01, 0x2508, 0x1f02, 0xa50a,
     0x1f03, 0xa50c, 0x1f04, 0xa50e, 0x1f05, 0xa510, 0x1f06, 0xa512,
     0x1f07, 0xa514, 0x1f08, 0x2516, 0x1f09, 0x2518, 0x1f0a, 0xa51a,
     0x1f0b, 0xa51c, 0x1f0c, 0xa51e, 0x1f0d, 0xa520, 0x1f0e, 0xa522,
     0x1f0f, 0xa524, 0x1f10, 0x2526, 0x1f11, 0x2528, 0x1f12, 0xa52a,
     0x1f13, 0xa52c, 0x1f14, 0xa52e, 0x1f15, 0xa530, 0x1f18, 0x2532,
     0x1f19, 0x2534, 0x1f1a, 0xa536, 0x1f1b, 0xa538, 0x1f1c, 0xa53a,
     0x1f1d, 0xa53c, 0x1f20, 0x253e, 0x1f21, 0x2540, 0x1f22, 0xa542,
     0x1f23, 0xa544, 0x1f24, 0xa546, 0x1f25, 0xa548, 0x1f26, 0xa54a,
     0x1f27, 0xa54c, 0x1f28, 0x254e, 0x1f29, 0x2550, 0x1f2a, 0xa552,
     0x1f2b, 0xa554, 0x1f2c, 0xa556, 0x1f2d, 0xa558, 0x1f2e, 0xa55a,
     0x1f2f, 0xa55c, 0x1f30, 0x255e, 0x1f31, 0x2560, 0x1f32, 0xa562,
     0x1f33, 0xa564, 0x1f34, 0xa566, 0x1f35, 0xa568, 0x1f36, 0xa56a,
     0x1f37, 0xa56c, 0x1f38, 0x256e, 0x1f39, 0x2570, 0x1f3a, 0xa572,
     0x1f3b, 0xa574, 0x1f3c, 0xa576, 0x1f3d, 0xa578, 0x1f3e, 0xa57a,
     0x1f3f, 0xa57c, 0x1f40, 0x257e, 0x1f41, 0x2580, 0x1f42, 0xa582,
     0x1f43, 0xa584, 0x1f44, 0xa586, 0x1f45, 0xa588, 0x1f48, 0x258a,
     0x1f49, 0x258c, 0x1f4a, 0xa58e, 0x1f4b, 0xa590, 0x1f4c, 0xa592,
     0x1f4d, 0xa594, 0x1f50, 0x2596, 0x1f51, 0x2598, 0x1f52, 0xa59a,
     0x1f53, 0xa59c, 0x1f54, 0xa59e, 0x1f55, 0xa5a0, 0x1f56, 0xa5a2,
     0x1f57, 0xa5a4, 0x1f59, 0x25a6, 0x1f5b, 0xa5a8, 0x1f5d, 0xa5aa,
     0x1f5f, 0xa5ac, 0x1f60, 0x25ae, 0x1f61, 0x25b0, 0x1f62, 0xa5b2,
     0x1f63, 0xa5b4, 0x1f64, 0xa5b6, 0x1f65, 0xa5b8, 0x1f66, 0xa5ba,
     0x1f67, 0xa5bc, 0x1f68, 0x25be, 0x1f69, 0x25c0, 0x1f6a, 0xa5c2,
     0x1f6b, 0xa5c4, 0x1f6c, 0xa5c6, 0x1f6d, 0xa5c8, 0x1f6e, 0xa5ca,
     0x1f6f, 0xa5cc, 0x1f70, 0x25ce, 0x1f71, 0x93ac, 0x1f72, 0x25d0,
     0x1f73, 0x93ad, 0x1f74, 0x25d2, 0x1f75, 0x93ae, 0x1f76, 0x25d4,
     0x1f77, 0x93af, 0x1f78, 0x25d6, 0x1f79, 0x93cc, 0x1f7a, 0x25d8,
     0x1f7b, 0x93cd, 0x1f7c, 0x25da, 0x1f7d, 0x93ce, 0x1f80, 0xa5dc,
     0x1f81, 0xa5de, 0x1f82, 0xa5e0, 0x1f83, 0xa5e2, 0x1f84, 0xa5e4]"

definition CFUniCharDecompositionTable_7 :: "u16 list" where
  "CFUniCharDecompositionTable_7 = [
     0x1f85, 0xa5e6, 0x1f86, 0xa5e8, 0x1f87, 0xa5ea, 0x1f88, 0xa5ec,
     0x1f89, 0xa5ee, 0x1f8a, 0xa5f0, 0x1f8b, 0xa5f2, 0x1f8c, 0xa5f4,
     0x1f8d, 0xa5f6, 0x1f8e, 0xa5f8, 0x1f8f, 0xa5fa, 0x1f90, 0xa5fc,
     0x1f91, 0xa5fe, 0x1f92, 0xa600, 0x1f93, 0xa602, 0x1f94, 0xa604,
     0x1f95, 0xa606, 0x1f96, 0xa608, 0x1f97, 0xa60a, 0x1f98, 0xa60c,
     0x1f99, 0xa60e, 0x1f9a, 0xa610, 0x1f9b, 0xa612, 0x1f9c, 0xa614,
     0x1f9d, 0xa616, 0x1f9e, 0xa618, 0x1f9f, 0xa61a, 0x1fa0, 0xa61c,
     0x1fa1, 0xa61e, 0x1fa2, 0xa620, 0x1fa3, 0xa622, 0x1fa4, 0xa624,
     0x1fa5, 0xa626, 0x1fa6, 0xa628, 0x1fa7, 0xa62a, 0x1fa8, 0xa62c,
     0x1fa9, 0xa62e, 0x1faa, 0xa630, 0x1fab, 0xa632, 0x1fac, 0xa634,
     0x1fad, 0xa636, 0x1fae, 0xa638, 0x1faf, 0xa63a, 0x1fb0, 0x263c,
     0x1fb1, 0x263e, 0x1fb2, 0xa640, 0x1fb3, 0x2642, 0x1fb4, 0xa644,
     0x1fb6, 0x2646, 0x1fb7, 0xa648, 0x1fb8, 0x264a, 0x1fb9, 0x264c,
     0x1fba, 0x264e, 0x1fbb, 0x9386, 0x1fbc, 0x2650, 0x1fbe, 0x13b9,
     0x1fc1, 0x2652, 0x1fc2, 0xa654, 0x1fc3, 0x2656, 0x1fc4, 0xa658,
     0x1fc6, 0x265a, 0x1fc7, 0xa65c, 0x1fc8, 0x265e, 0x1fc9, 0x9388,
     0x1fca, 0x2660, 0x1fcb, 0x9389, 0x1fcc, 0x2662, 0x1fcd, 0x2664,
     0x1fce, 0x2666, 0x1fcf, 0x2668, 0x1fd0, 0x266a, 0x1fd1, 0x266c,
     0x1fd2, 0xa66e, 0x1fd3, 0x9390, 0x1fd6, 0x2670, 0x1fd7, 0xa672,
     0x1fd8, 0x2674, 0x1fd9, 0x2676, 0x1fda, 0x2678, 0x1fdb, 0x938a,
     0x1fdd, 0x267a, 0x1fde, 0x267c, 0x1fdf, 0x267e, 0x1fe0, 0x2680,
     0x1fe1, 0x2682, 0x1fe2, 0xa684, 0x1fe3, 0x93b0, 0x1fe4, 0x2686,
     0x1fe5, 0x2688, 0x1fe6, 0x268a, 0x1fe7, 0xa68c, 0x1fe8, 0x268e,
     0x1fe9, 0x2690, 0x1fea, 0x2692, 0x1feb, 0x938e, 0x1fec, 0x2694,
     0x1fed, 0x2696, 0x1fee, 0x9385, 0x1fef, 0x1060, 0x1ff2, 0xa698,
     0x1ff3, 0x269a, 0x1ff4, 0xa69c, 0x1ff6, 0x269e, 0x1ff7, 0xa6a0,
     0x1ff8, 0x26a2, 0x1ff9, 0x938c, 0x1ffa, 0x26a4, 0x1ffb, 0x938f,
     0x1ffc, 0x26a6, 0x1ffd, 0x10b4, 0x304c, 0x26a8, 0x304e, 0x26aa,
     0x3050, 0x26ac, 0x3052, 0x26ae, 0x3054, 0x26b0, 0x3056, 0x26b2,
     0x3058, 0x26b4, 0x305a, 0x26b6, 0x305c, 0x26b8, 0x305e, 0x26ba,
     0x3060, 0x26bc, 0x3062, 0x26be, 0x3065, 0x26c0, 0x3067, 0x26c2,
     0x3069, 0x26c4, 0x3070, 0x26c6, 0x3071, 0x26c8, 0x3073, 0x26ca]"

definition CFUniCharDecompositionTable_8 :: "u16 list" where
  "CFUniCharDecompositionTable_8 = [
     0x3074, 0x26cc, 0x3076, 0x26ce, 0x3077, 0x26d0, 0x3079, 0x26d2,
     0x307a, 0x26d4, 0x307c, 0x26d6, 0x307d, 0x26d8, 0x3094, 0x26da,
     0x309e, 0x26dc, 0x30ac, 0x26de, 0x30ae, 0x26e0, 0x30b0, 0x26e2,
     0x30b2, 0x26e4, 0x30b4, 0x26e6, 0x30b6, 0x26e8, 0x30b8, 0x26ea,
     0x30ba, 0x26ec, 0x30bc, 0x26ee, 0x30be, 0x26f0, 0x30c0, 0x26f2,
     0x30c2, 0x26f4, 0x30c5, 0x26f6, 0x30c7, 0x26f8, 0x30c9, 0x26fa,
     0x30d0, 0x26fc, 0x30d1, 0x26fe, 0x30d3, 0x2700, 0x30d4, 0x2702,
     0x30d6, 0x2704, 0x30d7, 0x2706, 0x30d9, 0x2708, 0x30da, 0x270a,
     0x30dc, 0x270c, 0x30dd, 0x270e, 0x30f4, 0x2710, 0x30f7, 0x2712,
     0x30f8, 0x2714, 0x30f9, 0x2716, 0x30fa, 0x2718, 0x30fe, 0x271a,
     0xfb1d, 0x271c, 0xfb1f, 0x271e, 0xfb2a, 0x2720, 0xfb2b, 0x2722,
     0xfb2c, 0xa724, 0xfb2d, 0xa726, 0xfb2e, 0x2728, 0xfb2f, 0x272a,
     0xfb30, 0x272c, 0xfb31, 0x272e, 0xfb32, 0x2730, 0xfb33, 0x2732,
     0xfb34, 0x2734, 0xfb35, 0x2736, 0xfb36, 0x2738, 0xfb38, 0x273a,
     0xfb39, 0x273c, 0xfb3a, 0x273e, 0xfb3b, 0x2740, 0xfb3c, 0x2742,
     0xfb3e, 0x2744, 0xfb40, 0x2746, 0xfb41, 0x2748, 0xfb43, 0x274a,
     0xfb44, 0x274c, 0xfb46, 0x274e, 0xfb47, 0x2750, 0xfb48, 0x2752,
     0xfb49, 0x2754, 0xfb4a, 0x2756, 0xfb4b, 0x2758, 0xfb4c, 0x275a,
     0xfb4d, 0x275c, 0xfb4e, 0x275e]"

definition CFUniCharDecompositionTable :: "u16 list" where
  "CFUniCharDecompositionTable = CFUniCharDecompositionTable_1 @ CFUniCharDecompositionTable_2 @ CFUniCharDecompositionTable_3 @ CFUniCharDecompositionTable_4 @ CFUniCharDecompositionTable_5 @ CFUniCharDecompositionTable_6 @ CFUniCharDecompositionTable_7 @ CFUniCharDecompositionTable_8"

definition CFUniCharMultipleDecompositionTable_1 :: "u16 list" where
  "CFUniCharMultipleDecompositionTable_1 = [
     0x0041, 0x0300, 0x0041, 0x0301, 0x0041, 0x0302, 0x0041, 0x0303,
     0x0041, 0x0308, 0x0041, 0x030a, 0x0043, 0x0327, 0x0045, 0x0300,
     0x0045, 0x0301, 0x0045, 0x0302, 0x0045, 0x0308, 0x0049, 0x0300,
     0x0049, 0x0301, 0x0049, 0x0302, 0x0049, 0x0308, 0x004e, 0x0303,
     0x004f, 0x0300, 0x004f, 0x0301, 0x004f, 0x0302, 0x004f, 0x0303,
     0x004f, 0x0308, 0x0055, 0x0300, 0x0055, 0x0301, 0x0055, 0x0302,
     0x0055, 0x0308, 0x0059, 0x0301, 0x0061, 0x0300, 0x0061, 0x0301,
     0x0061, 0x0302, 0x0061, 0x0303, 0x0061, 0x0308, 0x0061, 0x030a,
     0x0063, 0x0327, 0x0065, 0x0300, 0x0065, 0x0301, 0x0065, 0x0302,
     0x0065, 0x0308, 0x0069, 0x0300, 0x0069, 0x0301, 0x0069, 0x0302,
     0x0069, 0x0308, 0x006e, 0x0303, 0x006f, 0x0300, 0x006f, 0x0301,
     0x006f, 0x0302, 0x006f, 0x0303, 0x006f, 0x0308, 0x0075, 0x0300,
     0x0075, 0x0301, 0x0075, 0x0302, 0x0075, 0x0308, 0x0079, 0x0301,
     0x0079, 0x0308, 0x0041, 0x0304, 0x0061, 0x0304, 0x0041, 0x0306,
     0x0061, 0x0306, 0x0041, 0x0328, 0x0061, 0x0328, 0x0043, 0x0301,
     0x0063, 0x0301, 0x0043, 0x0302, 0x0063, 0x0302, 0x0043, 0x0307,
     0x0063, 0x0307, 0x0043, 0x030c, 0x0063, 0x030c, 0x0044, 0x030c,
     0x0064, 0x030c, 0x0045, 0x0304, 0x0065, 0x0304, 0x0045, 0x0306,
     0x0065, 0x0306, 0x0045, 0x0307, 0x0065, 0x0307, 0x0045, 0x0328,
     0x0065, 0x0328, 0x0045, 0x030c, 0x0065, 0x030c, 0x0047, 0x0302,
     0x0067, 0x0302, 0x0047, 0x0306, 0x0067, 0x0306, 0x0047, 0x0307,
     0x0067, 0x0307, 0x0047, 0x0327, 0x0067, 0x0327, 0x0048, 0x0302,
     0x0068, 0x0302, 0x0049, 0x0303, 0x0069, 0x0303, 0x0049, 0x0304,
     0x0069, 0x0304, 0x0049, 0x0306, 0x0069, 0x0306, 0x0049, 0x0328,
     0x0069, 0x0328, 0x0049, 0x0307, 0x004a, 0x0302, 0x006a, 0x0302,
     0x004b, 0x0327, 0x006b, 0x0327, 0x004c, 0x0301, 0x006c, 0x0301,
     0x004c, 0x0327, 0x006c, 0x0327, 0x004c, 0x030c, 0x006c, 0x030c,
     0x004e, 0x0301, 0x006e, 0x0301, 0x004e, 0x0327, 0x006e, 0x0327,
     0x004e, 0x030c, 0x006e, 0x030c, 0x004f, 0x0304, 0x006f, 0x0304,
     0x004f, 0x0306, 0x006f, 0x0306, 0x004f, 0x030b, 0x006f, 0x030b,
     0x0052, 0x0301, 0x0072, 0x0301, 0x0052, 0x0327, 0x0072, 0x0327,
     0x0052, 0x030c, 0x0072, 0x030c, 0x0053, 0x0301, 0x0073, 0x0301]"

definition CFUniCharMultipleDecompositionTable_2 :: "u16 list" where
  "CFUniCharMultipleDecompositionTable_2 = [
     0x0053, 0x0302, 0x0073, 0x0302, 0x0053, 0x0327, 0x0073, 0x0327,
     0x0053, 0x030c, 0x0073, 0x030c, 0x0054, 0x0327, 0x0074, 0x0327,
     0x0054, 0x030c, 0x0074, 0x030c, 0x0055, 0x0303, 0x0075, 0x0303,
     0x0055, 0x0304, 0x0075, 0x0304, 0x0055, 0x0306, 0x0075, 0x0306,
     0x0055, 0x030a, 0x0075, 0x030a, 0x0055, 0x030b, 0x0075, 0x030b,
     0x0055, 0x0328, 0x0075, 0x0328, 0x0057, 0x0302, 0x0077, 0x0302,
     0x0059, 0x0302, 0x0079, 0x0302, 0x0059, 0x0308, 0x005a, 0x0301,
     0x007a, 0x0301, 0x005a, 0x0307, 0x007a, 0x0307, 0x005a, 0x030c,
     0x007a, 0x030c, 0x004f, 0x031b, 0x006f, 0x031b, 0x0055, 0x031b,
     0x0075, 0x031b, 0x0041, 0x030c, 0x0061, 0x030c, 0x0049, 0x030c,
     0x0069, 0x030c, 0x004f, 0x030c, 0x006f, 0x030c, 0x0055, 0x030c,
     0x0075, 0x030c, 0x00dc, 0x0304, 0x00fc, 0x0304, 0x00dc, 0x0301,
     0x00fc, 0x0301, 0x00dc, 0x030c, 0x00fc, 0x030c, 0x00dc, 0x0300,
     0x00fc, 0x0300, 0x00c4, 0x0304, 0x00e4, 0x0304, 0x0226, 0x0304,
     0x0227, 0x0304, 0x00c6, 0x0304, 0x00e6, 0x0304, 0x0047, 0x030c,
     0x0067, 0x030c, 0x004b, 0x030c, 0x006b, 0x030c, 0x004f, 0x0328,
     0x006f, 0x0328, 0x01ea, 0x0304, 0x01eb, 0x0304, 0x01b7, 0x030c,
     0x0292, 0x030c, 0x006a, 0x030c, 0x0047, 0x0301, 0x0067, 0x0301,
     0x004e, 0x0300, 0x006e, 0x0300, 0x00c5, 0x0301, 0x00e5, 0x0301,
     0x00c6, 0x0301, 0x00e6, 0x0301, 0x00d8, 0x0301, 0x00f8, 0x0301,
     0x0041, 0x030f, 0x0061, 0x030f, 0x0041, 0x0311, 0x0061, 0x0311,
     0x0045, 0x030f, 0x0065, 0x030f, 0x0045, 0x0311, 0x0065, 0x0311,
     0x0049, 0x030f, 0x0069, 0x030f, 0x0049, 0x0311, 0x0069, 0x0311,
     0x004f, 0x030f, 0x006f, 0x030f, 0x004f, 0x0311, 0x006f, 0x0311,
     0x0052, 0x030f, 0x0072, 0x030f, 0x0052, 0x0311, 0x0072, 0x0311,
     0x0055, 0x030f, 0x0075, 0x030f, 0x0055, 0x0311, 0x0075, 0x0311,
     0x0053, 0x0326, 0x0073, 0x0326, 0x0054, 0x0326, 0x0074, 0x0326,
     0x0048, 0x030c, 0x0068, 0x030c, 0x0041, 0x0307, 0x0061, 0x0307,
     0x0045, 0x0327, 0x0065, 0x0327, 0x00d6, 0x0304, 0x00f6, 0x0304,
     0x00d5, 0x0304, 0x00f5, 0x0304, 0x004f, 0x0307, 0x006f, 0x0307,
     0x022e, 0x0304, 0x022f, 0x0304, 0x0059, 0x0304, 0x0079, 0x0304,
     0x0308, 0x0301, 0x00a8, 0x0301, 0x0391, 0x0301, 0x0395, 0x0301]"

definition CFUniCharMultipleDecompositionTable_3 :: "u16 list" where
  "CFUniCharMultipleDecompositionTable_3 = [
     0x0397, 0x0301, 0x0399, 0x0301, 0x039f, 0x0301, 0x03a5, 0x0301,
     0x03a9, 0x0301, 0x03ca, 0x0301, 0x0399, 0x0308, 0x03a5, 0x0308,
     0x03b1, 0x0301, 0x03b5, 0x0301, 0x03b7, 0x0301, 0x03b9, 0x0301,
     0x03cb, 0x0301, 0x03b9, 0x0308, 0x03c5, 0x0308, 0x03bf, 0x0301,
     0x03c5, 0x0301, 0x03c9, 0x0301, 0x03d2, 0x0301, 0x03d2, 0x0308,
     0x0415, 0x0300, 0x0415, 0x0308, 0x0413, 0x0301, 0x0406, 0x0308,
     0x041a, 0x0301, 0x0418, 0x0300, 0x0423, 0x0306, 0x0418, 0x0306,
     0x0438, 0x0306, 0x0435, 0x0300, 0x0435, 0x0308, 0x0433, 0x0301,
     0x0456, 0x0308, 0x043a, 0x0301, 0x0438, 0x0300, 0x0443, 0x0306,
     0x0474, 0x030f, 0x0475, 0x030f, 0x0416, 0x0306, 0x0436, 0x0306,
     0x0410, 0x0306, 0x0430, 0x0306, 0x0410, 0x0308, 0x0430, 0x0308,
     0x0415, 0x0306, 0x0435, 0x0306, 0x04d8, 0x0308, 0x04d9, 0x0308,
     0x0416, 0x0308, 0x0436, 0x0308, 0x0417, 0x0308, 0x0437, 0x0308,
     0x0418, 0x0304, 0x0438, 0x0304, 0x0418, 0x0308, 0x0438, 0x0308,
     0x041e, 0x0308, 0x043e, 0x0308, 0x04e8, 0x0308, 0x04e9, 0x0308,
     0x042d, 0x0308, 0x044d, 0x0308, 0x0423, 0x0304, 0x0443, 0x0304,
     0x0423, 0x0308, 0x0443, 0x0308, 0x0423, 0x030b, 0x0443, 0x030b,
     0x0427, 0x0308, 0x0447, 0x0308, 0x042b, 0x0308, 0x044b, 0x0308,
     0x0627, 0x0653, 0x0627, 0x0654, 0x0648, 0x0654, 0x0627, 0x0655,
     0x064a, 0x0654, 0x06d5, 0x0654, 0x06c1, 0x0654, 0x06d2, 0x0654,
     0x0928, 0x093c, 0x0930, 0x093c, 0x0933, 0x093c, 0x0915, 0x093c,
     0x0916, 0x093c, 0x0917, 0x093c, 0x091c, 0x093c, 0x0921, 0x093c,
     0x0922, 0x093c, 0x092b, 0x093c, 0x092f, 0x093c, 0x09c7, 0x09be,
     0x09c7, 0x09d7, 0x09a1, 0x09bc, 0x09a2, 0x09bc, 0x09af, 0x09bc,
     0x0a32, 0x0a3c, 0x0a38, 0x0a3c, 0x0a16, 0x0a3c, 0x0a17, 0x0a3c,
     0x0a1c, 0x0a3c, 0x0a2b, 0x0a3c, 0x0b47, 0x0b56, 0x0b47, 0x0b3e,
     0x0b47, 0x0b57, 0x0b21, 0x0b3c, 0x0b22, 0x0b3c, 0x0b92, 0x0bd7,
     0x0bc6, 0x0bbe, 0x0bc7, 0x0bbe, 0x0bc6, 0x0bd7, 0x0c46, 0x0c56,
     0x0cbf, 0x0cd5, 0x0cc6, 0x0cd5, 0x0cc6, 0x0cd6, 0x0cc6, 0x0cc2,
     0x0cca, 0x0cd5, 0x0d46, 0x0d3e, 0x0d47, 0x0d3e, 0x0d46, 0x0d57,
     0x0dd9, 0x0dca, 0x0dd9, 0x0dcf, 0x0ddc, 0x0dca, 0x0dd9, 0x0ddf,
     0x0f42, 0x0fb7, 0x0f4c, 0x0fb7, 0x0f51, 0x0fb7, 0x0f56, 0x0fb7]"

definition CFUniCharMultipleDecompositionTable_4 :: "u16 list" where
  "CFUniCharMultipleDecompositionTable_4 = [
     0x0f5b, 0x0fb7, 0x0f40, 0x0fb5, 0x0f71, 0x0f72, 0x0f71, 0x0f74,
     0x0fb2, 0x0f80, 0x0fb3, 0x0f80, 0x0f71, 0x0f80, 0x0f92, 0x0fb7,
     0x0f9c, 0x0fb7, 0x0fa1, 0x0fb7, 0x0fa6, 0x0fb7, 0x0fab, 0x0fb7,
     0x0f90, 0x0fb5, 0x1025, 0x102e, 0x0041, 0x0325, 0x0061, 0x0325,
     0x0042, 0x0307, 0x0062, 0x0307, 0x0042, 0x0323, 0x0062, 0x0323,
     0x0042, 0x0331, 0x0062, 0x0331, 0x00c7, 0x0301, 0x00e7, 0x0301,
     0x0044, 0x0307, 0x0064, 0x0307, 0x0044, 0x0323, 0x0064, 0x0323,
     0x0044, 0x0331, 0x0064, 0x0331, 0x0044, 0x0327, 0x0064, 0x0327,
     0x0044, 0x032d, 0x0064, 0x032d, 0x0112, 0x0300, 0x0113, 0x0300,
     0x0112, 0x0301, 0x0113, 0x0301, 0x0045, 0x032d, 0x0065, 0x032d,
     0x0045, 0x0330, 0x0065, 0x0330, 0x0228, 0x0306, 0x0229, 0x0306,
     0x0046, 0x0307, 0x0066, 0x0307, 0x0047, 0x0304, 0x0067, 0x0304,
     0x0048, 0x0307, 0x0068, 0x0307, 0x0048, 0x0323, 0x0068, 0x0323,
     0x0048, 0x0308, 0x0068, 0x0308, 0x0048, 0x0327, 0x0068, 0x0327,
     0x0048, 0x032e, 0x0068, 0x032e, 0x0049, 0x0330, 0x0069, 0x0330,
     0x00cf, 0x0301, 0x00ef, 0x0301, 0x004b, 0x0301, 0x006b, 0x0301,
     0x004b, 0x0323, 0x006b, 0x0323, 0x004b, 0x0331, 0x006b, 0x0331,
     0x004c, 0x0323, 0x006c, 0x0323, 0x1e36, 0x0304, 0x1e37, 0x0304,
     0x004c, 0x0331, 0x006c, 0x0331, 0x004c, 0x032d, 0x006c, 0x032d,
     0x004d, 0x0301, 0x006d, 0x0301, 0x004d, 0x0307, 0x006d, 0x0307,
     0x004d, 0x0323, 0x006d, 0x0323, 0x004e, 0x0307, 0x006e, 0x0307,
     0x004e, 0x0323, 0x006e, 0x0323, 0x004e, 0x0331, 0x006e, 0x0331,
     0x004e, 0x032d, 0x006e, 0x032d, 0x00d5, 0x0301, 0x00f5, 0x0301,
     0x00d5, 0x0308, 0x00f5, 0x0308, 0x014c, 0x0300, 0x014d, 0x0300,
     0x014c, 0x0301, 0x014d, 0x0301, 0x0050, 0x0301, 0x0070, 0x0301,
     0x0050, 0x0307, 0x0070, 0x0307, 0x0052, 0x0307, 0x0072, 0x0307,
     0x0052, 0x0323, 0x0072, 0x0323, 0x1e5a, 0x0304, 0x1e5b, 0x0304,
     0x0052, 0x0331, 0x0072, 0x0331, 0x0053, 0x0307, 0x0073, 0x0307,
     0x0053, 0x0323, 0x0073, 0x0323, 0x015a, 0x0307, 0x015b, 0x0307,
     0x0160, 0x0307, 0x0161, 0x0307, 0x1e62, 0x0307, 0x1e63, 0x0307,
     0x0054, 0x0307, 0x0074, 0x0307, 0x0054, 0x0323, 0x0074, 0x0323,
     0x0054, 0x0331, 0x0074, 0x0331, 0x0054, 0x032d, 0x0074, 0x032d]"

definition CFUniCharMultipleDecompositionTable_5 :: "u16 list" where
  "CFUniCharMultipleDecompositionTable_5 = [
     0x0055, 0x0324, 0x0075, 0x0324, 0x0055, 0x0330, 0x0075, 0x0330,
     0x0055, 0x032d, 0x0075, 0x032d, 0x0168, 0x0301, 0x0169, 0x0301,
     0x016a, 0x0308, 0x016b, 0x0308, 0x0056, 0x0303, 0x0076, 0x0303,
     0x0056, 0x0323, 0x0076, 0x0323, 0x0057, 0x0300, 0x0077, 0x0300,
     0x0057, 0x0301, 0x0077, 0x0301, 0x0057, 0x0308, 0x0077, 0x0308,
     0x0057, 0x0307, 0x0077, 0x0307, 0x0057, 0x0323, 0x0077, 0x0323,
     0x0058, 0x0307, 0x0078, 0x0307, 0x0058, 0x0308, 0x0078, 0x0308,
     0x0059, 0x0307, 0x0079, 0x0307, 0x005a, 0x0302, 0x007a, 0x0302,
     0x005a, 0x0323, 0x007a, 0x0323, 0x005a, 0x0331, 0x007a, 0x0331,
     0x0068, 0x0331, 0x0074, 0x0308, 0x0077, 0x030a, 0x0079, 0x030a,
     0x017f, 0x0307, 0x0041, 0x0323, 0x0061, 0x0323, 0x0041, 0x0309,
     0x0061, 0x0309, 0x00c2, 0x0301, 0x00e2, 0x0301, 0x00c2, 0x0300,
     0x00e2, 0x0300, 0x00c2, 0x0309, 0x00e2, 0x0309, 0x00c2, 0x0303,
     0x00e2, 0x0303, 0x1ea0, 0x0302, 0x1ea1, 0x0302, 0x0102, 0x0301,
     0x0103, 0x0301, 0x0102, 0x0300, 0x0103, 0x0300, 0x0102, 0x0309,
     0x0103, 0x0309, 0x0102, 0x0303, 0x0103, 0x0303, 0x1ea0, 0x0306,
     0x1ea1, 0x0306, 0x0045, 0x0323, 0x0065, 0x0323, 0x0045, 0x0309,
     0x0065, 0x0309, 0x0045, 0x0303, 0x0065, 0x0303, 0x00ca, 0x0301,
     0x00ea, 0x0301, 0x00ca, 0x0300, 0x00ea, 0x0300, 0x00ca, 0x0309,
     0x00ea, 0x0309, 0x00ca, 0x0303, 0x00ea, 0x0303, 0x1eb8, 0x0302,
     0x1eb9, 0x0302, 0x0049, 0x0309, 0x0069, 0x0309, 0x0049, 0x0323,
     0x0069, 0x0323, 0x004f, 0x0323, 0x006f, 0x0323, 0x004f, 0x0309,
     0x006f, 0x0309, 0x00d4, 0x0301, 0x00f4, 0x0301, 0x00d4, 0x0300,
     0x00f4, 0x0300, 0x00d4, 0x0309, 0x00f4, 0x0309, 0x00d4, 0x0303,
     0x00f4, 0x0303, 0x1ecc, 0x0302, 0x1ecd, 0x0302, 0x01a0, 0x0301,
     0x01a1, 0x0301, 0x01a0, 0x0300, 0x01a1, 0x0300, 0x01a0, 0x0309,
     0x01a1, 0x0309, 0x01a0, 0x0303, 0x01a1, 0x0303, 0x01a0, 0x0323,
     0x01a1, 0x0323, 0x0055, 0x0323, 0x0075, 0x0323, 0x0055, 0x0309,
     0x0075, 0x0309, 0x01af, 0x0301, 0x01b0, 0x0301, 0x01af, 0x0300,
     0x01b0, 0x0300, 0x01af, 0x0309, 0x01b0, 0x0309, 0x01af, 0x0303,
     0x01b0, 0x0303, 0x01af, 0x0323, 0x01b0, 0x0323, 0x0059, 0x0300,
     0x0079, 0x0300, 0x0059, 0x0323, 0x0079, 0x0323, 0x0059, 0x0309]"

definition CFUniCharMultipleDecompositionTable_6 :: "u16 list" where
  "CFUniCharMultipleDecompositionTable_6 = [
     0x0079, 0x0309, 0x0059, 0x0303, 0x0079, 0x0303, 0x03b1, 0x0313,
     0x03b1, 0x0314, 0x1f00, 0x0300, 0x1f01, 0x0300, 0x1f00, 0x0301,
     0x1f01, 0x0301, 0x1f00, 0x0342, 0x1f01, 0x0342, 0x0391, 0x0313,
     0x0391, 0x0314, 0x1f08, 0x0300, 0x1f09, 0x0300, 0x1f08, 0x0301,
     0x1f09, 0x0301, 0x1f08, 0x0342, 0x1f09, 0x0342, 0x03b5, 0x0313,
     0x03b5, 0x0314, 0x1f10, 0x0300, 0x1f11, 0x0300, 0x1f10, 0x0301,
     0x1f11, 0x0301, 0x0395, 0x0313, 0x0395, 0x0314, 0x1f18, 0x0300,
     0x1f19, 0x0300, 0x1f18, 0x0301, 0x1f19, 0x0301, 0x03b7, 0x0313,
     0x03b7, 0x0314, 0x1f20, 0x0300, 0x1f21, 0x0300, 0x1f20, 0x0301,
     0x1f21, 0x0301, 0x1f20, 0x0342, 0x1f21, 0x0342, 0x0397, 0x0313,
     0x0397, 0x0314, 0x1f28, 0x0300, 0x1f29, 0x0300, 0x1f28, 0x0301,
     0x1f29, 0x0301, 0x1f28, 0x0342, 0x1f29, 0x0342, 0x03b9, 0x0313,
     0x03b9, 0x0314, 0x1f30, 0x0300, 0x1f31, 0x0300, 0x1f30, 0x0301,
     0x1f31, 0x0301, 0x1f30, 0x0342, 0x1f31, 0x0342, 0x0399, 0x0313,
     0x0399, 0x0314, 0x1f38, 0x0300, 0x1f39, 0x0300, 0x1f38, 0x0301,
     0x1f39, 0x0301, 0x1f38, 0x0342, 0x1f39, 0x0342, 0x03bf, 0x0313,
     0x03bf, 0x0314, 0x1f40, 0x0300, 0x1f41, 0x0300, 0x1f40, 0x0301,
     0x1f41, 0x0301, 0x039f, 0x0313, 0x039f, 0x0314, 0x1f48, 0x0300,
     0x1f49, 0x0300, 0x1f48, 0x0301, 0x1f49, 0x0301, 0x03c5, 0x0313,
     0x03c5, 0x0314, 0x1f50, 0x0300, 0x1f51, 0x0300, 0x1f50, 0x0301,
     0x1f51, 0x0301, 0x1f50, 0x0342, 0x1f51, 0x0342, 0x03a5, 0x0314,
     0x1f59, 0x0300, 0x1f59, 0x0301, 0x1f59, 0x0342, 0x03c9, 0x0313,
     0x03c9, 0x0314, 0x1f60, 0x0300, 0x1f61, 0x0300, 0x1f60, 0x0301,
     0x1f61, 0x0301, 0x1f60, 0x0342, 0x1f61, 0x0342, 0x03a9, 0x0313,
     0x03a9, 0x0314, 0x1f68, 0x0300, 0x1f69, 0x0300, 0x1f68, 0x0301,
     0x1f69, 0x0301, 0x1f68, 0x0342, 0x1f69, 0x0342, 0x03b1, 0x0300,
     0x03b5, 0x0300, 0x03b7, 0x0300, 0x03b9, 0x0300, 0x03bf, 0x0300,
     0x03c5, 0x0300, 0x03c9, 0x0300, 0x1f00, 0x0345, 0x1f01, 0x0345,
     0x1f02, 0x0345, 0x1f03, 0x0345, 0x1f04, 0x0345, 0x1f05, 0x0345,
     0x1f06, 0x0345, 0x1f07, 0x0345, 0x1f08, 0x0345, 0x1f09, 0x0345,
     0x1f0a, 0x0345, 0x1f0b, 0x0345, 0x1f0c, 0x0345, 0x1f0d, 0x0345,
     0x1f0e, 0x0345, 0x1f0f, 0x0345, 0x1f20, 0x0345, 0x1f21, 0x0345]"

definition CFUniCharMultipleDecompositionTable_7 :: "u16 list" where
  "CFUniCharMultipleDecompositionTable_7 = [
     0x1f22, 0x0345, 0x1f23, 0x0345, 0x1f24, 0x0345, 0x1f25, 0x0345,
     0x1f26, 0x0345, 0x1f27, 0x0345, 0x1f28, 0x0345, 0x1f29, 0x0345,
     0x1f2a, 0x0345, 0x1f2b, 0x0345, 0x1f2c, 0x0345, 0x1f2d, 0x0345,
     0x1f2e, 0x0345, 0x1f2f, 0x0345, 0x1f60, 0x0345, 0x1f61, 0x0345,
     0x1f62, 0x0345, 0x1f63, 0x0345, 0x1f64, 0x0345, 0x1f65, 0x0345,
     0x1f66, 0x0345, 0x1f67, 0x0345, 0x1f68, 0x0345, 0x1f69, 0x0345,
     0x1f6a, 0x0345, 0x1f6b, 0x0345, 0x1f6c, 0x0345, 0x1f6d, 0x0345,
     0x1f6e, 0x0345, 0x1f6f, 0x0345, 0x03b1, 0x0306, 0x03b1, 0x0304,
     0x1f70, 0x0345, 0x03b1, 0x0345, 0x03ac, 0x0345, 0x03b1, 0x0342,
     0x1fb6, 0x0345, 0x0391, 0x0306, 0x0391, 0x0304, 0x0391, 0x0300,
     0x0391, 0x0345, 0x00a8, 0x0342, 0x1f74, 0x0345, 0x03b7, 0x0345,
     0x03ae, 0x0345, 0x03b7, 0x0342, 0x1fc6, 0x0345, 0x0395, 0x0300,
     0x0397, 0x0300, 0x0397, 0x0345, 0x1fbf, 0x0300, 0x1fbf, 0x0301,
     0x1fbf, 0x0342, 0x03b9, 0x0306, 0x03b9, 0x0304, 0x03ca, 0x0300,
     0x03b9, 0x0342, 0x03ca, 0x0342, 0x0399, 0x0306, 0x0399, 0x0304,
     0x0399, 0x0300, 0x1ffe, 0x0300, 0x1ffe, 0x0301, 0x1ffe, 0x0342,
     0x03c5, 0x0306, 0x03c5, 0x0304, 0x03cb, 0x0300, 0x03c1, 0x0313,
     0x03c1, 0x0314, 0x03c5, 0x0342, 0x03cb, 0x0342, 0x03a5, 0x0306,
     0x03a5, 0x0304, 0x03a5, 0x0300, 0x03a1, 0x0314, 0x00a8, 0x0300,
     0x1f7c, 0x0345, 0x03c9, 0x0345, 0x03ce, 0x0345, 0x03c9, 0x0342,
     0x1ff6, 0x0345, 0x039f, 0x0300, 0x03a9, 0x0300, 0x03a9, 0x0345,
     0x304b, 0x3099, 0x304d, 0x3099, 0x304f, 0x3099, 0x3051, 0x3099,
     0x3053, 0x3099, 0x3055, 0x3099, 0x3057, 0x3099, 0x3059, 0x3099,
     0x305b, 0x3099, 0x305d, 0x3099, 0x305f, 0x3099, 0x3061, 0x3099,
     0x3064, 0x3099, 0x3066, 0x3099, 0x3068, 0x3099, 0x306f, 0x3099,
     0x306f, 0x309a, 0x3072, 0x3099, 0x3072, 0x309a, 0x3075, 0x3099,
     0x3075, 0x309a, 0x3078, 0x3099, 0x3078, 0x309a, 0x307b, 0x3099,
     0x307b, 0x309a, 0x3046, 0x3099, 0x309d, 0x3099, 0x30ab, 0x3099,
     0x30ad, 0x3099, 0x30af, 0x3099, 0x30b1, 0x3099, 0x30b3, 0x3099,
     0x30b5, 0x3099, 0x30b7, 0x3099, 0x30b9, 0x3099, 0x30bb, 0x3099,
     0x30bd, 0x3099, 0x30bf, 0x3099, 0x30c1, 0x3099, 0x30c4, 0x3099,
     0x30c6, 0x3099, 0x30c8, 0x3099, 0x30cf, 0x3099, 0x30cf, 0x309a]"

definition CFUniCharMultipleDecompositionTable_8 :: "u16 list" where
  "CFUniCharMultipleDecompositionTable_8 = [
     0x30d2, 0x3099, 0x30d2, 0x309a, 0x30d5, 0x3099, 0x30d5, 0x309a,
     0x30d8, 0x3099, 0x30d8, 0x309a, 0x30db, 0x3099, 0x30db, 0x309a,
     0x30a6, 0x3099, 0x30ef, 0x3099, 0x30f0, 0x3099, 0x30f1, 0x3099,
     0x30f2, 0x3099, 0x30fd, 0x3099, 0x05d9, 0x05b4, 0x05f2, 0x05b7,
     0x05e9, 0x05c1, 0x05e9, 0x05c2, 0xfb49, 0x05c1, 0xfb49, 0x05c2,
     0x05d0, 0x05b7, 0x05d0, 0x05b8, 0x05d0, 0x05bc, 0x05d1, 0x05bc,
     0x05d2, 0x05bc, 0x05d3, 0x05bc, 0x05d4, 0x05bc, 0x05d5, 0x05bc,
     0x05d6, 0x05bc, 0x05d8, 0x05bc, 0x05d9, 0x05bc, 0x05da, 0x05bc,
     0x05db, 0x05bc, 0x05dc, 0x05bc, 0x05de, 0x05bc, 0x05e0, 0x05bc,
     0x05e1, 0x05bc, 0x05e3, 0x05bc, 0x05e4, 0x05bc, 0x05e6, 0x05bc,
     0x05e7, 0x05bc, 0x05e8, 0x05bc, 0x05e9, 0x05bc, 0x05ea, 0x05bc,
     0x05d5, 0x05b9, 0x05d1, 0x05bf, 0x05db, 0x05bf, 0x05e4, 0x05bf]"

definition CFUniCharMultipleDecompositionTable :: "u16 list" where
  "CFUniCharMultipleDecompositionTable = CFUniCharMultipleDecompositionTable_1 @ CFUniCharMultipleDecompositionTable_2 @ CFUniCharMultipleDecompositionTable_3 @ CFUniCharMultipleDecompositionTable_4 @ CFUniCharMultipleDecompositionTable_5 @ CFUniCharMultipleDecompositionTable_6 @ CFUniCharMultipleDecompositionTable_7 @ CFUniCharMultipleDecompositionTable_8"

definition CFUniCharDecomposableBitmap_1 :: "u8 list" where
  "CFUniCharDecomposableBitmap_1 = [
     0x01, 0x02, 0x03, 0x04, 0x05, 0x00, 0x06, 0x00,
     0x00, 0x07, 0x08, 0x09, 0x0a, 0x0b, 0x00, 0x0c,
     0x0d, 0x00, 0x00, 0x00, 0x00, 0x00, 0x00, 0x00,
     0x00, 0x00, 0x00, 0x00, 0x00, 0x00, 0x0e, 0x0f,
     0x00, 0x00, 0x00, 0x00, 0x00, 0x00, 0x00, 0x00,
     0x00, 0x00, 0x00, 0x00, 0x00, 0x00, 0x00, 0x00,
     0x10, 0x00, 0x00, 0x00, 0x00, 0x00, 0x00, 0x00,
     0x00, 0x00, 0x00, 0x00, 0x00, 0x00, 0x00, 0x00,
     0x00, 0x00, 0x00, 0x00, 0x00, 0x00, 0x00, 0x00,
     0x00, 0x00, 0x00, 0x00, 0x00, 0x00, 0x00, 0x00,
     0x00, 0x00, 0x00, 0x00, 0x00, 0x00, 0x00, 0x00,
     0x00, 0x00, 0x00, 0x00, 0x00, 0x00, 0x00, 0x00,
     0x00, 0x00, 0x00, 0x00, 0x00, 0x00, 0x00, 0x00,
     0x00, 0x00, 0x00, 0x00, 0x00, 0x00, 0x00, 0x00,
     0x00, 0x00, 0x00, 0x00, 0x00, 0x00, 0x00, 0x00,
     0x00, 0x00, 0x00, 0x00, 0x00, 0x00, 0x00, 0x00,
     0x00, 0x00, 0x00, 0x00, 0x00, 0x00, 0x00, 0x00,
     0x00, 0x00, 0x00, 0x00, 0x00, 0x00, 0x00, 0x00,
     0x00, 0x00, 0x00, 0x00, 0x00, 0x00, 0x00, 0x00,
     0x00, 0x00, 0x00, 0x00, 0x00, 0x00, 0x00, 0x00,
     0x00, 0x00, 0x00, 0x00, 0x00, 0x00, 0x00, 0x00,
     0x00, 0x00, 0x00, 0x00, 0xff, 0xff, 0xff, 0xff,
     0xff, 0xff, 0xff, 0xff, 0xff, 0xff, 0xff, 0xff,
     0xff, 0xff, 0xff, 0xff, 0xff, 0xff, 0xff, 0xff,
     0xff, 0xff, 0xff, 0xff, 0xff, 0xff, 0xff, 0xff,
     0xff, 0xff, 0xff, 0xff, 0xff, 0xff, 0xff, 0xff,
     0xff, 0xff, 0xff, 0xff, 0xff, 0xff, 0xff, 0x11,
     0x00, 0x00, 0x00, 0x00, 0x00, 0x00, 0x00, 0x00,
     0x00, 0x00, 0x00, 0x00, 0x00, 0x00, 0x00, 0x00,
     0x00, 0x00, 0x00, 0x00, 0x00, 0x00, 0x00, 0x00,
     0x00, 0x00, 0x00, 0x00, 0x00, 0x00, 0x00, 0x00,
     0x00, 0x00, 0x00, 0x12, 0x00, 0x00, 0x00, 0x00]"

definition CFUniCharDecomposableBitmap_2 :: "u8 list" where
  "CFUniCharDecomposableBitmap_2 = [
     0x00, 0x00, 0x00, 0x00, 0x00, 0x00, 0x00, 0x00,
     0x00, 0x00, 0x00, 0x00, 0x00, 0x00, 0x00, 0x00,
     0x00, 0x00, 0x00, 0x00, 0x00, 0x00, 0x00, 0x00,
     0xbf, 0xff, 0x7e, 0x3e, 0xbf, 0xff, 0x7e, 0xbe,
     0xff, 0xff, 0xfc, 0xff, 0x3f, 0xff, 0xf1, 0x7e,
     0xf8, 0xf1, 0xf3, 0xff, 0x3f, 0xff, 0xff, 0x7f,
     0x00, 0x00, 0x00, 0x00, 0x03, 0x80, 0x01, 0x00,
     0x00, 0xe0, 0xff, 0xdf, 0xcf, 0xff, 0x31, 0xff,
     0xff, 0xff, 0xff, 0xcf, 0xc0, 0xff, 0x0f, 0x00,
     0x00, 0x00, 0x00, 0x00, 0x00, 0x00, 0x00, 0x00,
     0x00, 0x00, 0x00, 0x00, 0x00, 0x00, 0x00, 0x00,
     0x00, 0x00, 0x00, 0x00, 0x00, 0x00, 0x00, 0x00,
     0x00, 0x00, 0x00, 0x00, 0x00, 0x00, 0x00, 0x00,
     0x1b, 0x00, 0x00, 0x00, 0x00, 0x00, 0x10, 0x40,
     0xe0, 0xd7, 0x01, 0x00, 0x00, 0xfc, 0x01, 0x00,
     0x00, 0x7c, 0x18, 0x00, 0x00, 0x00, 0x00, 0x00,
     0x8b, 0x70, 0x00, 0x02, 0x00, 0x00, 0x00, 0x02,
     0x00, 0x00, 0x8b, 0x70, 0x00, 0x00, 0xc0, 0x00,
     0x00, 0x00, 0x00, 0x00, 0x00, 0x00, 0x00, 0x00,
     0x06, 0x00, 0xcf, 0xfc, 0xfc, 0xfc, 0x3f, 0x03,
     0x00, 0x00, 0x00, 0x00, 0x7c, 0x00, 0x00, 0x00,
     0x00, 0x00, 0x00, 0x00, 0x00, 0x00, 0x00, 0x00,
     0x00, 0x00, 0x00, 0x00, 0x00, 0x00, 0x00, 0x00,
     0x05, 0x00, 0x08, 0x00, 0x00, 0x00, 0x00, 0x00,
     0x00, 0x00, 0x00, 0x00, 0x00, 0x02, 0x12, 0x00,
     0x00, 0x00, 0x00, 0xff, 0x00, 0x00, 0x00, 0x00,
     0x00, 0x00, 0x00, 0x00, 0x00, 0x00, 0x00, 0x00,
     0x00, 0x18, 0x00, 0xb0, 0x00, 0x00, 0x00, 0x00,
     0x00, 0x00, 0x00, 0x00, 0x00, 0x00, 0x48, 0x00,
     0x00, 0x00, 0x00, 0x4e, 0x00, 0x00, 0x00, 0x00,
     0x00, 0x00, 0x00, 0x00, 0x00, 0x00, 0x00, 0x00,
     0x00, 0x00, 0x00, 0x00, 0x00, 0x00, 0x00, 0x00]"

definition CFUniCharDecomposableBitmap_3 :: "u8 list" where
  "CFUniCharDecomposableBitmap_3 = [
     0x00, 0x00, 0x00, 0x00, 0x00, 0x00, 0x00, 0x00,
     0x00, 0x19, 0x00, 0x30, 0x00, 0x00, 0x00, 0x00,
     0x00, 0x00, 0x10, 0x00, 0x00, 0x00, 0x00, 0x00,
     0x00, 0x1c, 0x00, 0x00, 0x00, 0x00, 0x00, 0x00,
     0x00, 0x00, 0x00, 0x00, 0x00, 0x00, 0x00, 0x00,
     0x00, 0x01, 0x00, 0x00, 0x00, 0x00, 0x00, 0x00,
     0x00, 0x00, 0x00, 0x00, 0x00, 0x00, 0x00, 0x00,
     0x81, 0x0d, 0x00, 0x00, 0x00, 0x00, 0x00, 0x00,
     0x00, 0x00, 0x00, 0x00, 0x00, 0x00, 0x00, 0x00,
     0x00, 0x1c, 0x00, 0x00, 0x00, 0x00, 0x00, 0x00,
     0x00, 0x00, 0x00, 0x00, 0x00, 0x00, 0x00, 0x00,
     0x00, 0x00, 0x00, 0x74, 0x00, 0x00, 0x00, 0x00,
     0x00, 0x00, 0x00, 0x00, 0x00, 0x00, 0x00, 0x00,
     0x08, 0x20, 0x84, 0x10, 0x00, 0x02, 0x68, 0x01,
     0x02, 0x00, 0x08, 0x20, 0x84, 0x10, 0x00, 0x02,
     0x00, 0x00, 0x00, 0x00, 0x00, 0x00, 0x00, 0x00,
     0x00, 0x00, 0x00, 0x00, 0x40, 0x00, 0x00, 0x00,
     0x00, 0x00, 0x00, 0x00, 0x00, 0x00, 0x00, 0x00,
     0x00, 0x00, 0x00, 0x00, 0x00, 0x00, 0x00, 0x00,
     0x00, 0x00, 0x00, 0x00, 0x00, 0x00, 0x00, 0x00,
     0xff, 0xff, 0xff, 0xff, 0xff, 0xff, 0xff, 0xff,
     0xff, 0xff, 0xff, 0xff, 0xff, 0xff, 0xff, 0xff,
     0xff, 0xff, 0xff, 0x0b, 0xff, 0xff, 0xff, 0xff,
     0xff, 0xff, 0xff, 0xff, 0xff, 0xff, 0xff, 0x03,
     0xff, 0xff, 0x3f, 0x3f, 0xff, 0xff, 0xff, 0xff,
     0x3f, 0x3f, 0xff, 0xaa, 0xff, 0xff, 0xff, 0x3f,
     0xff, 0xff, 0xff, 0xff, 0xff, 0xff, 0xdf, 0x5f,
     0xde, 0xff, 0xcf, 0xef, 0xff, 0xff, 0xdc, 0x3f,
     0x00, 0x00, 0x00, 0x00, 0x00, 0x00, 0x00, 0x00,
     0x00, 0x50, 0x55, 0x55, 0xa5, 0x02, 0xdb, 0x36,
     0x00, 0x00, 0x10, 0x40, 0x00, 0x50, 0x55, 0x55,
     0xa5, 0x02, 0xdb, 0x36, 0x00, 0x00, 0x90, 0x47]"

definition CFUniCharDecomposableBitmap_4 :: "u8 list" where
  "CFUniCharDecomposableBitmap_4 = [
     0xff, 0xff, 0xff, 0xff, 0xff, 0xff, 0xff, 0xff,
     0xff, 0xff, 0xff, 0xff, 0xff, 0xff, 0xff, 0xff,
     0xff, 0xff, 0xff, 0xff, 0x0f, 0x00, 0x00, 0x00,
     0x00, 0x00, 0x00, 0x00, 0x00, 0x00, 0x00, 0x00,
     0x00, 0x00, 0x00, 0xa0, 0x00, 0xfc, 0x7f, 0x5f,
     0xdb, 0x7f, 0x00, 0x00, 0x00, 0x00, 0x00, 0x00,
     0x00, 0x00, 0x00, 0x00, 0x00, 0x00, 0x00, 0x00,
     0x00, 0x00, 0x00, 0x00, 0x00, 0x00, 0x00, 0x00]"

definition CFUniCharDecomposableBitmap :: "u8 list" where
  "CFUniCharDecomposableBitmap = CFUniCharDecomposableBitmap_1 @ CFUniCharDecomposableBitmap_2 @ CFUniCharDecomposableBitmap_3 @ CFUniCharDecomposableBitmap_4"

definition CFUniCharPrecompSourceTable :: "u32 list" where
  "CFUniCharPrecompSourceTable = [
     0x00000300, 0x00540000, 0x00000301, 0x00750054,
     0x00000302, 0x002000c9, 0x00000303, 0x001c00e9,
     0x00000304, 0x002c0105, 0x00000306, 0x00200131,
     0x00000307, 0x002e0151, 0x00000308, 0x0036017f,
     0x00000309, 0x001801b5, 0x0000030a, 0x000601cd,
     0x0000030b, 0x000601d3, 0x0000030c, 0x002501d9,
     0x0000030f, 0x000e01fe, 0x00000311, 0x000c020c,
     0x00000313, 0x000e0218, 0x00000314, 0x00100226,
     0x0000031b, 0x00040236, 0x00000323, 0x002a023a,
     0x00000324, 0x00020264, 0x00000325, 0x00020266,
     0x00000326, 0x00040268, 0x00000327, 0x0016026c,
     0x00000328, 0x000a0282, 0x0000032d, 0x000c028c,
     0x0000032e, 0x00020298, 0x00000330, 0x0006029a,
     0x00000331, 0x001102a0, 0x00000338, 0x002c02b1,
     0x00000342, 0x001d02dd, 0x00000345, 0x003f02fa,
     0x00000653, 0x00010339, 0x00000654, 0x0006033a,
     0x00000655, 0x00010340, 0x0000093c, 0x00030341,
     0x000009be, 0x00010344, 0x000009d7, 0x00010345,
     0x00000b3e, 0x00010346, 0x00000b56, 0x00010347,
     0x00000b57, 0x00010348, 0x00000bbe, 0x00020349,
     0x00000bd7, 0x0002034b, 0x00000c56, 0x0001034d,
     0x00000cc2, 0x0001034e, 0x00000cd5, 0x0003034f,
     0x00000cd6, 0x00010352, 0x00000d3e, 0x00020353,
     0x00000d57, 0x00010355, 0x00000dca, 0x00020356,
     0x00000dcf, 0x00010358, 0x00000ddf, 0x00010359,
     0x0000102e, 0x0001035a, 0x00003099, 0x0030035b,
     0x0000309a, 0x000a038b]"

definition CFUniCharBMPPrecompDestinationTable_1 :: "u16 list" where
  "CFUniCharBMPPrecompDestinationTable_1 = [
     0x0041, 0x00c0, 0x0045, 0x00c8, 0x0049, 0x00cc, 0x004e, 0x01f8,
     0x004f, 0x00d2, 0x0055, 0x00d9, 0x0057, 0x1e80, 0x0059, 0x1ef2,
     0x0061, 0x00e0, 0x0065, 0x00e8, 0x0069, 0x00ec, 0x006e, 0x01f9,
     0x006f, 0x00f2, 0x0075, 0x00f9, 0x0077, 0x1e81, 0x0079, 0x1ef3,
     0x00a8, 0x1fed, 0x00c2, 0x1ea6, 0x00ca, 0x1ec0, 0x00d4, 0x1ed2,
     0x00dc, 0x01db, 0x00e2, 0x1ea7, 0x00ea, 0x1ec1, 0x00f4, 0x1ed3,
     0x00fc, 0x01dc, 0x0102, 0x1eb0, 0x0103, 0x1eb1, 0x0112, 0x1e14,
     0x0113, 0x1e15, 0x014c, 0x1e50, 0x014d, 0x1e51, 0x01a0, 0x1edc,
     0x01a1, 0x1edd, 0x01af, 0x1eea, 0x01b0, 0x1eeb, 0x0391, 0x1fba,
     0x0395, 0x1fc8, 0x0397, 0x1fca, 0x0399, 0x1fda, 0x039f, 0x1ff8,
     0x03a5, 0x1fea, 0x03a9, 0x1ffa, 0x03b1, 0x1f70, 0x03b5, 0x1f72,
     0x03b7, 0x1f74, 0x03b9, 0x1f76, 0x03bf, 0x1f78, 0x03c5, 0x1f7a,
     0x03c9, 0x1f7c, 0x03ca, 0x1fd2, 0x03cb, 0x1fe2, 0x0415, 0x0400,
     0x0418, 0x040d, 0x0435, 0x0450, 0x0438, 0x045d, 0x1f00, 0x1f02,
     0x1f01, 0x1f03, 0x1f08, 0x1f0a, 0x1f09, 0x1f0b, 0x1f10, 0x1f12,
     0x1f11, 0x1f13, 0x1f18, 0x1f1a, 0x1f19, 0x1f1b, 0x1f20, 0x1f22,
     0x1f21, 0x1f23, 0x1f28, 0x1f2a, 0x1f29, 0x1f2b, 0x1f30, 0x1f32,
     0x1f31, 0x1f33, 0x1f38, 0x1f3a, 0x1f39, 0x1f3b, 0x1f40, 0x1f42,
     0x1f41, 0x1f43, 0x1f48, 0x1f4a, 0x1f49, 0x1f4b, 0x1f50, 0x1f52,
     0x1f51, 0x1f53, 0x1f59, 0x1f5b, 0x1f60, 0x1f62, 0x1f61, 0x1f63,
     0x1f68, 0x1f6a, 0x1f69, 0x1f6b, 0x1fbf, 0x1fcd, 0x1ffe, 0x1fdd,
     0x0041, 0x00c1, 0x0043, 0x0106, 0x0045, 0x00c9, 0x0047, 0x01f4,
     0x0049, 0x00cd, 0x004b, 0x1e30, 0x004c, 0x0139, 0x004d, 0x1e3e,
     0x004e, 0x0143, 0x004f, 0x00d3, 0x0050, 0x1e54, 0x0052, 0x0154,
     0x0053, 0x015a, 0x0055, 0x00da, 0x0057, 0x1e82, 0x0059, 0x00dd,
     0x005a, 0x0179, 0x0061, 0x00e1, 0x0063, 0x0107, 0x0065, 0x00e9,
     0x0067, 0x01f5, 0x0069, 0x00ed, 0x006b, 0x1e31, 0x006c, 0x013a,
     0x006d, 0x1e3f, 0x006e, 0x0144, 0x006f, 0x00f3, 0x0070, 0x1e55,
     0x0072, 0x0155, 0x0073, 0x015b, 0x0075, 0x00fa, 0x0077, 0x1e83,
     0x0079, 0x00fd, 0x007a, 0x017a, 0x00a8, 0x0385, 0x00c2, 0x1ea4,
     0x00c5, 0x01fa, 0x00c6, 0x01fc, 0x00c7, 0x1e08, 0x00ca, 0x1ebe,
     0x00cf, 0x1e2e, 0x00d4, 0x1ed0, 0x00d5, 0x1e4c, 0x00d8, 0x01fe]"

definition CFUniCharBMPPrecompDestinationTable_2 :: "u16 list" where
  "CFUniCharBMPPrecompDestinationTable_2 = [
     0x00dc, 0x01d7, 0x00e2, 0x1ea5, 0x00e5, 0x01fb, 0x00e6, 0x01fd,
     0x00e7, 0x1e09, 0x00ea, 0x1ebf, 0x00ef, 0x1e2f, 0x00f4, 0x1ed1,
     0x00f5, 0x1e4d, 0x00f8, 0x01ff, 0x00fc, 0x01d8, 0x0102, 0x1eae,
     0x0103, 0x1eaf, 0x0112, 0x1e16, 0x0113, 0x1e17, 0x014c, 0x1e52,
     0x014d, 0x1e53, 0x0168, 0x1e78, 0x0169, 0x1e79, 0x01a0, 0x1eda,
     0x01a1, 0x1edb, 0x01af, 0x1ee8, 0x01b0, 0x1ee9, 0x0391, 0x0386,
     0x0395, 0x0388, 0x0397, 0x0389, 0x0399, 0x038a, 0x039f, 0x038c,
     0x03a5, 0x038e, 0x03a9, 0x038f, 0x03b1, 0x03ac, 0x03b5, 0x03ad,
     0x03b7, 0x03ae, 0x03b9, 0x03af, 0x03bf, 0x03cc, 0x03c5, 0x03cd,
     0x03c9, 0x03ce, 0x03ca, 0x0390, 0x03cb, 0x03b0, 0x03d2, 0x03d3,
     0x0413, 0x0403, 0x041a, 0x040c, 0x0433, 0x0453, 0x043a, 0x045c,
     0x1f00, 0x1f04, 0x1f01, 0x1f05, 0x1f08, 0x1f0c, 0x1f09, 0x1f0d,
     0x1f10, 0x1f14, 0x1f11, 0x1f15, 0x1f18, 0x1f1c, 0x1f19, 0x1f1d,
     0x1f20, 0x1f24, 0x1f21, 0x1f25, 0x1f28, 0x1f2c, 0x1f29, 0x1f2d,
     0x1f30, 0x1f34, 0x1f31, 0x1f35, 0x1f38, 0x1f3c, 0x1f39, 0x1f3d,
     0x1f40, 0x1f44, 0x1f41, 0x1f45, 0x1f48, 0x1f4c, 0x1f49, 0x1f4d,
     0x1f50, 0x1f54, 0x1f51, 0x1f55, 0x1f59, 0x1f5d, 0x1f60, 0x1f64,
     0x1f61, 0x1f65, 0x1f68, 0x1f6c, 0x1f69, 0x1f6d, 0x1fbf, 0x1fce,
     0x1ffe, 0x1fde, 0x0041, 0x00c2, 0x0043, 0x0108, 0x0045, 0x00ca,
     0x0047, 0x011c, 0x0048, 0x0124, 0x0049, 0x00ce, 0x004a, 0x0134,
     0x004f, 0x00d4, 0x0053, 0x015c, 0x0055, 0x00db, 0x0057, 0x0174,
     0x0059, 0x0176, 0x005a, 0x1e90, 0x0061, 0x00e2, 0x0063, 0x0109,
     0x0065, 0x00ea, 0x0067, 0x011d, 0x0068, 0x0125, 0x0069, 0x00ee,
     0x006a, 0x0135, 0x006f, 0x00f4, 0x0073, 0x015d, 0x0075, 0x00fb,
     0x0077, 0x0175, 0x0079, 0x0177, 0x007a, 0x1e91, 0x1ea0, 0x1eac,
     0x1ea1, 0x1ead, 0x1eb8, 0x1ec6, 0x1eb9, 0x1ec7, 0x1ecc, 0x1ed8,
     0x1ecd, 0x1ed9, 0x0041, 0x00c3, 0x0045, 0x1ebc, 0x0049, 0x0128,
     0x004e, 0x00d1, 0x004f, 0x00d5, 0x0055, 0x0168, 0x0056, 0x1e7c,
     0x0059, 0x1ef8, 0x0061, 0x00e3, 0x0065, 0x1ebd, 0x0069, 0x0129,
     0x006e, 0x00f1, 0x006f, 0x00f5, 0x0075, 0x0169, 0x0076, 0x1e7d,
     0x0079, 0x1ef9, 0x00c2, 0x1eaa, 0x00ca, 0x1ec4, 0x00d4, 0x1ed6,
     0x00e2, 0x1eab, 0x00ea, 0x1ec5, 0x00f4, 0x1ed7, 0x0102, 0x1eb4]"

definition CFUniCharBMPPrecompDestinationTable_3 :: "u16 list" where
  "CFUniCharBMPPrecompDestinationTable_3 = [
     0x0103, 0x1eb5, 0x01a0, 0x1ee0, 0x01a1, 0x1ee1, 0x01af, 0x1eee,
     0x01b0, 0x1eef, 0x0041, 0x0100, 0x0045, 0x0112, 0x0047, 0x1e20,
     0x0049, 0x012a, 0x004f, 0x014c, 0x0055, 0x016a, 0x0059, 0x0232,
     0x0061, 0x0101, 0x0065, 0x0113, 0x0067, 0x1e21, 0x0069, 0x012b,
     0x006f, 0x014d, 0x0075, 0x016b, 0x0079, 0x0233, 0x00c4, 0x01de,
     0x00c6, 0x01e2, 0x00d5, 0x022c, 0x00d6, 0x022a, 0x00dc, 0x01d5,
     0x00e4, 0x01df, 0x00e6, 0x01e3, 0x00f5, 0x022d, 0x00f6, 0x022b,
     0x00fc, 0x01d6, 0x01ea, 0x01ec, 0x01eb, 0x01ed, 0x0226, 0x01e0,
     0x0227, 0x01e1, 0x022e, 0x0230, 0x022f, 0x0231, 0x0391, 0x1fb9,
     0x0399, 0x1fd9, 0x03a5, 0x1fe9, 0x03b1, 0x1fb1, 0x03b9, 0x1fd1,
     0x03c5, 0x1fe1, 0x0418, 0x04e2, 0x0423, 0x04ee, 0x0438, 0x04e3,
     0x0443, 0x04ef, 0x1e36, 0x1e38, 0x1e37, 0x1e39, 0x1e5a, 0x1e5c,
     0x1e5b, 0x1e5d, 0x0041, 0x0102, 0x0045, 0x0114, 0x0047, 0x011e,
     0x0049, 0x012c, 0x004f, 0x014e, 0x0055, 0x016c, 0x0061, 0x0103,
     0x0065, 0x0115, 0x0067, 0x011f, 0x0069, 0x012d, 0x006f, 0x014f,
     0x0075, 0x016d, 0x0228, 0x1e1c, 0x0229, 0x1e1d, 0x0391, 0x1fb8,
     0x0399, 0x1fd8, 0x03a5, 0x1fe8, 0x03b1, 0x1fb0, 0x03b9, 0x1fd0,
     0x03c5, 0x1fe0, 0x0410, 0x04d0, 0x0415, 0x04d6, 0x0416, 0x04c1,
     0x0418, 0x0419, 0x0423, 0x040e, 0x0430, 0x04d1, 0x0435, 0x04d7,
     0x0436, 0x04c2, 0x0438, 0x0439, 0x0443, 0x045e, 0x1ea0, 0x1eb6,
     0x1ea1, 0x1eb7, 0x0041, 0x0226, 0x0042, 0x1e02, 0x0043, 0x010a,
     0x0044, 0x1e0a, 0x0045, 0x0116, 0x0046, 0x1e1e, 0x0047, 0x0120,
     0x0048, 0x1e22, 0x0049, 0x0130, 0x004d, 0x1e40, 0x004e, 0x1e44,
     0x004f, 0x022e, 0x0050, 0x1e56, 0x0052, 0x1e58, 0x0053, 0x1e60,
     0x0054, 0x1e6a, 0x0057, 0x1e86, 0x0058, 0x1e8a, 0x0059, 0x1e8e,
     0x005a, 0x017b, 0x0061, 0x0227, 0x0062, 0x1e03, 0x0063, 0x010b,
     0x0064, 0x1e0b, 0x0065, 0x0117, 0x0066, 0x1e1f, 0x0067, 0x0121,
     0x0068, 0x1e23, 0x006d, 0x1e41, 0x006e, 0x1e45, 0x006f, 0x022f,
     0x0070, 0x1e57, 0x0072, 0x1e59, 0x0073, 0x1e61, 0x0074, 0x1e6b,
     0x0077, 0x1e87, 0x0078, 0x1e8b, 0x0079, 0x1e8f, 0x007a, 0x017c,
     0x015a, 0x1e64, 0x015b, 0x1e65, 0x0160, 0x1e66, 0x0161, 0x1e67,
     0x017f, 0x1e9b, 0x1e62, 0x1e68, 0x1e63, 0x1e69, 0x0041, 0x00c4]"

definition CFUniCharBMPPrecompDestinationTable_4 :: "u16 list" where
  "CFUniCharBMPPrecompDestinationTable_4 = [
     0x0045, 0x00cb, 0x0048, 0x1e26, 0x0049, 0x00cf, 0x004f, 0x00d6,
     0x0055, 0x00dc, 0x0057, 0x1e84, 0x0058, 0x1e8c, 0x0059, 0x0178,
     0x0061, 0x00e4, 0x0065, 0x00eb, 0x0068, 0x1e27, 0x0069, 0x00ef,
     0x006f, 0x00f6, 0x0074, 0x1e97, 0x0075, 0x00fc, 0x0077, 0x1e85,
     0x0078, 0x1e8d, 0x0079, 0x00ff, 0x00d5, 0x1e4e, 0x00f5, 0x1e4f,
     0x016a, 0x1e7a, 0x016b, 0x1e7b, 0x0399, 0x03aa, 0x03a5, 0x03ab,
     0x03b9, 0x03ca, 0x03c5, 0x03cb, 0x03d2, 0x03d4, 0x0406, 0x0407,
     0x0410, 0x04d2, 0x0415, 0x0401, 0x0416, 0x04dc, 0x0417, 0x04de,
     0x0418, 0x04e4, 0x041e, 0x04e6, 0x0423, 0x04f0, 0x0427, 0x04f4,
     0x042b, 0x04f8, 0x042d, 0x04ec, 0x0430, 0x04d3, 0x0435, 0x0451,
     0x0436, 0x04dd, 0x0437, 0x04df, 0x0438, 0x04e5, 0x043e, 0x04e7,
     0x0443, 0x04f1, 0x0447, 0x04f5, 0x044b, 0x04f9, 0x044d, 0x04ed,
     0x0456, 0x0457, 0x04d8, 0x04da, 0x04d9, 0x04db, 0x04e8, 0x04ea,
     0x04e9, 0x04eb, 0x0041, 0x1ea2, 0x0045, 0x1eba, 0x0049, 0x1ec8,
     0x004f, 0x1ece, 0x0055, 0x1ee6, 0x0059, 0x1ef6, 0x0061, 0x1ea3,
     0x0065, 0x1ebb, 0x0069, 0x1ec9, 0x006f, 0x1ecf, 0x0075, 0x1ee7,
     0x0079, 0x1ef7, 0x00c2, 0x1ea8, 0x00ca, 0x1ec2, 0x00d4, 0x1ed4,
     0x00e2, 0x1ea9, 0x00ea, 0x1ec3, 0x00f4, 0x1ed5, 0x0102, 0x1eb2,
     0x0103, 0x1eb3, 0x01a0, 0x1ede, 0x01a1, 0x1edf, 0x01af, 0x1eec,
     0x01b0, 0x1eed, 0x0041, 0x00c5, 0x0055, 0x016e, 0x0061, 0x00e5,
     0x0075, 0x016f, 0x0077, 0x1e98, 0x0079, 0x1e99, 0x004f, 0x0150,
     0x0055, 0x0170, 0x006f, 0x0151, 0x0075, 0x0171, 0x0423, 0x04f2,
     0x0443, 0x04f3, 0x0041, 0x01cd, 0x0043, 0x010c, 0x0044, 0x010e,
     0x0045, 0x011a, 0x0047, 0x01e6, 0x0048, 0x021e, 0x0049, 0x01cf,
     0x004b, 0x01e8, 0x004c, 0x013d, 0x004e, 0x0147, 0x004f, 0x01d1,
     0x0052, 0x0158, 0x0053, 0x0160, 0x0054, 0x0164, 0x0055, 0x01d3,
     0x005a, 0x017d, 0x0061, 0x01ce, 0x0063, 0x010d, 0x0064, 0x010f,
     0x0065, 0x011b, 0x0067, 0x01e7, 0x0068, 0x021f, 0x0069, 0x01d0,
     0x006a, 0x01f0, 0x006b, 0x01e9, 0x006c, 0x013e, 0x006e, 0x0148,
     0x006f, 0x01d2, 0x0072, 0x0159, 0x0073, 0x0161, 0x0074, 0x0165,
     0x0075, 0x01d4, 0x007a, 0x017e, 0x00dc, 0x01d9, 0x00fc, 0x01da,
     0x01b7, 0x01ee, 0x0292, 0x01ef, 0x0041, 0x0200, 0x0045, 0x0204]"

definition CFUniCharBMPPrecompDestinationTable_5 :: "u16 list" where
  "CFUniCharBMPPrecompDestinationTable_5 = [
     0x0049, 0x0208, 0x004f, 0x020c, 0x0052, 0x0210, 0x0055, 0x0214,
     0x0061, 0x0201, 0x0065, 0x0205, 0x0069, 0x0209, 0x006f, 0x020d,
     0x0072, 0x0211, 0x0075, 0x0215, 0x0474, 0x0476, 0x0475, 0x0477,
     0x0041, 0x0202, 0x0045, 0x0206, 0x0049, 0x020a, 0x004f, 0x020e,
     0x0052, 0x0212, 0x0055, 0x0216, 0x0061, 0x0203, 0x0065, 0x0207,
     0x0069, 0x020b, 0x006f, 0x020f, 0x0072, 0x0213, 0x0075, 0x0217,
     0x0391, 0x1f08, 0x0395, 0x1f18, 0x0397, 0x1f28, 0x0399, 0x1f38,
     0x039f, 0x1f48, 0x03a9, 0x1f68, 0x03b1, 0x1f00, 0x03b5, 0x1f10,
     0x03b7, 0x1f20, 0x03b9, 0x1f30, 0x03bf, 0x1f40, 0x03c1, 0x1fe4,
     0x03c5, 0x1f50, 0x03c9, 0x1f60, 0x0391, 0x1f09, 0x0395, 0x1f19,
     0x0397, 0x1f29, 0x0399, 0x1f39, 0x039f, 0x1f49, 0x03a1, 0x1fec,
     0x03a5, 0x1f59, 0x03a9, 0x1f69, 0x03b1, 0x1f01, 0x03b5, 0x1f11,
     0x03b7, 0x1f21, 0x03b9, 0x1f31, 0x03bf, 0x1f41, 0x03c1, 0x1fe5,
     0x03c5, 0x1f51, 0x03c9, 0x1f61, 0x004f, 0x01a0, 0x0055, 0x01af,
     0x006f, 0x01a1, 0x0075, 0x01b0, 0x0041, 0x1ea0, 0x0042, 0x1e04,
     0x0044, 0x1e0c, 0x0045, 0x1eb8, 0x0048, 0x1e24, 0x0049, 0x1eca,
     0x004b, 0x1e32, 0x004c, 0x1e36, 0x004d, 0x1e42, 0x004e, 0x1e46,
     0x004f, 0x1ecc, 0x0052, 0x1e5a, 0x0053, 0x1e62, 0x0054, 0x1e6c,
     0x0055, 0x1ee4, 0x0056, 0x1e7e, 0x0057, 0x1e88, 0x0059, 0x1ef4,
     0x005a, 0x1e92, 0x0061, 0x1ea1, 0x0062, 0x1e05, 0x0064, 0x1e0d,
     0x0065, 0x1eb9, 0x0068, 0x1e25, 0x0069, 0x1ecb, 0x006b, 0x1e33,
     0x006c, 0x1e37, 0x006d, 0x1e43, 0x006e, 0x1e47, 0x006f, 0x1ecd,
     0x0072, 0x1e5b, 0x0073, 0x1e63, 0x0074, 0x1e6d, 0x0075, 0x1ee5,
     0x0076, 0x1e7f, 0x0077, 0x1e89, 0x0079, 0x1ef5, 0x007a, 0x1e93,
     0x01a0, 0x1ee2, 0x01a1, 0x1ee3, 0x01af, 0x1ef0, 0x01b0, 0x1ef1,
     0x0055, 0x1e72, 0x0075, 0x1e73, 0x0041, 0x1e00, 0x0061, 0x1e01,
     0x0053, 0x0218, 0x0054, 0x021a, 0x0073, 0x0219, 0x0074, 0x021b,
     0x0043, 0x00c7, 0x0044, 0x1e10, 0x0045, 0x0228, 0x0047, 0x0122,
     0x0048, 0x1e28, 0x004b, 0x0136, 0x004c, 0x013b, 0x004e, 0x0145,
     0x0052, 0x0156, 0x0053, 0x015e, 0x0054, 0x0162, 0x0063, 0x00e7,
     0x0064, 0x1e11, 0x0065, 0x0229, 0x0067, 0x0123, 0x0068, 0x1e29,
     0x006b, 0x0137, 0x006c, 0x013c, 0x006e, 0x0146, 0x0072, 0x0157]"

definition CFUniCharBMPPrecompDestinationTable_6 :: "u16 list" where
  "CFUniCharBMPPrecompDestinationTable_6 = [
     0x0073, 0x015f, 0x0074, 0x0163, 0x0041, 0x0104, 0x0045, 0x0118,
     0x0049, 0x012e, 0x004f, 0x01ea, 0x0055, 0x0172, 0x0061, 0x0105,
     0x0065, 0x0119, 0x0069, 0x012f, 0x006f, 0x01eb, 0x0075, 0x0173,
     0x0044, 0x1e12, 0x0045, 0x1e18, 0x004c, 0x1e3c, 0x004e, 0x1e4a,
     0x0054, 0x1e70, 0x0055, 0x1e76, 0x0064, 0x1e13, 0x0065, 0x1e19,
     0x006c, 0x1e3d, 0x006e, 0x1e4b, 0x0074, 0x1e71, 0x0075, 0x1e77,
     0x0048, 0x1e2a, 0x0068, 0x1e2b, 0x0045, 0x1e1a, 0x0049, 0x1e2c,
     0x0055, 0x1e74, 0x0065, 0x1e1b, 0x0069, 0x1e2d, 0x0075, 0x1e75,
     0x0042, 0x1e06, 0x0044, 0x1e0e, 0x004b, 0x1e34, 0x004c, 0x1e3a,
     0x004e, 0x1e48, 0x0052, 0x1e5e, 0x0054, 0x1e6e, 0x005a, 0x1e94,
     0x0062, 0x1e07, 0x0064, 0x1e0f, 0x0068, 0x1e96, 0x006b, 0x1e35,
     0x006c, 0x1e3b, 0x006e, 0x1e49, 0x0072, 0x1e5f, 0x0074, 0x1e6f,
     0x007a, 0x1e95, 0x003c, 0x226e, 0x003d, 0x2260, 0x003e, 0x226f,
     0x2190, 0x219a, 0x2192, 0x219b, 0x2194, 0x21ae, 0x21d0, 0x21cd,
     0x21d2, 0x21cf, 0x21d4, 0x21ce, 0x2203, 0x2204, 0x2208, 0x2209,
     0x220b, 0x220c, 0x2223, 0x2224, 0x2225, 0x2226, 0x223c, 0x2241,
     0x2243, 0x2244, 0x2245, 0x2247, 0x2248, 0x2249, 0x224d, 0x226d,
     0x2261, 0x2262, 0x2264, 0x2270, 0x2265, 0x2271, 0x2272, 0x2274,
     0x2273, 0x2275, 0x2276, 0x2278, 0x2277, 0x2279, 0x227a, 0x2280,
     0x227b, 0x2281, 0x227c, 0x22e0, 0x227d, 0x22e1, 0x2282, 0x2284,
     0x2283, 0x2285, 0x2286, 0x2288, 0x2287, 0x2289, 0x2291, 0x22e2,
     0x2292, 0x22e3, 0x22a2, 0x22ac, 0x22a8, 0x22ad, 0x22a9, 0x22ae,
     0x22ab, 0x22af, 0x22b2, 0x22ea, 0x22b3, 0x22eb, 0x22b4, 0x22ec,
     0x22b5, 0x22ed, 0x00a8, 0x1fc1, 0x03b1, 0x1fb6, 0x03b7, 0x1fc6,
     0x03b9, 0x1fd6, 0x03c5, 0x1fe6, 0x03c9, 0x1ff6, 0x03ca, 0x1fd7,
     0x03cb, 0x1fe7, 0x1f00, 0x1f06, 0x1f01, 0x1f07, 0x1f08, 0x1f0e,
     0x1f09, 0x1f0f, 0x1f20, 0x1f26, 0x1f21, 0x1f27, 0x1f28, 0x1f2e,
     0x1f29, 0x1f2f, 0x1f30, 0x1f36, 0x1f31, 0x1f37, 0x1f38, 0x1f3e,
     0x1f39, 0x1f3f, 0x1f50, 0x1f56, 0x1f51, 0x1f57, 0x1f59, 0x1f5f,
     0x1f60, 0x1f66, 0x1f61, 0x1f67, 0x1f68, 0x1f6e, 0x1f69, 0x1f6f,
     0x1fbf, 0x1fcf, 0x1ffe, 0x1fdf, 0x0391, 0x1fbc, 0x0397, 0x1fcc,
     0x03a9, 0x1ffc, 0x03ac, 0x1fb4, 0x03ae, 0x1fc4, 0x03b1, 0x1fb3]"

definition CFUniCharBMPPrecompDestinationTable_7 :: "u16 list" where
  "CFUniCharBMPPrecompDestinationTable_7 = [
     0x03b7, 0x1fc3, 0x03c9, 0x1ff3, 0x03ce, 0x1ff4, 0x1f00, 0x1f80,
     0x1f01, 0x1f81, 0x1f02, 0x1f82, 0x1f03, 0x1f83, 0x1f04, 0x1f84,
     0x1f05, 0x1f85, 0x1f06, 0x1f86, 0x1f07, 0x1f87, 0x1f08, 0x1f88,
     0x1f09, 0x1f89, 0x1f0a, 0x1f8a, 0x1f0b, 0x1f8b, 0x1f0c, 0x1f8c,
     0x1f0d, 0x1f8d, 0x1f0e, 0x1f8e, 0x1f0f, 0x1f8f, 0x1f20, 0x1f90,
     0x1f21, 0x1f91, 0x1f22, 0x1f92, 0x1f23, 0x1f93, 0x1f24, 0x1f94,
     0x1f25, 0x1f95, 0x1f26, 0x1f96, 0x1f27, 0x1f97, 0x1f28, 0x1f98,
     0x1f29, 0x1f99, 0x1f2a, 0x1f9a, 0x1f2b, 0x1f9b, 0x1f2c, 0x1f9c,
     0x1f2d, 0x1f9d, 0x1f2e, 0x1f9e, 0x1f2f, 0x1f9f, 0x1f60, 0x1fa0,
     0x1f61, 0x1fa1, 0x1f62, 0x1fa2, 0x1f63, 0x1fa3, 0x1f64, 0x1fa4,
     0x1f65, 0x1fa5, 0x1f66, 0x1fa6, 0x1f67, 0x1fa7, 0x1f68, 0x1fa8,
     0x1f69, 0x1fa9, 0x1f6a, 0x1faa, 0x1f6b, 0x1fab, 0x1f6c, 0x1fac,
     0x1f6d, 0x1fad, 0x1f6e, 0x1fae, 0x1f6f, 0x1faf, 0x1f70, 0x1fb2,
     0x1f74, 0x1fc2, 0x1f7c, 0x1ff2, 0x1fb6, 0x1fb7, 0x1fc6, 0x1fc7,
     0x1ff6, 0x1ff7, 0x0627, 0x0622, 0x0627, 0x0623, 0x0648, 0x0624,
     0x064a, 0x0626, 0x06c1, 0x06c2, 0x06d2, 0x06d3, 0x06d5, 0x06c0,
     0x0627, 0x0625, 0x0928, 0x0929, 0x0930, 0x0931, 0x0933, 0x0934,
     0x09c7, 0x09cb, 0x09c7, 0x09cc, 0x0b47, 0x0b4b, 0x0b47, 0x0b48,
     0x0b47, 0x0b4c, 0x0bc6, 0x0bca, 0x0bc7, 0x0bcb, 0x0b92, 0x0b94,
     0x0bc6, 0x0bcc, 0x0c46, 0x0c48, 0x0cc6, 0x0cca, 0x0cbf, 0x0cc0,
     0x0cc6, 0x0cc7, 0x0cca, 0x0ccb, 0x0cc6, 0x0cc8, 0x0d46, 0x0d4a,
     0x0d47, 0x0d4b, 0x0d46, 0x0d4c, 0x0dd9, 0x0dda, 0x0ddc, 0x0ddd,
     0x0dd9, 0x0ddc, 0x0dd9, 0x0dde, 0x1025, 0x1026, 0x3046, 0x3094,
     0x304b, 0x304c, 0x304d, 0x304e, 0x304f, 0x3050, 0x3051, 0x3052,
     0x3053, 0x3054, 0x3055, 0x3056, 0x3057, 0x3058, 0x3059, 0x305a,
     0x305b, 0x305c, 0x305d, 0x305e, 0x305f, 0x3060, 0x3061, 0x3062,
     0x3064, 0x3065, 0x3066, 0x3067, 0x3068, 0x3069, 0x306f, 0x3070,
     0x3072, 0x3073, 0x3075, 0x3076, 0x3078, 0x3079, 0x307b, 0x307c,
     0x309d, 0x309e, 0x30a6, 0x30f4, 0x30ab, 0x30ac, 0x30ad, 0x30ae,
     0x30af, 0x30b0, 0x30b1, 0x30b2, 0x30b3, 0x30b4, 0x30b5, 0x30b6,
     0x30b7, 0x30b8, 0x30b9, 0x30ba, 0x30bb, 0x30bc, 0x30bd, 0x30be,
     0x30bf, 0x30c0, 0x30c1, 0x30c2, 0x30c4, 0x30c5, 0x30c6, 0x30c7]"

definition CFUniCharBMPPrecompDestinationTable_8 :: "u16 list" where
  "CFUniCharBMPPrecompDestinationTable_8 = [
     0x30c8, 0x30c9, 0x30cf, 0x30d0, 0x30d2, 0x30d3, 0x30d5, 0x30d6,
     0x30d8, 0x30d9, 0x30db, 0x30dc, 0x30ef, 0x30f7, 0x30f0, 0x30f8,
     0x30f1, 0x30f9, 0x30f2, 0x30fa, 0x30fd, 0x30fe, 0x306f, 0x3071,
     0x3072, 0x3074, 0x3075, 0x3077, 0x3078, 0x307a, 0x307b, 0x307d,
     0x30cf, 0x30d1, 0x30d2, 0x30d4, 0x30d5, 0x30d7, 0x30d8, 0x30da,
     0x30db, 0x30dd]"

definition CFUniCharBMPPrecompDestinationTable :: "u16 list" where
  "CFUniCharBMPPrecompDestinationTable = CFUniCharBMPPrecompDestinationTable_1 @ CFUniCharBMPPrecompDestinationTable_2 @ CFUniCharBMPPrecompDestinationTable_3 @ CFUniCharBMPPrecompDestinationTable_4 @ CFUniCharBMPPrecompDestinationTable_5 @ CFUniCharBMPPrecompDestinationTable_6 @ CFUniCharBMPPrecompDestinationTable_7 @ CFUniCharBMPPrecompDestinationTable_8"

definition CFUniCharCombiningBitmap_1 :: "u8 list" where
  "CFUniCharCombiningBitmap_1 = [
     0x00, 0x00, 0x00, 0x01, 0x02, 0x03, 0x04, 0x05,
     0x00, 0x06, 0x07, 0x08, 0x09, 0x0a, 0x0b, 0x0c,
     0x0d, 0x14, 0x00, 0x00, 0x00, 0x00, 0x00, 0x0e,
     0x0f, 0x00, 0x00, 0x00, 0x00, 0x00, 0x00, 0x00,
     0x10, 0x00, 0x00, 0x00, 0x00, 0x00, 0x00, 0x00,
     0x00, 0x00, 0x00, 0x00, 0x00, 0x00, 0x00, 0x00,
     0x11, 0x00, 0x00, 0x00, 0x00, 0x00, 0x00, 0x00,
     0x00, 0x00, 0x00, 0x00, 0x00, 0x00, 0x00, 0x00,
     0x00, 0x00, 0x00, 0x00, 0x00, 0x00, 0x00, 0x00,
     0x00, 0x00, 0x00, 0x00, 0x00, 0x00, 0x00, 0x00,
     0x00, 0x00, 0x00, 0x00, 0x00, 0x00, 0x00, 0x00,
     0x00, 0x00, 0x00, 0x00, 0x00, 0x00, 0x00, 0x00,
     0x00, 0x00, 0x00, 0x00, 0x00, 0x00, 0x00, 0x00,
     0x00, 0x00, 0x00, 0x00, 0x00, 0x00, 0x00, 0x00,
     0x00, 0x00, 0x00, 0x00, 0x00, 0x00, 0x00, 0x00,
     0x00, 0x00, 0x00, 0x00, 0x00, 0x00, 0x00, 0x00,
     0x00, 0x00, 0x00, 0x00, 0x00, 0x00, 0x00, 0x00,
     0x00, 0x00, 0x00, 0x00, 0x00, 0x00, 0x00, 0x00,
     0x00, 0x00, 0x00, 0x00, 0x00, 0x00, 0x00, 0x00,
     0x00, 0x00, 0x00, 0x00, 0x00, 0x00, 0x00, 0x00,
     0x00, 0x00, 0x00, 0x00, 0x00, 0x00, 0x00, 0x00,
     0x00, 0x00, 0x00, 0x00, 0x00, 0x00, 0x00, 0x00,
     0x00, 0x00, 0x00, 0x00, 0x00, 0x00, 0x00, 0x00,
     0x00, 0x00, 0x00, 0x00, 0x00, 0x00, 0x00, 0x00,
     0x00, 0x00, 0x00, 0x00, 0x00, 0x00, 0x00, 0x00,
     0x00, 0x00, 0x00, 0x00, 0x00, 0x00, 0x00, 0x00,
     0x00, 0x00, 0x00, 0x00, 0x00, 0x00, 0x00, 0x00,
     0x00, 0x00, 0x00, 0x00, 0x00, 0x00, 0x00, 0x00,
     0x00, 0x00, 0x00, 0x00, 0x00, 0x00, 0x00, 0x00,
     0x00, 0x00, 0x00, 0x00, 0x00, 0x00, 0x00, 0x00,
     0x00, 0x00, 0x00, 0x00, 0x00, 0x00, 0x00, 0x00,
     0x00, 0x00, 0x00, 0x12, 0x00, 0x00, 0x13, 0x00]"

definition CFUniCharCombiningBitmap_2 :: "u8 list" where
  "CFUniCharCombiningBitmap_2 = [
     0xff, 0xff, 0xff, 0xff, 0xff, 0xff, 0xff, 0xff,
     0xff, 0xff, 0x00, 0x00, 0xff, 0xff, 0x00, 0x00,
     0x00, 0x00, 0x00, 0x00, 0x00, 0x00, 0x00, 0x00,
     0x00, 0x00, 0x00, 0x00, 0x00, 0x00, 0x00, 0x00,
     0x00, 0x00, 0x00, 0x00, 0x00, 0x00, 0x00, 0x00,
     0x00, 0x00, 0x00, 0x00, 0x00, 0x00, 0x00, 0x00,
     0x78, 0x03, 0x00, 0x00, 0x00, 0x00, 0x00, 0x00,
     0x00, 0x00, 0x00, 0x00, 0x00, 0x00, 0x00, 0x00,
     0x00, 0x00, 0x00, 0x00, 0x00, 0x00, 0x00, 0x00,
     0x00, 0x00, 0x00, 0x00, 0x00, 0x00, 0x00, 0x00,
     0x00, 0x00, 0xfe, 0xff, 0xfb, 0xff, 0xff, 0xbb,
     0x16, 0x00, 0x00, 0x00, 0x00, 0x00, 0x00, 0x00,
     0x00, 0x00, 0x00, 0x00, 0x00, 0x00, 0x00, 0x00,
     0x00, 0xf8, 0x3f, 0x00, 0x00, 0x00, 0x01, 0x00,
     0x00, 0x00, 0x00, 0x00, 0x00, 0x00, 0x00, 0x00,
     0x00, 0x00, 0xc0, 0xff, 0x9f, 0x3d, 0x00, 0x00,
     0x00, 0x00, 0x02, 0x00, 0x00, 0x00, 0xff, 0xff,
     0xff, 0x07, 0x00, 0x00, 0x00, 0x00, 0x00, 0x00,
     0x00, 0x00, 0x00, 0x00, 0xc0, 0xff, 0x01, 0x00,
     0x00, 0x00, 0x00, 0x00, 0x00, 0x00, 0x00, 0x00,
     0x0e, 0x00, 0x00, 0x00, 0x00, 0x00, 0x00, 0xd0,
     0xff, 0x3f, 0x1e, 0x00, 0x0c, 0x00, 0x00, 0x00,
     0x0e, 0x00, 0x00, 0x00, 0x00, 0x00, 0x00, 0xd0,
     0x9f, 0x39, 0x80, 0x00, 0x0c, 0x00, 0x00, 0x00,
     0x04, 0x00, 0x00, 0x00, 0x00, 0x00, 0x00, 0xd0,
     0x87, 0x39, 0x00, 0x00, 0x00, 0x00, 0x03, 0x00,
     0x0e, 0x00, 0x00, 0x00, 0x00, 0x00, 0x00, 0xd0,
     0xbf, 0x3b, 0x00, 0x00, 0x00, 0x00, 0x00, 0x00,
     0x0e, 0x00, 0x00, 0x00, 0x00, 0x00, 0x00, 0xd0,
     0x8f, 0x39, 0xc0, 0x00, 0x00, 0x00, 0x00, 0x00,
     0x04, 0x00, 0x00, 0x00, 0x00, 0x00, 0x00, 0xc0,
     0xc7, 0x3d, 0x80, 0x00, 0x00, 0x00, 0x00, 0x00]"

definition CFUniCharCombiningBitmap_3 :: "u8 list" where
  "CFUniCharCombiningBitmap_3 = [
     0x0e, 0x00, 0x00, 0x00, 0x00, 0x00, 0x00, 0xc0,
     0xdf, 0x3d, 0x60, 0x00, 0x00, 0x00, 0x00, 0x00,
     0x0c, 0x00, 0x00, 0x00, 0x00, 0x00, 0x00, 0xc0,
     0xdf, 0x3d, 0x60, 0x00, 0x00, 0x00, 0x00, 0x00,
     0x0c, 0x00, 0x00, 0x00, 0x00, 0x00, 0x00, 0xc0,
     0xcf, 0x3d, 0x80, 0x00, 0x00, 0x00, 0x00, 0x00,
     0x0c, 0x00, 0x00, 0x00, 0x00, 0x00, 0x00, 0x00,
     0x00, 0x84, 0x5f, 0xff, 0x00, 0x00, 0x0c, 0x00,
     0x00, 0x00, 0x00, 0x00, 0x00, 0x00, 0xf2, 0x07,
     0x80, 0x7f, 0x00, 0x00, 0x00, 0x00, 0x00, 0x00,
     0x00, 0x00, 0x00, 0x00, 0x00, 0x00, 0xf2, 0x1b,
     0x00, 0x3f, 0x00, 0x00, 0x00, 0x00, 0x00, 0x00,
     0x00, 0x00, 0x00, 0x03, 0x00, 0x00, 0xa0, 0xc2,
     0x00, 0x00, 0x00, 0x00, 0x00, 0x00, 0xfe, 0xff,
     0xdf, 0x00, 0xff, 0xfe, 0xff, 0xff, 0xff, 0x1f,
     0x40, 0x00, 0x00, 0x00, 0x00, 0x00, 0x00, 0x00,
     0x00, 0x00, 0x00, 0x00, 0x00, 0xf0, 0xc7, 0x03,
     0x00, 0x00, 0xc0, 0x03, 0x00, 0x00, 0x00, 0x00,
     0x00, 0x00, 0x00, 0x00, 0x00, 0x00, 0x00, 0x00,
     0x00, 0x00, 0x00, 0x00, 0x00, 0x00, 0x00, 0x00,
     0x00, 0x00, 0x1c, 0x00, 0x00, 0x00, 0x1c, 0x00,
     0x00, 0x00, 0x0c, 0x00, 0x00, 0x00, 0x0c, 0x00,
     0x00, 0x00, 0x00, 0x00, 0x00, 0x00, 0xf0, 0xff,
     0xff, 0xff, 0x0f, 0x00, 0x00, 0x00, 0x00, 0x00,
     0x00, 0x38, 0x00, 0x00, 0x00, 0x00, 0x00, 0x00,
     0x00, 0x00, 0x00, 0x00, 0x00, 0x00, 0x00, 0x00,
     0x00, 0x00, 0x00, 0x00, 0x00, 0x02, 0x00, 0x00,
     0x00, 0x00, 0x00, 0x00, 0x00, 0x00, 0x00, 0x00,
     0x00, 0x00, 0x00, 0x00, 0x00, 0x00, 0x00, 0x00,
     0x00, 0x00, 0x00, 0x00, 0x00, 0x00, 0x00, 0x00,
     0x00, 0x00, 0x00, 0x00, 0x00, 0x00, 0x00, 0x00,
     0x00, 0x00, 0xff, 0xff, 0xff, 0x07, 0x00, 0x00]"

definition CFUniCharCombiningBitmap_4 :: "u8 list" where
  "CFUniCharCombiningBitmap_4 = [
     0x00, 0x00, 0x00, 0x00, 0x00, 0xfc, 0x00, 0x00,
     0x00, 0x00, 0x00, 0x00, 0x00, 0x00, 0x00, 0x00,
     0x00, 0x00, 0x00, 0x06, 0x00, 0x00, 0x00, 0x00,
     0x00, 0x00, 0x00, 0x00, 0x00, 0x00, 0x00, 0x00,
     0x00, 0x00, 0x00, 0x40, 0x00, 0x00, 0x00, 0x00,
     0x00, 0x00, 0x00, 0x00, 0x00, 0x00, 0x00, 0x00,
     0x00, 0x00, 0x00, 0x00, 0x00, 0x00, 0x00, 0x00,
     0x00, 0x00, 0x00, 0x00, 0x00, 0x00, 0x00, 0x00,
     0xff, 0xff, 0x00, 0x00, 0x0f, 0x00, 0x00, 0x00,
     0x00, 0x00, 0x00, 0x00, 0x00, 0x00, 0x00, 0x00,
     0x00, 0x00, 0x00, 0x00, 0x00, 0x00, 0x00, 0x00,
     0x00, 0x00, 0x00, 0x00, 0x00, 0x00, 0x00, 0x00,
     0x00, 0x00, 0x00, 0x00, 0x00, 0x00, 0x00, 0x00,
     0x00, 0x00, 0x00, 0x00, 0xfe, 0xff, 0x3f, 0x00,
     0x00, 0x00, 0x00, 0x00, 0x00, 0xff, 0xff, 0xff,
     0x07, 0x00, 0x00, 0x00, 0x00, 0x00, 0x00, 0x00]"

definition CFUniCharCombiningBitmap :: "u8 list" where
  "CFUniCharCombiningBitmap = CFUniCharCombiningBitmap_1 @ CFUniCharCombiningBitmap_2 @ CFUniCharCombiningBitmap_3 @ CFUniCharCombiningBitmap_4"

definition CFUniCharCombiningPropertyBitmap_1 :: "u8 list" where
  "CFUniCharCombiningPropertyBitmap_1 = [
     0x00, 0x00, 0x00, 0x01, 0x02, 0x03, 0x04, 0x05,
     0x00, 0x06, 0x07, 0x08, 0x09, 0x0a, 0x0b, 0x0c,
     0x0d, 0x00, 0x00, 0x00, 0x00, 0x00, 0x00, 0x0e,
     0x0f, 0x10, 0x00, 0x00, 0x00, 0x00, 0x00, 0x00,
     0x11, 0x00, 0x00, 0x00, 0x00, 0x00, 0x00, 0x00,
     0x00, 0x00, 0x00, 0x00, 0x00, 0x00, 0x00, 0x00,
     0x12, 0x00, 0x00, 0x00, 0x00, 0x00, 0x00, 0x00,
     0x00, 0x00, 0x00, 0x00, 0x00, 0x00, 0x00, 0x00,
     0x00, 0x00, 0x00, 0x00, 0x00, 0x00, 0x00, 0x00,
     0x00, 0x00, 0x00, 0x00, 0x00, 0x00, 0x00, 0x00,
     0x00, 0x00, 0x00, 0x00, 0x00, 0x00, 0x00, 0x00,
     0x00, 0x00, 0x00, 0x00, 0x00, 0x00, 0x00, 0x00,
     0x00, 0x00, 0x00, 0x00, 0x00, 0x00, 0x00, 0x00,
     0x00, 0x00, 0x00, 0x00, 0x00, 0x00, 0x00, 0x00,
     0x00, 0x00, 0x00, 0x00, 0x00, 0x00, 0x00, 0x00,
     0x00, 0x00, 0x00, 0x00, 0x00, 0x00, 0x00, 0x00,
     0x00, 0x00, 0x00, 0x00, 0x00, 0x00, 0x00, 0x00,
     0x00, 0x00, 0x00, 0x00, 0x00, 0x00, 0x00, 0x00,
     0x00, 0x00, 0x00, 0x00, 0x00, 0x00, 0x00, 0x00,
     0x00, 0x00, 0x00, 0x00, 0x00, 0x00, 0x00, 0x00,
     0x00, 0x00, 0x00, 0x00, 0x00, 0x00, 0x00, 0x00,
     0x00, 0x00, 0x00, 0x00, 0x00, 0x00, 0x00, 0x00,
     0x00, 0x00, 0x00, 0x00, 0x00, 0x00, 0x00, 0x00,
     0x00, 0x00, 0x00, 0x00, 0x00, 0x00, 0x00, 0x00,
     0x00, 0x00, 0x00, 0x00, 0x00, 0x00, 0x00, 0x00,
     0x00, 0x00, 0x00, 0x00, 0x00, 0x00, 0x00, 0x00,
     0x00, 0x00, 0x00, 0x00, 0x00, 0x00, 0x00, 0x00,
     0x00, 0x00, 0x00, 0x00, 0x00, 0x00, 0x00, 0x00,
     0x00, 0x00, 0x00, 0x00, 0x00, 0x00, 0x00, 0x00,
     0x00, 0x00, 0x00, 0x00, 0x00, 0x00, 0x00, 0x00,
     0x00, 0x00, 0x00, 0x00, 0x00, 0x00, 0x00, 0x00,
     0x00, 0x00, 0x00, 0x13, 0x00, 0x00, 0x14, 0x00]"

definition CFUniCharCombiningPropertyBitmap_2 :: "u8 list" where
  "CFUniCharCombiningPropertyBitmap_2 = [
     0xe6, 0xe6, 0xe6, 0xe6, 0xe6, 0xe6, 0xe6, 0xe6,
     0xe6, 0xe6, 0xe6, 0xe6, 0xe6, 0xe6, 0xe6, 0xe6,
     0xe6, 0xe6, 0xe6, 0xe6, 0xe6, 0xe8, 0xdc, 0xdc,
     0xdc, 0xdc, 0xe8, 0xd8, 0xdc, 0xdc, 0xdc, 0xdc,
     0xdc, 0xca, 0xca, 0xdc, 0xdc, 0xdc, 0xdc, 0xca,
     0xca, 0xdc, 0xdc, 0xdc, 0xdc, 0xdc, 0xdc, 0xdc,
     0xdc, 0xdc, 0xdc, 0xdc, 0x01, 0x01, 0x01, 0x01,
     0x01, 0xdc, 0xdc, 0xdc, 0xdc, 0xe6, 0xe6, 0xe6,
     0xe6, 0xe6, 0xe6, 0xe6, 0xe6, 0xf0, 0xe6, 0xdc,
     0xdc, 0xdc, 0xe6, 0xe6, 0xe6, 0xdc, 0xdc, 0x00,
     0xe6, 0xe6, 0xe6, 0xdc, 0xdc, 0xdc, 0xdc, 0xe6,
     0x00, 0x00, 0x00, 0x00, 0x00, 0xea, 0xea, 0xe9,
     0xea, 0xea, 0xe9, 0xe6, 0xe6, 0xe6, 0xe6, 0xe6,
     0xe6, 0xe6, 0xe6, 0xe6, 0xe6, 0xe6, 0xe6, 0xe6,
     0x00, 0x00, 0x00, 0x00, 0x00, 0x00, 0x00, 0x00,
     0x00, 0x00, 0x00, 0x00, 0x00, 0x00, 0x00, 0x00,
     0x00, 0x00, 0x00, 0x00, 0x00, 0x00, 0x00, 0x00,
     0x00, 0x00, 0x00, 0x00, 0x00, 0x00, 0x00, 0x00,
     0x00, 0x00, 0x00, 0x00, 0x00, 0x00, 0x00, 0x00,
     0x00, 0x00, 0x00, 0x00, 0x00, 0x00, 0x00, 0x00,
     0x00, 0x00, 0x00, 0x00, 0x00, 0x00, 0x00, 0x00,
     0x00, 0x00, 0x00, 0x00, 0x00, 0x00, 0x00, 0x00,
     0x00, 0x00, 0x00, 0x00, 0x00, 0x00, 0x00, 0x00,
     0x00, 0x00, 0x00, 0x00, 0x00, 0x00, 0x00, 0x00,
     0x00, 0x00, 0x00, 0x00, 0x00, 0x00, 0x00, 0x00,
     0x00, 0x00, 0x00, 0x00, 0x00, 0x00, 0x00, 0x00,
     0x00, 0x00, 0x00, 0x00, 0x00, 0x00, 0x00, 0x00,
     0x00, 0x00, 0x00, 0x00, 0x00, 0x00, 0x00, 0x00,
     0x00, 0x00, 0x00, 0x00, 0x00, 0x00, 0x00, 0x00,
     0x00, 0x00, 0x00, 0x00, 0x00, 0x00, 0x00, 0x00,
     0x00, 0x00, 0x00, 0x00, 0x00, 0x00, 0x00, 0x00,
     0x00, 0x00, 0x00, 0x00, 0x00, 0x00, 0x00, 0x00]"

definition CFUniCharCombiningPropertyBitmap_3 :: "u8 list" where
  "CFUniCharCombiningPropertyBitmap_3 = [
     0x00, 0x00, 0x00, 0x00, 0x00, 0x00, 0x00, 0x00,
     0x00, 0x00, 0x00, 0x00, 0x00, 0x00, 0x00, 0x00,
     0x00, 0x00, 0x00, 0x00, 0x00, 0x00, 0x00, 0x00,
     0x00, 0x00, 0x00, 0x00, 0x00, 0x00, 0x00, 0x00,
     0x00, 0x00, 0x00, 0x00, 0x00, 0x00, 0x00, 0x00,
     0x00, 0x00, 0x00, 0x00, 0x00, 0x00, 0x00, 0x00,
     0x00, 0x00, 0x00, 0x00, 0x00, 0x00, 0x00, 0x00,
     0x00, 0x00, 0x00, 0x00, 0x00, 0x00, 0x00, 0x00,
     0x00, 0x00, 0x00, 0x00, 0x00, 0x00, 0x00, 0x00,
     0x00, 0x00, 0x00, 0x00, 0x00, 0x00, 0x00, 0x00,
     0x00, 0x00, 0x00, 0x00, 0x00, 0x00, 0x00, 0x00,
     0x00, 0x00, 0x00, 0x00, 0x00, 0x00, 0x00, 0x00,
     0x00, 0x00, 0x00, 0x00, 0x00, 0x00, 0x00, 0x00,
     0x00, 0x00, 0x00, 0x00, 0x00, 0x00, 0x00, 0x00,
     0x00, 0x00, 0x00, 0x00, 0x00, 0x00, 0x00, 0x00,
     0x00, 0x00, 0x00, 0x00, 0x00, 0x00, 0x00, 0x00,
     0x00, 0x00, 0x00, 0xe6, 0xe6, 0xe6, 0xe6, 0x00,
     0x00, 0x00, 0x00, 0x00, 0x00, 0x00, 0x00, 0x00,
     0x00, 0x00, 0x00, 0x00, 0x00, 0x00, 0x00, 0x00,
     0x00, 0x00, 0x00, 0x00, 0x00, 0x00, 0x00, 0x00,
     0x00, 0x00, 0x00, 0x00, 0x00, 0x00, 0x00, 0x00,
     0x00, 0x00, 0x00, 0x00, 0x00, 0x00, 0x00, 0x00,
     0x00, 0x00, 0x00, 0x00, 0x00, 0x00, 0x00, 0x00,
     0x00, 0x00, 0x00, 0x00, 0x00, 0x00, 0x00, 0x00,
     0x00, 0x00, 0x00, 0x00, 0x00, 0x00, 0x00, 0x00,
     0x00, 0x00, 0x00, 0x00, 0x00, 0x00, 0x00, 0x00,
     0x00, 0x00, 0x00, 0x00, 0x00, 0x00, 0x00, 0x00,
     0x00, 0x00, 0x00, 0x00, 0x00, 0x00, 0x00, 0x00,
     0x00, 0x00, 0x00, 0x00, 0x00, 0x00, 0x00, 0x00,
     0x00, 0x00, 0x00, 0x00, 0x00, 0x00, 0x00, 0x00,
     0x00, 0x00, 0x00, 0x00, 0x00, 0x00, 0x00, 0x00,
     0x00, 0x00, 0x00, 0x00, 0x00, 0x00, 0x00, 0x00]"

definition CFUniCharCombiningPropertyBitmap_4 :: "u8 list" where
  "CFUniCharCombiningPropertyBitmap_4 = [
     0x00, 0x00, 0x00, 0x00, 0x00, 0x00, 0x00, 0x00,
     0x00, 0x00, 0x00, 0x00, 0x00, 0x00, 0x00, 0x00,
     0x00, 0x00, 0x00, 0x00, 0x00, 0x00, 0x00, 0x00,
     0x00, 0x00, 0x00, 0x00, 0x00, 0x00, 0x00, 0x00,
     0x00, 0x00, 0x00, 0x00, 0x00, 0x00, 0x00, 0x00,
     0x00, 0x00, 0x00, 0x00, 0x00, 0x00, 0x00, 0x00,
     0x00, 0x00, 0x00, 0x00, 0x00, 0x00, 0x00, 0x00,
     0x00, 0x00, 0x00, 0x00, 0x00, 0x00, 0x00, 0x00,
     0x00, 0x00, 0x00, 0x00, 0x00, 0x00, 0x00, 0x00,
     0x00, 0x00, 0x00, 0x00, 0x00, 0x00, 0x00, 0x00,
     0x00, 0x00, 0x00, 0x00, 0x00, 0x00, 0x00, 0x00,
     0x00, 0x00, 0x00, 0x00, 0x00, 0x00, 0x00, 0x00,
     0x00, 0x00, 0x00, 0x00, 0x00, 0x00, 0x00, 0x00,
     0x00, 0x00, 0x00, 0x00, 0x00, 0x00, 0x00, 0x00,
     0x00, 0x00, 0x00, 0x00, 0x00, 0x00, 0x00, 0x00,
     0x00, 0x00, 0x00, 0x00, 0x00, 0x00, 0x00, 0x00,
     0x00, 0x00, 0x00, 0x00, 0x00, 0x00, 0x00, 0x00,
     0x00, 0x00, 0x00, 0x00, 0x00, 0x00, 0x00, 0x00,
     0x00, 0xdc, 0xe6, 0xe6, 0xe6, 0xe6, 0xdc, 0xe6,
     0xe6, 0xe6, 0xde, 0xdc, 0xe6, 0xe6, 0xe6, 0xe6,
     0xe6, 0xe6, 0x00, 0xdc, 0xdc, 0xdc, 0xdc, 0xdc,
     0xe6, 0xe6, 0xdc, 0xe6, 0xe6, 0xde, 0xe4, 0xe6,
     0x0a, 0x0b, 0x0c, 0x0d, 0x0e, 0x0f, 0x10, 0x11,
     0x12, 0x13, 0x00, 0x14, 0x15, 0x16, 0x00, 0x17,
     0x00, 0x18, 0x19, 0x00, 0xe6, 0x00, 0x00, 0x00,
     0x00, 0x00, 0x00, 0x00, 0x00, 0x00, 0x00, 0x00,
     0x00, 0x00, 0x00, 0x00, 0x00, 0x00, 0x00, 0x00,
     0x00, 0x00, 0x00, 0x00, 0x00, 0x00, 0x00, 0x00,
     0x00, 0x00, 0x00, 0x00, 0x00, 0x00, 0x00, 0x00,
     0x00, 0x00, 0x00, 0x00, 0x00, 0x00, 0x00, 0x00,
     0x00, 0x00, 0x00, 0x00, 0x00, 0x00, 0x00, 0x00,
     0x00, 0x00, 0x00, 0x00, 0x00, 0x00, 0x00, 0x00]"

definition CFUniCharCombiningPropertyBitmap_5 :: "u8 list" where
  "CFUniCharCombiningPropertyBitmap_5 = [
     0x00, 0x00, 0x00, 0x00, 0x00, 0x00, 0x00, 0x00,
     0x00, 0x00, 0x00, 0x00, 0x00, 0x00, 0x00, 0x00,
     0xe6, 0xe6, 0xe6, 0xe6, 0xe6, 0xe6, 0x00, 0x00,
     0x00, 0x00, 0x00, 0x00, 0x00, 0x00, 0x00, 0x00,
     0x00, 0x00, 0x00, 0x00, 0x00, 0x00, 0x00, 0x00,
     0x00, 0x00, 0x00, 0x00, 0x00, 0x00, 0x00, 0x00,
     0x00, 0x00, 0x00, 0x00, 0x00, 0x00, 0x00, 0x00,
     0x00, 0x00, 0x00, 0x00, 0x00, 0x00, 0x00, 0x00,
     0x00, 0x00, 0x00, 0x00, 0x00, 0x00, 0x00, 0x00,
     0x00, 0x00, 0x00, 0x1b, 0x1c, 0x1d, 0x1e, 0x1f,
     0x20, 0x21, 0x22, 0xe6, 0xe6, 0xdc, 0xdc, 0xe6,
     0xe6, 0x00, 0x00, 0x00, 0x00, 0x00, 0x00, 0x00,
     0x00, 0x00, 0x00, 0x00, 0x00, 0x00, 0x00, 0x00,
     0x00, 0x00, 0x00, 0x00, 0x00, 0x00, 0x00, 0x00,
     0x23, 0x00, 0x00, 0x00, 0x00, 0x00, 0x00, 0x00,
     0x00, 0x00, 0x00, 0x00, 0x00, 0x00, 0x00, 0x00,
     0x00, 0x00, 0x00, 0x00, 0x00, 0x00, 0x00, 0x00,
     0x00, 0x00, 0x00, 0x00, 0x00, 0x00, 0x00, 0x00,
     0x00, 0x00, 0x00, 0x00, 0x00, 0x00, 0x00, 0x00,
     0x00, 0x00, 0x00, 0x00, 0x00, 0x00, 0x00, 0x00,
     0x00, 0x00, 0x00, 0x00, 0x00, 0x00, 0x00, 0x00,
     0x00, 0x00, 0x00, 0x00, 0x00, 0x00, 0x00, 0x00,
     0x00, 0x00, 0x00, 0x00, 0x00, 0x00, 0x00, 0x00,
     0x00, 0x00, 0x00, 0x00, 0x00, 0x00, 0x00, 0x00,
     0x00, 0x00, 0x00, 0x00, 0x00, 0x00, 0x00, 0x00,
     0x00, 0x00, 0x00, 0x00, 0x00, 0x00, 0x00, 0x00,
     0x00, 0x00, 0x00, 0x00, 0x00, 0x00, 0xe6, 0xe6,
     0xe6, 0xe6, 0xe6, 0xe6, 0xe6, 0x00, 0x00, 0xe6,
     0xe6, 0xe6, 0xe6, 0xdc, 0xe6, 0x00, 0x00, 0xe6,
     0xe6, 0x00, 0xdc, 0xe6, 0xe6, 0xdc, 0x00, 0x00,
     0x00, 0x00, 0x00, 0x00, 0x00, 0x00, 0x00, 0x00,
     0x00, 0x00, 0x00, 0x00, 0x00, 0x00, 0x00, 0x00]"

definition CFUniCharCombiningPropertyBitmap_6 :: "u8 list" where
  "CFUniCharCombiningPropertyBitmap_6 = [
     0x00, 0x00, 0x00, 0x00, 0x00, 0x00, 0x00, 0x00,
     0x00, 0x00, 0x00, 0x00, 0x00, 0x00, 0x00, 0x00,
     0x00, 0x24, 0x00, 0x00, 0x00, 0x00, 0x00, 0x00,
     0x00, 0x00, 0x00, 0x00, 0x00, 0x00, 0x00, 0x00,
     0x00, 0x00, 0x00, 0x00, 0x00, 0x00, 0x00, 0x00,
     0x00, 0x00, 0x00, 0x00, 0x00, 0x00, 0x00, 0x00,
     0xe6, 0xdc, 0xe6, 0xe6, 0xdc, 0xe6, 0xe6, 0xdc,
     0xdc, 0xdc, 0xe6, 0xdc, 0xdc, 0xe6, 0xdc, 0xe6,
     0xe6, 0xe6, 0xdc, 0xe6, 0xdc, 0xe6, 0xdc, 0xe6,
     0xdc, 0xe6, 0xe6, 0x00, 0x00, 0x00, 0x00, 0x00,
     0x00, 0x00, 0x00, 0x00, 0x00, 0x00, 0x00, 0x00,
     0x00, 0x00, 0x00, 0x00, 0x00, 0x00, 0x00, 0x00,
     0x00, 0x00, 0x00, 0x00, 0x00, 0x00, 0x00, 0x00,
     0x00, 0x00, 0x00, 0x00, 0x00, 0x00, 0x00, 0x00,
     0x00, 0x00, 0x00, 0x00, 0x00, 0x00, 0x00, 0x00,
     0x00, 0x00, 0x00, 0x00, 0x00, 0x00, 0x00, 0x00,
     0x00, 0x00, 0x00, 0x00, 0x00, 0x00, 0x00, 0x00,
     0x00, 0x00, 0x00, 0x00, 0x00, 0x00, 0x00, 0x00,
     0x00, 0x00, 0x00, 0x00, 0x00, 0x00, 0x00, 0x00,
     0x00, 0x00, 0x00, 0x00, 0x00, 0x00, 0x00, 0x00,
     0x00, 0x00, 0x00, 0x00, 0x00, 0x00, 0x00, 0x00,
     0x00, 0x00, 0x00, 0x00, 0x00, 0x00, 0x00, 0x00,
     0x00, 0x00, 0x00, 0x00, 0x00, 0x00, 0x00, 0x00,
     0x00, 0x00, 0x00, 0x00, 0x00, 0x00, 0x00, 0x00,
     0x00, 0x00, 0x00, 0x00, 0x00, 0x00, 0x00, 0x00,
     0x00, 0x00, 0x00, 0x00, 0x00, 0x00, 0x00, 0x00,
     0x00, 0x00, 0x00, 0x00, 0x00, 0x00, 0x00, 0x00,
     0x00, 0x00, 0x00, 0x00, 0x00, 0x00, 0x00, 0x00,
     0x00, 0x00, 0x00, 0x00, 0x00, 0x00, 0x00, 0x00,
     0x00, 0x00, 0x00, 0x00, 0x00, 0x00, 0x00, 0x00,
     0x00, 0x00, 0x00, 0x00, 0x00, 0x00, 0x00, 0x00,
     0x00, 0x00, 0x00, 0x00, 0x00, 0x00, 0x00, 0x00]"

definition CFUniCharCombiningPropertyBitmap_7 :: "u8 list" where
  "CFUniCharCombiningPropertyBitmap_7 = [
     0x00, 0x00, 0x00, 0x00, 0x00, 0x00, 0x00, 0x00,
     0x00, 0x00, 0x00, 0x00, 0x00, 0x00, 0x00, 0x00,
     0x00, 0x00, 0x00, 0x00, 0x00, 0x00, 0x00, 0x00,
     0x00, 0x00, 0x00, 0x00, 0x00, 0x00, 0x00, 0x00,
     0x00, 0x00, 0x00, 0x00, 0x00, 0x00, 0x00, 0x00,
     0x00, 0x00, 0x00, 0x00, 0x00, 0x00, 0x00, 0x00,
     0x00, 0x00, 0x00, 0x00, 0x00, 0x00, 0x00, 0x00,
     0x00, 0x00, 0x00, 0x00, 0x07, 0x00, 0x00, 0x00,
     0x00, 0x00, 0x00, 0x00, 0x00, 0x00, 0x00, 0x00,
     0x00, 0x00, 0x00, 0x00, 0x00, 0x09, 0x00, 0x00,
     0x00, 0xe6, 0xdc, 0xe6, 0xe6, 0x00, 0x00, 0x00,
     0x00, 0x00, 0x00, 0x00, 0x00, 0x00, 0x00, 0x00,
     0x00, 0x00, 0x00, 0x00, 0x00, 0x00, 0x00, 0x00,
     0x00, 0x00, 0x00, 0x00, 0x00, 0x00, 0x00, 0x00,
     0x00, 0x00, 0x00, 0x00, 0x00, 0x00, 0x00, 0x00,
     0x00, 0x00, 0x00, 0x00, 0x00, 0x00, 0x00, 0x00,
     0x00, 0x00, 0x00, 0x00, 0x00, 0x00, 0x00, 0x00,
     0x00, 0x00, 0x00, 0x00, 0x00, 0x00, 0x00, 0x00,
     0x00, 0x00, 0x00, 0x00, 0x00, 0x00, 0x00, 0x00,
     0x00, 0x00, 0x00, 0x00, 0x00, 0x00, 0x00, 0x00,
     0x00, 0x00, 0x00, 0x00, 0x00, 0x00, 0x00, 0x00,
     0x00, 0x00, 0x00, 0x00, 0x00, 0x00, 0x00, 0x00,
     0x00, 0x00, 0x00, 0x00, 0x00, 0x00, 0x00, 0x00,
     0x00, 0x00, 0x00, 0x00, 0x07, 0x00, 0x00, 0x00,
     0x00, 0x00, 0x00, 0x00, 0x00, 0x00, 0x00, 0x00,
     0x00, 0x00, 0x00, 0x00, 0x00, 0x09, 0x00, 0x00,
     0x00, 0x00, 0x00, 0x00, 0x00, 0x00, 0x00, 0x00,
     0x00, 0x00, 0x00, 0x00, 0x00, 0x00, 0x00, 0x00,
     0x00, 0x00, 0x00, 0x00, 0x00, 0x00, 0x00, 0x00,
     0x00, 0x00, 0x00, 0x00, 0x00, 0x00, 0x00, 0x00,
     0x00, 0x00, 0x00, 0x00, 0x00, 0x00, 0x00, 0x00,
     0x00, 0x00, 0x00, 0x00, 0x00, 0x00, 0x00, 0x00]"

definition CFUniCharCombiningPropertyBitmap_8 :: "u8 list" where
  "CFUniCharCombiningPropertyBitmap_8 = [
     0x00, 0x00, 0x00, 0x00, 0x00, 0x00, 0x00, 0x00,
     0x00, 0x00, 0x00, 0x00, 0x00, 0x00, 0x00, 0x00,
     0x00, 0x00, 0x00, 0x00, 0x00, 0x00, 0x00, 0x00,
     0x00, 0x00, 0x00, 0x00, 0x00, 0x00, 0x00, 0x00,
     0x00, 0x00, 0x00, 0x00, 0x00, 0x00, 0x00, 0x00,
     0x00, 0x00, 0x00, 0x00, 0x00, 0x00, 0x00, 0x00,
     0x00, 0x00, 0x00, 0x00, 0x00, 0x00, 0x00, 0x00,
     0x00, 0x00, 0x00, 0x00, 0x07, 0x00, 0x00, 0x00,
     0x00, 0x00, 0x00, 0x00, 0x00, 0x00, 0x00, 0x00,
     0x00, 0x00, 0x00, 0x00, 0x00, 0x09, 0x00, 0x00,
     0x00, 0x00, 0x00, 0x00, 0x00, 0x00, 0x00, 0x00,
     0x00, 0x00, 0x00, 0x00, 0x00, 0x00, 0x00, 0x00,
     0x00, 0x00, 0x00, 0x00, 0x00, 0x00, 0x00, 0x00,
     0x00, 0x00, 0x00, 0x00, 0x00, 0x00, 0x00, 0x00,
     0x00, 0x00, 0x00, 0x00, 0x00, 0x00, 0x00, 0x00,
     0x00, 0x00, 0x00, 0x00, 0x00, 0x00, 0x00, 0x00,
     0x00, 0x00, 0x00, 0x00, 0x00, 0x00, 0x00, 0x00,
     0x00, 0x00, 0x00, 0x00, 0x00, 0x00, 0x00, 0x00,
     0x00, 0x00, 0x00, 0x00, 0x00, 0x00, 0x00, 0x00,
     0x00, 0x00, 0x00, 0x00, 0x00, 0x00, 0x00, 0x00,
     0x00, 0x00, 0x00, 0x00, 0x00, 0x00, 0x00, 0x00,
     0x00, 0x00, 0x00, 0x00, 0x00, 0x00, 0x00, 0x00,
     0x00, 0x00, 0x00, 0x00, 0x00, 0x00, 0x00, 0x00,
     0x00, 0x00, 0x00, 0x00, 0x07, 0x00, 0x00, 0x00,
     0x00, 0x00, 0x00, 0x00, 0x00, 0x00, 0x00, 0x00,
     0x00, 0x00, 0x00, 0x00, 0x00, 0x09, 0x00, 0x00,
     0x00, 0x00, 0x00, 0x00, 0x00, 0x00, 0x00, 0x00,
     0x00, 0x00, 0x00, 0x00, 0x00, 0x00, 0x00, 0x00,
     0x00, 0x00, 0x00, 0x00, 0x00, 0x00, 0x00, 0x00,
     0x00, 0x00, 0x00, 0x00, 0x00, 0x00, 0x00, 0x00,
     0x00, 0x00, 0x00, 0x00, 0x00, 0x00, 0x00, 0x00,
     0x00, 0x00, 0x00, 0x00, 0x00, 0x00, 0x00, 0x00]"

definition CFUniCharCombiningPropertyBitmap_9 :: "u8 list" where
  "CFUniCharCombiningPropertyBitmap_9 = [
     0x00, 0x00, 0x00, 0x00, 0x00, 0x00, 0x00, 0x00,
     0x00, 0x00, 0x00, 0x00, 0x00, 0x00, 0x00, 0x00,
     0x00, 0x00, 0x00, 0x00, 0x00, 0x00, 0x00, 0x00,
     0x00, 0x00, 0x00, 0x00, 0x00, 0x00, 0x00, 0x00,
     0x00, 0x00, 0x00, 0x00, 0x00, 0x00, 0x00, 0x00,
     0x00, 0x00, 0x00, 0x00, 0x00, 0x00, 0x00, 0x00,
     0x00, 0x00, 0x00, 0x00, 0x00, 0x00, 0x00, 0x00,
     0x00, 0x00, 0x00, 0x00, 0x07, 0x00, 0x00, 0x00,
     0x00, 0x00, 0x00, 0x00, 0x00, 0x00, 0x00, 0x00,
     0x00, 0x00, 0x00, 0x00, 0x00, 0x09, 0x00, 0x00,
     0x00, 0x00, 0x00, 0x00, 0x00, 0x00, 0x00, 0x00,
     0x00, 0x00, 0x00, 0x00, 0x00, 0x00, 0x00, 0x00,
     0x00, 0x00, 0x00, 0x00, 0x00, 0x00, 0x00, 0x00,
     0x00, 0x00, 0x00, 0x00, 0x00, 0x00, 0x00, 0x00,
     0x00, 0x00, 0x00, 0x00, 0x00, 0x00, 0x00, 0x00,
     0x00, 0x00, 0x00, 0x00, 0x00, 0x00, 0x00, 0x00,
     0x00, 0x00, 0x00, 0x00, 0x00, 0x00, 0x00, 0x00,
     0x00, 0x00, 0x00, 0x00, 0x00, 0x00, 0x00, 0x00,
     0x00, 0x00, 0x00, 0x00, 0x00, 0x00, 0x00, 0x00,
     0x00, 0x00, 0x00, 0x00, 0x00, 0x00, 0x00, 0x00,
     0x00, 0x00, 0x00, 0x00, 0x00, 0x00, 0x00, 0x00,
     0x00, 0x00, 0x00, 0x00, 0x00, 0x00, 0x00, 0x00,
     0x00, 0x00, 0x00, 0x00, 0x00, 0x00, 0x00, 0x00,
     0x00, 0x00, 0x00, 0x00, 0x00, 0x00, 0x00, 0x00,
     0x00, 0x00, 0x00, 0x00, 0x00, 0x00, 0x00, 0x00,
     0x00, 0x00, 0x00, 0x00, 0x00, 0x09, 0x00, 0x00,
     0x00, 0x00, 0x00, 0x00, 0x00, 0x00, 0x00, 0x00,
     0x00, 0x00, 0x00, 0x00, 0x00, 0x00, 0x00, 0x00,
     0x00, 0x00, 0x00, 0x00, 0x00, 0x00, 0x00, 0x00,
     0x00, 0x00, 0x00, 0x00, 0x00, 0x00, 0x00, 0x00,
     0x00, 0x00, 0x00, 0x00, 0x00, 0x00, 0x00, 0x00,
     0x00, 0x00, 0x00, 0x00, 0x00, 0x00, 0x00, 0x00]"

definition CFUniCharCombiningPropertyBitmap_10 :: "u8 list" where
  "CFUniCharCombiningPropertyBitmap_10 = [
     0x00, 0x00, 0x00, 0x00, 0x00, 0x00, 0x00, 0x00,
     0x00, 0x00, 0x00, 0x00, 0x00, 0x00, 0x00, 0x00,
     0x00, 0x00, 0x00, 0x00, 0x00, 0x00, 0x00, 0x00,
     0x00, 0x00, 0x00, 0x00, 0x00, 0x00, 0x00, 0x00,
     0x00, 0x00, 0x00, 0x00, 0x00, 0x00, 0x00, 0x00,
     0x00, 0x00, 0x00, 0x00, 0x00, 0x00, 0x00, 0x00,
     0x00, 0x00, 0x00, 0x00, 0x00, 0x00, 0x00, 0x00,
     0x00, 0x00, 0x00, 0x00, 0x00, 0x00, 0x00, 0x00,
     0x00, 0x00, 0x00, 0x00, 0x00, 0x00, 0x00, 0x00,
     0x00, 0x00, 0x00, 0x00, 0x00, 0x09, 0x00, 0x00,
     0x00, 0x00, 0x00, 0x00, 0x00, 0x54, 0x5b, 0x00,
     0x00, 0x00, 0x00, 0x00, 0x00, 0x00, 0x00, 0x00,
     0x00, 0x00, 0x00, 0x00, 0x00, 0x00, 0x00, 0x00,
     0x00, 0x00, 0x00, 0x00, 0x00, 0x00, 0x00, 0x00,
     0x00, 0x00, 0x00, 0x00, 0x00, 0x00, 0x00, 0x00,
     0x00, 0x00, 0x00, 0x00, 0x00, 0x00, 0x00, 0x00,
     0x00, 0x00, 0x00, 0x00, 0x00, 0x00, 0x00, 0x00,
     0x00, 0x00, 0x00, 0x00, 0x00, 0x00, 0x00, 0x00,
     0x00, 0x00, 0x00, 0x00, 0x00, 0x00, 0x00, 0x00,
     0x00, 0x00, 0x00, 0x00, 0x00, 0x00, 0x00, 0x00,
     0x00, 0x00, 0x00, 0x00, 0x00, 0x00, 0x00, 0x00,
     0x00, 0x00, 0x00, 0x00, 0x00, 0x00, 0x00, 0x00,
     0x00, 0x00, 0x00, 0x00, 0x00, 0x00, 0x00, 0x00,
     0x00, 0x00, 0x00, 0x00, 0x07, 0x00, 0x00, 0x00,
     0x00, 0x00, 0x00, 0x00, 0x00, 0x00, 0x00, 0x00,
     0x00, 0x00, 0x00, 0x00, 0x00, 0x09, 0x00, 0x00,
     0x00, 0x00, 0x00, 0x00, 0x00, 0x00, 0x00, 0x00,
     0x00, 0x00, 0x00, 0x00, 0x00, 0x00, 0x00, 0x00,
     0x00, 0x00, 0x00, 0x00, 0x00, 0x00, 0x00, 0x00,
     0x00, 0x00, 0x00, 0x00, 0x00, 0x00, 0x00, 0x00,
     0x00, 0x00, 0x00, 0x00, 0x00, 0x00, 0x00, 0x00,
     0x00, 0x00, 0x00, 0x00, 0x00, 0x00, 0x00, 0x00]"

definition CFUniCharCombiningPropertyBitmap_11 :: "u8 list" where
  "CFUniCharCombiningPropertyBitmap_11 = [
     0x00, 0x00, 0x00, 0x00, 0x00, 0x00, 0x00, 0x00,
     0x00, 0x00, 0x00, 0x00, 0x00, 0x00, 0x00, 0x00,
     0x00, 0x00, 0x00, 0x00, 0x00, 0x00, 0x00, 0x00,
     0x00, 0x00, 0x00, 0x00, 0x00, 0x00, 0x00, 0x00,
     0x00, 0x00, 0x00, 0x00, 0x00, 0x00, 0x00, 0x00,
     0x00, 0x00, 0x00, 0x00, 0x00, 0x00, 0x00, 0x00,
     0x00, 0x00, 0x00, 0x00, 0x00, 0x00, 0x00, 0x00,
     0x00, 0x00, 0x00, 0x00, 0x00, 0x00, 0x00, 0x00,
     0x00, 0x00, 0x00, 0x00, 0x00, 0x00, 0x00, 0x00,
     0x00, 0x00, 0x00, 0x00, 0x00, 0x09, 0x00, 0x00,
     0x00, 0x00, 0x00, 0x00, 0x00, 0x00, 0x00, 0x00,
     0x00, 0x00, 0x00, 0x00, 0x00, 0x00, 0x00, 0x00,
     0x00, 0x00, 0x00, 0x00, 0x00, 0x00, 0x00, 0x00,
     0x00, 0x00, 0x00, 0x00, 0x00, 0x00, 0x00, 0x00,
     0x00, 0x00, 0x00, 0x00, 0x00, 0x00, 0x00, 0x00,
     0x00, 0x00, 0x00, 0x00, 0x00, 0x00, 0x00, 0x00,
     0x00, 0x00, 0x00, 0x00, 0x00, 0x00, 0x00, 0x00,
     0x00, 0x00, 0x00, 0x00, 0x00, 0x00, 0x00, 0x00,
     0x00, 0x00, 0x00, 0x00, 0x00, 0x00, 0x00, 0x00,
     0x00, 0x00, 0x00, 0x00, 0x00, 0x00, 0x00, 0x00,
     0x00, 0x00, 0x00, 0x00, 0x00, 0x00, 0x00, 0x00,
     0x00, 0x00, 0x00, 0x00, 0x00, 0x00, 0x00, 0x00,
     0x00, 0x00, 0x00, 0x00, 0x00, 0x00, 0x00, 0x00,
     0x00, 0x00, 0x00, 0x00, 0x00, 0x00, 0x00, 0x00,
     0x00, 0x00, 0x00, 0x00, 0x00, 0x00, 0x00, 0x00,
     0x00, 0x00, 0x09, 0x00, 0x00, 0x00, 0x00, 0x00,
     0x00, 0x00, 0x00, 0x00, 0x00, 0x00, 0x00, 0x00,
     0x00, 0x00, 0x00, 0x00, 0x00, 0x00, 0x00, 0x00,
     0x00, 0x00, 0x00, 0x00, 0x00, 0x00, 0x00, 0x00,
     0x00, 0x00, 0x00, 0x00, 0x00, 0x00, 0x00, 0x00,
     0x00, 0x00, 0x00, 0x00, 0x00, 0x00, 0x00, 0x00,
     0x00, 0x00, 0x00, 0x00, 0x00, 0x00, 0x00, 0x00]"

definition CFUniCharCombiningPropertyBitmap_12 :: "u8 list" where
  "CFUniCharCombiningPropertyBitmap_12 = [
     0x00, 0x00, 0x00, 0x00, 0x00, 0x00, 0x00, 0x00,
     0x00, 0x00, 0x00, 0x00, 0x00, 0x00, 0x00, 0x00,
     0x00, 0x00, 0x00, 0x00, 0x00, 0x00, 0x00, 0x00,
     0x00, 0x00, 0x00, 0x00, 0x00, 0x00, 0x00, 0x00,
     0x00, 0x00, 0x00, 0x00, 0x00, 0x00, 0x00, 0x00,
     0x00, 0x00, 0x00, 0x00, 0x00, 0x00, 0x00, 0x00,
     0x00, 0x00, 0x00, 0x00, 0x00, 0x00, 0x00, 0x00,
     0x67, 0x67, 0x09, 0x00, 0x00, 0x00, 0x00, 0x00,
     0x00, 0x00, 0x00, 0x00, 0x00, 0x00, 0x00, 0x00,
     0x6b, 0x6b, 0x6b, 0x6b, 0x00, 0x00, 0x00, 0x00,
     0x00, 0x00, 0x00, 0x00, 0x00, 0x00, 0x00, 0x00,
     0x00, 0x00, 0x00, 0x00, 0x00, 0x00, 0x00, 0x00,
     0x00, 0x00, 0x00, 0x00, 0x00, 0x00, 0x00, 0x00,
     0x00, 0x00, 0x00, 0x00, 0x00, 0x00, 0x00, 0x00,
     0x00, 0x00, 0x00, 0x00, 0x00, 0x00, 0x00, 0x00,
     0x00, 0x00, 0x00, 0x00, 0x00, 0x00, 0x00, 0x00,
     0x00, 0x00, 0x00, 0x00, 0x00, 0x00, 0x00, 0x00,
     0x00, 0x00, 0x00, 0x00, 0x00, 0x00, 0x00, 0x00,
     0x00, 0x00, 0x00, 0x00, 0x00, 0x00, 0x00, 0x00,
     0x00, 0x00, 0x00, 0x00, 0x00, 0x00, 0x00, 0x00,
     0x00, 0x00, 0x00, 0x00, 0x00, 0x00, 0x00, 0x00,
     0x00, 0x00, 0x00, 0x00, 0x00, 0x00, 0x00, 0x00,
     0x00, 0x00, 0x00, 0x00, 0x00, 0x00, 0x00, 0x00,
     0x76, 0x76, 0x00, 0x00, 0x00, 0x00, 0x00, 0x00,
     0x00, 0x00, 0x00, 0x00, 0x00, 0x00, 0x00, 0x00,
     0x7a, 0x7a, 0x7a, 0x7a, 0x00, 0x00, 0x00, 0x00,
     0x00, 0x00, 0x00, 0x00, 0x00, 0x00, 0x00, 0x00,
     0x00, 0x00, 0x00, 0x00, 0x00, 0x00, 0x00, 0x00,
     0x00, 0x00, 0x00, 0x00, 0x00, 0x00, 0x00, 0x00,
     0x00, 0x00, 0x00, 0x00, 0x00, 0x00, 0x00, 0x00,
     0x00, 0x00, 0x00, 0x00, 0x00, 0x00, 0x00, 0x00,
     0x00, 0x00, 0x00, 0x00, 0x00, 0x00, 0x00, 0x00]"

definition CFUniCharCombiningPropertyBitmap_13 :: "u8 list" where
  "CFUniCharCombiningPropertyBitmap_13 = [
     0x00, 0x00, 0x00, 0x00, 0x00, 0x00, 0x00, 0x00,
     0x00, 0x00, 0x00, 0x00, 0x00, 0x00, 0x00, 0x00,
     0x00, 0x00, 0x00, 0x00, 0x00, 0x00, 0x00, 0x00,
     0xdc, 0xdc, 0x00, 0x00, 0x00, 0x00, 0x00, 0x00,
     0x00, 0x00, 0x00, 0x00, 0x00, 0x00, 0x00, 0x00,
     0x00, 0x00, 0x00, 0x00, 0x00, 0x00, 0x00, 0x00,
     0x00, 0x00, 0x00, 0x00, 0x00, 0xdc, 0x00, 0xdc,
     0x00, 0xd8, 0x00, 0x00, 0x00, 0x00, 0x00, 0x00,
     0x00, 0x00, 0x00, 0x00, 0x00, 0x00, 0x00, 0x00,
     0x00, 0x00, 0x00, 0x00, 0x00, 0x00, 0x00, 0x00,
     0x00, 0x00, 0x00, 0x00, 0x00, 0x00, 0x00, 0x00,
     0x00, 0x00, 0x00, 0x00, 0x00, 0x00, 0x00, 0x00,
     0x00, 0x00, 0x00, 0x00, 0x00, 0x00, 0x00, 0x00,
     0x00, 0x00, 0x00, 0x00, 0x00, 0x00, 0x00, 0x00,
     0x00, 0x81, 0x82, 0x00, 0x84, 0x00, 0x00, 0x00,
     0x00, 0x00, 0x82, 0x82, 0x82, 0x82, 0x00, 0x00,
     0x82, 0x00, 0xe6, 0xe6, 0x09, 0x00, 0xe6, 0xe6,
     0x00, 0x00, 0x00, 0x00, 0x00, 0x00, 0x00, 0x00,
     0x00, 0x00, 0x00, 0x00, 0x00, 0x00, 0x00, 0x00,
     0x00, 0x00, 0x00, 0x00, 0x00, 0x00, 0x00, 0x00,
     0x00, 0x00, 0x00, 0x00, 0x00, 0x00, 0x00, 0x00,
     0x00, 0x00, 0x00, 0x00, 0x00, 0x00, 0x00, 0x00,
     0x00, 0x00, 0x00, 0x00, 0x00, 0x00, 0x00, 0x00,
     0x00, 0x00, 0x00, 0x00, 0x00, 0x00, 0x00, 0x00,
     0x00, 0x00, 0x00, 0x00, 0x00, 0x00, 0xdc, 0x00,
     0x00, 0x00, 0x00, 0x00, 0x00, 0x00, 0x00, 0x00,
     0x00, 0x00, 0x00, 0x00, 0x00, 0x00, 0x00, 0x00,
     0x00, 0x00, 0x00, 0x00, 0x00, 0x00, 0x00, 0x00,
     0x00, 0x00, 0x00, 0x00, 0x00, 0x00, 0x00, 0x00,
     0x00, 0x00, 0x00, 0x00, 0x00, 0x00, 0x00, 0x00,
     0x00, 0x00, 0x00, 0x00, 0x00, 0x00, 0x00, 0x00,
     0x00, 0x00, 0x00, 0x00, 0x00, 0x00, 0x00, 0x00]"

definition CFUniCharCombiningPropertyBitmap_14 :: "u8 list" where
  "CFUniCharCombiningPropertyBitmap_14 = [
     0x00, 0x00, 0x00, 0x00, 0x00, 0x00, 0x00, 0x00,
     0x00, 0x00, 0x00, 0x00, 0x00, 0x00, 0x00, 0x00,
     0x00, 0x00, 0x00, 0x00, 0x00, 0x00, 0x00, 0x00,
     0x00, 0x00, 0x00, 0x00, 0x00, 0x00, 0x00, 0x00,
     0x00, 0x00, 0x00, 0x00, 0x00, 0x00, 0x00, 0x00,
     0x00, 0x00, 0x00, 0x00, 0x00, 0x00, 0x00, 0x00,
     0x00, 0x00, 0x00, 0x00, 0x00, 0x00, 0x00, 0x07,
     0x00, 0x09, 0x00, 0x00, 0x00, 0x00, 0x00, 0x00,
     0x00, 0x00, 0x00, 0x00, 0x00, 0x00, 0x00, 0x00,
     0x00, 0x00, 0x00, 0x00, 0x00, 0x00, 0x00, 0x00,
     0x00, 0x00, 0x00, 0x00, 0x00, 0x00, 0x00, 0x00,
     0x00, 0x00, 0x00, 0x00, 0x00, 0x00, 0x00, 0x00,
     0x00, 0x00, 0x00, 0x00, 0x00, 0x00, 0x00, 0x00,
     0x00, 0x00, 0x00, 0x00, 0x00, 0x00, 0x00, 0x00,
     0x00, 0x00, 0x00, 0x00, 0x00, 0x00, 0x00, 0x00,
     0x00, 0x00, 0x00, 0x00, 0x00, 0x00, 0x00, 0x00,
     0x00, 0x00, 0x00, 0x00, 0x00, 0x00, 0x00, 0x00,
     0x00, 0x00, 0x00, 0x00, 0x00, 0x00, 0x00, 0x00,
     0x00, 0x00, 0x00, 0x00, 0x00, 0x00, 0x00, 0x00,
     0x00, 0x00, 0x00, 0x00, 0x00, 0x00, 0x00, 0x00,
     0x00, 0x00, 0x00, 0x00, 0x00, 0x00, 0x00, 0x00,
     0x00, 0x00, 0x00, 0x00, 0x00, 0x00, 0x00, 0x00,
     0x00, 0x00, 0x00, 0x00, 0x00, 0x00, 0x00, 0x00,
     0x00, 0x00, 0x00, 0x00, 0x00, 0x00, 0x00, 0x00,
     0x00, 0x00, 0x00, 0x00, 0x00, 0x00, 0x00, 0x00,
     0x00, 0x00, 0x00, 0x00, 0x00, 0x00, 0x00, 0x00,
     0x00, 0x00, 0x00, 0x00, 0x00, 0x00, 0x00, 0x00,
     0x00, 0x00, 0x00, 0x00, 0x00, 0x00, 0x00, 0x00,
     0x00, 0x00, 0x00, 0x00, 0x00, 0x00, 0x00, 0x00,
     0x00, 0x00, 0x00, 0x00, 0x00, 0x00, 0x00, 0x00,
     0x00, 0x00, 0x00, 0x00, 0x00, 0x00, 0x00, 0x00,
     0x00, 0x00, 0x00, 0x00, 0x00, 0x00, 0x00, 0x00]"

definition CFUniCharCombiningPropertyBitmap_15 :: "u8 list" where
  "CFUniCharCombiningPropertyBitmap_15 = [
     0x00, 0x00, 0x00, 0x00, 0x00, 0x00, 0x00, 0x00,
     0x00, 0x00, 0x00, 0x00, 0x00, 0x00, 0x00, 0x00,
     0x00, 0x00, 0x00, 0x00, 0x09, 0x00, 0x00, 0x00,
     0x00, 0x00, 0x00, 0x00, 0x00, 0x00, 0x00, 0x00,
     0x00, 0x00, 0x00, 0x00, 0x00, 0x00, 0x00, 0x00,
     0x00, 0x00, 0x00, 0x00, 0x00, 0x00, 0x00, 0x00,
     0x00, 0x00, 0x00, 0x00, 0x09, 0x00, 0x00, 0x00,
     0x00, 0x00, 0x00, 0x00, 0x00, 0x00, 0x00, 0x00,
     0x00, 0x00, 0x00, 0x00, 0x00, 0x00, 0x00, 0x00,
     0x00, 0x00, 0x00, 0x00, 0x00, 0x00, 0x00, 0x00,
     0x00, 0x00, 0x00, 0x00, 0x00, 0x00, 0x00, 0x00,
     0x00, 0x00, 0x00, 0x00, 0x00, 0x00, 0x00, 0x00,
     0x00, 0x00, 0x00, 0x00, 0x00, 0x00, 0x00, 0x00,
     0x00, 0x00, 0x00, 0x00, 0x00, 0x00, 0x00, 0x00,
     0x00, 0x00, 0x00, 0x00, 0x00, 0x00, 0x00, 0x00,
     0x00, 0x00, 0x00, 0x00, 0x00, 0x00, 0x00, 0x00,
     0x00, 0x00, 0x00, 0x00, 0x00, 0x00, 0x00, 0x00,
     0x00, 0x00, 0x00, 0x00, 0x00, 0x00, 0x00, 0x00,
     0x00, 0x00, 0x00, 0x00, 0x00, 0x00, 0x00, 0x00,
     0x00, 0x00, 0x00, 0x00, 0x00, 0x00, 0x00, 0x00,
     0x00, 0x00, 0x00, 0x00, 0x00, 0x00, 0x00, 0x00,
     0x00, 0x00, 0x00, 0x00, 0x00, 0x00, 0x00, 0x00,
     0x00, 0x00, 0x00, 0x00, 0x00, 0x00, 0x00, 0x00,
     0x00, 0x00, 0x00, 0x00, 0x00, 0x00, 0x00, 0x00,
     0x00, 0x00, 0x00, 0x00, 0x00, 0x00, 0x00, 0x00,
     0x00, 0x00, 0x00, 0x00, 0x00, 0x00, 0x00, 0x00,
     0x00, 0x00, 0x09, 0x00, 0x00, 0x00, 0x00, 0x00,
     0x00, 0x00, 0x00, 0x00, 0x00, 0xe6, 0x00, 0x00,
     0x00, 0x00, 0x00, 0x00, 0x00, 0x00, 0x00, 0x00,
     0x00, 0x00, 0x00, 0x00, 0x00, 0x00, 0x00, 0x00,
     0x00, 0x00, 0x00, 0x00, 0x00, 0x00, 0x00, 0x00,
     0x00, 0x00, 0x00, 0x00, 0x00, 0x00, 0x00, 0x00]"

definition CFUniCharCombiningPropertyBitmap_16 :: "u8 list" where
  "CFUniCharCombiningPropertyBitmap_16 = [
     0x00, 0x00, 0x00, 0x00, 0x00, 0x00, 0x00, 0x00,
     0x00, 0x00, 0x00, 0x00, 0x00, 0x00, 0x00, 0x00,
     0x00, 0x00, 0x00, 0x00, 0x00, 0x00, 0x00, 0x00,
     0x00, 0x00, 0x00, 0x00, 0x00, 0x00, 0x00, 0x00,
     0x00, 0x00, 0x00, 0x00, 0x00, 0x00, 0x00, 0x00,
     0x00, 0x00, 0x00, 0x00, 0x00, 0x00, 0x00, 0x00,
     0x00, 0x00, 0x00, 0x00, 0x00, 0x00, 0x00, 0x00,
     0x00, 0x00, 0x00, 0x00, 0x00, 0x00, 0x00, 0x00,
     0x00, 0x00, 0x00, 0x00, 0x00, 0x00, 0x00, 0x00,
     0x00, 0x00, 0x00, 0x00, 0x00, 0x00, 0x00, 0x00,
     0x00, 0x00, 0x00, 0x00, 0x00, 0x00, 0x00, 0x00,
     0x00, 0x00, 0x00, 0x00, 0x00, 0x00, 0x00, 0x00,
     0x00, 0x00, 0x00, 0x00, 0x00, 0x00, 0x00, 0x00,
     0x00, 0x00, 0x00, 0x00, 0x00, 0x00, 0x00, 0x00,
     0x00, 0x00, 0x00, 0x00, 0x00, 0x00, 0x00, 0x00,
     0x00, 0x00, 0x00, 0x00, 0x00, 0x00, 0x00, 0x00,
     0x00, 0x00, 0x00, 0x00, 0x00, 0x00, 0x00, 0x00,
     0x00, 0x00, 0x00, 0x00, 0x00, 0x00, 0x00, 0x00,
     0x00, 0x00, 0x00, 0x00, 0x00, 0x00, 0x00, 0x00,
     0x00, 0x00, 0x00, 0x00, 0x00, 0x00, 0x00, 0x00,
     0x00, 0x00, 0x00, 0x00, 0x00, 0x00, 0x00, 0x00,
     0x00, 0xe4, 0x00, 0x00, 0x00, 0x00, 0x00, 0x00,
     0x00, 0x00, 0x00, 0x00, 0x00, 0x00, 0x00, 0x00,
     0x00, 0x00, 0x00, 0x00, 0x00, 0x00, 0x00, 0x00,
     0x00, 0x00, 0x00, 0x00, 0x00, 0x00, 0x00, 0x00,
     0x00, 0x00, 0x00, 0x00, 0x00, 0x00, 0x00, 0x00,
     0x00, 0x00, 0x00, 0x00, 0x00, 0x00, 0x00, 0x00,
     0x00, 0x00, 0x00, 0x00, 0x00, 0x00, 0x00, 0x00,
     0x00, 0x00, 0x00, 0x00, 0x00, 0x00, 0x00, 0x00,
     0x00, 0x00, 0x00, 0x00, 0x00, 0x00, 0x00, 0x00,
     0x00, 0x00, 0x00, 0x00, 0x00, 0x00, 0x00, 0x00,
     0x00, 0x00, 0x00, 0x00, 0x00, 0x00, 0x00, 0x00]"

definition CFUniCharCombiningPropertyBitmap_17 :: "u8 list" where
  "CFUniCharCombiningPropertyBitmap_17 = [
     0x00, 0x00, 0x00, 0x00, 0x00, 0x00, 0x00, 0x00,
     0x00, 0x00, 0x00, 0x00, 0x00, 0x00, 0x00, 0x00,
     0x00, 0x00, 0x00, 0x00, 0x00, 0x00, 0x00, 0x00,
     0x00, 0x00, 0x00, 0x00, 0x00, 0x00, 0x00, 0x00,
     0x00, 0x00, 0x00, 0x00, 0x00, 0x00, 0x00, 0x00,
     0x00, 0x00, 0x00, 0x00, 0x00, 0x00, 0x00, 0x00,
     0x00, 0x00, 0x00, 0x00, 0x00, 0x00, 0x00, 0x00,
     0x00, 0xde, 0xe6, 0xdc, 0x00, 0x00, 0x00, 0x00,
     0x00, 0x00, 0x00, 0x00, 0x00, 0x00, 0x00, 0x00,
     0x00, 0x00, 0x00, 0x00, 0x00, 0x00, 0x00, 0x00,
     0x00, 0x00, 0x00, 0x00, 0x00, 0x00, 0x00, 0x00,
     0x00, 0x00, 0x00, 0x00, 0x00, 0x00, 0x00, 0x00,
     0x00, 0x00, 0x00, 0x00, 0x00, 0x00, 0x00, 0x00,
     0x00, 0x00, 0x00, 0x00, 0x00, 0x00, 0x00, 0x00,
     0x00, 0x00, 0x00, 0x00, 0x00, 0x00, 0x00, 0x00,
     0x00, 0x00, 0x00, 0x00, 0x00, 0x00, 0x00, 0x00,
     0x00, 0x00, 0x00, 0x00, 0x00, 0x00, 0x00, 0x00,
     0x00, 0x00, 0x00, 0x00, 0x00, 0x00, 0x00, 0x00,
     0x00, 0x00, 0x00, 0x00, 0x00, 0x00, 0x00, 0x00,
     0x00, 0x00, 0x00, 0x00, 0x00, 0x00, 0x00, 0x00,
     0x00, 0x00, 0x00, 0x00, 0x00, 0x00, 0x00, 0x00,
     0x00, 0x00, 0x00, 0x00, 0x00, 0x00, 0x00, 0x00,
     0x00, 0x00, 0x00, 0x00, 0x00, 0x00, 0x00, 0x00,
     0x00, 0x00, 0x00, 0x00, 0x00, 0x00, 0x00, 0x00,
     0x00, 0x00, 0x00, 0x00, 0x00, 0x00, 0x00, 0x00,
     0x00, 0x00, 0x00, 0x00, 0x00, 0x00, 0x00, 0x00,
     0x00, 0x00, 0x00, 0x00, 0x00, 0x00, 0x00, 0x00,
     0x00, 0x00, 0x00, 0x00, 0x00, 0x00, 0x00, 0x00,
     0x00, 0x00, 0x00, 0x00, 0x00, 0x00, 0x00, 0x00,
     0x00, 0x00, 0x00, 0x00, 0x00, 0x00, 0x00, 0x00,
     0x00, 0x00, 0x00, 0x00, 0x00, 0x00, 0x00, 0x00,
     0x00, 0x00, 0x00, 0x00, 0x00, 0x00, 0x00, 0x00]"

definition CFUniCharCombiningPropertyBitmap_18 :: "u8 list" where
  "CFUniCharCombiningPropertyBitmap_18 = [
     0x00, 0x00, 0x00, 0x00, 0x00, 0x00, 0x00, 0x00,
     0x00, 0x00, 0x00, 0x00, 0x00, 0x00, 0x00, 0x00,
     0x00, 0x00, 0x00, 0x00, 0x00, 0x00, 0x00, 0x00,
     0x00, 0x00, 0x00, 0x00, 0x00, 0x00, 0x00, 0x00,
     0x00, 0x00, 0x00, 0x00, 0x00, 0x00, 0x00, 0x00,
     0x00, 0x00, 0x00, 0x00, 0x00, 0x00, 0x00, 0x00,
     0x00, 0x00, 0x00, 0x00, 0x00, 0x00, 0x00, 0x00,
     0x00, 0x00, 0x00, 0x00, 0x00, 0x00, 0x00, 0x00,
     0x00, 0x00, 0x00, 0x00, 0x00, 0x00, 0x00, 0x00,
     0x00, 0x00, 0x00, 0x00, 0x00, 0x00, 0x00, 0x00,
     0x00, 0x00, 0x00, 0x00, 0x00, 0x00, 0x00, 0x00,
     0x00, 0x00, 0x00, 0x00, 0x00, 0x00, 0x00, 0x00,
     0x00, 0x00, 0x00, 0x00, 0x00, 0x00, 0x00, 0x00,
     0x00, 0x00, 0x00, 0x00, 0x00, 0x00, 0x00, 0x00,
     0x00, 0x00, 0x00, 0x00, 0x00, 0x00, 0x00, 0x00,
     0x00, 0x00, 0x00, 0x00, 0x00, 0x00, 0x00, 0x00,
     0x00, 0x00, 0x00, 0x00, 0x00, 0x00, 0x00, 0x00,
     0x00, 0x00, 0x00, 0x00, 0x00, 0x00, 0x00, 0x00,
     0x00, 0x00, 0x00, 0x00, 0x00, 0x00, 0x00, 0x00,
     0x00, 0x00, 0x00, 0x00, 0x00, 0x00, 0x00, 0x00,
     0x00, 0x00, 0x00, 0x00, 0x00, 0x00, 0x00, 0x00,
     0x00, 0x00, 0x00, 0x00, 0x00, 0x00, 0x00, 0x00,
     0x00, 0x00, 0x00, 0x00, 0x00, 0x00, 0x00, 0x00,
     0x00, 0x00, 0x00, 0x00, 0x00, 0x00, 0x00, 0x00,
     0x00, 0x00, 0x00, 0x00, 0x00, 0x00, 0x00, 0x00,
     0x00, 0x00, 0x00, 0x00, 0x00, 0x00, 0x00, 0x00,
     0xe6, 0xe6, 0x01, 0x01, 0xe6, 0xe6, 0xe6, 0xe6,
     0x01, 0x01, 0x01, 0xe6, 0xe6, 0x00, 0x00, 0x00,
     0x00, 0xe6, 0x00, 0x00, 0x00, 0x01, 0x01, 0xe6,
     0xdc, 0xe6, 0x01, 0x00, 0x00, 0x00, 0x00, 0x00,
     0x00, 0x00, 0x00, 0x00, 0x00, 0x00, 0x00, 0x00,
     0x00, 0x00, 0x00, 0x00, 0x00, 0x00, 0x00, 0x00]"

definition CFUniCharCombiningPropertyBitmap_19 :: "u8 list" where
  "CFUniCharCombiningPropertyBitmap_19 = [
     0x00, 0x00, 0x00, 0x00, 0x00, 0x00, 0x00, 0x00,
     0x00, 0x00, 0x00, 0x00, 0x00, 0x00, 0x00, 0x00,
     0x00, 0x00, 0x00, 0x00, 0x00, 0x00, 0x00, 0x00,
     0x00, 0x00, 0x00, 0x00, 0x00, 0x00, 0x00, 0x00,
     0x00, 0x00, 0x00, 0x00, 0x00, 0x00, 0x00, 0x00,
     0x00, 0x00, 0xda, 0xe4, 0xe8, 0xde, 0xe0, 0xe0,
     0x00, 0x00, 0x00, 0x00, 0x00, 0x00, 0x00, 0x00,
     0x00, 0x00, 0x00, 0x00, 0x00, 0x00, 0x00, 0x00,
     0x00, 0x00, 0x00, 0x00, 0x00, 0x00, 0x00, 0x00,
     0x00, 0x00, 0x00, 0x00, 0x00, 0x00, 0x00, 0x00,
     0x00, 0x00, 0x00, 0x00, 0x00, 0x00, 0x00, 0x00,
     0x00, 0x00, 0x00, 0x00, 0x00, 0x00, 0x00, 0x00,
     0x00, 0x00, 0x00, 0x00, 0x00, 0x00, 0x00, 0x00,
     0x00, 0x00, 0x00, 0x00, 0x00, 0x00, 0x00, 0x00,
     0x00, 0x00, 0x00, 0x00, 0x00, 0x00, 0x00, 0x00,
     0x00, 0x00, 0x00, 0x00, 0x00, 0x00, 0x00, 0x00,
     0x00, 0x00, 0x00, 0x00, 0x00, 0x00, 0x00, 0x00,
     0x00, 0x00, 0x00, 0x00, 0x00, 0x00, 0x00, 0x00,
     0x00, 0x00, 0x00, 0x00, 0x00, 0x00, 0x00, 0x00,
     0x00, 0x08, 0x08, 0x00, 0x00, 0x00, 0x00, 0x00,
     0x00, 0x00, 0x00, 0x00, 0x00, 0x00, 0x00, 0x00,
     0x00, 0x00, 0x00, 0x00, 0x00, 0x00, 0x00, 0x00,
     0x00, 0x00, 0x00, 0x00, 0x00, 0x00, 0x00, 0x00,
     0x00, 0x00, 0x00, 0x00, 0x00, 0x00, 0x00, 0x00,
     0x00, 0x00, 0x00, 0x00, 0x00, 0x00, 0x00, 0x00,
     0x00, 0x00, 0x00, 0x00, 0x00, 0x00, 0x00, 0x00,
     0x00, 0x00, 0x00, 0x00, 0x00, 0x00, 0x00, 0x00,
     0x00, 0x00, 0x00, 0x00, 0x00, 0x00, 0x00, 0x00,
     0x00, 0x00, 0x00, 0x00, 0x00, 0x00, 0x00, 0x00,
     0x00, 0x00, 0x00, 0x00, 0x00, 0x00, 0x00, 0x00,
     0x00, 0x00, 0x00, 0x00, 0x00, 0x00, 0x00, 0x00,
     0x00, 0x00, 0x00, 0x00, 0x00, 0x00, 0x00, 0x00]"

definition CFUniCharCombiningPropertyBitmap_20 :: "u8 list" where
  "CFUniCharCombiningPropertyBitmap_20 = [
     0x00, 0x00, 0x00, 0x00, 0x00, 0x00, 0x00, 0x00,
     0x00, 0x00, 0x00, 0x00, 0x00, 0x00, 0x00, 0x00,
     0x00, 0x00, 0x00, 0x00, 0x00, 0x00, 0x00, 0x00,
     0x00, 0x00, 0x00, 0x00, 0x00, 0x00, 0x1a, 0x00,
     0x00, 0x00, 0x00, 0x00, 0x00, 0x00, 0x00, 0x00,
     0x00, 0x00, 0x00, 0x00, 0x00, 0x00, 0x00, 0x00,
     0x00, 0x00, 0x00, 0x00, 0x00, 0x00, 0x00, 0x00,
     0x00, 0x00, 0x00, 0x00, 0x00, 0x00, 0x00, 0x00,
     0x00, 0x00, 0x00, 0x00, 0x00, 0x00, 0x00, 0x00,
     0x00, 0x00, 0x00, 0x00, 0x00, 0x00, 0x00, 0x00,
     0x00, 0x00, 0x00, 0x00, 0x00, 0x00, 0x00, 0x00,
     0x00, 0x00, 0x00, 0x00, 0x00, 0x00, 0x00, 0x00,
     0x00, 0x00, 0x00, 0x00, 0x00, 0x00, 0x00, 0x00,
     0x00, 0x00, 0x00, 0x00, 0x00, 0x00, 0x00, 0x00,
     0x00, 0x00, 0x00, 0x00, 0x00, 0x00, 0x00, 0x00,
     0x00, 0x00, 0x00, 0x00, 0x00, 0x00, 0x00, 0x00,
     0x00, 0x00, 0x00, 0x00, 0x00, 0x00, 0x00, 0x00,
     0x00, 0x00, 0x00, 0x00, 0x00, 0x00, 0x00, 0x00,
     0x00, 0x00, 0x00, 0x00, 0x00, 0x00, 0x00, 0x00,
     0x00, 0x00, 0x00, 0x00, 0x00, 0x00, 0x00, 0x00,
     0x00, 0x00, 0x00, 0x00, 0x00, 0x00, 0x00, 0x00,
     0x00, 0x00, 0x00, 0x00, 0x00, 0x00, 0x00, 0x00,
     0x00, 0x00, 0x00, 0x00, 0x00, 0x00, 0x00, 0x00,
     0x00, 0x00, 0x00, 0x00, 0x00, 0x00, 0x00, 0x00,
     0x00, 0x00, 0x00, 0x00, 0x00, 0x00, 0x00, 0x00,
     0x00, 0x00, 0x00, 0x00, 0x00, 0x00, 0x00, 0x00,
     0x00, 0x00, 0x00, 0x00, 0x00, 0x00, 0x00, 0x00,
     0x00, 0x00, 0x00, 0x00, 0x00, 0x00, 0x00, 0x00,
     0x00, 0x00, 0x00, 0x00, 0x00, 0x00, 0x00, 0x00,
     0x00, 0x00, 0x00, 0x00, 0x00, 0x00, 0x00, 0x00,
     0x00, 0x00, 0x00, 0x00, 0x00, 0x00, 0x00, 0x00,
     0x00, 0x00, 0x00, 0x00, 0x00, 0x00, 0x00, 0x00]"

definition CFUniCharCombiningPropertyBitmap_21 :: "u8 list" where
  "CFUniCharCombiningPropertyBitmap_21 = [
     0x00, 0x00, 0x00, 0x00, 0x00, 0x00, 0x00, 0x00,
     0x00, 0x00, 0x00, 0x00, 0x00, 0x00, 0x00, 0x00,
     0x00, 0x00, 0x00, 0x00, 0x00, 0x00, 0x00, 0x00,
     0x00, 0x00, 0x00, 0x00, 0x00, 0x00, 0x00, 0x00,
     0xe6, 0xe6, 0xe6, 0xe6, 0x00, 0x00, 0x00, 0x00,
     0x00, 0x00, 0x00, 0x00, 0x00, 0x00, 0x00, 0x00,
     0x00, 0x00, 0x00, 0x00, 0x00, 0x00, 0x00, 0x00,
     0x00, 0x00, 0x00, 0x00, 0x00, 0x00, 0x00, 0x00,
     0x00, 0x00, 0x00, 0x00, 0x00, 0x00, 0x00, 0x00,
     0x00, 0x00, 0x00, 0x00, 0x00, 0x00, 0x00, 0x00,
     0x00, 0x00, 0x00, 0x00, 0x00, 0x00, 0x00, 0x00,
     0x00, 0x00, 0x00, 0x00, 0x00, 0x00, 0x00, 0x00,
     0x00, 0x00, 0x00, 0x00, 0x00, 0x00, 0x00, 0x00,
     0x00, 0x00, 0x00, 0x00, 0x00, 0x00, 0x00, 0x00,
     0x00, 0x00, 0x00, 0x00, 0x00, 0x00, 0x00, 0x00,
     0x00, 0x00, 0x00, 0x00, 0x00, 0x00, 0x00, 0x00,
     0x00, 0x00, 0x00, 0x00, 0x00, 0x00, 0x00, 0x00,
     0x00, 0x00, 0x00, 0x00, 0x00, 0x00, 0x00, 0x00,
     0x00, 0x00, 0x00, 0x00, 0x00, 0x00, 0x00, 0x00,
     0x00, 0x00, 0x00, 0x00, 0x00, 0x00, 0x00, 0x00,
     0x00, 0x00, 0x00, 0x00, 0x00, 0x00, 0x00, 0x00,
     0x00, 0x00, 0x00, 0x00, 0x00, 0x00, 0x00, 0x00,
     0x00, 0x00, 0x00, 0x00, 0x00, 0x00, 0x00, 0x00,
     0x00, 0x00, 0x00, 0x00, 0x00, 0x00, 0x00, 0x00,
     0x00, 0x00, 0x00, 0x00, 0x00, 0x00, 0x00, 0x00,
     0x00, 0x00, 0x00, 0x00, 0x00, 0x00, 0x00, 0x00,
     0x00, 0x00, 0x00, 0x00, 0x00, 0x00, 0x00, 0x00,
     0x00, 0x00, 0x00, 0x00, 0x00, 0x00, 0x00, 0x00,
     0x00, 0x00, 0x00, 0x00, 0x00, 0x00, 0x00, 0x00,
     0x00, 0x00, 0x00, 0x00, 0x00, 0x00, 0x00, 0x00,
     0x00, 0x00, 0x00, 0x00, 0x00, 0x00, 0x00, 0x00,
     0x00, 0x00, 0x00, 0x00, 0x00, 0x00, 0x00, 0x00]"

definition CFUniCharCombiningPropertyBitmap :: "u8 list" where
  "CFUniCharCombiningPropertyBitmap = CFUniCharCombiningPropertyBitmap_1 @ CFUniCharCombiningPropertyBitmap_2 @ CFUniCharCombiningPropertyBitmap_3 @ CFUniCharCombiningPropertyBitmap_4 @ CFUniCharCombiningPropertyBitmap_5 @ CFUniCharCombiningPropertyBitmap_6 @ CFUniCharCombiningPropertyBitmap_7 @ CFUniCharCombiningPropertyBitmap_8 @ CFUniCharCombiningPropertyBitmap_9 @ CFUniCharCombiningPropertyBitmap_10 @ CFUniCharCombiningPropertyBitmap_11 @ CFUniCharCombiningPropertyBitmap_12 @ CFUniCharCombiningPropertyBitmap_13 @ CFUniCharCombiningPropertyBitmap_14 @ CFUniCharCombiningPropertyBitmap_15 @ CFUniCharCombiningPropertyBitmap_16 @ CFUniCharCombiningPropertyBitmap_17 @ CFUniCharCombiningPropertyBitmap_18 @ CFUniCharCombiningPropertyBitmap_19 @ CFUniCharCombiningPropertyBitmap_20 @ CFUniCharCombiningPropertyBitmap_21"

definition UniCharDecompositionTableLength :: nat where
  "UniCharDecompositionTableLength = length CFUniCharDecompositionTable div 2"

definition CFUniCharPrecompositionTableLength :: nat where
  "CFUniCharPrecompositionTableLength = length CFUniCharPrecompSourceTable div 2"

end
