(* ===== verification/Utf_Conv.thy ===== *)
theory Utf_Conv
  imports Utf_Data Byte_Order "HOL-Library.Multiset"
begin

text \<open>
  \<^verbatim>\<open>src/src/hfs/Apple/utfconv.c\<close>: the conversion between UTF-8 and the UTF-16 names of the catalog, with
  decomposition, composition and canonical ordering, and its callers in \<^verbatim>\<open>src/src/hfs/unicode.c\<close>. A
  string is the list of its units; what a function stores behind a pointer is a list that grows. A read
  outside a table or an input is \<open>Fault\<close>.
\<close>

abbreviation (input) ENAMETOOLONG :: int where "ENAMETOOLONG \<equiv> 36"
abbreviation (input) EINVAL :: int where "EINVAL \<equiv> 22"
abbreviation (input) UTF_REVERSE_ENDIAN :: u32 where "UTF_REVERSE_ENDIAN \<equiv> 0x1"
abbreviation (input) UTF_NO_NULL_TERM :: u32 where "UTF_NO_NULL_TERM \<equiv> 0x2"
abbreviation (input) UTF_DECOMPOSED :: u32 where "UTF_DECOMPOSED \<equiv> 0x4"
abbreviation (input) UTF_PRECOMPOSED :: u32 where "UTF_PRECOMPOSED \<equiv> 0x8"
abbreviation (input) UTF_ESCAPE_ILLEGAL :: u32 where "UTF_ESCAPE_ILLEGAL \<equiv> 0x10"
abbreviation (input) UTF_SFM_CONVERSIONS :: u32 where "UTF_SFM_CONVERSIONS \<equiv> 0x20"
abbreviation (input) UCS_ALT_NULL :: u16 where "UCS_ALT_NULL \<equiv> 0x2400"
abbreviation (input) SLASH :: u16 where "SLASH \<equiv> 0x2F"

definition has :: "u32 \<Rightarrow> u32 \<Rightarrow> bool" where
  "has flags f \<longleftrightarrow> flags AND f \<noteq> 0"

section \<open>Properties of characters\<close>

text \<open>A bitmap: an index by the high byte, whose entries name a page of 32 bytes, all ones, or none.\<close>

definition in_bitmap :: "u8 list \<Rightarrow> u16 \<Rightarrow> bool" where
  "in_bitmap bitmap character =
     (let value = bitmap ! unat (drop_bit 8 character AND 0xFF) in
      if value = 0xFF then True
      else if value \<noteq> 0
      then bit (bitmap ! ((unat value - 1) * 32 + 256 + unat (character AND 0xFF) div 8)) (unat character mod 8)
      else False)"

definition unicode_combinable :: "u16 \<Rightarrow> bool" where
  "unicode_combinable character =
     (if character < 0x0300 then False else in_bitmap CFUniCharCombiningBitmap character)"

definition unicode_decomposeable :: "u16 \<Rightarrow> bool" where
  "unicode_decomposeable character =
     (if character < 0x00C0 then False else in_bitmap CFUniCharDecomposableBitmap character)"

definition get_combining_class :: "u16 \<Rightarrow> u8" where
  "get_combining_class character =
     (let value = CFUniCharCombiningPropertyBitmap ! unat (drop_bit 8 character) in
      if value \<noteq> 0 then CFUniCharCombiningPropertyBitmap ! (unat value * 256 + unat character mod 256)
      else 0)"

section \<open>Mappings\<close>

text \<open>
  The binary search of \<open>getmappedvalue16\<close> and \<open>getmappedvalue32\<close>, which differ in the width of the
  entries only: a table is a list of keys, each with its value behind it; 0 means that there is none.
\<close>

function mapped_loop :: "'a::len word list \<Rightarrow> 'a word \<Rightarrow> int \<Rightarrow> int \<Rightarrow> 'a word" where
  "mapped_loop theTable character p q =
     (if p \<le> q
      then let divider = p + (q - p) div 2; key = theTable ! (2 * nat divider) in
        if character < key then mapped_loop theTable character p (divider - 1)
        else if character > key then mapped_loop theTable character (divider + 1) q
        else theTable ! (2 * nat divider + 1)
      else 0)"
  by pat_completeness auto
termination by (relation "measure (\<lambda>(_, _, p, q). nat (q + 1 - p))") auto

declare mapped_loop.simps [simp del]

definition getmappedvalue :: "'a::len word list \<Rightarrow> nat \<Rightarrow> 'a word \<Rightarrow> 'a word" where
  "getmappedvalue theTable numElem character =
     (if character < theTable ! 0 \<or> character > theTable ! (2 * (numElem - 1)) then 0
      else mapped_loop theTable character 0 (int numElem - 1))"

definition getmappedvalue16 :: "u16 list \<Rightarrow> nat \<Rightarrow> u16 \<Rightarrow> u16" where
  "getmappedvalue16 = getmappedvalue"

definition getmappedvalue32 :: "u32 list \<Rightarrow> nat \<Rightarrow> u16 \<Rightarrow> u32" where
  "getmappedvalue32 theTable numElem character = getmappedvalue theTable numElem (ucast character)"

section \<open>Decomposition\<close>

text \<open>
  The recursion follows the table, so nothing in the code bounds it; \<open>None\<close> is a recursion that does
  not end, or a read outside the table of sequences.
\<close>

abbreviation (input) RECURSIVE_DECOMPOSITION :: u16 where "RECURSIVE_DECOMPOSITION \<equiv> 0x8000"

definition EXTRACT_COUNT :: "u16 \<Rightarrow> nat" where
  "EXTRACT_COUNT value = unat (drop_bit 12 value AND 0x0007)"

partial_function (option) unicode_recursive_decompose :: "u16 \<Rightarrow> u16 list option" where
  "unicode_recursive_decompose character =
     (let value = getmappedvalue16 CFUniCharDecompositionTable UniCharDecompositionTableLength character;
          count = EXTRACT_COUNT value;
          firstChar = value AND 0x0FFF;
          bmpMappings = (if count = 1 then [firstChar]
                         else drop (unat firstChar) CFUniCharMultipleDecompositionTable) in
      if value AND RECURSIVE_DECOMPOSITION \<noteq> 0
      then (if bmpMappings = [] \<or> count = 0 \<or> length bmpMappings < count then None
            else Option.bind (unicode_recursive_decompose (hd bmpMappings)) (\<lambda>converted.
              if converted = [] then Some []
              else Some (converted @ take (count - 1) (tl bmpMappings))))
      else if length bmpMappings < count then None
      else Some (take count bmpMappings))"

abbreviation (input) HANGUL_SBASE :: nat where "HANGUL_SBASE \<equiv> 0xAC00"
abbreviation (input) HANGUL_LBASE :: nat where "HANGUL_LBASE \<equiv> 0x1100"
abbreviation (input) HANGUL_VBASE :: nat where "HANGUL_VBASE \<equiv> 0x1161"
abbreviation (input) HANGUL_TBASE :: nat where "HANGUL_TBASE \<equiv> 0x11A7"
abbreviation (input) HANGUL_SCOUNT :: nat where "HANGUL_SCOUNT \<equiv> 11172"
abbreviation (input) HANGUL_LCOUNT :: nat where "HANGUL_LCOUNT \<equiv> 19"
abbreviation (input) HANGUL_VCOUNT :: nat where "HANGUL_VCOUNT \<equiv> 21"
abbreviation (input) HANGUL_TCOUNT :: nat where "HANGUL_TCOUNT \<equiv> 28"
abbreviation (input) HANGUL_NCOUNT :: nat where "HANGUL_NCOUNT \<equiv> HANGUL_VCOUNT * HANGUL_TCOUNT"

text \<open>The arithmetic of the code is on \<open>int\<close> and stays below the limits of 16 bits where it stores.\<close>

definition unicode_decompose :: "u16 \<Rightarrow> u16 list option" where
  "unicode_decompose character =
     (if HANGUL_SBASE \<le> unat character \<and> unat character \<le> HANGUL_SBASE + HANGUL_SCOUNT
      then let s = unat character - HANGUL_SBASE in
        Some ([of_nat (s div HANGUL_NCOUNT + HANGUL_LBASE),
               of_nat ((s mod HANGUL_NCOUNT) div HANGUL_TCOUNT + HANGUL_VBASE)] @
              (if s mod HANGUL_TCOUNT \<noteq> 0 then [of_nat (s mod HANGUL_TCOUNT + HANGUL_TBASE)] else []))
      else unicode_recursive_decompose character)"

text \<open>The callers give room for eight units, and use at least the first.\<close>

definition decompose :: "u16 \<Rightarrow> u16 list outcome" where
  "decompose character =
     (case unicode_decompose character of
        None \<Rightarrow> Fault
      | Some converted \<Rightarrow> if length converted \<le> 8 then Done converted else Fault)"

section \<open>Composition\<close>

definition unicode_combine :: "u16 \<Rightarrow> u16 \<Rightarrow> u16" where
  "unicode_combine base combining =
     (let b = unat base; c = unat combining;
          mapped = (let value = getmappedvalue32 CFUniCharPrecompSourceTable CFUniCharPrecompositionTableLength combining in
             if value \<noteq> 0
             then getmappedvalue16 (drop (2 * unat (value AND 0xFFFF)) CFUniCharBMPPrecompDestinationTable)
                    (unat (drop_bit 16 value)) base
             else 0) in
      if HANGUL_VBASE \<le> c \<and> c < HANGUL_TBASE + HANGUL_TCOUNT
      then
        if c < HANGUL_VBASE + HANGUL_VCOUNT \<and> HANGUL_LBASE \<le> b \<and> b < HANGUL_LBASE + HANGUL_LCOUNT
        then of_nat (HANGUL_SBASE + (b - HANGUL_LBASE) * (HANGUL_VCOUNT * HANGUL_TCOUNT) + (c - HANGUL_VBASE) * HANGUL_TCOUNT)
        else if HANGUL_TBASE < c \<and> HANGUL_SBASE \<le> b \<and> b < HANGUL_SBASE + HANGUL_SCOUNT
        then if (b - HANGUL_SBASE) mod HANGUL_TCOUNT \<noteq> 0 then 0 else of_nat (b + (c - HANGUL_TBASE))
        else mapped
      else mapped)"

section \<open>Canonical order\<close>

text \<open>One pass of the sort, at a character and its class; \<open>True\<close> if it changed something.\<close>

fun sort_pass :: "u16 \<Rightarrow> u8 \<Rightarrow> u16 list \<Rightarrow> bool \<times> u16 list" where
  "sort_pass ch1 p1 [] = (False, [ch1])"
| "sort_pass ch1 p1 (ch2 # rest) =
     (let p2 = get_combining_class ch2 in
      if p1 > p2 \<and> p2 \<noteq> 0 then (True, ch2 # snd (sort_pass ch1 p1 rest))
      else let (changes, out) = sort_pass ch2 p2 rest in (changes, ch1 # out))"

text \<open>A pair out of order; every pass that changes something leaves fewer.\<close>

definition misplaced :: "u16 \<Rightarrow> u16 \<Rightarrow> bool" where
  "misplaced a b \<longleftrightarrow> get_combining_class a > get_combining_class b \<and> get_combining_class b \<noteq> 0"

fun inversions :: "u16 list \<Rightarrow> nat" where
  "inversions [] = 0"
| "inversions (a # rest) = length (filter (misplaced a) rest) + inversions rest"

lemma sort_pass_mset: "mset (snd (sort_pass a p xs)) = mset (a # xs)"
  by (induction a p xs rule: sort_pass.induct) (auto simp: Let_def split: prod.splits)

lemma length_filter_mset: "mset xs = mset ys \<Longrightarrow> length (filter P xs) = length (filter P ys)"
  by (metis mset_filter size_mset)

lemma sort_pass_inversions:
  "p = get_combining_class a \<Longrightarrow>
   inversions (snd (sort_pass a p xs)) + (if fst (sort_pass a p xs) then 1 else 0) \<le> inversions (a # xs)"
proof (induction a p xs rule: sort_pass.induct)
  case (2 a p b rest)
  show ?case
  proof (cases "get_combining_class b < p \<and> get_combining_class b \<noteq> 0")
    case True
    then have "misplaced a b" "\<not> misplaced b a" using "2.prems" by (auto simp: misplaced_def)
    moreover have "length (filter (misplaced b) (snd (sort_pass a p rest))) = length (filter (misplaced b) (a # rest))"
      by (rule length_filter_mset [OF sort_pass_mset])
    ultimately show ?thesis using True 2 by (auto simp: Let_def split: if_splits)
  next
    case False
    have "length (filter (misplaced a) (snd (sort_pass b (get_combining_class b) rest))) =
        length (filter (misplaced a) (b # rest))"
      by (rule length_filter_mset [OF sort_pass_mset])
    then show ?thesis using False 2 by (auto simp: Let_def split: prod.splits if_splits)
  qed
qed simp_all

function priortysort :: "u16 list \<Rightarrow> u16 list" where
  "priortysort [] = []"
| "priortysort (ch # rest) =
     (let (changes, out) = sort_pass ch (get_combining_class ch) rest in
      if changes then priortysort out else out)"
  by pat_completeness auto
termination
proof (relation "measure inversions")
  fix ch rest r changes out
  assume "r = sort_pass ch (get_combining_class ch) rest" "(changes, out) = r" changes
  then have "sort_pass ch (get_combining_class ch) rest = (True, out)" by simp
  then show "(out, ch # rest) \<in> measure inversions"
    using sort_pass_inversions [of "get_combining_class ch" ch rest] by simp
qed simp

declare priortysort.simps [simp del]

text \<open>
  The canonical order: every run of characters whose class is not zero, sorted by class and otherwise in
  their order.
\<close>

function canonical :: "u16 list \<Rightarrow> u16 list" where
  "canonical [] = []"
| "canonical (x # xs) =
     (if get_combining_class x = 0 then x # canonical xs
      else sort_key get_combining_class (takeWhile (\<lambda>c. get_combining_class c \<noteq> 0) (x # xs)) @
             canonical (dropWhile (\<lambda>c. get_combining_class c \<noteq> 0) xs))"
  by pat_completeness auto
termination by (relation "measure length") (auto simp: length_dropWhile_le le_imp_less_Suc)

lemma sort_key_swap:
  assumes "f a \<noteq> f b"
  shows "sort_key f (u @ a # b # v) = sort_key f (u @ b # a # v)"
proof (rule properties_for_sort_key)
  show "mset (sort_key f (u @ b # a # v)) = mset (u @ a # b # v)" by simp
  show "sorted (map f (sort_key f (u @ b # a # v)))" by simp
  fix k assume "k \<in> set (sort_key f (u @ b # a # v))"
  show "filter (\<lambda>x. f k = f x) (sort_key f (u @ b # a # v)) = filter (\<lambda>x. f k = f x) (u @ a # b # v)"
    using assms sort_key_stable [of f "f k" "u @ b # a # v"] by (auto simp: eq_commute [of "f k"])
qed

abbreviation marked :: "u16 \<Rightarrow> bool" where
  "marked c \<equiv> get_combining_class c \<noteq> 0"

lemma canonical_run:
  "\<forall>c \<in> set run. marked c \<Longrightarrow> rest = [] \<or> \<not> marked (hd rest) \<Longrightarrow>
   canonical (run @ rest) = sort_key get_combining_class run @ canonical rest"
proof (cases run)
  case (Cons c cs)
  assume a: "\<forall>c \<in> set run. marked c" "rest = [] \<or> \<not> marked (hd rest)"
  then have "takeWhile marked (cs @ rest) = cs" "dropWhile marked (cs @ rest) = rest"
    by (auto simp: Cons takeWhile_append dropWhile_append takeWhile_eq_Nil_iff dropWhile_eq_Cons_conv hd_conv_nth)
       (cases rest; simp)+
  with a show ?thesis by (simp add: Cons)
qed simp

lemma canonical_swap:
  assumes "misplaced a b"
  shows "canonical (pre @ a # b # rest) = canonical (pre @ b # a # rest)"
proof (induction "length pre" arbitrary: pre rule: less_induct)
  case less
  let ?f = get_combining_class
  have ab: "marked a" "marked b" "?f a \<noteq> ?f b" using assms by (auto simp: misplaced_def)
  let ?tw = "takeWhile marked" and ?dw = "dropWhile marked"
  show ?case
  proof (cases "\<forall>c \<in> set pre. marked c")
    case True
    have "canonical (pre @ x # y # rest) = sort_key ?f (pre @ x # y # ?tw rest) @ canonical (?dw rest)"
      if "marked x" "marked y" for x y
    proof -
      have "canonical ((pre @ x # y # ?tw rest) @ ?dw rest) =
          sort_key ?f (pre @ x # y # ?tw rest) @ canonical (?dw rest)"
        using True that hd_dropWhile [of marked rest] by (intro canonical_run) (auto dest: set_takeWhileD)
      then show ?thesis by simp
    qed
    then show ?thesis using ab sort_key_swap [of ?f a b pre "?tw rest"] by simp
  next
    case False
    then obtain c cs where d: "?dw pre = c # cs" by (cases "?dw pre") (auto simp: dropWhile_eq_Nil_conv)
    then have c: "\<not> marked c" by (simp add: dropWhile_eq_Cons_conv)
    have split: "pre = ?tw pre @ c # cs" by (metis d takeWhile_dropWhile_id)
    have "canonical (?tw pre @ c # cs @ t) = sort_key ?f (?tw pre) @ c # canonical (cs @ t)" for t
      using c canonical_run [of "?tw pre" "c # cs @ t"] by (auto dest: set_takeWhileD)
    moreover have "length cs < length pre" by (subst split) simp
    ultimately show ?thesis using less [of cs] by (subst (1 2) split) simp
  qed
qed

lemma sort_pass_canonical:
  "p = get_combining_class a \<Longrightarrow> canonical (pre @ snd (sort_pass a p xs)) = canonical (pre @ a # xs)"
proof (induction a p xs arbitrary: pre rule: sort_pass.induct)
  case (2 a p b rest)
  show ?case
  proof (cases "get_combining_class b < p \<and> marked b")
    case True
    then have "misplaced a b" using "2.prems" by (simp add: misplaced_def)
    then show ?thesis
      using True "2.IH"(1) [of _ "pre @ [b]"] "2.prems" canonical_swap [of a b pre rest] by (simp add: Let_def)
  next
    case False
    then show ?thesis
      using "2.IH"(2) [of _ "pre @ [a]"]
      by (cases "sort_pass b (get_combining_class b) rest") (auto simp: Let_def)
  qed
qed simp

text \<open>A pass without changes has found every pair in order.\<close>

fun settled :: "u16 list \<Rightarrow> bool" where
  "settled (a # b # xs) = (\<not> misplaced a b \<and> settled (b # xs))"
| "settled _ = True"

lemma sort_pass_unchanged:
  "p = get_combining_class a \<Longrightarrow> \<not> fst (sort_pass a p xs) \<longleftrightarrow> settled (a # xs)"
  "p = get_combining_class a \<Longrightarrow> settled (a # xs) \<Longrightarrow> snd (sort_pass a p xs) = a # xs"
  by (induction a p xs rule: sort_pass.induct) (auto simp: Let_def misplaced_def split: prod.splits if_splits)

lemma settled_run:
  "settled (a # xs) \<Longrightarrow> marked a \<Longrightarrow> sorted (map get_combining_class (a # takeWhile marked xs))"
proof (induction xs arbitrary: a)
  case (Cons b xs)
  show ?case
  proof (cases "marked b")
    case True
    then have "sorted (map get_combining_class (b # takeWhile marked xs))"
      using Cons.IH [of b] Cons.prems by simp
    moreover have "get_combining_class a \<le> get_combining_class b"
      using Cons.prems True by (simp add: misplaced_def not_less)
    ultimately have "sorted (map get_combining_class (a # b # takeWhile marked xs))"
      unfolding list.map sorted2 by simp
    then show ?thesis using True by simp
  qed simp
qed simp

lemma settled_drop: "settled xs \<Longrightarrow> settled (dropWhile P xs)"
proof (induction xs)
  case (Cons a xs)
  then show ?case by (cases xs) auto
qed simp

lemma settled_canonical: "settled xs \<Longrightarrow> canonical xs = xs"
proof (induction xs rule: canonical.induct)
  case (2 x xs)
  have tl: "settled xs" using "2.prems" by (cases xs) auto
  show ?case
  proof (cases "marked x")
    case False
    then show ?thesis using 2 tl by simp
  next
    case True
    then have "sorted (map get_combining_class (takeWhile marked (x # xs)))"
      using settled_run [OF "2.prems"] by simp
    then have "sort_key get_combining_class (takeWhile marked (x # xs)) = takeWhile marked (x # xs)"
      by (rule sort_key_id_if_sorted)
    then show ?thesis using True "2.IH"(2) settled_drop [OF tl, of marked] by simp
  qed
qed simp

lemma priortysort_canonical: "priortysort xs = canonical xs"
proof (induction xs rule: priortysort.induct)
  case (2 ch rest)
  obtain changes out where p: "sort_pass ch (get_combining_class ch) rest = (changes, out)" by force
  have same: "canonical out = canonical (ch # rest)"
    using sort_pass_canonical [of _ ch "[]" rest] p by simp
  show ?case
  proof (cases changes)
    case True
    then show ?thesis using 2 p same by (simp add: priortysort.simps)
  next
    case False
    then have "settled (ch # rest)" using sort_pass_unchanged(1) [of _ ch rest] p by auto
    then show ?thesis
      using sort_pass_unchanged(2) [of _ ch rest] settled_canonical [of "ch # rest"] p False
      by (simp add: priortysort.simps del: canonical.simps)
  qed
qed (simp add: priortysort.simps)

section \<open>Encoding\<close>

text \<open>The length that is announced for an encoding.\<close>

definition UNICODE_TO_UTF8_LEN :: "u16 \<Rightarrow> nat" where
  "UNICODE_TO_UTF8_LEN c =
     (if c < 0x0080 then 1 else if c < 0x0800 then 2 else if c AND 0xf800 = 0xd800 then 2 else 3)"

text \<open>
  The loops take units from \<open>chp\<close>, what is left of a decomposition, and then from the string. Where a
  decomposition is empty, the code reads an unset unit.
\<close>

function encodelen_loop :: "u16 \<Rightarrow> u32 \<Rightarrow> u16 list \<Rightarrow> u16 list \<Rightarrow> nat \<Rightarrow> nat outcome" where
  "encodelen_loop altslash flags [] [] len = Done len"
| "encodelen_loop altslash flags (ch # chp) ucs len =
     encodelen_loop altslash flags chp ucs (len + UNICODE_TO_UTF8_LEN ch)"
| "encodelen_loop altslash flags [] (u # ucs) len =
     (let ucs_ch = (if has flags UTF_REVERSE_ENDIAN then bswap16 u else u) in
      if ucs_ch = SLASH
      then encodelen_loop altslash flags [] ucs
             (len + UNICODE_TO_UTF8_LEN (if altslash \<noteq> 0 then altslash else 0x5F))
      else if ucs_ch = 0
      then encodelen_loop altslash flags [] ucs (len + UNICODE_TO_UTF8_LEN UCS_ALT_NULL)
      else if has flags UTF_DECOMPOSED \<and> unicode_decomposeable ucs_ch
      then obind (decompose ucs_ch) (\<lambda>sequence.
        case sequence of [] \<Rightarrow> Fault
        | ch # chp \<Rightarrow> encodelen_loop altslash flags chp ucs (len + UNICODE_TO_UTF8_LEN ch))
      else encodelen_loop altslash flags [] ucs (len + UNICODE_TO_UTF8_LEN ucs_ch))"
  by pat_completeness auto
termination
  by (relation "measures [\<lambda>(_, _, _, ucs, _). length ucs, \<lambda>(_, _, chp, _, _). length chp]") auto

definition utf8_encodelen :: "u16 list \<Rightarrow> u16 \<Rightarrow> u32 \<Rightarrow> nat outcome" where
  "utf8_encodelen ucs altslash flags = encodelen_loop altslash flags [] ucs 0"

definition sfm2mac :: "u8 list" where
  "sfm2mac = [
     0x00, 0x01, 0x02, 0x03, 0x04, 0x05, 0x06, 0x07,
     0x08, 0x09, 0x0a, 0x0b, 0x0c, 0x0d, 0x0e, 0x0f,
     0x10, 0x11, 0x12, 0x13, 0x14, 0x15, 0x16, 0x17,
     0x18, 0x19, 0x1a, 0x1b, 0x1c, 0x1d, 0x1e, 0x1f,
     0x22, 0x2a, 0x3a, 0x3c, 0x3e, 0x3f, 0x5c, 0x7c,
     0x20, 0x2e]"

definition mac2sfm :: "u8 list" where
  "mac2sfm = [
     0x20, 0x21, 0x20, 0x23, 0x24, 0x25, 0x26, 0x27,
     0x28, 0x29, 0x21, 0x2b, 0x2c, 0x2d, 0x2e, 0x22,
     0x30, 0x31, 0x32, 0x33, 0x34, 0x35, 0x36, 0x37,
     0x38, 0x39, 0x22, 0x3b, 0x23, 0x3d, 0x24, 0x25,
     0x40, 0x41, 0x42, 0x43, 0x44, 0x45, 0x46, 0x47,
     0x48, 0x49, 0x4a, 0x4b, 0x4c, 0x4d, 0x4e, 0x4f,
     0x50, 0x51, 0x52, 0x53, 0x54, 0x55, 0x56, 0x57,
     0x58, 0x59, 0x5a, 0x5b, 0x26, 0x5d, 0x5e, 0x5f,
     0x60, 0x61, 0x62, 0x63, 0x64, 0x65, 0x66, 0x67,
     0x68, 0x69, 0x6a, 0x6b, 0x6c, 0x6d, 0x6e, 0x6f,
     0x70, 0x71, 0x72, 0x73, 0x74, 0x75, 0x76, 0x77,
     0x78, 0x79, 0x7a, 0x7b, 0x27, 0x7d, 0x7e, 0x7f]"

text \<open>\<open>ucs_to_sfm\<close> is for ASCII characters that are not zero.\<close>

definition ucs_to_sfm :: "u16 \<Rightarrow> bool \<Rightarrow> u16" where
  "ucs_to_sfm ucs_ch lastchar =
     (if lastchar \<and> ucs_ch = 0x20 then 0xf028
      else if lastchar \<and> ucs_ch = 0x2e then 0xf029
      else if ucs_ch \<le> 0x1f then ucs_ch OR 0xf000
      else let lsb = ucast (mac2sfm ! (unat ucs_ch - 0x0020)) in
        if lsb \<noteq> ucs_ch then 0xf000 OR lsb else ucs_ch)"

definition sfm_to_ucs :: "u16 \<Rightarrow> u16" where
  "sfm_to_ucs ucs_ch =
     (if ucs_ch AND 0xffC0 = 0xf000 \<and> ucs_ch AND 0x003f \<le> 0x29
      then ucast (sfm2mac ! unat (ucs_ch AND 0x003f)) else ucs_ch)"

text \<open>
  The bytes of one unit, at \<open>room\<close> bytes before the end of the buffer; \<open>next\<close> is the unit that follows in
  the string, read if a count of units is left. The result is the bytes and whether that unit is used
  up, or the error at which the loop breaks off.
\<close>

definition surrogate_pair :: "u16 \<Rightarrow> u16 \<Rightarrow> u32" where
  "surrogate_pair hi lo = push_bit 10 (ucast hi - 0xD800) + (ucast lo - 0xDC00) + 0x10000"

definition encode_unit :: "bool \<Rightarrow> int \<Rightarrow> u16 \<Rightarrow> bool \<Rightarrow> u16 option \<Rightarrow> (int + u8 list \<times> bool) outcome" where
  "encode_unit sfmconv room ucs_ch more next =
     (let emit = (\<lambda>bytes used. Done (if room < int (length bytes) then Inl ENAMETOOLONG else Inr (bytes, used)));
          three = (\<lambda>c :: u16. [ucast (0xe0 OR drop_bit 12 c), ucast (0x80 OR (0x3f AND drop_bit 6 c)),
                             ucast (0x80 OR (0x3f AND c))]) in
      if ucs_ch < 0x0080 then emit [ucast ucs_ch] False
      else if ucs_ch < 0x800
      then emit [ucast (0xc0 OR drop_bit 6 ucs_ch), ucast (0x80 OR (0x3f AND ucs_ch))] False
      else if ucs_ch = 0xFFFE \<or> ucs_ch = 0xFFFF then Done (Inl EINVAL)
      else if ucs_ch \<ge> 0xD800 \<and> ucs_ch \<le> 0xDBFF \<and> more
      then (case next of None \<Rightarrow> Fault
            | Some ch2 \<Rightarrow>
                if ch2 \<ge> 0xDC00 \<and> ch2 \<le> 0xDFFF
                then let pair = surrogate_pair ucs_ch ch2 in
                  emit [ucast (0xf0 OR drop_bit 18 pair), ucast (0x80 OR (0x3f AND drop_bit 12 pair)),
                        ucast (0x80 OR (0x3f AND drop_bit 6 pair)), ucast (0x80 OR (0x3f AND pair))] True
                else emit (three ucs_ch) False)
      else
        let ucs_ch = (if sfmconv then sfm_to_ucs ucs_ch else ucs_ch) in
        if sfmconv \<and> ucs_ch < 0x0080 then emit [ucast ucs_ch] False
        else emit (three ucs_ch) False)"

text \<open>The next unit, with what is left of the decomposition and of the string; \<open>None\<close> at the end.\<close>

definition next_unit :: "u32 \<Rightarrow> u16 list \<Rightarrow> u16 list \<Rightarrow> (u16 \<times> u16 list \<times> u16 list) option outcome" where
  "next_unit flags chp ucs =
     (case chp of
        ch # chp \<Rightarrow> Done (Some (ch, chp, ucs))
      | [] \<Rightarrow>
          (case ucs of
             [] \<Rightarrow> Done None
           | u # ucs \<Rightarrow>
               let ucs_ch = (if has flags UTF_REVERSE_ENDIAN then bswap16 u else u) in
               if has flags UTF_DECOMPOSED \<and> unicode_decomposeable ucs_ch
               then obind (decompose ucs_ch) (\<lambda>sequence.
                 case sequence of [] \<Rightarrow> Fault | ch # chp \<Rightarrow> Done (Some (ch, chp, ucs)))
               else Done (Some (ucs_ch, [], ucs))))"

lemma next_unit_less:
  "next_unit flags chp ucs = Done (Some (ch, chp', ucs')) \<Longrightarrow>
   length ucs' < length ucs \<or> ucs' = ucs \<and> length chp' < length chp"
  by (auto simp: next_unit_def Let_def obind_Done_iff neq_Nil_conv split: list.split_asm if_split_asm)

lemma length_tl_less: "length xs - Suc 0 < length xs \<longleftrightarrow> xs \<noteq> []"
  by (cases xs) simp_all

function encode_loop ::
  "u16 \<Rightarrow> u32 \<Rightarrow> int \<Rightarrow> u16 list \<Rightarrow> u16 list \<Rightarrow> int \<Rightarrow> u8 list \<Rightarrow> (int \<times> u8 list) outcome" where
  "encode_loop altslash flags cap chp ucs result utf8 =
     obind (next_unit flags chp ucs) (\<lambda>n.
     case n of
       None \<Rightarrow> Done (result, utf8)
     | Some (ucs_ch, chp', ucs') \<Rightarrow>
         let result' = (if ucs_ch = SLASH \<and> altslash = 0 then EINVAL else result);
             ucs_ch' = (if ucs_ch = SLASH then if altslash \<noteq> 0 then altslash else 0x5F
                        else if ucs_ch = 0 then UCS_ALT_NULL else ucs_ch);
             ch2 = (case ucs' of [] \<Rightarrow> None
                    | u # _ \<Rightarrow> Some (if has flags UTF_REVERSE_ENDIAN then bswap16 u else u)) in
         obind (encode_unit (has flags UTF_SFM_CONVERSIONS) (cap - int (length utf8)) ucs_ch'
                  (chp' \<noteq> [] \<or> ucs' \<noteq> []) ch2) (\<lambda>r.
         case r of
           Inl rc \<Rightarrow> Done (rc, utf8)
         | Inr (bytes, used) \<Rightarrow>
             encode_loop altslash flags cap chp' (if used then tl ucs' else ucs') result' (utf8 @ bytes)))"
  by pat_completeness auto
termination
  by (relation "measures [\<lambda>(_, _, _, _, ucs, _, _). length ucs, \<lambda>(_, _, _, chp, _, _, _). length chp]")
     (auto dest!: next_unit_less simp: length_tl_less)

declare encode_loop.simps [simp del]

text \<open>
  The result is the return value, what is stored through \<open>utf8len\<close>, and the string, which the code
  terminates unless the flags say otherwise. The buffer has room for \<open>buflen\<close> bytes, at least one.
\<close>

definition utf8_encodestr :: "u16 list \<Rightarrow> nat \<Rightarrow> u16 \<Rightarrow> u32 \<Rightarrow> (int \<times> nat \<times> u8 list) outcome" where
  "utf8_encodestr ucs buflen altslash flags =
     (let nullterm = \<not> has flags UTF_NO_NULL_TERM in
      obind (encode_loop altslash flags (int buflen - (if nullterm then 1 else 0)) [] ucs 0 []) (\<lambda>(result, utf8).
        Done (result, length utf8, if nullterm then utf8 @ [0] else utf8)))"

section \<open>Decoding\<close>

definition utf_extrabytes :: "u8 \<Rightarrow> int" where
  "utf_extrabytes byte =
     [0, 0, 0, 0, 0, 0, 0, 0, 0, 0, 0, 0, 0, 0, 0, 0,
      - 1, - 1, - 1, - 1, - 1, - 1, - 1, - 1, 1, 1, 1, 1, 2, 2, 3, - 1] ! unat (drop_bit 3 byte)"

definition hexdigits :: "u16 list" where
  "hexdigits = [0x30, 0x31, 0x32, 0x33, 0x34, 0x35, 0x36, 0x37, 0x38, 0x39, 0x41, 0x42, 0x43, 0x44, 0x45, 0x46]"

text \<open>
  A sequence of two to four bytes, of which the first is \<open>byte\<close> and the others begin at \<open>p\<close>; the value is
  the \<open>ch\<close> of the code. Each way out of it backs up to \<open>p\<close>.
\<close>

definition sequence_ok :: "nat \<Rightarrow> u32 \<Rightarrow> bool" where
  "sequence_ok extrabytes ch =
     (if extrabytes = 1 then ch \<ge> 0x80
      else if extrabytes = 2
      then ch \<ge> 0x800 \<and> \<not> (ch \<ge> 0xD800 \<and> (ch \<le> 0xDFFF \<or> ch = 0xFFFE \<or> ch = 0xFFFF))
      else let hi = drop_bit 10 ch + 0xD800; lo = (ch AND 0x3FF) + 0xDC00 in
        \<not> (hi < 0xD800 \<or> hi > 0xDBFF) \<and> \<not> (lo < 0xDC00 \<or> lo > 0xDFFF))"

fun sequence_bytes :: "buffer \<Rightarrow> nat \<Rightarrow> nat \<Rightarrow> u32 \<Rightarrow> u32 option outcome" where
  "sequence_bytes m p 0 ch = Done (Some ch)"
| "sequence_bytes m p (Suc k) ch =
     (if \<not> fits p 1 m then Fault
      else if drop_bit 6 (m ! p) \<noteq> 2 then Done None
      else sequence_bytes m (p + 1) k (push_bit 6 ch + ucast (m ! p)))"

definition decode_sequence :: "buffer \<Rightarrow> nat \<Rightarrow> u8 \<Rightarrow> nat \<Rightarrow> u32 option outcome" where
  "decode_sequence m p byte extrabytes =
     obind (sequence_bytes m p extrabytes (ucast byte)) (\<lambda>r.
     case r of None \<Rightarrow> Done None
     | Some ch \<Rightarrow>
         let ch = ch - (if extrabytes = 1 then 0x3080 else if extrabytes = 2 then 0xE2080 else 0x03C82080 + 0x10000) in
         Done (if sequence_ok extrabytes ch then Some ch else None))"

text \<open>The run of combining characters at the end of the output, made canonical.\<close>

definition sort_run :: "int \<Rightarrow> u16 list \<Rightarrow> u16 list outcome" where
  "sort_run combcharcnt ucs =
     (if combcharcnt > 1
      then let start = length ucs - nat combcharcnt in
        if length ucs < nat combcharcnt then Fault
        else Done (take start ucs @ priortysort (drop start ucs))
      else Done ucs)"

text \<open>Writing a decomposition, whose units are each followed by a check of the room.\<close>

fun put_sequence :: "nat \<Rightarrow> (u16 \<Rightarrow> u16) \<Rightarrow> u16 list \<Rightarrow> u16 list \<Rightarrow> bool \<times> u16 list" where
  "put_sequence buflen swap [] ucs = (True, ucs)"
| "put_sequence buflen swap (c # cs) ucs =
     (let ucs = ucs @ [swap c] in
      if 2 * length ucs \<ge> buflen then (False, ucs) else put_sequence buflen swap cs ucs)"

text \<open>
  The loop at the byte \<open>p\<close>, with \<open>n\<close> bytes to go. \<open>put\<close> stores a unit behind the output, after a run of
  combining characters has been counted or closed.
\<close>

definition put_unit :: "(u16 \<Rightarrow> u16) \<Rightarrow> u16 \<Rightarrow> u16 \<Rightarrow> u16 list \<Rightarrow> int \<Rightarrow> (u16 list \<times> int) outcome" where
  "put_unit swap altslash ucs_ch ucs combcharcnt =
     (let ucs_ch = (if ucs_ch = altslash then SLASH else ucs_ch) in
      if unicode_combinable ucs_ch then Done (ucs @ [swap ucs_ch], combcharcnt + 1)
      else obind (sort_run combcharcnt ucs) (\<lambda>ucs. Done (ucs @ [swap ucs_ch], 0)))"

text \<open>A character of two or three bytes: decomposed, composed with the one before, or as it is.\<close>

definition put_char ::
  "u16 \<Rightarrow> u32 \<Rightarrow> nat \<Rightarrow> u16 \<Rightarrow> u16 list \<Rightarrow> int \<Rightarrow> (bool \<times> u16 list \<times> int) outcome" where
  "put_char altslash flags buflen ucs_ch ucs combcharcnt =
     (let swap = (\<lambda>u. if has flags UTF_REVERSE_ENDIAN then bswap16 u else u);
          store = (\<lambda>c ucs. obind (put_unit swap altslash (if c = UCS_ALT_NULL then 0 else c) ucs combcharcnt)
                     (\<lambda>(ucs, cnt). Done (True, ucs, cnt))) in
      if has flags UTF_DECOMPOSED
      then
        if unicode_decomposeable ucs_ch
        then obind (sort_run combcharcnt ucs) (\<lambda>ucs.
             obind (decompose ucs_ch) (\<lambda>sequence.
             let (room, ucs) = put_sequence buflen swap sequence ucs in
             Done (room, ucs, int (length sequence) - 1)))
        else store ucs_ch ucs
      else if has flags UTF_PRECOMPOSED \<and> ucs \<noteq> []
      then
        if unicode_combinable ucs_ch
        then let composite = unicode_combine (swap (List.last ucs)) ucs_ch in
          if composite \<noteq> 0 then store composite (butlast ucs) else store ucs_ch ucs
        else store ucs_ch ucs
      else store ucs_ch ucs)"

definition put_escape ::
  "u32 \<Rightarrow> nat \<Rightarrow> u8 \<Rightarrow> u16 list \<Rightarrow> int \<Rightarrow> (int + u16 list) outcome" where
  "put_escape flags buflen byte ucs combcharcnt =
     (let swap = (\<lambda>u. if has flags UTF_REVERSE_ENDIAN then bswap16 u else u) in
      if \<not> has flags UTF_ESCAPE_ILLEGAL then Done (Inl EINVAL)
      else if 2 * (length ucs + 2) \<ge> buflen then Done (Inl ENAMETOOLONG)
      else obind (sort_run combcharcnt ucs) (\<lambda>ucs.
        Done (Inr (ucs @ map swap [0x25, hexdigits ! unat (drop_bit 4 byte), hexdigits ! unat (byte AND 0x0F)]))))"

function decode_loop ::
  "u16 \<Rightarrow> u32 \<Rightarrow> nat \<Rightarrow> buffer \<Rightarrow> nat \<Rightarrow> nat \<Rightarrow> u16 list \<Rightarrow> int \<Rightarrow> (int \<times> u16 list) outcome" where
  "decode_loop altslash flags buflen m p n ucs combcharcnt =
     (let swap = (\<lambda>u. if has flags UTF_REVERSE_ENDIAN then bswap16 u else u);
          finish = obind (sort_run combcharcnt ucs) (\<lambda>ucs. Done (0, ucs)) in
      if n = 0 then finish
      else if \<not> fits p 1 m then Fault
      else let byte = m ! p; n = n - 1; p = p + 1 in
        if byte = 0 then finish
        else if 2 * length ucs \<ge> buflen then Done (ENAMETOOLONG, ucs)
        else if byte < 0x80
        then
          let ucs_ch = (if has flags UTF_SFM_CONVERSIONS then ucs_to_sfm (ucast byte) (n = 0) else ucast byte) in
          obind (put_unit swap altslash ucs_ch ucs combcharcnt) (\<lambda>(ucs, combcharcnt).
            decode_loop altslash flags buflen m p n ucs combcharcnt)
        else
          let extrabytes = utf_extrabytes byte;
              escape = (\<lambda>n. obind (put_escape flags buflen byte ucs combcharcnt) (\<lambda>r.
                case r of Inl rc \<Rightarrow> Done (rc, ucs)
                | Inr ucs \<Rightarrow> decode_loop altslash flags buflen m p (n + nat extrabytes) ucs 0)) in
          if extrabytes < 0 \<or> sint (of_nat n :: 32 word) < extrabytes then escape n
          else
            let k = nat extrabytes; n = n - k in
            if k \<notin> {1, 2, 3} then Done (EINVAL, ucs)
            else obind (decode_sequence m p byte k) (\<lambda>r.
            case r of None \<Rightarrow> escape n
            | Some ch \<Rightarrow>
                if k = 3
                then
                  let ucs = ucs @ [swap (ucast (drop_bit 10 ch + 0xD800))] in
                  if 2 * length ucs \<ge> buflen then Done (ENAMETOOLONG, ucs)
                  else decode_loop altslash flags buflen m (p + k) n
                         (ucs @ [swap (ucast ((ch AND 0x3FF) + 0xDC00))]) combcharcnt
                else obind (put_char altslash flags buflen (ucast ch) ucs combcharcnt)
                  (\<lambda>(room, ucs, combcharcnt).
                   if room then decode_loop altslash flags buflen m (p + k) n ucs combcharcnt
                   else Done (ENAMETOOLONG, ucs))))"
  by pat_completeness auto
termination
  by (relation "measure (\<lambda>(_, _, _, m, p, _, _, _). length m - p)") (auto simp: fits_def)

declare decode_loop.simps [simp del]

definition utf8_decodestr :: "buffer \<Rightarrow> nat \<Rightarrow> nat \<Rightarrow> u16 \<Rightarrow> u32 \<Rightarrow> (int \<times> u16 list) outcome" where
  "utf8_decodestr utf8 utf8len buflen altslash flags = decode_loop altslash flags buflen utf8 0 utf8len [] 0"

section \<open>Validation and normalization\<close>

function validate_loop :: "buffer \<Rightarrow> nat \<Rightarrow> nat \<Rightarrow> bool outcome" where
  "validate_loop m p n =
     (if n = 0 then Done True
      else if \<not> fits p 1 m then Fault
      else let byte = m ! p; n = n - 1; p = p + 1 in
        if byte = 0 then Done True
        else if byte < 0x80 then validate_loop m p n
        else
          let extrabytes = utf_extrabytes byte; k = nat extrabytes in
          if extrabytes < 0 \<or> n < k then Done False
          else if k \<notin> {1, 2, 3} then Done False
          else obind (decode_sequence m p byte k) (\<lambda>r.
            case r of None \<Rightarrow> Done False | Some _ \<Rightarrow> validate_loop m (p + k) (n - k)))"
  by pat_completeness auto
termination by (relation "measure (\<lambda>(m, p, _). length m - p)") (auto simp: fits_def)

declare validate_loop.simps [simp del]

definition utf8_validatestr :: "buffer \<Rightarrow> nat \<Rightarrow> int outcome" where
  "utf8_validatestr utf8 utf8len =
     obind (validate_loop utf8 0 utf8len) (\<lambda>valid. Done (if valid then 0 else EINVAL))"

text \<open>
  The copy of the ASCII prefix: the bytes that it copied, and why it stopped: at the end (\<open>Some 0\<close>),
  without room (\<open>Some ENAMETOOLONG\<close>), or at another character (\<open>None\<close>).
\<close>

fun copy_ascii :: "nat \<Rightarrow> buffer \<Rightarrow> nat \<Rightarrow> u8 list \<Rightarrow> (int option \<times> u8 list) outcome" where
  "copy_ascii buflen instr 0 out = Done (Some 0, out)"
| "copy_ascii buflen [] (Suc inlen) out = Fault"
| "copy_ascii buflen (byte # instr) (Suc inlen) out =
     (if byte = 0 then Done (Some 0, out)
      else if length out \<ge> buflen then Done (Some ENAMETOOLONG, out)
      else if byte \<ge> 0x80 then Done (None, out)
      else copy_ascii buflen instr inlen (out @ [byte]))"

abbreviation (input) MAXPATHLEN :: nat where "MAXPATHLEN \<equiv> 4096"

definition utf8_normalizestr :: "buffer \<Rightarrow> nat \<Rightarrow> nat \<Rightarrow> u32 \<Rightarrow> (int \<times> (nat \<times> u8 list) option) outcome" where
  "utf8_normalizestr instr inlen buflen flags =
     (let decompose = has flags UTF_DECOMPOSED; precompose = has flags UTF_PRECOMPOSED;
          exit = (\<lambda>result out.
            if \<not> has flags UTF_NO_NULL_TERM
            then if length out < buflen then Done (result, Some (length out, out @ [0]))
              else Done (ENAMETOOLONG, Some (length out, out))
            else Done (result, Some (length out, out))) in
      if flags AND NOT (UTF_DECOMPOSED OR UTF_PRECOMPOSED OR UTF_NO_NULL_TERM OR UTF_ESCAPE_ILLEGAL) \<noteq> 0
      then Done (EINVAL, None)
      else if decompose = precompose then Done (EINVAL, None)
      else
        obind (copy_ascii buflen instr inlen []) (\<lambda>(stop, out).
        case stop of
          Some result \<Rightarrow> exit result out
        | None \<Rightarrow>
            if inlen > MAXPATHLEN then exit ENAMETOOLONG out
            else
              obind (utf8_decodestr instr inlen (if precompose then inlen * 2 else inlen * 3) 0
                       (flags AND NOT UTF_NO_NULL_TERM)) (\<lambda>(result, ucs).
              if result = 0
              then obind (utf8_encodestr ucs buflen 0 UTF_NO_NULL_TERM) (\<lambda>(result, _, out). exit result out)
              else exit result out)))"

section \<open>Names\<close>

text \<open>
  \<^verbatim>\<open>src/src/hfs/unicode.c\<close>: a name on disk is at most 255 units; a string is terminated. The buffer of the
  second conversion is 256 bytes, whatever the array holds.
\<close>

definition hfsuc_to_str :: "u16 list \<Rightarrow> (int \<times> u8 list) outcome" where
  "hfsuc_to_str hfs =
     obind (utf8_encodestr hfs 1024 SLASH 0) (\<lambda>(result, utf8_size, str).
       Done (if result < 0 then result else int utf8_size, str))"

definition str_to_hfsuc :: "u8 list \<Rightarrow> (int \<times> u16 list) outcome" where
  "str_to_hfsuc str =
     obind (utf8_decodestr str (length (takeWhile (\<lambda>c. c \<noteq> 0) str) + 1) 256 SLASH UTF_DECOMPOSED)
       (\<lambda>(result, ucs). Done (if result < 0 then result else 2 * int (length ucs), ucs))"

end
