(* ===== verification/Utf_Correct.thy ===== *)
theory Utf_Correct
  imports Utf_Conv
begin

text \<open>
  What the conversion of names achieves: the encoder produces UTF-8 as it is defined on code points, the
  decoder inverts it on the names that the catalog should hold, cuts longer names, agrees with the
  validation, and stays within its buffer; Hangul syllables survive decomposition and composition.
\<close>

section \<open>UTF-8\<close>

text \<open>What the formats prescribe: the code points of a UTF-16 string, and the bytes of a code point.\<close>

definition high_surrogate :: "u16 \<Rightarrow> bool" where
  "high_surrogate c \<longleftrightarrow> 0xD800 \<le> c \<and> c \<le> 0xDBFF"

definition low_surrogate :: "u16 \<Rightarrow> bool" where
  "low_surrogate c \<longleftrightarrow> 0xDC00 \<le> c \<and> c \<le> 0xDFFF"

fun code_points :: "u16 list \<Rightarrow> nat list" where
  "code_points [] = []"
| "code_points [a] = [unat a]"
| "code_points (a # b # us) =
     (if high_surrogate a \<and> low_surrogate b
      then (0x10000 + (unat a - 0xD800) * 0x400 + (unat b - 0xDC00)) # code_points us
      else unat a # code_points (b # us))"

definition utf8_bytes :: "nat \<Rightarrow> u8 list" where
  "utf8_bytes c =
     (if c < 0x80 then [of_nat c]
      else if c < 0x800 then [of_nat (0xC0 + c div 64), of_nat (0x80 + c mod 64)]
      else if c < 0x10000
      then [of_nat (0xE0 + c div 64 div 64), of_nat (0x80 + c div 64 mod 64), of_nat (0x80 + c mod 64)]
      else [of_nat (0xF0 + c div 64 div 64 div 64), of_nat (0x80 + c div 64 div 64 mod 64),
            of_nat (0x80 + c div 64 mod 64), of_nat (0x80 + c mod 64)])"

definition utf8 :: "u16 list \<Rightarrow> u8 list" where
  "utf8 us = concat (map utf8_bytes (code_points us))"

text \<open>A well-formed name: surrogates in pairs, and no unit that is never a character.\<close>

fun well_formed :: "u16 list \<Rightarrow> bool" where
  "well_formed [] = True"
| "well_formed [a] \<longleftrightarrow> \<not> high_surrogate a \<and> \<not> low_surrogate a \<and> a \<notin> {0xFFFE, 0xFFFF}"
| "well_formed (a # b # us) \<longleftrightarrow>
     (if high_surrogate a then low_surrogate b \<and> well_formed us
      else \<not> low_surrogate a \<and> a \<notin> {0xFFFE, 0xFFFF} \<and> well_formed (b # us))"

text \<open>Words and their bits as numbers.\<close>

lemma or_as_plus:
  fixes x :: "'a::len word"
  assumes "unat x < 2 ^ k"
  shows "push_bit k y OR x = push_bit k y + x"
proof -
  have "\<not> bit x n" if "k \<le> n" for n
  proof -
    have "unat x < 2 ^ n" using assms that by (meson less_le_trans one_le_numeral power_increasing)
    then have "\<not> bit (unat x) n" by (simp add: bit_iff_odd)
    then show ?thesis by (auto simp: bit_unsigned_iff dest: bit_imp_le_length)
  qed
  then show ?thesis by (intro disjunctive_add [symmetric]) (auto simp: bit_simps)
qed

lemma mask_mod: "unat (0x3F AND w :: 'a::len word) = unat w mod 64" if "6 \<le> LENGTH('a)"
proof -
  have "(0x3F :: 'a word) = mask 6" by (simp add: mask_eq_decr_exp)
  then have "0x3F AND w = take_bit 6 w" by (simp add: take_bit_eq_mask and.commute)
  then have "unat (0x3F AND w) = take_bit 6 (unat w)" by (simp only: unsigned_take_bit_eq)
  then show ?thesis by (simp add: take_bit_eq_mod)
qed

lemma unat_drop: "unat (drop_bit k w) = unat w div 2 ^ k" for w :: "'a::len word"
  by (rule trans [OF unat_drop_bit_eq drop_bit_eq_div])

lemma ucast_eq_of_nat: "ucast w = of_nat (unat w)"
  by (simp add: unsigned_of_nat)

text \<open>The bytes that the code computes, as numbers.\<close>

lemma lead_byte:
  fixes w :: "'a::len word"
  assumes "unat w < 2 ^ k" "y * 2 ^ k + 2 ^ k \<le> 256" "8 \<le> LENGTH('a)" "8 < LENGTH('a)"
  shows "ucast (of_nat (y * 2 ^ k) OR w) = (of_nat (y * 2 ^ k + unat w) :: u8)"
proof -
  have "of_nat (y * 2 ^ k) = (push_bit k (of_nat y) :: 'a word)" by (simp add: push_bit_of_nat push_bit_eq_mult)
  then have "of_nat (y * 2 ^ k) OR w = of_nat (y * 2 ^ k) + w" using or_as_plus [OF assms(1)] by simp
  moreover have "unat (of_nat (y * 2 ^ k) + w) = y * 2 ^ k + unat w"
  proof -
    have "(2 :: nat) ^ 8 \<le> 2 ^ LENGTH('a)" using assms(3) by (intro power_increasing) simp_all
    moreover have "y * 2 ^ k + unat w < 2 ^ 8" using assms(1,2) by simp
    ultimately have small: "y * 2 ^ k + unat w < 2 ^ LENGTH('a)" by linarith
    then have "unat (of_nat (y * 2 ^ k) :: 'a word) = y * 2 ^ k" by (intro unat_of_nat_small) linarith
    with small show ?thesis by (subst unat_plus) simp_all
  qed
  ultimately show ?thesis by (simp only: ucast_eq_of_nat)
qed

text \<open>Encoding one unit, or a pair, is encoding its code point.\<close>

lemma cont_byte:
  fixes w :: "'a::len word"
  assumes "8 < LENGTH('a)"
  shows "ucast (0x80 OR (0x3F AND w)) = (of_nat (0x80 + unat w mod 64) :: u8)"
  using lead_byte [of "0x3F AND w" 6 2] assms by (simp add: mask_mod)

lemma encode_unit_bytes:
  assumes "\<not> high_surrogate c" "c \<noteq> 0xFFFE" "c \<noteq> 0xFFFF" "int (length (utf8_bytes (unat c))) \<le> room"
  shows "encode_unit False room c more next = Done (Inr (utf8_bytes (unat c), False))"
proof -
  have u: "unat c < 0x10000" using unat_bound [of c] by simp
  have one: "c < 0x80 \<longleftrightarrow> unat c < 0x80" and two: "c < 0x800 \<longleftrightarrow> unat c < 0x800" by (simp_all add: word_less_nat_alt)
  have b1: "(ucast c :: u8) = of_nat (unat c)" by (rule ucast_eq_of_nat)
  have b2: "(ucast (0xc0 OR drop_bit 6 c) :: u8) = of_nat (0xc0 + unat c div 64)" if "unat c < 0x800"
    using lead_byte [of "drop_bit 6 c" 5 6] that by (simp add: unat_drop)
  have b3: "(ucast (0xe0 OR drop_bit 12 c) :: u8) = of_nat (0xe0 + unat c div 64 div 64)"
    using lead_byte [of "drop_bit 12 c" 4 14] u by (simp add: unat_drop div_mult2_eq [symmetric])
  have m: "(ucast (0x80 OR (0x3f AND drop_bit 6 c)) :: u8) = of_nat (0x80 + unat c div 64 mod 64)"
    "(ucast (0x80 OR (0x3f AND c)) :: u8) = of_nat (0x80 + unat c mod 64)"
    using cont_byte [of "drop_bit 6 c"] cont_byte [of c] by (simp_all add: unat_drop)
  have hs: "(c \<ge> 0xD800 \<and> c \<le> 0xDBFF \<and> more) = False" using assms(1) by (auto simp: high_surrogate_def)
  consider "unat c < 0x80" | "\<not> unat c < 0x80" "unat c < 0x800" | "\<not> unat c < 0x800" by blast
  then show ?thesis
  proof cases
    case 1
    then show ?thesis using assms(4) unfolding encode_unit_def Let_def one utf8_bytes_def b1 by simp
  next
    case 2
    then show ?thesis using assms(4)
      unfolding encode_unit_def Let_def one two utf8_bytes_def b2 [OF 2(2)] m by (simp only: if_True if_False list.size) simp
  next
    case 3
    then show ?thesis using assms u
      unfolding encode_unit_def Let_def one two utf8_bytes_def hs by (simp only: if_True if_False list.size simp_thms b3 m) simp
  qed
qed

lemma surrogate_pair_point:
  assumes "high_surrogate a" "low_surrogate b"
  shows "unat (surrogate_pair a b) = 0x10000 + (unat a - 0xD800) * 0x400 + (unat b - 0xDC00)"
    and "unat (surrogate_pair a b) < 0x110000" "\<not> unat (surrogate_pair a b) < 0x10000"
proof -
  have a: "0xD800 \<le> unat a" "unat a \<le> 0xDBFF" and b: "0xDC00 \<le> unat b" "unat b \<le> 0xDFFF"
    using assms by (simp_all add: high_surrogate_def low_surrogate_def word_le_nat_alt)
  have ua: "unat (ucast a - 0xD800 :: u32) = unat a - 0xD800" and ub: "unat (ucast b - 0xDC00 :: u32) = unat b - 0xDC00"
    using a b by (subst unat_minus_le; simp)+
  have "push_bit 10 (ucast a - 0xD800 :: u32) = (ucast a - 0xD800) * 0x400" by (simp add: push_bit_eq_mult)
  then have "unat (push_bit 10 (ucast a - 0xD800 :: u32)) = (unat a - 0xD800) * 0x400"
    using a ua by (simp only:) (subst unat_times, simp_all)
  then show eq: "unat (surrogate_pair a b) = 0x10000 + (unat a - 0xD800) * 0x400 + (unat b - 0xDC00)"
    using a b ub unfolding surrogate_pair_def by (simp add: unat_word_ariths)
  show "unat (surrogate_pair a b) < 0x110000" "\<not> unat (surrogate_pair a b) < 0x10000"
    unfolding eq using a b by simp_all
qed

lemma encode_unit_pair:
  assumes "high_surrogate a" "low_surrogate b" "4 \<le> room"
  shows "encode_unit False room a True (Some b) = Done (Inr (utf8_bytes (unat (surrogate_pair a b)), True))"
proof -
  let ?p = "surrogate_pair a b"
  note p = surrogate_pair_point [OF assms(1,2)]
  have l: "(ucast (0xf0 OR drop_bit 18 ?p) :: u8) = of_nat (0xf0 + unat ?p div 64 div 64 div 64)"
    using lead_byte [of "drop_bit 18 ?p" 3 30] p(2) by (simp add: unat_drop div_mult2_eq [symmetric])
  have m: "(ucast (0x80 OR (0x3f AND drop_bit 12 ?p)) :: u8) = of_nat (0x80 + unat ?p div 64 div 64 mod 64)"
    "(ucast (0x80 OR (0x3f AND drop_bit 6 ?p)) :: u8) = of_nat (0x80 + unat ?p div 64 mod 64)"
    "(ucast (0x80 OR (0x3f AND ?p)) :: u8) = of_nat (0x80 + unat ?p mod 64)"
    using cont_byte [of "drop_bit 12 ?p"] cont_byte [of "drop_bit 6 ?p"] cont_byte [of ?p]
    by (simp_all add: unat_drop div_mult2_eq [symmetric])
  have h: "(a \<ge> 0xD800 \<and> a \<le> 0xDBFF \<and> True) = True" "(b \<ge> 0xDC00 \<and> b \<le> 0xDFFF) = True"
    using assms(1,2) by (simp_all add: high_surrogate_def low_surrogate_def)
  have "\<not> a < 0x80" "\<not> a < 0x800" "\<not> (a = 0xFFFE \<or> a = 0xFFFF)"
    using assms(1) by (auto simp: high_surrogate_def word_less_nat_alt word_le_nat_alt)
  then show ?thesis
    using assms(3) p(3) unfolding encode_unit_def Let_def utf8_bytes_def option.case h l m
    by (simp only: if_True if_False list.size) simp
qed

lemma code_points_Cons:
  "code_points (a # us) =
    (case us of b # vs \<Rightarrow> if high_surrogate a \<and> low_surrogate b
       then unat (surrogate_pair a b) # code_points vs else unat a # code_points us
     | [] \<Rightarrow> [unat a])"
  by (cases us) (simp_all add: surrogate_pair_point(1))

lemma length_utf8_bytes: "1 \<le> length (utf8_bytes c)" "length (utf8_bytes c) \<le> 4"
  by (simp_all add: utf8_bytes_def)

text \<open>The whole string. A zero becomes the alternative character for it.\<close>

definition shown :: "u16 \<Rightarrow> u16" where
  "shown u = (if u = 0 then UCS_ALT_NULL else u)"

lemma shown_surrogates: "high_surrogate (shown u) = high_surrogate u" "low_surrogate (shown u) = low_surrogate u"
  by (auto simp: shown_def high_surrogate_def low_surrogate_def)

lemma encode_loop_Nil: "encode_loop SLASH 0 cap [] [] 0 out = Done (0, out)"
  by (subst encode_loop.simps) (simp add: next_unit_def)

lemma encode_loop_Cons:
  "encode_loop SLASH 0 cap [] (u # us) 0 out =
    obind (encode_unit False (cap - int (length out)) (shown u) (us \<noteq> []) (case us of [] \<Rightarrow> None | v # _ \<Rightarrow> Some v))
      (\<lambda>r. case r of Inl rc \<Rightarrow> Done (rc, out)
        | Inr (bytes, used) \<Rightarrow> encode_loop SLASH 0 cap [] (if used then tl us else us) 0 (out @ bytes))"
proof -
  have "(if u = SLASH then if SLASH \<noteq> 0 then SLASH else 0x5F else if u = 0 then UCS_ALT_NULL else u) = shown u"
    by (simp add: shown_def)
  then show ?thesis by (subst encode_loop.simps) (cases us; auto simp: next_unit_def has_def Let_def)
qed

lemma encode_loop_utf8:
  assumes "well_formed us" "int (length out) + int (length (utf8 (map shown us))) \<le> cap"
  shows "encode_loop SLASH 0 cap [] us 0 out = Done (0, out @ utf8 (map shown us))"
  using assms
proof (induction us arbitrary: out rule: well_formed.induct)
  case 1
  then show ?case by (simp add: encode_loop_Nil utf8_def)
next
  case (2 a)
  have "encode_unit False (cap - int (length out)) (shown a) False None = Done (Inr (utf8_bytes (unat (shown a)), False))"
    using "2.prems" shown_surrogates(1) [of a] by (intro encode_unit_bytes) (auto simp: utf8_def shown_def)
  then show ?case by (simp add: encode_loop_Cons encode_loop_Nil utf8_def)
next
  case (3 a b us)
  show ?case
  proof (cases "high_surrogate a")
    case True
    then have wf: "low_surrogate b" "well_formed us" using "3.prems" by simp_all
    then have sh: "shown a = a" "shown b = b"
      using True by (auto simp: shown_def high_surrogate_def low_surrogate_def)
    have u: "utf8 (a # b # map shown us) = utf8_bytes (unat (surrogate_pair a b)) @ utf8 (map shown us)"
      using True wf by (simp add: utf8_def surrogate_pair_point(1))
    have "length (utf8_bytes (unat (surrogate_pair a b))) = 4"
      using surrogate_pair_point(3) [OF True wf(1)] by (simp add: utf8_bytes_def)
    then have "4 \<le> cap - int (length out)" using "3.prems"(2) by (simp add: sh u)
    from encode_unit_pair [OF True wf(1) this] show ?thesis
      using "3.IH"(1) [OF True wf(2), of "out @ utf8_bytes (unat (surrogate_pair a b))"] "3.prems"(2)
      by (simp add: encode_loop_Cons sh u)
  next
    case False
    then have wf: "a \<noteq> 0xFFFE" "a \<noteq> 0xFFFF" "well_formed (b # us)" using "3.prems" by simp_all
    have u: "utf8 (map shown (a # b # us)) = utf8_bytes (unat (shown a)) @ utf8 (map shown (b # us))"
      using False shown_surrogates(1) [of a] by (simp add: utf8_def)
    have "encode_unit False (cap - int (length out)) (shown a) True (Some b) =
        Done (Inr (utf8_bytes (unat (shown a)), False))"
      using "3.prems"(2) False wf shown_surrogates(1) [of a] unfolding u
      by (intro encode_unit_bytes) (auto simp: shown_def)
    then show ?thesis
      using "3.IH"(2) [OF False wf(3), of "out @ utf8_bytes (unat (shown a))"] "3.prems"(2)
      by (subst encode_loop_Cons) (simp add: u del: list.map)
  qed
qed

text \<open>Decoding the bytes of a code point.\<close>

definition scalar :: "nat \<Rightarrow> bool" where
  "scalar c \<longleftrightarrow> c < 0x110000 \<and> \<not> (0xD800 \<le> c \<and> c \<le> 0xDFFF) \<and> c \<noteq> 0xFFFE \<and> c \<noteq> 0xFFFF"

definition spelled :: "buffer \<Rightarrow> nat \<Rightarrow> u8 list \<Rightarrow> bool" where
  "spelled m p bs \<longleftrightarrow> fits p (length bs) m \<and> chunk p (length bs) m = bs"

lemma spelled_Cons: "spelled m p (b # bs) \<longleftrightarrow> fits p 1 m \<and> m ! p = b \<and> spelled m (p + 1) bs"
proof (cases "p < length m")
  case True
  then have "drop p m = m ! p # drop (p + 1) m" by (simp add: Cons_nth_drop_Suc)
  then show ?thesis using True by (auto simp: spelled_def fits_def chunk_def)
qed (auto simp: spelled_def fits_def)

lemma spelled_append: "spelled m p (bs @ cs) \<longleftrightarrow> spelled m p bs \<and> spelled m (p + length bs) cs"
  by (induction bs arbitrary: p) (auto simp: spelled_Cons, auto simp: spelled_def fits_def)

lemma ucast_byte: "k < 256 \<Longrightarrow> (ucast (of_nat k :: u8) :: u32) = of_nat k"
  by (simp add: ucast_eq_of_nat unat_of_nat_small)

lemma sequence_bytes_step:
  assumes "spelled m p (of_nat (0x80 + x) # bs)" "x < 64"
  shows "sequence_bytes m p (Suc k) (of_nat y) = sequence_bytes m (p + 1) k (of_nat (y * 64 + (0x80 + x)))"
proof -
  have "unat (of_nat (0x80 + x) :: u8) = 0x80 + x" using assms(2) by (intro unat_of_nat_small) simp
  then have "unat (drop_bit 6 (of_nat (0x80 + x) :: u8)) = 2" using assms(2) by (simp only: unat_drop) simp
  then have "drop_bit 6 (of_nat (0x80 + x) :: u8) = 2" by (simp add: word_unat_eq_iff)
  moreover have "push_bit 6 (of_nat y) = (of_nat (y * 64) :: u32)" by (simp add: push_bit_eq_mult)
  ultimately show ?thesis
    using assms ucast_byte [of "0x80 + x"] by (simp add: spelled_Cons)
qed

lemma join_three:
  "r * 64 + u = q \<Longrightarrow> q * 64 + v = c \<Longrightarrow> ((0xE0 + r) * 64 + (0x80 + u)) * 64 + (0x80 + v) = (c :: nat) + 0xE2080"
  by auto

lemma join_four:
  "s * 64 + w = r \<Longrightarrow> r * 64 + u = q \<Longrightarrow> q * 64 + v = c \<Longrightarrow> 0x10000 \<le> (c :: nat) \<Longrightarrow>
   (((0xF0 + s) * 64 + (0x80 + w)) * 64 + (0x80 + u)) * 64 + (0x80 + v) = c - 0x10000 + (0x3C82080 + 0x10000)"
  by auto

lemma decode_sequence_bytes:
  assumes "spelled m p (utf8_bytes c)" "scalar c" "\<not> c < 0x80"
  shows "utf_extrabytes (m ! p) = int (length (utf8_bytes c)) - 1"
    and "decode_sequence m (p + 1) (m ! p) (length (utf8_bytes c) - 1) =
      Done (Some (of_nat (if c < 0x10000 then c else c - 0x10000)))"
proof -
  have lead: "utf_extrabytes (of_nat b) = [0, 0, 0, 0, 0, 0, 0, 0, 0, 0, 0, 0, 0, 0, 0, 0,
      - 1, - 1, - 1, - 1, - 1, - 1, - 1, - 1, 1, 1, 1, 1, 2, 2, 3, - 1] ! (b div 8)" if "b < 256" for b
  proof -
    have "unat (of_nat b :: u8) = b" using that by (intro unat_of_nat_small) simp
    then show ?thesis unfolding utf_extrabytes_def by (simp only: unat_drop) simp
  qed
  have big: "unat (of_nat c :: u32) = c" using assms(2) by (intro unat_of_nat_small) (simp add: scalar_def)
  consider "c < 0x800" | "\<not> c < 0x800" "c < 0x10000" | "\<not> c < 0x10000" by linarith
  then have "utf_extrabytes (m ! p) = int (length (utf8_bytes c)) - 1 \<and>
    decode_sequence m (p + 1) (m ! p) (length (utf8_bytes c) - 1) =
      Done (Some (of_nat (if c < 0x10000 then c else c - 0x10000)))"
  proof cases
    case 1
    let ?b = "0xC0 + c div 64"
    have bs: "utf8_bytes c = [of_nat ?b, of_nat (0x80 + c mod 64)]" using 1 assms(3) by (simp add: utf8_bytes_def)
    have sp: "m ! p = of_nat ?b" "spelled m (p + 1) [of_nat (0x80 + c mod 64)]"
      using assms(1) unfolding bs by (simp_all add: spelled_Cons)
    have b: "?b < 256" "24 \<le> ?b div 8" "?b div 8 < 28" using 1 assms(3) by simp_all
    then have "?b div 8 \<in> {24, 25, 26, 27}" by auto
    then have "utf_extrabytes (m ! p) = 1" using lead [OF b(1)] unfolding sp(1) by auto
    moreover have "?b * 64 + (0x80 + c mod 64) = c + 0x3080" by simp
    then have "sequence_bytes m (p + 1) 1 (ucast (m ! p)) = Done (Some (of_nat (c + 0x3080)))"
      using sequence_bytes_step [OF sp(2), of 0 ?b] unfolding sp(1) ucast_byte [OF b(1)] by simp
    then have "decode_sequence m (p + 1) (m ! p) 1 = Done (Some (of_nat c))"
      using assms(3) big by (simp add: decode_sequence_def sequence_ok_def word_le_nat_alt)
    ultimately show ?thesis using 1 by (simp add: bs)
  next
    case 2
    let ?b = "0xE0 + c div 64 div 64"
    have bs: "utf8_bytes c = [of_nat ?b, of_nat (0x80 + c div 64 mod 64), of_nat (0x80 + c mod 64)]"
      using 2 assms(3) by (simp add: utf8_bytes_def)
    have sp: "m ! p = of_nat ?b" "spelled m (p + 1) [of_nat (0x80 + c div 64 mod 64), of_nat (0x80 + c mod 64)]"
      "spelled m (p + 1 + 1) [of_nat (0x80 + c mod 64)]"
      using assms(1) unfolding bs by (simp_all add: spelled_Cons)
    have b: "?b < 256" "28 \<le> ?b div 8" "?b div 8 < 30" using 2 by simp_all
    then have "?b div 8 \<in> {28, 29}" by auto
    then have "utf_extrabytes (m ! p) = 2" using lead [OF b(1)] unfolding sp(1) by auto
    moreover have "(?b * 64 + (0x80 + c div 64 mod 64)) * 64 + (0x80 + c mod 64) = c + 0xE2080"
      by (rule join_three [OF div_mult_mod_eq div_mult_mod_eq])
    then have "sequence_bytes m (p + 1) 2 (ucast (m ! p)) = Done (Some (of_nat (c + 0xE2080)))"
      using sequence_bytes_step [OF sp(2), of 1 ?b] sequence_bytes_step [OF sp(3), of 0 "?b * 64 + (0x80 + c div 64 mod 64)"]
      unfolding sp(1) ucast_byte [OF b(1)] by (simp add: numeral_2_eq_2)
    then have "decode_sequence m (p + 1) (m ! p) 2 = Done (Some (of_nat c))"
      using assms(2,3) 2 big by (auto simp: decode_sequence_def sequence_ok_def scalar_def word_le_nat_alt word_unat_eq_iff)
    ultimately show ?thesis using 2 by (simp add: bs numeral_2_eq_2)
  next
    case 3
    let ?b = "0xF0 + c div 64 div 64 div 64"
    have bs: "utf8_bytes c = [of_nat ?b, of_nat (0x80 + c div 64 div 64 mod 64), of_nat (0x80 + c div 64 mod 64),
        of_nat (0x80 + c mod 64)]" using 3 assms(3) by (simp add: utf8_bytes_def)
    have sp: "m ! p = of_nat ?b" "spelled m (p + 1) [of_nat (0x80 + c div 64 div 64 mod 64), of_nat (0x80 + c div 64 mod 64),
        of_nat (0x80 + c mod 64)]"
      "spelled m (p + 1 + 1) [of_nat (0x80 + c div 64 mod 64), of_nat (0x80 + c mod 64)]"
      "spelled m (p + 1 + 1 + 1) [of_nat (0x80 + c mod 64)]"
      using assms(1) unfolding bs by (simp_all add: spelled_Cons)
    have cb: "c < 0x110000" using assms(2) by (simp add: scalar_def)
    then have b: "?b < 256" "?b div 8 = 30" by simp_all
    then have "utf_extrabytes (m ! p) = 3" using lead [OF b(1)] unfolding sp(1) by auto
    moreover have "((?b * 64 + (0x80 + c div 64 div 64 mod 64)) * 64 + (0x80 + c div 64 mod 64)) * 64 + (0x80 + c mod 64) =
        c - 0x10000 + (0x3C82080 + 0x10000)"
      using 3 by (intro join_four [OF div_mult_mod_eq div_mult_mod_eq div_mult_mod_eq]) simp
    then have "sequence_bytes m (p + 1) 3 (ucast (m ! p)) = Done (Some (of_nat (c - 0x10000 + (0x3C82080 + 0x10000))))"
      using sequence_bytes_step [OF sp(2), of 2 ?b]
        sequence_bytes_step [OF sp(3), of 1 "?b * 64 + (0x80 + c div 64 div 64 mod 64)"]
        sequence_bytes_step [OF sp(4), of 0 "(?b * 64 + (0x80 + c div 64 div 64 mod 64)) * 64 + (0x80 + c div 64 mod 64)"]
      unfolding sp(1) ucast_byte [OF b(1)] by (simp add: numeral_2_eq_2 numeral_3_eq_3)
    moreover have "sequence_ok 3 (of_nat (c - 0x10000))"
    proof -
      have u: "unat (of_nat (c - 0x10000) :: u32) = c - 0x10000" using cb by (intro unat_of_nat_small) simp
      have "(0x3FF :: u32) = mask 10" by (simp add: mask_eq_decr_exp)
      then have "of_nat (c - 0x10000) AND 0x3FF = take_bit 10 (of_nat (c - 0x10000) :: u32)" by (simp add: take_bit_eq_mask)
      then have lo: "unat (of_nat (c - 0x10000) AND (0x3FF :: u32)) = (c - 0x10000) mod 0x400"
        using u by (simp only: unsigned_take_bit_eq) (simp add: take_bit_eq_mod)
      have hi: "unat (drop_bit 10 (of_nat (c - 0x10000) :: u32)) = (c - 0x10000) div 0x400" by (simp only: unat_drop u) simp
      define x y where "x = drop_bit 10 (of_nat (c - 0x10000) :: u32)" and "y = (of_nat (c - 0x10000) AND (0x3FF :: u32))"
      have small: "unat x < 0x400" "unat y < 0x400" using cb unfolding x_def y_def lo hi by simp_all
      then have "unat (x + 0xD800) = unat x + 0xD800" "unat (y + 0xDC00) = unat y + 0xDC00"
        by (subst unat_plus; simp)+
      then show ?thesis
        using small unfolding sequence_ok_def Let_def word_le_nat_alt word_less_nat_alt x_def [symmetric] y_def [symmetric]
        by simp
    qed
    ultimately have "decode_sequence m (p + 1) (m ! p) 3 = Done (Some (of_nat (c - 0x10000)))"
      by (simp add: decode_sequence_def)
    with \<open>utf_extrabytes (m ! p) = 3\<close> show ?thesis using 3 by (simp add: bs numeral_3_eq_3)
  qed
  then show "utf_extrabytes (m ! p) = int (length (utf8_bytes c)) - 1"
    and "decode_sequence m (p + 1) (m ! p) (length (utf8_bytes c) - 1) =
      Done (Some (of_nat (if c < 0x10000 then c else c - 0x10000)))" by blast+
qed

lemma lead_not_ascii:
  assumes "spelled m p (utf8_bytes c)" "scalar c" "\<not> c < 0x80"
  shows "\<not> m ! p < 0x80"
proof -
  obtain b bs where b: "utf8_bytes c = of_nat b # bs" "0x80 \<le> b" "b < 256"
  proof -
    have "0xC0 + c div 64 < 256" if "c < 0x800" using that by simp
    moreover have "0xE0 + c div 64 div 64 < 256" if "c < 0x10000" using that by simp
    moreover have "c < 0x110000" using assms(2) by (simp add: scalar_def)
    then have "0xF0 + c div 64 div 64 div 64 < 256" by simp
    ultimately show thesis
      using assms(3) that [of "0xC0 + c div 64"] that [of "0xE0 + c div 64 div 64"]
        that [of "0xF0 + c div 64 div 64 div 64"]
      by (cases "c < 0x800"; cases "c < 0x10000") (simp_all add: utf8_bytes_def)
  qed
  then have "unat (m ! p) = b" using assms(1) by (simp add: spelled_Cons unat_of_nat_small)
  with b show ?thesis by (simp add: word_less_nat_alt)
qed

text \<open>Decoding a unit, or a pair, behind a canonical output.\<close>

lemma settled_suffix: "settled xs \<Longrightarrow> settled (drop n xs)"
proof (induction n arbitrary: xs)
  case (Suc n)
  have "settled (tl xs)" using Suc.prems by (cases xs rule: settled.cases) simp_all
  then show ?case using Suc.IH [of "tl xs"] by (simp add: drop_Suc)
qed simp

lemma sort_run_settled:
  assumes "settled ucs" "cnt \<le> int (length ucs)"
  shows "sort_run cnt ucs = Done ucs"
  using assms settled_suffix [OF assms(1)]
  by (auto simp: sort_run_def Let_def priortysort_canonical settled_canonical)

lemma put_unit_settled:
  assumes "settled ucs" "cnt \<le> int (length ucs)"
  shows "\<exists>k \<le> int (length ucs) + 1. put_unit (\<lambda>u. u) SLASH c ucs cnt = Done (ucs @ [c], k)"
  using assms by (auto simp: put_unit_def Let_def sort_run_settled)

lemma no_flags: "has UTF_DECOMPOSED UTF_REVERSE_ENDIAN = False" "has UTF_DECOMPOSED UTF_SFM_CONVERSIONS = False"
  "has UTF_DECOMPOSED UTF_DECOMPOSED = True"
  by (simp_all add: has_def)

lemma alt_null_plain: "\<not> unicode_decomposeable UCS_ALT_NULL"
  by code_simp

abbreviation (input) "decode_name \<equiv> decode_loop SLASH UTF_DECOMPOSED"

lemma decode_ascii:
  assumes "n \<noteq> 0" "fits p 1 m" "m ! p \<noteq> 0" "m ! p < 0x80" "2 * length ucs < buflen"
  shows "decode_name buflen m p n ucs cnt =
    obind (put_unit (\<lambda>u. u) SLASH (ucast (m ! p)) ucs cnt) (\<lambda>(ucs, cnt). decode_name buflen m (p + 1) (n - 1) ucs cnt)"
  using assms by (subst decode_loop.simps) (simp add: no_flags)

lemma decode_multi:
  assumes "n \<noteq> 0" "fits p 1 m" "\<not> m ! p < 0x80" "2 * length ucs < buflen"
    and k: "utf_extrabytes (m ! p) = int k" "k \<in> {1, 2, 3}" "k < n" "n < 2 ^ 31"
    and ch: "decode_sequence m (p + 1) (m ! p) k = Done (Some ch)"
  shows "decode_name buflen m p n ucs cnt =
    (if k = 3
     then let ucs = ucs @ [ucast (drop_bit 10 ch + 0xD800)] in
       if 2 * length ucs \<ge> buflen then Done (ENAMETOOLONG, ucs)
       else decode_name buflen m (p + 1 + k) (n - 1 - k) (ucs @ [ucast ((ch AND 0x3FF) + 0xDC00)]) cnt
     else obind (put_char SLASH UTF_DECOMPOSED buflen (ucast ch) ucs cnt) (\<lambda>(room, ucs, cnt).
       if room then decode_name buflen m (p + 1 + k) (n - 1 - k) ucs cnt else Done (ENAMETOOLONG, ucs)))"
proof -
  have nz: "m ! p \<noteq> 0" using assms(3) by auto
  have "unat (of_nat (n - 1) :: 32 word) = n - 1" using k(4) by (intro unat_of_nat_small) simp
  then have "sint (of_nat (n - 1) :: 32 word) = int (n - 1)" using k(4) by (subst sint_nonneg) simp_all
  then have "\<not> (utf_extrabytes (m ! p) < 0 \<or> sint (of_nat (n - 1) :: 32 word) < utf_extrabytes (m ! p))"
    using k by auto
  then show ?thesis
    using assms nz by (subst decode_loop.simps) (simp only: Let_def if_False if_True no_flags nat_int simp_thms not_le not_not, simp)
qed

lemma decode_unit:
  assumes sp: "spelled m p (utf8_bytes (unat (shown u)))" and n: "length (utf8_bytes (unat (shown u))) \<le> n" "n < 2 ^ 31"
    and u: "\<not> high_surrogate u" "\<not> low_surrogate u" "u \<noteq> 0xFFFE" "u \<noteq> 0xFFFF" "u \<noteq> UCS_ALT_NULL"
      "\<not> unicode_decomposeable u"
    and room: "2 * length ucs < buflen" and ok: "settled ucs" "cnt \<le> int (length ucs)"
  shows "\<exists>k \<le> int (length ucs) + 1. decode_name buflen m p n ucs cnt =
    decode_name buflen m (p + length (utf8_bytes (unat (shown u)))) (n - length (utf8_bytes (unat (shown u)))) (ucs @ [u]) k"
proof -
  let ?c = "unat (shown u)"
  obtain k where k: "k \<le> int (length ucs) + 1" "put_unit (\<lambda>u. u) SLASH u ucs cnt = Done (ucs @ [u], k)"
    using put_unit_settled [OF ok] by blast
  have sh: "shown u \<noteq> 0" "(if shown u = UCS_ALT_NULL then 0 else shown u) = u" using u(5) by (auto simp: shown_def)
  have c64: "?c < 0x10000" using unat_bound [of "shown u"] by simp
  have "scalar ?c"
    using u shown_surrogates [of u] c64
    by (auto simp: scalar_def high_surrogate_def low_surrogate_def word_le_nat_alt word_unat_eq_iff shown_def split: if_splits)
  have n0: "n \<noteq> 0" using n(1) length_utf8_bytes(1) [of ?c] by linarith
  have fit: "fits p 1 m" using sp length_utf8_bytes(1) [of ?c] by (auto simp: spelled_def fits_def)
  show ?thesis
  proof (cases "?c < 0x80")
    case True
    then have "m ! p = of_nat ?c" "length (utf8_bytes ?c) = 1" using sp by (simp_all add: utf8_bytes_def spelled_Cons)
    moreover have "unat (of_nat ?c :: u8) = ?c" using True by (intro unat_of_nat_small) simp
    then have "(of_nat ?c :: u8) \<noteq> 0" "(of_nat ?c :: u8) < 0x80" "ucast (of_nat ?c :: u8) = shown u"
      using True sh(1) by (simp_all add: word_unat_eq_iff word_less_nat_alt)
    moreover have "shown u = u" using True by (simp add: shown_def split: if_splits)
    ultimately have "decode_name buflen m p n ucs cnt = decode_name buflen m (p + 1) (n - 1) (ucs @ [u]) k"
      using decode_ascii [OF n0 fit, of ucs buflen cnt] room k(2) by simp
    with k(1) \<open>length (utf8_bytes ?c) = 1\<close> show ?thesis by (intro exI [of _ k]) simp
  next
    case False
    let ?k = "length (utf8_bytes ?c) - 1"
    note d = decode_sequence_bytes [OF sp \<open>scalar ?c\<close> False]
    have l: "?k \<in> {1, 2}" "length (utf8_bytes ?c) = ?k + 1" using False c64 by (simp_all add: utf8_bytes_def)
    note lead = lead_not_ascii [OF sp \<open>scalar ?c\<close> False]
    have "unat (of_nat ?c :: u32) = ?c" using c64 by (intro unat_of_nat_small) simp
    then have ch: "ucast (of_nat ?c :: u32) = shown u"
      using ucast_eq_of_nat [of "of_nat ?c :: u32", where 'a = 16] by simp
    have "\<not> unicode_decomposeable (shown u)" using u(6) alt_null_plain by (simp add: shown_def)
    then have "put_char SLASH UTF_DECOMPOSED buflen (shown u) ucs cnt = Done (True, ucs @ [u], k)"
      using k(2) unfolding put_char_def no_flags Let_def sh(2) by simp
    then have "decode_name buflen m p n ucs cnt = decode_name buflen m (p + 1 + ?k) (n - 1 - ?k) (ucs @ [u]) k"
    proof -
      have e: "utf_extrabytes (m ! p) = int ?k" using d(1) l(2) by linarith
      have k': "?k \<in> {1, 2, 3}" "?k < n" "?k \<noteq> 3" using l n(1) by auto
      have s: "decode_sequence m (p + 1) (m ! p) ?k = Done (Some (of_nat ?c))" using d(2) c64 by simp
      show ?thesis
        unfolding decode_multi [OF n0 fit lead room e k'(1,2) n(2) s] if_not_P [OF k'(3)] ch
        using \<open>put_char SLASH UTF_DECOMPOSED buflen (shown u) ucs cnt = Done (True, ucs @ [u], k)\<close> by simp
    qed
    moreover have "p + 1 + ?k = p + length (utf8_bytes ?c)" "n - 1 - ?k = n - length (utf8_bytes ?c)"
      using l(2) by linarith+
    ultimately have "decode_name buflen m p n ucs cnt =
        decode_name buflen m (p + length (utf8_bytes ?c)) (n - length (utf8_bytes ?c)) (ucs @ [u]) k"
      by (simp only:)
    with k(1) show ?thesis by blast
  qed
qed

lemma decode_pair:
  assumes sp: "spelled m p (utf8_bytes (unat (surrogate_pair a b)))" and n: "4 \<le> n" "n < 2 ^ 31"
    and ab: "high_surrogate a" "low_surrogate b" and room: "2 * (length ucs + 2) \<le> buflen"
  shows "decode_name buflen m p n ucs cnt = decode_name buflen m (p + 4) (n - 4) (ucs @ [a, b]) cnt"
proof -
  let ?c = "unat (surrogate_pair a b)"
  note c = surrogate_pair_point [OF ab]
  have l: "length (utf8_bytes ?c) = 4" using c(3) by (simp add: utf8_bytes_def)
  have "scalar ?c" using c by (auto simp: scalar_def)
  moreover have "\<not> ?c < 0x80" using c(3) by simp
  ultimately have d: "utf_extrabytes (m ! p) = 3" "decode_sequence m (p + 1) (m ! p) 3 = Done (Some (of_nat (?c - 0x10000)))"
    using decode_sequence_bytes [OF sp] l c(3) by simp_all
  have ab': "0xD800 \<le> unat a" "unat a \<le> 0xDBFF" "0xDC00 \<le> unat b" "unat b \<le> 0xDFFF"
    using ab by (simp_all add: high_surrogate_def low_surrogate_def word_le_nat_alt)
  define ch where "ch = (of_nat (?c - 0x10000) :: u32)"
  have uch: "unat ch = (unat a - 0xD800) * 0x400 + (unat b - 0xDC00)"
    unfolding ch_def using c(1,2) by (subst unat_of_nat_small) simp_all
  have "(0x3FF :: u32) = mask 10" by (simp add: mask_eq_decr_exp)
  then have "ch AND 0x3FF = take_bit 10 ch" by (simp add: take_bit_eq_mask)
  then have "unat (ch AND 0x3FF) = take_bit 10 (unat ch)" by (simp only: unsigned_take_bit_eq)
  also have "\<dots> = unat ch mod 0x400" by (simp add: take_bit_eq_mod)
  also have "\<dots> = (unat b - 0xDC00) mod 0x400" unfolding uch by (rule mod_mult_self3)
  also have "\<dots> = unat b - 0xDC00" using ab' by simp
  finally have lo: "unat (ch AND 0x3FF) = unat b - 0xDC00" .
  have hi: "unat (drop_bit 10 ch) = unat a - 0xD800" using ab' by (simp only: unat_drop uch) simp
  have "unat (drop_bit 10 ch + 0xD800) = unat a" "unat ((ch AND 0x3FF) + 0xDC00) = unat b"
    using ab' lo hi by (subst unat_plus; simp)+
  then have units: "ucast (drop_bit 10 ch + 0xD800) = a" "ucast ((ch AND 0x3FF) + 0xDC00) = b"
    using ucast_eq_of_nat [of "drop_bit 10 ch + 0xD800", where 'a = 16]
      ucast_eq_of_nat [of "(ch AND 0x3FF) + 0xDC00", where 'a = 16] by simp_all
  have n0: "n \<noteq> 0" "3 < n" using n(1) by simp_all
  have fit: "fits p 1 m" using sp l by (simp add: spelled_def fits_def)
  have room': "2 * length ucs < buflen" "\<not> 2 * length (ucs @ [a]) \<ge> buflen" using room by simp_all
  have e: "utf_extrabytes (m ! p) = int 3" using d(1) by simp
  have three: "(3 :: nat) \<in> {1, 2, 3}" by simp
  have moved: "p + 1 + 3 = p + 4" "n - 1 - 3 = n - 4" by simp_all
  show ?thesis
    using room'(2)
    unfolding decode_multi [OF n0(1) fit lead_not_ascii [OF sp \<open>scalar ?c\<close> \<open>\<not> ?c < 0x80\<close>] room'(1) e three n0(2) n(2)
        d(2) [folded ch_def]] units moved Let_def
    by simp
qed

text \<open>Whole strings.\<close>

lemma settled_prefix: "settled (xs @ ys) \<Longrightarrow> settled xs"
  by (induction xs rule: settled.induct) (auto elim: settled.elims)

lemma utf8_append: "well_formed xs \<Longrightarrow> utf8 (map shown (xs @ ys)) = utf8 (map shown xs) @ utf8 (map shown ys)"
proof (induction xs rule: well_formed.induct)
  case (2 a)
  then show ?case using shown_surrogates(1) [of a] by (cases ys) (auto simp: utf8_def)
next
  case (3 a b us)
  then show ?case using shown_surrogates [of a] shown_surrogates [of b] by (cases "high_surrogate a") (auto simp: utf8_def)
qed (simp add: utf8_def)

lemma length_utf8: "length (utf8 us) \<le> 3 * length us"
proof (induction us rule: code_points.induct)
  case (2 a)
  have "length (utf8_bytes (unat a)) \<le> 3" using unat_bound [of a] by (simp add: utf8_bytes_def)
  then show ?case by (simp add: utf8_def)
next
  case (3 a b us)
  have "length (utf8_bytes (unat a)) \<le> 3" using unat_bound [of a] by (simp add: utf8_bytes_def)
  moreover have "length (utf8_bytes (0x10000 + (unat a - 0xD800) * 0x400 + (unat b - 0xDC00))) \<le> 4"
    by (rule length_utf8_bytes)
  ultimately show ?case using 3 by (auto simp: utf8_def)
qed (simp add: utf8_def)

lemma decode_loop_utf8:
  assumes "well_formed us" "\<forall>u \<in> set us. u \<noteq> UCS_ALT_NULL \<and> \<not> unicode_decomposeable u"
    and "settled (ucs @ us)" "cnt \<le> int (length ucs)" "2 * (length ucs + length us) \<le> buflen"
    and "spelled m p (utf8 (map shown us))" "length (utf8 (map shown us)) \<le> n" "n < 2 ^ 31"
  shows "\<exists>k \<le> int (length (ucs @ us)). decode_name buflen m p n ucs cnt =
    decode_name buflen m (p + length (utf8 (map shown us))) (n - length (utf8 (map shown us))) (ucs @ us) k"
  using assms
proof (induction us arbitrary: ucs cnt p n rule: well_formed.induct)
  case 1
  then show ?case by (auto simp: utf8_def)
next
  case (2 a)
  have "utf8 (map shown [a]) = utf8_bytes (unat (shown a))" by (simp add: utf8_def)
  then show ?case
    using decode_unit [of m p a n ucs buflen cnt] "2.prems" settled_prefix [of ucs "[a]"] by (auto simp: add.commute)
next
  case (3 a b us)
  show ?case
  proof (cases "high_surrogate a")
    case True
    then have wf: "low_surrogate b" "well_formed us" using "3.prems" by simp_all
    then have sh: "shown a = a" "shown b = b"
      using True by (auto simp: shown_def high_surrogate_def low_surrogate_def)
    let ?pair = "utf8_bytes (unat (surrogate_pair a b))"
    have u: "utf8 (map shown (a # b # us)) = ?pair @ utf8 (map shown us)"
      using True wf by (simp add: sh utf8_def surrogate_pair_point(1))
    have four: "length ?pair = 4"
      using surrogate_pair_point(3) [OF True wf(1)] by (simp add: utf8_bytes_def)
    have sp: "spelled m p ?pair" "spelled m (p + 4) (utf8 (map shown us))"
      using "3.prems"(6) unfolding u spelled_append four by simp_all
    have n4: "4 \<le> n" "length (utf8 (map shown us)) \<le> n - 4" "n - 4 < 2 ^ 31"
      using "3.prems"(7,8) unfolding u by (simp_all add: four)
    have room: "2 * (length ucs + 2) \<le> buflen" using "3.prems"(5) by simp
    obtain k where "k \<le> int (length ((ucs @ [a, b]) @ us))"
      "decode_name buflen m (p + 4) (n - 4) (ucs @ [a, b]) cnt =
        decode_name buflen m (p + 4 + length (utf8 (map shown us))) (n - 4 - length (utf8 (map shown us)))
          ((ucs @ [a, b]) @ us) k"
      using "3.IH"(1) [OF True wf(2) _ _ _ _ sp(2) n4(2,3), of "ucs @ [a, b]" cnt] "3.prems" by auto
    then show ?thesis
      using decode_pair [OF sp(1) n4(1) "3.prems"(8) True wf(1) room, of cnt] unfolding u
      by (intro exI [of _ k]) (simp add: four add.assoc)
  next
    case False
    let ?bs = "utf8_bytes (unat (shown a))" and ?rest = "utf8 (map shown (b # us))"
    have wf: "\<not> low_surrogate a" "a \<noteq> 0xFFFE" "a \<noteq> 0xFFFF" "well_formed (b # us)" using False "3.prems" by simp_all
    have u: "utf8 (map shown (a # b # us)) = ?bs @ ?rest"
      using False shown_surrogates(1) [of a] by (simp add: utf8_def)
    have sp: "spelled m p ?bs" "spelled m (p + length ?bs) ?rest"
      using "3.prems"(6) unfolding u spelled_append by simp_all
    have n: "length ?bs \<le> n" "length ?rest \<le> n - length ?bs" "n - length ?bs < 2 ^ 31"
      using "3.prems"(7,8) unfolding u by simp_all
    have a: "a \<noteq> UCS_ALT_NULL" "\<not> unicode_decomposeable a" "2 * length ucs < buflen" using "3.prems"(2,5) by simp_all
    obtain k where k: "k \<le> int (length ucs) + 1" and one: "decode_name buflen m p n ucs cnt =
        decode_name buflen m (p + length ?bs) (n - length ?bs) (ucs @ [a]) k"
      using decode_unit [OF sp(1) n(1) "3.prems"(8) False wf(1-3) a settled_prefix [OF "3.prems"(3)] "3.prems"(4)] by blast
    obtain j where "j \<le> int (length ((ucs @ [a]) @ b # us))"
      "decode_name buflen m (p + length ?bs) (n - length ?bs) (ucs @ [a]) k =
        decode_name buflen m (p + length ?bs + length ?rest) (n - length ?bs - length ?rest) ((ucs @ [a]) @ b # us) j"
      using "3.IH"(2) [OF False wf(4) _ _ _ _ sp(2) n(2,3), of "ucs @ [a]" k] "3.prems" k by auto
    then show ?thesis using one unfolding u by (intro exI [of _ j]) (simp add: add.assoc)
  qed
qed

lemma utf8_no_zero: "0 \<notin> set (utf8 (map shown us))"
proof -
  have nz: "0 \<notin> set (utf8_bytes c)" if "0 < c" "c < 0x110000" for c
  proof -
    have "(of_nat b :: u8) \<noteq> 0" if "0 < b" "b < 256" for b
    proof
      assume "(of_nat b :: u8) = 0"
      moreover have "unat (of_nat b :: u8) = b" using that by (intro unat_of_nat_small) simp
      ultimately show False using that by simp
    qed
    then have b: "b < 256 \<Longrightarrow> 0 < b \<Longrightarrow> (0 :: u8) \<noteq> of_nat b" for b by metis
    have "0 \<noteq> (of_nat (0x80 + x mod 64) :: u8)" for x by (rule b) (simp_all add: less_trans [OF add_strict_left_mono [OF mod_less_divisor]])
    moreover have "c < 0x80 \<Longrightarrow> 0 \<noteq> (of_nat c :: u8)" using that by (intro b) simp_all
    moreover have "c < 0x800 \<Longrightarrow> 0 \<noteq> (of_nat (0xC0 + c div 64) :: u8)" by (rule b) simp_all
    moreover have "c < 0x10000 \<Longrightarrow> 0 \<noteq> (of_nat (0xE0 + c div 64 div 64) :: u8)" by (rule b) simp_all
    moreover have "0 \<noteq> (of_nat (0xF0 + c div 64 div 64 div 64) :: u8)" using that by (intro b) simp_all
    ultimately show ?thesis unfolding utf8_bytes_def
      by (cases "c < 0x80"; cases "c < 0x800"; cases "c < 0x10000")
         (simp_all only: if_True if_False list.set insert_iff empty_iff simp_thms)
  qed
  have "\<forall>c \<in> set (code_points xs). 0 < c \<and> c < 0x110000" if "0 \<notin> set xs" for xs
    using that
  proof (induction xs rule: code_points.induct)
    case (3 a b us)
    then show ?case
      using surrogate_pair_point [of a b] unat_bound [of a] by (auto simp: word_unat_eq_iff intro: gr0I)
  qed (use unat_bound in \<open>auto simp: word_unat_eq_iff intro: gr0I less_trans [OF unat_bound]\<close>)
  moreover have "0 \<notin> set (map shown us)" by (auto simp: shown_def split: if_splits)
  ultimately have "\<forall>c \<in> set (code_points (map shown us)). 0 < c \<and> c < 0x110000" by blast
  then show ?thesis using nz by (auto simp: utf8_def)
qed

section \<open>Any input\<close>

text \<open>Reading within the input, and sorting within the output, is no fault.\<close>

lemma length_priortysort: "length (priortysort xs) = length xs"
proof (induction xs rule: priortysort.induct)
  case (2 ch rest)
  have "length (snd (sort_pass ch (get_combining_class ch) rest)) = length (ch # rest)"
    using sort_pass_mset [of ch "get_combining_class ch" rest] by (metis size_mset)
  then show ?case using 2 by (auto simp: priortysort.simps split: prod.splits)
qed (simp add: priortysort.simps)

lemma sort_run_total:
  assumes "cnt \<le> int (length ucs)"
  obtains out where "sort_run cnt ucs = Done out" "length out = length ucs"
proof (cases "1 < cnt")
  case True
  let ?start = "length ucs - nat cnt"
  have "sort_run cnt ucs = Done (take ?start ucs @ priortysort (drop ?start ucs))"
    using True assms by (simp add: sort_run_def Let_def)
  then show thesis by (rule that) (simp add: length_priortysort)
qed (use that in \<open>simp add: sort_run_def\<close>)

lemma put_unit_total:
  assumes "cnt \<le> int (length ucs)"
  obtains out k where "put_unit swap altslash c ucs cnt = Done (out, k)" "length out = length ucs + 1" "k \<le> int (length out)"
proof -
  obtain out where "sort_run cnt ucs = Done out" "length out = length ucs" by (rule sort_run_total [OF assms])
  then show thesis using assms that by (cases "unicode_combinable (if c = altslash then SLASH else c)") (auto simp: put_unit_def Let_def)
qed

lemma sequence_bytes_total: "p + k \<le> length m \<Longrightarrow> \<exists>r. sequence_bytes m p k ch = Done r"
  by (induction m p k ch rule: sequence_bytes.induct) (auto simp: fits_def)

lemma decode_sequence_total: "p + k \<le> length m \<Longrightarrow> \<exists>r. decode_sequence m p byte k = Done r"
  using sequence_bytes_total [of p k m "ucast byte"] by (auto simp: decode_sequence_def Let_def split: option.split)

lemma no_flags_0: "has 0 f = False"
  by (simp add: has_def)

lemma validate_decode:
  assumes "\<not> has flags UTF_ESCAPE_ILLEGAL" "\<not> has flags UTF_DECOMPOSED" "\<not> has flags UTF_PRECOMPOSED"
    and "p + n \<le> length m" "n < 2 ^ 31" "2 * (length ucs + n) \<le> buflen" "cnt \<le> int (length ucs)"
  shows "\<exists>rc out. decode_loop altslash flags buflen m p n ucs cnt = Done (rc, out) \<and> rc \<in> {0, EINVAL} \<and>
    validate_loop m p n = Done (rc = 0)"
  using assms(4-)
proof (induction "length m - p" arbitrary: p n ucs cnt rule: less_induct)
  case less
  note prem = less.prems and no_flags = assms(1-3)
  let ?swap = "\<lambda>u. if has flags UTF_REVERSE_ENDIAN then bswap16 u else u"
  obtain sorted where sorted: "sort_run cnt ucs = Done sorted" by (rule sort_run_total [OF prem(4)])
  consider (stop) "n = 0 \<or> m ! p = 0" | (ascii) "n \<noteq> 0" "m ! p \<noteq> 0" "m ! p < 0x80"
    | (multi) "n \<noteq> 0" "m ! p \<noteq> 0" "\<not> m ! p < 0x80" by blast
  then show ?case
  proof cases
    case stop
    have "n = 0 \<or> fits p 1 m" using prem(1) by (auto simp: fits_def)
    then show ?thesis using stop sorted by (subst decode_loop.simps, subst validate_loop.simps) auto
  next
    case ascii
    have fit: "fits p 1 m" "2 * length ucs < buflen" using prem ascii(1) by (auto simp: fits_def)
    obtain out k where put: "put_unit ?swap altslash
        (if has flags UTF_SFM_CONVERSIONS then ucs_to_sfm (ucast (m ! p)) (n - 1 = 0) else ucast (m ! p)) ucs cnt = Done (out, k)"
      "length out = length ucs + 1" "k \<le> int (length out)" by (rule put_unit_total [OF prem(4)])
    have "length m - (p + 1) < length m - p" "p + 1 + (n - 1) \<le> length m" "n - 1 < 2 ^ 31"
      "2 * (length out + (n - 1)) \<le> buflen" using prem ascii(1) fit put(2) by (auto simp: fits_def)
    from less.hyps [OF this put(3)] obtain rc res where "decode_loop altslash flags buflen m (p + 1) (n - 1) out k = Done (rc, res)"
      "rc \<in> {0, EINVAL}" "validate_loop m (p + 1) (n - 1) = Done (rc = 0)" by blast
    then show ?thesis
      using ascii fit put(1)
      by (subst decode_loop.simps, subst validate_loop.simps, cases "has flags UTF_SFM_CONVERSIONS") (simp_all add: no_flags Let_def)
  next
    case multi
    have fit: "fits p 1 m" "2 * length ucs < buflen" using prem multi(1) by (auto simp: fits_def)
    let ?e = "utf_extrabytes (m ! p)"
    let ?k = "nat ?e"
    have "unat (of_nat (n - 1) :: 32 word) = n - 1" using prem(2) by (intro unat_of_nat_small) simp
    then have "sint (of_nat (n - 1) :: 32 word) = int (n - 1)" using prem(2) by (subst sint_nonneg) simp_all
    then have bad: "(?e < 0 \<or> sint (of_nat (n - 1) :: 32 word) < ?e) = (?e < 0 \<or> n - 1 < ?k)" by auto
    note unfold = decode_loop.simps [of altslash flags buflen m p n ucs cnt] validate_loop.simps [of m p n]
    show ?thesis
    proof (cases "(?e < 0 \<or> n - 1 < ?k) \<or> ?k \<notin> {1, 2, 3}")
      case True
      then show ?thesis
        using multi fit unfolding unfold Let_def bad by (auto simp: put_escape_def no_flags)
    next
      case False
      then have k: "?k \<in> {1, 2, 3}" "?k \<le> n - 1" and good: "\<not> (?e < 0 \<or> n - 1 < ?k)" by auto
      obtain r where r: "decode_sequence m (p + 1) (m ! p) ?k = Done r"
        using decode_sequence_total [of "p + 1" ?k m] k prem(1) multi(1) by fastforce
      show ?thesis
      proof (cases r)
        case None
        then show ?thesis
          using multi fit good k(1) r unfolding unfold Let_def bad by (simp add: put_escape_def no_flags)
      next
        case (Some ch)
        have step: "length m - (p + 1 + ?k) < length m - p" "p + 1 + ?k + (n - 1 - ?k) \<le> length m" "n - 1 - ?k < 2 ^ 31"
          using prem k multi(1) fit by (auto simp: fits_def)
        have rec: "\<exists>rc res. decode_loop altslash flags buflen m (p + 1 + ?k) (n - 1 - ?k) out j = Done (rc, res) \<and>
            rc \<in> {0, EINVAL} \<and> validate_loop m (p + 1 + ?k) (n - 1 - ?k) = Done (rc = 0)"
          if "2 * (length out + (n - 1 - ?k)) \<le> buflen" "j \<le> int (length out)" for out j
          by (rule less.hyps [OF step that])
        have valid: "validate_loop m p n = validate_loop m (p + 1 + ?k) (n - 1 - ?k)"
          using multi fit good k(1) r Some unfolding unfold Let_def by auto
        show ?thesis
        proof (cases "?k = 3")
          case True
          let ?out = "ucs @ [?swap (ucast (drop_bit 10 ch + 0xD800)), ?swap (ucast ((ch AND 0x3FF) + 0xDC00))]"
          have room: "\<not> buflen \<le> 2 + 2 * length ucs" using prem(3) k(2) unfolding True by arith
          have "decode_loop altslash flags buflen m p n ucs cnt = decode_loop altslash flags buflen m (p + 1 + ?k) (n - 1 - ?k) ?out cnt"
            using room multi fit good k r Some True prem unfolding unfold Let_def bad by (simp add: no_flags)
          moreover have "2 * (length ?out + (n - 1 - ?k)) \<le> buflen" "cnt \<le> int (length ?out)"
            using prem k True multi(1) by simp_all
          ultimately show ?thesis using rec [of ?out cnt] valid by metis
        next
          case False
          let ?c = "ucast ch :: u16"
          obtain out j where put: "put_unit ?swap altslash (if ?c = UCS_ALT_NULL then 0 else ?c) ucs cnt = Done (out, j)"
            "length out = length ucs + 1" "j \<le> int (length out)" by (rule put_unit_total [OF prem(4)])
          then have "put_char altslash flags buflen ?c ucs cnt = Done (True, out, j)"
            by (simp add: put_char_def no_flags)
          then have "decode_loop altslash flags buflen m p n ucs cnt = decode_loop altslash flags buflen m (p + 1 + ?k) (n - 1 - ?k) out j"
            using multi fit good k r Some False unfolding unfold Let_def bad by (simp add: no_flags)
          moreover have "2 * (length out + (n - 1 - ?k)) \<le> buflen" using prem k multi(1) put(2) by auto
          ultimately show ?thesis using rec [of out j] put(3) valid by metis
        qed
      qed
    qed
  qed
qed

section \<open>Correctness\<close>

text \<open>
  A name as the catalog should hold it: well-formed UTF-16 of at most 255 units, completely decomposed,
  with its combining characters in canonical order, and without the character that stands for zero.
\<close>

definition plain_name :: "u16 list \<Rightarrow> bool" where
  "plain_name us \<longleftrightarrow>
     well_formed us \<and> length us \<le> 255 \<and> settled us \<and>
     (\<forall>u \<in> set us. u \<noteq> UCS_ALT_NULL \<and> \<not> unicode_decomposeable u)"

lemma hfsuc_to_str_utf8:
  assumes "well_formed us" "length us \<le> 255"
  shows "hfsuc_to_str us = Done (int (length (utf8 (map shown us))), utf8 (map shown us) @ [0])"
proof -
  have "length (utf8 (map shown us)) \<le> 3 * 255" using length_utf8 [of "map shown us"] assms(2) by simp
  then have "encode_loop SLASH 0 1023 [] us 0 [] = Done (0, utf8 (map shown us))"
    using encode_loop_utf8 [OF assms(1), of "[]" 1023] by simp
  then show ?thesis by (simp add: hfsuc_to_str_def utf8_encodestr_def has_def)
qed

text \<open>
  A name is encoded as UTF-8, as the standard defines it on the code points of the name (a zero unit as
  U+2400), and terminated; the result is the number of bytes.
\<close>

lemma hfsuc_to_str_correct:
  assumes "well_formed us" "length us \<le> 255"
  shows "hfsuc_to_str us =
    Done (int (length (concat (map utf8_bytes (code_points (map (\<lambda>u. if u = 0 then 0x2400 else u) us))))),
          concat (map utf8_bytes (code_points (map (\<lambda>u. if u = 0 then 0x2400 else u) us))) @ [0])"
proof -
  have "shown = (\<lambda>u. if u = 0 then 0x2400 else u)" by (rule ext) (simp add: shown_def)
  then show ?thesis using hfsuc_to_str_utf8 [OF assms] by (simp add: utf8_def)
qed

lemma decode_end:
  assumes "settled ucs" "k \<le> int (length ucs)" "0 < n" "spelled m p [0]"
  shows "decode_name buflen m p n ucs k = Done (0, ucs)"
  using assms by (subst decode_loop.simps) (simp add: spelled_Cons sort_run_settled)

lemma decode_full:
  assumes "buflen \<le> 2 * length ucs" "0 < n" "fits p 1 m" "m ! p \<noteq> 0"
  shows "decode_name buflen m p n ucs k = Done (ENAMETOOLONG, ucs)"
  using assms by (subst decode_loop.simps) simp

lemma utf8_nonempty: "us \<noteq> [] \<Longrightarrow> utf8 us \<noteq> []"
proof -
  have "utf8_bytes c \<noteq> []" for c by (simp add: utf8_bytes_def)
  then show "us \<noteq> [] \<Longrightarrow> utf8 us \<noteq> []" by (cases us rule: code_points.cases) (auto simp: utf8_def)
qed

lemma str_to_hfsuc_cut:
  assumes plain: "plain_name us" and x: "us = xs @ ys" "well_formed xs" "length xs \<le> 128"
    and y: "ys = [] \<or> length xs = 128"
  shows "str_to_hfsuc (utf8 (map shown us) @ [0]) = Done (2 * int (length xs), xs)"
proof -
  let ?bs = "utf8 (map shown us)" and ?xs = "utf8 (map shown xs)" and ?ys = "utf8 (map shown ys)"
  let ?m = "?bs @ [0]"
  have us: "well_formed us" "settled us" "\<forall>u \<in> set us. u \<noteq> UCS_ALT_NULL \<and> \<not> unicode_decomposeable u" "length us \<le> 255"
    using plain by (simp_all add: plain_name_def)
  have sx: "settled ([] @ xs)" "settled xs" using us(2) settled_prefix [of xs ys] x(1) by simp_all
  have split: "?bs = ?xs @ ?ys" using utf8_append [OF x(2), of ys] x(1) by simp
  have "length ?bs \<le> 765" using length_utf8 [of "map shown us"] us(4) by simp
  then have n: "length ?xs \<le> length ?bs + 1" "length ?bs + 1 < 2 ^ 31" "length ?xs \<le> length ?bs" unfolding split by simp_all
  have whole: "spelled ?m 0 (?xs @ ?ys @ [0])" by (simp add: spelled_def fits_def split chunk_def)
  then have sp: "spelled ?m 0 ?xs" "spelled ?m (length ?xs) (?ys @ [0])" by (simp_all add: spelled_append)
  have "takeWhile (\<lambda>c. c \<noteq> 0) ?m = ?bs" using utf8_no_zero [of us] by (auto simp: takeWhile_append takeWhile_eq_all_conv)
  then have "str_to_hfsuc ?m = obind (decode_name 256 ?m 0 (length ?bs + 1) [] 0)
      (\<lambda>(result, ucs). Done (if result < 0 then result else 2 * int (length ucs), ucs))"
    by (simp add: str_to_hfsuc_def utf8_decodestr_def)
  moreover obtain k where k: "k \<le> int (length ([] @ xs))"
    "decode_name 256 ?m 0 (length ?bs + 1) [] 0 =
      decode_name 256 ?m (0 + length ?xs) (length ?bs + 1 - length ?xs) ([] @ xs) k"
    using decode_loop_utf8 [OF x(2) _ sx(1) _ _ sp(1) n(1,2), of 0 256] us(3) x by auto
  moreover have "\<exists>rc \<ge> 0. decode_name 256 ?m (length ?xs) (length ?bs + 1 - length ?xs) xs k = Done (rc, xs)"
  proof (cases "ys = []")
    case True
    then have "spelled ?m (length ?xs) [0]" using sp(2) by (simp add: utf8_def)
    then show ?thesis using decode_end [OF sx(2), of k "length ?bs + 1 - length ?xs"] k(1) n(3) by auto
  next
    case False
    then have "?ys \<noteq> []" using utf8_nonempty [of "map shown ys"] by simp
    then obtain v vs where v: "?ys = v # vs" by (cases ?ys) auto
    then have "v \<noteq> 0" using utf8_no_zero [of ys] by auto
    then have "fits (length ?xs) 1 ?m" "?m ! length ?xs \<noteq> 0" using sp(2) unfolding v by (simp_all add: spelled_Cons)
    then show ?thesis using decode_full [of 256 xs "length ?bs + 1 - length ?xs" "length ?xs" ?m k] y False n(3) by auto
  qed
  ultimately show ?thesis by auto
qed

text \<open>
  C32. The round trip: a plain name of at most 128 units, written as a string and read back as it is when a
  path is looked up, is the same name.
\<close>

theorem name_roundtrip:
  assumes "plain_name us" "length us \<le> 128"
  shows "obind (hfsuc_to_str us) (\<lambda>(_, str). str_to_hfsuc str) = Done (2 * int (length us), us)"
  using str_to_hfsuc_cut [OF assms(1), of us "[]"] hfsuc_to_str_utf8 [of us] assms by (simp add: plain_name_def)

text \<open>
  A name of more than 128 units does not survive it: the second conversion is given a buffer of 256
  bytes, stops after 128 units, and its error is not seen, because only a negative result counts.
\<close>

lemma long_name_cut:
  assumes "plain_name us" "128 < length us" "well_formed (take 128 us)"
  shows "obind (hfsuc_to_str us) (\<lambda>(_, str). str_to_hfsuc str) = Done (256, take 128 us)"
  using str_to_hfsuc_cut [OF assms(1), of "take 128 us" "drop 128 us"] hfsuc_to_str_utf8 [of us] assms
  by (simp add: plain_name_def)

text \<open>
  C35. The sort of combining characters is the canonical order of Unicode: every maximal run of characters
  with a class is sorted by class, stably, and characters without one stay where they are.
\<close>

theorem priortysort_correct: "priortysort characters = canonical characters"
  by (rule priortysort_canonical)

text \<open>
  C34. Validation is decoding without the result, as long as the decoder is not told to escape illegal
  sequences, to decompose or to compose: for an input of less than \<open>2 ^ 31\<close> bytes and a buffer of two bytes
  per input byte the decoder returns what the validation returns, 0 or the error for an illegal sequence.
\<close>

theorem validate_as_decode:
  assumes "\<not> has flags UTF_ESCAPE_ILLEGAL" "\<not> has flags UTF_DECOMPOSED" "\<not> has flags UTF_PRECOMPOSED"
    and "n \<le> length m" "n < 2 ^ 31" "2 * n \<le> buflen"
  shows "\<exists>rc ucs. utf8_decodestr m n buflen altslash flags = Done (rc, ucs) \<and> utf8_validatestr m n = Done rc"
proof -
  obtain rc ucs where "decode_loop altslash flags buflen m 0 n [] 0 = Done (rc, ucs)" "rc \<in> {0, EINVAL}"
    "validate_loop m 0 n = Done (rc = 0)"
    using validate_decode [OF assms(1-3), of 0 n m "[]" buflen 0 altslash] assms(4-) by auto
  then show ?thesis by (auto simp: utf8_decodestr_def utf8_validatestr_def)
qed

text \<open>
  Every Hangul syllable is decomposed into two or three Jamo, which compose to the syllable again.
\<close>

lemma hangul_roundtrip:
  assumes "0xAC00 \<le> unat s" "unat s < 0xAC00 + 11172"
  shows "\<exists>l v t. unicode_decompose s = Some (l # v # t) \<and> length t \<le> 1 \<and> foldl unicode_combine l (v # t) = s"
proof -
  define i where "i = unat s - 0xAC00"
  have i: "i < 11172" "unat s = 0xAC00 + i" using assms by (simp_all add: i_def)
  define a b c where "a = i div 588" and "b = i mod 588 div 28" and "c = i mod 28"
  have abc: "a < 19" "b < 21" "c < 28" "i = a * 588 + b * 28 + c"
  proof -
    show "a < 19" using i(1) by (simp add: a_def)
    show "b < 21" by (simp add: b_def)
    show "c < 28" by (simp add: c_def)
    have "i mod 588 mod 28 = i mod 28" by (rule mod_mod_cancel) simp
    then show "i = a * 588 + b * 28 + c"
      using div_mult_mod_eq [of i 588] div_mult_mod_eq [of "i mod 588" 28] unfolding a_def b_def c_def by linarith
  qed
  let ?l = "of_nat (0x1100 + a) :: u16" and ?v = "of_nat (0x1161 + b) :: u16" and ?t = "of_nat (0x11A7 + c) :: u16"
  have u: "unat ?l = 0x1100 + a" "unat ?v = 0x1161 + b" "unat ?t = 0x11A7 + c"
    using abc by (intro unat_of_nat_small; simp)+
  have dec: "unicode_decompose s = Some (?l # ?v # (if c \<noteq> 0 then [?t] else []))"
    using assms i(2) by (simp add: unicode_decompose_def Let_def a_def b_def c_def add.commute)
  have lv: "unicode_combine ?l ?v = of_nat (0xAC00 + a * 588 + b * 28)"
    using abc unfolding unicode_combine_def Let_def u by simp
  have ulv: "unat (of_nat (0xAC00 + a * 588 + b * 28) :: u16) = 0xAC00 + a * 588 + b * 28"
    using abc i(1) by (intro unat_of_nat_small) simp
  have "unat s = 0xAC00 + a * 588 + b * 28 + c" using i(2) abc(4) by simp
  moreover have "unat (of_nat (0xAC00 + a * 588 + b * 28 + c) :: u16) = 0xAC00 + a * 588 + b * 28 + c"
    using abc i(1) by (intro unat_of_nat_small) simp
  ultimately have s: "s = of_nat (0xAC00 + a * 588 + b * 28 + c)" by (simp only: word_unat_eq_iff)
  have "unicode_combine (of_nat (0xAC00 + a * 588 + b * 28)) ?t = s" if "c \<noteq> 0"
  proof -
    have "a * 588 + b * 28 = (a * 21 + b) * 28" by simp
    then have "(a * 588 + b * 28) mod 28 = 0" by (simp only: mod_mult_self2_is_0)
    then show ?thesis using abc that unfolding unicode_combine_def Let_def u ulv s by simp
  qed
  then have "foldl unicode_combine ?l (?v # (if c \<noteq> 0 then [?t] else [])) = s" using s lv by simp
  with dec show ?thesis by fastforce
qed

lemma put_sequence_room:
  "even buflen \<Longrightarrow> 2 * length ucs < buflen \<Longrightarrow>
   2 * length (snd (put_sequence buflen swap cs ucs)) \<le> buflen"
proof (induction cs arbitrary: ucs)
  case (Cons c cs)
  show ?case
  proof (cases "2 * length (ucs @ [swap c]) \<ge> buflen")
    case True
    then show ?thesis using Cons.prems by (auto elim!: evenE)
  next
    case False
    then show ?thesis using Cons.IH [of "ucs @ [swap c]"] Cons.prems by simp
  qed
qed simp

lemma sort_run_length: "sort_run cnt ucs = Done out \<Longrightarrow> length out = length ucs"
  by (auto simp: sort_run_def Let_def length_priortysort split: if_splits)

lemma put_unit_length: "put_unit swap altslash c ucs cnt = Done (out, k) \<Longrightarrow> length out = length ucs + 1"
  by (auto simp: put_unit_def Let_def obind_Done_iff dest: sort_run_length split: if_splits)

lemma put_char_room:
  assumes "put_char altslash flags buflen c ucs cnt = Done (room, out, k)" "even buflen" "2 * length ucs < buflen"
  shows "2 * length out \<le> buflen"
proof (cases "has flags UTF_DECOMPOSED \<and> unicode_decomposeable c")
  case True
  then obtain seq sorted where "sort_run cnt ucs = Done sorted"
    and put: "out = snd (put_sequence buflen (\<lambda>u. if has flags UTF_REVERSE_ENDIAN then bswap16 u else u) seq sorted)"
    using assms(1) by (auto simp: put_char_def Let_def obind_Done_iff case_prod_unfold)
  then have "2 * length sorted < buflen" using assms(3) by (simp add: sort_run_length)
  from put_sequence_room [OF assms(2) this] show ?thesis unfolding put .
next
  case False
  then obtain swap c' us where "put_unit swap altslash c' us cnt = Done (out, k)" "length us \<le> length ucs"
    using assms(1) by (auto simp: put_char_def Let_def obind_Done_iff split: if_split_asm)
  then show ?thesis using assms(2,3) by (auto dest!: put_unit_length elim!: evenE)
qed

lemma put_escape_room:
  "put_escape flags buflen byte ucs cnt = Done (Inr out) \<Longrightarrow> even buflen \<Longrightarrow> 2 * length out \<le> buflen"
  by (auto simp: put_escape_def Let_def obind_Done_iff dest!: sort_run_length split: if_splits elim!: evenE; arith)

lemma decode_room:
  assumes "even buflen" "2 * length ucs \<le> buflen" "decode_loop altslash flags buflen m p n ucs cnt = Done (rc, out)"
  shows "2 * length out \<le> buflen"
  using assms(2,3)
proof (induction "length m - p" arbitrary: p n ucs cnt rule: less_induct)
  case less
  have IH: "2 * length ucs' \<le> buflen \<Longrightarrow> decode_loop altslash flags buflen m (p + 1 + j) n' ucs' cnt' = Done (rc, out) \<Longrightarrow>
      fits p 1 m \<Longrightarrow> 2 * length out \<le> buflen" for j n' ucs' cnt'
    by (rule less.hyps) (auto simp: fits_def)
  show ?case
  proof (cases "n = 0 \<or> m ! p = 0 \<or> \<not> fits p 1 m \<or> 2 * length ucs \<ge> buflen")
    case True
    then show ?thesis
      using less.prems by (subst (asm) decode_loop.simps) (auto simp: obind_Done_iff Let_def dest!: sort_run_length split: if_splits)
  next
    case False
    then have run: "n \<noteq> 0" "m ! p \<noteq> 0" "fits p 1 m" "2 * length ucs < buflen" by auto
    have one: "2 * (length ucs + 1) \<le> buflen" using run(4) assms(1) by (auto elim!: evenE)
    note IH' = IH [OF _ _ run(3)]
    show ?thesis
    proof (cases "m ! p < 0x80")
      case True
      obtain swap c res k n' where "put_unit swap altslash c ucs cnt = Done (res, k)"
        "decode_loop altslash flags buflen m (p + 1) n' res k = Done (rc, out)"
        using less.prems(2) run True by (subst (asm) decode_loop.simps) (auto simp: obind_Done_iff Let_def)
      then show ?thesis using IH' [of res 0 n' k] one by (auto dest: put_unit_length)
    next
      case False
      let ?e = "utf_extrabytes (m ! p)"
      let ?k = "nat ?e"
      let ?escape = "\<lambda>n. obind (put_escape flags buflen (m ! p) ucs cnt) (\<lambda>r.
                case r of Inl rc \<Rightarrow> Done (rc, ucs)
                | Inr ucs \<Rightarrow> decode_loop altslash flags buflen m (p + 1) (n + nat ?e) ucs 0)"
      have escape: "2 * length out \<le> buflen" if esc: "?escape n' = Done (rc, out)" for n'
      proof -
        obtain r where r: "put_escape flags buflen (m ! p) ucs cnt = Done r"
          using esc by (cases "put_escape flags buflen (m ! p) ucs cnt") simp_all
        show ?thesis
        proof (cases r)
          case (Inr us)
          then have "2 * length us \<le> buflen" using put_escape_room r assms(1) by simp
          then show ?thesis using esc r Inr IH' [of us 0 "n' + nat ?e" 0] by simp
        qed (use esc r less.prems(1) in simp)
      qed
      show ?thesis
      proof (cases "(?e < 0 \<or> sint (of_nat (n - 1) :: 32 word) < ?e) \<or> ?k \<notin> {1, 2, 3}")
        case True
        then show ?thesis
          using less.prems run False escape [of "n - 1"]
          by (subst (asm) decode_loop.simps) (auto simp: Let_def split: if_split_asm)
      next
        case False': False
        then have good: "\<not> (?e < 0 \<or> sint (of_nat (n - 1) :: 32 word) < ?e)" "?k \<in> {1, 2, 3}" by auto
        obtain r where r: "decode_sequence m (p + 1) (m ! p) ?k = Done r"
          using less.prems(2) run False good
          by (cases "decode_sequence m (p + 1) (m ! p) ?k") (subst (asm) decode_loop.simps, auto simp: Let_def)+
        show ?thesis
        proof (cases r)
          case None
          then show ?thesis
            using less.prems run False escape [of "n - 1 - ?k"] good r
            by (subst (asm) decode_loop.simps) (auto simp: Let_def)
        next
          case (Some ch)
          have two: "2 * (length ucs + 2) \<le> buflen" if "\<not> buflen \<le> 2 * (length ucs + 1)"
            using that assms(1) by (auto elim!: evenE; arith)
          show ?thesis
          proof (cases "?k = 3")
            case True
            have "length out = length ucs + 1 \<or> \<not> buflen \<le> 2 * (length ucs + 1) \<and>
              (\<exists>us n'. length us = length ucs + 2 \<and> decode_loop altslash flags buflen m (p + 1 + 3) n' us cnt = Done (rc, out))"
              using less.prems(2) run False good(1) r Some True
              by (subst (asm) decode_loop.simps) (auto simp: Let_def split: if_split_asm)
            then show ?thesis
            proof
              assume "length out = length ucs + 1"
              then show ?thesis using one by simp
            next
              assume "\<not> buflen \<le> 2 * (length ucs + 1) \<and>
                (\<exists>us n'. length us = length ucs + 2 \<and> decode_loop altslash flags buflen m (p + 1 + 3) n' us cnt = Done (rc, out))"
              then obtain us n' where us: "length us = length ucs + 2" "2 * (length ucs + 2) \<le> buflen"
                "decode_loop altslash flags buflen m (p + 1 + 3) n' us cnt = Done (rc, out)" using two by blast
              show ?thesis by (rule IH' [OF _ us(3)]) (use us in simp)
            qed
          next
            case not3: False
            obtain c room res k where put: "put_char altslash flags buflen c ucs cnt = Done (room, res, k)"
              and rest: "room \<Longrightarrow> decode_loop altslash flags buflen m (p + 1 + ?k) (n - 1 - ?k) res k = Done (rc, out)"
                "\<not> room \<Longrightarrow> out = res"
              using less.prems(2) run False good r Some not3
              by (subst (asm) decode_loop.simps) (auto simp: Let_def obind_Done_iff split: if_split_asm)
            have "2 * length res \<le> buflen" by (rule put_char_room [OF put assms(1) run(4)])
            then show ?thesis using rest IH' [of res ?k "n - 1 - ?k" k] by (cases room) auto
          qed
        qed
      qed
    qed
  qed
qed

text \<open>
  C33. The decoder stays within its buffer: whatever the input and the flags are, the units that it has
  stored when it returns fit into \<open>buflen\<close> bytes, if that is a number of whole units.
\<close>

theorem decode_within_buffer:
  assumes "even buflen" "utf8_decodestr m n buflen altslash flags = Done (rc, ucs)"
  shows "2 * length ucs \<le> buflen"
  using decode_room [OF assms(1), of "[]"] assms(2) by (simp add: utf8_decodestr_def)

section \<open>Samples\<close>

text \<open>The name of two units, with an accent as a separate unit.\<close>

lemma sample_plain: "plain_name [0x65, 0x301]"
proof -
  have "\<not> misplaced 0x65 0x301" "\<not> unicode_decomposeable 0x301" "\<not> unicode_decomposeable 0x65" by code_simp+
  then show ?thesis by (simp add: plain_name_def high_surrogate_def low_surrogate_def)
qed

lemma name_roundtrip_witness:
  "obind (hfsuc_to_str [0x65, 0x301]) (\<lambda>(_, str). str_to_hfsuc str) = Done (4, [0x65, 0x301])"
  using name_roundtrip [OF sample_plain] by simp

lemma hfsuc_to_str_correct_witness: "hfsuc_to_str [0x65, 0x301] = Done (3, [0x65, 0xCC, 0x81, 0])"
  using hfsuc_to_str_correct [of "[0x65, 0x301]"]
  by (simp add: high_surrogate_def low_surrogate_def utf8_bytes_def)

lemma long_name_cut_witness:
  "obind (hfsuc_to_str (replicate 200 0x61)) (\<lambda>(_, str). str_to_hfsuc str) = Done (256, replicate 128 0x61)"
proof -
  have wf: "well_formed (replicate n 0x61)" for n
  proof (induction n)
    case (Suc n)
    then show ?case by (cases n) (simp_all add: high_surrogate_def low_surrogate_def)
  qed simp
  have st: "settled (replicate n 0x61)" for n
  proof (induction n)
    case (Suc n)
    then show ?case by (cases n) (simp_all add: misplaced_def)
  qed simp
  have "plain_name (replicate 200 0x61)"
    using wf [of 200] st [of 200] by (simp add: plain_name_def unicode_decomposeable_def)
  from long_name_cut [OF this] show ?thesis using wf [of 128] by simp
qed

lemma validate_as_decode_witness:
  "utf8_validatestr [0xC3, 0x41] 2 = Done EINVAL \<and>
   (\<exists>ucs. utf8_decodestr [0xC3, 0x41] 2 4 0 UTF_REVERSE_ENDIAN = Done (EINVAL, ucs))"
proof -
  have "utf8_validatestr [0xC3, 0x41] 2 = Done EINVAL" by code_simp
  then show ?thesis using validate_as_decode [of UTF_REVERSE_ENDIAN 2 "[0xC3, 0x41]" 4 0] by (simp add: has_def)
qed

lemma hangul_roundtrip_witness: "unicode_combine (unicode_combine 0x1112 0x1161) 0x11AB = 0xD55C"
proof -
  have "unicode_decompose 0xD55C = Some [0x1112, 0x1161, 0x11AB]" by (simp add: unicode_decompose_def)
  then show ?thesis using hangul_roundtrip [of "0xD55C"] by simp
qed

lemma decode_within_buffer_witness: "2 * length [0x61, 0x62 :: u16] \<le> 4"
proof -
  have "utf8_decodestr [0x61, 0x62, 0x63] 3 4 0 0 = Done (ENAMETOOLONG, [0x61, 0x62])" by code_simp
  from decode_within_buffer [OF _ this] show ?thesis by simp
qed

end
