(* ===== verification/Catalog.thy ===== *)
theory Catalog
  imports Fork_IO Utf_Correct
begin

text \<open>
  The catalog tree: \<^verbatim>\<open>src/src/hfs/catalog.c\<close>. Its keys are a parent folder and a name; its leaf records are
  folders, files, and the threads that lead from an identifier to the key of its folder or file. The
  lookups search the tree and follow threads and paths; the predicates recognise links and aliases.
  A catalog record is the union of its variants, a list of bytes of the size of the union. The file
  systems that the code passes along in its \<open>FSSpec\<close>s appear as the state of their catalog tree.
\<close>

section \<open>Keys and records\<close>

definition HFSUniStr255_of :: "buffer \<Rightarrow> nat \<Rightarrow> u16 list" where
  "HFSUniStr255_of m p =
     map (\<lambda>i. rd m (elem C16 i (fld HFSUniStr255_t ''unicode'' p)))
       [0..<unat (rd m (fld HFSUniStr255_t ''length'' p) :: u16)]"

text \<open>The name at an address is readable: its length, and as many units as it states.\<close>

definition name_fits :: "nat \<Rightarrow> buffer \<Rightarrow> bool" where
  "name_fits p m \<longleftrightarrow>
     fits p 2 m \<and> fits (fld HFSUniStr255_t ''unicode'' p) (2 * unat (rd m (fld HFSUniStr255_t ''length'' p) :: u16)) m"

definition HFSPlusCatalogKey_of :: "buffer \<Rightarrow> nat \<Rightarrow> HFSPlusCatalogKey" where
  "HFSPlusCatalogKey_of m p =
     \<lparr>ck_keyLength = rd m (fld HFSPlusCatalogKey_t ''keyLength'' p),
      ck_parentID = rd m (fld HFSPlusCatalogKey_t ''parentID'' p),
      ck_nodeName = HFSUniStr255_of m (fld HFSPlusCatalogKey_t ''nodeName'' p)\<rparr>"

text \<open>
  The two comparison functions on a key in memory and a stored one. Case folding reads no name if the
  parents differ; the binary comparison first prints both names. A name of the key in memory that claims
  more than the 255 units of its array is read beyond it.
\<close>

definition names_readable :: "HFSPlusCatalogKey \<Rightarrow> buffer \<Rightarrow> nat \<Rightarrow> bool" where
  "names_readable key m p \<longleftrightarrow>
     length (ck_nodeName key) \<le> 255 \<and> name_fits (fld HFSPlusCatalogKey_t ''nodeName'' p) m"

definition catalog_keyCompare_cf :: "HFSPlusCatalogKey \<Rightarrow> buffer \<Rightarrow> nat \<Rightarrow> int outcome" where
  "catalog_keyCompare_cf key m p =
     (if \<not> fits p (offsetof HFSPlusCatalogKey_t ''nodeName'') m then Fault
      else if ck_parentID key = ck_parentID (HFSPlusCatalogKey_of m p) \<and> \<not> names_readable key m p then Fault
      else Done (hfsplus_catalog_compare_keys_cf key (HFSPlusCatalogKey_of m p)))"

definition catalog_keyCompare_bc :: "HFSPlusCatalogKey \<Rightarrow> buffer \<Rightarrow> nat \<Rightarrow> int outcome" where
  "catalog_keyCompare_bc key m p =
     (if \<not> names_readable key m p then Fault
      else
        obind (hfsuc_to_str (ck_nodeName key)) (\<lambda>_.
        obind (hfsuc_to_str (ck_nodeName (HFSPlusCatalogKey_of m p))) (\<lambda>_.
          Done (hfsplus_catalog_compare_keys_bc key (HFSPlusCatalogKey_of m p)))))"

text \<open>
  The comparison that \<open>hfsplus_get_catalog_btree\<close> stores in the tree. For an HFSX volume whose header
  names neither of the two, the pointer stays null, and a search that calls it faults.
\<close>

definition catalog_keyCompare :: "u16 \<Rightarrow> u8 \<Rightarrow> HFSPlusCatalogKey \<Rightarrow> buffer \<Rightarrow> nat \<Rightarrow> int outcome" where
  "catalog_keyCompare signature compareType =
     (if signature = kHFSXSigWord
      then if compareType = kHFSCaseFolding then catalog_keyCompare_cf
           else if compareType = kHFSBinaryCompare then catalog_keyCompare_bc
           else (\<lambda>key m p. Fault)
      else catalog_keyCompare_cf)"

section \<open>Fetching a node\<close>

text \<open>What \<open>hfsplus_catalog_get_node\<close> adds to \<open>btree_get_node\<close>.\<close>

definition catalog_convert_record :: "btnode \<Rightarrow> nat \<Rightarrow> buffer \<Rightarrow> buffer outcome" where
  "catalog_convert_record node n m =
     (let node = node\<lparr>node_data := m\<rparr> in
      obind (BTGetRecord node (of_nat n)) (\<lambda>record.
      obind (swap_HFSPlusCatalogKey record m) (\<lambda>m.
      let len = fld HFSUniStr255_t ''length'' (fld HFSPlusCatalogKey_t ''nodeName'' record) in
      obind (load m len) (\<lambda>nameLength :: u16.
      let m = (if nameLength > 255 then wr len (255 :: u16) m else m) in
      if nd_kind node = kBTLeafNode
      then obind (BTGetRecordKeyLength (node\<lparr>node_data := m\<rparr>) (of_nat n)) (\<lambda>keyLen.
             swap_HFSPlusCatalogRecord (record + unat keyLen) m)
      else Done m))))"

definition catalog_convert :: "btnode \<Rightarrow> btnode outcome" where
  "catalog_convert node =
     (if nd_kind node = kBTIndexNode \<or> nd_kind node = kBTLeafNode
      then obind (steps (map (catalog_convert_record node) [0..<unat (nd_numRecords node)]) (node_data node))
             (\<lambda>m. Done (node\<lparr>node_data := m\<rparr>))
      else Done node)"

definition hfsplus_catalog_get_node ::
  "nat \<Rightarrow> u32 \<Rightarrow> btree \<Rightarrow> (int \<times> btnode option \<times> btree) outcome" where
  "hfsplus_catalog_get_node fuel n tree = run (get_node catalog_convert fuel tree n)"

text \<open>
  The first call makes the tree from the catalog fork of the volume header; \<open>fopen\<close> is the stream that
  \<open>fopen_hfsfork\<close> makes of the fork, if it can. The result of \<open>btree_init\<close> is not looked at.
\<close>

definition hfsplus_get_catalog_btree ::
  "(HFSPlusFork \<Rightarrow> u64 \<Rightarrow> 's \<Rightarrow> (int \<times> (extent_record \<times> u32) option \<times> 's) outcome) \<Rightarrow>
   (HFSPlusFork \<Rightarrow> (u64 \<Rightarrow> u64 \<Rightarrow> u64 \<times> buffer) option) \<Rightarrow> nat \<Rightarrow> HFSPlus \<Rightarrow> 's \<Rightarrow>
   (int \<times> btree option \<times> 's) outcome option" where
  "hfsplus_get_catalog_btree lookup fopen fuel hfs s =
     (case hfsplus_get_special_fork lookup fuel hfs kHFSCatalogFileID s of
        None \<Rightarrow> None
      | Some r \<Rightarrow> Some (obind r (\<lambda>(rc, fork, s).
          if rc < 0 then Critical
          else case fork of None \<Rightarrow> Fault
          | Some fork \<Rightarrow>
              (case fopen fork of None \<Rightarrow> Done (- 1, None, s)
               | Some fp \<Rightarrow>
                   obind (btree_init btree_zero fp) (\<lambda>(_, tree).
                     Done (0, Some (tree\<lparr>treeID := kHFSCatalogFileID\<rparr>), s))))))"

text \<open>
  The search that all lookups below make: with the comparison and the \<open>getNode\<close> of the catalog tree of
  a volume with this signature.
\<close>

definition catalog_search ::
  "nat \<Rightarrow> (nat \<Rightarrow> u32) \<Rightarrow> u16 \<Rightarrow> HFSPlusCatalogKey \<Rightarrow> btree \<Rightarrow> (bool \<times> (btnode \<times> u16) option \<times> btree) outcome" where
  "catalog_search fuel adjacent signature key tree =
     btree_search (catalog_keyCompare signature (keyCompareType (headerRecord tree)))
       (hfsplus_catalog_get_node fuel) (headerRecord tree) adjacent key tree"

section \<open>Lookups\<close>

record FSSpec =
  spec_parentID :: u32
  spec_name :: "u16 list"

abbreviation (input) kHFSPlusCatalogKeyMinimumLength :: u16 where "kHFSPlusCatalogKeyMinimumLength \<equiv> 6"

definition HFSPlusCatalogKeyFromFSSpec :: "FSSpec \<Rightarrow> HFSPlusCatalogKey" where
  "HFSPlusCatalogKeyFromFSSpec spec =
     \<lparr>ck_keyLength = max kHFSPlusCatalogKeyMinimumLength (4 + of_nat (length (spec_name spec))),
      ck_parentID = spec_parentID spec, ck_nodeName = spec_name spec\<rparr>"

definition HFSPlusFSSpecFromCatalogKey :: "HFSPlusCatalogKey \<Rightarrow> FSSpec" where
  "HFSPlusFSSpecFromCatalogKey key = \<lparr>spec_parentID = ck_parentID key, spec_name = ck_nodeName key\<rparr>"

text \<open>The result and what is stored through the two pointers; the name is converted to be printed.\<close>

definition hfsplus_catalog_find_record ::
  "nat \<Rightarrow> (nat \<Rightarrow> u32) \<Rightarrow> u16 \<Rightarrow> FSSpec \<Rightarrow> btree \<Rightarrow> (int \<times> (btnode \<times> u16) option \<times> btree) outcome" where
  "hfsplus_catalog_find_record fuel adjacent signature spec tree =
     obind (if length (spec_name spec) \<le> 255 then hfsuc_to_str (spec_name spec) else Fault) (\<lambda>_.
     obind (catalog_search fuel adjacent signature (HFSPlusCatalogKeyFromFSSpec spec) tree)
       (\<lambda>(result, found, tree). Done (if result then (1, found, tree) else (0, None, tree))))"

text \<open>The copy takes the size of the union, whatever the size of the record is.\<close>

definition HFSPlusGetCatalogRecordByFSSpec ::
  "nat \<Rightarrow> (nat \<Rightarrow> u32) \<Rightarrow> u16 \<Rightarrow> FSSpec \<Rightarrow> btree \<Rightarrow> (int \<times> buffer option \<times> btree) outcome" where
  "HFSPlusGetCatalogRecordByFSSpec fuel adjacent signature spec tree =
     obind (catalog_search fuel adjacent signature (HFSPlusCatalogKeyFromFSSpec spec) tree)
       (\<lambda>(result, found, tree).
        if \<not> result then Done (- 1, None, tree)
        else case found of None \<Rightarrow> Fault
        | Some (searchNode, searchIndex) \<Rightarrow>
            obind (BTGetBTNodeRecord searchNode searchIndex) (\<lambda>record.
              if fits (rec_value record) (sizeof HFSPlusCatalogRecord_t) (node_data searchNode)
              then Done (0, Some (chunk (rec_value record) (sizeof HFSPlusCatalogRecord_t) (node_data searchNode)), tree)
              else Fault))"

text \<open>The members of a record in memory.\<close>

definition record_type :: "buffer \<Rightarrow> u16" where
  "record_type r = rd r (fld HFSPlusCatalogRecord_t ''record_type'' 0)"

definition folderID :: "buffer \<Rightarrow> u32" where
  "folderID r = rd r (fld HFSPlusCatalogFolder_t ''folderID'' 0)"

definition thread_parentID :: "buffer \<Rightarrow> u32" where
  "thread_parentID r = rd r (fld HFSPlusCatalogThread_t ''parentID'' 0)"

definition thread_nodeName :: "buffer \<Rightarrow> u16 list" where
  "thread_nodeName r = HFSUniStr255_of r (fld HFSPlusCatalogThread_t ''nodeName'' 0)"

definition is_thread :: "buffer \<Rightarrow> bool" where
  "is_thread r \<longleftrightarrow> record_type r = kHFSPlusFileThreadRecord \<or> record_type r = kHFSPlusFolderThreadRecord"

text \<open>
  The lookups by identifier and by path use the lookup above; it is their argument \<open>lookup\<close>, with the
  state \<open>'s\<close> that it changes. The result is the return value and what is stored through both pointers.
\<close>

definition HFSPlusGetCatalogInfoByCNID ::
  "(FSSpec \<Rightarrow> 's \<Rightarrow> (int \<times> buffer option \<times> 's) outcome) \<Rightarrow> u32 \<Rightarrow> 's \<Rightarrow>
   (int \<times> (FSSpec \<times> buffer) option \<times> 's) outcome" where
  "HFSPlusGetCatalogInfoByCNID lookup cnid s =
     (let spec = \<lparr>spec_parentID = cnid, spec_name = []\<rparr> in
      obind (lookup spec s) (\<lambda>(rc, r, s).
        if rc < 0 then Done (- 1, None, s)
        else case r of None \<Rightarrow> Fault
        | Some catalogRecord \<Rightarrow>
            if is_thread catalogRecord
            then
              let spec = \<lparr>spec_parentID = thread_parentID catalogRecord, spec_name = thread_nodeName catalogRecord\<rparr> in
              obind (lookup spec s) (\<lambda>(rc, r, s).
                if rc < 0 then Done (- 1, None, s)
                else case r of None \<Rightarrow> Fault | Some catalogRecord \<Rightarrow> Done (0, Some (spec, catalogRecord), s))
            else Done (0, Some (spec, catalogRecord), s)))"

definition HFSPlusGetCNIDName ::
  "nat \<Rightarrow> (nat \<Rightarrow> u32) \<Rightarrow> u16 \<Rightarrow> u32 \<Rightarrow> btree \<Rightarrow> (int \<times> u8 list option \<times> btree) outcome" where
  "HFSPlusGetCNIDName fuel adjacent signature cnid tree =
     (let key = \<lparr>ck_keyLength = kHFSPlusCatalogKeyMinimumLength, ck_parentID = cnid, ck_nodeName = []\<rparr> in
      obind (catalog_search fuel adjacent signature key tree) (\<lambda>(found, stored, tree).
        if \<not> found then Done (- 1, None, tree)
        else case stored of None \<Rightarrow> Fault
        | Some (node, recordID) \<Rightarrow>
            if node_size node = 0 then Done (- 1, None, tree)
            else
              obind (btree_get_record node recordID) (\<lambda>r.
              case r of None \<Rightarrow> Fault
              | Some (_, recordValue) \<Rightarrow>
                  let name = fld HFSPlusCatalogThread_t ''nodeName'' recordValue in
                  if name_fits name (node_data node)
                  then obind (hfsuc_to_str (HFSUniStr255_of (node_data node) name)) (\<lambda>(rc, str).
                         Done (rc, Some str, tree))
                  else Fault)))"

section \<open>Paths\<close>

text \<open>The segments that repeated calls of \<open>strsep\<close> with the separator \<open>/\<close> deliver.\<close>

fun segments :: "u8 list \<Rightarrow> u8 list list" where
  "segments [] = [[]]"
| "segments (c # cs) =
     (if c = 0x2F then [] # segments cs
      else case segments cs of [] \<Rightarrow> [[c]] | s # ss \<Rightarrow> (c # s) # ss)"

abbreviation (input) PATH_MAX :: nat where "PATH_MAX \<equiv> 4096"

text \<open>The name that a segment, terminated in the copy of the path, stands for.\<close>

definition segment_name :: "u8 list \<Rightarrow> u16 list outcome" where
  "segment_name segment = obind (str_to_hfsuc (segment @ [0])) (\<lambda>(_, name). Done name)"

definition next_parent :: "buffer \<Rightarrow> u32 \<Rightarrow> u32" where
  "next_parent catalogRecord parentID =
     (if record_type catalogRecord = kHFSPlusFolderRecord then folderID catalogRecord
      else if is_thread catalogRecord then thread_parentID catalogRecord
      else parentID)"

text \<open>
  The loop over the segments. \<open>found\<close>, \<open>last_parentID\<close>, \<open>last_segment\<close> and \<open>catalogRecord\<close> keep the
  values of the last round.
\<close>

fun path_loop ::
  "(FSSpec \<Rightarrow> 's \<Rightarrow> (int \<times> buffer option \<times> 's) outcome) \<Rightarrow> u8 list list \<Rightarrow> u32 \<Rightarrow>
   bool \<times> u32 \<times> u8 list \<times> buffer \<Rightarrow> 's \<Rightarrow> ((bool \<times> u32 \<times> u8 list \<times> buffer) \<times> 's) outcome" where
  "path_loop lookup [] parentID found s = Done (found, s)"
| "path_loop lookup (segment # rest) parentID (_, _, _, catalogRecord) s =
     (let last_segment = take (PATH_MAX - 1) segment; last_parentID = parentID in
      obind (segment_name segment) (\<lambda>name.
      obind (lookup \<lparr>spec_parentID = last_parentID, spec_name = name\<rparr> s) (\<lambda>(rc, r, s).
        let catalogRecord = (case r of None \<Rightarrow> catalogRecord | Some r \<Rightarrow> r) in
        if rc < 0 then Done ((False, last_parentID, last_segment, catalogRecord), s)
        else if segment = []
        then path_loop lookup rest parentID (True, last_parentID, last_segment, catalogRecord) s
        else
          let parentID = next_parent catalogRecord parentID in
          if record_type catalogRecord = kHFSPlusFileRecord
          then Done ((True, last_parentID, last_segment, catalogRecord), s)
          else path_loop lookup rest parentID (True, last_parentID, last_segment, catalogRecord) s)))"

definition HFSPlusGetCatalogInfoByPath ::
  "(FSSpec \<Rightarrow> 's \<Rightarrow> (int \<times> buffer option \<times> 's) outcome) \<Rightarrow> u8 list \<Rightarrow> 's \<Rightarrow>
   (int \<times> (FSSpec \<times> buffer) option \<times> 's) outcome" where
  "HFSPlusGetCatalogInfoByPath lookup path s =
     (if path = [] then Done (- 1, None, s)
      else
        obind (path_loop lookup (segments path) kHFSRootFolderID
                 (False, 0, [], replicate (sizeof HFSPlusCatalogRecord_t) 0) s)
          (\<lambda>((found, last_parentID, last_segment, catalogRecord), s).
           if \<not> found then Done (- 1, None, s)
           else obind (segment_name last_segment) (\<lambda>name.
             Done (0, Some (\<lparr>spec_parentID = last_parentID, spec_name = name\<rparr>, catalogRecord), s))))"

section \<open>Links and aliases\<close>

definition fd :: "string \<Rightarrow> buffer \<Rightarrow> 'a::len word" where
  "fd f r = rd r (fld FndrFileInfo_t f (fld HFSPlusCatalogFile_t ''userInfo'' 0))"

abbreviation (input) kAliasCreator :: u32 where "kAliasCreator \<equiv> 0x4D414353"
abbreviation (input) kFileAliasType :: u32 where "kFileAliasType \<equiv> 0x616C6973"
abbreviation (input) kFolderAliasType :: u32 where "kFolderAliasType \<equiv> 0x66647270"
abbreviation (input) kIsAlias :: u16 where "kIsAlias \<equiv> 0x8000"
abbreviation (input) kHFSHasLinkChainMask :: u16 where "kHFSHasLinkChainMask \<equiv> 0x0020"

definition HFSPlusCatalogFileIsHardLink :: "buffer \<Rightarrow> bool" where
  "HFSPlusCatalogFileIsHardLink record \<longleftrightarrow>
     record_type record = kHFSPlusFileRecord \<and>
     (fd ''fdCreator'' record = kHFSPlusCreator \<and> fd ''fdType'' record = kHardLinkFileType)"

definition HFSPlusCatalogRecordIsFolderAlias :: "buffer \<Rightarrow> bool" where
  "HFSPlusCatalogRecordIsFolderAlias record \<longleftrightarrow>
     record_type record = kHFSPlusFileRecord \<and> fd ''fdFlags'' record AND kIsAlias \<noteq> 0 \<and>
     fd ''fdCreator'' record = kAliasCreator \<and> fd ''fdType'' record = kFolderAliasType"

definition HFSPlusCatalogRecordIsFileAlias :: "buffer \<Rightarrow> bool" where
  "HFSPlusCatalogRecordIsFileAlias record \<longleftrightarrow>
     record_type record = kHFSPlusFileRecord \<and> fd ''fdFlags'' record AND kIsAlias \<noteq> 0 \<and>
     fd ''fdCreator'' record = kAliasCreator \<and> fd ''fdType'' record = kFileAliasType"

definition HFSPlusCatalogFolderIsHardLink :: "buffer \<Rightarrow> bool" where
  "HFSPlusCatalogFolderIsHardLink record \<longleftrightarrow>
     record_type record = kHFSPlusFileRecord \<and>
     ((rd record (fld HFSPlusCatalogFile_t ''flags'' 0) :: u16) AND kHFSHasLinkChainMask \<noteq> 0 \<and>
      HFSPlusCatalogRecordIsFolderAlias record)"

definition HFSPlusCatalogRecordIsHardLink :: "buffer \<Rightarrow> bool" where
  "HFSPlusCatalogRecordIsHardLink record \<longleftrightarrow>
     HFSPlusCatalogFileIsHardLink record \<or> HFSPlusCatalogFolderIsHardLink record"

definition HFSPlusCatalogRecordIsSymLink :: "buffer \<Rightarrow> bool" where
  "HFSPlusCatalogRecordIsSymLink record \<longleftrightarrow>
     record_type record = kHFSPlusFileRecord \<and> fd ''fdCreator'' record = kSymLinkCreator \<and>
     fd ''fdType'' record = kSymLinkFileType"

definition HFSPlusCatalogRecordIsAlias :: "buffer \<Rightarrow> bool" where
  "HFSPlusCatalogRecordIsAlias record \<longleftrightarrow>
     HFSPlusCatalogRecordIsFileAlias record \<or> HFSPlusCatalogRecordIsFolderAlias record"

section \<open>The entries of a tree\<close>

lemma catalog_sizes:
  "sizeof HFSPlusCatalogRecord_t = 520" "offsetof HFSPlusCatalogKey_t ''nodeName'' = 6"
  "offsetof HFSPlusCatalogKey_t ''keyLength'' = 0" "offsetof HFSPlusCatalogKey_t ''parentID'' = 2"
  "offsetof HFSUniStr255_t ''length'' = 0" "offsetof HFSUniStr255_t ''unicode'' = 2"
  by code_simp+

lemma encode_loop_returns: "\<exists>r. encode_loop SLASH 0 cap [] us 0 out = Done r"
proof (induction us arbitrary: out rule: length_induct)
  case (1 us)
  show ?case
  proof (cases us)
    case Nil
    then show ?thesis by (simp add: encode_loop_Nil)
  next
    case (Cons u rest)
    have "\<exists>r. encode_unit False room c (rest \<noteq> []) (case rest of [] \<Rightarrow> None | v # _ \<Rightarrow> Some v) = Done r" for room c
      by (cases rest) (simp_all add: encode_unit_def Let_def)
    then obtain r where r: "encode_unit False (cap - int (length out)) (shown u) (rest \<noteq> [])
        (case rest of [] \<Rightarrow> None | v # _ \<Rightarrow> Some v) = Done r" by blast
    show ?thesis
    proof (cases r)
      case (Inl rc)
      with r show ?thesis by (simp add: Cons encode_loop_Cons)
    next
      case (Inr q)
      obtain bytes used where q: "q = (bytes, used)" by force
      have "length (if used then tl rest else rest) < length us" by (auto simp: Cons)
      with "1" obtain r' where "encode_loop SLASH 0 cap [] (if used then tl rest else rest) 0 (out @ bytes) = Done r'"
        by blast
      with r show ?thesis by (simp add: Cons Inr q encode_loop_Cons)
    qed
  qed
qed

lemma hfsuc_to_str_returns: "\<exists>r. hfsuc_to_str us = Done r"
proof -
  obtain r where "encode_loop SLASH 0 1023 [] us 0 [] = Done r" using encode_loop_returns by blast
  then show ?thesis by (cases r) (simp add: hfsuc_to_str_def utf8_encodestr_def no_flags_0)
qed


text \<open>
  A record as the lookups see it: its key and, at the address that the length of the key gives, the bytes
  that are copied, if the node has as many.
\<close>

type_synonym catalog_entry = "HFSPlusCatalogKey \<times> buffer option"

definition catalog_value :: "buffer \<Rightarrow> nat \<Rightarrow> nat" where
  "catalog_value m p = (let k = unat (ck_keyLength (HFSPlusCatalogKey_of m p)) + 2 in p + (k + k mod 2))"

definition catalog_entry_at :: "buffer \<Rightarrow> nat \<Rightarrow> catalog_entry option" where
  "catalog_entry_at m p =
     (if fits p 6 m \<and> name_fits (p + 6) m
      then Some (HFSPlusCatalogKey_of m p,
                 if fits (catalog_value m p) 520 m then Some (chunk (catalog_value m p) 520 m) else None)
      else None)"

definition compare_of :: "bool \<Rightarrow> HFSPlusCatalogKey \<Rightarrow> HFSPlusCatalogKey \<Rightarrow> int" where
  "compare_of bc = (if bc then hfsplus_catalog_compare_keys_bc else hfsplus_catalog_compare_keys_cf)"

definition keyCompare_of :: "bool \<Rightarrow> HFSPlusCatalogKey \<Rightarrow> buffer \<Rightarrow> nat \<Rightarrow> int outcome" where
  "keyCompare_of bc = (if bc then catalog_keyCompare_bc else catalog_keyCompare_cf)"

definition catalog_cmp :: "bool \<Rightarrow> catalog_entry \<Rightarrow> catalog_entry \<Rightarrow> int" where
  "catalog_cmp bc a b = compare_of bc (fst a) (fst b)"

lemma keyCompare_stored:
  assumes "catalog_entry_at m p = Some k'" "length (ck_nodeName key) \<le> 255"
  shows "keyCompare_of bc key m p = Done (compare_of bc key (fst k'))"
proof -
  obtain r r' where "hfsuc_to_str (ck_nodeName key) = Done r" "hfsuc_to_str (ck_nodeName (HFSPlusCatalogKey_of m p)) = Done r'"
    using hfsuc_to_str_returns by blast
  with assms show ?thesis
    by (auto simp: keyCompare_of_def compare_of_def catalog_keyCompare_bc_def catalog_keyCompare_cf_def
        names_readable_def catalog_entry_at_def catalog_sizes fld_def split: if_splits)
qed

text \<open>The comparison for keys in memory that the code can form; for the others it does not matter.\<close>

definition total_keyCompare :: "bool \<Rightarrow> catalog_entry \<Rightarrow> buffer \<Rightarrow> nat \<Rightarrow> int outcome" where
  "total_keyCompare bc k m p =
     (if length (ck_nodeName (fst k)) \<le> 255 then keyCompare_of bc (fst k) m p
      else Done (compare_of bc (fst k) (HFSPlusCatalogKey_of m p)))"

interpretation catalog_nodes: search_tree "catalog_cmp bc" "total_keyCompare bc" catalog_entry_at
  "\<lambda>n tree. run (get_node (src_convert src) (Suc fuel) tree n)" "tree_good src" "tree_view src"
  for bc src fuel
proof (intro search_tree.intro stored_keys.intro stored_keys_axioms.intro)
  have "key_order (compare_of bc)"
    by (simp add: compare_of_def catalog_keys_bc.key_order_axioms catalog_keys_cf.key_order_axioms)
  then have "key_order (\<lambda>a b :: catalog_entry. compare_of bc (fst a) (fst b))" by (rule key_order_map)
  then show "key_order (catalog_cmp bc)" by (simp add: catalog_cmp_def [abs_def])
  show "total_keyCompare bc k m p = Done (catalog_cmp bc k k')" if "catalog_entry_at m p = Some k'" for k m p k'
  proof (cases "length (ck_nodeName (fst k)) \<le> 255")
    case True
    then show ?thesis using keyCompare_stored [OF that True] by (simp add: total_keyCompare_def catalog_cmp_def)
  next
    case False
    then show ?thesis using that by (auto simp: total_keyCompare_def catalog_cmp_def catalog_entry_at_def split: if_splits)
  qed
qed (rule tree_file.node_source_axioms)


lemma catalog_view_node:
  assumes "tree_view src n = Some node" "src_convert src = catalog_convert"
  shows "header node = src_header src" "node_size node = src_size src"
proof -
  have "header node' = header node0 \<and> node_size node' = node_size node0"
    if "catalog_convert node0 = Done node'" for node0 node'
    using that by (auto simp: catalog_convert_def obind_Done_iff split: if_splits)
  with assms show "header node = src_header src" "node_size node = src_size src"
    by (force simp: tree_view_def plain_node_def Let_def split: if_splits outcome.splits)+
qed

lemma catalog_leaf_record:
  assumes holds: "holds_keys catalog_entry_at node ls" and i: "i < length ls"
    and node: "nd_kind node = kBTLeafNode" "attributes (header node) AND kBTBigKeysMask \<noteq> 0" "maxKeyLength (header node) = 516"
    and e: "ls ! i = (k, v)" "ck_keyLength k \<le> 516"
  shows "\<exists>r. BTGetBTNodeRecord node (of_nat i) = Done r \<and>
    v = (if fits (rec_value r) 520 (node_data node) then Some (chunk (rec_value r) 520 (node_data node)) else None)"
proof -
  let ?o = "unat (record_offset node i)" and ?m = "node_data node"
  have ent: "catalog_entry_at ?m ?o = Some (k, v)" using holds i e by (auto simp: holds_keys_def)
  have ok: "node_ok node" and n: "i < unat (nd_numRecords node)" using holds i by (auto simp: holds_keys_def)
  have "i < 2 ^ 16" using n unat_bound [of "nd_numRecords node"] by simp
  then have u: "unat (of_nat i :: u16) = i" by (intro unat_of_nat_small) simp
  have "unat (nd_numRecords node) < 2 ^ 16" using unat_bound [of "nd_numRecords node"] by simp
  then have u': "unat (of_nat i + 1 :: u16) = i + 1"
    using n u by (simp add: unat_plus)
  have off: "BTGetRecordOffset node (of_nat i) = Done (record_offset node i)"
    "BTGetRecordOffset node (of_nat i + 1) = Done (record_offset node (i + 1))"
    using BTGetRecordOffset_ok [OF ok, of "of_nat i"] BTGetRecordOffset_ok [OF ok, of "of_nat i + 1"] n u u' by simp_all
  have k: "k = HFSPlusCatalogKey_of ?m ?o" "fits ?o 6 ?m" using ent by (auto simp: catalog_entry_at_def split: if_splits)
  have kl: "load ?m ?o = Done (ck_keyLength k)"
    using k by (simp add: load_def fits_def HFSPlusCatalogKey_of_def fld_def catalog_sizes)
  have big: "unat (ck_keyLength k) \<le> 516" using e(2) by (simp add: word_le_nat_alt)
  let ?s = "adjust_key_size (header node) (ck_keyLength k)"
  have len: "unat ?s = unat (ck_keyLength k) + 2 + (unat (ck_keyLength k) + 2) mod 2"
  proof -
    have a: "unat (ck_keyLength k + 2) = unat (ck_keyLength k) + 2" using big by (simp add: unat_plus)
    moreover have "(unat (ck_keyLength k) + 2) mod 2 \<le> 1" by simp
    moreover have "unat ((ck_keyLength k + 2) mod 2) = (unat (ck_keyLength k) + 2) mod 2"
      using a by (simp add: unat_mod)
    ultimately have "unat (ck_keyLength k + 2 + (ck_keyLength k + 2) mod 2) = unat (ck_keyLength k) + 2 + (unat (ck_keyLength k) + 2) mod 2"
      using big by (subst unat_plus) simp_all
    moreover have "\<not> 516 < ck_keyLength k" using e(2) by (simp add: not_less)
    ultimately show ?thesis using node by (simp add: adjust_key_size_def Let_def)
  qed
  have key: "BTGetRecordKeyLength node (of_nat i) = Done ?s"
    using node kl off by (simp add: BTGetRecordKeyLength_def Let_def BTGetRecord_def)
  have "?o + unat ?s = catalog_value ?m ?o" using len k(1) by (simp add: catalog_value_def Let_def)
  then show ?thesis
    using off key ent by (auto simp: BTGetBTNodeRecord_def Let_def catalog_entry_at_def split: if_splits)
qed

text \<open>
  The catalog tree of a volume: the comparison is one of the two, key lengths are within the maximum, and
  the entries ascend. What a lookup finds in such a list of entries; \<open>levels\<close> is the depth of the tree.
\<close>

definition catalog_tree :: "tree_source \<Rightarrow> u16 \<Rightarrow> bool \<Rightarrow> catalog_entry list \<Rightarrow> bool" where
  "catalog_tree src signature bc es \<longleftrightarrow>
     src_convert src = catalog_convert \<and>
     catalog_keyCompare signature (keyCompareType (src_header src)) = keyCompare_of bc \<and>
     attributes (src_header src) AND kBTBigKeysMask \<noteq> 0 \<and> maxKeyLength (src_header src) = 516 \<and>
     subtree (tree_view src) catalog_entry_at (catalog_cmp bc) (totalNodes (src_header src))
       (unat (treeDepth (src_header src))) (rootNode (src_header src)) es \<and>
     sorted_wrt (\<lambda>a b. catalog_cmp bc a b < 0) es \<and>
     (\<forall>e \<in> set es. ck_keyLength (fst e) \<le> 516)"

definition catalog_find :: "bool \<Rightarrow> u16 \<Rightarrow> catalog_entry list \<Rightarrow> HFSPlusCatalogKey \<Rightarrow> buffer option outcome" where
  "catalog_find bc levels es key =
     (if 1 < levels \<and> compare_of bc key (fst (hd es)) < 0 then Critical
      else case find (\<lambda>e. compare_of bc key (fst e) = 0) es of
        None \<Rightarrow> Done None
      | Some (_, None) \<Rightarrow> Fault
      | Some (_, Some r) \<Rightarrow> Done (Some r))"

lemma find_ascending:
  assumes asc: "key_order.ascending_keys (catalog_cmp bc) es" and i: "i < length es" "compare_of bc key (fst (es ! i)) = 0"
  shows "find (\<lambda>e. compare_of bc key (fst e) = 0) es = Some (es ! i)"
proof -
  have "compare_of bc key (fst (es ! j)) \<noteq> 0" if "j < i" for j
  proof
    assume eq: "compare_of bc key (fst (es ! j)) = 0"
    have "catalog_cmp bc (es ! j) (es ! i) < 0"
      using catalog_nodes.ascending_keysD [OF asc that i(1)] .
    moreover have "catalog_cmp bc (key, None) (es ! j) = 0" "catalog_cmp bc (key, None) (es ! i) = 0"
      using eq i(2) by (simp_all add: catalog_cmp_def)
    ultimately show False using catalog_nodes.eq_left [of bc "(key, None)" "es ! j" "es ! i"] by simp
  qed
  with i show ?thesis by (auto simp: find_Some_iff)
qed


lemma catalog_lookup:
  assumes tree: "catalog_tree src signature bc es" and good: "tree_good src tree"
    and name: "length (spec_name spec) \<le> 255"
  shows "\<exists>tree'. tree_good src tree' \<and>
    HFSPlusGetCatalogRecordByFSSpec (Suc fuel) adjacent signature spec tree =
      obind (catalog_find bc (treeDepth (src_header src)) es (HFSPlusCatalogKeyFromFSSpec spec)) (\<lambda>r.
        Done (case r of None \<Rightarrow> (- 1, None, tree') | Some r \<Rightarrow> (0, Some r, tree')))"
proof -
  let ?key = "HFSPlusCatalogKeyFromFSSpec spec" and ?h = "src_header src"
  let ?skey = "(?key, None) :: catalog_entry"
  let ?gn = "\<lambda>n tree. run (get_node (src_convert src) (Suc fuel) tree n)"
  let ?search = "btree_search (total_keyCompare bc) ?gn ?h adjacent ?skey tree"
  note t = tree [unfolded catalog_tree_def]
  have asc: "key_order.ascending_keys (catalog_cmp bc) es" using t by (simp add: catalog_nodes.ascending_sorted)
  have h: "headerRecord tree = ?h" using good by (simp add: tree_good_def)
  have search: "catalog_search (Suc fuel) adjacent signature ?key tree = ?search"
  proof -
    have "keyCompare_of bc ?key = total_keyCompare bc ?skey"
      using name by (intro ext) (simp add: total_keyCompare_def HFSPlusCatalogKeyFromFSSpec_def)
    moreover have "?gn = hfsplus_catalog_get_node (Suc fuel)"
      using t by (intro ext) (simp add: hfsplus_catalog_get_node_def)
    ultimately show ?thesis
      using t by (simp add: catalog_search_def h btree_search_cong [of "keyCompare_of bc" ?key "total_keyCompare bc" ?skey])
  qed
  show ?thesis
  proof (cases "1 < treeDepth ?h \<and> compare_of bc ?key (fst (hd es)) < 0")
    case True
    then have "?search = Critical"
      using t asc good by (intro catalog_nodes.search_before_first [where ks = es]) (simp_all add: catalog_cmp_def)
    then show ?thesis using True good search by (auto simp: HFSPlusGetCatalogRecordByFSSpec_def catalog_find_def)
  next
    case False
    then have "0 \<le> catalog_cmp bc ?skey (hd es)" if "1 < treeDepth ?h"
      using that by (auto simp: catalog_cmp_def)
    then have "catalog_cmp bc (hd es) ?skey \<le> 0" if "1 < treeDepth ?h"
      using that catalog_nodes.key_le_iff [of bc "hd es" ?skey] by blast
    then have "catalog_nodes.lands bc src ?skey es ?search"
      using t asc good by (intro catalog_nodes.search_lands) auto
    then obtain node j tree' ls n where
      res: "?search = Done (\<exists>e \<in> set es. catalog_cmp bc ?skey e = 0, Some (node, j), tree')"
      and good': "tree_good src tree'" and view: "tree_view src n = Some node" and leaf: "nd_kind node = kBTLeafNode"
      and holds: "holds_keys catalog_entry_at node ls"
      and j: "0 < rank (catalog_cmp bc) ?skey es \<longrightarrow>
        unat j < length ls \<and> ls ! unat j = es ! (rank (catalog_cmp bc) ?skey es - 1)"
      unfolding catalog_nodes.lands_def by (elim exE conjE) (rule that)
    have "HFSPlusGetCatalogRecordByFSSpec (Suc fuel) adjacent signature spec tree =
      obind (catalog_find bc (treeDepth ?h) es ?key) (\<lambda>r.
        Done (case r of None \<Rightarrow> (- 1, None, tree') | Some r \<Rightarrow> (0, Some r, tree')))"
    proof (cases "\<exists>e \<in> set es. catalog_cmp bc ?skey e = 0")
      case no: False
      then have "find (\<lambda>e. compare_of bc ?key (fst e) = 0) es = None"
        by (force simp: find_None_iff catalog_cmp_def)
      with no False search res show ?thesis
        by (simp add: HFSPlusGetCatalogRecordByFSSpec_def catalog_find_def)
    next
      case hit: True
      then obtain i where i: "i < length es" "catalog_cmp bc ?skey (es ! i) = 0" by (auto simp: in_set_conv_nth)
      have rank: "rank (catalog_cmp bc) ?skey es = i + 1" by (rule catalog_nodes.rank_exact [OF asc i])
      obtain k v where kv: "es ! i = (k, v)" by force
      have e: "ls ! unat j = (k, v)" "unat j < length ls" using j rank kv by simp_all
      have "ck_keyLength k \<le> 516" using t nth_mem [OF i(1)] kv by auto
      moreover have "header node = ?h" using catalog_view_node [OF view] t by simp
      ultimately obtain r where r: "BTGetBTNodeRecord node j = Done r"
        "v = (if fits (rec_value r) 520 (node_data node) then Some (chunk (rec_value r) 520 (node_data node)) else None)"
        using catalog_leaf_record [OF holds e(2) leaf _ _ e(1)] t by auto
      have "find (\<lambda>e. compare_of bc ?key (fst e) = 0) es = Some (k, v)"
        using find_ascending [OF asc i(1)] i(2) kv by (simp add: catalog_cmp_def)
      with hit False search res r show ?thesis
        by (auto simp: HFSPlusGetCatalogRecordByFSSpec_def catalog_find_def catalog_sizes)
    qed
    with good' show ?thesis by blast
  qed
qed


section \<open>Lookups over a catalog\<close>

text \<open>
  What the lookups by identifier and by path rely on: \<open>find_record\<close> is the catalog as a function of keys
  whose names fit into the array, and a lookup in a good state answers from it and keeps the state good.
\<close>

definition answer :: "buffer option outcome \<Rightarrow> 's \<Rightarrow> (int \<times> buffer option \<times> 's) outcome" where
  "answer found s = obind found (\<lambda>r. Done (case r of None \<Rightarrow> (- 1, None, s) | Some r \<Rightarrow> (0, Some r, s)))"

lemma answer_simps [simp]:
  "answer (Done None) s = Done (- 1, None, s)" "answer (Done (Some r)) s = Done (0, Some r, s)"
  by (simp_all add: answer_def)

locale catalog_source =
  fixes lookup :: "FSSpec \<Rightarrow> 's \<Rightarrow> (int \<times> buffer option \<times> 's) outcome"
    and good :: "'s \<Rightarrow> bool"
    and find_record :: "FSSpec \<Rightarrow> buffer option outcome"
  assumes lookup: "good s \<Longrightarrow> length (spec_name spec) \<le> 255 \<Longrightarrow>
    \<exists>s'. good s' \<and> lookup spec s = answer (find_record spec) s'"

text \<open>
  The folder \<open>q\<close> that a list of segments leads to from the folder \<open>p\<close>. An empty segment stays where it is,
  if the catalog has a thread for the folder; a thread that is found by name leads to its parent.
\<close>

inductive leads_to :: "(FSSpec \<Rightarrow> buffer option outcome) \<Rightarrow> u32 \<Rightarrow> u8 list list \<Rightarrow> u32 \<Rightarrow> bool"
  for find_record where
  leads_here: "leads_to find_record p [] p"
| leads_empty:
    "segment_name [] = Done name \<Longrightarrow> find_record \<lparr>spec_parentID = p, spec_name = name\<rparr> = Done (Some r) \<Longrightarrow>
     leads_to find_record p segs q \<Longrightarrow> leads_to find_record p ([] # segs) q"
| leads_into:
    "seg \<noteq> [] \<Longrightarrow> segment_name seg = Done name \<Longrightarrow>
     find_record \<lparr>spec_parentID = p, spec_name = name\<rparr> = Done (Some r) \<Longrightarrow>
     record_type r \<noteq> kHFSPlusFileRecord \<Longrightarrow> leads_to find_record (next_parent r p) segs q \<Longrightarrow>
     leads_to find_record p (seg # segs) q"

inductive_cases leads_ConsE: "leads_to find_record p (seg # segs) q"
inductive_simps leads_Nil: "leads_to find_record p [] q"

lemma segment_name_length:
  assumes "segment_name seg = Done name"
  shows "length name \<le> 255"
proof -
  obtain rc where "utf8_decodestr (seg @ [0]) (length (takeWhile (\<lambda>c. c \<noteq> 0) (seg @ [0])) + 1) 256 SLASH
      UTF_DECOMPOSED = Done (rc, name)"
    using assms by (auto simp: segment_name_def str_to_hfsuc_def obind_Done_iff)
  then have "2 * length name \<le> 256"
    using decode_room [of 256 "[]"] by (simp add: utf8_decodestr_def)
  then show ?thesis by simp
qed

context catalog_source
begin

lemma path_loop_leads:
  assumes "leads_to find_record p folders q" "good s"
  shows "\<exists>s' found'. good s' \<and> (folders = [] \<longrightarrow> found' = found) \<and>
    path_loop lookup (folders @ segs) p found s = path_loop lookup segs q found' s'"
  using assms
proof (induction arbitrary: s found rule: leads_to.induct)
  case (leads_here p)
  then show ?case by auto
next
  case (leads_empty name p r fs q)
  obtain s1 where s1: "good s1" "lookup \<lparr>spec_parentID = p, spec_name = name\<rparr> s = Done (0, Some r, s1)"
    using lookup [OF leads_empty.prems, of "\<lparr>spec_parentID = p, spec_name = name\<rparr>"]
      segment_name_length [OF leads_empty(1)] leads_empty(2) by auto
  obtain s' found' where rest: "good s'" "path_loop lookup (fs @ segs) p (True, p, [], r) s1 = path_loop lookup segs q found' s'"
    using leads_empty.IH [OF s1(1)] by blast
  have "path_loop lookup (([] # fs) @ segs) p found s = path_loop lookup (fs @ segs) p (True, p, [], r) s1"
    using s1(2) leads_empty(1) by (cases found) simp
  with rest show ?case by (intro exI [of _ s'] exI [of _ found']) simp
next
  case (leads_into seg name p r fs q)
  obtain s1 where s1: "good s1" "lookup \<lparr>spec_parentID = p, spec_name = name\<rparr> s = Done (0, Some r, s1)"
    using lookup [OF leads_into.prems, of "\<lparr>spec_parentID = p, spec_name = name\<rparr>"]
      segment_name_length [OF leads_into(2)] leads_into(3) by auto
  let ?found = "(True, p, take (PATH_MAX - 1) seg, r)"
  obtain s' found' where rest: "good s'"
    "path_loop lookup (fs @ segs) (next_parent r p) ?found s1 = path_loop lookup segs q found' s'"
    using leads_into.IH [OF s1(1)] by blast
  have "path_loop lookup ((seg # fs) @ segs) p found s = path_loop lookup (fs @ segs) (next_parent r p) ?found s1"
    using s1(2) leads_into(1,2,4) by (cases found) (simp add: Let_def)
  with rest show ?case by (intro exI [of _ s'] exI [of _ found']) simp
qed

lemma by_path:
  assumes path: "path \<noteq> []" "segments path = folders @ seg # rest"
    and folders: "leads_to find_record kHFSRootFolderID folders q"
    and seg: "segment_name seg = Done name" "length seg < PATH_MAX"
    and found: "find_record \<lparr>spec_parentID = q, spec_name = name\<rparr> = Done found"
    and last: "rest = [] \<or> seg \<noteq> [] \<and> (\<exists>r. found = Some r \<and> record_type r = kHFSPlusFileRecord) \<or> found = None"
    and good: "good s"
  shows "\<exists>s'. good s' \<and> HFSPlusGetCatalogInfoByPath lookup path s =
    Done (case found of None \<Rightarrow> (- 1, None, s')
      | Some r \<Rightarrow> (0, Some (\<lparr>spec_parentID = q, spec_name = name\<rparr>, r), s'))"
proof -
  let ?init = "(False, 0, [], replicate (sizeof HFSPlusCatalogRecord_t) 0)"
  obtain s1 fnd where s1: "good s1"
    "path_loop lookup (folders @ seg # rest) kHFSRootFolderID ?init s = path_loop lookup (seg # rest) q fnd s1"
    using path_loop_leads [OF folders good] by blast
  obtain s2 where s2: "good s2" "lookup \<lparr>spec_parentID = q, spec_name = name\<rparr> s1 = answer (Done found) s2"
    using lookup [OF s1(1), of "\<lparr>spec_parentID = q, spec_name = name\<rparr>"] segment_name_length [OF seg(1)] found by auto
  have cut: "take (PATH_MAX - 1) seg = seg" using seg(2) by simp
  obtain a b c d where fnd: "fnd = (a, b, c, d)" by (cases fnd)
  show ?thesis
  proof (cases found)
    case None
    then have "path_loop lookup (seg # rest) q fnd s1 = Done ((False, q, seg, d), s2)"
      using s2(2) seg(1) cut by (simp add: fnd Let_def)
    then show ?thesis using None s1(2) s2(1) path by (auto simp: HFSPlusGetCatalogInfoByPath_def)
  next
    case (Some r)
    then have "path_loop lookup (seg # rest) q fnd s1 = Done ((True, q, seg, r), s2)"
      using s2(2) seg(1) cut last by (auto simp: fnd Let_def)
    then show ?thesis using Some s1(2) s2(1) path seg(1) by (auto simp: HFSPlusGetCatalogInfoByPath_def)
  qed
qed

lemma by_cnid:
  assumes thread: "find_record \<lparr>spec_parentID = cnid, spec_name = []\<rparr> = Done (Some thread)" "is_thread thread"
    and name: "length (thread_nodeName thread) \<le> 255" and good: "good s"
    and found: "find_record \<lparr>spec_parentID = thread_parentID thread, spec_name = thread_nodeName thread\<rparr> = Done found"
  shows "\<exists>s'. good s' \<and> HFSPlusGetCatalogInfoByCNID lookup cnid s =
    Done (case found of None \<Rightarrow> (- 1, None, s')
      | Some r \<Rightarrow> (0, Some (\<lparr>spec_parentID = thread_parentID thread, spec_name = thread_nodeName thread\<rparr>, r), s'))"
proof -
  let ?spec = "\<lparr>spec_parentID = thread_parentID thread, spec_name = thread_nodeName thread\<rparr>"
  obtain s1 where s1: "good s1" "lookup \<lparr>spec_parentID = cnid, spec_name = []\<rparr> s = Done (0, Some thread, s1)"
    using lookup [OF good, of "\<lparr>spec_parentID = cnid, spec_name = []\<rparr>"] thread(1) by auto
  obtain s2 where s2: "good s2" "lookup ?spec s1 = answer (Done found) s2"
    using lookup [OF s1(1), of ?spec] name found by auto
  with s1 thread(2) show ?thesis
    by (cases found) (auto simp: HFSPlusGetCatalogInfoByCNID_def Let_def)
qed

end

definition record_of :: "tree_source \<Rightarrow> bool \<Rightarrow> catalog_entry list \<Rightarrow> FSSpec \<Rightarrow> buffer option outcome" where
  "record_of src bc es spec = catalog_find bc (treeDepth (src_header src)) es (HFSPlusCatalogKeyFromFSSpec spec)"

interpretation catalog_lookup: catalog_source
  "HFSPlusGetCatalogRecordByFSSpec (Suc fuel) adjacent signature"
  "\<lambda>tree. tree_good src tree \<and> catalog_tree src signature bc es" "record_of src bc es"
  for fuel adjacent signature src bc es
proof
  fix tree and spec :: FSSpec assume "tree_good src tree \<and> catalog_tree src signature bc es" "length (spec_name spec) \<le> 255"
  then show "\<exists>tree'. (tree_good src tree' \<and> catalog_tree src signature bc es) \<and>
      HFSPlusGetCatalogRecordByFSSpec (Suc fuel) adjacent signature spec tree = answer (record_of src bc es spec) tree'"
    using catalog_lookup [of src signature bc es tree spec fuel adjacent] by (auto simp: record_of_def answer_def)
qed


lemma catalog_find_entry:
  assumes tree: "catalog_tree src signature bc es"
    and first: "treeDepth (src_header src) \<le> 1 \<or> 0 \<le> compare_of bc key (fst (hd es))"
    and found: "case found of None \<Rightarrow> \<forall>e \<in> set es. compare_of bc key (fst e) \<noteq> 0
      | Some r \<Rightarrow> \<exists>k. (k, Some r) \<in> set es \<and> compare_of bc key k = 0"
  shows "catalog_find bc (treeDepth (src_header src)) es key = Done found"
proof -
  have asc: "key_order.ascending_keys (catalog_cmp bc) es"
    using tree by (simp add: catalog_tree_def catalog_nodes.ascending_sorted)
  have go: "\<not> (1 < treeDepth (src_header src) \<and> compare_of bc key (fst (hd es)) < 0)"
    using first by (auto simp: not_less)
  show ?thesis
  proof (cases found)
    case None
    then have "find (\<lambda>e. compare_of bc key (fst e) = 0) es = None" using found by (force simp: find_None_iff)
    then show ?thesis using go None by (simp add: catalog_find_def)
  next
    case (Some r)
    then obtain k where k: "(k, Some r) \<in> set es" "compare_of bc key k = 0" using found by auto
    then obtain i where i: "i < length es" "es ! i = (k, Some r)" by (auto simp: in_set_conv_nth)
    then show ?thesis using find_ascending [OF asc i(1), of key] k(2) go Some by (simp add: catalog_find_def)
  qed
qed

lemma catalog_find_none:
  assumes tree: "catalog_tree src signature bc es"
    and first: "treeDepth (src_header src) \<le> 1 \<or> 0 \<le> compare_of bc key (fst (hd es))"
    and k: "(k, None) \<in> set es" "compare_of bc key k = 0"
  shows "catalog_find bc (treeDepth (src_header src)) es key = Fault"
proof -
  have asc: "key_order.ascending_keys (catalog_cmp bc) es"
    using tree by (simp add: catalog_tree_def catalog_nodes.ascending_sorted)
  obtain i where i: "i < length es" "es ! i = (k, None)" using k(1) by (auto simp: in_set_conv_nth)
  then show ?thesis using find_ascending [OF asc i(1), of key] k(2) first by (auto simp: catalog_find_def)
qed

end
