(* ===== verification/Catalog_Correct.thy ===== *)
theory Catalog_Correct
  imports Catalog
begin

text \<open>
  What the lookups of the catalog deliver, stated on the entries of a well-formed catalog tree
  (\<open>catalog_tree\<close>), and a catalog of two records on which the statements are applied.
\<close>

section \<open>Correctness\<close>

text \<open>
  C3. The lookup of a record by its key: where the key is not before the first one of a tree with index
  nodes, the record of the entry with an equal key is delivered, or -1 if there is none; the tree stays
  usable.
\<close>

theorem catalog_lookup_correct:
  assumes "catalog_tree src signature bc es" "tree_good src tree" "length (spec_name spec) \<le> 255"
    and "treeDepth (src_header src) \<le> 1 \<or> 0 \<le> compare_of bc (HFSPlusCatalogKeyFromFSSpec spec) (fst (hd es))"
    and "case found of None \<Rightarrow> \<forall>e \<in> set es. compare_of bc (HFSPlusCatalogKeyFromFSSpec spec) (fst e) \<noteq> 0
      | Some r \<Rightarrow> \<exists>k. (k, Some r) \<in> set es \<and> compare_of bc (HFSPlusCatalogKeyFromFSSpec spec) k = 0"
  shows "\<exists>tree'. tree_good src tree' \<and>
    HFSPlusGetCatalogRecordByFSSpec (Suc fuel) adjacent signature spec tree =
      Done (case found of None \<Rightarrow> (- 1, None, tree') | Some r \<Rightarrow> (0, Some r, tree'))"
proof -
  have "catalog_find bc (treeDepth (src_header src)) es (HFSPlusCatalogKeyFromFSSpec spec) = Done found"
    using catalog_find_entry [OF assms(1,4,5)] .
  with catalog_lookup [OF assms(1,2,3), of fuel adjacent] show ?thesis by auto
qed

text \<open>
  C6. The copy of the record takes the size of the largest variant, 520 bytes: where the record that is found
  lies closer to the end of its node, the copy reads behind the node's buffer.
\<close>

theorem catalog_lookup_overread:
  assumes "catalog_tree src signature bc es" "tree_good src tree" "length (spec_name spec) \<le> 255"
    and "treeDepth (src_header src) \<le> 1 \<or> 0 \<le> compare_of bc (HFSPlusCatalogKeyFromFSSpec spec) (fst (hd es))"
    and "(k, None) \<in> set es" "compare_of bc (HFSPlusCatalogKeyFromFSSpec spec) k = 0"
  shows "HFSPlusGetCatalogRecordByFSSpec (Suc fuel) adjacent signature spec tree = Fault"
proof -
  have "catalog_find bc (treeDepth (src_header src)) es (HFSPlusCatalogKeyFromFSSpec spec) = Fault"
    using catalog_find_none [OF assms(1,4,5,6)] .
  with catalog_lookup [OF assms(1,2,3), of fuel adjacent] show ?thesis by auto
qed

text \<open>
  C5. The lookup by identifier follows the thread: if the catalog has a thread for the identifier, the record
  with the key that the thread names is delivered with that key, and -1 if it does not exist.
\<close>

theorem catalog_by_cnid_correct:
  assumes "catalog_tree src signature bc es" "tree_good src tree"
    and "record_of src bc es \<lparr>spec_parentID = cnid, spec_name = []\<rparr> = Done (Some thread)" "is_thread thread"
    and "length (thread_nodeName thread) \<le> 255"
    and "record_of src bc es \<lparr>spec_parentID = thread_parentID thread, spec_name = thread_nodeName thread\<rparr> = Done found"
  shows "\<exists>tree'. tree_good src tree' \<and>
    HFSPlusGetCatalogInfoByCNID (HFSPlusGetCatalogRecordByFSSpec (Suc fuel) adjacent signature) cnid tree =
      Done (case found of None \<Rightarrow> (- 1, None, tree')
        | Some r \<Rightarrow> (0, Some (\<lparr>spec_parentID = thread_parentID thread, spec_name = thread_nodeName thread\<rparr>, r), tree'))"
  using catalog_lookup.by_cnid [where src = src and bc = bc and es = es and signature = signature and fuel = fuel
      and adjacent = adjacent, OF assms(3,4,5) _ assms(6), of tree] assms(1,2) by blast

text \<open>
  C4. The lookup by path resolves the path folder by folder from the root folder: if the segments but the
  last one lead to the folder \<open>q\<close>, the result is what the catalog has in \<open>q\<close> under the name of the last
  segment, -1 if nothing. What follows a segment that names a file is not looked at, so such a path is
  found as well. The last segment of a path that ends in a slash is empty: such a path gives the thread record
  of the folder it names, and the path without the slash the record of the folder itself. (The comment on the
  function in \<^verbatim>\<open>catalog.h\<close> has it the other way round.)
\<close>

theorem catalog_by_path_correct:
  assumes "catalog_tree src signature bc es" "tree_good src tree" "path \<noteq> []"
    and "segments path = folders @ seg # rest" "leads_to (record_of src bc es) kHFSRootFolderID folders q"
    and "segment_name seg = Done name" "length seg < PATH_MAX"
    and "record_of src bc es \<lparr>spec_parentID = q, spec_name = name\<rparr> = Done found"
    and "rest = [] \<or> seg \<noteq> [] \<and> (\<exists>r. found = Some r \<and> record_type r = kHFSPlusFileRecord) \<or> found = None"
  shows "\<exists>tree'. tree_good src tree' \<and>
    HFSPlusGetCatalogInfoByPath (HFSPlusGetCatalogRecordByFSSpec (Suc fuel) adjacent signature) path tree =
      Done (case found of None \<Rightarrow> (- 1, None, tree')
        | Some r \<Rightarrow> (0, Some (\<lparr>spec_parentID = q, spec_name = name\<rparr>, r), tree'))"
  using catalog_lookup.by_path [where src = src and bc = bc and es = es and signature = signature and fuel = fuel
      and adjacent = adjacent, OF assms(3-9), of tree] assms(1,2) by blast

section \<open>Trees of two nodes\<close>

definition tree_on :: "tree_source \<Rightarrow> btree" where
  "tree_on src = btree_zero\<lparr>bt_file := src_file src, headerRecord := src_header src, nodeCache := cache_init 100\<rparr>"

lemma two_node_tree:
  assumes src: "src_file src = (\<lambda>n off. (n, if off = 0 then A else B))" "totalNodes (src_header src) = 2"
    and len: "length A = src_size src" "length B = src_size src" "2 \<le> src_size src"
    and node: "plain_node src 0 = Some node" "nd_fLink node = 0" "map_record node 2 = Done [0xC0, 0]"
      "node_size node = src_size src" "length (node_data node) = src_size src"
  shows "tree_good src (tree_on src)" and "plain_node src 1 = Some leaf \<Longrightarrow> tree_view src 1 = Some leaf"
proof -
  have "source_ok src"
    using src len node by (auto simp: source_ok_def)
  moreover have "node_cache.coherent d (cache_init 100)" for d
    by (simp add: node_cache.coherent_def cache_view_def cache_init_def entries_def)
  ultimately show "tree_good src (tree_on src)"
    by (simp add: tree_good_def tree_on_def btree_zero_def cache_init_ok)
  have m: "source_map src = [0xC0, 0]" using node by (simp add: source_map_def)
  then obtain rest where "loaded_map src = 0xC0 # rest" by (simp add: loaded_map_def store_def)
  then have "BTIsBlockUsed 1 (loaded_map src) 2 = Done True"
    by (simp add: BTIsBlockUsed_def load_def fits_def rd_def chunk_def)
  then show "plain_node src 1 = Some leaf \<Longrightarrow> tree_view src 1 = Some leaf"
    using src(2) by (simp add: tree_view_def m numeral_2_eq_2)
qed

section \<open>A catalog of two records\<close>

text \<open>
  A tree of two nodes of 650 bytes. The leaf, as it is on disk, holds the root folder \<open>V\<close> and the thread of
  the root folder.
\<close>

definition sample_catalog_map :: buffer where
  "sample_catalog_map = [0,0,0,0, 0,0,0,0, 1, 0, 3,0, 0,0] @ replicate 106 0 @ [0xC0, 0] @ replicate 520 0 @
     [122,0, 120,0, 120,0, 14,0]"

definition sample_folder_bytes :: "u8 \<Rightarrow> buffer" where
  "sample_folder_bytes cnid = [0,1, 0,0, 0,0,0,0, 0,0,0,cnid] @ replicate 76 0"

definition sample_catalog_leaf :: buffer where
  "sample_catalog_leaf =
     [0,0,0,0, 0,0,0,0, 0xFF, 1, 0,2, 0,0] @
     [0,8, 0,0,0,1, 0,1, 0,0x56] @ sample_folder_bytes 2 @
     [0,6, 0,0,0,2, 0,0] @ [0,3, 0,0, 0,0,0,1, 0,1, 0,0x56] @
     replicate 512 0 @ [0,132, 0,112, 0,14]"

definition sample_catalog_header :: BTHeaderRec where
  "sample_catalog_header = \<lparr>treeDepth = 1, rootNode = 1, leafRecords = 2, firstLeafNode = 1,
    lastLeafNode = 1, nodeSize = 650, maxKeyLength = 516, totalNodes = 2, freeNodes = 0,
    clumpSize = 0, btreeType = 0, keyCompareType = 0xCF, attributes = 6\<rparr>"

definition sample_catalog :: tree_source where
  "sample_catalog = \<lparr>src_file = (\<lambda>n off. (n, if off = 0 then sample_catalog_map else sample_catalog_leaf)),
     src_header = sample_catalog_header, src_convert = catalog_convert\<rparr>"

definition sample_catalog_node :: "buffer \<Rightarrow> btnode" where
  "sample_catalog_node m = \<lparr>header = sample_catalog_header, nodeNumber = 1, node_size = 650, node_data = m\<rparr>"

text \<open>The leaf after the conversion of the node, of its first record, and of both.\<close>

definition sample_folder :: buffer where
  "sample_folder = [1,0, 0,0, 0,0,0,0, 2,0,0,0] @ replicate 76 0"

definition leaf_swapped :: "buffer \<Rightarrow> buffer \<Rightarrow> buffer" where
  "leaf_swapped record0 record1 = [0,0,0,0, 0,0,0,0, 0xFF, 1, 2,0, 0,0] @ record0 @ record1 @
     replicate 512 0 @ [132,0, 112,0, 14,0]"

definition record0_raw :: buffer where
  "record0_raw = [8,0, 0,0,0,1, 0,1, 0,0x56] @ sample_folder_bytes 2"

definition record0 :: buffer where
  "record0 = [8,0, 1,0,0,0, 1,0, 0x56,0] @ sample_folder"

definition record1_raw :: buffer where
  "record1_raw = [6,0, 0,0,0,2, 0,0] @ [0,3, 0,0, 0,0,0,1, 0,1, 0,0x56]"

definition record1 :: buffer where
  "record1 = [6,0, 2,0,0,0, 0,0] @ [3,0, 0,0, 1,0,0,0, 1,0, 0x56,0]"

lemma sample_leaf_swap: "swap_BTreeNode (sample_catalog_node sample_catalog_leaf) = Done (1, leaf_swapped record0_raw record1_raw)"
  by code_simp

lemma sample_record0: "catalog_convert_record (sample_catalog_node (leaf_swapped record0_raw record1_raw)) 0
    (leaf_swapped record0_raw record1_raw) = Done (leaf_swapped record0 record1_raw)"
  by code_simp

lemma sample_record1: "catalog_convert_record (sample_catalog_node (leaf_swapped record0_raw record1_raw)) 1
    (leaf_swapped record0 record1_raw) = Done (leaf_swapped record0 record1)"
  by code_simp

lemma sample_catalog_map_node:
  "plain_node sample_catalog 0 = Some \<lparr>header = sample_catalog_header, nodeNumber = 0, node_size = 650,
     node_data = sample_catalog_map\<rparr>"
  by code_simp


definition sample_node :: btnode where
  "sample_node = sample_catalog_node (leaf_swapped record0 record1)"

lemma sample_catalog_nodes: "plain_node sample_catalog 1 = Some sample_node"
proof -
  have kind: "nd_kind (sample_catalog_node (leaf_swapped record0_raw record1_raw)) = kBTLeafNode"
    "nd_numRecords (sample_catalog_node (leaf_swapped record0_raw record1_raw)) = 2" by code_simp+
  have "catalog_convert (sample_catalog_node (leaf_swapped record0_raw record1_raw)) = Done sample_node"
    using kind sample_record0 sample_record1
    by (simp add: catalog_convert_def upt_2) (simp add: sample_node_def sample_catalog_node_def)
  moreover have "disk_node sample_catalog (ucast (1 :: u32)) = sample_catalog_leaf"
    by (simp add: disk_node_def sample_catalog_def sample_catalog_header_def)
  moreover have "src_header sample_catalog = sample_catalog_header" "src_size sample_catalog = 650"
    "src_convert sample_catalog = catalog_convert"
    by (simp_all add: sample_catalog_def src_size_def sample_catalog_header_def)
  ultimately show ?thesis
    using sample_leaf_swap by (simp add: plain_node_def sample_catalog_node_def)
qed

text \<open>The two entries: the root folder, and its thread, both with the 520 bytes that are copied.\<close>

definition sample_key0 :: HFSPlusCatalogKey where
  "sample_key0 = \<lparr>ck_keyLength = 8, ck_parentID = 1, ck_nodeName = [0x56]\<rparr>"

definition sample_key1 :: HFSPlusCatalogKey where
  "sample_key1 = \<lparr>ck_keyLength = 6, ck_parentID = 2, ck_nodeName = []\<rparr>"

definition sample_record_at :: "nat \<Rightarrow> buffer" where
  "sample_record_at p = chunk p 520 (leaf_swapped record0 record1)"

definition sample_entries :: "catalog_entry list" where
  "sample_entries = [(sample_key0, Some (sample_record_at 24)), (sample_key1, Some (sample_record_at 120))]"

lemma length_sample_leaf: "length (leaf_swapped record0 record1) = 650"
  by (simp add: leaf_swapped_def record0_def record1_def sample_folder_def)

lemma sample_keys:
  "HFSPlusCatalogKey_of (leaf_swapped record0 record1) 14 = sample_key0"
  "HFSPlusCatalogKey_of (leaf_swapped record0 record1) 112 = sample_key1"
  by code_simp+

lemma sample_names: "name_fits 20 (leaf_swapped record0 record1)" "name_fits 118 (leaf_swapped record0 record1)"
  by code_simp+

lemma sample_entry:
  "catalog_entry_at (leaf_swapped record0 record1) 14 = Some (sample_key0, Some (sample_record_at 24))"
  "catalog_entry_at (leaf_swapped record0 record1) 112 = Some (sample_key1, Some (sample_record_at 120))"
  using sample_names
  by (simp_all add: catalog_entry_at_def catalog_value_def sample_keys fits_def length_sample_leaf sample_record_at_def)
     (simp_all add: sample_key0_def sample_key1_def)

lemma sample_catalog_holds: "holds_keys catalog_entry_at sample_node sample_entries"
proof -
  have "node_ok sample_node" "unat (nd_numRecords sample_node) = 2"
    "unat (record_offset sample_node 0) = 14" "unat (record_offset sample_node 1) = 112"
    "returns (BTGetRecordKeyLength sample_node 0)" "returns (BTGetRecordKeyLength sample_node 1)"
    by code_simp+
  moreover have "node_data sample_node = leaf_swapped record0 record1"
    by (simp add: sample_node_def sample_catalog_node_def)
  ultimately show ?thesis
    by (simp add: holds_keys_def sample_entries_def sample_entry All_less_Suc)
qed

lemma sample_catalog_leaf_view: "tree_view sample_catalog 1 = Some sample_node"
  and sample_catalog_good: "tree_good sample_catalog (tree_on sample_catalog)"
proof -
  have len: "length sample_catalog_map = 650" "length sample_catalog_leaf = 650"
    by (simp_all add: sample_catalog_map_def sample_catalog_leaf_def sample_folder_bytes_def)
  have map: "nd_fLink \<lparr>header = sample_catalog_header, nodeNumber = 0, node_size = 650, node_data = sample_catalog_map\<rparr> = 0"
    "map_record \<lparr>header = sample_catalog_header, nodeNumber = 0, node_size = 650,
       node_data = sample_catalog_map\<rparr> 2 = Done [0xC0, 0]"
    by code_simp+
  have src: "src_file sample_catalog = (\<lambda>n off. (n, if off = 0 then sample_catalog_map else sample_catalog_leaf))"
    "totalNodes (src_header sample_catalog) = 2" "src_size sample_catalog = 650"
    by (simp_all add: sample_catalog_def sample_catalog_header_def src_size_def)
  show "tree_view sample_catalog 1 = Some sample_node"
    by (rule two_node_tree(2) [OF src(1,2) _ _ _ sample_catalog_map_node _ _ _ _ sample_catalog_nodes])
       (simp_all add: src len map)
  show "tree_good sample_catalog (tree_on sample_catalog)"
    by (rule two_node_tree(1) [OF src(1,2) _ _ _ sample_catalog_map_node]) (simp_all add: src len map)
qed

lemma sample_catalog_tree: "catalog_tree sample_catalog kHFSPlusSigWord False sample_entries"
proof -
  have "nd_kind sample_node = kBTLeafNode" "unat (nd_height sample_node) = 1" by code_simp+
  then have "subtree (tree_view sample_catalog) catalog_entry_at (catalog_cmp False) 2 1 1 sample_entries"
    using sample_catalog_leaf_view sample_catalog_holds by (intro subtree_leaf) simp_all
  moreover have "hfsplus_catalog_compare_keys_cf sample_key0 sample_key1 = - 1" by code_simp
  then have "catalog_cmp False (sample_key0, v) (sample_key1, w) < 0" for v w
    by (simp add: catalog_cmp_def compare_of_def)
  ultimately show ?thesis
    by (simp add: catalog_tree_def sample_catalog_def sample_catalog_header_def catalog_keyCompare_def
        keyCompare_of_def sample_entries_def) (simp add: sample_key0_def sample_key1_def)
qed


lemma sample_compare:
  "compare_of False (HFSPlusCatalogKeyFromFSSpec \<lparr>spec_parentID = 2, spec_name = []\<rparr>) sample_key0 = 1"
  "compare_of False (HFSPlusCatalogKeyFromFSSpec \<lparr>spec_parentID = 2, spec_name = []\<rparr>) sample_key1 = 0"
  "compare_of False (HFSPlusCatalogKeyFromFSSpec \<lparr>spec_parentID = 1, spec_name = [0x56]\<rparr>) sample_key0 = 0"
  by code_simp+

lemma sample_record_of:
  "record_of sample_catalog False sample_entries \<lparr>spec_parentID = 2, spec_name = []\<rparr> = Done (Some (sample_record_at 120))"
  "record_of sample_catalog False sample_entries \<lparr>spec_parentID = 1, spec_name = [0x56]\<rparr> = Done (Some (sample_record_at 24))"
  using sample_compare
  by (simp_all add: record_of_def catalog_find_def sample_entries_def sample_catalog_def sample_catalog_header_def)

lemma sample_thread:
  "is_thread (sample_record_at 120)" "thread_parentID (sample_record_at 120) = 1"
  "thread_nodeName (sample_record_at 120) = [0x56]"
  by code_simp+

lemma catalog_lookup_correct_witness:
  "\<exists>tree'. HFSPlusGetCatalogRecordByFSSpec 1 (\<lambda>_. 0) kHFSPlusSigWord \<lparr>spec_parentID = 1, spec_name = [0x56]\<rparr>
     (tree_on sample_catalog) = Done (0, Some (sample_record_at 24), tree')"
proof -
  have "\<exists>k. (k, Some (sample_record_at 24)) \<in> set sample_entries \<and>
      compare_of False (HFSPlusCatalogKeyFromFSSpec \<lparr>spec_parentID = 1, spec_name = [0x56]\<rparr>) k = 0"
    using sample_compare(3) by (auto simp: sample_entries_def)
  moreover have "treeDepth (src_header sample_catalog) \<le> 1" by (simp add: sample_catalog_def sample_catalog_header_def)
  ultimately show ?thesis
    using catalog_lookup_correct [OF sample_catalog_tree sample_catalog_good,
        of "\<lparr>spec_parentID = 1, spec_name = [0x56]\<rparr>" "Some (sample_record_at 24)" 0 "\<lambda>_. 0"] by auto
qed

lemma catalog_by_cnid_correct_witness:
  "\<exists>tree'. HFSPlusGetCatalogInfoByCNID (HFSPlusGetCatalogRecordByFSSpec 1 (\<lambda>_. 0) kHFSPlusSigWord) 2
     (tree_on sample_catalog) = Done (0, Some (\<lparr>spec_parentID = 1, spec_name = [0x56]\<rparr>, sample_record_at 24), tree')"
  using catalog_by_cnid_correct [OF sample_catalog_tree sample_catalog_good sample_record_of(1) sample_thread(1),
      of "Some (sample_record_at 24)" 0 "\<lambda>_. 0"] sample_thread sample_record_of(2) by auto

lemma catalog_by_path_correct_witness:
  "\<exists>tree'. HFSPlusGetCatalogInfoByPath (HFSPlusGetCatalogRecordByFSSpec 1 (\<lambda>_. 0) kHFSPlusSigWord) [0x2F]
     (tree_on sample_catalog) = Done (0, Some (\<lparr>spec_parentID = 2, spec_name = []\<rparr>, sample_record_at 120), tree')"
proof -
  have seg: "segment_name [] = Done []" by code_simp
  have "segments [0x2F] = [[]] @ [] # []" by simp
  moreover have "leads_to (record_of sample_catalog False sample_entries) 2 [[]] 2"
    using seg sample_record_of(1) by (rule leads_empty) (rule leads_here)
  ultimately show ?thesis
    using catalog_by_path_correct [OF sample_catalog_tree sample_catalog_good _ _ _ seg _ sample_record_of(1),
        of "[0x2F]" "[[]]" "[]" 0 "\<lambda>_. 0"] by auto
qed


section \<open>A record close to the end of its node\<close>

text \<open>A leaf of 130 bytes with the thread of the root folder.\<close>

definition short_leaf :: buffer where
  "short_leaf = [0,0,0,0, 0,0,0,0, 0xFF, 1, 0,1, 0,0] @
     [0,6, 0,0,0,2, 0,0] @ [0,3, 0,0, 0,0,0,1, 0,1, 0,0x56] @ replicate 92 0 @ [0,34, 0,14]"

definition short_header :: BTHeaderRec where
  "short_header = sample_catalog_header\<lparr>leafRecords := 1, nodeSize := 130\<rparr>"

definition short_catalog :: tree_source where
  "short_catalog = \<lparr>src_file = (\<lambda>n off. (n, if off = 0 then sample_map_node else short_leaf)),
     src_header = short_header, src_convert = catalog_convert\<rparr>"

definition short_node :: btnode where
  "short_node = \<lparr>header = short_header, nodeNumber = 1, node_size = 130, node_data =
     [0,0,0,0, 0,0,0,0, 0xFF, 1, 1,0, 0,0] @ [6,0, 2,0,0,0, 0,0] @ [3,0, 0,0, 1,0,0,0, 1,0, 0x56,0] @
     replicate 92 0 @ [34,0, 14,0]\<rparr>"

lemma short_nodes:
  "plain_node short_catalog 0 = Some \<lparr>header = short_header, nodeNumber = 0, node_size = 130, node_data = sample_map_node\<rparr>"
  "plain_node short_catalog 1 = Some short_node"
  by code_simp+

lemma short_view: "tree_view short_catalog 1 = Some short_node"
  and short_good: "tree_good short_catalog (tree_on short_catalog)"
proof -
  have len: "length sample_map_node = 130" "length short_leaf = 130" by code_simp+
  have map: "nd_fLink \<lparr>header = short_header, nodeNumber = 0, node_size = 130, node_data = sample_map_node\<rparr> = 0"
    "map_record \<lparr>header = short_header, nodeNumber = 0, node_size = 130, node_data = sample_map_node\<rparr> 2 = Done [0xC0, 0]"
    by code_simp+
  have src: "src_file short_catalog = (\<lambda>n off. (n, if off = 0 then sample_map_node else short_leaf))"
    "totalNodes (src_header short_catalog) = 2" "src_size short_catalog = 130"
    by (simp_all add: short_catalog_def short_header_def sample_catalog_header_def src_size_def)
  show "tree_view short_catalog 1 = Some short_node"
    by (rule two_node_tree(2) [OF src(1,2) _ _ _ short_nodes(1) _ _ _ _ short_nodes(2)]) (simp_all add: src len map)
  show "tree_good short_catalog (tree_on short_catalog)"
    by (rule two_node_tree(1) [OF src(1,2) _ _ _ short_nodes(1)]) (simp_all add: src len map)
qed

lemma short_catalog_tree: "catalog_tree short_catalog kHFSPlusSigWord False [(sample_key1, None)]"
proof -
  have "node_ok short_node" "unat (nd_numRecords short_node) = 1"
    "catalog_entry_at (node_data short_node) (unat (record_offset short_node 0)) = Some (sample_key1, None)"
    "returns (BTGetRecordKeyLength short_node 0)" by code_simp+
  then have "holds_keys catalog_entry_at short_node [(sample_key1, None)]" by (simp add: holds_keys_def)
  moreover have "nd_kind short_node = kBTLeafNode" "unat (nd_height short_node) = 1" by code_simp+
  ultimately have "subtree (tree_view short_catalog) catalog_entry_at (catalog_cmp False) 2 1 1 [(sample_key1, None)]"
    using short_view by (intro subtree_leaf) simp_all
  then show ?thesis
    by (simp add: catalog_tree_def short_catalog_def short_header_def sample_catalog_header_def
        catalog_keyCompare_def keyCompare_of_def sample_key1_def)
qed

lemma catalog_lookup_overread_witness:
  "HFSPlusGetCatalogRecordByFSSpec 1 (\<lambda>_. 0) kHFSPlusSigWord \<lparr>spec_parentID = 2, spec_name = []\<rparr>
     (tree_on short_catalog) = Fault"
proof -
  have "treeDepth (src_header short_catalog) \<le> 1"
    by (simp add: short_catalog_def short_header_def sample_catalog_header_def)
  then show ?thesis
    using catalog_lookup_overread [OF short_catalog_tree short_good, of "\<lparr>spec_parentID = 2, spec_name = []\<rparr>"
        sample_key1 0 "\<lambda>_. 0"] sample_compare(2) by auto
qed

end
