(* ===== verification/Crc32.thy ===== *)
theory Crc32
  imports Hfs_Prelude
begin

text \<open>
  \<^verbatim>\<open>src/src/volumes/crc32/crc32.c\<close>, the checksum of the GUID partition table, and
  \<^verbatim>\<open>src/tools/makecrc.c\<close>, the program that generated its table. The lemmas show that the table is the
  one the generator prints and that the byte-wise loop computes the bit-wise shift register.
\<close>

unbundle bit_operations_syntax

section \<open>The generator\<close>

definition crc_terms :: "nat list" where
  "crc_terms = [0, 1, 2, 4, 5, 7, 8, 10, 11, 12, 16, 22, 23, 26]"

definition crc_pattern :: u32 where
  "crc_pattern = fold (\<lambda>p e. e OR push_bit (31 - p) 1) crc_terms 0"

definition crc_step :: "u32 \<Rightarrow> u32" where
  "crc_step c = (if c AND 1 \<noteq> 0 then drop_bit 1 c XOR crc_pattern else drop_bit 1 c)"

fun crc_steps :: "nat \<Rightarrow> u32 \<Rightarrow> u32" where
  "crc_steps 0 c = c"
| "crc_steps (Suc k) c = crc_steps k (crc_step c)"

definition makecrc_table :: "u32 list" where
  "makecrc_table = 0x00000000 # map (\<lambda>i. crc_steps 8 (of_nat i)) [1..<256]"

section \<open>The checksum\<close>

definition crc32_table_enet :: "u32 list" where
  "crc32_table_enet = [
      0x00000000, 0x77073096, 0xee0e612c, 0x990951ba, 0x076dc419, 0x706af48f, 0xe963a535, 0x9e6495a3,
      0x0edb8832, 0x79dcb8a4, 0xe0d5e91e, 0x97d2d988, 0x09b64c2b, 0x7eb17cbd, 0xe7b82d07, 0x90bf1d91,
      0x1db71064, 0x6ab020f2, 0xf3b97148, 0x84be41de, 0x1adad47d, 0x6ddde4eb, 0xf4d4b551, 0x83d385c7,
      0x136c9856, 0x646ba8c0, 0xfd62f97a, 0x8a65c9ec, 0x14015c4f, 0x63066cd9, 0xfa0f3d63, 0x8d080df5,
      0x3b6e20c8, 0x4c69105e, 0xd56041e4, 0xa2677172, 0x3c03e4d1, 0x4b04d447, 0xd20d85fd, 0xa50ab56b,
      0x35b5a8fa, 0x42b2986c, 0xdbbbc9d6, 0xacbcf940, 0x32d86ce3, 0x45df5c75, 0xdcd60dcf, 0xabd13d59,
      0x26d930ac, 0x51de003a, 0xc8d75180, 0xbfd06116, 0x21b4f4b5, 0x56b3c423, 0xcfba9599, 0xb8bda50f,
      0x2802b89e, 0x5f058808, 0xc60cd9b2, 0xb10be924, 0x2f6f7c87, 0x58684c11, 0xc1611dab, 0xb6662d3d,
      0x76dc4190, 0x01db7106, 0x98d220bc, 0xefd5102a, 0x71b18589, 0x06b6b51f, 0x9fbfe4a5, 0xe8b8d433,
      0x7807c9a2, 0x0f00f934, 0x9609a88e, 0xe10e9818, 0x7f6a0dbb, 0x086d3d2d, 0x91646c97, 0xe6635c01,
      0x6b6b51f4, 0x1c6c6162, 0x856530d8, 0xf262004e, 0x6c0695ed, 0x1b01a57b, 0x8208f4c1, 0xf50fc457,
      0x65b0d9c6, 0x12b7e950, 0x8bbeb8ea, 0xfcb9887c, 0x62dd1ddf, 0x15da2d49, 0x8cd37cf3, 0xfbd44c65,
      0x4db26158, 0x3ab551ce, 0xa3bc0074, 0xd4bb30e2, 0x4adfa541, 0x3dd895d7, 0xa4d1c46d, 0xd3d6f4fb,
      0x4369e96a, 0x346ed9fc, 0xad678846, 0xda60b8d0, 0x44042d73, 0x33031de5, 0xaa0a4c5f, 0xdd0d7cc9,
      0x5005713c, 0x270241aa, 0xbe0b1010, 0xc90c2086, 0x5768b525, 0x206f85b3, 0xb966d409, 0xce61e49f,
      0x5edef90e, 0x29d9c998, 0xb0d09822, 0xc7d7a8b4, 0x59b33d17, 0x2eb40d81, 0xb7bd5c3b, 0xc0ba6cad,
      0xedb88320, 0x9abfb3b6, 0x03b6e20c, 0x74b1d29a, 0xead54739, 0x9dd277af, 0x04db2615, 0x73dc1683,
      0xe3630b12, 0x94643b84, 0x0d6d6a3e, 0x7a6a5aa8, 0xe40ecf0b, 0x9309ff9d, 0x0a00ae27, 0x7d079eb1,
      0xf00f9344, 0x8708a3d2, 0x1e01f268, 0x6906c2fe, 0xf762575d, 0x806567cb, 0x196c3671, 0x6e6b06e7,
      0xfed41b76, 0x89d32be0, 0x10da7a5a, 0x67dd4acc, 0xf9b9df6f, 0x8ebeeff9, 0x17b7be43, 0x60b08ed5,
      0xd6d6a3e8, 0xa1d1937e, 0x38d8c2c4, 0x4fdff252, 0xd1bb67f1, 0xa6bc5767, 0x3fb506dd, 0x48b2364b,
      0xd80d2bda, 0xaf0a1b4c, 0x36034af6, 0x41047a60, 0xdf60efc3, 0xa867df55, 0x316e8eef, 0x4669be79,
      0xcb61b38c, 0xbc66831a, 0x256fd2a0, 0x5268e236, 0xcc0c7795, 0xbb0b4703, 0x220216b9, 0x5505262f,
      0xc5ba3bbe, 0xb2bd0b28, 0x2bb45a92, 0x5cb36a04, 0xc2d7ffa7, 0xb5d0cf31, 0x2cd99e8b, 0x5bdeae1d,
      0x9b64c2b0, 0xec63f226, 0x756aa39c, 0x026d930a, 0x9c0906a9, 0xeb0e363f, 0x72076785, 0x05005713,
      0x95bf4a82, 0xe2b87a14, 0x7bb12bae, 0x0cb61b38, 0x92d28e9b, 0xe5d5be0d, 0x7cdcefb7, 0x0bdbdf21,
      0x86d3d2d4, 0xf1d4e242, 0x68ddb3f8, 0x1fda836e, 0x81be16cd, 0xf6b9265b, 0x6fb077e1, 0x18b74777,
      0x88085ae6, 0xff0f6a70, 0x66063bca, 0x11010b5c, 0x8f659eff, 0xf862ae69, 0x616bffd3, 0x166ccf45,
      0xa00ae278, 0xd70dd2ee, 0x4e048354, 0x3903b3c2, 0xa7672661, 0xd06016f7, 0x4969474d, 0x3e6e77db,
      0xaed16a4a, 0xd9d65adc, 0x40df0b66, 0x37d83bf0, 0xa9bcae53, 0xdebb9ec5, 0x47b2cf7f, 0x30b5ffe9,
      0xbdbdf21c, 0xcabac28a, 0x53b39330, 0x24b4a3a6, 0xbad03605, 0xcdd70693, 0x54de5729, 0x23d967bf,
      0xb3667a2e, 0xc4614ab8, 0x5d681b02, 0x2a6f2b94, 0xb40bbe37, 0xc30c8ea1, 0x5a05df1b, 0x2d02ef8d]"

fun crc32_loop :: "u32 \<Rightarrow> buffer \<Rightarrow> u32" where
  "crc32_loop crc [] = crc"
| "crc32_loop crc (b # bs) =
     crc32_loop (crc32_table_enet ! unat ((crc XOR ucast b) AND 0xff) XOR drop_bit 8 crc) bs"

definition crc32 :: "u32 \<Rightarrow> buffer \<Rightarrow> u32" where
  "crc32 crc buf = NOT (crc32_loop (NOT crc) buf)"

section \<open>The table\<close>

lemma crc_pattern_value: "crc_pattern = 0xedb88320"
  by (simp add: crc_pattern_def crc_terms_def)

text \<open>The shift register on integers, where numerals evaluate quickly.\<close>

definition istep :: "int \<Rightarrow> int" where
  "istep c = (if odd c then (c div 2) XOR 0xedb88320 else c div 2)"

definition istep8 :: "int \<Rightarrow> int" where
  "istep8 c = istep (istep (istep (istep (istep (istep (istep (istep c)))))))"

lemma istep_simps:
  "istep 0 = 0" "istep 1 = 0xedb88320" "istep (numeral (num.Bit0 n)) = numeral n"
  "istep (numeral (num.Bit1 n)) = numeral n XOR 0xedb88320"
  by (simp_all add: istep_def)

lemma crc_step_int:
  assumes "0 \<le> c" "c < 2 ^ 32"
  shows "crc_step (word_of_int c) = word_of_int (istep c)" "0 \<le> istep c" "istep c < 2 ^ 32"
proof -
  have u: "uint (word_of_int c :: u32) = c"
    using assms by (simp add: unsigned_of_int take_bit_int_eq_self)
  have d: "drop_bit 1 (word_of_int c :: u32) = word_of_int (c div 2)"
  proof -
    have "uint (drop_bit 1 (word_of_int c :: u32)) = c div 2"
      using u by (simp add: uint_div drop_bit_Suc)
    then show ?thesis by (metis word_of_int_uint)
  qed
  have o': "(word_of_int c :: u32) AND 1 \<noteq> 0 \<longleftrightarrow> odd c"
    using u by (simp add: and_one_eq word_uint_eq_iff odd_iff_mod_2_eq_one uint_mod)
  show "crc_step (word_of_int c) = word_of_int (istep c)"
    unfolding crc_step_def istep_def o' d crc_pattern_value by (simp add: of_int_xor_eq)
  have x: "0 \<le> y XOR (0xedb88320 :: int)" "y XOR (0xedb88320 :: int) < 2 ^ 32"
    if "0 \<le> y" "y < 2 ^ 32" for y :: int
    using that XOR_upper [of y 32 "0xedb88320"] by simp_all
  show "0 \<le> istep c" "istep c < 2 ^ 32"
    using assms x [of "c div 2"] by (auto simp: istep_def)
qed

lemma crc_steps_int:
  assumes "i < 2 ^ 32"
  shows "crc_steps 8 (of_nat i) = word_of_int (istep8 (int i))"
proof -
  have "int i < 2 ^ 32" using assms by simp
  moreover have "crc_steps 8 c =
      crc_step (crc_step (crc_step (crc_step (crc_step (crc_step (crc_step (crc_step c)))))))" for c
    by (simp add: eval_nat_numeral)
  moreover have "(of_nat i :: u32) = word_of_int (int i)" by simp
  ultimately show ?thesis unfolding istep8_def by (simp only: crc_step_int of_nat_0_le_iff)
qed

lemma makecrc_table_int:
  "makecrc_table = map (\<lambda>c. word_of_int c) (0 # map (\<lambda>i. istep8 (int i)) [1..<256])"
  by (simp add: makecrc_table_def crc_steps_int del: upt_rec_numeral)

lemma istep8_numeral:
  "istep8 1 = istep (istep (istep (istep (istep (istep (istep (istep 1)))))))"
  "istep8 (numeral n) = istep (istep (istep (istep (istep (istep (istep (istep (numeral n))))))))"
  by (simp_all add: istep8_def)

lemma upt_1: "[Suc 0..<256] = Suc 0 # [2..<256]"
  by (simp add: upt_conv_Cons numeral_2_eq_2 del: upt_rec_numeral)

lemma istep8_table:
  "map word_of_int (map (\<lambda>i. istep8 (int i)) [1..<256]) = tl crc32_table_enet"
  unfolding crc32_table_enet_def list.sel
  by (simp add: upt_1 istep8_numeral istep_simps)

lemma table_is_generated: "crc32_table_enet = makecrc_table"
proof -
  have "crc32_table_enet = 0 # tl crc32_table_enet" by (simp add: crc32_table_enet_def)
  then show ?thesis
    unfolding makecrc_table_int using istep8_table by simp
qed

section \<open>The loop\<close>

lemma crc_step_xor: "crc_step (a XOR b) = crc_step a XOR crc_step b"
proof -
  have "odd (a XOR b) \<longleftrightarrow> odd a \<noteq> odd b" by (simp add: even_xor_iff)
  then show ?thesis
    by (auto simp: crc_step_def and_one_eq mod_2_eq_odd drop_bit_xor xor.assoc xor.left_commute
          xor.commute)
qed

lemma crc_steps_xor: "crc_steps k (a XOR b) = crc_steps k a XOR crc_steps k b"
  by (induction k arbitrary: a b) (simp_all add: crc_step_xor)

lemma crc_steps_high: "(\<And>i. i < k \<Longrightarrow> \<not> bit c i) \<Longrightarrow> crc_steps k c = drop_bit k c"
proof (induction k arbitrary: c)
  case (Suc k)
  from Suc.prems [of 0] have "c AND 1 = 0" by (simp add: and_one_eq mod_2_eq_odd bit_0)
  then have "crc_step c = drop_bit 1 c" by (simp add: crc_step_def)
  moreover have "crc_steps k (drop_bit 1 c) = drop_bit k (drop_bit 1 c)"
    using Suc.prems by (intro Suc.IH) (simp add: bit_simps)
  ultimately show ?case by (simp only: crc_steps.simps drop_bit_drop_bit) (simp add: add.commute)
qed simp

lemma table_nth: "i < 256 \<Longrightarrow> crc32_table_enet ! i = crc_steps 8 (of_nat i)"
proof -
  assume i: "i < 256"
  have "crc_steps 8 0 = 0" using crc_steps_int [of 0] by (simp add: istep8_def istep_simps)
  with i show ?thesis
    by (cases i) (simp_all add: table_is_generated makecrc_table_def del: upt_rec_numeral)
qed

lemma crc_byte:
  "crc32_table_enet ! unat (x AND 0xff) XOR drop_bit 8 x = crc_steps 8 x"
proof -
  let ?lo = "x AND 0xff" and ?hi = "x AND NOT 0xff"
  have m: "(0xff :: u32) = mask 8" by (simp add: mask_eq_exp_minus_1)
  have "unat ?lo < 256"
  proof -
    have "?lo \<le> 0xff" by (rule word_and_le1)
    then show ?thesis by (simp add: word_le_nat_alt)
  qed
  then have "crc32_table_enet ! unat ?lo = crc_steps 8 ?lo" by (simp add: table_nth)
  moreover have "drop_bit 8 x = crc_steps 8 ?hi"
  proof -
    have "crc_steps 8 ?hi = drop_bit 8 ?hi" by (rule crc_steps_high) (simp add: m bit_simps)
    also have "\<dots> = drop_bit 8 x" by (rule bit_word_eqI) (auto simp: m bit_simps dest: bit_imp_le_length)
    finally show ?thesis by simp
  qed
  moreover have "?lo XOR ?hi = x" by (rule bit_word_eqI) (auto simp: bit_simps)
  ultimately show ?thesis by (metis crc_steps_xor)
qed

text \<open>The definition of the checksum: each byte is added to the register, then shifted out bit by bit.\<close>

definition crc_bitwise :: "u32 \<Rightarrow> buffer \<Rightarrow> u32" where
  "crc_bitwise crc buf = NOT (fold (\<lambda>b c. crc_steps 8 (c XOR ucast b)) buf (NOT crc))"

lemma crc32_loop_fold: "crc32_loop crc bs = fold (\<lambda>b c. crc_steps 8 (c XOR ucast b)) bs crc"
proof (induction bs arbitrary: crc)
  case (Cons b bs)
  have "drop_bit 8 (ucast b :: u32) = 0" by (rule bit_word_eqI) (auto simp: bit_simps dest: bit_imp_le_length)
  then have "drop_bit 8 crc = drop_bit 8 (crc XOR ucast b)" by (simp add: drop_bit_xor)
  then show ?case using Cons crc_byte [of "crc XOR ucast b"] by simp
qed simp

text \<open>
  C40. The table-driven checksum is the CRC of the polynomial that \<open>makecrc.c\<close> writes down: the table
  in the source is the one the generator prints, and for every initial value and every buffer the
  byte-wise loop returns what the bit-wise shift register of the generator computes.
\<close>

theorem crc32_is_bitwise:
  "crc32_table_enet = makecrc_table \<and> crc32 crc buf = crc_bitwise crc buf"
  by (simp add: table_is_generated crc32_def crc_bitwise_def crc32_loop_fold)

text \<open>
  The checksum can be computed in pieces, as the partition table code does entry by entry: passing
  the checksum of a first buffer on as the initial value for a second one gives the checksum of both.
\<close>

lemma crc32_append: "crc32 (crc32 crc as) bs = crc32 crc (as @ bs)"
  by (simp add: crc32_def crc32_loop_fold)

end
