(* ===== verification/Partition_Maps.thy ===== *)
theory Partition_Maps
  imports Volume_IO Disk_Layout Crc32
begin

text \<open>
  The partition maps: \<^verbatim>\<open>src/src/volumes/mbr.c\<close>, \<^verbatim>\<open>gpt.c\<close>, \<^verbatim>\<open>apm.c\<close>, \<^verbatim>\<open>corestorage.c\<close> and the dispatch over them in
  \<^verbatim>\<open>volumes.c\<close>. A test or a load works on a \<open>Volume\<close>, whose sector size, types and partitions it may change,
  and returns its result with the volume after it. The descriptions of the partitions, which are only
  printed, are left out. From libraries come \<open>crc32c\<close>, and \<open>uuid_is\<close>: whether \<open>uuid_compare\<close> finds a UUID
  equal to what \<open>uuid_parse\<close> makes of a string.
\<close>

section \<open>Updating volumes\<close>

definition set_sector_size :: "u32 \<Rightarrow> volume \<Rightarrow> volume" where
  "set_sector_size sz vol = Volume ((geom vol)\<lparr>sector_size := sz\<rparr>) (vol_type vol) (vol_subtype vol) (depth vol)
     (partition_count vol) (partitions vol)"

definition set_types :: "u32 \<Rightarrow> u32 \<Rightarrow> volume \<Rightarrow> volume" where
  "set_types t st vol = Volume (geom vol) t st (depth vol) (partition_count vol) (partitions vol)"

definition update_partition :: "nat \<Rightarrow> (volume \<Rightarrow> volume) \<Rightarrow> volume \<Rightarrow> volume" where
  "update_partition i f vol = Volume (geom vol) (vol_type vol) (vol_subtype vol) (depth vol) (partition_count vol)
     ((partitions vol)[i := map_option f (partitions vol ! i)])"

abbreviation (input) kVolTypePartitionMap :: u32 where "kVolTypePartitionMap \<equiv> 0x504D2020"
abbreviation (input) kVolTypeSystem :: u32 where "kVolTypeSystem \<equiv> 0x53595354"
abbreviation (input) kVolTypeUserData :: u32 where "kVolTypeUserData \<equiv> 0x44415441"
abbreviation (input) kPMTypeAPM :: u32 where "kPMTypeAPM \<equiv> 0x41504D20"
abbreviation (input) kPMTypeMBR :: u32 where "kPMTypeMBR \<equiv> 0x4D425220"
abbreviation (input) kPMTypeGPT :: u32 where "kPMTypeGPT \<equiv> 0x47505420"

text \<open>The bytes of a string constant.\<close>

definition ascii :: "string \<Rightarrow> buffer" where
  "ascii s = map of_char s"

section \<open>Master boot records\<close>

text \<open>
  Three bytes of members, but \<open>aligned(2)\<close> rounds the size of \<open>MBRCHS\<close> up to four; within the packed
  \<open>MBRPartition\<close> it lies at any offset. An entry therefore takes 18 bytes and the whole record 520.
\<close>

definition MBRCHS_t :: ctype where
  "MBRCHS_t = CStruct [(''head'', C8), (''sector_cylinder'', C16), (''padding'', C8)]"

definition MBRPartition_t :: ctype where
  "MBRPartition_t = CStruct
    [(''status'', C8),
     (''first_sector'', MBRCHS_t),
     (''type'', C8),
     (''last_sector'', MBRCHS_t),
     (''first_sector_lba'', C32),
     (''sector_count'', C32)]"

definition MBR_t :: ctype where
  "MBR_t = CStruct
    [(''bootstrap'', CArray 440 C8),
     (''disk_signature'', C32),
     (''reserved0'', C16),
     (''partitions'', CArray 4 MBRPartition_t),
     (''signature'', CArray 2 C8)]"

definition mbr_partition_types :: "(u16 \<times> u32) list" where
  "mbr_partition_types =
    [(0x00, kVolTypeSystem), (0x01, kVolTypeUserData), (0x04, kVolTypeUserData), (0x05, kVolTypePartitionMap),
     (0x06, kVolTypeUserData), (0x07, kVolTypeUserData), (0x08, kVolTypeUserData), (0x0b, kVolTypeUserData),
     (0x0c, kVolTypeUserData), (0x0e, kVolTypeUserData), (0x0f, kVolTypePartitionMap), (0x82, kVolTypeSystem),
     (0x83, kVolTypeUserData), (0x85, kVolTypeSystem), (0x8e, kVolTypeSystem), (0x93, kVolTypeSystem),
     (0xa8, kVolTypeUserData), (0xab, kVolTypeSystem), (0xaf, kVolTypeUserData), (0xee, kVolTypePartitionMap),
     (0xef, kVolTypeSystem), (0, 0)]"

definition mbr_load_header :: "volume \<Rightarrow> buffer \<Rightarrow> (int \<times> buffer) outcome" where
  "mbr_load_header vol mbr =
     obind (vol_read (geom vol) mbr (of_nat (sizeof MBR_t)) 0) (\<lambda>(nbytes, mbr).
       Done (if sint nbytes < 0 then - 1 else 0, mbr))"

definition mbr_test :: "volume \<Rightarrow> (int \<times> volume) outcome" where
  "mbr_test vol =
     obind (mbr_load_header vol (replicate (sizeof MBR_t) 0)) (\<lambda>(rc, mbr).
       if rc < 0 then Done (- 1, vol)
       else if chunk (fld MBR_t ''signature'' 0) 2 mbr = [0x55, 0xaa] then Done (1, vol)
       else Done (0, vol))"

text \<open>The type that \<open>mbr_partition_type_str\<close> stores through \<open>hint\<close>: that of the last entry that fits.\<close>

definition mbr_partition_type_str :: "u16 \<Rightarrow> u32 \<Rightarrow> u32" where
  "mbr_partition_type_str type hint =
     fold (\<lambda>(t, voltype) hint. if t = type then voltype else hint) (take 22 mbr_partition_types) hint"

text \<open>The products of sector numbers and the sector size are computed in 32 bits.\<close>

definition mbr_load_entry :: "buffer \<Rightarrow> nat \<Rightarrow> volume \<Rightarrow> volume outcome" where
  "mbr_load_entry mbr i vol =
     (let p = elem MBRPartition_t i (fld MBR_t ''partitions'' 0);
          type = rd mbr (fld MBRPartition_t ''type'' p) :: u8;
          first_sector_lba = rd mbr (fld MBRPartition_t ''first_sector_lba'' p) :: u32;
          sectors = rd mbr (fld MBRPartition_t ''sector_count'' p) :: u32 in
      if type \<noteq> 0
      then obind (vol_make_partition vol i (ucast (first_sector_lba * sector_size (geom vol)))
                    (ucast (sectors * sector_size (geom vol)))) (\<lambda>vol.
             Done (update_partition i (\<lambda>v. set_types (mbr_partition_type_str (ucast type) kVolTypeSystem)
               (vol_subtype v) v) vol))
      else Done vol)"

definition mbr_load :: "volume \<Rightarrow> (int \<times> volume) outcome" where
  "mbr_load vol =
     (let vol = set_types kVolTypePartitionMap kPMTypeMBR vol in
      obind (mbr_load_header vol (replicate (sizeof MBR_t) 0)) (\<lambda>(rc, mbr).
        if rc < 0 then Done (- 1, vol)
        else obind (steps (map (mbr_load_entry mbr) [0..<4]) vol) (\<lambda>vol. Done (0, vol))))"

section \<open>GUID partition tables\<close>

definition GPTHeader_t :: ctype where
  "GPTHeader_t = CStruct
    [(''signature'', C64),
     (''revision'', C32),
     (''header_size'', C32),
     (''crc'', C32),
     (''reserved'', C32),
     (''current_lba'', C64),
     (''backup_lba'', C64),
     (''first_lba'', C64),
     (''last_lba'', C64),
     (''uuid'', CArray 16 C8),
     (''partition_table_start_lba'', C64),
     (''partitions_entry_count'', C32),
     (''partitions_entry_size'', C32),
     (''partition_table_crc'', C32)]"

definition GPTPartitionEntry_t :: ctype where
  "GPTPartitionEntry_t = CStruct
    [(''type_uuid'', CArray 16 C8),
     (''uuid'', CArray 16 C8),
     (''first_lba'', C64),
     (''last_lba'', C64),
     (''attributes'', C64),
     (''name'', CArray 36 C16)]"

definition gpt_partition_types :: "(string \<times> u32) list" where
  "gpt_partition_types =
    [(''00000000-0000-0000-0000-000000000000'', kVolTypeSystem),
     (''024DEE41-33E7-11D3-9D69-0008C781F39F'', kVolTypePartitionMap),
     (''C12A7328-F81F-11D2-BA4B-00A0C93EC93B'', kVolTypeSystem),
     (''21686148-6449-6E6F-744E-656564454649'', kVolTypeSystem),
     (''D3BFE2DE-3DAF-11DF-BA40-E3A556D89593'', kVolTypeSystem),
     (''48465300-0000-11AA-AA11-00306543ECAC'', kVolTypeUserData),
     (''55465300-0000-11AA-AA11-00306543ECAC'', kVolTypeUserData),
     (''6A898CC3-1DD2-11B2-99A6-080020736631'', kVolTypeUserData),
     (''52414944-0000-11AA-AA11-00306543ECAC'', kVolTypeUserData),
     (''52414944-5F4F-11AA-AA11-00306543ECAC'', kVolTypeUserData),
     (''426F6F74-0000-11AA-AA11-00306543ECAC'', kVolTypeUserData),
     (''4C616265-6C00-11AA-AA11-00306543ECAC'', kVolTypeUserData),
     (''5265636F-7665-11AA-AA11-00306543ECAC'', kVolTypeUserData),
     (''53746F72-6167-11AA-AA11-00306543ECAC'', kVolTypePartitionMap)]"

definition gpt_swap_uuid :: "buffer \<Rightarrow> buffer" where
  "gpt_swap_uuid uuid =
     wr 8 (rd uuid 8 :: u64)
       (wr 6 (be16toh (rd uuid 6))
         (wr 4 (be16toh (rd uuid 4))
           (wr 0 (be32toh (rd uuid 0)) (replicate 16 0))))"

text \<open>The type that is stored through \<open>hint\<close>: that of the first entry that is equal.\<close>

fun gpt_type_in :: "(string \<Rightarrow> buffer \<Rightarrow> bool) \<Rightarrow> buffer \<Rightarrow> u32 \<Rightarrow> (string \<times> u32) list \<Rightarrow> u32" where
  "gpt_type_in uuid_is uuid hint [] = hint"
| "gpt_type_in uuid_is uuid hint ((s, voltype) # ts) =
     (if uuid_is s uuid then voltype else gpt_type_in uuid_is uuid hint ts)"

definition gpt_partition_type_str :: "(string \<Rightarrow> buffer \<Rightarrow> bool) \<Rightarrow> buffer \<Rightarrow> u32 \<Rightarrow> u32" where
  "gpt_partition_type_str uuid_is uuid hint = gpt_type_in uuid_is uuid hint gpt_partition_types"

text \<open>The checks on the number and the size of the entries have no effect: the header is a copy.\<close>

definition gpt_valid_header :: "buffer \<Rightarrow> bool" where
  "gpt_valid_header h \<longleftrightarrow>
     chunk (fld GPTHeader_t ''signature'' 0) 8 h = ascii ''EFI PART'' \<and>
     rd h (fld GPTHeader_t ''header_size'' 0) = (of_nat (sizeof GPTHeader_t) :: u32) \<and>
     crc32 0 (chunk 0 (sizeof GPTHeader_t) (wr (fld GPTHeader_t ''crc'' 0) (0 :: u32) h)) =
       rd h (fld GPTHeader_t ''crc'' 0)"

text \<open>The checksum is that of a table of 128 entries, whatever the header says.\<close>

definition gpt_valid_pmap :: "buffer \<Rightarrow> buffer \<Rightarrow> bool outcome" where
  "gpt_valid_pmap h pmap =
     (if fits 0 (128 * sizeof GPTPartitionEntry_t) pmap
      then Done (crc32 0 (chunk 0 (128 * sizeof GPTPartitionEntry_t) pmap) = rd h (fld GPTHeader_t ''partition_table_crc'' 0))
      else Fault)"

text \<open>
  The search for the header with one sector size after the other. The buffer keeps what earlier rounds
  have read; when no round finds the signature, it is that of the last one.
\<close>

fun gpt_find_header :: "u64 list \<Rightarrow> u32 \<Rightarrow> volume \<Rightarrow> buffer \<Rightarrow> (int \<times> buffer \<times> volume) outcome" where
  "gpt_find_header [] first_sector_lba vol h = Done (0, h, vol)"
| "gpt_find_header (bsize # sizes) first_sector_lba vol h =
     obind (vol_read (geom vol) h (of_nat (sizeof GPTHeader_t)) (bsize * ucast first_sector_lba)) (\<lambda>(nbytes, h).
       if sint nbytes < 0 then Done (- 1, h, vol)
       else if chunk (fld GPTHeader_t ''signature'' 0) 8 h = ascii ''EFI PART''
       then Done (0, h, set_sector_size (ucast bsize) vol)
       else gpt_find_header sizes first_sector_lba vol h)"

definition unused_entry :: "buffer \<Rightarrow> nat \<Rightarrow> bool" where
  "unused_entry buf p \<longleftrightarrow>
     rd buf (fld GPTPartitionEntry_t ''first_lba'' p) = (0 :: u64) \<and>
     rd buf (fld GPTPartitionEntry_t ''last_lba'' p) = (0 :: u64)"

text \<open>The copy of the entries into an array of 128, up to the first unused one or \<open>count\<close> of them.\<close>

fun gpt_copy_entries :: "nat \<Rightarrow> nat \<Rightarrow> buffer \<Rightarrow> buffer \<Rightarrow> buffer outcome" where
  "gpt_copy_entries 0 i buf entries = Done entries"
| "gpt_copy_entries (Suc count) i buf entries =
     (let p = elem GPTPartitionEntry_t i 0 in
      if \<not> fits p (sizeof GPTPartitionEntry_t) buf then Fault
      else if unused_entry buf p then Done entries
      else if \<not> fits p (sizeof GPTPartitionEntry_t) entries then Fault
      else gpt_copy_entries count (i + 1) buf (store p (chunk p (sizeof GPTPartitionEntry_t) buf) entries))"

definition gpt_load_header :: "volume \<Rightarrow> (int \<times> (buffer \<times> buffer) option \<times> volume) outcome" where
  "gpt_load_header vol =
     obind (mbr_load_header vol (replicate (sizeof MBR_t) 0)) (\<lambda>(rc, mbr).
     if rc < 0 then Done (- 1, None, vol)
     else
       let p = elem MBRPartition_t 0 (fld MBR_t ''partitions'' 0);
           first_sector_lba = (if (rd mbr (fld MBRPartition_t ''type'' p) :: u8) = 0xEE
                               then rd mbr (fld MBRPartition_t ''first_sector_lba'' p) else 1) in
       obind (gpt_find_header [512, 1024, 2048, 4096] first_sector_lba vol (replicate (sizeof GPTHeader_t) 0))
         (\<lambda>(rc, h, vol).
        if rc < 0 then Done (- 1, None, vol)
        else if \<not> gpt_valid_header h then Done (- 1, None, vol)
        else
          let count = rd h (fld GPTHeader_t ''partitions_entry_count'' 0) :: u32;
              entry_size = rd h (fld GPTHeader_t ''partitions_entry_size'' 0) :: u32;
              off = rd h (fld GPTHeader_t ''partition_table_start_lba'' 0) * ucast (sector_size (geom vol)) :: u64;
              len = ucast (count * entry_size) :: u64 in
          obind (vol_read (geom vol) (replicate (unat len) 0) len off) (\<lambda>(nbytes, buf).
          if sint nbytes < 0 then Done (- 1, None, vol)
          else
            obind (gpt_valid_pmap h buf) (\<lambda>valid.
            if \<not> valid then Done (- 1, None, vol)
            else
              obind (gpt_copy_entries (unat count) 0 buf (replicate (128 * sizeof GPTPartitionEntry_t) 0)) (\<lambda>entries.
                Done (0, Some (h, entries), vol))))))"

text \<open>Where the load fails, the header that the test looks at is still zero, and not valid.\<close>

definition gpt_test :: "volume \<Rightarrow> (int \<times> volume) outcome" where
  "gpt_test vol =
     obind (gpt_load_header vol) (\<lambda>(_, r, vol).
       let h = (case r of None \<Rightarrow> replicate (sizeof GPTHeader_t) 0 | Some (h, _) \<Rightarrow> h) in
       Done (if gpt_valid_header h then 1 else 0, vol))"

fun gpt_make_partitions ::
  "(string \<Rightarrow> buffer \<Rightarrow> bool) \<Rightarrow> nat \<Rightarrow> nat \<Rightarrow> buffer \<Rightarrow> volume \<Rightarrow> volume outcome" where
  "gpt_make_partitions uuid_is 0 i entries vol = Done vol"
| "gpt_make_partitions uuid_is (Suc count) i entries vol =
     (let p = elem GPTPartitionEntry_t i 0 in
      if \<not> fits p (sizeof GPTPartitionEntry_t) entries then Fault
      else if unused_entry entries p then Done vol
      else
        let secsz = ucast (sector_size (geom vol)) :: u64;
            off = rd entries (fld GPTPartitionEntry_t ''first_lba'' p) * secsz;
            len = rd entries (fld GPTPartitionEntry_t ''last_lba'' p) * secsz - off;
            uuid = gpt_swap_uuid (chunk (fld GPTPartitionEntry_t ''type_uuid'' p) 16 entries) in
        obind (vol_make_partition vol i off len) (\<lambda>vol.
          gpt_make_partitions uuid_is count (i + 1) entries
            (update_partition i (\<lambda>v. set_types (gpt_partition_type_str uuid_is uuid 0) (vol_subtype v) v) vol)))"

definition gpt_load :: "(string \<Rightarrow> buffer \<Rightarrow> bool) \<Rightarrow> volume \<Rightarrow> (int \<times> volume) outcome" where
  "gpt_load uuid_is vol =
     obind (gpt_load_header (set_types kVolTypePartitionMap kPMTypeGPT vol)) (\<lambda>(rc, r, vol).
       if rc < 0 then Done (- 1, vol)
       else case r of None \<Rightarrow> Fault
       | Some (h, entries) \<Rightarrow>
           obind (gpt_make_partitions uuid_is (unat (rd h (fld GPTHeader_t ''partitions_entry_count'' 0) :: u32))
                    0 entries vol) (\<lambda>vol. Done (0, vol)))"

end
