(* ===== verification/Volumes_Load.thy ===== *)
theory Volumes_Load
  imports Partition_Maps Disk_Swap
begin

text \<open>
  The rest of the partition maps: \<^verbatim>\<open>src/src/volumes/apm.c\<close>, \<^verbatim>\<open>src/src/volumes/corestorage.c\<close>, and
  \<open>volumes_load\<close> of \<^verbatim>\<open>src/src/volumes/volumes.c\<close>, which tries the maps on a volume in turn and descends
  into the partitions that hold a map themselves. Nothing bounds that descent, so it takes fuel, and
  \<open>None\<close> is the descent that does not end. The function \<open>crc32c\<close> comes from a library.
\<close>

section \<open>Apple partition maps\<close>

definition APMHeader_t :: ctype where
  "APMHeader_t = CStruct
    [(''signature'', C16),
     (''reserved1'', C16),
     (''partition_count'', C32),
     (''partition_start'', C32),
     (''partition_length'', C32),
     (''name'', CArray 32 C8),
     (''type'', CArray 32 C8),
     (''data_start'', C32),
     (''data_length'', C32),
     (''status'', C32),
     (''boot_code_start'', C32),
     (''boot_code_length'', C32),
     (''bootloader_address'', C32),
     (''reserved2'', C32),
     (''boot_code_entry'', C32),
     (''reserved3'', C32),
     (''boot_code_checksum'', C32),
     (''processor_type'', CArray 16 C8)]"

definition swap_APMHeader :: "nat \<Rightarrow> buffer \<Rightarrow> buffer outcome" where
  "swap_APMHeader p =
     (let r = (\<lambda>f. fld APMHeader_t f p) in steps
     [Swap16 (r ''signature''), Swap16 (r ''reserved1''), Swap32 (r ''partition_count''),
      Swap32 (r ''partition_start''), Swap32 (r ''partition_length''), Swap32 (r ''data_start''),
      Swap32 (r ''data_length''), Swap32 (r ''status''), Swap32 (r ''boot_code_start''),
      Swap32 (r ''boot_code_length''), Swap32 (r ''bootloader_address''), Swap32 (r ''reserved2''),
      Swap32 (r ''boot_code_entry''), Swap32 (r ''reserved3''), Swap32 (r ''boot_code_checksum'')])"

definition apm_get_header :: "volume \<Rightarrow> buffer \<Rightarrow> nat \<Rightarrow> (int \<times> buffer) outcome" where
  "apm_get_header vol hdr partition_number =
     obind (vol_read (geom vol) hdr (of_nat (sizeof APMHeader_t))
              (ucast (sector_size (geom vol)) * of_nat partition_number)) (\<lambda>(nbytes, hdr).
       if sint nbytes < 0 then Done (- 1, hdr)
       else obind (swap_APMHeader 0 hdr) (\<lambda>hdr. Done (0, hdr)))"

definition apm_get_volume_header :: "volume \<Rightarrow> buffer \<Rightarrow> (int \<times> buffer) outcome" where
  "apm_get_volume_header vol hdr = apm_get_header vol hdr 1"

definition apm_test :: "volume \<Rightarrow> (int \<times> volume) outcome" where
  "apm_test vol =
     obind (vol_read (geom vol) (replicate 4096 0) 4096 0) (\<lambda>(nbytes, buf).
       if sint nbytes < 0 then Done (- 1, vol)
       else if chunk 512 2 buf = ascii ''PM'' then Done (1, set_sector_size 512 vol)
       else if chunk 1024 2 buf = ascii ''PM'' then Done (1, set_sector_size 1024 vol)
       else if chunk 2048 2 buf = ascii ''PM'' then Done (1, set_sector_size 2048 vol)
       else Done (0, vol))"

definition APMPartitionIdentifers :: "(string \<times> u32) list" where
  "APMPartitionIdentifers =
    [(''Apple_Boot'', kVolTypeSystem), (''Apple_Boot_RAID'', kVolTypeSystem),
     (''Apple_Bootstrap'', kVolTypeSystem), (''Apple_Driver'', kVolTypeSystem),
     (''Apple_Driver43'', kVolTypeSystem), (''Apple_Driver43_CD'', kVolTypeSystem),
     (''Apple_Driver_ATA'', kVolTypeSystem), (''Apple_Driver_ATAPI'', kVolTypeSystem),
     (''Apple_Driver_IOKit'', kVolTypeSystem), (''Apple_Driver_OpenFirmware'', kVolTypeSystem),
     (''Apple_Extra'', kVolTypeSystem), (''Apple_Free'', kVolTypeSystem),
     (''Apple_FWDriver'', kVolTypeSystem), (''Apple_HFS'', kVolTypeUserData),
     (''Apple_HFSX'', kVolTypeUserData), (''Apple_Loader'', kVolTypeSystem),
     (''Apple_MFS'', kVolTypeUserData), (''Apple_Partition_Map'', kVolTypeSystem),
     (''Apple_Patches'', kVolTypeSystem), (''Apple_PRODOS'', kVolTypeUserData),
     (''Apple_Rhapsody_UFS'', kVolTypeUserData), (''Apple_Scratch'', kVolTypeSystem),
     (''Apple_Second'', kVolTypeSystem), (''Apple_UFS'', kVolTypeUserData),
     (''Apple_UNIX_SVR2'', kVolTypeUserData), (''Apple_Void'', kVolTypeSystem),
     (''Be_BFS'', kVolTypeUserData)]"

text \<open>
  Whether \<open>strncasecmp\<close> finds two character arrays equal: up to \<open>n\<close> characters of them, or up to a
  NUL. An array that ends before that is none that the code passes.
\<close>

definition tolower :: "u8 \<Rightarrow> u8" where
  "tolower c = (if 0x41 \<le> c \<and> c \<le> 0x5A then c + 0x20 else c)"

fun strncasecmp_equal :: "nat \<Rightarrow> buffer \<Rightarrow> buffer \<Rightarrow> bool" where
  "strncasecmp_equal 0 s t = True"
| "strncasecmp_equal (Suc n) (c # s) (d # t) =
     (tolower c = tolower d \<and> (c = 0 \<or> strncasecmp_equal n s t))"
| "strncasecmp_equal (Suc n) _ _ = False"

text \<open>The loop over the identifiers: the last one that fits gives the type.\<close>

definition apm_partition_type :: "buffer \<Rightarrow> u32 \<Rightarrow> u32" where
  "apm_partition_type type hint =
     fold (\<lambda>(s, voltype) hint. if strncasecmp_equal 32 type (ascii s @ [0]) then voltype else hint)
       APMPartitionIdentifers hint"

text \<open>
  The loop of \<open>apm_load\<close> from one partition number on. The header keeps what an earlier round has
  left in it; a partition number above 128 writes outside the table of partitions, which ends the loop.
\<close>

definition apm_make_partition :: "buffer \<Rightarrow> nat \<Rightarrow> volume \<Rightarrow> volume outcome" where
  "apm_make_partition hdr partitionID vol =
     (let start = rd hdr (fld APMHeader_t ''partition_start'' 0) :: u32;
          sectors = rd hdr (fld APMHeader_t ''partition_length'' 0) :: u32;
          secsz = ucast (sector_size (geom vol)) :: u64 in
      obind (vol_make_partition vol (partitionID - 1) (ucast start * secsz) (ucast sectors * secsz)) (\<lambda>vol.
        Done (update_partition (partitionID - 1) (\<lambda>v.
          Volume ((geom v)\<lparr>sector_size := ucast secsz, sector_count := ucast sectors\<rparr>)
            (apm_partition_type (chunk (fld APMHeader_t ''type'' 0) 32 hdr) (vol_type v)) (vol_subtype v)
            (depth v) (partition_count v) (partitions v)) vol)))"

lemma vol_make_partition_shape:
  assumes "vol_make_partition vol pos off len = Done vol'"
  shows "pos < length (partitions vol)" "length (partitions vol') = length (partitions vol)"
    "partition_count vol' = partition_count vol + 1" "geom vol' = geom vol"
  using assms by (auto simp: vol_make_partition_def Let_def split: if_splits)

lemma partitions_update [simp]: "length (partitions (update_partition i f vol)) = length (partitions vol)"
  by (simp add: update_partition_def)

lemma apm_make_partition_shape:
  assumes "apm_make_partition hdr i vol = Done vol'"
  shows "i \<le> length (partitions vol) \<and> length (partitions vol') = length (partitions vol)"
  using assms vol_make_partition_shape(1,2)
  by (fastforce simp: apm_make_partition_def Let_def outcome_simps)

function apm_load_from :: "nat \<Rightarrow> buffer \<Rightarrow> volume \<Rightarrow> (int \<times> volume) outcome" where
  "apm_load_from partitionID hdr vol =
     obind (apm_get_header vol hdr partitionID) (\<lambda>(rc, hdr).
       if rc < 0 then Done (- 1, vol)
       else obind (apm_make_partition hdr partitionID vol) (\<lambda>vol.
         if partitionID + 1 \<ge> unat (rd hdr (fld APMHeader_t ''partition_count'' 0) :: u32) then Done (0, vol)
         else apm_load_from (partitionID + 1) hdr vol))"
  by pat_completeness auto

termination
  by (relation "measure (\<lambda>(partitionID, _, vol). length (partitions vol) + 1 - partitionID)")
    (auto dest!: apm_make_partition_shape simp: Suc_diff_le)

declare apm_load_from.simps [simp del]

definition apm_load :: "volume \<Rightarrow> (int \<times> volume) outcome" where
  "apm_load vol =
     apm_load_from 1 (replicate (sizeof APMHeader_t) 0) (set_types kVolTypePartitionMap kPMTypeAPM vol)"

section \<open>Core Storage\<close>

definition CSBlockHeader_t :: ctype where
  "CSBlockHeader_t = CStruct
    [(''checksum'', C32),
     (''checksum_seed'', C32),
     (''version'', C16),
     (''block_type'', C16),
     (''field_5'', C32),
     (''generation'', C64),
     (''field_7'', C64),
     (''field_8'', C64),
     (''field_9'', C64),
     (''block_size'', C32),
     (''field_11'', C32),
     (''field_12'', C64)]"

definition CSVolumeHeader_t :: ctype where
  "CSVolumeHeader_t = CStruct
    [(''block_header'', CSBlockHeader_t),
     (''physical_size'', C64),
     (''field_14'', CArray 16 C8),
     (''signature'', C16),
     (''checksum_algo'', C32),
     (''md_count'', C16),
     (''md_block_size'', C32),
     (''md_size'', C32),
     (''md_blocks'', CArray 8 C64),
     (''encryption_key_size'', C32),
     (''encryption_key_algo'', C32),
     (''encryption_key_data'', CArray 128 C8),
     (''physical_volume_uuid'', CArray 16 C8),
     (''logical_volume_group_uuid'', CArray 16 C8),
     (''field_26'', CArray 176 C8)]"

definition cs_crc32c :: "(u32 \<Rightarrow> buffer \<Rightarrow> u32) \<Rightarrow> u32 \<Rightarrow> buffer \<Rightarrow> u32 \<Rightarrow> u32 outcome" where
  "cs_crc32c crc32c seed base len =
     (if fits 8 (unat (len - 8)) base then Done (crc32c seed (chunk 8 (unat (len - 8)) base)) else Fault)"

text \<open>The length that the caller gives is replaced with the one that the block itself states.\<close>

definition cs_verify_block ::
  "(u32 \<Rightarrow> buffer \<Rightarrow> u32) \<Rightarrow> buffer \<Rightarrow> buffer \<Rightarrow> int outcome" where
  "cs_verify_block crc32c hdr block =
     (if rd hdr (fld CSVolumeHeader_t ''checksum_algo'' 0) = (1 :: u32)
      then
        let bh = (\<lambda>f. fld CSBlockHeader_t f 0) in
        obind (load block (bh ''version'')) (\<lambda>version :: u16.
        if version = 0 then Done (- 1)
        else obind (load block (bh ''checksum'')) (\<lambda>checksum :: u32.
        if checksum = 0 then Done 0
        else
          obind (load block (bh ''block_size'')) (\<lambda>nbytes.
          obind (cs_crc32c crc32c (rd block (bh ''checksum_seed'')) block nbytes) (\<lambda>crc.
          Done (if crc \<noteq> checksum then - 1 else 0)))))
      else Done (- 1))"

definition cs_get_volume_header ::
  "(u32 \<Rightarrow> buffer \<Rightarrow> u32) \<Rightarrow> volume \<Rightarrow> buffer \<Rightarrow> (int \<times> buffer) outcome" where
  "cs_get_volume_header crc32c vol hdr =
     obind (vol_read (geom vol) (replicate (sizeof CSVolumeHeader_t) 0) (of_nat (sizeof CSVolumeHeader_t)) 0)
       (\<lambda>(nbytes, buf).
       if sint nbytes < 0 then Done (- 1, hdr)
       else obind (cs_verify_block crc32c buf buf) (\<lambda>rc. Done (rc, buf)))"

text \<open>
  A block that claims to be larger than the buffer leads to a \<open>realloc\<close> of the address of the
  caller's pointer instead of the pointer, which no allocation has returned.
\<close>

definition cs_get_metadata_block ::
  "(u32 \<Rightarrow> buffer \<Rightarrow> u32) \<Rightarrow> buffer \<Rightarrow> volume \<Rightarrow> buffer \<Rightarrow> u32 \<Rightarrow> (int \<times> buffer) outcome" where
  "cs_get_metadata_block crc32c buf vol hdr block =
     (let buf_size = rd hdr (fld CSVolumeHeader_t ''md_block_size'' 0) :: u32;
          bh = (\<lambda>f. fld CSBlockHeader_t f 0) in
      obind (vol_read (geom vol) buf (ucast buf_size) (ucast block * ucast buf_size)) (\<lambda>(nbytes, buf).
      if sint nbytes < 0 then Done (- 1, buf)
      else obind (load buf (bh ''version'')) (\<lambda>version :: u16.
      if version \<noteq> 1 then Done (- 1, buf)
      else obind (load buf (bh ''block_size'')) (\<lambda>block_size.
      if block_size > buf_size then Fault
      else obind (cs_verify_block crc32c hdr buf) (\<lambda>rc.
        Done (if rc < 0 then - 1 else sint nbytes, buf))))))"

definition cs_test :: "(u32 \<Rightarrow> buffer \<Rightarrow> u32) \<Rightarrow> volume \<Rightarrow> (int \<times> volume) outcome" where
  "cs_test crc32c vol =
     obind (cs_get_volume_header crc32c vol (replicate (sizeof CSVolumeHeader_t) 0)) (\<lambda>(rc, hdr).
       if rc < 0 then Done (- 1, vol)
       else Done (if chunk (fld CSVolumeHeader_t ''signature'' 0) 2 hdr = ascii ''CS'' then 1 else 0, vol))"

section \<open>Loading the partitions of a volume\<close>

text \<open>The test and, where there is one, the load operation of a kind of partition map.\<close>

record partition_ops =
  op_test :: "volume \<Rightarrow> (int \<times> volume) outcome"
  op_load :: "(volume \<Rightarrow> (int \<times> volume) outcome) option"

definition partitionTypes ::
  "(string \<Rightarrow> buffer \<Rightarrow> bool) \<Rightarrow> (u32 \<Rightarrow> buffer \<Rightarrow> u32) \<Rightarrow> partition_ops list" where
  "partitionTypes uuid_is crc32c =
     [\<lparr>op_test = gpt_test, op_load = Some (gpt_load uuid_is)\<rparr>,
      \<lparr>op_test = apm_test, op_load = Some apm_load\<rparr>,
      \<lparr>op_test = cs_test crc32c, op_load = None\<rparr>,
      \<lparr>op_test = mbr_test, op_load = Some mbr_load\<rparr>]"

text \<open>The first loop of \<open>volumes_load\<close>: the maps in turn, until one of them is loaded.\<close>

fun try_maps :: "partition_ops list \<Rightarrow> volume \<Rightarrow> volume outcome" where
  "try_maps [] vol = Done vol"
| "try_maps (op # ops) vol =
     obind (op_test op vol) (\<lambda>(rc, vol).
       if rc = 1
       then (case op_load op of
           Some ld \<Rightarrow> obind (ld vol) (\<lambda>(rc, vol). if rc < 0 then try_maps ops vol else Done vol)
         | None \<Rightarrow> try_maps ops vol)
       else try_maps ops vol)"

text \<open>The second loop: the partitions that hold a map, at the positions below the count.\<close>

fun load_nested ::
  "(volume \<Rightarrow> (int \<times> volume) outcome option) \<Rightarrow> nat list \<Rightarrow> volume \<Rightarrow> (int \<times> volume) outcome option" where
  "load_nested rec [] vol = Some (Done (0, vol))"
| "load_nested rec (i # is) vol =
     (if i < length (partitions vol)
      then
        (case partitions vol ! i of
           None \<Rightarrow> load_nested rec is vol
         | Some v \<Rightarrow>
             if vol_type v = kVolTypePartitionMap
             then (case rec v of
                 None \<Rightarrow> None
               | Some (Done (_, v')) \<Rightarrow> load_nested rec is (update_partition i (\<lambda>_. v') vol)
               | Some Critical \<Rightarrow> Some Critical
               | Some Fault \<Rightarrow> Some Fault)
             else load_nested rec is vol)
      else Some Fault)"

fun volumes_load ::
  "(string \<Rightarrow> buffer \<Rightarrow> bool) \<Rightarrow> (u32 \<Rightarrow> buffer \<Rightarrow> u32) \<Rightarrow> nat \<Rightarrow> volume \<Rightarrow> (int \<times> volume) outcome option" where
  "volumes_load uuid_is crc32c 0 vol = None"
| "volumes_load uuid_is crc32c (Suc fuel) vol =
     (case try_maps (partitionTypes uuid_is crc32c) vol of
        Done vol \<Rightarrow> load_nested (volumes_load uuid_is crc32c fuel) [0..<partition_count vol] vol
      | Critical \<Rightarrow> Some Critical
      | Fault \<Rightarrow> Some Fault)"

end
