(* ===== verification/Partition_Correct.thy ===== *)
theory Partition_Correct
  imports Volumes_Load
begin

text \<open>
  What the partition maps are read as: where a master boot record is recognised and which partitions it
  gives, the partitions of an Apple partition map and of a GUID partition table, and when the descent of
  \<open>volumes_load\<close> into nested maps ends.
\<close>

section \<open>Reads that start on a block\<close>

definition readable :: "geometry \<Rightarrow> nat \<Rightarrow> nat \<Rightarrow> bool" where
  "readable g off n \<longleftrightarrow>
     geometry_ok g \<and> 0 < n \<and> off + n < 2 ^ 62 \<and>
     (vol_length g = 0 \<or> off + n \<le> unat (vol_length g)) \<and>
     off mod unat (block_size_of g) = 0 \<and>
     unat (vol_offset g) + off + blocks_read (unat (block_size_of g)) n off * unat (block_size_of g)
       \<le> length (source g)"

definition vol_bytes :: "geometry \<Rightarrow> nat \<Rightarrow> nat \<Rightarrow> buffer" where
  "vol_bytes g off n = chunk (unat (vol_offset g) + off) n (source g)"

lemma read_aligned:
  assumes r: "readable g off n" and buf: "n \<le> length buf"
  shows "vol_read g buf (of_nat n) (of_nat off) = Done (of_nat n, store 0 (vol_bytes g off n) buf)"
    and "0 \<le> sint (of_nat n :: u64)" and "length (vol_bytes g off n) = n"
proof -
  let ?b = "unat (block_size_of g)"
  have r': "geometry_ok g" "0 < n" "off + n < 2 ^ 62" "vol_length g = 0 \<or> off + n \<le> unat (vol_length g)"
    "off mod ?b = 0" "unat (vol_offset g) + off + blocks_read ?b n off * ?b \<le> length (source g)"
    using r by (simp_all add: readable_def)
  have u: "unat (of_nat n :: u64) = n" "unat (of_nat off :: u64) = off"
    using r'(3) by (auto intro!: unat_of_nat_small)
  have b0: "0 < ?b" by (rule block_size_pos)
  have cross: "off mod ?b + n mod ?b < ?b" using r'(5) b0 by simp
  have same: "off div ?b * ?b = off" using r'(5) by (metis add.right_neutral div_mult_mod_eq)
  have "unat (of_nat off :: u64) < 2 ^ 62" "unat (of_nat n :: u64) < 2 ^ 62" using r'(3) u by simp_all
  from vol_read_whole [OF r'(1) this _ _ refl, of buf] r' u cross same buf
  show "vol_read g buf (of_nat n) (of_nat off) = Done (of_nat n, store 0 (vol_bytes g off n) buf)"
    by (simp add: vol_bytes_def fits_def)
  have "unat (of_nat n :: u64) < 2 ^ 63" using r'(3) u by simp
  then show "0 \<le> sint (of_nat n :: u64)" by (simp add: sint_nonneg_small)
  have "off mod ?b + n \<le> blocks_read ?b n off * ?b" by (rule blocks_cover(2) [OF b0 r'(2) cross])
  then show "length (vol_bytes g off n) = n" using r'(6) by (simp add: vol_bytes_def)
qed

lemma read_aligned_0:
  assumes "readable g 0 n" "n \<le> length buf"
  shows "vol_read g buf (of_nat n) 0 = Done (of_nat n, store 0 (vol_bytes g 0 n) buf)"
  using read_aligned(1) [OF assms] by simp

lemma store_whole [simp]: "length xs = length m \<Longrightarrow> store 0 xs m = xs"
  by (simp add: store_def)

section \<open>Master boot records\<close>

lemma mbr_layout [layout]:
  "sizeof MBR_t = 520" "sizeof MBRPartition_t = 18" "fld MBR_t ''signature'' 0 = 518"
  "fld MBR_t ''partitions'' 0 = 446" "fld MBRPartition_t ''type'' p = p + 5"
  "fld MBRPartition_t ''first_sector_lba'' p = p + 10" "fld MBRPartition_t ''sector_count'' p = p + 14"
proof -
  have "fld MBRPartition_t ''type'' 0 = 5" "fld MBRPartition_t ''first_sector_lba'' 0 = 10"
    "fld MBRPartition_t ''sector_count'' 0 = 14" by code_simp+
  then show "fld MBRPartition_t ''type'' p = p + 5"
    "fld MBRPartition_t ''first_sector_lba'' p = p + 10" "fld MBRPartition_t ''sector_count'' p = p + 14"
    by (simp_all add: fld_def)
qed code_simp+

lemma mbr_header_read:
  assumes "readable (geom vol) 0 520"
  shows "mbr_load_header vol (replicate 520 0) = Done (0, vol_bytes (geom vol) 0 520)"
  using read_aligned_0 [OF assms, of "replicate 520 0"] read_aligned(2,3) [OF assms, of "replicate 520 0"]
  by (simp add: mbr_load_header_def layout)

definition mbr_entry :: "volume \<Rightarrow> nat \<Rightarrow> buffer" where
  "mbr_entry vol i = vol_bytes (geom vol) (446 + 18 * i) 18"

definition mbr_partition :: "volume \<Rightarrow> buffer \<Rightarrow> volume" where
  "mbr_partition vol e =
     (let len = ucast (rd e 14 * sector_size (geom vol) :: u32) in
      Volume ((geom vol)\<lparr>vol_offset := ucast (rd e 10 * sector_size (geom vol) :: u32), vol_length := len,
          sector_count := len div ucast (sector_size (geom vol))\<rparr>)
        (mbr_partition_type_str (ucast (e ! 5)) kVolTypeSystem) kTypeUnknown (depth vol + 1) 0 (replicate 128 None))"

lemma made_partition:
  assumes "sector_size (geom vol) \<noteq> 0" "pos < length (partitions vol)"
  shows "vol_make_partition vol pos off len = Done (Volume (geom vol) (vol_type vol) (vol_subtype vol) (depth vol)
    (partition_count vol + 1) ((partitions vol)[pos := Some (Volume ((geom vol)\<lparr>vol_offset := off, vol_length := len,
      sector_count := len div ucast (sector_size (geom vol))\<rparr>) kTypeUnknown kTypeUnknown (depth vol + 1) 0
      (replicate 128 None))]))"
proof -
  have "unat (ucast (sector_size (geom vol)) :: u64) \<noteq> 0" using assms(1) by (simp add: unat_eq_0)
  then have "ucast (sector_size (geom vol)) \<noteq> (0 :: u64)" by (metis unat_0)
  with assms(2) show ?thesis by (simp add: vol_make_partition_def)
qed

text \<open>The effect of one entry on the table of partitions.\<close>

definition put_partition :: "nat \<Rightarrow> volume \<Rightarrow> volume \<Rightarrow> volume" where
  "put_partition i w vol = Volume (geom vol) (vol_type vol) (vol_subtype vol) (depth vol) (partition_count vol + 1)
     ((partitions vol)[i := Some w])"

lemma put_partition_simps [simp]:
  "geom (put_partition i w vol) = geom vol" "vol_type (put_partition i w vol) = vol_type vol"
  "vol_subtype (put_partition i w vol) = vol_subtype vol" "depth (put_partition i w vol) = depth vol"
  "partition_count (put_partition i w vol) = partition_count vol + 1"
  "partitions (put_partition i w vol) = (partitions vol)[i := Some w]"
  by (simp_all add: put_partition_def)

lemma set_types_simps [simp]:
  "geom (set_types t st vol) = geom vol" "vol_type (set_types t st vol) = t"
  "vol_subtype (set_types t st vol) = st" "depth (set_types t st vol) = depth vol"
  "partition_count (set_types t st vol) = partition_count vol" "partitions (set_types t st vol) = partitions vol"
  by (simp_all add: set_types_def)

lemma mbr_load_entry_result:
  assumes "sector_size (geom vol) \<noteq> 0" "length (partitions vol) = 128" "i < 4"
    and "m = vol_bytes (geom vol) 0 520" "length m = 520"
  shows "mbr_load_entry m i vol =
    Done (if mbr_entry vol i ! 5 = 0 then vol else put_partition i (mbr_partition vol (mbr_entry vol i)) vol)"
proof -
  let ?e = "mbr_entry vol i"
  have in_m: "18 * i + 464 \<le> 520" using assms(3) by simp
  have e: "?e = chunk (446 + 18 * i) 18 m"
    using in_m by (simp add: mbr_entry_def vol_bytes_def assms(4) chunk_chunk add.assoc)
  have t: "(rd m (451 + 18 * i) :: u8) = ?e ! 5"
    using in_m assms(5) by (simp add: e rd_def nth_chunk chunk_def hd_drop_conv_nth take_Suc)
  have f: "(rd m (456 + 18 * i) :: u32) = rd ?e 10" "(rd m (460 + 18 * i) :: u32) = rd ?e 14"
    using in_m by (simp_all add: e rd_chunk add.commute)
  show ?thesis
    using assms(1-3) t f
    by (simp add: mbr_load_entry_def layout elem_def Let_def made_partition update_partition_def
        put_partition_def mbr_partition_def set_types_def add.commute [of _ "18 * i"] mult.commute)
qed

definition mbr_apply :: "nat \<Rightarrow> volume \<Rightarrow> volume" where
  "mbr_apply i vol =
     (if mbr_entry vol i ! 5 = 0 then vol else put_partition i (mbr_partition vol (mbr_entry vol i)) vol)"

lemma mbr_apply_simps [simp]:
  "geom (mbr_apply i vol) = geom vol" "vol_type (mbr_apply i vol) = vol_type vol"
  "depth (mbr_apply i vol) = depth vol" "vol_subtype (mbr_apply i vol) = vol_subtype vol"
  "length (partitions (mbr_apply i vol)) = length (partitions vol)"
  by (simp_all add: mbr_apply_def)

lemma mbr_entry_geom: "geom v = geom w \<Longrightarrow> mbr_entry v i = mbr_entry w i"
  by (simp add: mbr_entry_def)

lemma mbr_partition_geom: "geom v = geom w \<Longrightarrow> depth v = depth w \<Longrightarrow> mbr_partition v e = mbr_partition w e"
  by (simp add: mbr_partition_def)

lemma mbr_load_entries:
  "m = vol_bytes (geom vol) 0 520 \<Longrightarrow> length m = 520 \<Longrightarrow> list_all (\<lambda>i. i < 4) is \<Longrightarrow> sector_size (geom vol) \<noteq> 0 \<Longrightarrow> length (partitions vol) = 128 \<Longrightarrow>
    steps (map (mbr_load_entry m) is) vol = Done (fold mbr_apply is vol)"
proof (induction "is" arbitrary: vol)
  case (Cons i "is")
  from Cons.prems have "mbr_load_entry m i vol = Done (mbr_apply i vol)"
    using mbr_load_entry_result [of vol i m] by (simp add: mbr_apply_def)
  with Cons.IH [of "mbr_apply i vol"] Cons.prems show ?case by simp
qed simp

lemma fold_mbr_apply_fixed:
  "geom (fold mbr_apply is vol) = geom vol \<and> vol_type (fold mbr_apply is vol) = vol_type vol \<and>
   depth (fold mbr_apply is vol) = depth vol \<and>
   length (partitions (fold mbr_apply is vol)) = length (partitions vol)"
proof (induction "is" arbitrary: vol)
  case (Cons i "is")
  show ?case using Cons.IH [of "mbr_apply i vol"] by simp
qed simp

lemma mbr_apply_same:
  "mbr_entry (mbr_apply i vol) j = mbr_entry vol j" "mbr_partition (mbr_apply i vol) e = mbr_partition vol e"
  by (rule mbr_entry_geom mbr_partition_geom, simp_all)+

lemma fold_mbr_apply_count:
  "partition_count (fold mbr_apply is vol) =
     partition_count vol + length (filter (\<lambda>i. mbr_entry vol i ! 5 \<noteq> 0) is)"
proof (induction "is" arbitrary: vol)
  case (Cons i "is")
  have "partition_count (mbr_apply i vol) = partition_count vol + (if mbr_entry vol i ! 5 = 0 then 0 else 1)"
    by (simp add: mbr_apply_def)
  with Cons show ?case by (simp add: mbr_apply_same)
qed simp

lemma fold_mbr_apply_nth:
  "distinct is \<Longrightarrow> i < length (partitions vol) \<Longrightarrow> partitions (fold mbr_apply is vol) ! i =
     (if i \<in> set is \<and> mbr_entry vol i ! 5 \<noteq> 0 then Some (mbr_partition vol (mbr_entry vol i)) else partitions vol ! i)"
proof (induction "is" arbitrary: vol)
  case (Cons j "is")
  have "partitions (mbr_apply j vol) ! i =
    (if i = j \<and> mbr_entry vol j ! 5 \<noteq> 0 then Some (mbr_partition vol (mbr_entry vol j)) else partitions vol ! i)"
    using Cons.prems by (simp add: mbr_apply_def)
  with Cons show ?case by (cases "i = j") (simp_all add: mbr_apply_same)
qed simp

lemma mbr_load_result:
  assumes "readable (geom vol) 0 520" "sector_size (geom vol) \<noteq> 0" "length (partitions vol) = 128"
  shows "mbr_load vol = Done (0, fold mbr_apply [0..<4] (set_types kVolTypePartitionMap kPMTypeMBR vol))"
proof -
  let ?v = "set_types kVolTypePartitionMap kPMTypeMBR vol"
  have r: "readable (geom ?v) 0 520" using assms(1) by simp
  have s: "steps (map (mbr_load_entry (vol_bytes (geom ?v) 0 520)) [0..<4]) ?v = Done (fold mbr_apply [0..<4] ?v)"
    using assms read_aligned(3) [OF r, of "replicate 520 0"] by (intro mbr_load_entries) (simp_all add: list_all_iff)
  show ?thesis
    unfolding mbr_load_def Let_def layout mbr_header_read [OF r] obind.simps prod.case s by simp
qed

section \<open>Volumes without other maps\<close>

lemma gpt_layout [layout]:
  "sizeof GPTHeader_t = 92" "fld GPTHeader_t ''signature'' 0 = 0" "sizeof CSVolumeHeader_t = 512"
  "fld CSVolumeHeader_t ''checksum_algo'' 0 = 90"
  by code_simp+

definition no_signature :: "geometry \<Rightarrow> u64 \<Rightarrow> bool" where
  "no_signature g bsize \<longleftrightarrow> readable g (unat bsize) 92 \<and> vol_bytes g (unat bsize) 8 \<noteq> ascii ''EFI PART''"

lemma gpt_find_header_none:
  assumes "list_all (no_signature (geom vol)) sizes" "length h = 92" "chunk 0 8 h \<noteq> ascii ''EFI PART''"
  shows "\<exists>h'. gpt_find_header sizes 1 vol h = Done (0, h', vol) \<and> \<not> gpt_valid_header h'"
  using assms
proof (induction sizes arbitrary: h)
  case (Cons bsize sizes)
  let ?h = "vol_bytes (geom vol) (unat bsize) 92"
  from Cons.prems(1) have r: "readable (geom vol) (unat bsize) 92" and n: "vol_bytes (geom vol) (unat bsize) 8 \<noteq> ascii ''EFI PART''"
    by (simp_all add: no_signature_def)
  have len: "length ?h = 92" using read_aligned(3) [OF r, of "replicate 92 0"] by simp
  have read: "vol_read (geom vol) h 92 bsize = Done (92, ?h)"
    using read_aligned(1) [OF r, of h] Cons.prems(2) len by simp
  have "chunk 0 8 ?h = vol_bytes (geom vol) (unat bsize) 8" by (simp add: vol_bytes_def chunk_chunk)
  with n have n': "chunk 0 8 ?h \<noteq> ascii ''EFI PART''" by simp
  have "list_all (no_signature (geom vol)) sizes" using Cons.prems(1) by simp
  from Cons.IH [OF this len n'] show ?case
    unfolding gpt_find_header.simps layout by (simp add: read n')
qed (simp add: gpt_valid_header_def layout)

definition not_gpt :: "volume \<Rightarrow> bool" where
  "not_gpt vol \<longleftrightarrow> readable (geom vol) 0 520 \<and> mbr_entry vol 0 ! 5 \<noteq> 0xEE \<and>
     list_all (no_signature (geom vol)) [512, 1024, 2048, 4096]"

lemma entry_0_type:
  assumes "readable (geom vol) 0 520"
  shows "(rd (vol_bytes (geom vol) 0 520) 451 :: u8) = mbr_entry vol 0 ! 5"
proof -
  have len: "length (vol_bytes (geom vol) 0 520) = 520"
    using read_aligned(3) [OF assms, of "replicate 520 0"] by simp
  have "mbr_entry vol 0 = chunk 446 18 (vol_bytes (geom vol) 0 520)"
    by (simp add: mbr_entry_def vol_bytes_def chunk_chunk)
  with len show ?thesis
    by (simp add: rd_def nth_chunk chunk_def hd_drop_conv_nth take_Suc)
qed

lemma gpt_test_none: "not_gpt vol \<Longrightarrow> gpt_test vol = Done (0, vol)"
proof -
  assume "not_gpt vol"
  then have r: "readable (geom vol) 0 520" and t: "mbr_entry vol 0 ! 5 \<noteq> 0xEE"
    and s: "list_all (no_signature (geom vol)) [512, 1024, 2048, 4096]"
    unfolding not_gpt_def by blast+
  have z: "chunk 0 8 (replicate 92 (0 :: u8)) \<noteq> ascii ''EFI PART''"
    by code_simp
  obtain h' where h': "gpt_find_header [512, 1024, 2048, 4096] 1 vol (replicate 92 0) = Done (0, h', vol)"
    "\<not> gpt_valid_header h'" using gpt_find_header_none [OF s _ z] by auto
  have "fld MBRPartition_t ''type'' (elem MBRPartition_t 0 (fld MBR_t ''partitions'' 0)) = 451"
    by (simp add: layout elem_def)
  then have "gpt_load_header vol = Done (- 1, None, vol)"
    using t h' entry_0_type [OF r] unfolding gpt_load_header_def layout mbr_header_read [OF r]
    by (simp add: Let_def elem_def)
  moreover have "\<not> gpt_valid_header (replicate (sizeof GPTHeader_t) 0)"
    using z by (simp add: gpt_valid_header_def layout)
  ultimately show ?thesis by (simp add: gpt_test_def)
qed

definition not_apm :: "geometry \<Rightarrow> bool" where
  "not_apm g \<longleftrightarrow> readable g 0 4096 \<and>
     list_all (\<lambda>n. vol_bytes g n 2 \<noteq> ascii ''PM'') [512, 1024, 2048]"

lemma apm_test_none:
  assumes "not_apm (geom vol)"
  shows "apm_test vol = Done (0, vol)"
proof -
  have r: "readable (geom vol) 0 4096" using assms by (simp add: not_apm_def)
  have "vol_read (geom vol) (replicate 4096 0) 4096 0 = Done (4096, vol_bytes (geom vol) 0 4096)"
    using read_aligned_0 [OF r, of "replicate 4096 0"] read_aligned(3) [OF r, of "replicate 4096 0"] by simp
  moreover have "chunk n 2 (vol_bytes (geom vol) 0 4096) = vol_bytes (geom vol) n 2" if "n \<le> 4094" for n
    using that by (simp add: vol_bytes_def chunk_chunk)
  ultimately show ?thesis using assms unfolding apm_test_def not_apm_def by simp
qed

definition not_cs :: "geometry \<Rightarrow> bool" where
  "not_cs g \<longleftrightarrow> readable g 0 512 \<and> (rd (vol_bytes g 0 512) 90 :: u32) \<noteq> 1"

lemma cs_test_none:
  assumes "not_cs (geom vol)"
  shows "cs_test crc32c vol = Done (- 1, vol)"
proof -
  have r: "readable (geom vol) 0 512" using assms by (simp add: not_cs_def)
  have "vol_read (geom vol) (replicate 512 0) 512 0 = Done (512, vol_bytes (geom vol) 0 512)"
    using read_aligned_0 [OF r, of "replicate 512 0"] read_aligned(3) [OF r, of "replicate 512 0"] by simp
  then show ?thesis
    using assms by (simp add: cs_test_def cs_get_volume_header_def cs_verify_block_def layout not_cs_def)
qed

text \<open>Then the master boot record is all that is left.\<close>

lemma try_maps_mbr:
  assumes "not_gpt vol" "not_apm (geom vol)" "not_cs (geom vol)"
    and "vol_bytes (geom vol) 518 2 = [0x55, 0xaa]" "sector_size (geom vol) \<noteq> 0" "length (partitions vol) = 128"
  shows "try_maps (partitionTypes uuid_is crc32c) vol =
    Done (fold mbr_apply [0..<4] (set_types kVolTypePartitionMap kPMTypeMBR vol))"
proof -
  have r: "readable (geom vol) 0 520" using assms(1) by (simp add: not_gpt_def)
  have "chunk 518 2 (vol_bytes (geom vol) 0 520) = vol_bytes (geom vol) 518 2"
    by (simp add: vol_bytes_def chunk_chunk)
  then have "mbr_test vol = Done (1, vol)"
    using assms(4) unfolding mbr_test_def layout mbr_header_read [OF r] by simp
  with gpt_test_none [OF assms(1)] apm_test_none [OF assms(2)] cs_test_none [OF assms(3), of crc32c]
    mbr_load_result [OF r assms(5,6)]
  show ?thesis by (simp add: partitionTypes_def del: upt_rec_numeral)
qed

section \<open>A map that contains itself\<close>

text \<open>
  A disk whose master boot record has an extended partition as its first entry, from sector 0 on and as
  long as the disk, and the volume that reads it.
\<close>

definition self_containing :: "stream \<Rightarrow> u64 \<Rightarrow> bool" where
  "self_containing f len \<longleftrightarrow>
     8192 \<le> length f \<and> length f < 2 ^ 62 \<and> 8192 \<le> unat len \<and> unat len < 2 ^ 62 \<and>
     f ! 451 = 5 \<and> (rd f 456 :: u32) = 0 \<and> ucast (rd f 460 * 512 :: u32) = len \<and>
     chunk 518 2 f = [0x55, 0xaa] \<and> (rd f 90 :: u32) \<noteq> 1 \<and>
     list_all (\<lambda>n. chunk n 8 f \<noteq> ascii ''EFI PART'') [512, 1024, 2048, 4096] \<and>
     list_all (\<lambda>n. chunk n 2 f \<noteq> ascii ''PM'') [512, 1024, 2048]"

definition reads_disk :: "stream \<Rightarrow> u64 \<Rightarrow> volume \<Rightarrow> bool" where
  "reads_disk f len vol \<longleftrightarrow>
     source (geom vol) = f \<and> sector_size (geom vol) = 512 \<and> phy_sector_size (geom vol) = 0 \<and>
     vol_offset (geom vol) = 0 \<and> vol_length (geom vol) = len \<and> length (partitions vol) = 128"

lemma disk_readable:
  assumes "self_containing f len" "reads_disk f len vol" "off mod 512 = 0" "0 < n" "off + n \<le> 7680"
  shows "readable (geom vol) off n"
proof -
  have b: "unat (block_size_of (geom vol)) = 512" using assms(2) by (simp add: block_size_of_def reads_disk_def)
  have "blocks_read 512 n off * 512 \<le> n + 512" by (rule blocks_read_bound)
  then have "off + blocks_read 512 n off * 512 \<le> length f"
    using assms(1,5) by (simp add: self_containing_def)
  then show ?thesis
    using assms by (simp add: readable_def b reads_disk_def self_containing_def geometry_ok_def)
qed

lemma disk_bytes: "reads_disk f len vol \<Longrightarrow> vol_bytes (geom vol) p n = chunk p n f"
  by (simp add: vol_bytes_def reads_disk_def)

lemma disk_entry:
  assumes "self_containing f len" "reads_disk f len vol"
  shows "mbr_entry vol 0 ! 5 = 5" "reads_disk f len (mbr_partition vol (mbr_entry vol 0))"
    "vol_type (mbr_partition vol (mbr_entry vol 0)) = kVolTypePartitionMap"
proof -
  have e: "mbr_entry vol 0 = chunk 446 18 f" by (simp add: mbr_entry_def disk_bytes [OF assms(2)])
  show t: "mbr_entry vol 0 ! 5 = 5" using assms(1) by (simp add: e nth_chunk self_containing_def)
  have "(rd (mbr_entry vol 0) 10 :: u32) = 0" "ucast (rd (mbr_entry vol 0) 14 * 512 :: u32) = len"
    using assms(1) by (simp_all add: e rd_chunk self_containing_def)
  then show "reads_disk f len (mbr_partition vol (mbr_entry vol 0))"
    using assms(2) by (simp add: mbr_partition_def reads_disk_def Let_def)
  have "mbr_partition_type_str 5 kVolTypeSystem = kVolTypePartitionMap" by code_simp
  then show "vol_type (mbr_partition vol (mbr_entry vol 0)) = kVolTypePartitionMap"
    by (simp add: mbr_partition_def Let_def t)
qed

lemma disk_maps:
  assumes "self_containing f len" "reads_disk f len vol"
  shows "\<exists>vol' w. try_maps (partitionTypes uuid_is crc32c) vol = Done vol' \<and> 0 < partition_count vol' \<and>
    0 < length (partitions vol') \<and> partitions vol' ! 0 = Some w \<and> vol_type w = kVolTypePartitionMap \<and> reads_disk f len w"
proof -
  let ?v = "set_types kVolTypePartitionMap kPMTypeMBR vol"
  note r = disk_readable [OF assms] and b = disk_bytes [OF assms(2)] and e = disk_entry [OF assms]
  have "not_gpt vol" "not_apm (geom vol)" "not_cs (geom vol)"
    using assms(1) e(1) by (auto simp: not_gpt_def not_apm_def not_cs_def no_signature_def b rd_chunk self_containing_def
        intro!: r)
  moreover have "vol_bytes (geom vol) 518 2 = [0x55, 0xaa]" "sector_size (geom vol) \<noteq> 0" "length (partitions vol) = 128"
    using assms by (simp_all add: b self_containing_def reads_disk_def)
  ultimately have m: "try_maps (partitionTypes uuid_is crc32c) vol = Done (fold mbr_apply [0..<4] ?v)"
    by (rule try_maps_mbr)
  have same: "mbr_entry ?v 0 = mbr_entry vol 0" "mbr_partition ?v x = mbr_partition vol x" for x
    by (rule mbr_entry_geom mbr_partition_geom, simp_all)+
  have len: "0 < length (partitions ?v)" using assms(2) by (simp add: reads_disk_def)
  have "partitions (fold mbr_apply [0..<4] ?v) ! 0 = Some (mbr_partition vol (mbr_entry vol 0))"
    using fold_mbr_apply_nth [OF distinct_upt len, of 0 4] e(1) by (simp add: same)
  moreover have "0 < partition_count (fold mbr_apply [0..<4] ?v)"
    using e(1) unfolding fold_mbr_apply_count by (auto simp: filter_empty_conv same intro!: bexI [of _ 0])
  ultimately show ?thesis
    using m e(2,3) len fold_mbr_apply_fixed [of "[0..<4]" ?v] by auto
qed

lemma self_containing_endless:
  assumes "self_containing f len" "reads_disk f len vol"
  shows "volumes_load uuid_is crc32c fuel vol = None"
  using assms(2)
proof (induction fuel arbitrary: vol)
  case (Suc fuel)
  obtain vol' w where "try_maps (partitionTypes uuid_is crc32c) vol = Done vol'" "0 < partition_count vol'"
    "0 < length (partitions vol')" "partitions vol' ! 0 = Some w" "vol_type w = kVolTypePartitionMap" "reads_disk f len w"
    using disk_maps [OF assms(1) Suc.prems, of uuid_is crc32c] by (elim exE conjE) (rule that)
  with Suc.IH [of w] show ?case by (simp add: upt_conv_Cons)
qed simp

section \<open>Maps that end\<close>

text \<open>The volumes that \<open>volumes_load\<close> descends into.\<close>

definition nested_maps :: "(string \<Rightarrow> buffer \<Rightarrow> bool) \<Rightarrow> (u32 \<Rightarrow> buffer \<Rightarrow> u32) \<Rightarrow> volume \<Rightarrow> volume list" where
  "nested_maps uuid_is crc32c vol =
     (case try_maps (partitionTypes uuid_is crc32c) vol of
        Done vol' \<Rightarrow> concat (map (\<lambda>p. case p of None \<Rightarrow> [] | Some w \<Rightarrow> if vol_type w = kVolTypePartitionMap then [w] else [])
          (take (partition_count vol') (partitions vol')))
      | _ \<Rightarrow> [])"

lemma in_nested_maps:
  assumes "try_maps (partitionTypes uuid_is crc32c) vol = Done vol'" "i < partition_count vol'"
    "i < length (partitions vol')" "partitions vol' ! i = Some w" "vol_type w = kVolTypePartitionMap"
  shows "w \<in> set (nested_maps uuid_is crc32c vol)"
proof -
  have "Some w \<in> set (take (partition_count vol') (partitions vol'))"
    using assms(2-4) by (auto simp: in_set_conv_nth intro!: exI [of _ i])
  with assms(1,5) show ?thesis by (force simp: nested_maps_def)
qed

lemma load_nested_agree:
  assumes "distinct is"
    and "\<And>i w. i \<in> set is \<Longrightarrow> i < length (partitions vol) \<Longrightarrow> partitions vol ! i = Some w \<Longrightarrow>
      vol_type w = kVolTypePartitionMap \<Longrightarrow> \<exists>r. f w = Some r \<and> g w = Some r"
  shows "\<exists>r. load_nested f is vol = Some r \<and> load_nested g is vol = Some r"
  using assms
proof (induction "is" arbitrary: vol)
  case (Cons i "is")
  have tail: "\<exists>r. load_nested f is v = Some r \<and> load_nested g is v = Some r"
    if "length (partitions v) = length (partitions vol)" "\<And>j. j \<noteq> i \<Longrightarrow> partitions v ! j = partitions vol ! j" for v
  proof (rule Cons.IH)
    show "distinct is" using Cons.prems(1) by simp
    fix j w assume j: "j \<in> set is" "j < length (partitions v)" "partitions v ! j = Some w" "vol_type w = kVolTypePartitionMap"
    moreover from j(1) Cons.prems(1) have "j \<noteq> i" by auto
    ultimately have "j \<in> set (i # is)" "j < length (partitions vol)" "partitions vol ! j = Some w"
      "vol_type w = kVolTypePartitionMap" using that by simp_all
    then show "\<exists>r. f w = Some r \<and> g w = Some r" by (rule Cons.prems(2))
  qed
  have upd: "\<exists>r. load_nested f is (update_partition i h vol) = Some r \<and>
    load_nested g is (update_partition i h vol) = Some r" for h
    by (rule tail) (simp_all add: update_partition_def)
  show ?case
  proof (cases "i < length (partitions vol) \<and> (\<exists>w. partitions vol ! i = Some w \<and> vol_type w = kVolTypePartitionMap)")
    case True
    then obtain w where w: "i < length (partitions vol)" "partitions vol ! i = Some w" "vol_type w = kVolTypePartitionMap" by blast
    with Cons.prems(2) [of i w] obtain r where "f w = Some r" "g w = Some r" by auto
    with w upd show ?thesis by (cases r) auto
  next
    case False
    with tail [of vol] show ?thesis by (auto split: option.splits)
  qed
qed simp

lemma load_descending:
  assumes "vol \<in> S"
    and "\<forall>v \<in> S. \<forall>w \<in> set (nested_maps uuid_is crc32c v). w \<in> S \<and> m w < (m v :: nat)"
    and "m vol < a" "m vol < b"
  shows "\<exists>r. volumes_load uuid_is crc32c a vol = Some r \<and> volumes_load uuid_is crc32c b vol = Some r"
  using assms(1,3,4)
proof (induction a arbitrary: b vol)
  case (Suc a)
  then obtain b' where b: "b = Suc b'" by (cases b) auto
  show ?case
  proof (cases "try_maps (partitionTypes uuid_is crc32c) vol")
    case (Done vol')
    have "\<exists>r. load_nested (volumes_load uuid_is crc32c a) [0..<partition_count vol'] vol' = Some r \<and>
        load_nested (volumes_load uuid_is crc32c b') [0..<partition_count vol'] vol' = Some r"
    proof (rule load_nested_agree)
      fix i w assume "i \<in> set [0..<partition_count vol']" "i < length (partitions vol')" "partitions vol' ! i = Some w"
        "vol_type w = kVolTypePartitionMap"
      with Done have "w \<in> set (nested_maps uuid_is crc32c vol)" by (auto intro: in_nested_maps)
      with assms(2) Suc.prems(1) have w: "w \<in> S" "m w < m vol" by auto
      then show "\<exists>r. volumes_load uuid_is crc32c a w = Some r \<and> volumes_load uuid_is crc32c b' w = Some r"
        using Suc.prems(2,3) by (intro Suc.IH) (simp_all add: b)
    qed simp
    with Done show ?thesis by (simp add: b)
  qed (simp_all add: b)
qed simp

section \<open>Partitions put one after the other\<close>

definition put_all :: "(nat \<Rightarrow> volume) \<Rightarrow> nat list \<Rightarrow> volume \<Rightarrow> volume" where
  "put_all P is vol = fold (\<lambda>i. put_partition i (P i)) is vol"

lemma put_all_simps [simp]:
  "put_all P [] vol = vol" "put_all P (i # is) vol = put_all P is (put_partition i (P i) vol)"
  by (simp_all add: put_all_def)

lemma put_all_fixed [simp]:
  "geom (put_all P is vol) = geom vol \<and> vol_type (put_all P is vol) = vol_type vol \<and>
   depth (put_all P is vol) = depth vol \<and> length (partitions (put_all P is vol)) = length (partitions vol) \<and>
   partition_count (put_all P is vol) = partition_count vol + length is"
  by (induction "is" arbitrary: vol) simp_all

lemma put_all_nth:
  "distinct is \<Longrightarrow> j < length (partitions vol) \<Longrightarrow>
     partitions (put_all P is vol) ! j = (if j \<in> set is then Some (P j) else partitions vol ! j)"
  by (induction "is" arbitrary: vol) (auto simp: nth_list_update)

section \<open>GUID partition tables\<close>

lemma gpt_entry_layout [layout]:
  "sizeof GPTPartitionEntry_t = 128" "fld GPTPartitionEntry_t ''type_uuid'' p = p"
  "fld GPTPartitionEntry_t ''first_lba'' p = p + 32" "fld GPTPartitionEntry_t ''last_lba'' p = p + 40"
proof -
  have "fld GPTPartitionEntry_t ''type_uuid'' 0 = 0" "fld GPTPartitionEntry_t ''first_lba'' 0 = 32"
    "fld GPTPartitionEntry_t ''last_lba'' 0 = 40" by code_simp+
  then show "fld GPTPartitionEntry_t ''type_uuid'' p = p" "fld GPTPartitionEntry_t ''first_lba'' p = p + 32"
    "fld GPTPartitionEntry_t ''last_lba'' p = p + 40" by (simp_all add: fld_def)
qed code_simp

definition gpt_partition :: "(string \<Rightarrow> buffer \<Rightarrow> bool) \<Rightarrow> volume \<Rightarrow> buffer \<Rightarrow> nat \<Rightarrow> volume" where
  "gpt_partition uuid_is vol entries i =
     (let secsz = ucast (sector_size (geom vol)) :: u64;
          len = (rd entries (128 * i + 40) - rd entries (128 * i + 32)) * secsz in
      Volume ((geom vol)\<lparr>vol_offset := rd entries (128 * i + 32) * secsz, vol_length := len,
          sector_count := len div secsz\<rparr>)
        (gpt_partition_type_str uuid_is (gpt_swap_uuid (chunk (128 * i) 16 entries)) 0) kTypeUnknown
        (depth vol + 1) 0 (replicate 128 None))"

lemma gpt_partition_put: "gpt_partition uuid_is (put_partition i w vol) entries = gpt_partition uuid_is vol entries"
  by (simp add: gpt_partition_def fun_eq_iff)

lemma gpt_make_step:
  assumes "sector_size (geom vol) \<noteq> 0" "length (partitions vol) = 128" "length entries = 16384" "i < 128"
    and "\<not> unused_entry entries (128 * i)"
  shows "gpt_make_partitions uuid_is (Suc c) i entries vol =
    gpt_make_partitions uuid_is c (i + 1) entries (put_partition i (gpt_partition uuid_is vol entries i) vol)"
  using assms
  by (simp add: layout elem_def fits_def Let_def made_partition update_partition_def set_types_def
      put_partition_def gpt_partition_def left_diff_distrib mult.commute [of _ 128] add.commute)

lemma gpt_make_all:
  assumes "length entries = 16384" "n \<le> 128" "i \<le> n" "n \<le> i + c"
    and "\<forall>j. i \<le> j \<and> j < n \<longrightarrow> \<not> unused_entry entries (128 * j)"
    and "n < i + c \<longrightarrow> n < 128 \<and> unused_entry entries (128 * n)"
    and "sector_size (geom vol) \<noteq> 0" "length (partitions vol) = 128"
  shows "gpt_make_partitions uuid_is c i entries vol = Done (put_all (gpt_partition uuid_is vol entries) [i..<n] vol)"
  using assms
proof (induction c arbitrary: i vol)
  case (Suc c)
  show ?case
  proof (cases "i = n")
    case True
    with Suc.prems have "n < 128" "unused_entry entries (128 * n)" by simp_all
    then show ?thesis
      using True Suc.prems(1) unfolding gpt_make_partitions.simps layout elem_def fits_def Let_def
      by (simp add: mult.commute [of n 128])
  next
    case False
    then have i: "i < n" using Suc.prems(3) by simp
    let ?v = "put_partition i (gpt_partition uuid_is vol entries i) vol"
    have "gpt_make_partitions uuid_is (Suc c) i entries vol = gpt_make_partitions uuid_is c (i + 1) entries ?v"
      using Suc.prems(1,2,5,7,8) i by (intro gpt_make_step) simp_all
    also have "\<dots> = Done (put_all (gpt_partition uuid_is ?v entries) [i + 1..<n] ?v)"
      using Suc.prems i by (intro Suc.IH) simp_all
    finally show ?thesis 
      using i by (simp add: gpt_partition_put upt_conv_Cons [of i n] del: gpt_make_partitions.simps)
  qed
qed simp

section \<open>Apple partition maps\<close>

abbreviation (input) apm_fields :: "(nat \<times> nat) list" where
  "apm_fields \<equiv> scalars APMHeader_t 0"

lemma apm_layout [layout]:
  "sizeof APMHeader_t = 136" "fld APMHeader_t ''partition_count'' 0 = 4" "fld APMHeader_t ''partition_start'' 0 = 8"
  "fld APMHeader_t ''partition_length'' 0 = 12" "fld APMHeader_t ''type'' 0 = 48"
  by code_simp+

lemma apm_fields_eq:
  "scalars APMHeader_t 0 = [(0, 2), (2, 2), (4, 4), (8, 4), (12, 4), (80, 4), (84, 4), (88, 4), (92, 4), (96, 4),
     (100, 4), (104, 4), (108, 4), (112, 4), (116, 4)]"
  by code_simp

lemma apm_offsets:
  "fld APMHeader_t ''signature'' 0 = 0"
  "fld APMHeader_t ''reserved1'' 0 = 2"
  "fld APMHeader_t ''partition_count'' 0 = 4"
  "fld APMHeader_t ''partition_start'' 0 = 8"
  "fld APMHeader_t ''partition_length'' 0 = 12"
  "fld APMHeader_t ''data_start'' 0 = 80"
  "fld APMHeader_t ''data_length'' 0 = 84"
  "fld APMHeader_t ''status'' 0 = 88"
  "fld APMHeader_t ''boot_code_start'' 0 = 92"
  "fld APMHeader_t ''boot_code_length'' 0 = 96"
  "fld APMHeader_t ''bootloader_address'' 0 = 100"
  "fld APMHeader_t ''reserved2'' 0 = 104"
  "fld APMHeader_t ''boot_code_entry'' 0 = 108"
  "fld APMHeader_t ''reserved3'' 0 = 112"
  "fld APMHeader_t ''boot_code_checksum'' 0 = 116"
  by code_simp+

lemma swap_APMHeader_fields: "swap_APMHeader 0 = swaps apm_fields"
  unfolding swap_APMHeader_def Let_def Swap_as_swaps steps_merge append.simps apm_offsets apm_fields_eq ..

text \<open>The sector of an entry, as it is on disk.\<close>

definition apm_entry :: "volume \<Rightarrow> nat \<Rightarrow> buffer" where
  "apm_entry vol n = vol_bytes (geom vol) (unat (sector_size (geom vol)) * n) 136"

definition apm_entry_ok :: "volume \<Rightarrow> nat \<Rightarrow> bool" where
  "apm_entry_ok vol n \<longleftrightarrow> readable (geom vol) (unat (sector_size (geom vol)) * n) 136"

lemma apm_fields_fit: "length m = 136 \<Longrightarrow> list_all (\<lambda>(p, n). fits p n m) apm_fields"
  and apm_fields_disjoint: "disjoint_fields apm_fields"
  by (simp_all add: apm_fields_eq fits_def)

lemma apm_get_header_result:
  assumes "apm_entry_ok vol n" "length h = 136"
  shows "apm_get_header vol h n = Done (0, swap_fields apm_fields (apm_entry vol n))"
    and "length (apm_entry vol n) = 136"
proof -
  let ?off = "unat (sector_size (geom vol)) * n"
  have r: "readable (geom vol) ?off 136" using assms(1) by (simp add: apm_entry_ok_def)
  have buf: "136 \<le> length h" using assms(2) by simp
  show len: "length (apm_entry vol n) = 136"
    using read_aligned(3) [OF r buf] by (simp add: apm_entry_def)
  have off: "(of_nat ?off :: u64) = ucast (sector_size (geom vol)) * of_nat n"
    by (simp add: unsigned_ucast_eq)
  have "vol_read (geom vol) h 136 (ucast (sector_size (geom vol)) * of_nat n) = Done (136, apm_entry vol n)"
    using read_aligned(1) [OF r buf] len assms(2) unfolding off by (simp add: apm_entry_def)
  moreover have "swap_APMHeader 0 (apm_entry vol n) = Done (swap_fields apm_fields (apm_entry vol n))"
    using apm_fields_fit [OF len] by (simp add: swap_APMHeader_fields swaps_def)
  ultimately show "apm_get_header vol h n = Done (0, swap_fields apm_fields (apm_entry vol n))"
    by (simp add: apm_get_header_def layout)
qed

lemma apm_header_fields:
  assumes "length e = 136"
  shows "(rd (swap_fields apm_fields e) 4 :: u32) = be_at e 4" "(rd (swap_fields apm_fields e) 8 :: u32) = be_at e 8"
    "(rd (swap_fields apm_fields e) 12 :: u32) = be_at e 12" "chunk 48 32 (swap_fields apm_fields e) = chunk 48 32 e"
proof -
  note rd = rd_swap_fields [OF apm_fields_fit [OF assms] apm_fields_disjoint]
  show "(rd (swap_fields apm_fields e) 4 :: u32) = be_at e 4" "(rd (swap_fields apm_fields e) 8 :: u32) = be_at e 8"
    "(rd (swap_fields apm_fields e) 12 :: u32) = be_at e 12" by (rule rd, simp add: apm_fields_eq)+
  show "chunk 48 32 (swap_fields apm_fields e) = chunk 48 32 e"
    by (rule chunk_swap_fields_disjoint [OF apm_fields_fit [OF assms]]) (simp add: apm_fields_eq)
qed

definition apm_partition :: "volume \<Rightarrow> buffer \<Rightarrow> volume" where
  "apm_partition vol e =
     (let secsz = ucast (sector_size (geom vol)) :: u64 in
      Volume ((geom vol)\<lparr>vol_offset := ucast (be_at e 8 :: u32) * secsz, vol_length := ucast (be_at e 12 :: u32) * secsz,
          sector_count := ucast (be_at e 12 :: u32)\<rparr>)
        (apm_partition_type (chunk 48 32 e) kTypeUnknown) kTypeUnknown (depth vol + 1) 0 (replicate 128 None))"

lemma u32_round_trip: "(ucast (ucast (x :: u32) :: u64) :: u32) = x"
  by (rule bit_word_eqI) (simp add: bit_simps)

lemma apm_make_partition_result:
  assumes "sector_size (geom vol) \<noteq> 0" "i < length (partitions vol)" "length e = 136"
  shows "apm_make_partition (swap_fields apm_fields e) (i + 1) vol = Done (put_partition i (apm_partition vol e) vol)"
  using assms
  by (simp add: apm_make_partition_def layout Let_def made_partition update_partition_def put_partition_def
      apm_partition_def apm_header_fields u32_round_trip)

lemma apm_load_all:
  assumes "\<forall>n. i < n \<and> n \<le> k \<longrightarrow> apm_entry_ok vol n"
    and "\<forall>n. i < n \<and> n < k \<longrightarrow> n + 1 < unat (be_at (apm_entry vol n) 4 :: u32)"
    and "unat (be_at (apm_entry vol k) 4 :: u32) \<le> k + 1"
    and "i < k" "k \<le> length (partitions vol)" "sector_size (geom vol) \<noteq> 0" "length h = 136"
  shows "apm_load_from (i + 1) h vol =
    Done (0, put_all (\<lambda>i. apm_partition vol (apm_entry vol (i + 1))) [i..<k] vol)"
  using assms
proof (induction "k - i" arbitrary: i h vol)
  case (Suc d)
  let ?e = "apm_entry vol (i + 1)"
  let ?h = "swap_fields apm_fields ?e" and ?v = "put_partition i (apm_partition vol ?e) vol"
  have ok: "apm_entry_ok vol (i + 1)" using Suc.prems(1,4) by simp
  note get = apm_get_header_result [OF ok Suc.prems(7)]
  have make: "apm_make_partition ?h (i + 1) vol = Done ?v"
    using Suc.prems(4-6) get(2) by (intro apm_make_partition_result) simp_all
  have same: "apm_entry (put_partition j w vol) n = apm_entry vol n"
    "apm_entry_ok (put_partition j w vol) n = apm_entry_ok vol n"
    "apm_partition (put_partition j w vol) e = apm_partition vol e" for j w n e
    by (simp_all add: apm_entry_def apm_entry_ok_def apm_partition_def)
  have count: "(rd ?h 4 :: u32) = be_at ?e 4" by (rule apm_header_fields [OF get(2)])
  show ?case
  proof (cases "i + 1 = k")
    case True
    then have "unat (be_at ?e 4 :: u32) \<le> i + 2" using Suc.prems(3) by simp
    then have "apm_load_from (i + 1) h vol = Done (0, ?v)"
      unfolding apm_load_from.simps [of "i + 1"] get(1) obind.simps prod.case make apm_layout count by simp
    moreover have "[i..<k] = [i]" using True by (simp add: upt_conv_Cons flip: True)
    ultimately show ?thesis by (simp only: put_all_simps)
  next
    case False
    then have i: "i + 1 < k" using Suc.prems(4) by simp
    then have more: "i + 2 < unat (be_at ?e 4 :: u32)" using Suc.prems(2) by simp
    have "length ?h = 136" using apm_fields_fit [OF get(2)] get(2) by simp
    then have "apm_load_from (i + 1 + 1) ?h ?v =
        Done (0, put_all (\<lambda>i. apm_partition ?v (apm_entry ?v (i + 1))) [i + 1..<k] ?v)"
      using Suc.hyps(2) Suc.prems i by (intro Suc.hyps(1)) (simp_all add: same)
    moreover have "apm_load_from (i + 1) h vol = apm_load_from (i + 1 + 1) ?h ?v"
      unfolding apm_load_from.simps [of "i + 1"] get(1) obind.simps prod.case make apm_layout count using more by simp
    moreover have "[i..<k] = i # [i + 1..<k]" using i by (simp add: upt_conv_Cons)
    ultimately show ?thesis by (simp only: put_all_simps same)
  qed
qed simp

section \<open>Examples\<close>

text \<open>
  A disk of 16384 bytes with a master boot record whose first entry has a given type and first sector and
  spans 16 sectors, and the volume on it.
\<close>

definition sample_disk :: "u8 \<Rightarrow> u8 \<Rightarrow> stream" where
  "sample_disk t lba = replicate 451 0 @ [t, 0, 0, 0, 0, lba, 0, 0, 0, 16, 0, 0, 0] @ replicate 54 0 @
     [0x55, 0xaa] @ replicate 15864 0"

definition sample_volume :: "stream \<Rightarrow> u64 \<Rightarrow> volume" where
  "sample_volume f len = Volume \<lparr>source = f, sector_count = 0, sector_size = 512, phy_sector_size = 0,
     vol_offset = 0, vol_length = len\<rparr> 0 0 0 0 (replicate 128 None)"

lemma zeros_differ: "x \<noteq> 0 \<Longrightarrow> replicate n (0 :: u8) \<noteq> x # xs"
  by (cases n) auto

lemma length_sample [simp]: "length (sample_disk t lba) = 16384"
  by (simp add: sample_disk_def)

lemma sample_bytes:
  "sample_disk t lba ! 451 = t"
  "chunk 456 4 (sample_disk t lba) = [lba, 0, 0, 0]" "chunk 460 4 (sample_disk t lba) = [16, 0, 0, 0]"
  "chunk 518 2 (sample_disk t lba) = [0x55, 0xaa]"
  by (simp_all add: sample_disk_def chunk_def nth_append take_Cons')

lemma sample_zeros:
  assumes "p + n \<le> 451 \<or> 464 \<le> p \<and> p + n \<le> 518 \<or> 520 \<le> p \<and> p + n \<le> 16384"
  shows "chunk p n (sample_disk t lba) = replicate n 0"
proof (rule nth_equalityI)
  show "length (chunk p n (sample_disk t lba)) = length (replicate n (0 :: u8))" using assms by auto
  fix i assume "i < length (chunk p n (sample_disk t lba))"
  then have "i < n" "p + i < 16384" using assms by auto
  moreover from this assms have "sample_disk t lba ! (p + i) = 0"
    by (auto simp: sample_disk_def nth_append nth_Cons')
  ultimately show "chunk p n (sample_disk t lba) ! i = replicate n 0 ! i" by (simp add: nth_chunk)
qed

lemma sample_512: "chunk 512 8 (sample_disk t lba) = 0 # replicate 5 0 @ [0x55, 0xaa]"
proof -
  have "chunk 512 (6 + 2) (sample_disk t lba) = replicate 6 0 @ [0x55, 0xaa]"
    by (simp only: chunk_append sample_bytes) (simp add: sample_zeros sample_bytes)
  moreover have "replicate 6 (0 :: u8) = 0 # replicate 5 0" by (simp flip: replicate_Suc)
  ultimately show ?thesis by simp
qed

lemma sample_disk_entry:
  "i < 4 \<Longrightarrow> i \<noteq> 0 \<Longrightarrow> sample_disk t lba ! (451 + 18 * i) = 0"
  by (simp add: sample_disk_def nth_append nth_Cons')

lemma sample_self_containing: "self_containing (sample_disk 5 0) 8192"
proof -
  have "(rd (sample_disk 5 0) 456 :: u32) = 0" "(rd (sample_disk 5 0) 460 :: u32) = 16"
    "(rd (sample_disk 5 0) 90 :: u32) = 0"
    unfolding rd_def width_simps sample_bytes(2,3) by (simp_all add: sample_zeros) code_simp+
  then show ?thesis
    by (simp add: self_containing_def sample_bytes sample_512 sample_zeros ascii_def zeros_differ)
qed

lemma sample_volume_simps [simp]:
  "geom (sample_volume f len) = \<lparr>source = f, sector_count = 0, sector_size = 512, phy_sector_size = 0,
     vol_offset = 0, vol_length = len\<rparr>"
  "partition_count (sample_volume f len) = 0" "depth (sample_volume f len) = 0"
  "partitions (sample_volume f len) = replicate 128 None"
  by (simp_all add: sample_volume_def)

lemma sample_reads: "reads_disk f len (sample_volume f len)"
  by (simp add: reads_disk_def)

lemma sample_readable:
  assumes "source g = sample_disk t lba" "sector_size g = 512" "phy_sector_size g = 0"
    and "off mod 512 = 0" "0 < n" "unat (vol_offset g) + off + n + 512 \<le> 16384"
    and "8192 \<le> unat (vol_length g)" "unat (vol_length g) \<le> 16384" "off + n \<le> 8192"
  shows "readable g off n"
proof -
  have b: "unat (block_size_of g) = 512" using assms(2,3) by (simp add: block_size_of_def)
  have "blocks_read 512 n off * 512 \<le> n + 512" by (rule blocks_read_bound)
  then have "unat (vol_offset g) + off + blocks_read 512 n off * 512 \<le> length (source g)"
    using assms(1,6) by simp
  then show ?thesis using assms by (simp add: readable_def b geometry_ok_def)
qed

text \<open>A volume that holds no map is left as it is.\<close>

lemma try_maps_none:
  assumes "not_gpt vol" "not_apm (geom vol)" "not_cs (geom vol)" "vol_bytes (geom vol) 518 2 \<noteq> [0x55, 0xaa]"
  shows "try_maps (partitionTypes uuid_is crc32c) vol = Done vol"
proof -
  have r: "readable (geom vol) 0 520" using assms(1) by (simp add: not_gpt_def)
  have "chunk 518 2 (vol_bytes (geom vol) 0 520) = vol_bytes (geom vol) 518 2"
    by (simp add: vol_bytes_def chunk_chunk)
  then have "mbr_test vol = Done (0, vol)"
    using assms(4) unfolding mbr_test_def layout mbr_header_read [OF r] by simp
  with gpt_test_none [OF assms(1)] apm_test_none [OF assms(2)] cs_test_none [OF assms(3), of crc32c]
  show ?thesis by (simp add: partitionTypes_def)
qed

text \<open>An extended partition behind the record, in which there is no further map.\<close>

abbreviation (input) sample_outer :: volume where "sample_outer \<equiv> sample_volume (sample_disk 5 16) 16384"

definition sample_inner :: volume where
  "sample_inner = mbr_partition sample_outer (mbr_entry sample_outer 0)"

lemma sample_outer_entry: "mbr_entry sample_outer i = chunk (446 + 18 * i) 18 (sample_disk 5 16)"
  by (simp add: mbr_entry_def vol_bytes_def)

lemma sample_inner_geom:
  "source (geom sample_inner) = sample_disk 5 16" "sector_size (geom sample_inner) = 512"
  "phy_sector_size (geom sample_inner) = 0" "unat (vol_offset (geom sample_inner)) = 8192"
  "unat (vol_length (geom sample_inner)) = 8192" "partition_count sample_inner = 0"
proof -
  have "(rd (mbr_entry sample_outer 0) 10 :: u32) = 16" "(rd (mbr_entry sample_outer 0) 14 :: u32) = 16"
    unfolding sample_outer_entry by (simp_all add: rd_chunk) (simp_all only: rd_def width_simps sample_bytes, code_simp+)
  then show "source (geom sample_inner) = sample_disk 5 16" "sector_size (geom sample_inner) = 512"
    "phy_sector_size (geom sample_inner) = 0" "unat (vol_offset (geom sample_inner)) = 8192"
    "unat (vol_length (geom sample_inner)) = 8192" "partition_count sample_inner = 0"
    by (simp_all add: sample_inner_def mbr_partition_def Let_def)
qed

lemma sample_inner_bytes: "p + n \<le> 8192 \<Longrightarrow> vol_bytes (geom sample_inner) p n = replicate n 0"
  by (simp add: vol_bytes_def sample_inner_geom sample_zeros)

lemma sample_inner_no_map: "nested_maps uuid_is crc32c sample_inner = []"
proof -
  note r = sample_readable [OF sample_inner_geom(1-3), simplified sample_inner_geom(4,5)]
  have "(le_word (replicate 4 0) :: u32) = 0" by code_simp
  then have z: "(rd (replicate 512 0) 90 :: u32) = 0" by (simp add: rd_def chunk_def)
  have "not_gpt sample_inner" "not_apm (geom sample_inner)" "not_cs (geom sample_inner)"
    by (simp_all add: not_gpt_def not_apm_def not_cs_def no_signature_def mbr_entry_def sample_inner_bytes z r
        ascii_def zeros_differ)
  then have "try_maps (partitionTypes uuid_is crc32c) sample_inner = Done sample_inner"
    by (rule try_maps_none) (simp add: sample_inner_bytes zeros_differ)
  then show ?thesis by (simp add: nested_maps_def sample_inner_geom)
qed

lemma sample_outer_maps: "set (nested_maps uuid_is crc32c sample_outer) \<subseteq> {sample_inner}"
proof
  let ?v = "set_types kVolTypePartitionMap kPMTypeMBR sample_outer"
  fix w assume w: "w \<in> set (nested_maps uuid_is crc32c sample_outer)"
  have r: "readable (geom sample_outer) off n" if "off mod 512 = 0" "0 < n" "off + n \<le> 7680" for off n
    by (rule sample_readable) (use that in simp_all)
  have b: "vol_bytes (geom sample_outer) p n = chunk p n (sample_disk 5 16)" for p n
    by (simp add: vol_bytes_def)
  have "(le_word (replicate 4 0) :: u32) = 0" by code_simp
  then have z: "(rd (sample_disk 5 16) 90 :: u32) = 0" by (simp add: rd_def sample_zeros)
  have t: "mbr_entry sample_outer i ! 5 = sample_disk 5 16 ! (451 + 18 * i)" if "i < 4" for i
    using that by (simp add: sample_outer_entry nth_chunk add.commute)
  have "not_gpt sample_outer" "not_apm (geom sample_outer)" "not_cs (geom sample_outer)"
    unfolding not_gpt_def not_apm_def not_cs_def no_signature_def b
    by (auto simp: t z rd_chunk sample_bytes sample_512 sample_zeros ascii_def zeros_differ intro!: r simp del: sample_volume_simps(1))
  then have "try_maps (partitionTypes uuid_is crc32c) sample_outer = Done (fold mbr_apply [0..<4] ?v)"
    by (rule try_maps_mbr) (simp_all add: b sample_bytes del: sample_volume_simps(1), simp_all)
  with w obtain i where "i < 128" "partitions (fold mbr_apply [0..<4] ?v) ! i = Some w"
    by (auto simp: nested_maps_def in_set_conv_nth fold_mbr_apply_fixed split: option.splits if_splits)
  moreover have "mbr_entry ?v i = mbr_entry sample_outer i" "mbr_partition ?v e = mbr_partition sample_outer e" for i e
    by (rule mbr_entry_geom mbr_partition_geom, simp_all)+
  ultimately have "i < 4" "mbr_entry sample_outer i ! 5 \<noteq> 0" "w = mbr_partition sample_outer (mbr_entry sample_outer i)"
    by (auto simp: fold_mbr_apply_nth split: if_splits)
  moreover from this have "i = 0" using sample_disk_entry [of i 5 16] t by (cases "i = 0") auto
  ultimately show "w \<in> {sample_inner}" by (simp add: sample_inner_def)
qed

section \<open>Correctness\<close>

text \<open>
  A master boot record is recognised by the two bytes at offset 518 of the volume. The signature of
  such a record stands at offset 510, which is not looked at: the structure the code reads is eight
  bytes longer than the one on disk.
\<close>

lemma mbr_test_correct:
  assumes "readable (geom vol) 0 520"
  shows "mbr_test vol = Done (if vol_bytes (geom vol) 518 2 = [0x55, 0xaa] then 1 else 0, vol)"
proof -
  have "chunk 518 2 (vol_bytes (geom vol) 0 520) = vol_bytes (geom vol) 518 2"
    by (simp add: vol_bytes_def chunk_chunk)
  then show ?thesis
    unfolding mbr_test_def layout mbr_header_read [OF assms] obind.simps prod.case by simp
qed

lemma mbr_test_correct_witness:
  "mbr_test (sample_volume (sample_disk 5 0) 8192) = Done (1, sample_volume (sample_disk 5 0) 8192)"
proof -
  have "readable (geom (sample_volume (sample_disk 5 0) 8192)) 0 520"
    by (rule disk_readable [OF sample_self_containing sample_reads]) simp_all
  from mbr_test_correct [OF this] show ?thesis by (simp add: vol_bytes_def sample_bytes)
qed

text \<open>
  Loading a master boot record makes one partition for each of the four entries (18 bytes each, from
  offset 446) whose type is not zero, at the position of the entry, and leaves every other position as it
  was; the count grows by their number. Offset and length are sector numbers times the sector size modulo
  \<open>2 ^ 32\<close>.
\<close>

lemma mbr_load_correct:
  assumes "readable (geom vol) 0 520" "sector_size (geom vol) \<noteq> 0" "length (partitions vol) = 128"
  shows "\<exists>vol'. mbr_load vol = Done (0, vol') \<and> geom vol' = geom vol \<and> vol_type vol' = kVolTypePartitionMap \<and>
    partition_count vol' = partition_count vol + length (filter (\<lambda>i. mbr_entry vol i ! 5 \<noteq> 0) [0..<4]) \<and>
    (\<forall>i < 128. partitions vol' ! i =
      (if i < 4 \<and> mbr_entry vol i ! 5 \<noteq> 0 then Some (mbr_partition vol (mbr_entry vol i)) else partitions vol ! i))"
proof -
  let ?v = "set_types kVolTypePartitionMap kPMTypeMBR vol"
  have "mbr_entry ?v i = mbr_entry vol i" "mbr_partition ?v e = mbr_partition vol e" for i e
    by (rule mbr_entry_geom mbr_partition_geom, simp_all)+
  with mbr_load_result [OF assms] assms(3) show ?thesis
    by (simp add: fold_mbr_apply_fixed fold_mbr_apply_count fold_mbr_apply_nth del: upt_rec_numeral)
qed

lemma mbr_load_correct_witness:
  "\<exists>vol'. mbr_load (sample_volume (sample_disk 5 0) 8192) = Done (0, vol') \<and> partitions vol' ! 1 = None"
proof -
  let ?v = "sample_volume (sample_disk 5 0) 8192"
  have r: "readable (geom ?v) 0 520"
    by (rule disk_readable [OF sample_self_containing sample_reads]) simp_all
  have e: "mbr_entry ?v 1 ! 5 = 0"
    using sample_disk_entry [of 1 5 0] by (simp add: mbr_entry_def vol_bytes_def nth_chunk)
  obtain vol' where vol': "mbr_load ?v = Done (0, vol')" "\<forall>i < 128. partitions vol' ! i =
      (if i < 4 \<and> mbr_entry ?v i ! 5 \<noteq> 0 then Some (mbr_partition ?v (mbr_entry ?v i)) else partitions ?v ! i)"
    using mbr_load_correct [OF r] by auto
  from vol'(2) [rule_format, of 1] e have "partitions vol' ! 1 = None" by simp
  with vol'(1) show ?thesis by blast
qed

text \<open>
  C16. Making the partitions of a GUID partition table: the entries up to the first unused one (or as
  many as the header counts) give one partition each, at their own positions; a partition starts at its
  first sector, and its length is that up to the start of its last sector, which the on-disk format
  counts as part of it.
\<close>

theorem gpt_partitions_correct:
  assumes "length entries = 16384" "n \<le> 128" "n \<le> count"
    and "\<forall>j < n. \<not> unused_entry entries (128 * j)"
    and "n < count \<longrightarrow> n < 128 \<and> unused_entry entries (128 * n)"
    and "sector_size (geom vol) \<noteq> 0" "length (partitions vol) = 128"
  shows "\<exists>vol'. gpt_make_partitions uuid_is count 0 entries vol = Done vol' \<and>
    partition_count vol' = partition_count vol + n \<and>
    (\<forall>i < 128. partitions vol' ! i = (if i < n then Some (gpt_partition uuid_is vol entries i) else partitions vol ! i))"
proof -
  let ?v = "put_all (gpt_partition uuid_is vol entries) [0..<n] vol"
  have "gpt_make_partitions uuid_is count 0 entries vol = Done ?v"
    using assms by (intro gpt_make_all) simp_all
  moreover have "partitions ?v ! i = (if i < n then Some (gpt_partition uuid_is vol entries i) else partitions vol ! i)"
    if "i < 128" for i
    using that assms(7) by (simp add: put_all_nth)
  ultimately show ?thesis by simp
qed

lemma gpt_partitions_correct_witness:
  "\<exists>vol'. gpt_make_partitions (\<lambda>_ _. False) 4 0 (replicate 128 1 @ replicate 16256 0) (sample_volume [] 0) = Done vol' \<and>
     partition_count vol' = 1"
proof -
  let ?entries = "replicate 128 1 @ replicate 16256 (0 :: u8)"
  have "(le_word (replicate 8 1) :: u64) \<noteq> 0" "(le_word (replicate 8 0) :: u64) = 0" by code_simp+
  then have "\<not> unused_entry ?entries (128 * 0)" "unused_entry ?entries (128 * 1)"
    by (simp_all add: unused_entry_def layout rd_def chunk_def)
  with gpt_partitions_correct [of ?entries 1 4 "sample_volume [] 0" "\<lambda>_ _. False"] show ?thesis by auto
qed

text \<open>
  C15. Loading an Apple partition map in which every entry gives the number of entries \<open>c\<close> makes the
  partitions of the first \<open>c - 1\<close> of them, the last one being left out (and that of the first where \<open>c\<close>
  is zero or one); start and length are sector numbers times the sector size.
\<close>

theorem apm_load_correct:
  assumes "k = max 1 (unat c - 1)" "k \<le> 128"
    and "\<forall>n. 0 < n \<and> n \<le> k \<longrightarrow> apm_entry_ok vol n \<and> be_at (apm_entry vol n) 4 = (c :: u32)"
    and "sector_size (geom vol) \<noteq> 0" "length (partitions vol) = 128"
  shows "\<exists>vol'. apm_load vol = Done (0, vol') \<and> geom vol' = geom vol \<and> partition_count vol' = partition_count vol + k \<and>
    (\<forall>i < 128. partitions vol' ! i =
      (if i < k then Some (apm_partition vol (apm_entry vol (i + 1))) else partitions vol ! i))"
proof -
  let ?v = "set_types kVolTypePartitionMap kPMTypeAPM vol"
  let ?w = "put_all (\<lambda>i. apm_partition ?v (apm_entry ?v (i + 1))) [0..<k] ?v"
  have same: "apm_entry ?v n = apm_entry vol n" "apm_entry_ok ?v n = apm_entry_ok vol n"
    "apm_partition ?v e = apm_partition vol e" for n e
    by (simp_all add: apm_entry_def apm_entry_ok_def apm_partition_def)
  have "0 < k" using assms(1) by simp
  moreover from this have "be_at (apm_entry vol k) 4 = c" using assms(3) by simp
  ultimately have "apm_load_from (0 + 1) (replicate 136 0) ?v = Done (0, ?w)"
    using assms by (intro apm_load_all) (auto simp: same)
  then have "apm_load vol = Done (0, ?w)" by (simp add: apm_load_def apm_layout)
  moreover have "partitions ?w ! i =
      (if i < k then Some (apm_partition vol (apm_entry vol (i + 1))) else partitions vol ! i)" if "i < 128" for i
    using that assms(5) by (simp add: put_all_nth same)
  ultimately show ?thesis by simp
qed

lemma apm_load_correct_witness:
  "\<exists>vol'. apm_load (sample_volume (replicate 512 0 @ [80, 77, 0, 0, 0, 0, 0, 2] @ replicate 504 0) 0) = Done (0, vol') \<and>
     partition_count vol' = 1"
proof -
  let ?f = "replicate 512 0 @ [80, 77, 0, 0, 0, 0, 0, 2] @ replicate 504 (0 :: u8)"
  let ?v = "sample_volume ?f 0"
  have "apm_entry_ok ?v 1"
    by (simp add: apm_entry_ok_def readable_def block_size_of_def geometry_ok_def blocks_read_def)
  moreover have "(be_at (apm_entry ?v 1) 4 :: u32) = 2"
  proof -
    have "chunk 4 4 (apm_entry ?v 1) = [0, 0, 0, 2]"
      by (simp add: apm_entry_def vol_bytes_def chunk_chunk) (simp add: chunk_def)
    moreover have "(le_word (rev [0, 0, 0, 2]) :: u32) = 2" by code_simp
    ultimately show ?thesis by (simp add: be_at_def)
  qed
  ultimately have "\<forall>n. 0 < n \<and> n \<le> 1 \<longrightarrow> apm_entry_ok ?v n \<and> be_at (apm_entry ?v n) 4 = (2 :: u32)"
    by (metis One_nat_def Suc_leI le_antisym)
  from apm_load_correct [OF _ _ this] show ?thesis by auto
qed

text \<open>
  C14. Where every volume that the descent can reach has nested maps that are smaller by some measure
  (that lie further back on the disk, say), \<open>volumes_load\<close> ends: the measure of the volume bounds the
  depth of the recursion, and fuel beyond it changes nothing.
\<close>

theorem volumes_load_returns:
  assumes "vol \<in> S"
    and "\<forall>v \<in> S. \<forall>w \<in> set (nested_maps uuid_is crc32c v). w \<in> S \<and> m w < (m v :: nat)"
  shows "\<exists>r. \<forall>fuel > m vol. volumes_load uuid_is crc32c fuel vol = Some r"
proof -
  obtain r where "volumes_load uuid_is crc32c (m vol + 1) vol = Some r"
    using load_descending [OF assms, of "m vol + 1" "m vol + 1"] by auto
  moreover have "volumes_load uuid_is crc32c fuel vol = volumes_load uuid_is crc32c (m vol + 1) vol" if "m vol < fuel" for fuel
    using load_descending [OF assms, of fuel "m vol + 1"] that by auto
  ultimately show ?thesis by auto
qed

lemma volumes_load_returns_witness:
  "\<exists>r. \<forall>fuel > 16384. volumes_load (\<lambda>_ _. False) (\<lambda>_ _. 0) fuel (sample_volume (sample_disk 5 16) 16384) = Some r"
proof -
  let ?m = "\<lambda>v. 16384 - unat (vol_offset (geom v))"
  have "\<forall>v \<in> {sample_outer, sample_inner}. \<forall>w \<in> set (nested_maps (\<lambda>_ _. False) (\<lambda>_ _. 0) v).
      w \<in> {sample_outer, sample_inner} \<and> ?m w < ?m v"
    using sample_outer_maps [of "\<lambda>_ _. False" "\<lambda>_ _. 0"] sample_inner_geom(4) by (auto simp: sample_inner_no_map)
  from volumes_load_returns [OF _ this, of sample_outer] show ?thesis by simp
qed

text \<open>
  A disk of at least 8192 bytes, in sectors of 512, whose first partition entry is of type 5, starts at sector 0
  and has the length of the disk, and that no other kind of map is found on: the same record is found again
  at every level of the descent, so that no fuel is enough. The program makes a file descriptor for each level,
  which the model takes to succeed; when there are none left, \<open>mbr_load\<close> uses the null pointer that it gets.
\<close>

lemma volumes_load_endless:
  assumes "self_containing f len" "reads_disk f len vol"
  shows "\<forall>fuel. volumes_load uuid_is crc32c fuel vol = None"
  using self_containing_endless [OF assms] by simp

lemma volumes_load_endless_witness:
  "\<forall>fuel. volumes_load (\<lambda>_ _. False) (\<lambda>_ _. 0) fuel (sample_volume (sample_disk 5 0) 8192) = None"
  by (rule volumes_load_endless [OF sample_self_containing sample_reads])

end
