(* ===== verification/Partition_Tree.thy ===== *)
theory Partition_Tree
  imports Partition_Correct
begin

text \<open>
  The tree of volumes that the loading of partition maps builds: every operation keeps it well formed.
\<close>

section \<open>Well-formed trees\<close>

text \<open>
  Every volume has a table of 128 entries; a partition reads the same source as the volume around it and
  is one level below it.
\<close>

lemma size_option_partition [termination_simp]:
  "Some w \<in> set (partitions v) \<Longrightarrow> size w < size v"
proof (cases v)
  case (Volume g t s d n ps)
  assume "Some w \<in> set (partitions v)"
  then have "size_option size (Some w) \<le> size_list (size_option size) ps"
    using Volume by (intro size_list_estimation' [where f = "size_option size"]) auto
  then show ?thesis by (simp add: Volume)
qed

function volume_ok :: "volume \<Rightarrow> bool" where
  "volume_ok v \<longleftrightarrow> length (partitions v) = 128 \<and>
     (\<forall>w. Some w \<in> set (partitions v) \<longrightarrow>
        volume_ok w \<and> depth w = depth v + 1 \<and> source (geom w) = source (geom v))"
  by pat_completeness auto

termination
  by (relation "measure size") (simp_all add: size_option_partition)

declare volume_ok.simps [simp del]

lemma volume_okI:
  assumes "length (partitions v) = 128"
    and "\<And>i w. i < 128 \<Longrightarrow> partitions v ! i = Some w \<Longrightarrow> volume_ok w \<and> depth w = depth v + 1 \<and> source (geom w) = source (geom v)"
  shows "volume_ok v"
  using assms by (subst volume_ok.simps) (auto simp: in_set_conv_nth)

lemma volume_okD:
  assumes "volume_ok v"
  shows "length (partitions v) = 128"
    and "i < 128 \<Longrightarrow> partitions v ! i = Some w \<Longrightarrow> volume_ok w \<and> depth w = depth v + 1 \<and> source (geom w) = source (geom v)"
  using assms by (subst (asm) volume_ok.simps, force simp: in_set_conv_nth)+

text \<open>What an operation may do to a volume: it stays on its source and at its level.\<close>

definition keeps :: "volume \<Rightarrow> volume \<Rightarrow> bool" where
  "keeps v v' \<longleftrightarrow> volume_ok v' \<and> depth v' = depth v \<and> source (geom v') = source (geom v)"

lemma keeps_refl: "volume_ok v \<Longrightarrow> keeps v v"
  by (simp add: keeps_def)

lemma keeps_trans: "keeps u v \<Longrightarrow> keeps v w \<Longrightarrow> keeps u w"
  by (simp add: keeps_def)

lemma keeps_update:
  assumes "volume_ok v" "partitions v' = partitions v" "depth v' = depth v" "source (geom v') = source (geom v)"
  shows "keeps v v'"
proof -
  have "volume_ok v'"
  proof (rule volume_okI)
    show "length (partitions v') = 128" using volume_okD(1) [OF assms(1)] assms(2) by simp
    fix i w assume "i < 128" "partitions v' ! i = Some w"
    then show "volume_ok w \<and> depth w = depth v' + 1 \<and> source (geom w) = source (geom v')"
      using volume_okD(2) [OF assms(1), of i w] assms(2-4) by simp
  qed
  with assms(3,4) show ?thesis by (simp add: keeps_def)
qed

lemma keeps_set [simp]:
  assumes "volume_ok v"
  shows "keeps v (set_sector_size sz v)" "keeps v (set_types t st v)"
  by (rule keeps_update [OF assms], simp_all add: set_sector_size_def set_types_def)+

lemma keeps_update_partition:
  assumes v: "volume_ok v" and f: "\<And>w. partitions v ! i = Some w \<Longrightarrow> i < 128 \<Longrightarrow> volume_ok w \<Longrightarrow> keeps w (f w)"
  shows "keeps v (update_partition i f v)"
proof -
  have "volume_ok (update_partition i f v)"
  proof (rule volume_okI)
    show "length (partitions (update_partition i f v)) = 128" using volume_okD(1) [OF v] by simp
    fix j w assume j: "j < 128" "partitions (update_partition i f v) ! j = Some w"
    show "volume_ok w \<and> depth w = depth (update_partition i f v) + 1 \<and>
      source (geom w) = source (geom (update_partition i f v))"
    proof (cases "j = i")
      case True
      with j volume_okD(1) [OF v] obtain u where u: "partitions v ! i = Some u" "w = f u"
        by (auto simp: update_partition_def)
      with volume_okD(2) [OF v, of i u] True j f [of u] show ?thesis by (simp add: keeps_def update_partition_def)
    next
      case False
      with j volume_okD(2) [OF v, of j w] show ?thesis by (simp add: update_partition_def)
    qed
  qed
  then show ?thesis by (simp add: keeps_def update_partition_def)
qed

lemma volume_ok_empty: "partitions v = replicate 128 None \<Longrightarrow> volume_ok v"
  by (rule volume_okI) simp_all

lemma keeps_put:
  assumes v: "volume_ok v" and w: "volume_ok w" "depth w = depth v + 1" "source (geom w) = source (geom v)"
  shows "keeps v (put_partition i w v)"
proof -
  have "volume_ok (put_partition i w v)"
  proof (rule volume_okI)
    show "length (partitions (put_partition i w v)) = 128" using volume_okD(1) [OF v] by simp
    fix j u assume j: "j < 128" "partitions (put_partition i w v) ! j = Some u"
    then show "volume_ok u \<and> depth u = depth (put_partition i w v) + 1 \<and>
      source (geom u) = source (geom (put_partition i w v))"
      using volume_okD [OF v] w by (cases "j = i") auto
  qed
  then show ?thesis by (simp add: keeps_def)
qed

lemma vol_make_partition_keeps:
  assumes "volume_ok v" "vol_make_partition v i off len = Done v'"
  shows "keeps v v'"
proof -
  obtain w where "v' = put_partition i w v" "partitions w = replicate 128 None" "depth w = depth v + 1"
    "source (geom w) = source (geom v)"
    using assms(2) by (auto simp: vol_make_partition_def Let_def put_partition_def split: if_splits)
  with assms(1) show ?thesis by (auto intro!: keeps_put volume_ok_empty)
qed

lemma keeps_ok: "keeps v v' \<Longrightarrow> volume_ok v'"
  by (simp add: keeps_def)

text \<open>A partition is made, and its members other than the source and the level are set.\<close>

lemma make_and_update:
  assumes v: "volume_ok v" and made: "vol_make_partition v i off len = Done v'"
    and f: "\<And>w. volume_ok w \<Longrightarrow> keeps w (f w)"
  shows "keeps v (update_partition i f v')"
proof -
  have k: "keeps v v'" by (rule vol_make_partition_keeps [OF v made])
  then have "keeps v' (update_partition i f v')" using f by (intro keeps_update_partition keeps_ok)
  with k show ?thesis by (rule keeps_trans)
qed

section \<open>The maps\<close>

lemma mbr_load_entry_keeps:
  "volume_ok v \<Longrightarrow> mbr_load_entry m i v = Done v' \<Longrightarrow> keeps v v'"
  by (auto simp: mbr_load_entry_def Let_def outcome_simps keeps_refl intro!: make_and_update split: if_splits)

lemma mbr_load_keeps: "volume_ok v \<Longrightarrow> mbr_load v = Done (rc, v') \<Longrightarrow> keeps v v'"
proof -
  have all: "steps (map (mbr_load_entry m) is) u = Done u' \<Longrightarrow> volume_ok u \<Longrightarrow> keeps u u'" for m "is" u u'
  proof (induction "is" arbitrary: u)
    case (Cons i "is")
    then obtain w where w: "mbr_load_entry m i u = Done w" "steps (map (mbr_load_entry m) is) w = Done u'"
      by (auto simp: outcome_simps)
    with Cons have "keeps u w" "keeps w u'" by (auto intro: mbr_load_entry_keeps keeps_ok)
    then show ?case by (rule keeps_trans)
  qed (simp add: keeps_refl)
  assume v: "volume_ok v" "mbr_load v = Done (rc, v')"
  let ?v = "set_types kVolTypePartitionMap kPMTypeMBR v"
  have k: "keeps v ?v" using v(1) by simp
  have "v' = ?v \<or> (\<exists>m. steps (map (mbr_load_entry m) [0..<4]) ?v = Done v')"
    using v(2) by (auto simp: mbr_load_def Let_def outcome_simps split: if_splits prod.splits simp del: upt_rec_numeral)
  with k all [of _ "[0..<4]" ?v v'] show ?thesis using keeps_ok [OF k] keeps_trans by blast
qed

lemma gpt_find_header_keeps:
  "volume_ok v \<Longrightarrow> gpt_find_header sizes lba v h = Done (rc, h', v') \<Longrightarrow> keeps v v'"
proof (induction sizes arbitrary: h)
  case (Cons sz sizes)
  then show ?case by (auto simp: outcome_simps keeps_refl split: if_splits prod.splits)
qed (simp add: keeps_refl)

lemma gpt_load_header_keeps:
  "volume_ok v \<Longrightarrow> gpt_load_header v = Done (rc, r, v') \<Longrightarrow> keeps v v'"
  unfolding gpt_load_header_def Let_def
  by (auto simp: outcome_simps keeps_refl split: if_splits prod.splits dest!: gpt_find_header_keeps
      simp del: gpt_find_header.simps)

lemma gpt_make_partitions_keeps:
  "volume_ok v \<Longrightarrow> gpt_make_partitions U count i entries v = Done v' \<Longrightarrow> keeps v v'"
proof (induction count arbitrary: i v)
  case (Suc count)
  show ?case
  proof (cases "unused_entry entries (elem GPTPartitionEntry_t i 0)")
    case True
    with Suc.prems show ?thesis by (auto simp: Let_def keeps_refl split: if_splits)
  next
    case False
    then have "\<exists>off len u t. vol_make_partition v i off len = Done u \<and>
        gpt_make_partitions U count (i + 1) entries (update_partition i (\<lambda>w. set_types t (vol_subtype w) w) u) = Done v'"
      using Suc.prems(2) by (auto simp: Let_def outcome_simps split: if_splits)
    then obtain off len u t where u: "vol_make_partition v i off len = Done u"
      "gpt_make_partitions U count (i + 1) entries (update_partition i (\<lambda>w. set_types t (vol_subtype w) w) u) = Done v'"
      by blast
    have "keeps v (update_partition i (\<lambda>w. set_types t (vol_subtype w) w) u)"
      by (rule make_and_update [OF Suc.prems(1) u(1)]) simp
    with u(2) Suc.IH show ?thesis using keeps_trans keeps_ok by blast
  qed
qed (simp add: keeps_refl)

lemma gpt_load_keeps:
  assumes v: "volume_ok v" and load: "gpt_load U v = Done (rc, v')"
  shows "keeps v v'"
proof -
  let ?v = "set_types kVolTypePartitionMap kPMTypeGPT v"
  have k: "keeps v ?v" using v by simp
  obtain rc' r u where h: "gpt_load_header ?v = Done (rc', r, u)"
    using load by (auto simp: gpt_load_def outcome_simps)
  with k have u: "keeps v u" using gpt_load_header_keeps keeps_ok keeps_trans by blast
  have "v' = u \<or> (\<exists>c e. gpt_make_partitions U c 0 e u = Done v')"
    using load by (auto simp: gpt_load_def h outcome_simps split: if_splits option.splits)
  with u show ?thesis using gpt_make_partitions_keeps keeps_ok keeps_trans by blast
qed

lemma gpt_test_keeps: "volume_ok v \<Longrightarrow> gpt_test v = Done (rc, v') \<Longrightarrow> keeps v v'"
  by (auto simp: gpt_test_def outcome_simps split: prod.splits intro: gpt_load_header_keeps)

lemma apm_test_keeps: "volume_ok v \<Longrightarrow> apm_test v = Done (rc, v') \<Longrightarrow> keeps v v'"
  unfolding apm_test_def by (auto simp: outcome_simps keeps_refl split: if_splits)

lemma apm_make_partition_keeps:
  "volume_ok v \<Longrightarrow> apm_make_partition h i v = Done v' \<Longrightarrow> keeps v v'"
  by (auto simp: apm_make_partition_def Let_def outcome_simps intro!: make_and_update keeps_update)

lemma apm_load_from_keeps: "volume_ok v \<Longrightarrow> apm_load_from i h v = Done (rc, v') \<Longrightarrow> keeps v v'"
proof (induction i h v rule: apm_load_from.induct)
  case (1 i h v)
  obtain rc1 h1 where h1: "apm_get_header v h i = Done (rc1, h1)"
    using "1.prems"(2) by (auto simp: apm_load_from.simps [of i h v] outcome_simps)
  show ?case
  proof (cases "rc1 < 0")
    case True
    with "1.prems" h1 show ?thesis by (simp add: apm_load_from.simps [of i h v] keeps_refl)
  next
    case False
    then obtain u where u: "apm_make_partition h1 i v = Done u"
      "v' = u \<or> \<not> unat (rd h1 (fld APMHeader_t ''partition_count'' 0) :: u32) \<le> i + 1 \<and> apm_load_from (i + 1) h1 u = Done (rc, v')"
      using "1.prems"(2) h1 by (auto simp: apm_load_from.simps [of i h v] outcome_simps split: if_splits)
    then have k: "keeps v u" using apm_make_partition_keeps "1.prems"(1) by blast
    with u "1.IH" [OF h1 refl False u(1)] show ?thesis using keeps_ok keeps_trans by (auto simp: not_le)
  qed
qed

lemma apm_load_keeps: "volume_ok v \<Longrightarrow> apm_load v = Done (rc, v') \<Longrightarrow> keeps v v'"
  unfolding apm_load_def using apm_load_from_keeps keeps_set(2) keeps_ok keeps_trans by blast

lemma cs_test_keeps: "volume_ok v \<Longrightarrow> cs_test C v = Done (rc, v') \<Longrightarrow> keeps v v'"
  by (auto simp: cs_test_def outcome_simps keeps_refl split: if_splits prod.splits)

lemma mbr_test_keeps: "volume_ok v \<Longrightarrow> mbr_test v = Done (rc, v') \<Longrightarrow> keeps v v'"
  by (auto simp: mbr_test_def outcome_simps keeps_refl split: if_splits prod.splits)

section \<open>The descent\<close>

definition op_keeps :: "partition_ops \<Rightarrow> bool" where
  "op_keeps op \<longleftrightarrow>
     (\<forall>v rc v'. volume_ok v \<longrightarrow> op_test op v = Done (rc, v') \<longrightarrow> keeps v v') \<and>
     (\<forall>ld v rc v'. op_load op = Some ld \<longrightarrow> volume_ok v \<longrightarrow> ld v = Done (rc, v') \<longrightarrow> keeps v v')"

lemma partitionTypes_keep: "list_all op_keeps (partitionTypes U C)"
  by (auto simp: partitionTypes_def op_keeps_def intro: gpt_test_keeps gpt_load_keeps apm_test_keeps apm_load_keeps
      cs_test_keeps mbr_test_keeps mbr_load_keeps)

lemma try_maps_keeps:
  "list_all op_keeps ops \<Longrightarrow> volume_ok v \<Longrightarrow> try_maps ops v = Done v' \<Longrightarrow> keeps v v'"
proof (induction ops arbitrary: v)
  case (Cons op ops)
  from Cons.prems(3) obtain rc u where u: "op_test op v = Done (rc, u)" by (auto simp: outcome_simps)
  with Cons.prems(1,2) have k: "keeps v u" by (simp add: op_keeps_def)
  have rest: "keeps v v'" if "keeps v w" "try_maps ops w = Done v'" for w
    by (rule keeps_trans [OF that(1) Cons.IH [OF _ keeps_ok [OF that(1)] that(2)]]) (use Cons.prems(1) in simp)
  have loaded: "keeps v w" if "op_load op = Some ld" "ld u = Done (rc, w)" for ld rc w
  proof (rule keeps_trans [OF k])
    from Cons.prems(1) have "op_keeps op" by simp
    with that keeps_ok [OF k] show "keeps u w" unfolding op_keeps_def by blast
  qed
  show ?case
    using Cons.prems(3) u k rest loaded
    by (auto simp: outcome_simps split: if_splits option.splits prod.splits)
qed (simp add: keeps_refl)

lemma load_nested_keeps:
  assumes "\<And>w rc w'. volume_ok w \<Longrightarrow> f w = Some (Done (rc, w')) \<Longrightarrow> keeps w w'"
  shows "volume_ok v \<Longrightarrow> load_nested f is v = Some (Done (rc, v')) \<Longrightarrow> keeps v v'"
proof (induction "is" arbitrary: v)
  case (Cons i "is")
  have step: "keeps v (update_partition i (\<lambda>_. w') v)"
    if "partitions v ! i = Some w" "f w = Some (Done (rc, w'))" for w rc w'
    using that by (intro keeps_update_partition [OF Cons.prems(1)]) (auto intro: assms)
  show ?case
  proof (cases "i < length (partitions v) \<and> (\<exists>w. partitions v ! i = Some w \<and> vol_type w = kVolTypePartitionMap)")
    case True
    then obtain w where w: "partitions v ! i = Some w" "vol_type w = kVolTypePartitionMap" by blast
    with Cons.prems(2) True obtain rc1 w' where w': "f w = Some (Done (rc1, w'))"
      "load_nested f is (update_partition i (\<lambda>_. w') v) = Some (Done (rc, v'))"
      by (auto split: option.splits outcome.splits)
    with step [OF w(1) w'(1)] Cons.IH show ?thesis using keeps_ok keeps_trans by blast
  next
    case False
    with Cons show ?thesis by (auto split: if_splits option.splits)
  qed
qed (simp add: keeps_refl)

lemma volumes_load_keeps:
  "volume_ok v \<Longrightarrow> volumes_load U C fuel v = Some (Done (rc, v')) \<Longrightarrow> keeps v v'"
proof (induction fuel arbitrary: v rc v')
  case (Suc fuel)
  obtain u where u: "try_maps (partitionTypes U C) v = Done u"
    "load_nested (volumes_load U C fuel) [0..<partition_count u] u = Some (Done (rc, v'))"
    using Suc.prems(2) by (auto split: outcome.splits)
  have "keeps v u" by (rule try_maps_keeps [OF partitionTypes_keep Suc.prems(1) u(1)])
  moreover from this have "keeps u v'" by (intro load_nested_keeps [OF Suc.IH _ u(2)]) (auto intro: keeps_ok)
  ultimately show ?case by (rule keeps_trans)
qed simp

section \<open>Correctness\<close>

text \<open>A disk of zeros holds no map.\<close>

lemma zero_volume_loads:
  "volumes_load (\<lambda>_ _. False) (\<lambda>_ _. 0) 1 (sample_volume (replicate 8192 0) 8192) =
   Some (Done (0, sample_volume (replicate 8192 0) 8192))"
proof -
  let ?v = "sample_volume (replicate 8192 0) 8192"
  have r: "readable (geom ?v) off n" if "off mod 512 = 0" "0 < n" "off + n \<le> 7680" for off n
  proof -
    have "block_size_of (geom ?v) = 512" by (simp add: block_size_of_def)
    moreover have "blocks_read 512 n off * 512 \<le> n + 512" by (rule blocks_read_bound)
    ultimately show ?thesis using that by (simp add: readable_def geometry_ok_def)
  qed
  have b: "vol_bytes (geom ?v) p n = replicate n 0" if "p + n \<le> 8192" for p n
    using that by (simp add: vol_bytes_def chunk_def)
  have "(le_word (replicate 4 0) :: u32) = 0" by code_simp
  then have z: "(rd (replicate 512 0) 90 :: u32) = 0" by (simp add: rd_def chunk_def)
  have "not_gpt ?v" "not_apm (geom ?v)" "not_cs (geom ?v)"
    unfolding not_gpt_def not_apm_def not_cs_def no_signature_def mbr_entry_def
    by (auto simp: b z ascii_def zeros_differ intro!: r simp del: sample_volume_simps(1))
  then have "try_maps (partitionTypes (\<lambda>_ _. False) (\<lambda>_ _. 0)) ?v = Done ?v"
    by (rule try_maps_none) (simp add: b zeros_differ del: sample_volume_simps(1))
  then show ?thesis by simp
qed

text \<open>
  C17. Loading the partitions of a volume, as far as it returns, leaves a well-formed tree: every volume in
  it has its table of 128 entries, reads the source of the volume it was found on, and has a depth one
  more than that of the volume around it; the volume itself keeps its source and its depth.
\<close>

theorem volumes_load_well_formed:
  assumes "volume_ok vol" "volumes_load uuid_is crc32c fuel vol = Some (Done (rc, vol'))"
  shows "volume_ok vol' \<and> depth vol' = depth vol \<and> source (geom vol') = source (geom vol)"
  using volumes_load_keeps [OF assms] by (simp add: keeps_def)

lemma volumes_load_well_formed_witness:
  "\<exists>r. volumes_load (\<lambda>_ _. False) (\<lambda>_ _. 0) 1 (sample_volume (replicate 8192 0) 8192) = Some (Done r) \<and> volume_ok (snd r)"
proof -
  have ok: "volume_ok (sample_volume (replicate 8192 0) 8192)" by (rule volume_ok_empty) simp
  from volumes_load_well_formed [OF ok zero_volume_loads] zero_volume_loads show ?thesis by simp
qed

end
