(* ===== verification/Metadata.thy ===== *)
theory Metadata
  imports Catalog
begin

text \<open>
  The trees of the attributes file and of the hot files: \<^verbatim>\<open>src/src/hfsplus/attributes.c\<close> and
  \<^verbatim>\<open>src/src/hfsplus/hotfiles.c\<close>. As for the catalog, a tree is made once from its fork, and a function
  that fetches a node converts its records. The comparison of attribute keys copies both names into
  arrays of wide characters; the lemma on it says how much of a name it looks at.
\<close>

section \<open>Attribute keys\<close>

text \<open>The members of a key that the comparison reads; the name is the array as it lies in memory.\<close>

record HFSPlusAttrKey =
  ak_fileID :: u32
  ak_startBlock :: u32
  ak_attrNameLen :: u16
  ak_attrName :: buffer

definition HFSPlusAttrKey_of :: "buffer \<Rightarrow> nat \<Rightarrow> HFSPlusAttrKey" where
  "HFSPlusAttrKey_of m p =
     \<lparr>ak_fileID = rd m (fld HFSPlusAttrKey_t ''fileID'' p),
      ak_startBlock = rd m (fld HFSPlusAttrKey_t ''startBlock'' p),
      ak_attrNameLen = rd m (fld HFSPlusAttrKey_t ''attrNameLen'' p),
      ak_attrName = chunk (fld HFSPlusAttrKey_t ''attrName'' p) 254 m\<rparr>"

text \<open>
  A zeroed array of 128 wide characters of 32 bits, into which \<open>attrNameLen\<close> bytes of the name are
  copied and in which the element with that number is set to zero. A length of 128 or more leaves it.
\<close>

definition wide_name :: "HFSPlusAttrKey \<Rightarrow> u32 list outcome" where
  "wide_name key =
     (let n = unat (ak_attrNameLen key) in
      if n < 128 \<and> fits 0 n (ak_attrName key)
      then let m = store 0 (chunk 0 n (ak_attrName key)) (replicate 512 0) in
           Done ((map (\<lambda>i. rd m (4 * i)) [0..<128])[n := 0])
      else Fault)"

fun wcsncmp :: "u32 list \<Rightarrow> u32 list \<Rightarrow> nat \<Rightarrow> int" where
  "wcsncmp (a # as) (b # bs) (Suc n) =
     (if a \<noteq> b then (if sint a < sint b then - 1 else 1)
      else if a = 0 then 0 else wcsncmp as bs n)"
| "wcsncmp _ _ _ = 0"

definition hfs_attributes_compare_keys :: "HFSPlusAttrKey \<Rightarrow> HFSPlusAttrKey \<Rightarrow> int outcome" where
  "hfs_attributes_compare_keys key1 key2 =
     (let result = cmp_nat (unat (ak_fileID key1)) (unat (ak_fileID key2)) in
      if result \<noteq> 0 then Done result
      else
        obind (wide_name key1) (\<lambda>name1.
        obind (wide_name key2) (\<lambda>name2.
          let result = wcsncmp name1 name2 (min (unat (ak_attrNameLen key1)) (unat (ak_attrNameLen key2))) in
          if result \<noteq> 0 then Done result
          else Done (cmp_nat (unat (ak_startBlock key1)) (unat (ak_startBlock key2))))))"

section \<open>The attributes tree\<close>

text \<open>What \<open>hfs_attributes_get_node\<close> adds to \<open>btree_get_node\<close>.\<close>

definition attributes_convert_record :: "btnode \<Rightarrow> nat \<Rightarrow> buffer \<Rightarrow> buffer outcome" where
  "attributes_convert_record node n m =
     (let node = node\<lparr>node_data := m\<rparr> in
      obind (BTGetRecord node (of_nat n)) (\<lambda>record.
      obind (swap_HFSPlusAttrKey record m) (\<lambda>m.
      if nd_kind node = kBTLeafNode
      then obind (BTGetRecordKeyLength (node\<lparr>node_data := m\<rparr>) (of_nat n)) (\<lambda>keyLen.
             swap_HFSPlusAttrRecord (record + unat keyLen) m)
      else Done m)))"

definition attributes_convert :: "btnode \<Rightarrow> btnode outcome" where
  "attributes_convert node =
     (if nd_kind node = kBTIndexNode \<or> nd_kind node = kBTLeafNode
      then obind (steps (map (attributes_convert_record node) [0..<unat (nd_numRecords node)]) (node_data node))
             (\<lambda>m. Done (node\<lparr>node_data := m\<rparr>))
      else Done node)"

definition hfs_attributes_get_node ::
  "nat \<Rightarrow> u32 \<Rightarrow> btree \<Rightarrow> (int \<times> btnode option \<times> btree) outcome option" where
  "hfs_attributes_get_node fuel n tree = get_node attributes_convert fuel tree n"

text \<open>The stream is not checked before it is read; neither is the result of \<open>btree_init\<close>.\<close>

definition hfs_get_attribute_btree ::
  "(HFSPlusFork \<Rightarrow> u64 \<Rightarrow> 's \<Rightarrow> (int \<times> (extent_record \<times> u32) option \<times> 's) outcome) \<Rightarrow>
   (HFSPlusFork \<Rightarrow> (u64 \<Rightarrow> u64 \<Rightarrow> u64 \<times> buffer) option) \<Rightarrow> nat \<Rightarrow> HFSPlus \<Rightarrow> 's \<Rightarrow>
   (int \<times> btree \<times> 's) outcome option" where
  "hfs_get_attribute_btree lookup fopen fuel hfs s =
     (case hfsplus_get_special_fork lookup fuel hfs kHFSAttributesFileID s of
        None \<Rightarrow> None
      | Some r \<Rightarrow> Some (obind r (\<lambda>(rc, fork, s).
          if rc < 0 then Critical
          else case fork of None \<Rightarrow> Fault
          | Some fork \<Rightarrow>
              (case fopen fork of None \<Rightarrow> Fault
               | Some fp \<Rightarrow>
                   obind (btree_init btree_zero fp) (\<lambda>(_, tree).
                     Done (0, tree\<lparr>treeID := kHFSAttributesFileID\<rparr>, s))))))"

section \<open>The hot files tree\<close>

text \<open>Its records are not converted.\<close>

definition hfs_hotfiles_get_node ::
  "nat \<Rightarrow> u32 \<Rightarrow> btree \<Rightarrow> (int \<times> btnode option \<times> btree) outcome option" where
  "hfs_hotfiles_get_node fuel n tree = get_node Done fuel tree n"

definition hotfiles_name :: "u8 list" where
  "hotfiles_name = map of_char ''.hotfiles.btree'' @ [0]"



text \<open>
  The tree lies in a file of the root folder. \<open>find_record\<close> is \<open>hfsplus_catalog_find_record\<close> on the
  catalog; the data fork is read from the record whatever kind of record it is.
\<close>

definition hfs_get_hotfiles_btree ::
  "(FSSpec \<Rightarrow> 's \<Rightarrow> (int \<times> (btnode \<times> u16) option \<times> 's) outcome) \<Rightarrow>
   (HFSPlusFork \<Rightarrow> u64 \<Rightarrow> 's \<Rightarrow> (int \<times> (extent_record \<times> u32) option \<times> 's) outcome) \<Rightarrow>
   (HFSPlusFork \<Rightarrow> (u64 \<Rightarrow> u64 \<Rightarrow> u64 \<times> buffer) option) \<Rightarrow> nat \<Rightarrow> 's \<Rightarrow>
   (int \<times> btree option \<times> 's) outcome option" where
  "hfs_get_hotfiles_btree find_record lookup fopen fuel s =
     (case obind (str_to_hfsuc hotfiles_name) (\<lambda>(_, name).
             find_record \<lparr>spec_parentID = kHFSRootFolderID, spec_name = name\<rparr> s) of
        Critical \<Rightarrow> Some Critical
      | Fault \<Rightarrow> Some Fault
      | Done (rc, found, s) \<Rightarrow>
          if rc \<noteq> 1 then Some (Done (- 1, None, s))
          else case found of None \<Rightarrow> Some Fault
          | Some (node, recordID) \<Rightarrow>
              (case btree_get_record node recordID of
                 Done (Some (_, recordValue)) \<Rightarrow>
                   if \<not> fits recordValue (sizeof HFSPlusCatalogFile_t) (node_data node) then Some Fault
                   else
                     let fileID = rd (node_data node) (fld HFSPlusCatalogFile_t ''fileID'' recordValue);
                         dataFork = HFSPlusForkData_of (node_data node) (fld HFSPlusCatalogFile_t ''dataFork'' recordValue) in
                     (case hfsfork_make lookup fuel dataFork HFSDataForkType fileID s of
                        None \<Rightarrow> None
                      | Some r \<Rightarrow> Some (obind r (\<lambda>(rc, fork, s).
                          if rc < 0 then Done (- 1, None, s)
                          else case fopen fork of None \<Rightarrow> Done (- 1, None, s)
                          | Some fp \<Rightarrow>
                              obind (btree_init btree_zero fp) (\<lambda>(rc, tree).
                                if rc < 0 then Done (- 1, None, s)
                                else Done (0, Some (tree\<lparr>treeID := fileID\<rparr>), s)))))
               | Critical \<Rightarrow> Some Critical
               | _ \<Rightarrow> Some Fault))"

section \<open>What the comparison of attribute names looks at\<close>

text \<open>Two names whose first \<open>n\<close> bytes agree, where \<open>n\<close> is the number of characters of both.\<close>

lemma wide_name_cong:
  assumes "ak_attrNameLen key1 = ak_attrNameLen key2"
    and "chunk 0 (unat (ak_attrNameLen key1)) (ak_attrName key1) = chunk 0 (unat (ak_attrNameLen key2)) (ak_attrName key2)"
    and "length (ak_attrName key1) = length (ak_attrName key2)"
  shows "wide_name key1 = wide_name key2"
  using assms by (simp add: wide_name_def fits_def Let_def del: upt_rec_numeral)

lemma wcsncmp_same: "wcsncmp w w n = 0"
proof (induction w arbitrary: n)
  case (Cons a w)
  then show ?case by (cases n) simp_all
qed simp

section \<open>Correctness\<close>

text \<open>
  Of two attribute names with the same number \<open>n\<close> of characters, the comparison looks at the first
  \<open>n\<close> bytes only, which are half of the characters: keys of the same file whose names agree that far
  compare like their start blocks, whatever follows in the names.
\<close>

lemma attributes_compare_half:
  assumes "ak_fileID key1 = ak_fileID key2" "ak_attrNameLen key1 = ak_attrNameLen key2"
    and "unat (ak_attrNameLen key1) < 128" "length (ak_attrName key1) = 254" "length (ak_attrName key2) = 254"
    and "chunk 0 (unat (ak_attrNameLen key1)) (ak_attrName key1) = chunk 0 (unat (ak_attrNameLen key1)) (ak_attrName key2)"
  shows "hfs_attributes_compare_keys key1 key2 =
    Done (cmp_nat (unat (ak_startBlock key1)) (unat (ak_startBlock key2)))"
proof -
  have same: "wide_name key1 = wide_name key2" using assms by (intro wide_name_cong) simp_all
  moreover have "\<exists>w. wide_name key2 = Done w"
    using assms(2-5) by (simp add: wide_name_def fits_def Let_def del: upt_rec_numeral)
  ultimately show ?thesis using assms(1,2) by (auto simp: hfs_attributes_compare_keys_def wcsncmp_same)
qed

lemma attributes_compare_half_witness:
  "hfs_attributes_compare_keys
     \<lparr>ak_fileID = 20, ak_startBlock = 0, ak_attrNameLen = 4, ak_attrName = [97, 0, 98, 0, 99, 0, 100, 0] @ replicate 246 0\<rparr>
     \<lparr>ak_fileID = 20, ak_startBlock = 0, ak_attrNameLen = 4, ak_attrName = [97, 0, 98, 0, 121, 0, 122, 0] @ replicate 246 0\<rparr>
   = Done 0"
  by (subst attributes_compare_half) (simp_all add: chunk_def)

end
