(* ===== verification/Operations.thy ===== *)
theory Operations
  imports Catalog
begin

text \<open>
  The operations of the program, \<^verbatim>\<open>src/src/operations\<close>: counting free space, summing up a volume, showing
  catalog records and paths, and extracting files. What they print is left out, apart from the numbers
  and records that are printed. \<open>die\<close> ends the process; it is the value \<open>None\<close> within the outcome.
\<close>

section \<open>Modes\<close>

definition set_mode :: "u32 \<Rightarrow> nat \<Rightarrow> u32" where
  "set_mode modes m = modes OR push_bit m 1"

definition clear_mode :: "u32 \<Rightarrow> nat \<Rightarrow> u32" where
  "clear_mode modes m = modes AND NOT (push_bit m 1)"

definition check_mode :: "u32 \<Rightarrow> nat \<Rightarrow> bool" where
  "check_mode modes m \<longleftrightarrow> modes AND push_bit m 1 \<noteq> 0"

abbreviation (input) HIModeListFolder :: nat where "HIModeListFolder \<equiv> 9"

section \<open>Free space\<close>

text \<open>
  The loop of \<open>showFreeSpace\<close> that reads the allocation file in pieces of 128 KiB into a buffer of its
  logical size: the last number of bytes read, the buffer, and the offset that was reached.
\<close>

abbreviation (input) free_block_size :: nat where "free_block_size \<equiv> 131072"

lemma sint_pos_unat: "0 < sint (w :: u64) \<Longrightarrow> 0 < unat w"
  by (rule ccontr) (simp add: unat_eq_0)

function read_allocation :: "HFSPlus \<Rightarrow> HFSPlusFork \<Rightarrow> buffer \<Rightarrow> buffer \<Rightarrow> nat \<Rightarrow> (u64 \<times> buffer \<times> nat) outcome" where
  "read_allocation hfs fork block data offset =
     obind (hfs_read_fork_range block hfs fork (of_nat free_block_size) (of_nat offset)) (\<lambda>(bytes, block).
       if sint bytes > 0
       then
         if fits 0 (unat bytes) block \<and> fits offset (unat bytes) data
         then
           let data = store offset (chunk 0 (unat bytes) block) data; offset = offset + unat bytes in
           if offset \<ge> unat (fork_logicalSize fork) then Done (bytes, data, offset)
           else read_allocation hfs fork block data offset
         else Fault
       else Done (bytes, data, offset))"
  by pat_completeness auto

termination
  by (relation "measure (\<lambda>(_, _, _, data, offset). length data - offset)")
    (auto dest!: sint_pos_unat simp: fits_def store_def)

declare read_allocation.simps [simp del]

text \<open>The run of equally used blocks that the second loop is in, and its totals.\<close>

record free_count =
  run_used :: bool
  run_length :: nat
  total_used :: nat
  total_free :: nat
  total_extents :: nat

definition count_block :: "nat \<Rightarrow> nat \<Rightarrow> bool \<Rightarrow> free_count \<Rightarrow> free_count" where
  "count_block nblocks i used c =
     (if used = run_used c \<and> i \<noteq> nblocks - 1
      then c\<lparr>run_length := run_length c + 1\<rparr>
      else \<lparr>run_used = used, run_length = 1,
            total_used = total_used c + (if run_used c then run_length c else 0),
            total_free = total_free c + (if run_used c then 0 else run_length c),
            total_extents = total_extents c + 1\<rparr>)"

fun count_blocks :: "(nat \<Rightarrow> bool outcome) \<Rightarrow> nat \<Rightarrow> nat list \<Rightarrow> free_count \<Rightarrow> free_count outcome" where
  "count_blocks is_used nblocks [] c = Done c"
| "count_blocks is_used nblocks (i # is) c =
     obind (is_used i) (\<lambda>used. count_blocks is_used nblocks is (count_block nblocks i used c))"

definition free_count_init :: free_count where
  "free_count_init = \<lparr>run_used = True, run_length = 0, total_used = 0, total_free = 0, total_extents = 0\<rparr>"

text \<open>
  The counts that are printed, if any; \<open>Done None\<close> is the exit of \<open>die\<close>, and \<open>Done (Some None)\<close> the
  return when nothing could be read.
\<close>

definition showFreeSpace ::
  "(HFSPlusFork \<Rightarrow> u64 \<Rightarrow> 's \<Rightarrow> (int \<times> (extent_record \<times> u32) option \<times> 's) outcome) \<Rightarrow> nat \<Rightarrow> HFSPlus \<Rightarrow> 's \<Rightarrow>
   free_count option option outcome option" where
  "showFreeSpace lookup fuel hfs s =
     (case hfsplus_get_special_fork lookup fuel hfs kHFSAllocationFileID s of
        None \<Rightarrow> None
      | Some r \<Rightarrow> Some (obind r (\<lambda>(rc, fork, s).
          if rc < 0 then Done None
          else case fork of None \<Rightarrow> Fault
          | Some fork \<Rightarrow>
              obind (read_allocation hfs fork (replicate free_block_size 0)
                       (replicate (unat (fork_logicalSize fork)) 0) 0) (\<lambda>(bytes, data, offset).
              if offset = 0 then Done (if sint bytes < 0 then None else Some None)
              else
                let nblocks = unat (rd (vh hfs) (fld HFSPlusVolumeHeader_t ''totalBlocks'' 0) :: u32) in
                obind (count_blocks (\<lambda>i. BTIsBlockUsed (of_nat i) data (unat (fork_logicalSize fork)))
                         nblocks [0..<nblocks] free_count_init) (\<lambda>c. Done (Some (Some c)))))))"

section \<open>Summaries\<close>

record ForkSummary =
  fs_count :: u64
  fragmentedCount :: u64
  blockCount_sum :: u64
  logicalSpace :: u64
  extentRecords :: u64
  extentDescriptors :: u64
  overflowExtentRecords :: u64
  overflowExtentDescriptors :: u64

definition ForkSummary_zero :: ForkSummary where
  "ForkSummary_zero = \<lparr>fs_count = 0, fragmentedCount = 0, blockCount_sum = 0, logicalSpace = 0, extentRecords = 0,
     extentDescriptors = 0, overflowExtentRecords = 0, overflowExtentDescriptors = 0\<rparr>"

type_synonym rank = "u64 \<times> u32"

record VolumeSummary =
  nodeCount :: u64
  recordCount :: u64
  fileCount :: u64
  folderCount :: u64
  aliasCount :: u64
  hardLinkFileCount :: u64
  hardLinkFolderCount :: u64
  symbolicLinkCount :: u64
  invisibleFileCount :: u64
  emptyFileCount :: u64
  emptyDirectoryCount :: u64
  largestFiles :: "rank list"
  dataForks :: ForkSummary
  resourceForks :: ForkSummary

definition VolumeSummary_zero :: VolumeSummary where
  "VolumeSummary_zero = \<lparr>nodeCount = 0, recordCount = 0, fileCount = 0, folderCount = 0, aliasCount = 0,
     hardLinkFileCount = 0, hardLinkFolderCount = 0, symbolicLinkCount = 0, invisibleFileCount = 0,
     emptyFileCount = 0, emptyDirectoryCount = 0, largestFiles = replicate 10 (0, 0),
     dataForks = ForkSummary_zero, resourceForks = ForkSummary_zero\<rparr>"

text \<open>
  \<open>compare_ranked_files\<close>, and \<open>qsort\<close> with it: among equal sizes the order of the library's sort,
  which is stable on this platform, is taken.
\<close>

definition compare_ranked_files :: "rank \<Rightarrow> rank \<Rightarrow> int" where
  "compare_ranked_files a b = cmp_nat (unat (fst a)) (unat (fst b))"

fun insert_ranked :: "rank \<Rightarrow> rank list \<Rightarrow> rank list" where
  "insert_ranked r [] = [r]"
| "insert_ranked r (x # xs) = (if compare_ranked_files r x \<le> 0 then r # x # xs else x # insert_ranked r xs)"

definition sort_ranked :: "rank list \<Rightarrow> rank list" where
  "sort_ranked rs = foldr insert_ranked rs []"

definition rank_file :: "u64 \<Rightarrow> u32 \<Rightarrow> rank list \<Rightarrow> rank list" where
  "rank_file fileSize cnid largest =
     (if fst (hd largest) < fileSize then sort_ranked ((fileSize, cnid) # tl largest) else largest)"

text \<open>The loop over the extents of a fork: its counter runs from 1 to 8.\<close>

fun count_extents :: "extent_list \<Rightarrow> nat \<Rightarrow> ForkSummary \<Rightarrow> ForkSummary" where
  "count_extents [] counter f = f"
| "count_extents (e # es) counter f =
     (let f = f\<lparr>overflowExtentDescriptors := overflowExtentDescriptors f + 1\<rparr> in
      if counter \<noteq> 0 \<and> counter = kHFSPlusExtentDensity
      then count_extents es 1 (f\<lparr>overflowExtentRecords := overflowExtentRecords f + 1\<rparr>)
      else count_extents es (counter + 1) f)"

definition generateForkSummary ::
  "(HFSPlusFork \<Rightarrow> u64 \<Rightarrow> 's \<Rightarrow> (int \<times> (extent_record \<times> u32) option \<times> 's) outcome) \<Rightarrow> nat \<Rightarrow> ForkSummary \<Rightarrow>
   u32 \<Rightarrow> HFSPlusForkData \<Rightarrow> u8 \<Rightarrow> 's \<Rightarrow> (ForkSummary \<times> 's) option outcome option" where
  "generateForkSummary lookup fuel f fileID forkData forktype s =
     (let f = f\<lparr>fs_count := fs_count f + 1,
                blockCount_sum := blockCount_sum f + ucast (totalBlocks forkData),
                logicalSpace := logicalSpace f + logicalSize forkData,
                extentRecords := extentRecords f + 1\<rparr>;
          f = (if d_blockCount (extents forkData ! 1) > 0 then f\<lparr>fragmentedCount := fragmentedCount f + 1\<rparr> else f);
          f = f\<lparr>extentDescriptors := extentDescriptors f +
                 of_nat (length (takeWhile (\<lambda>d. d_blockCount d > 0) (extents forkData)))\<rparr> in
      case hfsfork_make lookup fuel forkData forktype fileID s of
        None \<Rightarrow> None
      | Some r \<Rightarrow> Some (obind r (\<lambda>(rc, hfsfork, s).
          if rc < 0 then Done None else Done (Some (count_extents (fork_extents hfsfork) 1 f, s)))))"

abbreviation (input) kIsInvisible :: u16 where "kIsInvisible \<equiv> 0x4000"

text \<open>
  One record of the walk: the branch for files, with the forks in their order, and that for folders. A
  record is the bytes of its node from its value on.
\<close>

definition file_fork :: "string \<Rightarrow> buffer \<Rightarrow> HFSPlusForkData" where
  "file_fork f record = HFSPlusForkData_of record (fld HFSPlusCatalogFile_t f 0)"

definition summarize_forks ::
  "(HFSPlusFork \<Rightarrow> u64 \<Rightarrow> 's \<Rightarrow> (int \<times> (extent_record \<times> u32) option \<times> 's) outcome) \<Rightarrow> nat \<Rightarrow> buffer \<Rightarrow>
   VolumeSummary \<Rightarrow> 's \<Rightarrow> (VolumeSummary \<times> 's) option outcome option" where
  "summarize_forks lookup fuel record summary s =
     (let fileID = rd record (fld HFSPlusCatalogFile_t ''fileID'' 0);
          dataFork = file_fork ''dataFork'' record; resourceFork = file_fork ''resourceFork'' record in
      case (if logicalSize dataFork \<noteq> 0
            then generateForkSummary lookup fuel (dataForks summary) fileID dataFork HFSDataForkType s
            else Some (Done (Some (dataForks summary, s)))) of
        None \<Rightarrow> None
      | Some Critical \<Rightarrow> Some Critical
      | Some Fault \<Rightarrow> Some Fault
      | Some (Done None) \<Rightarrow> Some (Done None)
      | Some (Done (Some (d, s))) \<Rightarrow>
          (case (if logicalSize resourceFork \<noteq> 0
                 then generateForkSummary lookup fuel (resourceForks summary) fileID resourceFork HFSResourceForkType s
                 else Some (Done (Some (resourceForks summary, s)))) of
             None \<Rightarrow> None
           | Some Critical \<Rightarrow> Some Critical
           | Some Fault \<Rightarrow> Some Fault
           | Some (Done None) \<Rightarrow> Some (Done None)
           | Some (Done (Some (r, s))) \<Rightarrow>
               let fileSize = logicalSize dataFork + logicalSize resourceFork in
               Some (Done (Some (summary\<lparr>dataForks := d, resourceForks := r,
                 largestFiles := rank_file fileSize fileID (largestFiles summary)\<rparr>, s)))))"

definition summarize_record ::
  "(HFSPlusFork \<Rightarrow> u64 \<Rightarrow> 's \<Rightarrow> (int \<times> (extent_record \<times> u32) option \<times> 's) outcome) \<Rightarrow> nat \<Rightarrow> buffer \<Rightarrow>
   VolumeSummary \<Rightarrow> 's \<Rightarrow> (VolumeSummary \<times> 's) option outcome option" where
  "summarize_record lookup fuel record summary s =
     (let next = (\<lambda>summary. Some (Done (Some (summary, s)))); fdFlags = fd ''fdFlags'' record :: u16 in
      if \<not> fits 0 2 record then Some Fault
      else if record_type record = kHFSPlusFileRecord then
        if \<not> fits 0 (sizeof HFSPlusCatalogFile_t) record then Some Fault
        else
          let summary = summary\<lparr>fileCount := fileCount summary + 1\<rparr> in
          if HFSPlusCatalogFileIsHardLink record
          then next (summary\<lparr>hardLinkFileCount := hardLinkFileCount summary + 1\<rparr>)
          else if HFSPlusCatalogFolderIsHardLink record
          then next (summary\<lparr>hardLinkFolderCount := hardLinkFolderCount summary + 1\<rparr>)
          else if HFSPlusCatalogRecordIsSymLink record
          then next (summary\<lparr>symbolicLinkCount := symbolicLinkCount summary + 1\<rparr>)
          else if fdFlags AND kIsAlias \<noteq> 0
          then next (summary\<lparr>aliasCount := aliasCount summary + 1\<rparr>)
          else if fdFlags AND kIsInvisible \<noteq> 0
          then next (summary\<lparr>invisibleFileCount := invisibleFileCount summary + 1\<rparr>)
          else if logicalSize (file_fork ''dataFork'' record) = 0 \<and> logicalSize (file_fork ''resourceFork'' record) = 0
          then next (summary\<lparr>emptyFileCount := emptyFileCount summary + 1\<rparr>)
          else summarize_forks lookup fuel record summary s
      else if record_type record = kHFSPlusFolderRecord then
        if \<not> fits 0 (sizeof HFSPlusCatalogFolder_t) record then Some Fault
        else
          let summary = summary\<lparr>folderCount := folderCount summary + 1\<rparr> in
          next (if (rd record (fld HFSPlusCatalogFolder_t ''valence'' 0) :: u32) = 0
                then summary\<lparr>emptyDirectoryCount := emptyDirectoryCount summary + 1\<rparr> else summary)
      else next summary)"

fun summarize_records ::
  "(HFSPlusFork \<Rightarrow> u64 \<Rightarrow> 's \<Rightarrow> (int \<times> (extent_record \<times> u32) option \<times> 's) outcome) \<Rightarrow> nat \<Rightarrow> btnode \<Rightarrow>
   nat list \<Rightarrow> VolumeSummary \<Rightarrow> 's \<Rightarrow> (VolumeSummary \<times> 's) option outcome option" where
  "summarize_records lookup fuel node [] summary s = Some (Done (Some (summary, s)))"
| "summarize_records lookup fuel node (recNum # recNums) summary s =
     (let summary = summary\<lparr>recordCount := recordCount summary + 1\<rparr> in
      case btree_get_record node (of_nat recNum) of
        Done (Some (_, recordValue)) \<Rightarrow>
          (case summarize_record lookup fuel (drop recordValue (node_data node)) summary s of
             Some (Done (Some (summary, s))) \<Rightarrow> summarize_records lookup fuel node recNums summary s
           | r \<Rightarrow> r)
      | Critical \<Rightarrow> Some Critical
      | _ \<Rightarrow> Some Fault)"

text \<open>
  The walk over the leaves from one on; \<open>None\<close> is a chain of links that does not end. \<open>getNode\<close> is the
  function of the catalog tree, whose state is part of \<open>'s\<close>.
\<close>

fun summarize_leaves ::
  "(u32 \<Rightarrow> 's \<Rightarrow> (int \<times> btnode option \<times> 's) outcome) \<Rightarrow>
   (HFSPlusFork \<Rightarrow> u64 \<Rightarrow> 's \<Rightarrow> (int \<times> (extent_record \<times> u32) option \<times> 's) outcome) \<Rightarrow> nat \<Rightarrow> nat \<Rightarrow> u32 \<Rightarrow>
   VolumeSummary \<Rightarrow> 's \<Rightarrow> (VolumeSummary \<times> 's) option outcome option" where
  "summarize_leaves getNode lookup fuel 0 cnid summary s = None"
| "summarize_leaves getNode lookup fuel (Suc leaves) cnid summary s =
     (case getNode cnid s of
        Critical \<Rightarrow> Some Critical
      | Fault \<Rightarrow> Some Fault
      | Done (rc, node, s) \<Rightarrow>
          if rc < 0 then Some (Done None)
          else case node of None \<Rightarrow> Some Fault
          | Some node \<Rightarrow>
              (case summarize_records lookup fuel node [0..<unat (nd_numRecords node)]
                      (summary\<lparr>nodeCount := nodeCount summary + 1\<rparr>) s of
                 Some (Done (Some (summary, s))) \<Rightarrow>
                   if nd_fLink node = 0 then Some (Done (Some (summary, s)))
                   else summarize_leaves getNode lookup fuel leaves (nd_fLink node) summary s
               | r \<Rightarrow> r))"

definition generateVolumeSummary ::
  "(u32 \<Rightarrow> 's \<Rightarrow> (int \<times> btnode option \<times> 's) outcome) \<Rightarrow>
   (HFSPlusFork \<Rightarrow> u64 \<Rightarrow> 's \<Rightarrow> (int \<times> (extent_record \<times> u32) option \<times> 's) outcome) \<Rightarrow> nat \<Rightarrow> nat \<Rightarrow>
   BTHeaderRec \<Rightarrow> 's \<Rightarrow> (VolumeSummary \<times> 's) option outcome option" where
  "generateVolumeSummary getNode lookup fuel leaves hdr s =
     summarize_leaves getNode lookup fuel leaves (firstLeafNode hdr) VolumeSummary_zero s"

section \<open>Showing records and paths\<close>

text \<open>
  What \<open>showCatalogRecord\<close> shows: that there is no such record, the listing of a folder, the record in its
  node, and the remarks on links; and the file record that it leaves for a later extraction.
\<close>

datatype shown =
    Not_Found
  | Folder_Listing u32
  | Node_Record "(btnode \<times> u16) option"
  | Is_Hard_Link
  | Is_Symbolic_Link
  | Unknown_Type u16

text \<open>
  \<open>lookup\<close> is \<open>HFSPlusGetCatalogRecordByFSSpec\<close> and \<open>find_record\<close> is \<open>hfsplus_catalog_find_record\<close>. The
  function calls itself to follow a thread; a thread that leads to itself is followed for ever.
\<close>

definition show_record ::
  "(FSSpec \<Rightarrow> 's \<Rightarrow> (int \<times> (btnode \<times> u16) option \<times> 's) outcome) \<Rightarrow> FSSpec \<Rightarrow> 's \<Rightarrow>
   (shown list \<times> 's) outcome" where
  "show_record find_record spec s =
     obind (find_record spec s) (\<lambda>(_, found, s). Done ([Node_Record found], s))"

fun showCatalogRecord ::
  "(FSSpec \<Rightarrow> 's \<Rightarrow> (int \<times> buffer option \<times> 's) outcome) \<Rightarrow>
   (FSSpec \<Rightarrow> 's \<Rightarrow> (int \<times> (btnode \<times> u16) option \<times> 's) outcome) \<Rightarrow> u32 \<Rightarrow> nat \<Rightarrow> FSSpec \<Rightarrow> bool \<Rightarrow> 's \<Rightarrow>
   (shown list \<times> buffer option \<times> 's) outcome option" where
  "showCatalogRecord lookup find_record modes 0 spec followThreads s = None"
| "showCatalogRecord lookup find_record modes (Suc fuel) spec followThreads s =
     (case obind (hfsuc_to_str (spec_name spec)) (\<lambda>_. lookup spec s) of
        Critical \<Rightarrow> Some Critical
      | Fault \<Rightarrow> Some Fault
      | Done (rc, r, s) \<Rightarrow>
          if rc < 0 then Some (Done ([Not_Found], None, s))
          else case r of None \<Rightarrow> Some Fault
          | Some catalogRecord \<Rightarrow>
              if is_thread catalogRecord
              then
                if followThreads
                then showCatalogRecord lookup find_record modes fuel
                       \<lparr>spec_parentID = thread_parentID catalogRecord, spec_name = thread_nodeName catalogRecord\<rparr>
                       followThreads s
                else if record_type catalogRecord = kHFSPlusFolderThreadRecord \<and> check_mode modes HIModeListFolder
                then Some (Done ([Folder_Listing (spec_parentID spec)], None, s))
                else Some (obind (show_record find_record spec s) (\<lambda>(out, s). Done (out, None, s)))
              else if record_type catalogRecord = kHFSPlusFileRecord
              then
                let hard = fd ''fdCreator'' catalogRecord = kHardLinkFileType \<and> fd ''fdType'' catalogRecord = kHFSPlusCreator;
                    soft = fd ''fdCreator'' catalogRecord = kSymLinkCreator \<and> fd ''fdType'' catalogRecord = kSymLinkFileType in
                Some (obind (show_record find_record spec s) (\<lambda>(out, s).
                  Done ((if hard then [Is_Hard_Link] else []) @ (if soft then [Is_Symbolic_Link] else []) @ out,
                        Some catalogRecord, s)))
              else if record_type catalogRecord = kHFSPlusFolderRecord
              then
                if check_mode modes HIModeListFolder
                then Some (Done ([Folder_Listing (folderID catalogRecord)], None, s))
                else Some (obind (show_record find_record spec s) (\<lambda>(out, s). Done (out, None, s)))
              else Some (Done ([Unknown_Type (record_type catalogRecord)], None, s)))"

abbreviation (input) kHFSFileRecord :: u16 where "kHFSFileRecord \<equiv> 0x0200"

text \<open>\<open>Done None\<close> is the exit for an empty path. A record of type 0x0200 is left for extraction too.\<close>

definition showPathInfo ::
  "(FSSpec \<Rightarrow> 's \<Rightarrow> (int \<times> buffer option \<times> 's) outcome) \<Rightarrow>
   (FSSpec \<Rightarrow> 's \<Rightarrow> (int \<times> (btnode \<times> u16) option \<times> 's) outcome) \<Rightarrow> u32 \<Rightarrow> nat \<Rightarrow> u8 list \<Rightarrow> 's \<Rightarrow>
   (shown list \<times> buffer option \<times> 's) option outcome option" where
  "showPathInfo lookup find_record modes fuel file_path s =
     (if file_path = [] then Some (Done None)
      else case HFSPlusGetCatalogInfoByPath lookup file_path s of
        Critical \<Rightarrow> Some Critical
      | Fault \<Rightarrow> Some Fault
      | Done (rc, r, s) \<Rightarrow>
          if rc < 0 then Some (Done (Some ([Not_Found], None, s)))
          else case r of None \<Rightarrow> Some Fault
          | Some (spec, catalogRecord) \<Rightarrow>
              (case showCatalogRecord lookup find_record modes fuel spec False s of
                 None \<Rightarrow> None
               | Some r \<Rightarrow> Some (obind (hfsuc_to_str (spec_name spec)) (\<lambda>_.
                   obind r (\<lambda>(out, file, s).
                     Done (Some (out, if record_type catalogRecord = kHFSFileRecord then Some catalogRecord else file, s)))))))"

section \<open>Extracting files\<close>

text \<open>
  The files that are written, by their paths. \<open>can_write\<close> says whether \<open>fopen\<close> opens a path for writing,
  which empties the file. \<open>deliver\<close> is what repeated calls of \<open>fread\<close> on the stream of a fork deliver.
\<close>

type_synonym path = "u8 list"
type_synonym files = "path \<Rightarrow> buffer option"

function copy_chunks :: "nat \<Rightarrow> buffer \<Rightarrow> buffer \<Rightarrow> buffer" where
  "copy_chunks chunkSize input out =
     (let got = take chunkSize input in
      if got = [] then out else copy_chunks chunkSize (drop chunkSize input) (out @ got))"
  by pat_completeness auto

termination
  by (relation "measure (\<lambda>(_, input, _). length input)") auto

declare copy_chunks.simps [simp del]

text \<open>\<open>Done None\<close> is the exit of \<open>die\<close>. The value returned is the offset, which stays 0.\<close>

definition extractFork ::
  "(path \<Rightarrow> bool) \<Rightarrow> (HFSPlusFork \<Rightarrow> buffer) \<Rightarrow> u64 \<Rightarrow> HFSPlusFork \<Rightarrow> path \<Rightarrow> files \<Rightarrow> (int \<times> files) option outcome" where
  "extractFork can_write deliver blockSize fork extractPath fs =
     (if \<not> can_write extractPath then Done None
      else Done (Some (0, fs(extractPath \<mapsto> copy_chunks (unat (blockSize * 256)) (deliver fork) []))))"

text \<open>
  The path of the resource fork is put into a buffer as large as \<open>sizeof(outputPath)\<close>, a pointer, and not
  used: both forks are extracted to the same path.
\<close>

definition extract_one ::
  "(HFSPlusFork \<Rightarrow> u64 \<Rightarrow> 's \<Rightarrow> (int \<times> (extent_record \<times> u32) option \<times> 's) outcome) \<Rightarrow> nat \<Rightarrow>
   (path \<Rightarrow> bool) \<Rightarrow> (HFSPlusFork \<Rightarrow> buffer) \<Rightarrow> u64 \<Rightarrow> u32 \<Rightarrow> HFSPlusForkData \<Rightarrow> u8 \<Rightarrow> path \<Rightarrow> files \<times> 's \<Rightarrow>
   (files \<times> 's) option outcome option" where
  "extract_one lookup fuel can_write deliver blockSize fileID forkData forktype extractPath = (\<lambda>(fs, s).
     case hfsfork_make lookup fuel forkData forktype fileID s of
       None \<Rightarrow> None
     | Some r \<Rightarrow> Some (obind r (\<lambda>(rc, fork, s).
         if rc < 0 then Done None
         else obind (extractFork can_write deliver blockSize fork extractPath fs) (\<lambda>r.
           case r of None \<Rightarrow> Done None
           | Some (sz, fs) \<Rightarrow> if sz < 0 then Done None else Done (Some (fs, s))))))"

definition extractHFSPlusCatalogFile ::
  "(HFSPlusFork \<Rightarrow> u64 \<Rightarrow> 's \<Rightarrow> (int \<times> (extent_record \<times> u32) option \<times> 's) outcome) \<Rightarrow> nat \<Rightarrow>
   (path \<Rightarrow> bool) \<Rightarrow> (HFSPlusFork \<Rightarrow> buffer) \<Rightarrow> u64 \<Rightarrow> buffer \<Rightarrow> path \<Rightarrow> files \<times> 's \<Rightarrow>
   (files \<times> 's) option outcome option" where
  "extractHFSPlusCatalogFile lookup fuel can_write deliver blockSize file extractPath fs =
     (let fileID = rd file (fld HFSPlusCatalogFile_t ''fileID'' 0);
          dataFork = file_fork ''dataFork'' file; resourceFork = file_fork ''resourceFork'' file in
      case (if logicalSize dataFork > 0
            then extract_one lookup fuel can_write deliver blockSize fileID dataFork HFSDataForkType extractPath fs
            else Some (Done (Some fs))) of
        Some (Done (Some fs)) \<Rightarrow>
          if logicalSize resourceFork > 0
          then
            if extractPath = [] then Some (Done None)
            else extract_one lookup fuel can_write deliver blockSize fileID resourceFork HFSResourceForkType extractPath fs
          else Some (Done (Some fs))
      | r \<Rightarrow> r)"

end
