(* ===== verification/Operations_Correct.thy ===== *)
theory Operations_Correct
  imports Operations
begin

text \<open>
  What the operations compute: which blocks \<open>showFreeSpace\<close> counts, the largest files of a summary, and
  what extracting a file with two forks leaves.
\<close>

section \<open>Modes\<close>

lemma check_mode_bit: "k < 32 \<Longrightarrow> check_mode modes k \<longleftrightarrow> bit modes k"
proof -
  assume k: "k < 32"
  have "modes AND push_bit k 1 = (if bit modes k then push_bit k 1 else 0)"
    by (rule bit_word_eqI) (auto simp: bit_simps)
  moreover have "push_bit k (1 :: u32) \<noteq> 0"
  proof
    assume "push_bit k (1 :: u32) = 0"
    then have "bit (push_bit k (1 :: u32)) k = bit (0 :: u32) k" by (rule arg_cong)
    with k show False by (simp add: bit_simps)
  qed
  ultimately show ?thesis by (simp add: check_mode_def)
qed

lemma mode_operations:
  assumes "j < 32" "k < 32"
  shows "check_mode (set_mode modes j) k \<longleftrightarrow> k = j \<or> check_mode modes k"
    and "check_mode (clear_mode modes j) k \<longleftrightarrow> k \<noteq> j \<and> check_mode modes k"
  using assms by (auto simp: check_mode_bit set_mode_def clear_mode_def bit_simps)

section \<open>Free space\<close>

text \<open>The invariant of the loop: the totals and the run so far.\<close>

definition counted :: "(nat \<Rightarrow> bool) \<Rightarrow> nat \<Rightarrow> free_count \<Rightarrow> bool" where
  "counted u k c \<longleftrightarrow>
     total_used c + (if run_used c then run_length c else 0) = length (filter u [0..<k]) \<and>
     total_free c + (if run_used c then 0 else run_length c) = length (filter (\<lambda>i. \<not> u i) [0..<k])"

lemma count_block_counted:
  assumes "counted u k c"
  shows "counted u (Suc k) (count_block n k (u k) c)"
  using assms by (auto simp: counted_def count_block_def)

lemma count_blocks_append:
  "count_blocks f n (xs @ ys) c = obind (count_blocks f n xs c) (count_blocks f n ys)"
proof (induction xs arbitrary: c)
  case (Cons x xs)
  then show ?case by (cases "f x") simp_all
qed simp

lemma count_blocks_prefix:
  assumes "\<forall>i < k. f i = Done (u i)"
  shows "\<exists>c. count_blocks f n [0..<k] free_count_init = Done c \<and> counted u k c"
  using assms
proof (induction k)
  case (Suc k)
  then obtain c where c: "count_blocks f n [0..<k] free_count_init = Done c" "counted u k c" by auto
  with Suc.prems show ?case by (simp add: count_blocks_append count_block_counted)
qed (simp add: counted_def free_count_init_def)

lemma count_blocks_totals:
  assumes "\<forall>i < n. f i = Done (u i)" "0 < n"
  shows "\<exists>c. count_blocks f n [0..<n] free_count_init = Done c \<and>
    total_used c = length (filter u [0..<n - 1]) \<and> total_free c = length (filter (\<lambda>i. \<not> u i) [0..<n - 1])"
proof -
  obtain c where c: "count_blocks f n [0..<n - 1] free_count_init = Done c" "counted u (n - 1) c"
    using count_blocks_prefix [of "n - 1" f u n] assms(1) by auto
  have "[0..<n] = [0..<n - 1] @ [n - 1]" using assms(2) by (cases n) simp_all
  with c assms have "count_blocks f n [0..<n] free_count_init = Done (count_block n (n - 1) (u (n - 1)) c)"
    by (simp add: count_blocks_append)
  with c(2) show ?thesis by (simp add: counted_def count_block_def)
qed

section \<open>The largest files\<close>

lemma compare_ranked [simp]: "compare_ranked_files a b \<le> 0 \<longleftrightarrow> fst a \<le> fst b"
  by (simp add: compare_ranked_files_def word_le_nat_alt)

lemma map_insert_ranked: "map fst (insert_ranked r xs) = insort (fst r) (map fst xs)"
  by (induction xs) auto

lemma map_sort_ranked: "map fst (sort_ranked rs) = sort (map fst rs)"
  by (induction rs) (simp_all add: sort_ranked_def map_insert_ranked)

lemma set_sort_ranked: "set (sort_ranked rs) = set rs"
proof -
  have "set (insert_ranked r xs) = insert r (set xs)" for r xs by (induction xs) auto
  then show ?thesis by (induction rs) (simp_all add: sort_ranked_def)
qed

lemma drop_insort:
  "sorted s \<Longrightarrow> n < length s \<Longrightarrow> drop (Suc n) (insort x s) = tl (insort (x :: 'a::linorder) (drop n s))"
proof (induction s arbitrary: n)
  case (Cons y s)
  show ?case
  proof (cases "x \<le> y")
    case True
    have "\<forall>z \<in> set (drop n (y # s)). x \<le> z"
      using Cons.prems(1) True by (auto dest!: in_set_dropD intro: order_trans)
    then have "insort x (drop n (y # s)) = x # drop n (y # s)" by (cases "drop n (y # s)") auto
    with True show ?thesis by simp
  next
    case False
    with Cons show ?thesis by (cases n) auto
  qed
qed simp

lemma tl_insort: "sorted l \<Longrightarrow> l \<noteq> [] \<Longrightarrow> tl (insort x l) = (if hd l < x then insort (x :: 'a::linorder) (tl l) else l)"
  by (cases l) auto

definition rank_all :: "rank list \<Rightarrow> rank list" where
  "rank_all files = fold (\<lambda>(sz, cnid). rank_file sz cnid) files (replicate 10 (0, 0))"

lemma rank_all_snoc: "rank_all (fs @ [(sz, c)]) = rank_file sz c (rank_all fs)"
  by (simp add: rank_all_def)

lemma rank_all_result:
  "map fst (rank_all files) = drop (length files) (sort (replicate 10 0 @ map fst files)) \<and>
   set (rank_all files) \<subseteq> insert (0, 0) (set files)"
proof (induction files rule: rev_induct)
  case Nil
  have "sort (replicate 10 (0 :: u64)) = replicate 10 0" by (rule sorted_sort_id) simp
  then show ?case by (auto simp: rank_all_def)
next
  case (snoc f files)
  obtain sz c where f: "f = (sz, c)" by force
  let ?s = "sort (replicate 10 0 @ map fst files)" and ?l = "rank_all files"
  have len: "length ?s = 10 + length files" by simp
  have l: "map fst ?l = drop (length files) ?s" using snoc by simp
  then have "length ?l = 10" using len by (metis add_diff_cancel_right' length_drop length_map)
  then have ne: "?l \<noteq> []" by auto
  have sorted: "sorted (map fst ?l)" unfolding l by (intro sorted_wrt_drop) simp
  have "sort (replicate 10 0 @ map fst (files @ [f])) = insort sz ?s"
    by (rule properties_for_sort) (simp_all add: f sorted_insort)
  then have "drop (length (files @ [f])) (sort (replicate 10 0 @ map fst (files @ [f]))) =
      tl (insort sz (map fst ?l))"
    using drop_insort [of ?s "length files" sz] len by (simp add: l)
  also have "\<dots> = map fst (rank_file sz c ?l)"
    using tl_insort [OF sorted, of sz] ne
    by (simp add: rank_file_def map_sort_ranked map_tl hd_map sorted_sort_id sorted_tl [OF sorted])
  finally have "map fst (rank_all (files @ [f])) =
      drop (length (files @ [f])) (sort (replicate 10 0 @ map fst (files @ [f])))"
    by (simp add: f rank_all_snoc)
  moreover have "set (rank_all (files @ [f])) \<subseteq> insert (0, 0) (set (files @ [f]))"
    using snoc list.set_sel(2) [OF ne] by (auto simp: f rank_all_snoc rank_file_def set_sort_ranked)
  ultimately show ?case by simp
qed

section \<open>Copies\<close>

lemma copy_chunks_all: "0 < n \<Longrightarrow> copy_chunks n input out = out @ input"
proof (induction n input out rule: copy_chunks.induct)
  case (1 n input out)
  show ?case
  proof (cases "input = []")
    case True
    then show ?thesis by (subst copy_chunks.simps) simp
  next
    case False
    with "1" have "copy_chunks n (drop n input) (out @ take n input) = (out @ take n input) @ drop n input" by simp
    with False "1.prems" show ?thesis by (subst copy_chunks.simps) (simp add: Let_def)
  qed
qed

section \<open>Counting extents\<close>

lemma count_extents_result:
  assumes "1 \<le> k" "k \<le> 8"
  shows "overflowExtentDescriptors (count_extents es k f) = overflowExtentDescriptors f + of_nat (length es) \<and>
    overflowExtentRecords (count_extents es k f) = overflowExtentRecords f + of_nat ((length es + k - 1) div 8)"
  using assms
proof (induction es arbitrary: k f)
  case (Cons e es)
  show ?case
  proof (cases "k = 8")
    case True
    have "(8 + length es) div 8 = Suc (length es div 8)" by simp
    then have "(of_nat ((8 + length es) div 8) :: u64) = 1 + of_nat (length es div 8)" by (simp only: of_nat_Suc)
    with True show ?thesis by (simp add: Cons.IH Let_def)
  next
    case False
    with Cons.prems show ?thesis by (simp add: Cons.IH Let_def)
  qed
qed simp

section \<open>Correctness\<close>

text \<open>
  C28. What \<open>showFreeSpace\<close> counts on a volume of \<open>n\<close> blocks whose allocation file has a bit for each: the
  used and the free ones among the first \<open>n - 1\<close>. The last block belongs to no run that is counted.
\<close>

theorem free_space_counts:
  assumes "0 < n" "n \<le> 8 * length data" "n < 2 ^ 32"
  shows "\<exists>c. count_blocks (\<lambda>i. BTIsBlockUsed (of_nat i) data (length data)) n [0..<n] free_count_init = Done c \<and>
    total_used c = length (filter (\<lambda>i. bit (data ! (i div 8)) (7 - i mod 8)) [0..<n - 1]) \<and>
    total_free c = length (filter (\<lambda>i. \<not> bit (data ! (i div 8)) (7 - i mod 8)) [0..<n - 1])"
proof -
  have "BTIsBlockUsed (of_nat i) data (length data) = Done (bit (data ! (i div 8)) (7 - i mod 8))" if "i < n" for i
  proof -
    have "unat (of_nat i :: u32) = i" using that assms(3) by (intro unat_of_nat_small) simp
    moreover have "i div 8 < length data" using that assms(2) by simp
    ultimately show ?thesis using BTIsBlockUsed_spec [of "of_nat i" data] by simp
  qed
  then show ?thesis using assms(1) by (intro count_blocks_totals) simp_all
qed

lemma free_space_counts_witness:
  "\<exists>c. count_blocks (\<lambda>i. BTIsBlockUsed (of_nat i) [0xC0] 1) 4 [0..<4] free_count_init = Done c \<and>
     total_used c = 2 \<and> total_free c = 1"
proof -
  have "[0..<3] = [0, 1, 2 :: nat]" by (simp add: upt_rec)
  moreover have "bit (0xC0 :: u8) 7" "bit (0xC0 :: u8) 6" "\<not> bit (0xC0 :: u8) 5" by (simp_all add: bit_simps)
  ultimately show ?thesis
    using free_space_counts [of 4 "[0xC0]"] by (simp del: upt_rec_numeral, simp only: numeral_2_eq_2)
qed

text \<open>
  C29. The table of the largest files that a summary keeps holds, in ascending order, the ten largest of
  the sizes that were entered (of zeros, while there are fewer than ten), and its entries are files that
  were entered, with their identifiers.
\<close>

theorem largest_files_correct:
  "map fst (rank_all files) = drop (length files) (sort (replicate 10 0 @ map fst files)) \<and>
   set (rank_all files) \<subseteq> insert (0, 0) (set files)"
  by (rule rank_all_result)

text \<open>
  Extracting a file that has data in both forks: both are written to the same path, the resource fork
  last, so that the file that is left holds the resource fork and nothing of the data fork.
\<close>

lemma extract_keeps_last_fork:
  assumes "logicalSize (file_fork ''dataFork'' file) > 0" "logicalSize (file_fork ''resourceFork'' file) > 0"
    and "hfsfork_make lookup fuel (file_fork ''dataFork'' file) HFSDataForkType
      (rd file (fld HFSPlusCatalogFile_t ''fileID'' 0)) s = Some (Done (0, f1, s1))"
    and "hfsfork_make lookup fuel (file_fork ''resourceFork'' file) HFSResourceForkType
      (rd file (fld HFSPlusCatalogFile_t ''fileID'' 0)) s1 = Some (Done (0, f2, s2))"
    and "can_write path" "path \<noteq> []" "blockSize * 256 \<noteq> 0"
  shows "extractHFSPlusCatalogFile lookup fuel can_write deliver blockSize file path (fs, s) =
    Some (Done (Some (fs(path \<mapsto> deliver f2), s2)))"
proof -
  have "0 < unat (blockSize * 256)" using assms(7) by (simp add: unat_gt_0)
  then show ?thesis
    using assms(1-6) by (simp add: extractHFSPlusCatalogFile_def extract_one_def extractFork_def copy_chunks_all Let_def)
qed

lemma file_fork_layout [layout]:
  "fld HFSPlusCatalogFile_t ''dataFork'' 0 = 88" "fld HFSPlusCatalogFile_t ''resourceFork'' 0 = 168"
  "fld HFSPlusForkData_t ''logicalSize'' p = p" "fld HFSPlusForkData_t ''totalBlocks'' p = p + 12"
proof -
  have "offsetof HFSPlusForkData_t ''logicalSize'' = 0" "offsetof HFSPlusForkData_t ''totalBlocks'' = 12" by code_simp+
  then show "fld HFSPlusForkData_t ''logicalSize'' p = p" "fld HFSPlusForkData_t ''totalBlocks'' p = p + 12"
    by (simp_all add: fld_def)
qed code_simp+

lemma extract_keeps_last_fork_witness:
  "extractHFSPlusCatalogFile (\<lambda>_ _ _. Fault) 1 (\<lambda>_. True) (\<lambda>f. if forkType f = HFSDataForkType then [5] else [7]) 4096
     (replicate 88 0 @ 1 # replicate 79 0 @ 1 # replicate 79 0) [120] (\<lambda>_. None, ()) = Some (Done (Some ([[120] \<mapsto> [7]], ())))"
proof -
  let ?file = "replicate 88 0 @ 1 # replicate 79 0 @ 1 # replicate 79 (0 :: u8)"
  let ?id = "rd ?file (fld HFSPlusCatalogFile_t ''fileID'' 0) :: u32"
  have f: "logicalSize (file_fork f ?file) = 1 \<and> totalBlocks (file_fork f ?file) = 0"
    if "f = ''dataFork'' \<or> f = ''resourceFork''" for f
  proof -
    have "(le_word (1 # replicate 7 0) :: u64) = 1" "(le_word (replicate 4 0) :: u32) = 0" by code_simp+
    with that show ?thesis
      by (auto simp: file_fork_def HFSPlusForkData_of_def layout rd_def chunk_def take_Cons')
  qed
  have made: "\<exists>l. hfsfork_make (\<lambda>_ _ _. Fault) 1 (file_fork f ?file) t ?id () =
      Some (Done (0, \<lparr>fork_logicalSize = 1, fork_totalBlocks = 0, fork_cnid = ?id, forkType = t,
        fork_first = extents (file_fork f ?file), fork_extents = l\<rparr>, ()))"
    if "f = ''dataFork'' \<or> f = ''resourceFork''" for f t
    using f [OF that] by (simp add: hfsfork_make_def hfsplus_extents_get_extentlist_for_fork_def)
  obtain l1 where m1: "hfsfork_make (\<lambda>_ _ _. Fault) 1 (file_fork ''dataFork'' ?file) HFSDataForkType ?id () =
      Some (Done (0, \<lparr>fork_logicalSize = 1, fork_totalBlocks = 0, fork_cnid = ?id, forkType = HFSDataForkType,
        fork_first = extents (file_fork ''dataFork'' ?file), fork_extents = l1\<rparr>, ()))"
    using made [OF disjI1 [OF refl], of HFSDataForkType] by (elim exE) (rule that)
  obtain l2 where m2: "hfsfork_make (\<lambda>_ _ _. Fault) 1 (file_fork ''resourceFork'' ?file) HFSResourceForkType ?id () =
      Some (Done (0, \<lparr>fork_logicalSize = 1, fork_totalBlocks = 0, fork_cnid = ?id, forkType = HFSResourceForkType,
        fork_first = extents (file_fork ''resourceFork'' ?file), fork_extents = l2\<rparr>, ()))"
    using made [OF disjI2 [OF refl], of HFSResourceForkType] by (elim exE) (rule that)
  have pos: "0 < logicalSize (file_fork ''dataFork'' ?file)" "0 < logicalSize (file_fork ''resourceFork'' ?file)"
    using f by (simp_all only: simp_thms) simp_all
  show ?thesis
    by (subst extract_keeps_last_fork [OF pos m1 m2]) simp_all
qed

end
