(* ===== verification/Output.thy ===== *)
theory Output
  imports Hfs_Prelude
begin

text \<open>
  Writing to the terminal, \<^verbatim>\<open>src/src/volumes/output.c\<close> and \<^verbatim>\<open>output.h\<close>: the context with its
  indentation, sections, attributes, and the formatting of sizes and numbers. A printer is a function on
  the screen (the context and what was written to standard output) and a state \<open>'s\<close> of its own. What
  \<open>printf\<close> writes for the conversions that the program uses is written out; text put into a local buffer
  that is too small for it is a fault. \<open>memstr\<close> and \<open>memdmp\<close> (\<^verbatim>\<open>vendor/memdmp\<close>, not part of the
  repository) and the locale's \<open>strftime\<close> are parameters. Quotients are kept exact.
\<close>

section \<open>Text\<close>

text \<open>The characters of a C string up to its terminator, and those of a list of bytes.\<close>

definition cstr :: "string \<Rightarrow> string" where
  "cstr s = takeWhile (\<lambda>c. c \<noteq> CHR 0x00) s"

definition chars :: "u8 list \<Rightarrow> string" where
  "chars bs = map (\<lambda>b. char_of (unat b)) bs"

definition strlcpy :: "nat \<Rightarrow> string \<Rightarrow> string" where
  "strlcpy n s = take (n - 1) (cstr s)"

text \<open>The conversions of \<open>printf\<close>.\<close>

definition digit_char :: "nat \<Rightarrow> char" where
  "digit_char d = (if d < 10 then char_of (48 + d) else char_of (87 + d))"

function digits :: "nat \<Rightarrow> nat \<Rightarrow> string" where
  "digits base n =
     (if n < base \<or> base < 2 then [digit_char n] else digits base (n div base) @ [digit_char (n mod base)])"
  by pat_completeness auto

termination
  by (relation "measure snd") auto

declare digits.simps [simp del]

definition pad_left :: "nat \<Rightarrow> char \<Rightarrow> string \<Rightarrow> string" where
  "pad_left n c s = replicate (n - length s) c @ s"

definition pad_right :: "nat \<Rightarrow> string \<Rightarrow> string" where
  "pad_right n s = s @ replicate (n - length s) (CHR '' '')"

definition dec :: "nat \<Rightarrow> string" where
  "dec n = digits 10 n"

definition dec_int :: "int \<Rightarrow> string" where
  "dec_int i = (if i < 0 then ''-'' @ dec (nat (- i)) else dec (nat i))"

definition oct6 :: "nat \<Rightarrow> string" where
  "oct6 n = pad_left 6 (CHR ''0'') (digits 8 n)"

definition alt_hex :: "nat \<Rightarrow> string" where
  "alt_hex n = (if n = 0 then ''0'' else ''0x'' @ digits 16 n)"

text \<open>\<open>%0.2f\<close> of a quotient: two decimals, rounded to the nearest, a tie to the even digit.\<close>

definition fixed2 :: "nat \<Rightarrow> nat \<Rightarrow> string" where
  "fixed2 num den =
     (let q = 100 * num div den; r = 100 * num mod den;
          n = (if den < 2 * r \<or> (den = 2 * r \<and> odd q) then q + 1 else q) in
      dec (n div 100) @ ''.'' @ pad_left 2 (CHR ''0'') (dec (n mod 100)))"

text \<open>
  A string that is itself passed as the format, with no argument for a conversion: \<open>%%\<close> stands for \<open>%\<close>,
  and any other conversion reads an argument that is not there.
\<close>

fun plain_format :: "string \<Rightarrow> string option" where
  "plain_format [] = Some []"
| "plain_format (c # cs) =
     (if c = CHR ''%''
      then (case cs of
          d # ds \<Rightarrow> if d = CHR ''%'' then map_option (\<lambda>s. CHR ''%'' # s) (plain_format ds) else None
        | [] \<Rightarrow> None)
      else map_option (\<lambda>s. c # s) (plain_format cs))"

section \<open>The context\<close>

record out_ctx =
  indent_level :: u32
  indent_step :: u32
  indent_string :: string
  ctx_prefix :: "string option"
  decimal_sizes :: bool

text \<open>The step that is asked for is not used.\<close>

definition OCMake :: "bool \<Rightarrow> u32 \<Rightarrow> string option \<Rightarrow> out_ctx" where
  "OCMake decimal step pre =
     \<lparr>indent_level = 0, indent_step = 2, indent_string = replicate 32 (CHR 0x00), ctx_prefix = pre,
      decimal_sizes = decimal\<rparr>"

definition OCSetIndentLevel :: "u32 \<Rightarrow> out_ctx \<Rightarrow> out_ctx" where
  "OCSetIndentLevel new_level c =
     (let n = (if unat new_level > 31 then 0 else unat new_level) in
      c\<lparr>indent_level := new_level, indent_string := (replicate 32 (CHR '' ''))[n := CHR 0x00]\<rparr>)"

record screen =
  scr_ctx :: out_ctx
  scr_out :: string

type_synonym 's printer = "screen \<times> 's \<Rightarrow> (screen \<times> 's) outcome"

record library =
  lib_memstr :: "nat \<Rightarrow> buffer \<Rightarrow> nat \<Rightarrow> int \<times> string"
  lib_memdmp :: "buffer \<Rightarrow> string"
  lib_strftime :: "u64 \<Rightarrow> string"

section \<open>Sections and attributes\<close>

abbreviation (input) newline :: char where "newline \<equiv> CHR 0x0A"

definition emit :: "string \<Rightarrow> 's printer" where
  "emit s = (\<lambda>(scr, x). Done (scr\<lparr>scr_out := scr_out scr @ s\<rparr>, x))"

definition Print :: "string \<Rightarrow> 's printer" where
  "Print s = (\<lambda>(scr, x). emit (cstr (indent_string (scr_ctx scr)) @ s @ [newline]) (scr, x))"

definition set_level :: "(out_ctx \<Rightarrow> u32) \<Rightarrow> 's printer" where
  "set_level f = (\<lambda>(scr, x). Done (scr\<lparr>scr_ctx := OCSetIndentLevel (f (scr_ctx scr)) (scr_ctx scr)\<rparr>, x))"

text \<open>\<open>vsprintf\<close> into the 255 bytes of \<open>str\<close>.\<close>

definition through_str :: "string \<Rightarrow> (string \<Rightarrow> 's printer) \<Rightarrow> 's printer" where
  "through_str s k = (\<lambda>x. if length s < 255 then k s x else Fault)"

definition BeginSection :: "string \<Rightarrow> 's printer" where
  "BeginSection title =
     steps [Print [], through_str title (\<lambda>str. Print (''# '' @ str)),
            set_level (\<lambda>c. indent_level c + indent_step c)]"

definition EndSection :: "'s printer" where
  "EndSection = (\<lambda>(scr, x).
     if indent_level (scr_ctx scr) > 0
     then set_level (\<lambda>c. indent_level c - min (indent_level c) (indent_step c)) (scr, x)
     else Done (scr, x))"

definition attribute_line :: "string option \<Rightarrow> string \<Rightarrow> string" where
  "attribute_line label str =
     (case label of
        None \<Rightarrow> pad_right 23 [] @ ''. '' @ str
      | Some l \<Rightarrow> if l = '' '' then pad_right 23 [] @ ''  '' @ str else pad_right 23 l @ ''= '' @ str)"

definition PrintAttribute :: "string option \<Rightarrow> string \<Rightarrow> 's printer" where
  "PrintAttribute label s = through_str s (\<lambda>str. Print (attribute_line label str))"

text \<open>The same with the text itself as the format.\<close>

definition PrintAttribute_format :: "string option \<Rightarrow> string \<Rightarrow> 's printer" where
  "PrintAttribute_format label s =
     (case plain_format s of None \<Rightarrow> (\<lambda>_. Fault) | Some s \<Rightarrow> PrintAttribute label s)"

text \<open>The macros that print a member, or a flag or constant if it is there.\<close>

definition PrintUI :: "string \<Rightarrow> u64 \<Rightarrow> 's printer" where
  "PrintUI label v = PrintAttribute (Some label) (dec (unat v))"

definition PrintUIOct :: "string \<Rightarrow> u32 \<Rightarrow> 's printer" where
  "PrintUIOct label v = PrintAttribute (Some label) (''0'' @ oct6 (unat v) @ '' ('' @ dec (unat v) @ '')'')"

definition PrintUIHex :: "string \<Rightarrow> u32 \<Rightarrow> 's printer" where
  "PrintUIHex label v = PrintAttribute (Some label) (alt_hex (unat v) @ '' ('' @ dec (unat v) @ '')'')"

definition PrintIntFlag :: "string \<Rightarrow> string \<Rightarrow> u64 \<Rightarrow> 's printer" where
  "PrintIntFlag label name v = PrintAttribute (Some label) (name @ '' ('' @ dec (unat v) @ '')'')"

definition PrintOctFlag :: "string \<Rightarrow> string \<Rightarrow> u32 \<Rightarrow> 's printer" where
  "PrintOctFlag label name v = PrintAttribute (Some label) (''0'' @ oct6 (unat v) @ '' ('' @ name @ '')'')"

definition PrintHexFlag :: "string \<Rightarrow> string \<Rightarrow> u32 \<Rightarrow> 's printer" where
  "PrintHexFlag label name v = PrintAttribute (Some label) (name @ '' ('' @ alt_hex (unat v) @ '')'')"

definition print_if :: "bool \<Rightarrow> 's printer \<Rightarrow> 's printer" where
  "print_if b p = (if b then p else Done)"

definition PrintUIFlagIfSet :: "string \<Rightarrow> u64 \<Rightarrow> string \<times> nat \<Rightarrow> 's printer" where
  "PrintUIFlagIfSet label source = (\<lambda>(name, flag).
     print_if (source AND push_bit flag 1 \<noteq> 0) (PrintIntFlag label name (of_nat flag)))"

definition PrintUIFlagIfMatch :: "string \<Rightarrow> u64 \<Rightarrow> string \<times> u64 \<Rightarrow> 's printer" where
  "PrintUIFlagIfMatch label source = (\<lambda>(name, mask).
     print_if (source AND mask \<noteq> 0) (PrintIntFlag label name mask))"

definition PrintUIOctFlagIfMatch :: "string \<Rightarrow> u32 \<Rightarrow> string \<times> u32 \<Rightarrow> 's printer" where
  "PrintUIOctFlagIfMatch label source = (\<lambda>(name, mask).
     print_if (source AND mask \<noteq> 0) (PrintOctFlag label name mask))"

definition PrintConstIfEqual :: "string \<Rightarrow> u64 \<Rightarrow> string \<times> u64 \<Rightarrow> 's printer" where
  "PrintConstIfEqual label source = (\<lambda>(name, c). print_if (source = c) (PrintIntFlag label name c))"

definition PrintConstOctIfEqual :: "string \<Rightarrow> u32 \<Rightarrow> string \<times> u32 \<Rightarrow> 's printer" where
  "PrintConstOctIfEqual label source = (\<lambda>(name, c). print_if (source = c) (PrintOctFlag label name c))"

definition PrintConstHexIfEqual :: "string \<Rightarrow> u32 \<Rightarrow> string \<times> u32 \<Rightarrow> 's printer" where
  "PrintConstHexIfEqual label source = (\<lambda>(name, c). print_if (source = c) (PrintHexFlag label name c))"

section \<open>Sizes and data\<close>

definition binaryNames :: "string list" where
  "binaryNames = [''bytes'', ''KiB'', ''MiB'', ''GiB'', ''TiB'', ''EiB'', ''PiB'', ''ZiB'', ''YiB'']"

definition decimalNames :: "string list" where
  "decimalNames = [''bytes'', ''KB'', ''MB'', ''GB'', ''TB'', ''EB'', ''PB'', ''ZB'', ''YB'']"

text \<open>The loop: what the value has been divided by, and how often.\<close>

function scale_size :: "nat \<Rightarrow> nat \<Rightarrow> nat \<Rightarrow> nat \<Rightarrow> nat \<times> nat" where
  "scale_size divisor v den count =
     (if count < 9 \<and> \<not> v < divisor * den then scale_size divisor v (den * divisor) (count + 1) else (den, count))"
  by pat_completeness auto

termination
  by (relation "measure (\<lambda>(_, _, _, count). 9 - count)") auto

declare scale_size.simps [simp del]

definition size_divisor :: "bool \<Rightarrow> nat" where
  "size_divisor decimal = (if decimal then 1000 else 1024)"

text \<open>\<open>snprintf\<close> cuts the text to the buffer. A count of nine reads behind the array of names.\<close>

definition format_size :: "bool \<Rightarrow> u64 \<Rightarrow> nat \<Rightarrow> string outcome" where
  "format_size decimal v len =
     (let (den, count) = scale_size (size_divisor decimal) (unat v) 1 0;
          names = (if decimal then decimalNames else binaryNames) in
      if count < length names then Done (take (len - 1) (fixed2 (unat v) den @ '' '' @ names ! count)) else Fault)"

definition format_blocks :: "bool \<Rightarrow> u64 \<Rightarrow> u64 \<Rightarrow> nat \<Rightarrow> string outcome" where
  "format_blocks decimal blocks block_size len =
     obind (format_size decimal (blocks * block_size) 50) (\<lambda>sizeLabel.
     Done (take (len - 1) (sizeLabel @ '' ('' @ dec (unat blocks) @ '' blocks)'')))"

definition format_uint_chars :: "buffer \<Rightarrow> string" where
  "format_uint_chars value = cstr (chars (rev value))"

text \<open>The formatters of numbers put the padding into a format; \<open>prefix\<close> is what it has before it.\<close>

definition format_uint :: "string \<Rightarrow> nat \<Rightarrow> u64 \<Rightarrow> u8 \<Rightarrow> nat \<Rightarrow> string" where
  "format_uint pre base v padding len =
     take (len - 1) (pre @ pad_left (unat padding) (CHR '' '') (digits base (unat v)))"

definition format_uint_oct :: "u64 \<Rightarrow> u8 \<Rightarrow> nat \<Rightarrow> string" where
  "format_uint_oct = format_uint ''0'' 8"

definition format_uint_dec :: "u64 \<Rightarrow> u8 \<Rightarrow> nat \<Rightarrow> string" where
  "format_uint_dec = format_uint [] 10"

definition format_uint_hex :: "u64 \<Rightarrow> u8 \<Rightarrow> nat \<Rightarrow> string" where
  "format_uint_hex = format_uint ''0x'' 16"

text \<open>A printer that looks at the context first.\<close>

definition with_size :: "u64 \<Rightarrow> (string \<Rightarrow> 's printer) \<Rightarrow> 's printer" where
  "with_size v k = (\<lambda>(scr, x). obind (format_size (decimal_sizes (scr_ctx scr)) v 50) (\<lambda>s. k s (scr, x)))"

definition PrintDataLength :: "string \<Rightarrow> u64 \<Rightarrow> 's printer" where
  "PrintDataLength label v = with_size v (\<lambda>decimalLabel.
     PrintAttribute (Some label)
       (if v > 1024 then decimalLabel @ '' ('' @ dec (unat v) @ '' bytes)'' else decimalLabel))"

definition VisualizeData :: "library \<Rightarrow> buffer \<Rightarrow> 's printer" where
  "VisualizeData lib data = emit (lib_memdmp lib data)"

definition PrintAttributeDump :: "library \<Rightarrow> string \<Rightarrow> buffer \<Rightarrow> 's printer" where
  "PrintAttributeDump lib label data = steps [PrintAttribute (Some label) [], VisualizeData lib data]"

text \<open>
  The digits of a value in pieces of \<open>segmentLength\<close>: \<open>strlcpy\<close> with the size of the piece keeps a
  character for the terminator.
\<close>

abbreviation (input) segmentLength :: nat where "segmentLength \<equiv> 32"

function raw_segments :: "nat \<Rightarrow> string \<Rightarrow> nat \<Rightarrow> string list" where
  "raw_segments len str i =
     (if i < len then strlcpy (min segmentLength (len - i)) (drop i str) # raw_segments len str (i + segmentLength)
      else [])"
  by pat_completeness auto

termination
  by (relation "measure (\<lambda>(len, _, i). len - i)") auto

declare raw_segments.simps [simp del]

fun print_segments :: "nat \<Rightarrow> string \<Rightarrow> string list \<Rightarrow> 's printer" where
  "print_segments base label [] = Done"
| "print_segments base label (s # ss) =
     (\<lambda>x. obind (PrintAttribute (Some label) ((if base = 16 then ''0x'' else []) @ s) x)
        (print_segments base [] ss))"

definition PrintRawAttribute :: "library \<Rightarrow> string \<Rightarrow> buffer \<Rightarrow> nat \<Rightarrow> 's printer" where
  "PrintRawAttribute lib label data base =
     (let msize = fst (lib_memstr lib base data 0) in
      if msize < 0 then Done
      else
        let (len, str) = lib_memstr lib base data (nat msize + 1) in
        if len < 0 then Done else print_segments base label (raw_segments (nat len) str 0))"

definition hex_of :: "library \<Rightarrow> buffer \<Rightarrow> string" where
  "hex_of lib data = (let (len, str) = lib_memstr lib 16 data 50 in if len < 0 then [] else cstr str)"

definition PrintUIChar :: "library \<Rightarrow> string \<Rightarrow> buffer \<Rightarrow> 's printer" where
  "PrintUIChar lib label data =
     PrintAttribute (Some label) (''0x'' @ hex_of lib data @ '' ('' @ format_uint_chars data @ '')'')"


section \<open>Sizes\<close>

lemma length_dec: "n < 10 ^ k \<Longrightarrow> 0 < k \<Longrightarrow> length (dec n) \<le> k"
  unfolding dec_def
proof (induction k arbitrary: n)
  case (Suc k)
  show ?case
  proof (cases "n < 10")
    case True
    then show ?thesis by (subst digits.simps) simp
  next
    case False
    then have "k \<noteq> 0" using Suc.prems by (cases k) auto
    moreover have "n div 10 < 10 ^ k" using Suc.prems by (simp add: less_mult_imp_div_less mult.commute)
    ultimately have "length (digits 10 (n div 10)) \<le> k" using Suc.IH by simp
    then show ?thesis using False by (subst digits.simps) simp
  qed
qed simp

lemma scale_size_result:
  assumes "2 \<le> d" "c \<le> 9" "c = 0 \<or> d ^ c \<le> v"
  shows "\<exists>k. scale_size d v (d ^ c) c = (d ^ k, k) \<and> k \<le> 9 \<and> (k = 0 \<or> d ^ k \<le> v) \<and> (k = 9 \<or> v < d ^ (k + 1))"
  using assms
proof (induction d v "d ^ c" c rule: scale_size.induct)
  case (1 d v c)
  show ?case
  proof (cases "c < 9 \<and> \<not> v < d * d ^ c")
    case True
    then have le: "d ^ (c + 1) \<le> v" by simp
    have "scale_size d v (d ^ c) c = scale_size d v (d ^ (c + 1)) (c + 1)"
      using True by (subst scale_size.simps) (simp add: mult.commute)
    moreover have "\<exists>k. scale_size d v (d ^ (c + 1)) (c + 1) = (d ^ k, k) \<and> k \<le> 9 \<and> (k = 0 \<or> d ^ k \<le> v) \<and>
        (k = 9 \<or> v < d ^ (k + 1))"
      by (rule 1(1)) (use True le 1(2,3) in \<open>auto simp: mult.commute\<close>)
    ultimately show ?thesis by simp
  next
    case False
    then have "scale_size d v (d ^ c) c = (d ^ c, c)" by (subst scale_size.simps) auto
    moreover from False 1(3) have "c = 9 \<or> v < d ^ (c + 1)" by auto
    ultimately show ?thesis using 1(3,4) by blast
  qed
qed

lemma size_divisor_ge: "1000 \<le> size_divisor decimal" "size_divisor decimal \<le> 1024"
  by (simp_all add: size_divisor_def)

lemma length_fixed2: "num < 1024 * den \<Longrightarrow> length (fixed2 num den) \<le> 7"
proof -
  assume *: "num < 1024 * den"
  define q r where "q = 100 * num div den" and "r = 100 * num mod den"
  define n where "n = (if den < 2 * r \<or> (den = 2 * r \<and> odd q) then q + 1 else q)"
  have "100 * num < 102400 * den" using * by simp
  then have "q < 102400" unfolding q_def by (rule less_mult_imp_div_less)
  then have "n < 1000000" by (simp add: n_def)
  then have "length (dec (n div 100)) \<le> 4" by (intro length_dec) auto
  moreover have "length (dec (n mod 100)) \<le> 2" by (rule length_dec) auto
  then have "length (pad_left 2 (CHR ''0'') (dec (n mod 100))) = 2" by (simp add: pad_left_def)
  moreover have "fixed2 num den = dec (n div 100) @ ''.'' @ pad_left 2 (CHR ''0'') (dec (n mod 100))"
    by (simp add: fixed2_def Let_def n_def q_def r_def)
  ultimately show ?thesis by simp
qed

lemma size_names:
  "length decimalNames = 9" "length binaryNames = 9" "k < 9 \<Longrightarrow> length (decimalNames ! k) \<le> 5"
  "k < 9 \<Longrightarrow> length (binaryNames ! k) \<le> 5"
  by (simp_all add: decimalNames_def binaryNames_def less_Suc_eq numeral_eq_Suc) auto

text \<open>The text of a size, which the fifty bytes of every buffer but one have room for.\<close>

definition size_text :: "bool \<Rightarrow> nat \<Rightarrow> nat \<Rightarrow> string" where
  "size_text decimal k v =
     fixed2 v (size_divisor decimal ^ k) @ '' '' @ (if decimal then decimalNames else binaryNames) ! k"

lemma format_size_text:
  obtains k where "k \<le> 6" "k = 0 \<or> size_divisor decimal ^ k \<le> unat v" "unat v < size_divisor decimal ^ (k + 1)"
    "length (size_text decimal k (unat v)) \<le> 13"
    "\<And>len. format_size decimal v len = Done (take (len - 1) (size_text decimal k (unat v)))"
proof -
  let ?d = "size_divisor decimal"
  obtain k where k: "scale_size ?d (unat v) (?d ^ 0) 0 = (?d ^ k, k)" "k \<le> 9" "k = 0 \<or> ?d ^ k \<le> unat v"
      "k = 9 \<or> unat v < ?d ^ (k + 1)"
    using scale_size_result [of ?d 0 "unat v"] size_divisor_ge(1) [of decimal] by auto
  have big: "unat v < ?d ^ 7"
  proof -
    have "unat v < 2 ^ 64" using unat_bound [of v] by simp
    also have "(2 :: nat) ^ 64 \<le> 1000 ^ 7" by simp
    also have "(1000 :: nat) ^ 7 \<le> ?d ^ 7" using size_divisor_ge(1) by (rule power_mono) simp
    finally show ?thesis .
  qed
  have k6: "k \<le> 6"
  proof (rule ccontr)
    assume "\<not> k \<le> 6"
    then have "?d ^ 7 \<le> ?d ^ k" using size_divisor_ge(1) [of decimal] by (intro power_increasing) auto
    with k(3) big \<open>\<not> k \<le> 6\<close> show False by auto
  qed
  then have lt: "unat v < ?d ^ (k + 1)" using k(4) by auto
  have "unat v < 1024 * ?d ^ k"
    using lt size_divisor_ge(2) [of decimal] by (auto intro: less_le_trans mult_right_mono)
  then have "length (fixed2 (unat v) (?d ^ k)) \<le> 7" by (rule length_fixed2)
  then have "length (size_text decimal k (unat v)) \<le> 13"
    using k6 size_names(3,4) [of k] by (auto simp: size_text_def)
  moreover have "format_size decimal v len = Done (take (len - 1) (size_text decimal k (unat v)))" for len
    using k(1) k6 by (simp add: format_size_def size_text_def size_names)
  ultimately show thesis using that k6 k(3) lt by blast
qed

text \<open>The units in their order, those of powers of 1000 with the letters that the program writes.\<close>

definition size_units :: "bool \<Rightarrow> string list" where
  "size_units decimal = (if decimal then [''bytes'', ''KB'', ''MB'', ''GB'', ''TB'', ''PB'', ''EB'']
     else [''bytes'', ''KiB'', ''MiB'', ''GiB'', ''TiB'', ''PiB'', ''EiB''])"

lemma size_text_units:
  "k \<le> 6 \<Longrightarrow> size_text decimal k v =
     fixed2 v (size_divisor decimal ^ k) @ '' '' @ size_units decimal ! (if k = 5 then 6 else if k = 6 then 5 else k)"
  by (auto simp: size_text_def size_units_def binaryNames_def decimalNames_def le_Suc_eq numeral_eq_Suc)

text \<open>
  C27. A size is shown as the quotient by the largest power of 1024 (or of 1000) that is not above it, for every
  64-bit value, followed by the unit of that power, except that the two largest units are exchanged: sizes from the
  fifth power on are called exbibytes (exabytes), and those from the sixth on pebibytes (petabytes). The text has
  at most thirteen characters, so that the buffer of 50 bytes that every caller passes holds it.
\<close>

theorem format_size_label:
  "\<exists>k \<le> 6. (k = 0 \<or> (if decimal then 1000 else 1024) ^ k \<le> unat v) \<and> unat v < (if decimal then 1000 else 1024) ^ (k + 1) \<and>
     (\<exists>text. format_size decimal v 50 = Done text \<and> length text \<le> 13 \<and>
       text = fixed2 (unat v) ((if decimal then 1000 else 1024) ^ k) @ '' '' @
         size_units decimal ! (if k = 5 then 6 else if k = 6 then 5 else k))"
proof -
  obtain k where k: "k \<le> 6" "k = 0 \<or> size_divisor decimal ^ k \<le> unat v" "unat v < size_divisor decimal ^ (k + 1)"
    "length (size_text decimal k (unat v)) \<le> 13" "format_size decimal v 50 = Done (take (50 - 1) (size_text decimal k (unat v)))"
    using format_size_text [of decimal v] by metis
  then show ?thesis
    using size_text_units [OF k(1), of decimal "unat v"] by (intro exI [of _ k]) (simp add: size_divisor_def)
qed

section \<open>The digits of raw values\<close>

lemma take_chunk: "take n (drop i s) = chunk i n s"
  by (simp add: chunk_def)

lemma raw_segments_from:
  assumes "CHR 0x00 \<notin> set str" "i = 32 * k"
  shows "raw_segments (length str) str i =
    map (\<lambda>j. butlast (chunk (32 * j) 32 str)) [k..<(length str + 31) div 32]"
  using assms
proof (induction "length str" str i arbitrary: k rule: raw_segments.induct)
  case (1 str i)
  show ?case
  proof (cases "i < length str")
    case True
    have nonul: "cstr (drop i str) = drop i str"
      unfolding cstr_def using 1(2) by (auto simp: takeWhile_eq_all_conv dest: in_set_dropD)
    have hd: "strlcpy (min 32 (length str - i)) (drop i str) = butlast (chunk i 32 str)"
      by (simp add: strlcpy_def nonul butlast_conv_take chunk_def min.commute)
    have "k < (length str + 31) div 32" using True 1(3) by auto
    then have "[k..<(length str + 31) div 32] = k # [Suc k..<(length str + 31) div 32]" by (rule upt_conv_Cons)
    moreover have "raw_segments (length str) str (i + 32) =
        map (\<lambda>j. butlast (chunk (32 * j) 32 str)) [Suc k..<(length str + 31) div 32]"
      by (rule 1(1)) (use True 1(2,3) in auto)
    ultimately show ?thesis using True hd 1(3) by (subst raw_segments.simps) simp
  next
    case False
    then have "\<not> k < (length str + 31) div 32" using 1(3) by auto
    with False show ?thesis by (subst raw_segments.simps) simp
  qed
qed

text \<open>
  The digits of a raw attribute are printed in segments of 32, each without its last digit: for text of any
  length the segments are the consecutive groups of 32 digits, cut by one, where all the digits are meant to be shown.
\<close>

lemma raw_attribute_loses_digits:
  assumes "CHR 0x00 \<notin> set str"
  shows "raw_segments (length str) str 0 =
    map (\<lambda>j. butlast (chunk (32 * j) 32 str)) [0..<(length str + 31) div 32]"
  by (rule raw_segments_from [OF assms]) simp

lemma raw_attribute_loses_digits_witness:
  "raw_segments (length ''101'') ''101'' 0 = [''10'']"
  using raw_attribute_loses_digits [of "''101''"] by (simp add: chunk_def upt_rec)

section \<open>Indentation\<close>

text \<open>
  The indentation that a level is shown with: a level behind the buffer is shown with none.
\<close>

definition indent_ok :: "out_ctx \<Rightarrow> bool" where
  "indent_ok c \<longleftrightarrow> cstr (indent_string c) =
     replicate (if unat (indent_level c) > 31 then 0 else unat (indent_level c)) (CHR '' '')"

definition room :: "nat \<Rightarrow> out_ctx \<Rightarrow> bool" where
  "room k c \<longleftrightarrow> unat (indent_level c) + k * unat (indent_step c) < 2 ^ 32"

definition same_indent :: "out_ctx \<Rightarrow> out_ctx \<Rightarrow> bool" where
  "same_indent c d \<longleftrightarrow> indent_level c = indent_level d \<and> indent_step c = indent_step d \<and>
     ctx_prefix c = ctx_prefix d \<and> decimal_sizes c = decimal_sizes d \<and>
     cstr (indent_string c) = cstr (indent_string d)"

text \<open>
  A printer that only adds to the output and leaves the indentation as it was, from any level that has
  room for \<open>k\<close> more.
\<close>

definition balanced :: "nat \<Rightarrow> 's printer \<Rightarrow> bool" where
  "balanced k p \<longleftrightarrow> (\<forall>scr x scr' x'. indent_ok (scr_ctx scr) \<and> room k (scr_ctx scr) \<and> p (scr, x) = Done (scr', x') \<longrightarrow>
     same_indent (scr_ctx scr) (scr_ctx scr') \<and> (\<exists>t. scr_out scr' = scr_out scr @ t))"

named_theorems balanced_rules \<open>printers that leave the indentation as it was\<close>

lemma same_indent_refl [simp]: "same_indent c c"
  by (simp add: same_indent_def)

lemma same_indent_trans: "same_indent c d \<Longrightarrow> same_indent d e \<Longrightarrow> same_indent c e"
  by (simp add: same_indent_def)

lemma same_indent_keeps: "same_indent c d \<Longrightarrow> indent_ok c = indent_ok d \<and> room k c = room k d"
  by (simp add: same_indent_def indent_ok_def room_def)

lemma balancedI:
  assumes "\<And>scr x scr' x'. indent_ok (scr_ctx scr) \<Longrightarrow> room k (scr_ctx scr) \<Longrightarrow> p (scr, x) = Done (scr', x') \<Longrightarrow>
    same_indent (scr_ctx scr) (scr_ctx scr') \<and> (\<exists>t. scr_out scr' = scr_out scr @ t)"
  shows "balanced k p"
  using assms unfolding balanced_def by blast

lemma balancedD:
  assumes "balanced k p" "p (scr, x) = Done (scr', x')" "indent_ok (scr_ctx scr)" "room k (scr_ctx scr)"
  shows "same_indent (scr_ctx scr) (scr_ctx scr')" "indent_ok (scr_ctx scr')" "room k (scr_ctx scr')"
    "\<exists>t. scr_out scr' = scr_out scr @ t"
  using assms same_indent_keeps unfolding balanced_def by blast+

lemma room_mono: "room l c \<Longrightarrow> k \<le> l \<Longrightarrow> room k c"
  unfolding room_def by (meson add_left_mono le_less_trans mult_le_mono1)

lemma balanced_mono: "balanced k p \<Longrightarrow> k \<le> l \<Longrightarrow> balanced l p"
  unfolding balanced_def using room_mono by blast

lemma balanced_obind:
  assumes p: "balanced k p" and q: "\<And>x. balanced k q"
  shows "balanced k (\<lambda>x. obind (p x) q)"
proof (rule balancedI)
  fix scr x scr'' x''
  assume ok: "indent_ok (scr_ctx scr)" "room k (scr_ctx scr)" and run: "obind (p (scr, x)) q = Done (scr'', x'')"
  then obtain scr' x' where 1: "p (scr, x) = Done (scr', x')" and 2: "q (scr', x') = Done (scr'', x'')"
    by (cases "p (scr, x)") auto
  note a = balancedD [OF p 1 ok]
  note b = balancedD [OF q 2 a(2,3)]
  from a(4) b(4) have "\<exists>t. scr_out scr'' = scr_out scr @ t" by auto
  with same_indent_trans [OF a(1) b(1)] show
    "same_indent (scr_ctx scr) (scr_ctx scr'') \<and> (\<exists>t. scr_out scr'' = scr_out scr @ t)" by simp
qed

lemma balanced_Done [balanced_rules]: "balanced k Done"
  by (rule balancedI) auto

lemma balanced_Fault [balanced_rules]: "balanced k (\<lambda>_. Fault)" "balanced k (\<lambda>_. Critical)"
  by (rule balancedI, simp)+

lemma balanced_steps: "(\<And>p. p \<in> set ps \<Longrightarrow> balanced k p) \<Longrightarrow> balanced k (steps ps)"
proof (induction ps)
  case Nil
  show ?case by (rule balancedI) auto
next
  case (Cons p ps)
  have eq: "steps (p # ps) = (\<lambda>x. obind (p x) (steps ps))" by (rule ext) simp
  show ?case unfolding eq by (rule balanced_obind) (use Cons in auto)
qed

lemma balanced_steps_Nil [balanced_rules]: "balanced k (steps [])"
  by (rule balanced_steps) simp

lemma balanced_steps_Cons [balanced_rules]:
  "balanced k p \<Longrightarrow> balanced k (steps ps) \<Longrightarrow> balanced k (steps (p # ps))"
proof -
  assume *: "balanced k p" "balanced k (steps ps)"
  have eq: "steps (p # ps) = (\<lambda>x. obind (p x) (steps ps))" by (rule ext) simp
  show ?thesis unfolding eq by (rule balanced_obind) (use * in auto)
qed

lemma balanced_map [balanced_rules]: "(\<And>x. balanced k (f x)) \<Longrightarrow> balanced k (steps (map f xs))"
  by (rule balanced_steps) auto

lemma balanced_emit [balanced_rules]: "balanced k (emit s)"
  by (rule balancedI) (auto simp: emit_def)

lemma balanced_Print [balanced_rules]: "balanced k (Print s)"
  by (rule balancedI) (auto simp: Print_def emit_def)

lemma balanced_through [balanced_rules]: "balanced k (p s) \<Longrightarrow> balanced k (through_str s p)"
  unfolding through_str_def balanced_def by (auto split: if_splits)

lemma balanced_if [balanced_rules]: "balanced k p \<Longrightarrow> balanced k q \<Longrightarrow> balanced k (if b then p else q)"
  by simp

lemma balanced_print_if [balanced_rules]: "balanced k p \<Longrightarrow> balanced k (print_if b p)"
  by (simp add: print_if_def balanced_Done)

lemma balanced_PrintAttribute [balanced_rules]: "balanced k (PrintAttribute label s)"
  unfolding PrintAttribute_def by (intro balanced_rules)

lemma balanced_PrintAttribute_format [balanced_rules]: "balanced k (PrintAttribute_format label s)"
  unfolding PrintAttribute_format_def by (cases "plain_format s") (auto intro: balanced_rules)

lemma balanced_with_size [balanced_rules]: "(\<And>s. balanced k (p s)) \<Longrightarrow> balanced k (with_size v p)"
proof (rule balancedI)
  fix scr x scr' x'
  assume p: "\<And>s. balanced k (p s)" and ok: "indent_ok (scr_ctx scr)" "room k (scr_ctx scr)"
    and run: "with_size v p (scr, x) = Done (scr', x')"
  then obtain s where "p s (scr, x) = Done (scr', x')" by (auto simp: with_size_def outcome_simps)
  from balancedD [OF p this ok] show
    "same_indent (scr_ctx scr) (scr_ctx scr') \<and> (\<exists>t. scr_out scr' = scr_out scr @ t)" by simp
qed

lemma balanced_members [balanced_rules]:
  "balanced k (PrintUI l v)" "balanced k (PrintUIOct l w)" "balanced k (PrintUIHex l w)"
  "balanced k (PrintIntFlag l n v)" "balanced k (PrintOctFlag l n w)" "balanced k (PrintHexFlag l n w)"
  "balanced k (PrintUIFlagIfSet l v a)" "balanced k (PrintUIFlagIfMatch l v b)"
  "balanced k (PrintUIOctFlagIfMatch l w c)" "balanced k (PrintConstIfEqual l v b)"
  "balanced k (PrintConstOctIfEqual l w c)" "balanced k (PrintConstHexIfEqual l w c)"
  "balanced k (PrintDataLength l v)"
  by (auto simp: PrintUI_def PrintUIOct_def PrintUIHex_def PrintIntFlag_def PrintOctFlag_def PrintHexFlag_def
      PrintUIFlagIfSet_def PrintUIFlagIfMatch_def PrintUIOctFlagIfMatch_def PrintConstIfEqual_def
      PrintConstOctIfEqual_def PrintConstHexIfEqual_def PrintDataLength_def
      split: prod.splits intro!: balanced_rules)

lemma balanced_segments [balanced_rules]: "balanced k (print_segments base label ss)"
proof (induction ss arbitrary: label)
  case Nil
  show ?case unfolding print_segments.simps by (rule balanced_Done)
next
  case (Cons s ss)
  show ?case unfolding print_segments.simps
    by (rule balanced_obind) (rule balanced_PrintAttribute, rule Cons)
qed

lemma balanced_data [balanced_rules]:
  "balanced k (PrintRawAttribute lib l d b)" "balanced k (VisualizeData lib d)"
  "balanced k (PrintUIChar lib l d)" "balanced k (PrintAttributeDump lib l d)"
  by (auto simp: PrintRawAttribute_def VisualizeData_def PrintUIChar_def PrintAttributeDump_def Let_def
      split: prod.splits intro!: balanced_rules)

text \<open>A section around the printers it holds.\<close>

lemma indent_ok_set: "indent_ok (OCSetIndentLevel n c)"
proof -
  define m where "m = (if unat n > 31 then 0 else unat n)"
  have m: "m < 32" by (simp add: m_def)
  have "(replicate 32 (CHR '' ''))[m := CHR 0x00] =
      replicate m (CHR '' '') @ CHR 0x00 # replicate (31 - m) (CHR '' '')"
    using m by (simp add: upd_conv_take_nth_drop)
  then have "cstr ((replicate 32 (CHR '' ''))[m := CHR 0x00]) = replicate m (CHR '' '')"
    by (simp add: cstr_def takeWhile_append)
  then show ?thesis by (simp add: indent_ok_def OCSetIndentLevel_def m_def)
qed

definition in_section :: "string \<Rightarrow> 's printer list \<Rightarrow> 's printer" where
  "in_section title ps = steps [BeginSection title, steps ps, EndSection]"

lemma BeginSection_result:
  assumes "BeginSection title (scr, x) = Done (scr', x')" "room (Suc k) (scr_ctx scr)"
  shows "room k (scr_ctx scr')" "indent_ok (scr_ctx scr')" "\<exists>t. scr_out scr' = scr_out scr @ t"
    "unat (indent_level (scr_ctx scr')) = unat (indent_level (scr_ctx scr)) + unat (indent_step (scr_ctx scr))"
    "indent_step (scr_ctx scr') = indent_step (scr_ctx scr)" "ctx_prefix (scr_ctx scr') = ctx_prefix (scr_ctx scr)"
    "decimal_sizes (scr_ctx scr') = decimal_sizes (scr_ctx scr)"
proof -
  have scr': "scr_ctx scr' = OCSetIndentLevel (indent_level (scr_ctx scr) + indent_step (scr_ctx scr)) (scr_ctx scr)"
    and out: "\<exists>t. scr_out scr' = scr_out scr @ t"
    using assms(1) by (auto simp: BeginSection_def through_str_def Print_def emit_def set_level_def split: if_splits)
  have lt: "unat (indent_level (scr_ctx scr)) + unat (indent_step (scr_ctx scr)) < 2 ^ 32"
    using assms(2) unfolding room_def by simp
  then have "unat (indent_level (scr_ctx scr) + indent_step (scr_ctx scr)) =
      unat (indent_level (scr_ctx scr)) + unat (indent_step (scr_ctx scr))"
    by (intro unat_plus) simp
  then show "unat (indent_level (scr_ctx scr')) = unat (indent_level (scr_ctx scr)) + unat (indent_step (scr_ctx scr))"
    and "room k (scr_ctx scr')"
    using assms(2) by (simp_all add: scr' OCSetIndentLevel_def room_def)
  show "indent_ok (scr_ctx scr')" by (simp add: scr' indent_ok_set)
  show "indent_step (scr_ctx scr') = indent_step (scr_ctx scr)" "ctx_prefix (scr_ctx scr') = ctx_prefix (scr_ctx scr)"
    "decimal_sizes (scr_ctx scr') = decimal_sizes (scr_ctx scr)"
    by (simp_all add: scr' OCSetIndentLevel_def)
  show "\<exists>t. scr_out scr' = scr_out scr @ t" by (rule out)
qed

lemma EndSection_result:
  assumes "EndSection (scr, x) = Done (scr', x')" "indent_ok (scr_ctx scr)"
  shows "indent_ok (scr_ctx scr')" "scr_out scr' = scr_out scr"
    "unat (indent_level (scr_ctx scr')) = unat (indent_level (scr_ctx scr)) - unat (indent_step (scr_ctx scr))"
    "indent_step (scr_ctx scr') = indent_step (scr_ctx scr)" "ctx_prefix (scr_ctx scr') = ctx_prefix (scr_ctx scr)"
    "decimal_sizes (scr_ctx scr') = decimal_sizes (scr_ctx scr)"
proof -
  let ?l = "indent_level (scr_ctx scr)" and ?s = "indent_step (scr_ctx scr)"
  have "unat (?l - min ?l ?s) = unat ?l - unat ?s"
    by (cases "?l \<le> ?s") (auto simp: min_def word_le_nat_alt unat_minus_le)
  moreover have "?l = 0" if "\<not> 0 < ?l" using that by (simp add: word_gt_0)
  ultimately show "unat (indent_level (scr_ctx scr')) = unat ?l - unat ?s"
    using assms(1) by (auto simp: EndSection_def set_level_def OCSetIndentLevel_def split: if_splits)
  show "indent_ok (scr_ctx scr')"
    using assms by (auto simp: EndSection_def set_level_def indent_ok_set split: if_splits)
  show "scr_out scr' = scr_out scr" "indent_step (scr_ctx scr') = ?s"
    "ctx_prefix (scr_ctx scr') = ctx_prefix (scr_ctx scr)" "decimal_sizes (scr_ctx scr') = decimal_sizes (scr_ctx scr)"
    using assms by (auto simp: EndSection_def set_level_def OCSetIndentLevel_def split: if_splits)
qed

lemma balanced_section [balanced_rules]:
  assumes "balanced k (steps ps)"
  shows "balanced (Suc k) (in_section title ps)"
proof (rule balancedI)
  fix scr x scr3 x3
  assume ok: "indent_ok (scr_ctx scr)" "room (Suc k) (scr_ctx scr)"
    and run: "in_section title ps (scr, x) = Done (scr3, x3)"
  then obtain scr1 x1 scr2 x2 where 1: "BeginSection title (scr, x) = Done (scr1, x1)"
    and 2: "steps ps (scr1, x1) = Done (scr2, x2)" and 3: "EndSection (scr2, x2) = Done (scr3, x3)"
    by (auto simp: in_section_def outcome_simps)
  note b = BeginSection_result [OF 1 ok(2)]
  note i = balancedD [OF assms 2 b(2,1)]
  note e = EndSection_result [OF 3 i(2)]
  have "unat (indent_level (scr_ctx scr3)) = unat (indent_level (scr_ctx scr))"
    using b(4,5) i(1) e(3) by (simp add: same_indent_def)
  then have lvl: "indent_level (scr_ctx scr3) = indent_level (scr_ctx scr)" by (simp add: word_unat_eq_iff)
  then have "same_indent (scr_ctx scr) (scr_ctx scr3)"
    using ok(1) e(1) b(5,6,7) i(1) e(4,5,6) by (simp add: same_indent_def indent_ok_def)
  moreover from b(3) i(4) e(2) have "\<exists>t. scr_out scr3 = scr_out scr @ t" by auto
  ultimately show "same_indent (scr_ctx scr) (scr_ctx scr3) \<and> (\<exists>t. scr_out scr3 = scr_out scr @ t)" by simp
qed

end
