(* ===== verification/Hfs_Output.thy ===== *)
theory Hfs_Output
  imports Output Operations
begin

text \<open>
  Printing the structures of a file system, \<^verbatim>\<open>src/src/hfs/output_hfs.c\<close> and \<^verbatim>\<open>src/src/hfsplus/journal.c\<close>: every
  structure is read from its bytes in memory with the layout of its type. What the functions call is in the
  environment: the name of an identifier (\<open>HFSPlusGetCNIDName\<close>), making a fork (\<open>hfsfork_make\<close>), and the
  block size of the volume that \<open>set_hfs_volume\<close> has set. \<open>env_uninit\<close> is the text, up to a terminator, that
  an uninitialised part of the stack happens to hold. Names are printed up to their terminator.
\<close>

section \<open>Members of structures\<close>

fun field_size :: "ctype \<Rightarrow> string \<Rightarrow> nat" where
  "field_size (CStruct fs) f = (case map_of fs f of Some t \<Rightarrow> sizeof t | None \<Rightarrow> 0)"
| "field_size _ f = 0"

definition member_bytes :: "ctype \<Rightarrow> buffer \<Rightarrow> nat \<Rightarrow> string \<Rightarrow> buffer" where
  "member_bytes t m p f = chunk (fld t f p) (field_size t f) m"

definition member :: "ctype \<Rightarrow> buffer \<Rightarrow> nat \<Rightarrow> string \<Rightarrow> u64" where
  "member t m p f = le_word (member_bytes t m p f)"

record 's hfs_env =
  env_lib :: library
  env_block_size :: u64
  env_name :: "u32 \<Rightarrow> 's \<Rightarrow> (int \<times> u8 list option \<times> 's) outcome"
  env_make :: "HFSPlusForkData \<Rightarrow> u8 \<Rightarrow> u32 \<Rightarrow> 's \<Rightarrow> (int \<times> HFSPlusFork \<times> 's) outcome"
  env_uninit :: string

text \<open>A call in the middle of printing, and memory that has to be there.\<close>

definition call :: "('s \<Rightarrow> ('a \<times> 'b \<times> 's) outcome) \<Rightarrow> ('a \<Rightarrow> 'b \<Rightarrow> 's printer) \<Rightarrow> 's printer" where
  "call f k = (\<lambda>(scr, s). obind (f s) (\<lambda>(a, b, s). k a b (scr, s)))"

definition reads :: "nat \<Rightarrow> nat \<Rightarrow> buffer \<Rightarrow> 's printer \<Rightarrow> 's printer" where
  "reads p n m k = (if fits p n m then k else (\<lambda>_. Fault))"

definition with_outcome :: "'a outcome \<Rightarrow> ('a \<Rightarrow> 's printer) \<Rightarrow> 's printer" where
  "with_outcome r k = (\<lambda>x. obind r (\<lambda>a. k a x))"

text \<open>A name as text, if its units are in memory.\<close>

definition with_name :: "u16 list \<Rightarrow> (string \<Rightarrow> 's printer) \<Rightarrow> 's printer" where
  "with_name units k = with_outcome (hfsuc_to_str units) (\<lambda>(_, str). k (cstr (chars str)))"

section \<open>Values\<close>

definition PrintCatalogName :: "'s hfs_env \<Rightarrow> string \<Rightarrow> u32 \<Rightarrow> 's printer" where
  "PrintCatalogName env label cnid =
     (let line = (\<lambda>name. PrintAttribute (Some label) (dec_int (sint cnid) @ '' ('' @ name @ '')'')) in
      if cnid \<noteq> 0
      then call (env_name env cnid) (\<lambda>_ name. line (case name of None \<Rightarrow> [] | Some str \<Rightarrow> cstr (chars str)))
      else line [])"

definition PrintHFSBlocks :: "'s hfs_env \<Rightarrow> string \<Rightarrow> u64 \<Rightarrow> 's printer" where
  "PrintHFSBlocks env label blocks = (\<lambda>(scr, s).
     obind (format_blocks (decimal_sizes (scr_ctx scr)) blocks (env_block_size env) 50) (\<lambda>sizeLabel.
     PrintAttribute_format (Some label) sizeLabel (scr, s)))"

abbreviation (input) MAC_GMT_FACTOR :: u64 where "MAC_GMT_FACTOR \<equiv> 2082844800"

definition format_hfs_timestamp :: "library \<Rightarrow> u32 \<Rightarrow> string" where
  "format_hfs_timestamp lib timestamp =
     lib_strftime lib (if ucast timestamp > MAC_GMT_FACTOR then ucast timestamp - MAC_GMT_FACTOR else 0)"

definition PrintHFSTimestamp :: "'s hfs_env \<Rightarrow> string \<Rightarrow> u32 \<Rightarrow> 's printer" where
  "PrintHFSTimestamp env label timestamp =
     PrintAttribute_format (Some label) (format_hfs_timestamp (env_lib env) timestamp)"

definition format_hfs_chars :: "buffer \<Rightarrow> string" where
  "format_hfs_chars value = cstr (chars (rev value))"

definition PrintHFSChar :: "'s hfs_env \<Rightarrow> string \<Rightarrow> buffer \<Rightarrow> 's printer" where
  "PrintHFSChar env label i =
     PrintAttribute (Some label) (''0x'' @ hex_of (env_lib env) i @ '' ('' @ format_hfs_chars i @ '')'')"

definition PrintHFSUniStr255 :: "string \<Rightarrow> u16 list \<Rightarrow> 's printer" where
  "PrintHFSUniStr255 label units = with_name units (\<lambda>name.
     PrintAttribute (Some label) ([CHR 0x22] @ name @ [CHR 0x22] @ '' ('' @ dec (length units) @ '')''))"

text \<open>The printers of the members of a structure of type \<open>t\<close> at address \<open>p\<close>.\<close>

definition ui :: "ctype \<Rightarrow> buffer \<Rightarrow> nat \<Rightarrow> string \<Rightarrow> 's printer" where
  "ui t m p f = PrintUI f (member t m p f)"

definition data_length :: "ctype \<Rightarrow> buffer \<Rightarrow> nat \<Rightarrow> string \<Rightarrow> 's printer" where
  "data_length t m p f = PrintDataLength f (member t m p f)"

definition raw :: "'s hfs_env \<Rightarrow> ctype \<Rightarrow> buffer \<Rightarrow> nat \<Rightarrow> string \<Rightarrow> nat \<Rightarrow> 's printer" where
  "raw env t m p f base = PrintRawAttribute (env_lib env) f (member_bytes t m p f) base"

definition hfs_char :: "'s hfs_env \<Rightarrow> ctype \<Rightarrow> buffer \<Rightarrow> nat \<Rightarrow> string \<Rightarrow> 's printer" where
  "hfs_char env t m p f = PrintHFSChar env f (member_bytes t m p f)"

definition timestamp :: "'s hfs_env \<Rightarrow> ctype \<Rightarrow> buffer \<Rightarrow> nat \<Rightarrow> string \<Rightarrow> 's printer" where
  "timestamp env t m p f = PrintHFSTimestamp env f (ucast (member t m p f))"

definition blocks_of :: "'s hfs_env \<Rightarrow> ctype \<Rightarrow> buffer \<Rightarrow> nat \<Rightarrow> string \<Rightarrow> 's printer" where
  "blocks_of env t m p f = PrintHFSBlocks env f (member t m p f)"

definition catalog_name :: "'s hfs_env \<Rightarrow> ctype \<Rightarrow> buffer \<Rightarrow> nat \<Rightarrow> string \<Rightarrow> 's printer" where
  "catalog_name env t m p f = PrintCatalogName env f (ucast (member t m p f))"

section \<open>Volumes\<close>

definition PrintHFSMasterDirectoryBlock :: "'s hfs_env \<Rightarrow> buffer \<Rightarrow> 's printer" where
  "PrintHFSMasterDirectoryBlock env vcb =
     (let t = HFSMasterDirectoryBlock_t in
      in_section ''HFS Master Directory Block''
       [hfs_char env t vcb 0 ''drSigWord'', timestamp env t vcb 0 ''drCrDate'', timestamp env t vcb 0 ''drLsMod'',
        raw env t vcb 0 ''drAtrb'' 2,
        steps (map (ui t vcb 0) [''drNmFls'', ''drVBMSt'', ''drAllocPtr'', ''drNmAlBlks'']),
        data_length t vcb 0 ''drAlBlkSiz'', data_length t vcb 0 ''drClpSiz'',
        steps (map (ui t vcb 0) [''drAlBlSt'', ''drNxtCNID'', ''drFreeBks'']),
        PrintAttribute (Some ''drVN'') (cstr (chars (chunk (fld t ''drVN'' 0) 31 vcb))),
        timestamp env t vcb 0 ''drVolBkUp'', ui t vcb 0 ''drVSeqNum'', ui t vcb 0 ''drWrCnt'',
        data_length t vcb 0 ''drXTClpSiz'', data_length t vcb 0 ''drCTClpSiz'',
        steps (map (ui t vcb 0) [''drNmRtDirs'', ''drFilCnt'', ''drDirCnt'']),
        steps (map (\<lambda>i. PrintUI (''drFndrInfo['' @ dec i @ '']'')
                 (ucast (rd vcb (elem C32 i (fld t ''drFndrInfo'' 0)) :: u32))) [0..<8]),
        hfs_char env t vcb 0 ''drEmbedSigWord'',
        PrintUI ''drEmbedExtent.startBlock'' (member HFSExtentDescriptor_t vcb (fld t ''drEmbedExtent'' 0) ''startBlock''),
        PrintUI ''drEmbedExtent.blockCount'' (member HFSExtentDescriptor_t vcb (fld t ''drEmbedExtent'' 0) ''blockCount'')])"

definition volume_attributes :: "(string \<times> u64) list" where
  "volume_attributes =
     [(''kHFSVolumeHardwareLockMask'', 0x80), (''kHFSVolumeUnmountedMask'', 0x100),
      (''kHFSVolumeSparedBlocksMask'', 0x200), (''kHFSVolumeNoCacheRequiredMask'', 0x400),
      (''kHFSBootVolumeInconsistentMask'', 0x800), (''kHFSCatalogNodeIDsReusedMask'', 0x1000),
      (''kHFSVolumeJournaledMask'', 0x2000), (''kHFSVolumeInconsistentMask'', 0x4000),
      (''kHFSVolumeSoftwareLockMask'', 0x8000), (''kHFSUnusedNodeFixMask'', 0x80000000),
      (''kHFSContentProtectionMask'', 0x40000000), (''kHFSMDBAttributesMask'', 0x8380)]"

definition text_encodings :: "(string \<times> nat) list" where
  "text_encodings =
     [(''kTextEncodingMacRoman'', 0), (''kTextEncodingMacJapanese'', 1), (''kTextEncodingMacChineseTrad'', 2),
      (''kTextEncodingMacKorean'', 3), (''kTextEncodingMacArabic'', 4), (''kTextEncodingMacHebrew'', 5),
      (''kTextEncodingMacGreek'', 6), (''kTextEncodingMacCyrillic'', 7), (''kTextEncodingMacDevanagari'', 9),
      (''kTextEncodingMacGurmukhi'', 10), (''kTextEncodingMacGujarati'', 11), (''kTextEncodingMacOriya'', 12),
      (''kTextEncodingMacBengali'', 13), (''kTextEncodingMacTamil'', 14), (''kTextEncodingMacTelugu'', 15),
      (''kTextEncodingMacKannada'', 16), (''kTextEncodingMacMalayalam'', 17), (''kTextEncodingMacSinhalese'', 18),
      (''kTextEncodingMacBurmese'', 19), (''kTextEncodingMacKhmer'', 20), (''kTextEncodingMacThai'', 21),
      (''kTextEncodingMacLaotian'', 22), (''kTextEncodingMacGeorgian'', 23), (''kTextEncodingMacArmenian'', 24),
      (''kTextEncodingMacChineseSimp'', 25), (''kTextEncodingMacTibetan'', 26), (''kTextEncodingMacMongolian'', 27),
      (''kTextEncodingMacEthiopic'', 28), (''kTextEncodingMacCentralEurRoman'', 29),
      (''kTextEncodingMacVietnamese'', 30), (''kTextEncodingMacExtArabic'', 31), (''kTextEncodingMacSymbol'', 33),
      (''kTextEncodingMacDingbats'', 34), (''kTextEncodingMacTurkish'', 35), (''kTextEncodingMacCroatian'', 36),
      (''kTextEncodingMacIcelandic'', 37), (''kTextEncodingMacRomanian'', 38)]"

section \<open>Forks\<close>

text \<open>
  The value of \<open>catalogBlocks\<close> is an \<open>int\<close>. Without extents the mean is the quotient of two zeros. The
  64-bit members are passed for \<open>%u\<close>, which takes their low 32 bits.
\<close>

abbreviation (input) pad12 :: "string \<Rightarrow> string" where "pad12 \<equiv> pad_left 12 (CHR '' '')"

definition low32 :: "u64 \<Rightarrow> string" where
  "low32 w = dec (unat (ucast w :: u32))"

definition mean_text :: "u32 \<Rightarrow> nat \<Rightarrow> string" where
  "mean_text tb n =
     (if n = 0 then ''-nan''
      else if sint tb < 0 then ''-'' @ fixed2 (nat (- sint tb)) n else fixed2 (nat (sint tb)) n)"

definition PrintExtentList :: "extent_list \<Rightarrow> u32 \<Rightarrow> 's printer" where
  "PrintExtentList list tb =
     (let catalogBlocks = foldl (\<lambda>n e. n + ucast (blockCount e)) (0 :: u32) list;
          all = sum_list (map (\<lambda>e. unat (blockCount e)) list);
          share = (\<lambda>n. if tb \<noteq> 0 then fixed2 (100 * n) (unat tb) else ''?'') in
      steps
       [PrintAttribute (Some ''extents'') (pad12 ''startBlock'' @ '' '' @ pad12 ''blockCount'' @ '' '' @ pad12 ''% of file''),
        steps (map (\<lambda>e. PrintAttribute (Some [])
          (pad12 (low32 (startBlock e)) @ '' '' @ pad12 (low32 (blockCount e)) @ '' '' @
           pad12 (share (unat (blockCount e))))) list),
        PrintAttribute_format (Some []) (replicate 38 (CHR ''-'')),
        PrintAttribute (Some [])
          ((if tb \<noteq> 0 then pad_left 4 (CHR '' '') (dec (length list)) @ '' extents '' else pad12 [] @ '' '') @
           pad12 (dec_int (sint catalogBlocks)) @ '' '' @ pad12 (share all)),
        PrintAttribute (Some []) (mean_text catalogBlocks (length list) @ '' blocks per extent on average.'')])"

definition PrintForkExtentsSummary :: "HFSPlusFork \<Rightarrow> 's printer" where
  "PrintForkExtentsSummary fork = PrintExtentList (fork_extents fork) (fork_totalBlocks fork)"

definition PrintHFSPlusForkData :: "'s hfs_env \<Rightarrow> HFSPlusForkData \<Rightarrow> u32 \<Rightarrow> u8 \<Rightarrow> 's printer" where
  "PrintHFSPlusForkData env fork cnid forktype =
     steps
      [if forktype = HFSDataForkType then PrintAttribute (Some ''fork'') ''data''
       else print_if (forktype = HFSResourceForkType) (PrintAttribute (Some ''fork'') ''resource''),
       if logicalSize fork = 0 then PrintAttribute (Some ''logicalSize'') ''(empty)''
       else steps
         [PrintDataLength ''logicalSize'' (logicalSize fork),
          PrintDataLength ''clumpSize'' (ucast (clumpSize fork)),
          PrintHFSBlocks env ''totalBlocks'' (ucast (totalBlocks fork)),
          print_if (totalBlocks fork \<noteq> 0)
            (call (env_make env fork forktype cnid) (\<lambda>rc hfsfork.
               if rc < 0 then (\<lambda>_. Critical) else PrintForkExtentsSummary hfsfork))]]"

definition fork_at :: "ctype \<Rightarrow> buffer \<Rightarrow> nat \<Rightarrow> string \<Rightarrow> HFSPlusForkData" where
  "fork_at t m p f = HFSPlusForkData_of m (fld t f p)"

text \<open>The section of the header is not ended.\<close>

definition PrintVolumeHeader :: "'s hfs_env \<Rightarrow> buffer \<Rightarrow> 's printer" where
  "PrintVolumeHeader env v =
     (let t = HFSPlusVolumeHeader_t; fi = HFSPlusVolumeFinderInfo_t; finderInfo = fld t ''finderInfo'' 0;
          fork = (\<lambda>title f cnid. in_section title [PrintHFSPlusForkData env (fork_at t v 0 f) cnid HFSDataForkType]) in
      steps
       [BeginSection ''HFS Plus Volume Header'',
        steps
         [hfs_char env t v 0 ''signature'', ui t v 0 ''version'', raw env t v 0 ''attributes'' 2,
          steps (map (PrintUIFlagIfMatch ''vh->attributes'' (member t v 0 ''attributes'')) volume_attributes),
          hfs_char env t v 0 ''lastMountedVersion'', ui t v 0 ''journalInfoBlock'',
          steps (map (timestamp env t v 0) [''createDate'', ''modifyDate'', ''backupDate'', ''checkedDate'']),
          ui t v 0 ''fileCount'', ui t v 0 ''folderCount'', data_length t v 0 ''blockSize'',
          blocks_of env t v 0 ''totalBlocks'', blocks_of env t v 0 ''freeBlocks'', ui t v 0 ''nextAllocation'',
          data_length t v 0 ''rsrcClumpSize'', data_length t v 0 ''dataClumpSize'',
          ui t v 0 ''nextCatalogID'', ui t v 0 ''writeCount'',
          raw env t v 0 ''encodingsBitmap'' 2,
          steps (map (PrintUIFlagIfSet ''vh->encodingsBitmap'' (member t v 0 ''encodingsBitmap'')) text_encodings),
          print_if (member t v 0 ''encodingsBitmap'' AND push_bit 49 1 \<noteq> 0)
            (PrintAttribute None ''kTextEncodingMacFarsi (49)''),
          print_if (member t v 0 ''encodingsBitmap'' AND push_bit 48 1 \<noteq> 0)
            (PrintAttribute None ''kTextEncodingMacUkrainian (48)''),
          in_section ''Finder Info''
           [steps (map (catalog_name env fi v finderInfo) [''bootDirID'', ''bootParentID'', ''openWindowDirID'', ''os9DirID'']),
            raw env fi v finderInfo ''reserved'' 2, catalog_name env fi v finderInfo ''osXDirID'',
            raw env fi v finderInfo ''volID'' 16],
          fork ''Allocation Bitmap File'' ''allocationFile'' kHFSAllocationFileID,
          fork ''Extents Overflow File'' ''extentsFile'' kHFSExtentsFileID,
          fork ''Catalog File'' ''catalogFile'' kHFSCatalogFileID,
          fork ''Attributes File'' ''attributesFile'' kHFSAttributesFileID,
          fork ''Startup File'' ''startupFile'' kHFSStartupFileID]])"


text \<open>
  \<open>success\<close> is the length of the name or -1. Of the Finder information only the first byte is copied.
  \<open>catalog\<close> is the comparison type in the header of the catalog tree, if there is a tree.
\<close>

definition bootable :: "buffer \<Rightarrow> bool" where
  "bootable v \<longleftrightarrow> (rd v (fld HFSPlusVolumeHeader_t ''finderInfo'' 0) :: u8) \<noteq> 0"

definition PrintVolumeInfo :: "'s hfs_env \<Rightarrow> buffer \<Rightarrow> u8 option \<Rightarrow> 's printer" where
  "PrintVolumeInfo env v catalog =
     (let signature = ucast (member HFSPlusVolumeHeader_t v 0 ''signature'') :: u16;
          version = dec (unat (member HFSPlusVolumeHeader_t v 0 ''version'')) in
      in_section
        (if signature = kHFSPlusSigWord then ''HFS+ Volume Format (v'' @ version @ '')''
         else if signature = kHFSXSigWord then ''HFSX Volume Format (v'' @ version @ '')''
         else ''Unknown Volume Format'')
        [call (env_name env kHFSRootFolderID) (\<lambda>success name.
           print_if (success \<noteq> 0)
             (PrintAttribute (Some ''volume name'') (case name of None \<Rightarrow> [] | Some str \<Rightarrow> cstr (chars str)))),
         if signature = kHFSXSigWord
         then (case catalog of None \<Rightarrow> (\<lambda>_. Fault)
               | Some compareType \<Rightarrow> PrintAttribute (Some ''case sensitivity'')
                   (if compareType = kHFSBinaryCompare then ''case sensitive'' else ''case insensitive''))
         else PrintAttribute (Some ''case sensitivity'') ''case insensitive'',
         PrintAttribute (Some ''bootable'') (if bootable v then ''yes'' else ''no'')])"

section \<open>Nodes\<close>

definition node_kinds :: "(string \<times> u64) list" where
  "node_kinds = [(''kBTLeafNode'', - 1), (''kBTIndexNode'', 0), (''kBTHeaderNode'', 1), (''kBTMapNode'', 2)]"

definition PrintBTNodeDescriptor :: "btnode \<Rightarrow> 's printer" where
  "PrintBTNodeDescriptor node =
     (let t = BTNodeDescriptor_t; m = node_data node in
      in_section ''Node Descriptor''
       [ui t m 0 ''fLink'', ui t m 0 ''bLink'',
        steps (map (PrintConstIfEqual ''node->kind'' (word_of_int (nd_kind node))) node_kinds),
        ui t m 0 ''height'', ui t m 0 ''numRecords'', ui t m 0 ''reserved''])"

definition tree_types :: "(string \<times> u64) list" where
  "tree_types = [(''kBTHFSTreeType'', 0), (''kBTUserTreeType'', 0xF0), (''kBTReservedTreeType'', 0xFF)]"

definition PrintBTHeaderRecord :: "'s hfs_env \<Rightarrow> buffer \<Rightarrow> nat \<Rightarrow> 's printer" where
  "PrintBTHeaderRecord env m p =
     (let t = BTHeaderRec_t in
      in_section ''Header Record''
       [steps (map (ui t m p) [''treeDepth'', ''rootNode'', ''leafRecords'', ''firstLeafNode'', ''lastLeafNode'']),
        data_length t m p ''nodeSize'',
        steps (map (ui t m p) [''maxKeyLength'', ''totalNodes'', ''freeNodes'', ''reserved1'']),
        data_length t m p ''clumpSize'',
        steps (map (PrintConstIfEqual ''hr->btreeType'' (member t m p ''btreeType'')) tree_types),
        steps (map (PrintConstHexIfEqual ''hr->keyCompareType'' (ucast (member t m p ''keyCompareType'')))
          [(''kHFSCaseFolding'', 0xCF), (''kHFSBinaryCompare'', 0xBC)]),
        raw env t m p ''attributes'' 2,
        steps (map (PrintUIFlagIfMatch ''hr->attributes'' (member t m p ''attributes''))
          [(''kBTBadCloseMask'', 1), (''kBTBigKeysMask'', 2), (''kBTVariableIndexKeysMask'', 4)])])"

section \<open>Modes and flags\<close>

text \<open>
  The eleven characters of a mode; the first one stays what it was if the mode has no known type.
\<close>

definition mode_types :: "(u16 \<times> char) list" where
  "mode_types = [(0x6000, CHR ''b''), (0x2000, CHR ''c''), (0x4000, CHR ''d''), (0x1000, CHR ''p''),
     (0x8000, CHR ''-''), (0xA000, CHR ''l''), (0xC000, CHR ''s'')]"

definition mode_bit :: "u16 \<Rightarrow> u16 \<Rightarrow> char \<Rightarrow> char" where
  "mode_bit mode msk c = (if mode AND msk \<noteq> 0 then c else CHR ''-'')"

definition mode_execute :: "u16 \<Rightarrow> u16 \<Rightarrow> u16 \<Rightarrow> char \<Rightarrow> char \<Rightarrow> char" where
  "mode_execute mode special execute upper lower =
     (if mode AND special \<noteq> 0 \<and> mode AND execute = 0 then upper
      else if mode AND special \<noteq> 0 \<and> mode AND execute \<noteq> 0 then lower
      else if mode AND special = 0 \<and> mode AND execute \<noteq> 0 then CHR ''x''
      else CHR ''-'')"

definition genModeString :: "char \<Rightarrow> u16 \<Rightarrow> string" where
  "genModeString before mode =
     [case map_of mode_types (mode AND 0xF000) of Some c \<Rightarrow> c | None \<Rightarrow> before,
      mode_bit mode 0x100 (CHR ''r''), mode_bit mode 0x80 (CHR ''w''),
      mode_execute mode 0x800 0x40 (CHR ''S'') (CHR ''s''),
      mode_bit mode 0x20 (CHR ''r''), mode_bit mode 0x10 (CHR ''w''),
      mode_execute mode 0x400 8 (CHR ''S'') (CHR ''s''),
      mode_bit mode 4 (CHR ''r''), mode_bit mode 2 (CHR ''w''),
      mode_execute mode 0x200 1 (CHR ''T'') (CHR ''t''),
      CHR 0x00]"

definition uninit_char :: "'s hfs_env \<Rightarrow> char" where
  "uninit_char env = (case env_uninit env of [] \<Rightarrow> CHR 0x00 | c # _ \<Rightarrow> c)"

definition bsd_flags :: "(u32 \<times> string) list" where
  "bsd_flags =
     [(0x1, ''no dump''), (0x2, ''immutable''), (0x4, ''appendOnly''), (0x8, ''directoryOpaque''), (0x20, ''compressed''),
      (0x40, ''tracked''), (0x8000, ''hidden''), (0x10000, ''archived (superuser)''),
      (0x20000, ''immutable (superuser)''), (0x40000, ''append (superuser)'')]"

text \<open>Each flag is compared with the one byte that is on disk.\<close>

definition print_bsd_flags :: "u8 \<Rightarrow> 's printer" where
  "print_bsd_flags flag = steps (map (\<lambda>(msk, name).
     print_if (ucast flag AND msk \<noteq> 0)
       (PrintAttribute None (pad_left 5 (CHR ''0'') (digits 8 (unat msk)) @ '' '' @ name))) bsd_flags)"

definition mode_formats :: "(string \<times> u32) list" where
  "mode_formats = [(''S_IFBLK'', 0x6000), (''S_IFCHR'', 0x2000), (''S_IFDIR'', 0x4000), (''S_IFIFO'', 0x1000),
     (''S_IFREG'', 0x8000), (''S_IFLNK'', 0xA000), (''S_IFSOCK'', 0xC000)]"

definition mode_permissions :: "(string \<times> u32) list" where
  "mode_permissions = [(''S_ISUID'', 0x800), (''S_ISGID'', 0x400), (''S_ISVTX'', 0x200),
     (''S_IRUSR'', 0x100), (''S_IWUSR'', 0x80), (''S_IXUSR'', 0x40), (''S_IRGRP'', 0x20), (''S_IWGRP'', 0x10),
     (''S_IXGRP'', 8), (''S_IROTH'', 4), (''S_IWOTH'', 2), (''S_IXOTH'', 1)]"

definition PrintHFSPlusBSDInfo :: "'s hfs_env \<Rightarrow> buffer \<Rightarrow> nat \<Rightarrow> 's printer" where
  "PrintHFSPlusBSDInfo env m p =
     (let t = HFSPlusBSDInfo_t; mode = ucast (member t m p ''fileMode'') :: u16 in
      steps
       [ui t m p ''ownerID'', ui t m p ''groupID'',
        PrintUIOct ''adminFlags'' (ucast (member t m p ''adminFlags'')),
        print_bsd_flags (ucast (member t m p ''adminFlags'')),
        PrintUIOct ''ownerFlags'' (ucast (member t m p ''ownerFlags'')),
        print_bsd_flags (ucast (member t m p ''ownerFlags'')),
        PrintAttribute_format (Some ''fileMode'') (cstr (genModeString (uninit_char env) mode)),
        PrintUIOct ''fileMode'' (ucast mode),
        steps (map (PrintConstOctIfEqual ''mode & S_IFMT'' (ucast (mode AND 0xF000))) mode_formats),
        steps (map (PrintUIOctFlagIfMatch ''mode'' (ucast mode)) mode_permissions),
        PrintUI ''special.linkCount'' (ucast (rd m (fld t ''special'' p) :: u32))])"

definition finder_flags :: "(string \<times> u64) list" where
  "finder_flags =
     [(''kIsOnDesk'', 0x1), (''kRequireSwitchLaunch'', 0x20), (''kColor'', 0xE), (''kIsShared'', 0x40),
      (''kHasNoINITs'', 0x80), (''kHasBeenInited'', 0x100), (''kHasCustomIcon'', 0x400), (''kIsStationery'', 0x800),
      (''kNameLocked'', 0x1000), (''kHasBundle'', 0x2000), (''kIsInvisible'', 0x4000), (''kIsAlias'', 0x8000)]"

definition PrintFinderFlags :: "u64 \<Rightarrow> 's printer" where
  "PrintFinderFlags record = steps (map (PrintUIFlagIfMatch ''record'' record) finder_flags)"

text \<open>Numbers of 16 bits passed for \<open>%u\<close>: a signed one is widened with its sign.\<close>

definition signed16 :: "buffer \<Rightarrow> nat \<Rightarrow> string" where
  "signed16 m p = dec (unat (scast (rd m p :: u16) :: u32))"

definition unsigned16 :: "buffer \<Rightarrow> nat \<Rightarrow> string" where
  "unsigned16 m p = dec (unat (rd m p :: u16))"

definition PrintFndrFileInfo :: "'s hfs_env \<Rightarrow> buffer \<Rightarrow> nat \<Rightarrow> 's printer" where
  "PrintFndrFileInfo env m p =
     (let t = FndrFileInfo_t; location = fld t ''fdLocation'' p in
      steps
       [hfs_char env t m p ''fdType'', hfs_char env t m p ''fdCreator'', raw env t m p ''fdFlags'' 2,
        PrintFinderFlags (member t m p ''fdFlags''),
        PrintAttribute (Some ''fdLocation'')
          (''('' @ signed16 m location @ '', '' @ signed16 m (location + 2) @ '')''),
        PrintUI ''opaque'' (scast (rd m (fld t ''opaque'' p) :: u16))])"

definition PrintFndrDirInfo :: "'s hfs_env \<Rightarrow> buffer \<Rightarrow> nat \<Rightarrow> 's printer" where
  "PrintFndrDirInfo env m p =
     (let t = FndrDirInfo_t; r = fld t ''frRect'' p; location = fld t ''frLocation'' p in
      steps
       [PrintAttribute (Some ''frRect'')
          (''('' @ signed16 m r @ '', '' @ signed16 m (r + 2) @ '', '' @ signed16 m (r + 4) @ '', '' @
           signed16 m (r + 6) @ '')''),
        raw env t m p ''frFlags'' 2, PrintFinderFlags (member t m p ''frFlags''),
        PrintAttribute (Some ''frLocation'')
          (''('' @ unsigned16 m location @ '', '' @ unsigned16 m (location + 2) @ '')''),
        PrintUI ''opaque'' (scast (rd m (fld t ''opaque'' p) :: u16))])"

section \<open>Records of the catalog\<close>

definition record_flags :: "(string \<times> u64) list" where
  "record_flags =
     [(''kHFSFileLockedMask'', 0x1), (''kHFSThreadExistsMask'', 0x2), (''kHFSHasAttributesMask'', 0x4),
      (''kHFSHasSecurityMask'', 0x8), (''kHFSHasFolderCountMask'', 0x10), (''kHFSHasLinkChainMask'', 0x20),
      (''kHFSHasChildLinkMask'', 0x40), (''kHFSHasDateAddedMask'', 0x80)]"

definition record_dates :: "string list" where
  "record_dates = [''createDate'', ''contentModDate'', ''attributeModDate'', ''accessDate'', ''backupDate'']"

text \<open>The flags of a folder are compared as a whole, those of a file one by one.\<close>

definition PrintHFSPlusCatalogFolder :: "'s hfs_env \<Rightarrow> buffer \<Rightarrow> nat \<Rightarrow> 's printer" where
  "PrintHFSPlusCatalogFolder env m p =
     (let t = HFSPlusCatalogFolder_t in
      reads p (sizeof t) m (steps
       [PrintAttribute (Some ''recordType'') ''kHFSPlusFolderRecord'',
        raw env t m p ''flags'' 2,
        steps (map (PrintConstIfEqual ''record->flags'' (member t m p ''flags'')) record_flags),
        ui t m p ''valence'', ui t m p ''folderID'', steps (map (timestamp env t m p) record_dates),
        PrintHFSPlusBSDInfo env m (fld t ''bsdInfo'' p),
        in_section ''Finder Info'' [PrintFndrDirInfo env m (fld t ''userInfo'' p)],
        ui t m p ''textEncoding'', ui t m p ''folderCount'']))"

definition PrintHFSPlusCatalogFile :: "'s hfs_env \<Rightarrow> buffer \<Rightarrow> nat \<Rightarrow> 's printer" where
  "PrintHFSPlusCatalogFile env m p =
     (let t = HFSPlusCatalogFile_t; resourceFork = fork_at t m p ''resourceFork'' in
      reads p (offsetof t ''resourceFork'' + 8) m (steps
       [PrintAttribute (Some ''recordType'') ''kHFSPlusFileRecord'',
        raw env t m p ''flags'' 2,
        steps (map (PrintUIFlagIfMatch ''record->flags'' (member t m p ''flags'')) record_flags),
        ui t m p ''reserved1'', ui t m p ''fileID'', steps (map (timestamp env t m p) record_dates),
        PrintHFSPlusBSDInfo env m (fld t ''bsdInfo'' p),
        in_section ''Finder Info'' [PrintFndrFileInfo env m (fld t ''userInfo'' p)],
        ui t m p ''textEncoding'', ui t m p ''reserved2'',
        in_section ''Data Fork''
          [PrintHFSPlusForkData env (fork_at t m p ''dataFork'') kHFSCatalogFileID HFSDataForkType],
        print_if (logicalSize resourceFork \<noteq> 0)
          (reads p (sizeof t) m (in_section ''Resource Fork''
            [PrintHFSPlusForkData env resourceFork kHFSCatalogFileID HFSResourceForkType]))]))"

definition PrintHFSPlusCatalogThread :: "buffer \<Rightarrow> nat \<Rightarrow> 's printer" where
  "PrintHFSPlusCatalogThread m p =
     (let t = HFSPlusCatalogThread_t; name = fld t ''nodeName'' p in
      reads p (offsetof t ''nodeName'') m (steps
       [PrintUI ''reserved'' (scast (rd m (fld t ''reserved'' p) :: u16)),
        ui t m p ''parentID'',
        if name_fits name m then PrintHFSUniStr255 ''nodeName'' (HFSUniStr255_of m name) else (\<lambda>_. Fault)]))"

definition PrintHFSPlusFolderThreadRecord :: "buffer \<Rightarrow> nat \<Rightarrow> 's printer" where
  "PrintHFSPlusFolderThreadRecord m p =
     steps [PrintAttribute (Some ''recordType'') ''kHFSPlusFolderThreadRecord'', PrintHFSPlusCatalogThread m p]"

definition PrintHFSPlusFileThreadRecord :: "buffer \<Rightarrow> nat \<Rightarrow> 's printer" where
  "PrintHFSPlusFileThreadRecord m p =
     steps [PrintAttribute (Some ''recordType'') ''kHFSPlusFileThreadRecord'', PrintHFSPlusCatalogThread m p]"

section \<open>Records of attributes and extents\<close>

definition PrintHFSPlusAttrForkData :: "'s hfs_env \<Rightarrow> buffer \<Rightarrow> nat \<Rightarrow> 's printer" where
  "PrintHFSPlusAttrForkData env m p =
     reads p (sizeof HFSPlusAttrForkData_t) m
       (PrintHFSPlusForkData env (fork_at HFSPlusAttrForkData_t m p ''theFork'') 0 0)"

definition PrintHFSPlusExtentRecord :: "buffer \<Rightarrow> nat \<Rightarrow> 's printer" where
  "PrintHFSPlusExtentRecord m p =
     reads p (8 * sizeof HFSPlusExtentDescriptor_t) m
       (PrintExtentList (extentlist_add_record extentlist_make (HFSPlusExtentRecord_of m p)) 0)"

definition PrintHFSPlusAttrExtents :: "buffer \<Rightarrow> nat \<Rightarrow> 's printer" where
  "PrintHFSPlusAttrExtents m p = PrintHFSPlusExtentRecord m (fld HFSPlusAttrExtents_t ''extents'' p)"

definition PrintHFSPlusAttrData :: "'s hfs_env \<Rightarrow> buffer \<Rightarrow> nat \<Rightarrow> 's printer" where
  "PrintHFSPlusAttrData env m p =
     (let t = HFSPlusAttrData_t; n = unat (member t m p ''attrSize''); d = fld t ''attrData'' p in
      reads p (offsetof t ''attrData'') m
       (steps [ui t m p ''attrSize'', reads d n m (VisualizeData (env_lib env) (chunk d n m))]))"

definition PrintHFSPlusAttrRecord :: "'s hfs_env \<Rightarrow> buffer \<Rightarrow> nat \<Rightarrow> 's printer" where
  "PrintHFSPlusAttrRecord env m p =
     (let recordType = rd m p :: u32; n = sizeof HFSPlusAttrRecord_t in
      reads p 4 m (steps
       [steps (map (PrintConstHexIfEqual ''record->recordType'' recordType)
          [(''kHFSPlusAttrInlineData'', kHFSPlusAttrInlineData), (''kHFSPlusAttrForkData'', kHFSPlusAttrForkData),
           (''kHFSPlusAttrExtents'', kHFSPlusAttrExtents)]),
        if recordType = kHFSPlusAttrInlineData then PrintHFSPlusAttrData env m p
        else if recordType = kHFSPlusAttrForkData then PrintHFSPlusAttrForkData env m p
        else if recordType = kHFSPlusAttrExtents then PrintHFSPlusAttrExtents m p
        else reads p n m (VisualizeData (env_lib env) (chunk p n m))]))"


section \<open>Keys\<close>

text \<open>
  The keys of the three trees, as a table or on one line. The rule of the table for catalog keys is not
  terminated: what the stack holds behind it is printed too, and if none of it is a terminator the text
  leaves its array.
\<close>

abbreviation (input) left :: "nat \<Rightarrow> nat \<Rightarrow> string" where "left n v \<equiv> pad_right n (dec v)"

definition rule_line :: "string \<Rightarrow> string" where
  "rule_line dashes = ''+'' @ dashes @ ''+''"

definition unterminated :: "'s hfs_env \<Rightarrow> nat \<Rightarrow> nat \<Rightarrow> string outcome" where
  "unterminated env filled capacity =
     (if filled + length (env_uninit env) < capacity then Done (replicate filled (CHR ''-'') @ env_uninit env)
      else Fault)"

definition table_row :: "string list \<Rightarrow> string" where
  "table_row cells = ''| '' @ concat (map (\<lambda>c. c @ '' | '') (butlast cells)) @ last cells @ '' |''"

definition VisualizeHFSPlusExtentKey :: "buffer \<Rightarrow> nat \<Rightarrow> string \<Rightarrow> bool \<Rightarrow> 's printer" where
  "VisualizeHFSPlusExtentKey m p label oneLine =
     (let v = (\<lambda>f. unat (member HFSPlusExtentKey_t m p f));
          rule = ''+-----------------------------------------------+'' in
      reads p (sizeof HFSPlusExtentKey_t) m
       (if oneLine
        then Print (label @ '': length:'' @ left 6 (v ''keyLength'') @ ''; fork:'' @ left 4 (v ''forkType'') @
          ''; pad:'' @ left 3 (v ''pad'') @ ''; fileID:'' @ left 10 (v ''fileID'') @
          ''; startBlock:'' @ left 10 (v ''startBlock''))
        else steps
         [Print label, Print rule,
          Print (table_row [pad_right 6 ''length'', pad_right 4 ''fork'', pad_right 3 ''pad'',
            pad_right 10 ''fileID'', pad_right 10 ''startBlock'']),
          Print (table_row [left 6 (v ''keyLength''), left 4 (v ''forkType''), left 3 (v ''pad''),
            left 10 (v ''fileID''), left 10 (v ''startBlock'')]),
          Print rule]))"

definition VisualizeHFSPlusCatalogKey :: "'s hfs_env \<Rightarrow> buffer \<Rightarrow> nat \<Rightarrow> string \<Rightarrow> bool \<Rightarrow> 's printer" where
  "VisualizeHFSPlusCatalogKey env m p label oneLine =
     (let key = HFSPlusCatalogKey_of m p; n = length (ck_nodeName key);
          kl = unat (ck_keyLength key); parent = unat (ck_parentID key) in
      reads p 6 m
       (if \<not> name_fits (fld HFSPlusCatalogKey_t ''nodeName'' p) m then (\<lambda>_. Fault)
        else with_name (ck_nodeName key) (\<lambda>name. steps
         [if oneLine
          then Print (label @ '': length:'' @ left 6 kl @ ''; parentID:'' @ left 10 parent @ ''; length:'' @ left 6 n @
            ''; nodeName:'' @ pad_right 50 name)
          else with_outcome (unterminated env 83 90) (\<lambda>dashes. steps
           [Print label, Print (rule_line dashes),
            Print (table_row [pad_right 6 ''length'', pad_right 10 ''parentID'', pad_right 6 ''length'', pad_right 50 ''nodeName'']),
            Print (table_row [left 6 kl, left 10 parent, left 6 n, pad_right 50 name]),
            Print (rule_line dashes)]),
          emit [newline]])))"

text \<open>The name of an attribute is copied into a name of 255 units.\<close>

definition VisualizeHFSPlusAttrKey :: "buffer \<Rightarrow> nat \<Rightarrow> string \<Rightarrow> bool \<Rightarrow> 's printer" where
  "VisualizeHFSPlusAttrKey m p label oneLine =
     (let t = HFSPlusAttrKey_t; n = unat (member t m p ''attrNameLen''); at = fld t ''attrName'' p;
          v = (\<lambda>f. unat (member t m p f)); dashes = replicate 96 (CHR ''-'') in
      reads p (offsetof t ''attrName'') m
       (if 255 < n \<or> \<not> fits at (2 * n) m then (\<lambda>_. Fault)
        else with_name (map (\<lambda>i. rd m (elem C16 i at)) [0..<n]) (\<lambda>name.
          if oneLine
          then Print (label @ '': length = '' @ left 6 (v ''keyLength'') @ ''; fileID = '' @ left 10 (v ''fileID'') @
            ''; startBlock = '' @ left 10 (v ''startBlock'') @ ''; length = '' @ left 6 n @
            ''; nodeName = '' @ pad_right 50 name)
          else steps
           [Print label, Print (rule_line dashes),
            Print (table_row [pad_right 6 ''length'', pad_right 10 ''fileID'', pad_right 10 ''startBlock'',
              pad_right 6 ''length'', pad_right 50 ''nodeName'']),
            Print (table_row [left 6 (v ''keyLength''), left 10 (v ''fileID''), left 10 (v ''startBlock''),
              left 6 n, pad_right 50 name]),
            Print (rule_line dashes)])))"

text \<open>A record with its key and its value; the rule is not terminated here either.\<close>

definition VisualizeHFSBTreeNodeRecord :: "'s hfs_env \<Rightarrow> string \<Rightarrow> btnode \<Rightarrow> u16 \<Rightarrow> 's printer" where
  "VisualizeHFSBTreeNodeRecord env label node recNum =
     with_outcome (BTGetBTNodeRecord node recNum) (\<lambda>record.
     with_outcome (unterminated env 57 60) (\<lambda>dashes.
       let m = node_data node; key = unat (rec_offset record); nkey = unat (min (recordLen record) (keyLen record));
           nvalue = unat (min (recordLen record) (valueLen record)) in
       steps
        [Print label, Print (rule_line dashes),
         Print (table_row [pad_right 9 ''record_id'', pad_right 6 ''offset'', pad_right 6 ''length'',
           pad_right 10 ''key_length'', pad_right 12 ''value_length'']),
         Print (table_row [left 9 (unat recNum), left 6 (unat (rec_offset record)), left 6 (unat (recordLen record)),
           left 10 (unat (keyLen record)), left 12 (unat (valueLen record))]),
         Print (rule_line dashes),
         Print ''Key data:'', reads key nkey m (VisualizeData (env_lib env) (chunk key nkey m)),
         Print ''Value data:'',
         reads (rec_value record) nvalue m (VisualizeData (env_lib env) (chunk (rec_value record) nvalue m))]))"

section \<open>Records of nodes\<close>

abbreviation (input) kHFSPlusAttrKeyMaximumLength :: nat where "kHFSPlusAttrKeyMaximumLength \<equiv> 266"
abbreviation (input) kHFSPlusAttrKeyMinimumLength :: nat where "kHFSPlusAttrKeyMinimumLength \<equiv> 12"

definition print_data :: "'s hfs_env \<Rightarrow> btnode \<Rightarrow> BTNodeRecord \<Rightarrow> 's printer" where
  "print_data env node record =
     (let p = unat (rec_offset record); n = unat (recordLen record) in
      reads p n (node_data node) (VisualizeData (env_lib env) (chunk p n (node_data node))))"

text \<open>The label \<open>INVALID_KEY\<close>.\<close>

definition invalid_key :: "'s hfs_env \<Rightarrow> btnode \<Rightarrow> BTNodeRecord \<Rightarrow> nat \<Rightarrow> 's printer" where
  "invalid_key env node record recordNumber =
     (if recordNumber + 1 = unat (nd_numRecords node) then PrintAttribute (Some ''recordType'') ''(free space)''
      else steps [PrintAttribute (Some ''recordType'') ''(unknown b-tree/record format)'', print_data env node record])"

definition print_index_extents :: "btnode \<Rightarrow> BTNodeRecord \<Rightarrow> nat \<Rightarrow> 's printer" where
  "print_index_extents node record recordNumber =
     (let m = node_data node; key = unat (rec_offset record); v = (\<lambda>f. unat (member HFSPlusExtentKey_t m key f)) in
      steps
       [print_if (recordNumber = 0) (steps
         [BeginSection ''Extent Tree Index Records'',
          Print (pad_right 3 ''#'' @ '' '' @ pad_right 12 ''Node ID'' @ '' '' @ pad_right 12 ''Key Length'' @ '' '' @
            pad_right 4 ''Fork'' @ ''   '' @ pad_right 12 ''File ID'' @ '' '' @ pad_right 12 ''Start Block'')]),
        reads (rec_value record) 4 m (reads key (sizeof HFSPlusExtentKey_t) m
         (Print (left 3 recordNumber @ '' '' @ left 12 (unat (rd m (rec_value record) :: u32)) @ '' '' @
           left 12 (v ''keyLength'') @ '' 0x'' @ pad_left 2 (CHR ''0'') (digits 16 (v ''forkType'')) @ ''   '' @
           left 12 (v ''fileID'') @ '' '' @ left 12 (v ''startBlock''))))])"

definition print_index_catalog :: "btnode \<Rightarrow> BTNodeRecord \<Rightarrow> nat \<Rightarrow> 's printer" where
  "print_index_catalog node record recordNumber =
     (let m = node_data node; p = unat (rec_offset record); key = HFSPlusCatalogKey_of m p in
      steps
       [print_if (recordNumber = 0) (steps
         [BeginSection ''Catalog Tree Index Records'',
          Print (pad_right 3 ''#'' @ '' '' @ pad_right 12 ''nodeID'' @ '' '' @ pad_right 5 ''kLen'' @ '' '' @
            pad_right 12 ''parentID'' @ '' nodeName'')]),
        reads (rec_value record) 4 m (reads p 6 m
         (if \<not> name_fits (fld HFSPlusCatalogKey_t ''nodeName'' p) m then (\<lambda>_. Fault)
          else with_name (ck_nodeName key) (\<lambda>name.
            Print (left 3 recordNumber @ '' '' @ left 12 (unat (rd m (rec_value record) :: u32)) @ '' '' @
              left 5 (unat (ck_keyLength key)) @ '' '' @ left 12 (unat (ck_parentID key)) @ '' '' @ name))))])"

definition print_header_record :: "'s hfs_env \<Rightarrow> btnode \<Rightarrow> BTNodeRecord \<Rightarrow> nat \<Rightarrow> 's printer" where
  "print_header_record env node record recordNumber =
     (let m = node_data node; p = unat (rec_offset record) in
      if recordNumber = 0
      then steps [PrintAttribute (Some ''recordType'') ''BTHeaderRec'',
             reads p (sizeof BTHeaderRec_t) m (PrintBTHeaderRecord env m p)]
      else if recordNumber = 1
      then steps [PrintAttribute (Some ''recordType'') ''userData (reserved)'', print_data env node record]
      else if recordNumber = 2
      then steps [PrintAttribute (Some ''recordType'') ''mapData'', print_data env node record]
      else Done)"

text \<open>The key of a record, and whether its length is one of a key of the tree.\<close>

definition print_key :: "'s hfs_env \<Rightarrow> u32 \<Rightarrow> btnode \<Rightarrow> BTNodeRecord \<Rightarrow> 's printer" where
  "print_key env tree node record =
     (let m = node_data node; p = unat (rec_offset record) in
      if tree = kHFSCatalogFileID then VisualizeHFSPlusCatalogKey env m p ''Catalog Key'' False
      else if tree = kHFSExtentsFileID then VisualizeHFSPlusExtentKey m p ''Extent Key'' False
      else if tree = kHFSAttributesFileID then VisualizeHFSPlusAttrKey m p ''Attributes Key'' False
      else Done)"

definition key_valid :: "u32 \<Rightarrow> BTNodeRecord \<Rightarrow> bool" where
  "key_valid tree record =
     (let n = unat (keyLen record) in
      if tree = kHFSCatalogFileID
      then Disk_Layout.kHFSPlusCatalogKeyMinimumLength \<le> n \<and> n \<le> kHFSPlusCatalogKeyMaximumLength
      else if tree = kHFSExtentsFileID then n = kHFSPlusExtentKeyMaximumLength + 2
      else tree = kHFSAttributesFileID \<and> kHFSPlusAttrKeyMinimumLength \<le> n \<and> n \<le> kHFSPlusAttrKeyMaximumLength)"

definition print_catalog_value :: "'s hfs_env \<Rightarrow> btnode \<Rightarrow> BTNodeRecord \<Rightarrow> 's printer" where
  "print_catalog_value env node record =
     (let m = node_data node; p = rec_value record; type = rd m p :: u16; n = unat (valueLen record) in
      reads p 2 m
       (if type = kHFSPlusFileRecord then PrintHFSPlusCatalogFile env m p
        else if type = kHFSPlusFolderRecord then PrintHFSPlusCatalogFolder env m p
        else if type = kHFSPlusFileThreadRecord then PrintHFSPlusFileThreadRecord m p
        else if type = kHFSPlusFolderThreadRecord then PrintHFSPlusFolderThreadRecord m p
        else steps [PrintAttribute (Some ''recordType'') (dec (unat type) @ '' (invalid)''),
               reads p n m (VisualizeData (env_lib env) (chunk p n m))]))"

definition print_keyed_record :: "'s hfs_env \<Rightarrow> u32 \<Rightarrow> btnode \<Rightarrow> BTNodeRecord \<Rightarrow> nat \<Rightarrow> 's printer" where
  "print_keyed_record env tree node record recordNumber =
     (let m = node_data node; p = rec_value record in
      steps
       [print_key env tree node record,
        if \<not> key_valid tree record then invalid_key env node record recordNumber
        else if nd_kind node = kBTIndexNode
        then reads p 4 m (PrintAttribute (Some ''nextNodeID'') (dec (unat (rd m p :: u32))))
        else if nd_kind node = kBTLeafNode
        then
          if tree = kHFSCatalogFileID then print_catalog_value env node record
          else if tree = kHFSExtentsFileID then PrintHFSPlusExtentRecord m p
          else PrintHFSPlusAttrRecord env m p
        else invalid_key env node record recordNumber])"

text \<open>
  \<open>tree\<close> is the number of the tree that the node belongs to. The section of an index node's records is
  begun with the first of them and not ended.
\<close>

definition PrintNodeRecord :: "'s hfs_env \<Rightarrow> u32 \<Rightarrow> btnode \<Rightarrow> nat \<Rightarrow> 's printer" where
  "PrintNodeRecord env tree node recordNumber =
     (if recordNumber \<ge> unat (nd_numRecords node) then Done
      else with_outcome (BTGetBTNodeRecord node (of_nat recordNumber)) (\<lambda>record.
        if recordLen record = 0 then Done
        else if nd_kind node = kBTIndexNode \<and> tree = kHFSExtentsFileID then print_index_extents node record recordNumber
        else if nd_kind node = kBTIndexNode \<and> tree = kHFSCatalogFileID then print_index_catalog node record recordNumber
        else in_section
          (''Record ID '' @ dec recordNumber @ '' ('' @ dec (recordNumber + 1) @ ''/'' @
           dec (unat (nd_numRecords node)) @ '') (length: '' @ dec (unat (recordLen record)) @ '') (Node '' @
           dec_int (sint (nodeNumber node)) @ '')'')
          [if nd_kind node = kBTHeaderNode then print_header_record env node record recordNumber
           else if nd_kind node = kBTMapNode
           then steps [PrintAttribute (Some ''recordType'') ''mapData'', print_data env node record]
           else print_keyed_record env tree node record recordNumber]))"

definition PrintNode :: "'s hfs_env \<Rightarrow> u32 \<Rightarrow> btnode \<Rightarrow> 's printer" where
  "PrintNode env tree node =
     in_section
       (''Node '' @ dec (unat (nodeNumber node)) @ '' (offset '' @
        dec (unat (nodeNumber node) * node_size node) @ ''; length: '' @ dec (node_size node) @ '')'')
       [PrintBTNodeDescriptor node,
        steps (map (PrintNodeRecord env tree node) [0..<unat (nd_numRecords node)])]"

text \<open>\<open>getNode\<close> is the function of the tree.\<close>

definition PrintTreeNode ::
  "'s hfs_env \<Rightarrow> (u32 \<Rightarrow> 's \<Rightarrow> (int \<times> btnode option \<times> 's) outcome) \<Rightarrow> u32 \<Rightarrow> u32 \<Rightarrow> 's printer" where
  "PrintTreeNode env getNode tree nodeID =
     call (getNode nodeID) (\<lambda>rc node.
       if rc < 0 then Done
       else case node of None \<Rightarrow> Print ''(unused node)'' | Some node \<Rightarrow> PrintNode env tree node)"

section \<open>The journal\<close>

definition journal_flags :: "(string \<times> u64) list" where
  "journal_flags = [(''kJIJournalInFSMask'', 1), (''kJIJournalOnOtherDeviceMask'', 2), (''kJIJournalNeedInitMask'', 4)]"

text \<open>
  Both texts are passed as formats. \<open>strlcpy\<close> looks for the terminator of each in the bytes behind it too, up to the
  end of the block at least.
\<close>

definition PrintJournalInfoBlock :: "'s hfs_env \<Rightarrow> buffer \<Rightarrow> 's printer" where
  "PrintJournalInfoBlock env m =
     (let t = JournalInfoBlock_t;
          text = (\<lambda>f n. let s = chars (drop (fld t f 0) m) in
            if CHR 0x00 \<in> set s then PrintAttribute_format (Some f) (strlcpy n s) else (\<lambda>_. Fault)) in
      in_section ''Journal Info Block''
       [raw env t m 0 ''flags'' 2,
        steps (map (PrintUIFlagIfMatch ''record->flags'' (member t m 0 ''flags'')) journal_flags),
        PrintRawAttribute (env_lib env) ''device_signature'' (chunk (fld t ''device_signature'' 0) 32 m) 16,
        data_length t m 0 ''offset'', data_length t m 0 ''size'',
        text ''ext_jnl_uuid'' 38, text ''machine_serial_num'' 49])"

text \<open>The members of 32 bits are signed, apart from the last.\<close>

definition PrintJournalHeader :: "'s hfs_env \<Rightarrow> buffer \<Rightarrow> 's printer" where
  "PrintJournalHeader env m =
     (let t = journal_header_t; signed = (\<lambda>f. scast (rd m (fld t f 0) :: u32) :: u64) in
      in_section ''Journal Header''
       [PrintUIChar (env_lib env) ''magic'' (member_bytes t m 0 ''magic''),
        PrintUIHex ''endian'' (ucast (member t m 0 ''endian'')),
        ui t m 0 ''start'', ui t m 0 ''end'', data_length t m 0 ''size'',
        PrintDataLength ''blhdr_size'' (signed ''blhdr_size''),
        PrintUIHex ''checksum'' (ucast (member t m 0 ''checksum'')),
        PrintDataLength ''jhdr_size'' (signed ''jhdr_size''),
        ui t m 0 ''sequence_num''])"

end
