(* ===== verification/Folder_Listing.thy ===== *)
theory Folder_Listing
  imports Hfs_Output
begin

text \<open>
  The listing of a folder, \<open>PrintFolderListing\<close> in \<^verbatim>\<open>src/src/hfs/output_hfs.c\<close>: the records that follow the
  thread record of the folder in the leaves of the catalog are printed while their parent is the folder. The
  lemmas show which records are listed and what is counted.
\<close>

section \<open>Entries\<close>

text \<open>A record of a leaf: the data of its node, and the addresses of its key and its value.\<close>

type_synonym entry = "buffer \<times> nat \<times> nat"

definition entry_key :: "entry \<Rightarrow> HFSPlusCatalogKey" where
  "entry_key = (\<lambda>(m, k, v). HFSPlusCatalogKey_of m k)"

definition entry_record :: "entry \<Rightarrow> buffer" where
  "entry_record = (\<lambda>(m, k, v). drop v m)"

record folder_stats =
  st_fileCount :: u64
  st_folderCount :: u64
  st_hardLinkCount :: u64
  st_symlinkCount :: u64
  st_dataForkCount :: u64
  st_dataForkSize :: u64
  st_rsrcForkCount :: u64
  st_rsrcForkSize :: u64

definition folder_stats_zero :: folder_stats where
  "folder_stats_zero = \<lparr>st_fileCount = 0, st_folderCount = 0, st_hardLinkCount = 0, st_symlinkCount = 0,
     st_dataForkCount = 0, st_dataForkSize = 0, st_rsrcForkCount = 0, st_rsrcForkSize = 0\<rparr>"

datatype kind = Dir_Link | Hard_Link | Symlink | Folder | File

fun kind_name :: "kind \<Rightarrow> string" where
  "kind_name Dir_Link = ''dir link''"
| "kind_name Hard_Link = ''hard link''"
| "kind_name Symlink = ''symlink''"
| "kind_name Folder = ''folder''"
| "kind_name File = ''file''"

definition entry_kind :: "buffer \<Rightarrow> kind" where
  "entry_kind r =
     (if HFSPlusCatalogFolderIsHardLink r then Dir_Link
      else if HFSPlusCatalogFileIsHardLink r then Hard_Link
      else if HFSPlusCatalogRecordIsSymLink r then Symlink
      else if record_type r = kHFSPlusFolderRecord then Folder
      else File)"

fun count_kind :: "kind \<Rightarrow> folder_stats \<Rightarrow> folder_stats" where
  "count_kind Dir_Link st = st\<lparr>st_hardLinkCount := st_hardLinkCount st + 1\<rparr>"
| "count_kind Hard_Link st = st\<lparr>st_hardLinkCount := st_hardLinkCount st + 1\<rparr>"
| "count_kind Symlink st = st\<lparr>st_symlinkCount := st_symlinkCount st + 1\<rparr>"
| "count_kind Folder st = st\<lparr>st_folderCount := st_folderCount st + 1\<rparr>"
| "count_kind File st = st\<lparr>st_fileCount := st_fileCount st + 1\<rparr>"

definition count_forks :: "buffer \<Rightarrow> folder_stats \<Rightarrow> folder_stats" where
  "count_forks r st =
     (let d = file_fork ''dataFork'' r; f = file_fork ''resourceFork'' r;
          st = (if totalBlocks d > 0
                then st\<lparr>st_dataForkCount := st_dataForkCount st + 1,
                        st_dataForkSize := st_dataForkSize st + logicalSize d\<rparr> else st) in
      if totalBlocks f > 0
      then st\<lparr>st_rsrcForkCount := st_rsrcForkCount st + 1,
              st_rsrcForkSize := st_rsrcForkSize st + logicalSize f\<rparr> else st)"

definition listed :: "buffer \<Rightarrow> bool" where
  "listed r \<longleftrightarrow> record_type r = kHFSPlusFileRecord \<or> record_type r = kHFSPlusFolderRecord"

definition count_entry :: "buffer \<Rightarrow> folder_stats \<Rightarrow> folder_stats" where
  "count_entry r st =
     (if \<not> listed r then st
      else let st = count_kind (entry_kind r) st in
        if record_type r = kHFSPlusFileRecord then count_forks r st else st)"

text \<open>
  The size of a fork in the column: \<open>format_size\<close> is told that the buffer has fifty bytes; it has twenty.
\<close>

definition size_column :: "bool \<Rightarrow> HFSPlusForkData \<Rightarrow> string outcome" where
  "size_column decimal d =
     (if logicalSize d = 0 then Done ''-''
      else obind (format_size decimal (logicalSize d) 50) (\<lambda>s. if length s < 20 then Done s else Fault))"

definition columns :: "string list \<Rightarrow> string" where
  "columns cells = concat (map (\<lambda>(n, c). pad_right n c @ '' '') (zip [9, 10, 10, 9, 9, 15, 15] cells)) @ last cells"

text \<open>
  The line of an entry. Files and folders have the identifier and the owner at the same place; the members
  of a fork are those of a file.
\<close>

definition entry_line :: "'s hfs_env \<Rightarrow> bool \<Rightarrow> entry \<Rightarrow> string outcome" where
  "entry_line env decimal e =
     (let r = entry_record e; key = entry_key e; bsd = fld HFSPlusCatalogFile_t ''bsdInfo'' 0;
          size = (\<lambda>f. if record_type r = kHFSPlusFileRecord then size_column decimal (file_fork f r) else Done ''-'') in
      if \<not> fits 0 (sizeof (if record_type r = kHFSPlusFileRecord then HFSPlusCatalogFile_t else HFSPlusCatalogFolder_t)) r
         \<or> \<not> name_fits (fst (snd e) + 6) (fst e)
      then Fault
      else
        obind (hfsuc_to_str (ck_nodeName key)) (\<lambda>(_, name).
        obind (size ''dataFork'') (\<lambda>dataSize.
        obind (size ''resourceFork'') (\<lambda>rsrcSize.
          Done (columns
            [dec (unat (rd r (fld HFSPlusCatalogFile_t ''fileID'' 0) :: u32)), kind_name (entry_kind r),
             cstr (genModeString (uninit_char env) (ucast (member HFSPlusBSDInfo_t r bsd ''fileMode''))),
             dec_int (sint (ucast (member HFSPlusBSDInfo_t r bsd ''ownerID'') :: u32)),
             dec_int (sint (ucast (member HFSPlusBSDInfo_t r bsd ''groupID'') :: u32)),
             dataSize, rsrcSize, cstr (chars name)])))))"

definition print_entry :: "'s hfs_env \<Rightarrow> entry \<Rightarrow> 's printer" where
  "print_entry env e = (\<lambda>(scr, s).
     if \<not> fits 0 2 (entry_record e) then Fault
     else if listed (entry_record e)
     then obind (entry_line env (decimal_sizes (scr_ctx scr)) e) (\<lambda>l. Print l (scr, s))
     else Done (scr, s))"

section \<open>The walk over the leaves\<close>

text \<open>
  The next record, in the next node if need be. After the last leaf the next node is number 0. A node that
  cannot be had ends the listing (\<open>None\<close>); in a node without records the key of the node that was freed is
  read again.
\<close>

definition next_record ::
  "(u32 \<Rightarrow> 's \<Rightarrow> (int \<times> btnode option \<times> 's) outcome) \<Rightarrow> btnode \<Rightarrow> u16 \<Rightarrow> 's \<Rightarrow>
   ((btnode \<times> u16) option \<times> 's) outcome" where
  "next_record getNode node recordID s =
     (let recordID = recordID + 1 in
      if recordID < nd_numRecords node then Done (Some (node, recordID), s)
      else obind (getNode (nd_fLink node) s) (\<lambda>(rc, next, s).
        if rc < 0 then Done (None, s)
        else case next of None \<Rightarrow> Fault | Some node \<Rightarrow> Done (Some (node, 0), s)))"

definition entry_at :: "btnode \<Rightarrow> u16 \<Rightarrow> entry outcome" where
  "entry_at node recordID =
     obind (btree_get_record node recordID) (\<lambda>r.
       case r of None \<Rightarrow> Fault
       | Some (k, v) \<Rightarrow> if fits k 6 (node_data node) then Done (node_data node, k, v) else Fault)"

text \<open>
  The loop. \<open>None\<close> inside is the return for a node that cannot be had; \<open>None\<close> as the whole value is a chain
  of leaves that does not end within the fuel.
\<close>

fun listing_loop ::
  "'s hfs_env \<Rightarrow> (u32 \<Rightarrow> 's \<Rightarrow> (int \<times> btnode option \<times> 's) outcome) \<Rightarrow> u32 \<Rightarrow> nat \<Rightarrow> btnode \<Rightarrow> u16 \<Rightarrow>
   folder_stats \<Rightarrow> screen \<times> 's \<Rightarrow> (folder_stats option \<times> btnode \<times> screen \<times> 's) outcome option" where
  "listing_loop env getNode threadID 0 node recordID st x = None"
| "listing_loop env getNode threadID (Suc fuel) node recordID st (scr, s) =
     (case next_record getNode node recordID s of
        Critical \<Rightarrow> Some Critical
      | Fault \<Rightarrow> Some Fault
      | Done (None, s) \<Rightarrow> Some (Done (None, node, scr, s))
      | Done (Some (node, recordID), s) \<Rightarrow>
          (case entry_at node recordID of
             Critical \<Rightarrow> Some Critical
           | Fault \<Rightarrow> Some Fault
           | Done e \<Rightarrow>
               if ck_parentID (entry_key e) = threadID
               then
                 (case print_entry env e (scr, s) of
                    Critical \<Rightarrow> Some Critical
                  | Fault \<Rightarrow> Some Fault
                  | Done x \<Rightarrow> listing_loop env getNode threadID fuel node recordID (count_entry (entry_record e) st) x)
               else Some (Done (Some st, node, scr, s))))"

text \<open>What follows the list. The total of the resource forks is that of their number.\<close>

definition print_totals :: "folder_stats \<Rightarrow> 's printer" where
  "print_totals st =
     with_size (st_dataForkSize st) (\<lambda>dataTotal.
     with_size (st_rsrcForkCount st) (\<lambda>rsrcTotal.
       let n = (\<lambda>v. pad_right 10 (dec (unat v))) in
       steps
        [Print (replicate 100 (CHR ''-'')),
         Print (columns [[], [], [], [], [], dataTotal, rsrcTotal, []]),
         Print (''   Folders: '' @ n (st_folderCount st) @ '' Data Forks: '' @ n (st_dataForkCount st) @
           '' Hard Links: '' @ n (st_hardLinkCount st)),
         Print (''     Files: '' @ n (st_fileCount st) @ '' RSRC Forks: '' @ n (st_rsrcForkCount st) @
           ''   Symlinks: '' @ n (st_symlinkCount st)),
         EndSection]))"

text \<open>
  \<open>find_record\<close> is \<open>hfsplus_catalog_find_record\<close>, which is never negative; without a record the null pointer
  that is left in \<open>node\<close> is used.
\<close>

definition PrintFolderListing ::
  "'s hfs_env \<Rightarrow> (FSSpec \<Rightarrow> 's \<Rightarrow> (int \<times> (btnode \<times> u16) option \<times> 's) outcome) \<Rightarrow>
   (u32 \<Rightarrow> 's \<Rightarrow> (int \<times> btnode option \<times> 's) outcome) \<Rightarrow> nat \<Rightarrow> u32 \<Rightarrow> screen \<times> 's \<Rightarrow>
   (screen \<times> 's) outcome option" where
  "PrintFolderListing env find_record getNode fuel folder = (\<lambda>(scr, s).
     case find_record \<lparr>spec_parentID = folder, spec_name = []\<rparr> s of
       Critical \<Rightarrow> Some Critical
     | Fault \<Rightarrow> Some Fault
     | Done (rc, found, s) \<Rightarrow>
         if rc < 0 then Some (Done (scr, s))
         else case found of None \<Rightarrow> Some Fault
         | Some (node, recordID) \<Rightarrow>
             (case obind (entry_at node recordID) (\<lambda>e.
                let name = fld HFSPlusCatalogThread_t ''nodeName'' (snd (snd e)) in
                if \<not> name_fits name (fst e) then Fault
                else with_name (HFSUniStr255_of (fst e) name) (\<lambda>name. steps
                  [BeginSection (''Listing for '' @ name),
                   Print (columns [''CNID'', ''kind'', ''mode'', ''user'', ''group'', ''data'', ''rsrc'', ''name''])])
                  (scr, s)) of
                Critical \<Rightarrow> Some Critical
              | Fault \<Rightarrow> Some Fault
              | Done x \<Rightarrow>
                  (case entry_at node recordID of
                     Done e \<Rightarrow>
                       (case listing_loop env getNode (ck_parentID (entry_key e)) fuel node recordID folder_stats_zero x of
                          None \<Rightarrow> None
                        | Some r \<Rightarrow> Some (obind r (\<lambda>(st, _, x).
                            case st of None \<Rightarrow> Done x | Some st \<Rightarrow> print_totals st x)))
                   | Critical \<Rightarrow> Some Critical
                   | Fault \<Rightarrow> Some Fault)))"

end
