(* ===== verification/Hfs_Output_Correct.thy ===== *)
theory Hfs_Output_Correct
  imports Folder_Listing Catalog_Correct
begin

text \<open>
  What holds of the printing of file systems: which printers leave the indentation as they found it and
  which do not, the text of modes, and the listing of a folder.
\<close>

section \<open>Indentation\<close>

lemma balanced_call [balanced_rules]: "(\<And>a b. balanced k (q a b)) \<Longrightarrow> balanced k (call f q)"
proof (rule balancedI)
  fix scr s scr' s'
  assume q: "\<And>a b. balanced k (q a b)" and ok: "indent_ok (scr_ctx scr)" "room k (scr_ctx scr)"
    and run: "call f q (scr, s) = Done (scr', s')"
  then obtain a b s1 where "q a b (scr, s1) = Done (scr', s')" by (auto simp: call_def outcome_simps)
  from balancedD [OF q this ok] show
    "same_indent (scr_ctx scr) (scr_ctx scr') \<and> (\<exists>t. scr_out scr' = scr_out scr @ t)" by simp
qed

lemma balanced_reads [balanced_rules]: "balanced k q \<Longrightarrow> balanced k (reads p n m q)"
  by (simp add: reads_def balanced_rules)

lemma balanced_outcome [balanced_rules]: "(\<And>a. balanced k (q a)) \<Longrightarrow> balanced k (with_outcome r q)"
  unfolding with_outcome_def by (cases r) (simp_all add: balanced_rules)

lemma balanced_name [balanced_rules]: "(\<And>s. balanced k (q s)) \<Longrightarrow> balanced k (with_name us q)"
  unfolding with_name_def by (rule balanced_outcome) (auto intro: balanced_rules)

lemma balanced_HFSBlocks [balanced_rules]: "balanced k (PrintHFSBlocks env l b)"
proof (rule balancedI)
  fix scr s scr' s'
  assume ok: "indent_ok (scr_ctx scr)" "room k (scr_ctx scr)" and run: "PrintHFSBlocks env l b (scr, s) = Done (scr', s')"
  then obtain t where "PrintAttribute_format (Some l) t (scr, s) = Done (scr', s')"
    by (auto simp: PrintHFSBlocks_def outcome_simps)
  from balancedD [OF balanced_PrintAttribute_format this ok] show
    "same_indent (scr_ctx scr) (scr_ctx scr') \<and> (\<exists>t. scr_out scr' = scr_out scr @ t)" by simp
qed

lemma balanced_values [balanced_rules]:
  "balanced k (PrintCatalogName env l c)" "balanced k (PrintHFSTimestamp env l t)"
  "balanced k (PrintHFSChar env l d)" "balanced k (PrintHFSUniStr255 l us)"
  "balanced k (ui ty m p f)" "balanced k (data_length ty m p f)" "balanced k (raw env ty m p f b)"
  "balanced k (hfs_char env ty m p f)" "balanced k (timestamp env ty m p f)" "balanced k (blocks_of env ty m p f)"
  "balanced k (catalog_name env ty m p f)"
  by (simp_all add: PrintCatalogName_def PrintHFSTimestamp_def PrintHFSChar_def PrintHFSUniStr255_def ui_def
      data_length_def raw_def hfs_char_def timestamp_def blocks_of_def catalog_name_def Let_def balanced_rules)

lemma balanced_extents [balanced_rules]: "balanced k (PrintExtentList es n)"
  unfolding PrintExtentList_def Let_def by (intro balanced_rules)

lemma balanced_fork [balanced_rules]: "balanced k (PrintHFSPlusForkData env d c t)"
  unfolding PrintHFSPlusForkData_def PrintForkExtentsSummary_def by (intro balanced_rules)

lemma balanced_BSDInfo [balanced_rules]: "balanced k (PrintHFSPlusBSDInfo env m p)"
  unfolding PrintHFSPlusBSDInfo_def print_bsd_flags_def Let_def
  by (intro balanced_rules) (auto intro: balanced_rules)

lemma balanced_finder [balanced_rules]:
  "balanced k (PrintFinderFlags f)" "balanced k (PrintFndrFileInfo env m p)" "balanced k (PrintFndrDirInfo env m p)"
  unfolding PrintFinderFlags_def PrintFndrFileInfo_def PrintFndrDirInfo_def Let_def
  by (intro balanced_rules)+

lemma balanced_catalog_records [balanced_rules]:
  "balanced (Suc k) (PrintHFSPlusCatalogFolder env m p)" "balanced (Suc k) (PrintHFSPlusCatalogFile env m p)"
  "balanced k (PrintHFSPlusFolderThreadRecord m p)" "balanced k (PrintHFSPlusFileThreadRecord m p)"
  unfolding PrintHFSPlusCatalogFolder_def PrintHFSPlusCatalogFile_def PrintHFSPlusFolderThreadRecord_def
    PrintHFSPlusFileThreadRecord_def PrintHFSPlusCatalogThread_def Let_def
  by (intro balanced_rules)+

lemma balanced_attributes [balanced_rules]:
  "balanced k (PrintHFSPlusExtentRecord m p)" "balanced k (PrintHFSPlusAttrRecord env m p)"
  unfolding PrintHFSPlusExtentRecord_def PrintHFSPlusAttrRecord_def PrintHFSPlusAttrData_def
    PrintHFSPlusAttrForkData_def PrintHFSPlusAttrExtents_def Let_def
  by (intro balanced_rules)+

lemma balanced_keys [balanced_rules]:
  "balanced k (VisualizeHFSPlusExtentKey m p l b)" "balanced k (VisualizeHFSPlusCatalogKey env m p l b)"
  "balanced k (VisualizeHFSPlusAttrKey m p l b)" "balanced k (VisualizeHFSBTreeNodeRecord env l node n)"
  unfolding VisualizeHFSPlusExtentKey_def VisualizeHFSPlusCatalogKey_def VisualizeHFSPlusAttrKey_def
    VisualizeHFSBTreeNodeRecord_def Let_def
  by (intro balanced_rules)+

lemma balanced_node_parts [balanced_rules]:
  "balanced (Suc k) (PrintBTNodeDescriptor node)" "balanced (Suc k) (PrintBTHeaderRecord env m p)"
  "balanced k (print_data env node r)" "balanced k (invalid_key env node r i)"
  unfolding PrintBTNodeDescriptor_def PrintBTHeaderRecord_def print_data_def invalid_key_def Let_def
  by (intro balanced_rules)+

lemma balanced_record_parts [balanced_rules]:
  "balanced (Suc k) (print_header_record env node r i)" "balanced k (print_key env tree node r)"
  "balanced (Suc k) (print_catalog_value env node r)"
  unfolding print_header_record_def print_key_def print_catalog_value_def Let_def
  by (intro balanced_rules)+

lemma balanced_keyed_record [balanced_rules]: "balanced (Suc k) (print_keyed_record env tree node r i)"
  unfolding print_keyed_record_def Let_def by (intro balanced_rules)

text \<open>The nodes whose records are printed as the rows of a table.\<close>

definition index_table :: "u32 \<Rightarrow> btnode \<Rightarrow> bool" where
  "index_table tree node \<longleftrightarrow> nd_kind node = kBTIndexNode \<and> (tree = kHFSExtentsFileID \<or> tree = kHFSCatalogFileID)"

lemma balanced_record:
  assumes "\<not> index_table tree node"
  shows "balanced (Suc (Suc k)) (PrintNodeRecord env tree node i)"
proof -
  have "\<not> (nd_kind node = kBTIndexNode \<and> tree = kHFSExtentsFileID)"
    "\<not> (nd_kind node = kBTIndexNode \<and> tree = kHFSCatalogFileID)"
    using assms by (auto simp: index_table_def)
  then show ?thesis unfolding PrintNodeRecord_def by (simp only: if_False) (intro balanced_rules)
qed


section \<open>The listing of a folder\<close>

lemma size_column_returns: "\<exists>s. size_column decimal d = Done s"
proof (cases "logicalSize d = 0")
  case False
  obtain k where "length (size_text decimal k (unat (logicalSize d))) \<le> 13"
    "\<And>len. format_size decimal (logicalSize d) len = Done (take (len - 1) (size_text decimal k (unat (logicalSize d))))"
    by (rule format_size_text [of decimal "logicalSize d"]) blast
  with False show ?thesis by (simp add: size_column_def)
qed (simp add: size_column_def)

text \<open>An entry whose record and name are within its node.\<close>

definition entry_ok :: "entry \<Rightarrow> bool" where
  "entry_ok e \<longleftrightarrow>
     fits 0 2 (entry_record e) \<and>
     (listed (entry_record e) \<longrightarrow>
        fits 0 (sizeof (if record_type (entry_record e) = kHFSPlusFileRecord then HFSPlusCatalogFile_t
                        else HFSPlusCatalogFolder_t)) (entry_record e) \<and>
        name_fits (fst (snd e) + 6) (fst e))"

lemma entry_line_returns:
  assumes "entry_ok e" "listed (entry_record e)"
  shows "\<exists>l. entry_line env decimal e = Done l"
proof -
  let ?r = "entry_record e"
  obtain q where q: "hfsuc_to_str (ck_nodeName (entry_key e)) = Done q" using hfsuc_to_str_returns by blast
  obtain d where d: "size_column decimal (file_fork ''dataFork'' ?r) = Done d" using size_column_returns by blast
  obtain f where f: "size_column decimal (file_fork ''resourceFork'' ?r) = Done f" using size_column_returns by blast
  show ?thesis using assms by (cases q) (simp add: entry_ok_def entry_line_def Let_def q d f)
qed

text \<open>What a run of entries prints, line by line.\<close>

definition indented :: "screen \<Rightarrow> string \<Rightarrow> string" where
  "indented scr l = cstr (indent_string (scr_ctx scr)) @ l @ [newline]"

definition entry_lines :: "'s hfs_env \<Rightarrow> bool \<Rightarrow> entry list \<Rightarrow> string list" where
  "entry_lines env decimal es =
     map (\<lambda>e. case entry_line env decimal e of Done l \<Rightarrow> l | _ \<Rightarrow> []) (filter (\<lambda>e. listed (entry_record e)) es)"

definition show_lines :: "screen \<Rightarrow> string list \<Rightarrow> screen" where
  "show_lines scr ls = scr\<lparr>scr_out := scr_out scr @ concat (map (indented scr) ls)\<rparr>"

lemma show_lines_Nil [simp]: "show_lines scr [] = scr"
  by (simp add: show_lines_def)

lemma indented_update [simp]: "indented (scr\<lparr>scr_out := t\<rparr>) = indented scr"
  by (simp add: indented_def fun_eq_iff)

lemma show_lines_append: "show_lines (show_lines scr as) bs = show_lines scr (as @ bs)"
  by (simp add: show_lines_def)

lemma scr_ctx_show_lines [simp]: "scr_ctx (show_lines scr ls) = scr_ctx scr"
  by (simp add: show_lines_def)

lemma print_entry_lines:
  assumes "entry_ok e"
  shows "print_entry env e (scr, s) = Done (show_lines scr (entry_lines env (decimal_sizes (scr_ctx scr)) [e]), s)"
proof (cases "listed (entry_record e)")
  case True
  with entry_line_returns [OF assms] obtain l where "entry_line env (decimal_sizes (scr_ctx scr)) e = Done l" by blast
  with True assms show ?thesis
    by (simp add: print_entry_def entry_ok_def Print_def emit_def entry_lines_def show_lines_def indented_def)
qed (use assms in \<open>simp add: print_entry_def entry_ok_def entry_lines_def\<close>)

text \<open>
  The entries that follow a position: the rest of the node, and those of the nodes that its links lead to,
  none of which is empty, as far as one likes.
\<close>

definition node_entries :: "btnode \<Rightarrow> nat \<Rightarrow> entry list \<Rightarrow> bool" where
  "node_entries node from es \<longleftrightarrow>
     map (\<lambda>i. entry_at node (of_nat i)) [from..<unat (nd_numRecords node)] = map Done es"

inductive leaf_chain :: "(u32 \<Rightarrow> btnode option) \<Rightarrow> btnode \<Rightarrow> entry list \<Rightarrow> bool" for view where
  chain_end: "leaf_chain view node []"
| chain_next: "view (nd_fLink node) = Some next \<Longrightarrow> node_entries next 0 (e # es) \<Longrightarrow> leaf_chain view next rest \<Longrightarrow>
    leaf_chain view node (e # es @ rest)"

inductive_cases leaf_chain_ConsE: "leaf_chain view node (e # es)"

definition following :: "(u32 \<Rightarrow> btnode option) \<Rightarrow> btnode \<Rightarrow> u16 \<Rightarrow> entry list \<Rightarrow> bool" where
  "following view node recordID es \<longleftrightarrow>
     (\<exists>here rest. node_entries node (unat (recordID + 1)) here \<and> leaf_chain view node rest \<and> es = here @ rest)"

lemma node_entries_Cons:
  assumes "node_entries node from (e # es)"
  shows "from < unat (nd_numRecords node)" "entry_at node (of_nat from) = Done e" "node_entries node (Suc from) es"
proof -
  show lt: "from < unat (nd_numRecords node)"
    using assms by (cases "from < unat (nd_numRecords node)") (simp_all add: node_entries_def)
  with assms show "entry_at node (of_nat from) = Done e" "node_entries node (Suc from) es"
    by (simp_all add: node_entries_def upt_conv_Cons)
qed

lemma node_entries_Nil: "node_entries node from [] \<longleftrightarrow> unat (nd_numRecords node) \<le> from"
  by (auto simp: node_entries_def)

lemma following_after:
  assumes "node_entries node (unat r) (e # here)" "leaf_chain view node rest"
  shows "entry_at node r = Done e" "following view node r (here @ rest)" "r < nd_numRecords node"
proof -
  note c = node_entries_Cons [OF assms(1)]
  show "entry_at node r = Done e" using c(2) by simp
  show "r < nd_numRecords node" using c(1) by (simp add: word_less_nat_alt)
  have "unat (r + 1) = Suc (unat r)"
    using c(1) unat_bound [of "nd_numRecords node"] by (subst unat_plus) simp_all
  then show "following view node r (here @ rest)" using c(3) assms(2) by (auto simp: following_def)
qed

context node_source
begin

lemma next_following:
  assumes "following view node r (e # es)" "good s"
  obtains node' r' s' where "next_record getNode node r s = Done (Some (node', r'), s')" "entry_at node' r' = Done e"
    "following view node' r' es" "good s'"
proof -
  obtain here rest where h: "node_entries node (unat (r + 1)) here" "leaf_chain view node rest" "e # es = here @ rest"
    using assms(1) by (auto simp: following_def)
  show thesis
  proof (cases here)
    case Nil
    then have stop: "\<not> r + 1 < nd_numRecords node" using h(1) by (simp add: node_entries_Nil word_less_nat_alt)
    from h(2,3) Nil have "leaf_chain view node (e # es)" by simp
    then obtain nxt es1 es2 where n: "view (nd_fLink node) = Some nxt" "node_entries nxt 0 (e # es1)"
        "leaf_chain view nxt es2" "es = es1 @ es2"
      by (auto elim: leaf_chain_ConsE)
    obtain s' where s': "getNode (nd_fLink node) s = Done (0, Some nxt, s')" "good s'"
      using fetch [OF assms(2) n(1)] by blast
    have "next_record getNode node r s = Done (Some (nxt, 0), s')"
      using stop s'(1) by (simp add: next_record_def)
    moreover have "node_entries nxt (unat (0 :: u16)) (e # es1)" using n(2) by simp
    note following_after(1,2) [OF this n(3)]
    ultimately show thesis using that s'(2) n(4) by blast
  next
    case (Cons a here')
    then have e: "e = a" "es = here' @ rest" using h(3) by simp_all
    note f = following_after [OF h(1) [unfolded Cons] h(2)]
    then have "next_record getNode node r s = Done (Some (node, r + 1), s)" by (simp add: next_record_def)
    then show thesis using that f(1,2) e assms(2) by blast
  qed
qed

lemma listing_lists:
  assumes "following view node r (sibs @ [stop])" "good s" "length sibs < fuel"
    and "\<forall>e \<in> set sibs. ck_parentID (entry_key e) = threadID \<and> entry_ok e"
    and "ck_parentID (entry_key stop) \<noteq> threadID"
  shows "\<exists>node' s'. good s' \<and> listing_loop env getNode threadID fuel node r st (scr, s) =
    Some (Done (Some (fold count_entry (map entry_record sibs) st), node',
      show_lines scr (entry_lines env (decimal_sizes (scr_ctx scr)) sibs), s'))"
  using assms
proof (induction sibs arbitrary: fuel node r st scr s)
  case Nil
  then obtain fuel' where f: "fuel = Suc fuel'" by (cases fuel) auto
  from Nil obtain node' r' s' where "next_record getNode node r s = Done (Some (node', r'), s')"
      "entry_at node' r' = Done stop" "good s'"
    by (auto elim: next_following)
  with Nil f show ?case by (auto simp: entry_lines_def)
next
  case (Cons e sibs)
  then obtain fuel' where f: "fuel = Suc fuel'" "length sibs < fuel'" by (cases fuel) auto
  from Cons.prems(1) have "following view node r (e # (sibs @ [stop]))" by simp
  then obtain node' r' s' where n: "next_record getNode node r s = Done (Some (node', r'), s')"
      "entry_at node' r' = Done e" "following view node' r' (sibs @ [stop])" "good s'"
    using Cons.prems(2) by (elim next_following) blast
  let ?scr = "show_lines scr (entry_lines env (decimal_sizes (scr_ctx scr)) [e])"
  have p: "print_entry env e (scr, s') = Done (?scr, s')" using Cons.prems(4) by (simp add: print_entry_lines)
  have "\<exists>node'' s''. good s'' \<and> listing_loop env getNode threadID fuel' node' r' (count_entry (entry_record e) st) (?scr, s') =
      Some (Done (Some (fold count_entry (map entry_record sibs) (count_entry (entry_record e) st)), node'',
        show_lines ?scr (entry_lines env (decimal_sizes (scr_ctx ?scr)) sibs), s''))"
    using Cons.prems(4,5) by (intro Cons.IH [OF n(3,4) f(2)]) auto
  then obtain node'' s'' where "good s''"
    "listing_loop env getNode threadID fuel' node' r' (count_entry (entry_record e) st) (?scr, s') =
      Some (Done (Some (fold count_entry (map entry_record (e # sibs)) st), node'',
        show_lines scr (entry_lines env (decimal_sizes (scr_ctx scr)) (e # sibs)), s''))"
    by (auto simp: show_lines_append entry_lines_def)
  then show ?case using Cons.prems(4) n(1,2) f(1) p by auto
qed

end

text \<open>What the counters count.\<close>

definition listed_files :: "entry list \<Rightarrow> buffer list" where
  "listed_files es = filter (\<lambda>r. record_type r = kHFSPlusFileRecord) (map entry_record es)"

definition of_kind :: "kind set \<Rightarrow> entry list \<Rightarrow> buffer list" where
  "of_kind ks es = filter (\<lambda>r. listed r \<and> entry_kind r \<in> ks) (map entry_record es)"

lemma count_entry_counts:
  "st_fileCount (count_entry r st) = st_fileCount st + (if listed r \<and> entry_kind r = File then 1 else 0)"
  "st_folderCount (count_entry r st) = st_folderCount st + (if listed r \<and> entry_kind r = Folder then 1 else 0)"
  "st_hardLinkCount (count_entry r st) =
     st_hardLinkCount st + (if listed r \<and> (entry_kind r = Dir_Link \<or> entry_kind r = Hard_Link) then 1 else 0)"
  "st_symlinkCount (count_entry r st) = st_symlinkCount st + (if listed r \<and> entry_kind r = Symlink then 1 else 0)"
  "st_dataForkSize (count_entry r st) = st_dataForkSize st +
     (if record_type r = kHFSPlusFileRecord \<and> totalBlocks (file_fork ''dataFork'' r) > 0
      then logicalSize (file_fork ''dataFork'' r) else 0)"
  by (cases "entry_kind r"; simp add: count_entry_def count_forks_def listed_def Let_def)+

lemma fold_counts:
  "st_fileCount (fold count_entry rs st) = st_fileCount st + of_nat (length (filter (\<lambda>r. listed r \<and> entry_kind r = File) rs))"
  "st_folderCount (fold count_entry rs st) =
     st_folderCount st + of_nat (length (filter (\<lambda>r. listed r \<and> entry_kind r = Folder) rs))"
  "st_hardLinkCount (fold count_entry rs st) = st_hardLinkCount st +
     of_nat (length (filter (\<lambda>r. listed r \<and> (entry_kind r = Dir_Link \<or> entry_kind r = Hard_Link)) rs))"
  "st_symlinkCount (fold count_entry rs st) =
     st_symlinkCount st + of_nat (length (filter (\<lambda>r. listed r \<and> entry_kind r = Symlink) rs))"
  "st_dataForkSize (fold count_entry rs st) = st_dataForkSize st +
     sum_list (map (\<lambda>r. logicalSize (file_fork ''dataFork'' r))
       (filter (\<lambda>r. record_type r = kHFSPlusFileRecord \<and> totalBlocks (file_fork ''dataFork'' r) > 0) rs))"
  by (induction rs arbitrary: st; simp add: count_entry_counts)+


section \<open>Long names\<close>

lemma utf8_bytes_nonzero:
  assumes "0 < c" "c < 0x110000"
  shows "0 \<notin> set (utf8_bytes c)"
proof -
  have nz: "(of_nat n :: u8) \<noteq> 0" if "0 < n" "n < 256" for n
    using unat_of_nat_small [of n, where 'a = 8] that by (auto simp: unat_eq_0)
  have cont: "(of_nat (0x80 + n mod 64) :: u8) \<noteq> 0" for n by (rule nz) auto
  have "(of_nat (0xC0 + c div 64) :: u8) \<noteq> 0" if "c < 0x800" by (rule nz) (use that in auto)
  moreover have "(of_nat (0xE0 + c div 64 div 64) :: u8) \<noteq> 0" if "c < 0x10000" by (rule nz) (use that in auto)
  moreover have "(of_nat (0xF0 + c div 64 div 64 div 64) :: u8) \<noteq> 0" by (rule nz) (use assms(2) in auto)
  moreover have "(of_nat c :: u8) \<noteq> 0" if "c < 0x80" by (rule nz) (use that assms(1) in auto)
  ultimately show ?thesis unfolding utf8_bytes_def
    using cont by (auto dest: sym simp del: of_nat_add)
qed

lemma utf8_nonzero: "\<forall>u \<in> set us. u \<noteq> 0 \<Longrightarrow> 0 \<notin> set (utf8 us)"
proof (induction us rule: code_points.induct)
  case (2 a)
  have "0 \<notin> set (utf8_bytes (unat a))"
    by (rule utf8_bytes_nonzero) (use 2 unat_bound [of a] in \<open>auto simp: unat_eq_0 [symmetric] intro: gr0I\<close>)
  then show ?case by (simp add: utf8_def)
next
  case (3 a b us)
  have one: "0 \<notin> set (utf8_bytes (unat a))"
    by (rule utf8_bytes_nonzero) (use 3(3) unat_bound [of a] in \<open>auto simp: unat_eq_0 [symmetric] intro: gr0I\<close>)
  have two: "0 \<notin> set (utf8_bytes (0x10000 + (unat a - 0xD800) * 0x400 + (unat b - 0xDC00)))"
    if "high_surrogate a" "low_surrogate b"
  proof (rule utf8_bytes_nonzero)
    have "unat a - 0xD800 < 0x400" "unat b - 0xDC00 < 0x400"
      using that by (auto simp: high_surrogate_def low_surrogate_def word_le_nat_alt word_less_nat_alt)
    then show "0x10000 + (unat a - 0xD800) * 0x400 + (unat b - 0xDC00) < (0x110000 :: nat)" by auto
  qed simp
  from 3 one two show ?case by (auto simp: utf8_def)
qed (simp add: utf8_def)

lemma utf8_long: "length us \<le> length (utf8 us)"
proof (induction us rule: code_points.induct)
  case (2 a)
  then show ?case using length_utf8_bytes(1) [of "unat a"] by (simp add: utf8_def)
next
  case (3 a b us)
  have "length (utf8_bytes (0x10000 + (unat a - 0xD800) * 0x400 + (unat b - 0xDC00))) = 4"
    by (simp add: utf8_bytes_def)
  with 3 length_utf8_bytes(1) [of "unat a"] show ?case by (auto simp: utf8_def)
qed (simp add: utf8_def)

lemma char_of_zero: "char_of (0 :: nat) = CHR 0x00"
  by code_simp

lemma printed_name:
  assumes "well_formed us" "length us \<le> 255"
  obtains rc str where "hfsuc_to_str us = Done (rc, str)" "length us \<le> length (cstr (chars str))"
proof -
  let ?b = "utf8 (map shown us)"
  have "0 \<notin> set ?b" by (rule utf8_nonzero) (auto simp: shown_def)
  then have "\<forall>b \<in> set ?b. (char_of (unat b) :: char) \<noteq> CHR 0x00"
  proof (intro ballI notI)
    fix b :: u8 assume b: "b \<in> set ?b" "(char_of (unat b) :: char) = CHR 0x00" and z: "0 \<notin> set ?b"
    have "unat b < 256" using unat_bound [of b] by simp
    then have "of_char (char_of (unat b) :: char) = unat b" by simp
    with b(2) have "unat b = 0" by simp
    then show False using b(1) z by (simp add: unat_eq_0)
  qed
  then have "cstr (chars (?b @ [0])) = chars ?b"
    unfolding cstr_def chars_def map_append by (subst takeWhile_append2) (auto simp: char_of_zero)
  then have "length us \<le> length (cstr (chars (?b @ [0])))"
    using utf8_long [of "map shown us"] by (simp add: chars_def)
  with hfsuc_to_str_utf8 [OF assms] that show thesis by blast
qed

lemma length_dec_pos: "0 < length (dec n)"
  unfolding dec_def by (subst digits.simps) simp


text \<open>
  The names that HFS+ allows but that are too long for the printer: a well-formed name of 249 to 255 code units
  converts to at least as many bytes, and the line with its label and its length does not fit the buffer of
  255 bytes that it is built in: an access out of bounds, for every label.
\<close>

lemma long_name_overflows:
  assumes "well_formed us" "249 \<le> length us" "length us \<le> 255"
  shows "PrintHFSUniStr255 label us x = Fault"
proof -
  obtain rc str where str: "hfsuc_to_str us = Done (rc, str)" "length us \<le> length (cstr (chars str))"
    using printed_name [OF assms(1,3)] by blast
  moreover obtain d ds where "dec (length us) = d # ds"
    using length_dec_pos [of "length us"] by (cases "dec (length us)") auto
  ultimately show ?thesis
    using assms(2)
    by (simp add: PrintHFSUniStr255_def with_name_def with_outcome_def PrintAttribute_def through_str_def)
qed

section \<open>Sections that stay open\<close>

text \<open>A printer that leaves the indentation one step deeper.\<close>

definition deeper :: "nat \<Rightarrow> 's printer \<Rightarrow> bool" where
  "deeper k p \<longleftrightarrow> (\<forall>scr x scr' x'. indent_ok (scr_ctx scr) \<and> room (Suc k) (scr_ctx scr) \<and> p (scr, x) = Done (scr', x') \<longrightarrow>
     unat (indent_level (scr_ctx scr')) = unat (indent_level (scr_ctx scr)) + unat (indent_step (scr_ctx scr)) \<and>
     indent_step (scr_ctx scr') = indent_step (scr_ctx scr) \<and> indent_ok (scr_ctx scr') \<and> room k (scr_ctx scr'))"

lemma deeperI:
  assumes "\<And>scr x scr' x'. indent_ok (scr_ctx scr) \<Longrightarrow> room (Suc k) (scr_ctx scr) \<Longrightarrow> p (scr, x) = Done (scr', x') \<Longrightarrow>
    unat (indent_level (scr_ctx scr')) = unat (indent_level (scr_ctx scr)) + unat (indent_step (scr_ctx scr)) \<and>
    indent_step (scr_ctx scr') = indent_step (scr_ctx scr) \<and> indent_ok (scr_ctx scr') \<and> room k (scr_ctx scr')"
  shows "deeper k p"
  using assms unfolding deeper_def by blast

lemma deeperD:
  assumes "deeper k p" "p (scr, x) = Done (scr', x')" "indent_ok (scr_ctx scr)" "room (Suc k) (scr_ctx scr)"
  shows "unat (indent_level (scr_ctx scr')) = unat (indent_level (scr_ctx scr)) + unat (indent_step (scr_ctx scr))"
    "indent_step (scr_ctx scr') = indent_step (scr_ctx scr)" "indent_ok (scr_ctx scr')" "room k (scr_ctx scr')"
  using assms unfolding deeper_def by blast+

lemma deeper_Begin: "deeper k (BeginSection title)"
proof (rule deeperI)
  fix scr x scr' x'
  assume "room (Suc k) (scr_ctx scr)" "BeginSection title (scr, x) = Done (scr', x')"
  from BeginSection_result [OF this(2,1)]
  show "unat (indent_level (scr_ctx scr')) = unat (indent_level (scr_ctx scr)) + unat (indent_step (scr_ctx scr)) \<and>
    indent_step (scr_ctx scr') = indent_step (scr_ctx scr) \<and> indent_ok (scr_ctx scr') \<and> room k (scr_ctx scr')" by simp
qed

lemma deeper_then:
  assumes p: "deeper k p" and q: "balanced k (steps ps)"
  shows "deeper k (steps (p # ps))"
proof (rule deeperI)
  fix scr x scr2 x2
  assume ok: "indent_ok (scr_ctx scr)" "room (Suc k) (scr_ctx scr)" and run: "steps (p # ps) (scr, x) = Done (scr2, x2)"
  then obtain scr1 x1 where 1: "p (scr, x) = Done (scr1, x1)" and 2: "steps ps (scr1, x1) = Done (scr2, x2)"
    by (auto simp: outcome_simps)
  note d = deeperD [OF p 1 ok]
  note b = balancedD [OF q 2 d(3,4)]
  show "unat (indent_level (scr_ctx scr2)) = unat (indent_level (scr_ctx scr)) + unat (indent_step (scr_ctx scr)) \<and>
    indent_step (scr_ctx scr2) = indent_step (scr_ctx scr) \<and> indent_ok (scr_ctx scr2) \<and> room k (scr_ctx scr2)"
    using d b by (simp add: same_indent_def)
qed

lemma deeper_after:
  assumes p: "balanced (Suc k) p" and q: "deeper k (steps ps)"
  shows "deeper k (steps (p # ps))"
proof (rule deeperI)
  fix scr x scr2 x2
  assume ok: "indent_ok (scr_ctx scr)" "room (Suc k) (scr_ctx scr)" and run: "steps (p # ps) (scr, x) = Done (scr2, x2)"
  then obtain scr1 x1 where 1: "p (scr, x) = Done (scr1, x1)" and 2: "steps ps (scr1, x1) = Done (scr2, x2)"
    by (auto simp: outcome_simps)
  note b = balancedD [OF p 1 ok]
  note d = deeperD [OF q 2 b(2,3)]
  show "unat (indent_level (scr_ctx scr2)) = unat (indent_level (scr_ctx scr)) + unat (indent_step (scr_ctx scr)) \<and>
    indent_step (scr_ctx scr2) = indent_step (scr_ctx scr) \<and> indent_ok (scr_ctx scr2) \<and> room k (scr_ctx scr2)"
    using d b by (simp add: same_indent_def)
qed

lemma deeper_one: "deeper k (steps [p]) \<longleftrightarrow> deeper k p"
proof -
  have "steps [p] = p"
  proof (rule ext)
    fix x show "steps [p] x = p x" by (cases "p x") simp_all
  qed
  then show ?thesis by simp
qed

lemma deeper_section:
  assumes "deeper k (steps ps)"
  shows "deeper (Suc k) (in_section title ps)"
proof (rule deeperI)
  fix scr x scr3 x3
  assume ok: "indent_ok (scr_ctx scr)" "room (Suc (Suc k)) (scr_ctx scr)"
    and run: "in_section title ps (scr, x) = Done (scr3, x3)"
  then obtain scr1 x1 scr2 x2 where 1: "BeginSection title (scr, x) = Done (scr1, x1)"
    and 2: "steps ps (scr1, x1) = Done (scr2, x2)" and 3: "EndSection (scr2, x2) = Done (scr3, x3)"
    by (auto simp: in_section_def outcome_simps)
  note b = BeginSection_result [OF 1 ok(2)]
  note i = deeperD [OF assms 2 b(2,1)]
  note e = EndSection_result [OF 3 i(3)]
  have l: "unat (indent_level (scr_ctx scr3)) = unat (indent_level (scr_ctx scr)) + unat (indent_step (scr_ctx scr))"
    using b(4,5) i(1,2) e(3) by simp
  have st: "indent_step (scr_ctx scr3) = indent_step (scr_ctx scr)" using b(5) i(2) e(4) by simp
  have "room (Suc k) (scr_ctx scr3)" using ok(2) l st by (simp add: room_def)
  with l st e(1) show "unat (indent_level (scr_ctx scr3)) = unat (indent_level (scr_ctx scr)) + unat (indent_step (scr_ctx scr)) \<and>
    indent_step (scr_ctx scr3) = indent_step (scr_ctx scr) \<and> indent_ok (scr_ctx scr3) \<and> room (Suc k) (scr_ctx scr3)" by simp
qed

lemma deeper_outcome: "(\<And>a. r = Done a \<Longrightarrow> deeper k (q a)) \<Longrightarrow> deeper k (with_outcome r q)"
  unfolding with_outcome_def by (cases r) (simp_all add: deeper_def)

lemma deeper_volume_header: "deeper 1 (PrintVolumeHeader env v)"
  unfolding PrintVolumeHeader_def Let_def One_nat_def
  by (intro deeper_then deeper_Begin balanced_rules)

lemma index_row:
  assumes "0 < i" shows "balanced k (print_index_extents node r i)" "balanced k (print_index_catalog node r i)"
  using assms unfolding print_index_extents_def print_index_catalog_def Let_def
  by (auto simp: print_if_def intro!: balanced_rules)

lemma index_first: "deeper k (print_index_extents node r 0)" "deeper k (print_index_catalog node r 0)"
  unfolding print_index_extents_def print_index_catalog_def Let_def
  by (auto simp: print_if_def intro!: deeper_then deeper_Begin balanced_rules)

lemma index_node_record:
  assumes "index_table tree node"
  shows "PrintNodeRecord env tree node i =
    (if i \<ge> unat (nd_numRecords node) then Done
     else with_outcome (BTGetBTNodeRecord node (of_nat i)) (\<lambda>record.
       if recordLen record = 0 then Done
       else if tree = kHFSExtentsFileID then print_index_extents node record i
       else print_index_catalog node record i))"
  using assms unfolding index_table_def by (elim conjE disjE) (simp_all only: PrintNodeRecord_def simp_thms if_True if_cancel)

lemma index_records:
  assumes "index_table tree node" "0 < i"
  shows "balanced k (PrintNodeRecord env tree node i)"
  unfolding index_node_record [OF assms(1)]
  by (intro balanced_rules index_row assms(2))

lemma index_first_record:
  assumes "index_table tree node" "0 < nd_numRecords node" "BTGetBTNodeRecord node 0 = Done r" "recordLen r \<noteq> 0"
  shows "deeper k (PrintNodeRecord env tree node 0)"
proof -
  have "\<not> 0 \<ge> unat (nd_numRecords node)" using assms(2) by (simp add: word_less_nat_alt)
  then show ?thesis
    unfolding index_node_record [OF assms(1)] using assms(3,4) by (simp add: with_outcome_def index_first)
qed

lemma deeper_index_node:
  assumes "index_table tree node" "0 < nd_numRecords node" "BTGetBTNodeRecord node 0 = Done r" "recordLen r \<noteq> 0"
  shows "deeper 1 (PrintNode env tree node)"
proof -
  have "[0..<unat (nd_numRecords node)] = 0 # [1..<unat (nd_numRecords node)]"
    using assms(2) by (simp add: upt_conv_Cons word_less_nat_alt)
  moreover have "deeper 0 (steps (PrintNodeRecord env tree node 0 # map (PrintNodeRecord env tree node) [1..<n]))" for n
    by (rule deeper_then [OF index_first_record [OF assms]])
       (rule balanced_steps, auto intro: index_records [OF assms(1)])
  ultimately have rows: "deeper 0 (steps (map (PrintNodeRecord env tree node) [0..<unat (nd_numRecords node)]))" by simp
  show ?thesis
    unfolding PrintNode_def One_nat_def
    by (rule deeper_section, rule deeper_after, rule balanced_node_parts) (simp only: deeper_one rows)
qed


section \<open>The properties\<close>

text \<open>
  C25. Printing a node ends every section that it begins, whatever the bytes of its records are: the indentation, its step and the
  prefix are those before, and the text is only added to, unless the node has the record that opens a section without ending it.
  The nesting is at most three deep, so the level has to leave room for three steps.
\<close>

theorem node_printing_balanced:
  assumes "\<not> index_table tree node" "indent_ok (scr_ctx scr)" "room 3 (scr_ctx scr)"
    and "PrintNode env tree node (scr, s) = Done (scr', s')"
  shows "same_indent (scr_ctx scr) (scr_ctx scr') \<and> (\<exists>t. scr_out scr' = scr_out scr @ t)"
proof -
  have "balanced 3 (PrintNode env tree node)"
    unfolding PrintNode_def numeral_3_eq_3
    by (intro balanced_rules balanced_record assms(1))
  from balancedD [OF this assms(4,2,3)] show ?thesis by simp
qed

text \<open>
  Printing an index node (or a map node) whose record table is shown leaves the section of the table open: every such node
  moves what is printed after it one step to the right.
\<close>

lemma index_node_deeper:
  assumes "index_table tree node" "0 < nd_numRecords node" "BTGetBTNodeRecord node 0 = Done r" "recordLen r \<noteq> 0"
    and "indent_ok (scr_ctx scr)" "room 2 (scr_ctx scr)" "PrintNode env tree node (scr, s) = Done (scr', s')"
  shows "unat (indent_level (scr_ctx scr')) = unat (indent_level (scr_ctx scr)) + unat (indent_step (scr_ctx scr))"
  using deeperD(1) [OF deeper_index_node [OF assms(1-4)] assms(7,5)] assms(6) by (simp add: numeral_2_eq_2)

text \<open>A mode as its bits.\<close>

lemma mode_bits: "mode AND 2 ^ n = 0 \<longleftrightarrow> \<not> bit (mode :: u16) n"
  by (rule and_exp_eq_0_iff_not_bit)

lemma mode_masks:
  "mode AND 0x100 = 0 \<longleftrightarrow> \<not> bit (mode :: u16) 8" "mode AND 0x80 = 0 \<longleftrightarrow> \<not> bit mode 7" "mode AND 0x800 = 0 \<longleftrightarrow> \<not> bit mode 11"
  "mode AND 0x40 = 0 \<longleftrightarrow> \<not> bit mode 6" "mode AND 0x20 = 0 \<longleftrightarrow> \<not> bit mode 5" "mode AND 0x10 = 0 \<longleftrightarrow> \<not> bit mode 4"
  "mode AND 0x400 = 0 \<longleftrightarrow> \<not> bit mode 10" "mode AND 8 = 0 \<longleftrightarrow> \<not> bit mode 3" "mode AND 4 = 0 \<longleftrightarrow> \<not> bit mode 2"
  "mode AND 2 = 0 \<longleftrightarrow> \<not> bit mode 1" "mode AND 0x200 = 0 \<longleftrightarrow> \<not> bit mode 9" "mode AND 1 = 0 \<longleftrightarrow> \<not> bit mode 0"
  using mode_bits [of mode 8] mode_bits [of mode 7] mode_bits [of mode 11] mode_bits [of mode 6] mode_bits [of mode 5]
    mode_bits [of mode 4] mode_bits [of mode 10] mode_bits [of mode 3] mode_bits [of mode 2] mode_bits [of mode 1]
    mode_bits [of mode 9] mode_bits [of mode 0]
  by simp_all

lemma mode_type_injective:
  assumes "map_of mode_types a = Some c" "map_of mode_types b = Some c"
  shows "a = b"
  using assms by (auto simp: mode_types_def split: if_splits)

text \<open>
  C26. The string for a file mode loses nothing: two modes of known types with the same string (whatever was in the byte
  before) are equal, so that the twelve permission bits and the type can be read back.
\<close>

theorem mode_string_determines:
  assumes "map_of mode_types (m AND 0xF000) \<noteq> None" "map_of mode_types (n AND 0xF000) \<noteq> None"
    and eq: "genModeString before m = genModeString before' n"
  shows "m = n"
proof (rule bit_word_eqI)
  fix i assume "i < LENGTH(16)"
  have type: "m AND 0xF000 = n AND 0xF000"
    using assms by (auto simp: genModeString_def intro: mode_type_injective)
  have r: "bit m k = bit n k" if "k \<in> {8, 7, 5, 4, 2, 1}" for k
    using eq that by (auto simp: genModeString_def mode_bit_def mode_masks split: if_splits)
  have x: "bit m 11 = bit n 11 \<and> bit m 6 = bit n 6" "bit m 10 = bit n 10 \<and> bit m 3 = bit n 3"
    "bit m 9 = bit n 9 \<and> bit m 0 = bit n 0"
    using eq by (auto simp: genModeString_def mode_execute_def mode_masks split: if_splits)
  have t: "bit m k = bit n k" if "bit (0xF000 :: u16) k" for k
    using arg_cong [OF type, of "\<lambda>w. bit w k"] that by (simp only: bit_and_iff) simp
  have high: "bit (0xF000 :: u16) 12" "bit (0xF000 :: u16) 13" "bit (0xF000 :: u16) 14" "bit (0xF000 :: u16) 15" by simp_all
  have all: "[0..<16] = [0, 1, 2, 3, 4, 5, 6, 7, 8, 9, 10, 11, 12, 13, 14, 15 :: nat]" by code_simp
  have "i \<in> set [0..<16]" using \<open>i < LENGTH(16)\<close> by simp
  then have "i \<in> {8, 7, 5, 4, 2, 1} \<or> i \<in> {11, 6, 10, 3, 9, 0} \<or> i \<in> {12, 13, 14, 15}"
    unfolding all list.set insert_iff empty_iff by blast
  then show "bit m i = bit n i"
    using r x t [OF high(1)] t [OF high(2)] t [OF high(3)] t [OF high(4)] by (elim disjE insertE emptyE) simp_all
qed

text \<open>
  C24. The listing of a folder, from the record behind its thread on: for a good catalog tree whose records that follow are the entries of
  the folder and then one of another folder, one line is printed for each entry, in catalog order and across node
  boundaries, and the counts and the total of the data forks are those of the entries by kind. Fuel beyond the number of entries is enough.
\<close>

theorem folder_listing_correct:
  assumes "src_convert src = catalog_convert" "tree_good src tree"
    and "following (tree_view src) node recordID (sibs @ [stop])" "length sibs < fuel"
    and "\<forall>e \<in> set sibs. ck_parentID (entry_key e) = threadID \<and> entry_ok e" "ck_parentID (entry_key stop) \<noteq> threadID"
  shows "\<exists>st node' tree'. tree_good src tree' \<and>
    listing_loop env (hfsplus_catalog_get_node (Suc n)) threadID fuel node recordID folder_stats_zero (scr, tree) =
      Some (Done (Some st, node', show_lines scr (entry_lines env (decimal_sizes (scr_ctx scr)) sibs), tree')) \<and>
    st_fileCount st = of_nat (length (of_kind {File} sibs)) \<and>
    st_folderCount st = of_nat (length (of_kind {Folder} sibs)) \<and>
    st_symlinkCount st = of_nat (length (of_kind {Symlink} sibs)) \<and>
    st_hardLinkCount st = of_nat (length (of_kind {Dir_Link, Hard_Link} sibs)) \<and>
    st_dataForkSize st = sum_list (map (\<lambda>r. logicalSize (file_fork ''dataFork'' r))
      (filter (\<lambda>r. totalBlocks (file_fork ''dataFork'' r) > 0) (listed_files sibs)))"
proof -
  have gn: "hfsplus_catalog_get_node (Suc n) = (\<lambda>k tree. run (get_node (src_convert src) (Suc n) tree k))"
    by (intro ext) (simp add: hfsplus_catalog_get_node_def assms(1))
  have "\<exists>node' tree'. tree_good src tree' \<and>
    listing_loop env (\<lambda>k tree. run (get_node (src_convert src) (Suc n) tree k)) threadID fuel node recordID
      folder_stats_zero (scr, tree) =
      Some (Done (Some (fold count_entry (map entry_record sibs) folder_stats_zero), node',
        show_lines scr (entry_lines env (decimal_sizes (scr_ctx scr)) sibs), tree'))"
    by (rule tree_file.listing_lists [OF assms(3,2,4,5,6)])
  then show ?thesis
    unfolding gn [symmetric]
    by (elim exE conjE) (rule exI conjI | assumption | simp add: fold_counts folder_stats_zero_def of_kind_def listed_files_def conj_commute)+
qed


section \<open>Samples\<close>

definition sample_library :: library where
  "sample_library = \<lparr>lib_memstr = (\<lambda>_ _ _. (1, ''0'')), lib_memdmp = (\<lambda>_. []), lib_strftime = (\<lambda>_. ''1970'')\<rparr>"

definition sample_env :: "'s hfs_env" where
  "sample_env = \<lparr>env_lib = sample_library, env_block_size = 4096, env_name = (\<lambda>_ s. Done (- 1, None, s)),
     env_make = (\<lambda>_ _ _ _. Critical), env_uninit = ''?''\<rparr>"

definition sample_screen :: screen where
  "sample_screen = \<lparr>scr_ctx = OCMake False 4 None, scr_out = []\<rparr>"

lemma sample_screen_ok: "indent_ok (scr_ctx sample_screen)" "room 3 (scr_ctx sample_screen)" "room 2 (scr_ctx sample_screen)"
  by (simp_all add: sample_screen_def indent_ok_def room_def OCMake_def cstr_def)

text \<open>A map node without records, and an index node of the extents overflow tree with one.\<close>

definition sample_map_node :: btnode where
  "sample_map_node = \<lparr>header = sample_header, nodeNumber = 2, node_size = 16,
     node_data = [0,0,0,0, 0,0,0,0, 2, 0, 0,0, 0,0, 14,0]\<rparr>"

definition sample_index_node :: btnode where
  "sample_index_node = \<lparr>header = sample_header\<lparr>attributes := 6\<rparr>, nodeNumber = 3, node_size = 34,
     node_data = [0,0,0,0, 0,0,0,0, 0, 1, 1,0, 0,0, 10,0, 0, 0, 9,0,0,0, 0,0,0,0, 5,0,0,0, 30,0, 14,0]\<rparr>"

lemma sample_map_printed: "returns (PrintNode sample_env 4 sample_map_node (sample_screen, ()))"
  by code_simp

lemma sample_index_printed: "returns (PrintNode sample_env 3 sample_index_node (sample_screen, ()))"
  by code_simp

lemma node_printing_balanced_witness:
  "\<exists>scr'. PrintNode sample_env 4 sample_map_node (sample_screen, ()) = Done (scr', ()) \<and>
     same_indent (scr_ctx sample_screen) (scr_ctx scr')"
proof -
  obtain scr' where r: "PrintNode sample_env 4 sample_map_node (sample_screen, ()) = Done (scr', ())"
    using sample_map_printed by (auto simp: returns_iff)
  have "\<not> index_table 4 sample_map_node" by code_simp
  from node_printing_balanced [OF this sample_screen_ok(1,2) r] r show ?thesis by blast
qed

lemma index_node_deeper_witness:
  "\<exists>scr'. PrintNode sample_env 3 sample_index_node (sample_screen, ()) = Done (scr', ()) \<and>
     unat (indent_level (scr_ctx scr')) = unat (indent_level (scr_ctx sample_screen)) + 2"
proof -
  obtain scr' where r: "PrintNode sample_env 3 sample_index_node (sample_screen, ()) = Done (scr', ())"
    using sample_index_printed by (auto simp: returns_iff)
  have t: "index_table 3 sample_index_node" "0 < nd_numRecords sample_index_node" by code_simp+
  have "BTGetBTNodeRecord sample_index_node 0 =
      Done \<lparr>rec_num = 0, rec_offset = 14, recordLen = 16, keyLen = 12, rec_value = 26, valueLen = 4\<rparr>"
    by code_simp
  from index_node_deeper [OF t this _ sample_screen_ok(1,3) r] r show ?thesis
    by (auto simp: sample_screen_def OCMake_def)
qed

lemma mode_string_determines_witness:
  "genModeString (CHR ''?'') 0x81A4 = genModeString (CHR ''!'') 0x81A4 \<and> (0x81A4 :: u16) = 0x81A4"
proof -
  have t: "map_of mode_types (0x81A4 AND 0xF000) \<noteq> None" by code_simp
  have "genModeString (CHR ''?'') 0x81A4 = genModeString (CHR ''!'') 0x81A4" by code_simp
  with mode_string_determines [OF t t this] show ?thesis by blast
qed

lemma long_name_overflows_witness: "PrintHFSUniStr255 ''nodeName'' (replicate 250 0x61) (sample_screen, ()) = Fault"
proof -
  have a: "\<not> high_surrogate 0x61" "\<not> low_surrogate 0x61" by code_simp+
  have "well_formed (replicate n 0x61) \<and> well_formed (0x61 # replicate n 0x61)" for n
    by (induction n) (simp_all add: a)
  then show ?thesis by (intro long_name_overflows) simp_all
qed

lemma sample_listing_entries:
  "entry_at sample_node 0 = Done (node_data sample_node, 14, 24)" "entry_at sample_node 1 = Done (node_data sample_node, 112, 120)"
  by code_simp+

lemma folder_listing_correct_witness:
  "\<exists>st node' tree'. listing_loop sample_env (hfsplus_catalog_get_node 1) 1 2 sample_node 0xFFFF folder_stats_zero
     (sample_screen, tree_on sample_catalog) =
       Some (Done (Some st, node', show_lines sample_screen
         (entry_lines (sample_env :: btree hfs_env) False [(node_data sample_node, 14, 24)]), tree')) \<and>
     st_folderCount st = 1"
proof -
  let ?e = "(node_data sample_node, 14, 24) :: entry" and ?stop = "(node_data sample_node, 112, 120) :: entry"
  have data: "node_data sample_node = leaf_swapped record0 record1"
    by (simp add: sample_node_def sample_catalog_node_def)
  have "unat (nd_numRecords sample_node) = 2" by code_simp
  then have "node_entries sample_node 0 [?e, ?stop]"
    using sample_listing_entries by (simp add: node_entries_def numeral_2_eq_2 upt_conv_Cons)
  then have "node_entries sample_node (unat ((0xFFFF :: u16) + 1)) [?e, ?stop]" by simp
  then have f: "following (tree_view sample_catalog) sample_node 0xFFFF ([?e] @ [?stop])"
    unfolding following_def using chain_end by force
  have parents: "ck_parentID (entry_key ?e) = 1" "ck_parentID (entry_key ?stop) \<noteq> 1"
    by (simp_all add: entry_key_def data sample_keys) (simp_all add: sample_key0_def sample_key1_def)
  have ok: "entry_ok ?e" by code_simp
  have k: "length (of_kind {Folder} [?e]) = 1" by code_simp
  have dec: "decimal_sizes (scr_ctx sample_screen) = False" by (simp add: sample_screen_def OCMake_def)
  have "src_convert sample_catalog = catalog_convert" by (simp add: sample_catalog_def)
  from folder_listing_correct [OF this sample_catalog_good f, of 2 1 "sample_env :: btree hfs_env" 0 sample_screen] parents ok k
  show ?thesis unfolding dec by (simp, blast)
qed

end
