(* ===== verification/Logging.thy ===== *)
theory Logging
  imports Output
begin

text \<open>
  The log, \<^verbatim>\<open>src/src/logging/logging.c\<close>. What it relies on is in the environment: the width of the terminal, the
  sequences for colours (\<^verbatim>\<open>vendor/memdmp\<close>, not part of the repository), the depth of the call stack and its trace
  (\<open>backtrace\<close>), and the number of bytes that can be used of a block that was asked for with a size. The
  components of the model treat a message as having no effect, and \<open>critical\<close> as the end of the process;
  the lemmas show when that is so.
\<close>

section \<open>Levels\<close>

abbreviation (input) L_CRITICAL :: nat where "L_CRITICAL \<equiv> 0"
abbreviation (input) L_ERROR :: nat where "L_ERROR \<equiv> 1"
abbreviation (input) L_WARNING :: nat where "L_WARNING \<equiv> 2"
abbreviation (input) L_STANDARD :: nat where "L_STANDARD \<equiv> 3"
abbreviation (input) L_INFO :: nat where "L_INFO \<equiv> 4"
abbreviation (input) L_DEBUG :: nat where "L_DEBUG \<equiv> 5"
abbreviation (input) L_DEBUG2 :: nat where "L_DEBUG2 \<equiv> 6"
abbreviation (input) L_TRACE :: nat where "L_TRACE \<equiv> 7"

record log_env =
  env_columns :: "u16 option"
  env_colours :: bool
  env_reset :: string
  env_gray :: "nat \<Rightarrow> bool \<Rightarrow> string"
  env_colour :: "nat \<Rightarrow> nat \<Rightarrow> nat \<Rightarrow> bool \<Rightarrow> string"
  env_depth :: nat
  env_trace :: string
  env_usable :: "nat \<Rightarrow> nat"

record log_state =
  log_level :: nat
  log_stdout :: string
  log_stderr :: string

section \<open>Colours\<close>

datatype colour = Gray nat | Rgb nat nat nat

text \<open>The colours of the text and of its background.\<close>

definition level_colours :: "nat \<Rightarrow> colour \<times> colour" where
  "level_colours level =
     (if level = L_CRITICAL then (Gray 23, Rgb 5 0 0)
      else if level = L_ERROR then (Rgb 5 0 0, Rgb 0 0 0)
      else if level = L_WARNING then (Rgb 5 1 0, Rgb 0 0 0)
      else if level = L_STANDARD then (Gray 23, Rgb 0 0 0)
      else if level = L_INFO then (Rgb 1 5 1, Rgb 0 0 0)
      else if level = L_DEBUG then (Rgb 2 2 4, Rgb 0 0 0)
      else if level = L_DEBUG2 then (Rgb 3 3 5, Rgb 0 0 0)
      else (Rgb 5 5 1, Rgb 0 0 0))"

fun colour_text :: "log_env \<Rightarrow> bool \<Rightarrow> colour \<Rightarrow> string" where
  "colour_text env background (Gray n) = env_gray env n background"
| "colour_text env background (Rgb r g b) = env_colour env r g b background"

definition printColor :: "log_env \<Rightarrow> nat \<Rightarrow> string" where
  "printColor env level =
     (if \<not> env_colours env then []
      else env_reset env @ colour_text env False (fst (level_colours level)) @
        colour_text env True (snd (level_colours level)))"

section \<open>Lines\<close>

definition prefixes :: "string list" where
  "prefixes = [''[CRIT]   '', ''[ERR]    '', ''[WARN]   '', '''', ''[INFO]   '', ''[DEBUG]  '', ''[DEBUG2] '', ''[TRACE]  '']"

definition log_text :: "bool \<Rightarrow> string \<Rightarrow> log_state \<Rightarrow> log_state" where
  "log_text to_stdout s l =
     (if to_stdout then l\<lparr>log_stdout := log_stdout l @ s\<rparr> else l\<lparr>log_stderr := log_stderr l @ s\<rparr>)"

text \<open>Both \<open>raise(SIGTRAP)\<close> and \<open>abort\<close> end the process.\<close>

definition LogLine :: "log_env \<Rightarrow> nat \<Rightarrow> string \<Rightarrow> log_state \<Rightarrow> log_state outcome" where
  "LogLine env level text l =
     (if level > log_level l then Done l
      else
        let prefix = prefixes ! (if level \<ge> L_TRACE then L_TRACE else level);
            out = printColor env level @ prefix @ '' '' @ text @ [newline] @ env_reset env @
              (if log_level l > L_INFO \<and> level \<le> L_WARNING then env_trace env else []);
            l = log_text (level = L_STANDARD) out l in
        if level \<le> L_CRITICAL then Critical else Done l)"

text \<open>The width of a line: that of the terminal within bounds, less ten.\<close>

definition term_width :: "log_env \<Rightarrow> nat" where
  "term_width env =
     (let w = (case env_columns env of None \<Rightarrow> 0 | Some c \<Rightarrow> unat c); w = (if w = 0 then 160 else w) in
      min 255 (max 40 w) - 10)"

text \<open>
  The line that is built: spaces, the message from the depth of the stack on, as it was cut by \<open>vsnprintf\<close>,
  and at the right margin where the message comes from. The terminator is stored behind the block that was
  asked for.
\<close>

definition overwrite :: "nat \<Rightarrow> string \<Rightarrow> string \<Rightarrow> string" where
  "overwrite p s line = take p line @ s @ drop (p + length s) line"

definition where_text :: "string \<Rightarrow> nat \<Rightarrow> string \<Rightarrow> string" where
  "where_text file line_no function = ''['' @ file @ '':'' @ dec line_no @ '' '' @ function @ ''()]''"

definition out_line :: "log_env \<Rightarrow> nat \<Rightarrow> nat \<Rightarrow> string \<Rightarrow> string \<Rightarrow> string" where
  "out_line env level current origin message =
     (let width = term_width env; depth = min (env_depth env) width;
          in_line = take (width - 1) message @ replicate (width - min (width - 1) (length message)) (CHR 0x00);
          line = overwrite depth (take (min (width - depth) (length message)) in_line) (replicate width (CHR '' ''));
          debug_offset = int width - 1 - int (length origin) in
      if current > L_INFO \<and> level \<noteq> L_STANDARD \<and> debug_offset > 0
      then overwrite (nat debug_offset) origin line else line)"

definition PrintLine ::
  "log_env \<Rightarrow> nat \<Rightarrow> string \<Rightarrow> string \<Rightarrow> nat \<Rightarrow> string \<Rightarrow> log_state \<Rightarrow> log_state outcome" where
  "PrintLine env level file function line_no message l =
     (if level > log_level l then Done l
      else if env_usable env (term_width env) \<le> term_width env then Fault
      else LogLine env level (cstr (out_line env level (log_level l) (where_text file line_no function) message)) l)"

section \<open>What a message does\<close>

lemma term_width_range: "30 \<le> term_width env" "term_width env \<le> 245"
  by (auto simp: term_width_def Let_def split: option.splits)

lemma length_overwrite: "p + length s \<le> length line \<Longrightarrow> length (overwrite p s line) = length line"
  by (simp add: overwrite_def)

text \<open>Both copies stay within the line.\<close>

lemma length_out_line: "length (out_line env level current origin message) = term_width env"
proof -
  define w d where "w = term_width env" and "d = min (env_depth env) w"
  define msg where "msg = take (min (w - d) (length message))
    (take (w - 1) message @ replicate (w - min (w - 1) (length message)) (CHR 0x00))"
  have "length msg \<le> min (w - d) (length message)" unfolding msg_def length_take by (rule min.cobounded2)
  then have "length msg \<le> w - d" by simp
  then have "d + length msg \<le> w" by (simp add: d_def)
  then have line: "length (overwrite d msg (replicate w (CHR '' ''))) = w" by (simp add: length_overwrite)
  have "length (overwrite (nat (int w - 1 - int (length origin))) origin (overwrite d msg (replicate w (CHR '' '')))) = w"
    if "int w - 1 - int (length origin) > 0"
    using that line by (subst length_overwrite) (simp_all add: nat_diff_distrib)
  with line show ?thesis
    unfolding out_line_def Let_def w_def [symmetric] d_def [symmetric] msg_def [symmetric] by simp
qed

lemma messages_below_level: "level > log_level l \<Longrightarrow> PrintLine env level file function n message l = Done l"
  by (simp add: PrintLine_def)

text \<open>
  A line that is printed (its level is at most that of the log) is one byte longer than the block it is built in: where
  a block has only the bytes that were asked for, every such message is an access out of bounds, whatever
  it says and however wide the terminal is.
\<close>

lemma message_overflows:
  assumes "\<And>n. env_usable env n = n" "level \<le> log_level l"
  shows "PrintLine env level file function n message l = Fault"
  using assms by (simp add: PrintLine_def)

text \<open>
  Where blocks have a byte to spare, a critical message ends the process, whatever the level of the log,
  the depth of the stack and the message: this is the outcome \<open>Critical\<close> of the other components.
\<close>

lemma critical_ends:
  assumes "\<And>n. n < env_usable env n"
  shows "PrintLine env L_CRITICAL file function n message l = Critical"
  using assms [of "term_width env"] by (simp add: PrintLine_def LogLine_def)

text \<open>Any other message only adds a line to one of the streams.\<close>

lemma message_adds_line:
  assumes "\<And>n. n < env_usable env n" "0 < level"
  shows "\<exists>l'. PrintLine env level file function n message l = Done l' \<and> log_level l' = log_level l \<and>
    (level \<noteq> L_STANDARD \<longrightarrow> log_stdout l' = log_stdout l) \<and>
    (level = L_STANDARD \<longrightarrow> log_stderr l' = log_stderr l)"
  using assms(1) [of "term_width env"] assms(2)
  by (auto simp: PrintLine_def LogLine_def log_text_def Let_def)

section \<open>Examples\<close>

definition sample_log :: "(nat \<Rightarrow> nat) \<Rightarrow> log_env" where
  "sample_log usable =
     \<lparr>env_columns = Some 80, env_colours = False, env_reset = [], env_gray = (\<lambda>_ _. []), env_colour = (\<lambda>_ _ _ _. []),
      env_depth = 4, env_trace = [], env_usable = usable\<rparr>"

definition quiet_log :: log_state where
  "quiet_log = \<lparr>log_level = L_STANDARD, log_stdout = [], log_stderr = []\<rparr>"

lemma message_overflows_witness:
  "PrintLine (sample_log id) L_ERROR ''hfs.c'' ''hfs_open'' 52 ''no volume'' quiet_log = Fault"
  by (rule message_overflows) (simp_all add: sample_log_def quiet_log_def)

lemma critical_ends_witness:
  "PrintLine (sample_log Suc) L_CRITICAL ''hfs.c'' ''hfs_open'' 52 ''no volume'' quiet_log = Critical"
  by (rule critical_ends) (simp add: sample_log_def)

end
