(* ===== verification/Volume_Dump.thy ===== *)
theory Volume_Dump
  imports Hfs_Output Volumes_Load Logging
begin

text \<open>
  Printing volumes: the \<open>dump\<close> operations of the partition maps (\<^verbatim>\<open>src/src/volumes/mbr.c\<close>, \<^verbatim>\<open>gpt.c\<close>, \<^verbatim>\<open>apm.c\<close>,
  \<^verbatim>\<open>corestorage.c\<close>), \<open>vol_dump\<close> (\<^verbatim>\<open>volume.c\<close>), \<open>volumes_dump\<close> (\<^verbatim>\<open>volumes.c\<close>) and the summary of a volume
  (\<^verbatim>\<open>src/src/operations/hfs_summary.c\<close>). A dump prints what the loads of Partition_Maps and
  Volumes_Load read. From libraries come \<open>uuid_unparse\<close>, \<open>uuid_parse\<close> with \<open>uuid_compare\<close>, and the
  conversion of wide characters; \<open>dump_desc\<close> is what the loads have stored as the descriptions of a
  partition, which the volumes of the model do not hold, and \<open>dump_stack\<close> what follows an array on the stack.
\<close>

record dump_env =
  dump_lib :: library
  dump_unparse :: "buffer \<Rightarrow> string"
  dump_uuid_is :: "string \<Rightarrow> buffer \<Rightarrow> bool"
  dump_wide :: "u16 list \<Rightarrow> string"
  dump_stack :: string
  dump_shift :: "nat \<Rightarrow> u64"
  dump_desc :: "nat list \<Rightarrow> string \<times> string"

text \<open>A printer with the value that the function returns, as an \<open>int\<close>.\<close>

definition returning :: "int \<Rightarrow> 's printer \<Rightarrow> screen \<times> 's \<Rightarrow> (int \<times> screen \<times> 's) outcome" where
  "returning rc p x = obind (p x) (\<lambda>x. Done (rc, x))"

section \<open>Master boot records\<close>

definition mbr_type_names :: "string list" where
  "mbr_type_names =
     [''Free'', ''MS FAT12'', ''MS FAT16'', ''Extended partition (CHS)'', ''MS FAT16B'', ''MS NTFS/exFAT; IBM IFS/HPFS'',
      ''MS FAT12/16 CHS'', ''MS FAT32 CHS'', ''MS FAT32X LBA'', ''MS FAT16X LBA'', ''Extended partition (LBA)'',
      ''Linux Swap'', ''Linux Filesystem'', ''Linux Extended Boot Record'', ''Linux LVM'', ''Linux Hidden'',
      ''Apple UFS'', ''Apple Boot'', ''Apple HFS'', ''GPT Protective MBR'', ''EFI system partition'', []]"

text \<open>
  The name is kept in a static array, which a type that is not in the table leaves as it was.
\<close>

definition mbr_type_name :: "u16 \<Rightarrow> string \<Rightarrow> string" where
  "mbr_type_name type type_str =
     fold (\<lambda>((t, _), name) type_str. if t = type then strlcpy 99 name else type_str)
       (take 22 (zip mbr_partition_types mbr_type_names)) type_str"

definition upper_hex2 :: "nat \<Rightarrow> string" where
  "upper_hex2 n = pad_left 2 (CHR ''0'')
     (map (\<lambda>c. let k = of_char c :: nat in if 97 \<le> k \<and> k \<le> 102 then char_of (k - 32) else c) (digits 16 n))"

text \<open>Sector and cylinder are the bits of one member: six and ten of them.\<close>

definition print_chs :: "string \<Rightarrow> buffer \<Rightarrow> nat \<Rightarrow> 's printer" where
  "print_chs label mbr p =
     (let sc = rd mbr (fld MBRCHS_t ''sector_cylinder'' p) :: u16 in
      steps
       [PrintUI (label @ ''.head'') (member MBRCHS_t mbr p ''head''),
        PrintUI (label @ ''.cylinder'') (ucast (drop_bit 6 sc)),
        PrintUI (label @ ''.sector'') (ucast (sc AND 0x3F))])"

definition mbr_dump_entry :: "buffer \<Rightarrow> u32 \<Rightarrow> string \<Rightarrow> nat \<Rightarrow> 's printer" where
  "mbr_dump_entry mbr secsz name i =
     (let t = MBRPartition_t; p = elem t i (fld MBR_t ''partitions'' 0) in
      in_section (''Partition '' @ dec (i + 1))
       [PrintUIHex ''status'' (ucast (member t mbr p ''status'')),
        print_chs ''first_sector'' mbr (fld t ''first_sector'' p),
        PrintAttribute (Some ''type'') (''0x'' @ upper_hex2 (unat (member t mbr p ''type'')) @ '' ('' @ name @ '')''),
        print_chs ''last_sector'' mbr (fld t ''last_sector'' p),
        ui t mbr p ''first_sector_lba'', ui t mbr p ''sector_count'',
        PrintDataLength ''(size)'' (ucast ((ucast (member t mbr p ''sector_count'') :: u32) * secsz))])"

text \<open>The entries that are used, and the name in the static array after each.\<close>

fun mbr_dump_entries :: "buffer \<Rightarrow> u32 \<Rightarrow> string \<Rightarrow> nat list \<Rightarrow> 's printer list" where
  "mbr_dump_entries mbr secsz type_str [] = []"
| "mbr_dump_entries mbr secsz type_str (i # is) =
     (let type = member MBRPartition_t mbr (elem MBRPartition_t i (fld MBR_t ''partitions'' 0)) ''type'' in
      if type = 0 then mbr_dump_entries mbr secsz type_str is
      else
        let type_str = mbr_type_name (ucast type) type_str in
        mbr_dump_entry mbr secsz type_str i # mbr_dump_entries mbr secsz type_str is)"

definition mbr_dump :: "string \<Rightarrow> volume \<Rightarrow> screen \<times> 's \<Rightarrow> (int \<times> screen \<times> 's) outcome" where
  "mbr_dump type_str vol x =
     obind (mbr_load_header vol (replicate (sizeof MBR_t) 0)) (\<lambda>(rc, mbr).
       if rc < 0 then Done (- 1, x)
       else returning 0 (in_section ''Master Boot Record''
         (PrintAttribute (Some ''signature'')
            (''0x'' @ digits 16 (unat (mbr ! (fld MBR_t ''signature'' 0 + 1))) @
             digits 16 (unat (mbr ! fld MBR_t ''signature'' 0))) #
          mbr_dump_entries mbr (sector_size (geom vol)) type_str [0..<4])) x)"

section \<open>GUID partition tables\<close>

definition gpt_type_names :: "string list" where
  "gpt_type_names =
     [''Unused'', ''MBR Partition Scheme'', ''EFI System Partition'', ''BIOS Boot Partition'', ''Intel Fast Flash'',
      ''Mac OS Extended (HFS+)'', ''Apple UFS'', ''Apple ZFS'', ''Apple RAID Partition'', ''Apple RAID Partition (offline)'',
      ''OS X Recovery Partition'', ''Apple Label'', ''Apple TV Recovery Partition'', ''Core Storage Volume'']"

definition gpt_type_name :: "dump_env \<Rightarrow> buffer \<Rightarrow> string" where
  "gpt_type_name env uuid =
     (case filter (\<lambda>((s, _), name). dump_uuid_is env s uuid) (zip gpt_partition_types gpt_type_names) of
        (_, name) # _ \<Rightarrow> name
      | [] \<Rightarrow> dump_unparse env uuid)"

definition PrintGPTHeader :: "dump_env \<Rightarrow> buffer \<Rightarrow> u32 \<Rightarrow> 's printer" where
  "PrintGPTHeader env h secsz =
     (let t = GPTHeader_t; v = member t h 0; hex = (\<lambda>f. PrintUIHex f (ucast (v f))) in
      steps
       [hex ''revision'', data_length t h 0 ''header_size'', hex ''crc'', hex ''reserved'',
        steps (map (ui t h 0) [''current_lba'', ''backup_lba'', ''first_lba'', ''last_lba'']),
        PrintDataLength ''(size)'' (v ''last_lba'' * ucast secsz - v ''first_lba'' * ucast secsz),
        PrintAttribute_format (Some ''uuid'') (dump_unparse env (gpt_swap_uuid (member_bytes t h 0 ''uuid''))),
        ui t h 0 ''partition_table_start_lba'', ui t h 0 ''partitions_entry_count'',
        data_length t h 0 ''partitions_entry_size'', hex ''partition_table_crc''])"

text \<open>
  The type is printed with the bytes of the UUID as if they were text, up to the first zero among them or
  behind them.
\<close>

definition gpt_print_entry :: "dump_env \<Rightarrow> buffer \<Rightarrow> u32 \<Rightarrow> nat \<Rightarrow> nat \<Rightarrow> 's printer" where
  "gpt_print_entry env recs secsz i p =
     (let t = GPTPartitionEntry_t; v = member t recs p;
          uuid = gpt_swap_uuid (member_bytes t recs p ''type_uuid'') in
      in_section (''Partition: '' @ dec (i + 1) @ '' ('' @ dec (unat (v ''first_lba'' * ucast secsz)) @ '')'')
       [PrintAttribute (Some ''type'') (gpt_type_name env uuid @ '' ('' @ cstr (chars uuid @ dump_stack env) @ '')''),
        PrintAttribute (Some ''uuid'') (dump_unparse env (gpt_swap_uuid (member_bytes t recs p ''uuid''))),
        PrintUI ''first_lba'' (v ''first_lba''), PrintUI ''last_lba'' (v ''last_lba''),
        PrintDataLength ''(size)'' (v ''last_lba'' * ucast secsz - v ''first_lba'' * ucast secsz),
        PrintRawAttribute (dump_lib env) ''attributes'' (member_bytes t recs p ''attributes'') 2,
        PrintAttribute (Some ''name'') (dump_wide env (map (\<lambda>c. rd recs (elem C16 c (fld t ''name'' p))) [0..<36]))])"

fun PrintGPTPartitions :: "dump_env \<Rightarrow> buffer \<Rightarrow> u32 \<Rightarrow> nat \<Rightarrow> nat \<Rightarrow> 's printer" where
  "PrintGPTPartitions env recs secsz 0 i = Done"
| "PrintGPTPartitions env recs secsz (Suc nrecs) i =
     (let p = elem GPTPartitionEntry_t i 0 in
      if \<not> fits p (sizeof GPTPartitionEntry_t) recs then (\<lambda>_. Fault)
      else if unused_entry recs p then Done
      else steps [gpt_print_entry env recs secsz i p, PrintGPTPartitions env recs secsz nrecs (i + 1)])"

definition gpt_dump :: "dump_env \<Rightarrow> volume \<Rightarrow> screen \<times> 's \<Rightarrow> (int \<times> volume \<times> screen \<times> 's) outcome" where
  "gpt_dump env vol x =
     obind (gpt_load_header vol) (\<lambda>(rc, r, vol).
       if rc < 0 then Done (- 1, vol, x)
       else case r of None \<Rightarrow> Fault
       | Some (h, recs) \<Rightarrow>
           let secsz = sector_size (geom vol);
               nrecs = unat (rd h (fld GPTHeader_t ''partitions_entry_count'' 0) :: u32) in
           obind (in_section ''GPT Partition Map''
             [PrintGPTHeader env h secsz, PrintGPTPartitions env recs secsz nrecs 0] x) (\<lambda>x. Done (0, vol, x)))"

section \<open>Apple partition maps\<close>

definition APM_names :: "string list" where
  "APM_names =
     [''OS X Open Firmware 3.x booter'', ''RAID partition'', ''secondary loader'', ''device driver'',
      ''SCSI Manager 4.3 device driver'', ''SCSI CD-ROM device driver'', ''ATA device driver'', ''ATAPI device driver'',
      ''IOKit device driver'', ''Open Firmware device driver'', ''unused'', ''free space'', ''FireWire device driver'',
      ''HFS/HFS+'', ''HFSX'', ''secondary loader'', ''Macintosh File System'', ''partition map'', ''patch partition'',
      ''ProDOS'', ''UFS'', ''empty'', ''secondary loader'', ''UFS'', ''UNIX file system'', ''dummy partition (empty)'', ''BeOS BFS'']"

text \<open>
  The constants are masks, but \<open>PrintUIFlagIfSet\<close> takes the number of a bit. A shift by 64 or more is
  undefined; \<open>dump_shift\<close> is what it gives.
\<close>

definition apm_status_flags :: "(string \<times> nat) list" where
  "apm_status_flags =
     [(''kAPMStatusValid'', 0x1), (''kAPMStatusAllocated'', 0x2), (''kAPMStatusInUse'', 0x4),
      (''kAPMStatusBootInfo'', 0x8), (''kAPMStatusReadable'', 0x10), (''kAPMStatusWritable'', 0x20),
      (''kAPMStatusPositionIndependent'', 0x40), (''kAPMStatusChainCompatible'', 0x100),
      (''kAPMStatusRealDriver'', 0x200), (''kAPMStatusChainDriver'', 0x400), (''kAPMStatusAutoMount'', 0x40000000),
      (''kAPMStatusIsStartup'', 0x80000000)]"

definition print_status_flag :: "dump_env \<Rightarrow> u64 \<Rightarrow> string \<times> nat \<Rightarrow> 's printer" where
  "print_status_flag env status = (\<lambda>(name, flag).
     if flag < 64 then PrintUIFlagIfSet ''header->status'' status (name, flag)
     else print_if (status AND dump_shift env flag \<noteq> 0) (PrintIntFlag ''header->status'' name (of_nat flag)))"

definition print_apm_header :: "dump_env \<Rightarrow> buffer \<Rightarrow> u32 \<Rightarrow> nat \<Rightarrow> 's printer" where
  "print_apm_header env hdr secsz partitionID =
     (let t = APMHeader_t; v = member t hdr 0; text = (\<lambda>f. cstr (chars (member_bytes t hdr 0 f)));
          sectors = (\<lambda>f. PrintDataLength (f @ ''*vol->sector_size'') (v f * ucast secsz)) in
      in_section (''Partition '' @ dec partitionID)
       [PrintUIChar (dump_lib env) ''signature'' (member_bytes t hdr 0 ''signature''),
        ui t hdr 0 ''partition_count'', ui t hdr 0 ''partition_start'', sectors ''partition_length'',
        PrintAttribute (Some ''name'') (text ''name''),
        steps (map (\<lambda>((s, _), name). print_if (strncasecmp_equal 32 (member_bytes t hdr 0 ''type'') (ascii s @ [0]))
          (PrintAttribute (Some ''type'') (name @ '' ('' @ s @ '')''))) (zip APMPartitionIdentifers APM_names)),
        ui t hdr 0 ''data_start'', sectors ''data_length'',
        PrintRawAttribute (dump_lib env) ''status'' (member_bytes t hdr 0 ''status'') 2,
        steps (map (print_status_flag env (v ''status'')) apm_status_flags),
        ui t hdr 0 ''boot_code_start'', sectors ''boot_code_length'', ui t hdr 0 ''bootloader_address'',
        ui t hdr 0 ''boot_code_entry'', ui t hdr 0 ''boot_code_checksum'',
        PrintAttribute (Some ''processor_type'') ([CHR 0x27] @ text ''processor_type'' @ [CHR 0x27])])"

text \<open>
  The loop, from a partition number on, in the buffer that an earlier round has left. The count is below
  \<open>2 ^ 32\<close>, so the number does not wrap.
\<close>

function apm_dump_from ::
  "dump_env \<Rightarrow> volume \<Rightarrow> nat \<Rightarrow> buffer \<Rightarrow> screen \<times> 's \<Rightarrow> (int \<times> screen \<times> 's) outcome" where
  "apm_dump_from env vol partitionID hdr x =
     obind (apm_get_header vol hdr partitionID) (\<lambda>(rc, hdr).
       if rc = - 1 then Done (- 1, x)
       else obind (print_apm_header env hdr (sector_size (geom vol)) partitionID x) (\<lambda>x.
         if partitionID \<ge> unat (rd hdr (fld APMHeader_t ''partition_count'' 0) :: u32) then Done (0, x)
         else apm_dump_from env vol (partitionID + 1) hdr x))"
  by pat_completeness auto

termination
proof (relation "measure (\<lambda>(_, _, partitionID, _). 2 ^ 32 - partitionID)")
  fix partitionID :: nat and hdr :: buffer
  assume "\<not> unat (rd hdr (fld APMHeader_t ''partition_count'' 0) :: u32) \<le> partitionID"
  then have "partitionID < 2 ^ 32" using unat_bound [of "rd hdr (fld APMHeader_t ''partition_count'' 0) :: u32"] by simp
  then show "((env, vol, partitionID + 1, hdr', x), (env', vol', partitionID, hdr'', y)) \<in>
      measure (\<lambda>(_, _, partitionID, _). 2 ^ 32 - partitionID)" for env env' :: dump_env
      and vol vol' :: volume and hdr' hdr'' :: buffer and x y :: "screen \<times> 's"
    by simp
qed simp

declare apm_dump_from.simps [simp del]

text \<open>Where a header cannot be read, the section stays open.\<close>

definition apm_dump :: "dump_env \<Rightarrow> volume \<Rightarrow> screen \<times> 's \<Rightarrow> (int \<times> screen \<times> 's) outcome" where
  "apm_dump env vol x =
     obind (BeginSection ''Apple Partition Map'' x) (\<lambda>x.
     obind (apm_dump_from env vol 1 (replicate (sizeof APMHeader_t) 0) x) (\<lambda>(rc, x).
       if rc < 0 then Done (- 1, x) else obind (EndSection x) (\<lambda>x. Done (0, x))))"

section \<open>Core Storage\<close>

text \<open>The members of 64 bits are passed for \<open>%#x\<close> and \<open>%u\<close>, which take their low 32 bits.\<close>

definition hex_at :: "ctype \<Rightarrow> buffer \<Rightarrow> nat \<Rightarrow> string \<Rightarrow> 's printer" where
  "hex_at t m p f = PrintUIHex f (ucast (member t m p f))"

definition PrintCSBlockHeader :: "buffer \<Rightarrow> nat \<Rightarrow> 's printer" where
  "PrintCSBlockHeader m p =
     (let t = CSBlockHeader_t in
      reads p (sizeof t) m (in_section ''CS Block Header''
       [hex_at t m p ''checksum'', hex_at t m p ''checksum_seed'', ui t m p ''version'',
        steps (map (hex_at t m p) [''block_type'', ''field_5'', ''generation'', ''field_7'', ''field_8'', ''field_9'']),
        data_length t m p ''block_size'', hex_at t m p ''field_11'', hex_at t m p ''field_12'']))"

text \<open>
  What \<open>memstr\<close> leaves in the array, which keeps its text when the conversion fails; the text is
  then the format of the attribute.
\<close>

definition hex_text :: "library \<Rightarrow> buffer \<Rightarrow> string \<Rightarrow> string" where
  "hex_text lib data before = (let (n, str) = lib_memstr lib 16 data 1024 in if n < 0 then before else cstr str)"

definition print_md_blocks :: "buffer \<Rightarrow> nat \<Rightarrow> 's printer" where
  "print_md_blocks m p =
     steps (map (\<lambda>i.
       let b = rd m (elem C64 i (fld CSVolumeHeader_t ''md_blocks'' p)) :: u64 in
       print_if (b \<noteq> 0) (PrintAttribute (Some (''md_blocks['' @ dec i @ '']''))
         (alt_hex (unat (ucast b :: u32))))) [0..<8])"

definition PrintCSVolumeHeader :: "dump_env \<Rightarrow> buffer \<Rightarrow> nat \<Rightarrow> 's printer" where
  "PrintCSVolumeHeader env m p =
     (let t = CSVolumeHeader_t; lib = dump_lib env; n = unat (member t m p ''encryption_key_size'');
          key = hex_text lib (chunk (fld t ''encryption_key_data'' p) n m) [];
          pv = hex_text lib (member_bytes t m p ''physical_volume_uuid'') key;
          lvg = hex_text lib (member_bytes t m p ''logical_volume_group_uuid'') pv in
      reads p (sizeof t) m (in_section ''CS Volume Header''
       [PrintCSBlockHeader m (fld t ''block_header'' p),
        data_length t m p ''physical_size'', PrintRawAttribute lib ''field_14'' (member_bytes t m p ''field_14'') 16,
        PrintUIChar lib ''signature'' (member_bytes t m p ''signature''), ui t m p ''checksum_algo'',
        ui t m p ''md_count'', data_length t m p ''md_block_size'', data_length t m p ''md_size'',
        print_md_blocks m p,
        data_length t m p ''encryption_key_size'', ui t m p ''encryption_key_algo'',
        reads (fld t ''encryption_key_data'' p) n m (PrintAttribute_format (Some ''encryption_key_data'') key),
        PrintAttribute_format (Some ''physical_volume_uuid'') pv,
        PrintAttribute_format (Some ''logical_volume_group_uuid'') lvg]))"

definition CSMetadataBlockType11_t :: ctype where
  "CSMetadataBlockType11_t = CStruct
     [(''block_header'', CSBlockHeader_t), (''metadata_size'', C32), (''field_2'', C32), (''checksum'', C32),
      (''checksum_seed'', C32), (''uncharted'', CArray 35 C32), (''vol_grps_desc_off'', C32), (''plist_offset'', C32),
      (''plist_size'', C32), (''plist_size_copy'', C32), (''field_10'', C32), (''secondary_vhb_off'', C64),
      (''ukwn_record_count'', C64), (''ukwn_records'', CArray 3 C64)]"

text \<open>The records behind the block, as many as it says: the array is declared with one of them.\<close>

fun print_unknown_records :: "buffer \<Rightarrow> nat \<Rightarrow> nat \<Rightarrow> 's printer" where
  "print_unknown_records m p 0 = Done"
| "print_unknown_records m p (Suc n) =
     reads p 24 m (steps
      [Print (let cell = (\<lambda>i. pad_right 12 (alt_hex (unat (ucast (rd m (elem C64 i p) :: u64) :: u32)))) in
         cell 0 @ '' '' @ cell 1 @ '' '' @ cell 2),
       print_unknown_records m (p + 24) n])"

definition PrintCSMetadataBlockType11 :: "buffer \<Rightarrow> nat \<Rightarrow> 's printer" where
  "PrintCSMetadataBlockType11 m p =
     (let t = CSMetadataBlockType11_t in
      reads p (offsetof t ''ukwn_records'') m (in_section ''CS Metadata Block (Type 0x11)''
       [PrintCSBlockHeader m (fld t ''block_header'' p), data_length t m p ''metadata_size'',
        steps (map (hex_at t m p) [''field_2'', ''checksum'', ''checksum_seed'', ''vol_grps_desc_off'', ''plist_offset'']),
        data_length t m p ''plist_size'', data_length t m p ''plist_size_copy'', hex_at t m p ''field_10'',
        hex_at t m p ''secondary_vhb_off'', ui t m p ''ukwn_record_count'',
        in_section ''Unknown Records''
         [Print (pad_right 12 ''Generation'' @ '' '' @ pad_right 12 ''Curly'' @ '' '' @ pad_right 12 ''Moe''),
          print_unknown_records m (fld t ''ukwn_records'' p) (unat (member t m p ''ukwn_record_count''))]]))"

text \<open>
  One metadata block: what it holds, and then as many bytes as the header says. The buffer is cleared
  before each; a block that cannot be had is left out.
\<close>

definition cs_dump_block ::
  "dump_env \<Rightarrow> (u32 \<Rightarrow> buffer \<Rightarrow> u32) \<Rightarrow> volume \<Rightarrow> buffer \<Rightarrow> nat \<Rightarrow> u64 \<Rightarrow> 's printer" where
  "cs_dump_block env crc32c vol hdr i block_number =
     (let h = member CSVolumeHeader_t hdr 0; block_size = h ''md_block_size''; md_size = h ''md_size'' in
      with_outcome (cs_get_metadata_block crc32c (replicate (unat block_size) 0) vol hdr (ucast block_number)) (\<lambda>(bytes, buf).
        if bytes < 0 then Done
        else
          let type = member CSBlockHeader_t buf 0 ''block_type'' in
          in_section (''CS Metadata Block '' @ dec i @ '' (block '' @ alt_hex (unat block_number) @ ''; offset '' @
            alt_hex (unat (block_number * block_size)) @ '')'')
           [if type = 0x10 then PrintCSVolumeHeader env buf 0
            else if type = 0x11 then PrintCSMetadataBlockType11 buf 0
            else PrintCSBlockHeader buf 0,
            with_outcome (vol_read (geom vol) (replicate (unat md_size) 0) md_size (block_number * block_size)) (\<lambda>(nbytes, block).
              print_if (nbytes \<noteq> 0) (VisualizeData (dump_lib env) block))]))"

text \<open>
  The header lies in an array of 1024 bytes, and its table of blocks is read as far as \<open>md_count\<close> says.
\<close>

definition cs_dump ::
  "dump_env \<Rightarrow> (u32 \<Rightarrow> buffer \<Rightarrow> u32) \<Rightarrow> volume \<Rightarrow> screen \<times> 's \<Rightarrow> (int \<times> screen \<times> 's) outcome" where
  "cs_dump env crc32c vol x =
     obind (cs_get_volume_header crc32c vol (replicate (sizeof CSVolumeHeader_t) 0)) (\<lambda>(rc, h).
       if rc = - 1 then Done (- 1, x)
       else
         let hdr = store 0 h (replicate 1024 0); n = unat (member CSVolumeHeader_t hdr 0 ''md_count'');
             at = (\<lambda>i. elem C64 i (fld CSVolumeHeader_t ''md_blocks'' 0)) in
         returning 0 (in_section ''Core Storage Volume''
           [PrintCSVolumeHeader env hdr 0,
            steps (map (\<lambda>i.
              reads (at i) 8 hdr (let b = rd hdr (at i) :: u64 in
                if b = 0 then Done else cs_dump_block env crc32c vol hdr i b)) [0..<n])]) x)"

section \<open>Volumes\<close>

definition type_names :: "(string \<times> u32) list" where
  "type_names =
     [(''kTypeUnknown'', 0), (''kVolTypeSystem'', 0x53595354), (''kVolTypePartitionMap'', 0x504D2020),
      (''kVolTypeUserData'', 0x44415441)]"

definition subtype_names :: "(string \<times> u32) list" where
  "subtype_names =
     [(''kTypeUnknown'', 0), (''kPMTypeMBR'', 0x4D425220), (''kPMTypeGPT'', 0x47505420), (''kPMTypeAPM'', 0x41504D20),
      (''kPMCoreStorage'', 0x43532020), (''kFSTypeMFS'', 0x4D465320), (''kFSTypeHFS'', 0x48465320),
      (''kFSTypeHFSPlus'', 0x4846532B), (''kFSTypeHFSX'', 0x48465358), (''kFSTypeWrappedHFSPlus'', 0x48465357)]"

definition PrintUICharsIfEqual :: "string \<Rightarrow> u32 \<Rightarrow> string \<times> u32 \<Rightarrow> 's printer" where
  "PrintUICharsIfEqual var v = (\<lambda>(name, val). print_if (v = val)
     (PrintAttribute (Some var) ([CHR 0x27] @ format_uint_chars (word_bytes 4 val) @ [CHR 0x27] @ '' ('' @ name @ '')'')))"

definition volume_members :: "volume \<Rightarrow> 's printer" where
  "volume_members vol =
     steps
      [Print ''source'',
       steps (map (PrintUICharsIfEqual ''vol->type'' (vol_type vol)) type_names),
       steps (map (PrintUICharsIfEqual ''vol->subtype'' (vol_subtype vol)) subtype_names),
       PrintDataLength ''offset'' (vol_offset (geom vol)), PrintDataLength ''length'' (vol_length (geom vol)),
       PrintUI ''sector_count'' (sector_count (geom vol)), PrintDataLength ''sector_size'' (ucast (sector_size (geom vol))),
       PrintDataLength ''phy_sector_size'' (ucast (phy_sector_size (geom vol))),
       PrintUI ''partition_count'' (of_nat (partition_count vol))]"

lemma size_list_take: "size_list f (take n xs) \<le> size_list f xs"
proof (induction xs arbitrary: n)
  case (Cons x xs)
  then show ?case by (cases n) auto
qed simp

text \<open>
  A volume at a position of the tree, and the partitions from an index on: the array has 128 places, and
  the count may be larger. The path of the source is an argument that the format does not use.
\<close>

function (sequential) vol_dump :: "dump_env \<Rightarrow> nat list \<Rightarrow> volume \<Rightarrow> 's printer"
  and dump_partitions :: "dump_env \<Rightarrow> nat list \<Rightarrow> nat \<Rightarrow> volume option list \<Rightarrow> 's printer" where
  "vol_dump env pos (Volume g t st d n ps) =
     in_section (''Volume '' @ [CHR 0x27] @ fst (dump_desc env pos) @ [CHR 0x27] @ '' ('' @ snd (dump_desc env pos) @ '')'')
      [volume_members (Volume g t st d n ps), dump_partitions env pos 0 (take n ps),
       if n > length ps then (\<lambda>_. Fault) else Done]"
| "dump_partitions env pos i [] = Done"
| "dump_partitions env pos i (None # ps) = dump_partitions env pos (i + 1) ps"
| "dump_partitions env pos i (Some v # ps) =
     steps [in_section (''Partition '' @ dec (i + 1) @ '':'') [vol_dump env (pos @ [i]) v],
            dump_partitions env pos (i + 1) ps]"
  by pat_completeness auto

termination
proof (relation "measure (\<lambda>x. case x of Inl (_, _, v) \<Rightarrow> 2 * size v + 1
    | Inr (_, _, _, ps) \<Rightarrow> 2 * size_list (size_option size) ps)")
  fix env :: dump_env and pos :: "nat list" and g :: geometry and t st :: u32 and d n :: nat and ps :: "volume option list"
  have "size_list (size_option size) (take n ps) \<le> size_list (size_option size) ps"
    by (rule size_list_take)
  then show "(Inr (env, pos, 0, take n ps), Inl (env, pos, Volume g t st d n ps))
    \<in> measure (\<lambda>x. case x of Inl (_, _, v) \<Rightarrow> 2 * size v + 1
      | Inr (_, _, _, ps) \<Rightarrow> 2 * size_list (size_option size) ps)"
    by simp
qed auto

text \<open>The result of the load is not looked at. \<open>None\<close> is a descent that takes more than the fuel.\<close>

definition volumes_dump ::
  "dump_env \<Rightarrow> (u32 \<Rightarrow> buffer \<Rightarrow> u32) \<Rightarrow> nat \<Rightarrow> volume \<Rightarrow> screen \<times> 's \<Rightarrow>
   (int \<times> volume \<times> screen \<times> 's) outcome option" where
  "volumes_dump env crc32c fuel vol x =
     map_option (\<lambda>r. obind r (\<lambda>(_, vol).
       obind (in_section ''Parsed Volumes'' [vol_dump env [] vol] x) (\<lambda>x. Done (0, vol, x))))
       (volumes_load (dump_uuid_is env) crc32c fuel vol)"

section \<open>The summary of a volume\<close>

text \<open>
  \<open>print\<close> is a message of the level of standard output, which the log writes there.
\<close>

definition print_message :: "log_env \<Rightarrow> nat \<Rightarrow> nat \<Rightarrow> string \<Rightarrow> 's printer" where
  "print_message env level line_no message = (\<lambda>(scr, s).
     obind (PrintLine env L_STANDARD ''hfs_summary.c'' ''PrintVolumeSummary'' line_no message
       \<lparr>log_level = level, log_stdout = scr_out scr, log_stderr = []\<rparr>) (\<lambda>l.
     Done (scr\<lparr>scr_out := log_stdout l\<rparr>, s)))"

definition PrintForkSummary :: "'s hfs_env \<Rightarrow> ForkSummary \<Rightarrow> 's printer" where
  "PrintForkSummary env f =
     steps
      [PrintUI ''count'' (fs_count f),
       PrintAttribute (Some ''fragmentedCount'') (dec (unat (fragmentedCount f)) @ '' ('' @
         (if fs_count f \<noteq> 0 then fixed2 (unat (fragmentedCount f)) (unat (fs_count f))
          else if fragmentedCount f = 0 then ''-nan'' else ''inf'') @ '')''),
       PrintHFSBlocks env ''blockCount'' (blockCount_sum f), PrintDataLength ''logicalSpace'' (logicalSpace f),
       PrintUI ''extentRecords'' (extentRecords f), PrintUI ''extentDescriptors'' (extentDescriptors f),
       PrintUI ''overflowExtentRecords'' (overflowExtentRecords f),
       PrintUI ''overflowExtentDescriptors'' (overflowExtentDescriptors f)]"

definition print_ranked :: "'s hfs_env \<Rightarrow> log_env \<Rightarrow> nat \<Rightarrow> rank list \<Rightarrow> nat \<Rightarrow> 's printer" where
  "print_ranked env log level ranked i =
     (let (measure, cnid) = ranked ! i in
      if cnid = 0 then Done
      else with_size measure (\<lambda>sz.
        call (env_name env cnid) (\<lambda>_ name.
          print_message log level 218 (dec (10 - i) @ '' '' @ pad_left 10 (CHR '' '') sz @ '' '' @
            pad_left 10 (CHR '' '') (dec (unat cnid)) @ '' '' @
            (case name of None \<Rightarrow> [] | Some str \<Rightarrow> cstr (chars str))))))"

definition PrintVolumeSummary :: "'s hfs_env \<Rightarrow> log_env \<Rightarrow> nat \<Rightarrow> VolumeSummary \<Rightarrow> 's printer" where
  "PrintVolumeSummary env log level s =
     in_section ''Volume Summary''
      [PrintUI ''nodeCount'' (nodeCount s), PrintUI ''recordCount'' (recordCount s),
       PrintUI ''fileCount'' (fileCount s), PrintUI ''folderCount'' (folderCount s), PrintUI ''aliasCount'' (aliasCount s),
       PrintUI ''hardLinkFileCount'' (hardLinkFileCount s), PrintUI ''hardLinkFolderCount'' (hardLinkFolderCount s),
       PrintUI ''symbolicLinkCount'' (symbolicLinkCount s), PrintUI ''invisibleFileCount'' (invisibleFileCount s),
       PrintUI ''emptyFileCount'' (emptyFileCount s), PrintUI ''emptyDirectoryCount'' (emptyDirectoryCount s),
       in_section ''Data Fork'' [PrintForkSummary env (dataForks s)],
       in_section ''Resource Fork'' [PrintForkSummary env (resourceForks s)],
       in_section ''Largest Files''
        [print_message log level 210 (''# '' @ pad_left 10 (CHR '' '') ''Size'' @ '' '' @ pad_left 10 (CHR '' '') ''CNID''),
         steps (map (print_ranked env log level (largestFiles s)) (rev [1..<10]))]]"

end
