(* ===== verification/Dump_Correct.thy ===== *)
theory Dump_Correct
  imports Volume_Dump Partition_Tree Hfs_Output_Correct
begin

text \<open>
  What holds of the printing of volumes: which dumps end every section that they begin, that showing a tree of
  volumes always returns, and that the dump of an Apple partition map shows each of its entries.
\<close>

section \<open>Indentation\<close>

lemma balanced_mbr_entry [balanced_rules]: "balanced (Suc k) (mbr_dump_entry mbr secsz name i)"
  unfolding mbr_dump_entry_def print_chs_def Let_def by (intro balanced_rules)

lemma balanced_mbr_entries: "p \<in> set (mbr_dump_entries mbr secsz name is) \<Longrightarrow> balanced (Suc k) p"
  by (induction "is" arbitrary: name) (auto simp: Let_def balanced_rules split: if_splits)

lemma balanced_gpt [balanced_rules]:
  "balanced k (PrintGPTHeader env h secsz)" "balanced (Suc k) (gpt_print_entry env recs secsz i p)"
  unfolding PrintGPTHeader_def gpt_print_entry_def Let_def by (intro balanced_rules)+

lemma balanced_gpt_partitions [balanced_rules]: "balanced (Suc k) (PrintGPTPartitions env recs secsz n i)"
proof (induction n arbitrary: i)
  case (Suc n)
  then show ?case unfolding PrintGPTPartitions.simps Let_def by (intro balanced_rules)
qed (simp add: balanced_rules)

lemma balanced_status [balanced_rules]: "balanced k (print_status_flag env status a)"
  unfolding print_status_flag_def by (cases a) (auto intro!: balanced_rules)

lemma balanced_apm_header [balanced_rules]: "balanced (Suc k) (print_apm_header env hdr secsz i)"
  unfolding print_apm_header_def Let_def
  by (intro balanced_rules) (auto split: prod.splits intro!: balanced_rules)

lemma balanced_cs [balanced_rules]:
  "balanced k (hex_at t m p f)" "balanced (Suc k) (PrintCSBlockHeader m p)" "balanced k (print_md_blocks m p)"
  unfolding hex_at_def PrintCSBlockHeader_def print_md_blocks_def Let_def
  by (intro balanced_rules; simp add: hex_at_def balanced_rules)+

lemma balanced_unknown_records [balanced_rules]: "balanced k (print_unknown_records m p n)"
proof (induction n arbitrary: p)
  case (Suc n)
  then show ?case unfolding print_unknown_records.simps by (intro balanced_rules)
qed (simp add: balanced_rules)

lemma balanced_cs_structures [balanced_rules]:
  "balanced (Suc (Suc k)) (PrintCSVolumeHeader env m p)" "balanced (Suc (Suc k)) (PrintCSMetadataBlockType11 m p)"
  unfolding PrintCSVolumeHeader_def PrintCSMetadataBlockType11_def Let_def by (intro balanced_rules)+

lemma balanced_case_prod [balanced_rules]: "(\<And>a b. balanced k (f a b)) \<Longrightarrow> balanced k (case_prod f p)"
  by (cases p) simp

lemma balanced_cs_block [balanced_rules]: "balanced (Suc (Suc (Suc k))) (cs_dump_block env crc32c vol hdr i b)"
  unfolding cs_dump_block_def Let_def by (intro balanced_rules)

lemma balanced_volume_members [balanced_rules]: "balanced k (volume_members vol)"
  unfolding volume_members_def PrintUICharsIfEqual_def by (intro balanced_rules)

text \<open>The levels of a tree of volumes.\<close>

lemma size_volume_partition: "Some v \<in> set (take n ps) \<Longrightarrow> size v < size_list (size_option size) ps"
proof -
  assume "Some v \<in> set (take n ps)"
  then have "Some v \<in> set ps" by (rule in_set_takeD)
  then have "size_option size (Some v) \<le> size_list (size_option size) ps"
    by (rule size_list_estimation') simp
  then show ?thesis by simp
qed

function levels :: "volume \<Rightarrow> nat" where
  "levels (Volume g t s d n ps) =
     Suc (Max (insert 0 ((\<lambda>p. case p of None \<Rightarrow> 0 | Some v \<Rightarrow> levels v) ` set (take n ps))))"
  by pat_completeness auto

termination
  by (relation "measure size") (auto dest: size_volume_partition)

declare levels.simps [simp del]

lemma levels_partition: "Some v \<in> set (take n ps) \<Longrightarrow> Suc (levels v) \<le> levels (Volume g t s d n ps)"
  unfolding levels.simps by (subst Suc_le_mono) (rule Max_ge, auto intro!: image_eqI [where x = "Some v"])

lemma balanced_vol_dump:
  "2 * levels v \<le> k \<Longrightarrow> balanced k (vol_dump env pos v :: 's printer)"
  "(\<And>v. Some v \<in> set ps \<Longrightarrow> 2 * levels v < k) \<Longrightarrow> balanced k (dump_partitions env pos i ps :: 's printer)"
proof (induction env pos v and env pos i ps arbitrary: k and k rule: vol_dump_dump_partitions.induct)
  case (1 env pos g t st d n ps)
  let ?v = "Volume g t st d n ps"
  obtain l where k: "k = Suc l" using 1(2) by (cases k) (simp_all add: levels.simps)
  have lt: "2 * levels v < l" if "Some v \<in> set (take n ps)" for v
    using levels_partition [OF that, of g t st d] 1(2) by (simp add: k)
  have parts: "balanced l (dump_partitions env pos 0 (take n ps) :: 's printer)" by (rule 1(1)) (rule lt)
  show ?case unfolding vol_dump.simps k by (intro balanced_rules parts)
next
  case (4 env pos i v ps)
  have lt: "2 * levels v < k" by (rule 4(3)) simp
  then obtain l where k: "k = Suc l" by (cases k) auto
  have "balanced l (vol_dump env (pos @ [i]) v :: 's printer)" by (rule 4(1)) (use lt k in simp)
  moreover have "balanced k (dump_partitions env pos (i + 1) ps :: 's printer)" by (rule 4(2)) (rule 4(3), simp)
  ultimately show ?case unfolding dump_partitions.simps k by (intro balanced_rules)
qed (auto intro: balanced_rules)

text \<open>The summary prints its lines through the log.\<close>

lemma PrintLine_stdout:
  assumes "PrintLine env level file function n message l = Done l'"
  shows "\<exists>t. log_stdout l' = log_stdout l @ t"
  using assms by (auto simp: PrintLine_def LogLine_def log_text_def Let_def split: if_splits)

lemma balanced_message [balanced_rules]: "balanced k (print_message env level n message)"
  by (rule balancedI) (auto simp: print_message_def outcome_simps dest: PrintLine_stdout)

lemma balanced_summary: "balanced (Suc (Suc k)) (PrintVolumeSummary env log level s)"
  unfolding PrintVolumeSummary_def PrintForkSummary_def print_ranked_def Let_def
  by (intro balanced_rules)

section \<open>Printers that always return\<close>

definition prints :: "'s printer \<Rightarrow> bool" where
  "prints p \<longleftrightarrow> (\<forall>scr s. \<exists>scr'. p (scr, s) = Done (scr', s))"

named_theorems prints_rules \<open>printers that return and leave their state alone\<close>

lemma printsD: "prints p \<Longrightarrow> \<exists>scr'. p (scr, s) = Done (scr', s)"
  by (simp add: prints_def)

lemma prints_basic [prints_rules]:
  "prints Done" "prints (steps [])" "prints (emit t)" "prints (Print t)" "prints (set_level f)" "prints EndSection"
  by (auto simp: prints_def emit_def Print_def set_level_def EndSection_def)

lemma prints_Cons [prints_rules]:
  assumes p: "prints p" and ps: "prints (steps ps)"
  shows "prints (steps (p # ps))"
  unfolding prints_def
proof (intro allI)
  fix scr s
  from printsD [OF p, of scr s] obtain scr' where "p (scr, s) = Done (scr', s)" ..
  with printsD [OF ps, of scr' s] show "\<exists>scr'. steps (p # ps) (scr, s) = Done (scr', s)" by simp
qed

lemma prints_map [prints_rules]: "(\<And>x. x \<in> set xs \<Longrightarrow> prints (f x)) \<Longrightarrow> prints (steps (map f xs))"
proof (induction xs)
  case (Cons x xs)
  have "prints (f x)" by (rule Cons.prems) simp
  moreover have "prints (steps (map f xs))" by (rule Cons.IH, rule Cons.prems) simp
  ultimately show ?case unfolding list.map by (rule prints_Cons)
qed (simp only: list.map prints_rules)

lemma prints_if [prints_rules]: "(b \<Longrightarrow> prints p) \<Longrightarrow> (\<not> b \<Longrightarrow> prints q) \<Longrightarrow> prints (if b then p else q)"
  by simp

lemma prints_print_if [prints_rules]: "(b \<Longrightarrow> prints p) \<Longrightarrow> prints (print_if b p)"
  by (simp add: print_if_def prints_basic)

lemma prints_through [prints_rules]: "length t < 255 \<Longrightarrow> prints (k t) \<Longrightarrow> prints (through_str t k)"
  by (simp add: through_str_def prints_def)

lemma prints_PrintAttribute [prints_rules]: "length t < 255 \<Longrightarrow> prints (PrintAttribute label t)"
  unfolding PrintAttribute_def by (intro prints_rules)

lemma prints_section [prints_rules]: "length title < 255 \<Longrightarrow> prints (steps ps) \<Longrightarrow> prints (in_section title ps)"
  unfolding in_section_def BeginSection_def by (intro prints_rules)

lemma length_dec_word: "length (dec (unat (v :: u64))) \<le> 20"
  using unat_bound [of v] by (intro length_dec) simp_all

lemma prints_members [prints_rules]:
  "prints (PrintUI l v)" "prints (PrintDataLength l v :: 's printer)" "length name \<le> 200 \<Longrightarrow> prints (PrintIntFlag l name v)"
proof -
  have d: "length (dec (unat v)) \<le> 20" by (rule length_dec_word)
  show "prints (PrintUI l v)" unfolding PrintUI_def by (intro prints_rules) (use d in simp)
  show "prints (PrintIntFlag l name v)" if "length name \<le> 200"
    unfolding PrintIntFlag_def by (intro prints_rules) (use d that in simp)
  show "prints (PrintDataLength l v :: 's printer)"
    unfolding prints_def
  proof (intro allI)
    fix scr :: screen and s :: 's
    obtain t where t: "format_size (decimal_sizes (scr_ctx scr)) v 50 = Done t" "length t \<le> 13"
      by (rule format_size_text [of "decimal_sizes (scr_ctx scr)" v]) force
    have "prints (PrintAttribute (Some l) (if v > 1024 then t @ '' ('' @ dec (unat v) @ '' bytes)'' else t))"
      using t(2) d by (intro prints_rules) simp
    from printsD [OF this] show "\<exists>scr'. PrintDataLength l v (scr, s) = Done (scr', s)"
      by (simp only: PrintDataLength_def with_size_def prod.case t(1) obind.simps)
  qed
qed

lemma prints_type_name: "length name \<le> 100 \<Longrightarrow> prints (PrintUICharsIfEqual var v (name, val))"
proof -
  assume n: "length name \<le> 100"
  have "length (format_uint_chars (word_bytes 4 val)) \<le> length (rev (word_bytes 4 val))"
    unfolding format_uint_chars_def cstr_def chars_def by (rule order_trans [OF length_takeWhile_le]) simp
  then have "length (format_uint_chars (word_bytes 4 val)) \<le> 4" by simp
  with n show ?thesis unfolding PrintUICharsIfEqual_def prod.case by (intro prints_rules) simp
qed

lemma type_names_short:
  "a \<in> set type_names \<Longrightarrow> length (fst a) \<le> 100" "a \<in> set subtype_names \<Longrightarrow> length (fst a) \<le> 100"
  by (auto simp: type_names_def subtype_names_def)

lemma prints_types: "a \<in> set type_names \<or> a \<in> set subtype_names \<Longrightarrow> prints (PrintUICharsIfEqual var v a)"
  using type_names_short [of a] prints_type_name [of "fst a" var v "snd a"] by auto

lemma prints_volume_members [prints_rules]: "prints (volume_members vol)"
  unfolding volume_members_def by (intro prints_rules) (simp_all add: prints_types)

text \<open>
  A tree in which no volume counts more partitions than its table has places, and descriptions that fit the title of a
  section (the program stores at most 98 and 99 characters).
\<close>

function counts_ok :: "volume \<Rightarrow> bool" where
  "counts_ok (Volume g t s d n ps) \<longleftrightarrow> n \<le> length ps \<and> length ps = 128 \<and> (\<forall>v. Some v \<in> set (take n ps) \<longrightarrow> counts_ok v)"
  by pat_completeness auto

termination
  by (relation "measure size") (auto dest: size_volume_partition)

declare counts_ok.simps [simp del]

definition descriptions_fit :: "dump_env \<Rightarrow> bool" where
  "descriptions_fit env \<longleftrightarrow> (\<forall>pos. length (fst (dump_desc env pos)) + length (snd (dump_desc env pos)) \<le> 200)"

lemma prints_vol_dump:
  "descriptions_fit env \<Longrightarrow> counts_ok v \<Longrightarrow> prints (vol_dump env pos v :: 's printer)"
  "descriptions_fit env \<Longrightarrow> i + length ps \<le> 128 \<Longrightarrow> (\<And>v. Some v \<in> set ps \<Longrightarrow> counts_ok v) \<Longrightarrow>
      prints (dump_partitions env pos i ps :: 's printer)"
proof (induction env pos v and env pos i ps rule: vol_dump_dump_partitions.induct)
  case (1 env pos g t st d n ps)
  have fit: "length (fst (dump_desc env pos)) + length (snd (dump_desc env pos)) \<le> 200"
    using 1(2) by (simp add: descriptions_fit_def)
  have ps: "n \<le> 128" "length ps = 128" "\<And>v. Some v \<in> set (take n ps) \<Longrightarrow> counts_ok v"
    using 1(3) by (auto simp: counts_ok.simps)
  have parts: "prints (dump_partitions env pos 0 (take n ps) :: 's printer)"
    by (rule 1(1) [OF 1(2)]) (use ps in simp_all)
  show ?case unfolding vol_dump.simps by (intro prints_rules parts) (use fit ps in simp_all)
next
  case (3 env pos i ps)
  have "prints (dump_partitions env pos (i + 1) ps :: 's printer)" by (rule 3(1) [OF 3(2)]) (use 3(3,4) in simp_all)
  then show ?case by simp
next
  case (4 env pos i v ps)
  have i: "length (dec (i + 1)) \<le> 3" using 4(4) by (intro length_dec) simp_all
  have "prints (vol_dump env (pos @ [i]) v :: 's printer)" by (rule 4(1) [OF 4(3)]) (rule 4(5), simp)
  moreover have "prints (dump_partitions env pos (i + 1) ps :: 's printer)"
    by (rule 4(2) [OF 4(3)]) (use 4(4,5) in simp_all)
  ultimately show ?case unfolding dump_partitions.simps by (intro prints_rules) (use i in simp_all)
qed (auto intro: prints_rules)

section \<open>Apple partition maps\<close>

abbreviation (input) apm_header :: "volume \<Rightarrow> nat \<Rightarrow> buffer" where
  "apm_header vol n \<equiv> swap_fields apm_fields (apm_entry vol n)"

lemma apm_dump_all:
  assumes "\<forall>n. i < n \<and> n \<le> unat c \<longrightarrow> apm_entry_ok vol n \<and> be_at (apm_entry vol n) 4 = (c :: u32)"
    and "i < unat c" "length h = 136"
  shows "apm_dump_from env vol (i + 1) h (x :: screen \<times> 's) =
    returning 0 (steps (map (\<lambda>n. print_apm_header env (apm_header vol n) (sector_size (geom vol)) n) [i + 1..<unat c + 1])) x"
  using assms
proof (induction "unat c - i" arbitrary: i h x)
  case (Suc d)
  let ?h = "apm_header vol (i + 1)"
  have ok: "apm_entry_ok vol (i + 1)" and c: "be_at (apm_entry vol (i + 1)) 4 = c"
    using Suc.prems(1) Suc.prems(2) by (metis Suc_eq_plus1 Suc_leI lessI)+
  note get = apm_get_header_result [OF ok Suc.prems(3)]
  have n: "(rd ?h 4 :: u32) = c" by (simp only: apm_header_fields(1) [OF get(2)] c)
  have range: "[i + 1..<unat c + 1] = (i + 1) # [i + 2..<unat c + 1]"
    using Suc.prems(2) by (simp add: upt_conv_Cons)
  show ?case
  proof (cases "i + 1 = unat c")
    case True
    then show ?thesis
      unfolding apm_dump_from.simps [of env vol "i + 1"] get(1) range obind.simps prod.case apm_layout n
      by (simp add: returning_def obind_assoc)
  next
    case False
    then have i: "i + 1 < unat c" using Suc.prems(2) by simp
    have "length ?h = 136" using apm_fields_fit [OF get(2)] get(2) by simp
    then have next_entry: "apm_dump_from env vol (i + 1 + 1) ?h x = returning 0 (steps (map (\<lambda>n.
        print_apm_header env (apm_header vol n) (sector_size (geom vol)) n) [i + 1 + 1..<unat c + 1])) x" for x :: "screen \<times> 's"
      using Suc.hyps(2) Suc.prems(1) i by (intro Suc.hyps(1)) simp_all
    show ?thesis
      unfolding apm_dump_from.simps [of env vol "i + 1"] get(1) range obind.simps prod.case apm_layout n next_entry
      using i by (simp add: returning_def obind_assoc numeral_2_eq_2)
  qed
qed simp

section \<open>The properties\<close>

text \<open>
  C18. The dump of an Apple partition map whose entries \<open>1\<close> to \<open>c\<close> can be read and all give the count \<open>c\<close> prints one
  section for each of them, in the order of the map and with the header converted from the disk, inside one
  section, and returns 0. The load of the same map leaves the last entry out.
\<close>

theorem apm_dump_correct:
  assumes "\<forall>n. 0 < n \<and> n \<le> unat c \<longrightarrow> apm_entry_ok vol n \<and> be_at (apm_entry vol n) 4 = (c :: u32)" "0 < unat c"
  shows "apm_dump env vol x = returning 0 (in_section ''Apple Partition Map''
    (map (\<lambda>n. print_apm_header env (apm_header vol n) (sector_size (geom vol)) n) [1..<unat c + 1])) x"
proof -
  have "sizeof APMHeader_t = 136" by (simp add: apm_layout)
  then have "apm_dump_from env vol 1 (replicate (sizeof APMHeader_t) 0) y = returning 0 (steps
      (map (\<lambda>n. print_apm_header env (apm_header vol n) (sector_size (geom vol)) n) [1..<unat c + 1])) y" for y :: "screen \<times> 'a"
    using apm_dump_all [of 0 c vol "replicate 136 0" env y] assms by simp
  then show ?thesis
    by (simp add: apm_dump_def returning_def in_section_def obind_assoc)
qed

text \<open>
  C19. Showing the volumes of a disk, once they are loaded, does not fail and leaves the indentation of the context, its
  step and its prefix as they were, and only adds to the output, however deep partitions are nested:
  each level of the tree takes two sections, and the indentation needs room for those and the outer one. No
  volume of the tree may count more partitions than its table holds, and the descriptions have to fit a title.
\<close>

theorem volumes_dump_correct:
  assumes "volumes_load (dump_uuid_is env) crc32c fuel vol = Some (Done (rc, vol'))" "counts_ok vol'"
    and "descriptions_fit env" "indent_ok (scr_ctx scr)" "room (Suc (2 * levels vol')) (scr_ctx scr)"
  shows "\<exists>scr'. volumes_dump env crc32c fuel vol (scr, s) = Some (Done (0, vol', scr', s)) \<and>
    same_indent (scr_ctx scr) (scr_ctx scr') \<and> (\<exists>t. scr_out scr' = scr_out scr @ t)"
proof -
  let ?p = "in_section ''Parsed Volumes'' [vol_dump env [] vol'] :: 'a printer"
  have "prints ?p" by (intro prints_rules prints_vol_dump assms(2,3)) simp
  from printsD [OF this] obtain scr' where run: "?p (scr, s) = Done (scr', s)" by blast
  have "balanced (Suc (2 * levels vol')) ?p"
    by (intro balanced_rules balanced_vol_dump(1) order_refl)
  from balancedD [OF this run assms(4,5)] run assms(1) show ?thesis by (simp add: volumes_dump_def)
qed

section \<open>Examples\<close>

definition sample_dump :: dump_env where
  "sample_dump = \<lparr>dump_lib = sample_library, dump_unparse = (\<lambda>_. []), dump_uuid_is = (\<lambda>_ _. False), dump_wide = (\<lambda>_. []),
     dump_stack = [], dump_shift = (\<lambda>_. 0), dump_desc = (\<lambda>_. (''disk'', ''raw''))\<rparr>"

lemma apm_dump_correct_witness:
  "apm_dump sample_dump (sample_volume (replicate 512 0 @ [80, 77, 0, 0, 0, 0, 0, 1] @ replicate 504 0) 0) (sample_screen, ()) =
   returning 0 (in_section ''Apple Partition Map''
     [print_apm_header sample_dump (apm_header (sample_volume (replicate 512 0 @ [80, 77, 0, 0, 0, 0, 0, 1] @ replicate 504 0) 0) 1) 512 1])
     (sample_screen, ())"
proof -
  let ?v = "sample_volume (replicate 512 0 @ [80, 77, 0, 0, 0, 0, 0, 1] @ replicate 504 0) 0"
  have "apm_entry_ok ?v 1"
    by (simp add: apm_entry_ok_def readable_def block_size_of_def geometry_ok_def blocks_read_def)
  moreover have "(be_at (apm_entry ?v 1) 4 :: u32) = 1"
  proof -
    have "chunk 4 4 (apm_entry ?v 1) = [0, 0, 0, 1]"
      by (simp add: apm_entry_def vol_bytes_def chunk_chunk) (simp add: chunk_def)
    moreover have "(le_word (rev [0, 0, 0, 1]) :: u32) = 1" by code_simp
    ultimately show ?thesis by (simp add: be_at_def)
  qed
  ultimately have "\<forall>n. 0 < n \<and> n \<le> unat (1 :: u32) \<longrightarrow> apm_entry_ok ?v n \<and> be_at (apm_entry ?v n) 4 = (1 :: u32)"
    by (metis One_nat_def Suc_leI le_antisym unat_1)
  note dump = apm_dump_correct [OF this, of sample_dump "(sample_screen, ())"]
  have range: "[1..<unat (1 :: u32) + 1] = [1]" and s: "sector_size (geom ?v) = 512" by simp_all
  show ?thesis using dump unfolding range s list.map by simp
qed

lemma sample_volume_tree: "levels (sample_volume f len) = 1" "counts_ok (sample_volume f len)"
  by (simp_all add: sample_volume_def levels.simps counts_ok.simps)

lemma volumes_dump_correct_witness:
  "\<exists>scr'. volumes_dump sample_dump (\<lambda>_ _. 0) 1 (sample_volume (replicate 8192 0) 8192) (sample_screen, ()) =
     Some (Done (0, sample_volume (replicate 8192 0) 8192, scr', ())) \<and> same_indent (scr_ctx sample_screen) (scr_ctx scr')"
proof -
  let ?v = "sample_volume (replicate 8192 0) 8192"
  have u: "dump_uuid_is sample_dump = (\<lambda>_ _. False)" and d: "descriptions_fit sample_dump"
    by (simp_all add: sample_dump_def descriptions_fit_def)
  have room: "room (Suc (2 * levels ?v)) (scr_ctx sample_screen)"
    using sample_screen_ok(2) unfolding sample_volume_tree(1) by (simp add: numeral_3_eq_3 numeral_2_eq_2)
  have "volumes_load (dump_uuid_is sample_dump) (\<lambda>_ _. 0) 1 ?v = Some (Done (0, ?v))"
    unfolding u by (rule zero_volume_loads)
  from volumes_dump_correct [where s = "()", OF this sample_volume_tree(2) d sample_screen_ok(1) room]
  show ?thesis by (elim exE conjE) (rule exI, rule conjI)
qed

end
