(* ===== verification/Hfs_Volume.thy ===== *)
theory Hfs_Volume
  imports Fork_IO
begin

text \<open>
  \<^verbatim>\<open>src/src/hfs/hfs.c\<close> and \<^verbatim>\<open>src/src/hfs/hfs_btree.c\<close>: recognising an HFS+ file system on a volume, finding the
  first one in a tree of volumes, opening it, and reading its volume structures. The argument \<open>cc\<close> is the
  compiler, on which the swapping of the HFS structures depends (see \<open>Byte_Order\<close>). A structure of the
  caller is a buffer of its size, zeroed where the code initialises it.
\<close>

section \<open>Reading the headers\<close>

abbreviation (input) kFSTypeHFS :: u32 where "kFSTypeHFS \<equiv> 0x48465320"
abbreviation (input) kFSTypeHFSPlus :: u32 where "kFSTypeHFSPlus \<equiv> 0x4846532B"
abbreviation (input) kFSTypeWrappedHFSPlus :: u32 where "kFSTypeWrappedHFSPlus \<equiv> 0x48465357"
abbreviation (input) kFSTypeHFSX :: u32 where "kFSTypeHFSX \<equiv> 0x48465358"

text \<open>
  \<open>None\<close> is the result -1. The master directory block is read into an array of 200 pointers, so that its
  conversion, which goes beyond the structure, stays within it.
\<close>

definition hfs_load_mbd :: "compiler \<Rightarrow> volume \<Rightarrow> buffer option outcome" where
  "hfs_load_mbd cc vol =
     obind (vol_read (geom vol) (replicate (200 * 8) 0) (of_nat (sizeof HFSMasterDirectoryBlock_t)) 1024)
       (\<lambda>(nbytes, buf).
        if sint nbytes < 0 then Done None
        else obind (swap_HFSMasterDirectoryBlock cc 0 buf) (\<lambda>buf.
          Done (Some (chunk 0 (sizeof HFSMasterDirectoryBlock_t) buf))))"

definition hfsplus_load_header :: "volume \<Rightarrow> buffer option outcome" where
  "hfsplus_load_header vol =
     obind (vol_read (geom vol) (replicate (sizeof HFSPlusVolumeHeader_t) 0) (of_nat (sizeof HFSPlusVolumeHeader_t)) 1024)
       (\<lambda>(nbytes, vh).
        if sint nbytes < 0 then Done None
        else obind (swap_HFSPlusVolumeHeader 0 vh) (\<lambda>vh. Done (Some vh)))"

abbreviation (input) drSigWord :: "buffer \<Rightarrow> u16" where
  "drSigWord mdb \<equiv> rd mdb (fld HFSMasterDirectoryBlock_t ''drSigWord'' 0)"
abbreviation (input) drEmbedSigWord :: "buffer \<Rightarrow> u16" where
  "drEmbedSigWord mdb \<equiv> rd mdb (fld HFSMasterDirectoryBlock_t ''drEmbedSigWord'' 0)"
abbreviation (input) vh_signature :: "buffer \<Rightarrow> u16" where
  "vh_signature vhdr \<equiv> rd vhdr (fld HFSPlusVolumeHeader_t ''signature'' 0)"

section \<open>Recognising a file system\<close>

text \<open>\<open>None\<close> is the result -1, \<open>Some 0\<close> an unknown type.\<close>

definition hfs_test :: "compiler \<Rightarrow> volume \<Rightarrow> u32 option outcome" where
  "hfs_test cc vol =
     obind (hfs_load_mbd cc vol) (\<lambda>r.
     case r of None \<Rightarrow> Done None
     | Some mdb \<Rightarrow>
         let type = (if drSigWord mdb = kHFSSigWord
                     then if drEmbedSigWord mdb = kHFSPlusSigWord then kFSTypeWrappedHFSPlus else kFSTypeHFS
                     else kTypeUnknown) in
         if type \<noteq> kTypeUnknown then Done (Some type)
         else
           obind (hfsplus_load_header vol) (\<lambda>r.
           case r of None \<Rightarrow> Done None
           | Some vhdr \<Rightarrow>
               if vh_signature vhdr = kHFSPlusSigWord \<or> vh_signature vhdr = kHFSXSigWord
               then Done (Some kFSTypeHFSPlus) else Done (Some type)))"

text \<open>
  The search of the tree tests the result of \<open>hfs_test\<close>, -1 included, against the disjunction of two type
  codes, bit by bit. The value is the volume found.
\<close>

fun find_in :: "('v \<Rightarrow> 'v option outcome) \<Rightarrow> 'v option list \<Rightarrow> 'v option outcome" where
  "find_in look [] = Done None"
| "find_in look (None # ps) = find_in look ps"
| "find_in look (Some v # ps) =
     obind (look v) (\<lambda>r. case r of None \<Rightarrow> find_in look ps | Some v \<Rightarrow> Done (Some v))"

lemma find_in_cong [fundef_cong]:
  assumes "ps = ps'" "\<And>v. Some v \<in> set ps' \<Longrightarrow> look v = look' v"
  shows "find_in look ps = find_in look' ps'"
  using assms(2) unfolding assms(1)
proof (induction ps')
  case (Cons p ps)
  then have "find_in look ps = find_in look' ps" by simp
  moreover have "look v = look' v" if "p = Some v" for v using Cons.prems that by simp
  ultimately show ?case by (cases p) (simp_all cong: option.case_cong)
qed simp

lemma size_partition [termination_simp]: "Some v \<in> set ps \<Longrightarrow> size v < Suc (size_list (size_option size) ps)"
proof -
  assume "Some v \<in> set ps"
  then have "size_option size (Some v) \<le> size_list (size_option size) ps"
    by (intro size_list_estimation') auto
  then show ?thesis by simp
qed

lemma size_partition_take [termination_simp]:
  "Some v \<in> set (take n ps) \<Longrightarrow> size v < Suc (size_list (size_option size) ps)"
  by (auto dest: in_set_takeD size_partition)

function hfsplus_find :: "compiler \<Rightarrow> volume \<Rightarrow> volume option outcome" where
  "hfsplus_find cc (Volume g t s d n ps) =
     obind (hfs_test cc (Volume g t s d n ps)) (\<lambda>test.
       let code = (case test of None \<Rightarrow> - 1 | Some type \<Rightarrow> type) in
       if code AND (kFSTypeHFSPlus OR kFSTypeWrappedHFSPlus) \<noteq> 0 then Done (Some (Volume g t s d n ps))
       else if n > length ps then Fault
       else find_in (hfsplus_find cc) (take n ps))"
  by pat_completeness auto
termination
  by (relation "measure (\<lambda>(_, v). size v)") (auto dest: size_partition_take)

section \<open>Opening a file system\<close>

text \<open>
  The offset of an embedded volume is computed in 32 bits. The header is read from the start of the volume
  even then.
\<close>

definition hfs_open :: "compiler \<Rightarrow> volume \<Rightarrow> (int \<times> HFSPlus option) outcome" where
  "hfs_open cc vol =
     obind (hfs_test cc vol) (\<lambda>result.
     case result of None \<Rightarrow> Done (- 1, None)
     | Some type \<Rightarrow>
         if type \<noteq> kFSTypeHFSPlus \<and> type \<noteq> kFSTypeWrappedHFSPlus \<and> type \<noteq> kFSTypeHFSX then Done (- 1, None)
         else
           obind (if type = kFSTypeWrappedHFSPlus
                  then obind (hfs_load_mbd cc vol) (\<lambda>r. Done (map_option (\<lambda>mdb.
                    let st = rd mdb (fld HFSMasterDirectoryBlock_t ''drAlBlSt'' 0) :: u16;
                        sz = rd mdb (fld HFSMasterDirectoryBlock_t ''drAlBlkSiz'' 0) :: u32;
                        start = rd mdb (fld HFSExtentDescriptor_t ''startBlock''
                                  (fld HFSMasterDirectoryBlock_t ''drEmbedExtent'' 0)) :: u16 in
                    ucast (ucast st * 512 + ucast start * sz) :: u64) r))
                  else Done (Some 0)) (\<lambda>r.
           case r of None \<Rightarrow> Done (- 1, None)
           | Some off \<Rightarrow>
               obind (hfsplus_load_header vol) (\<lambda>r.
               case r of None \<Rightarrow> Done (- 1, None)
               | Some vhdr \<Rightarrow>
                   let bsize = ucast (rd vhdr (fld HFSPlusVolumeHeader_t ''blockSize'' 0) :: u32);
                       bcount = ucast (rd vhdr (fld HFSPlusVolumeHeader_t ''totalBlocks'' 0) :: u32) in
                   Done (0, Some \<lparr>hfs_vol = vol, vh = vhdr, hfs_offset = off + vol_offset (geom vol),
                     hfs_length = (if vol_length (geom vol) \<noteq> 0 then vol_length (geom vol) else bsize * bcount),
                     block_size = bsize, block_count = bcount\<rparr>))))"

definition hfs_close :: "HFSPlus \<Rightarrow> unit outcome" where
  "hfs_close hfs = vol_close (hfs_vol hfs)"

section \<open>Volume structures\<close>

text \<open>The block is copied into the caller's structure before it is converted there.\<close>

definition hfs_get_HFSMasterDirectoryBlock :: "compiler \<Rightarrow> HFSPlus \<Rightarrow> (bool \<times> buffer) outcome" where
  "hfs_get_HFSMasterDirectoryBlock cc hfs =
     obind (hfs_read (replicate 2048 0) hfs 2048 0) (\<lambda>(sz, buffer).
       if sint sz < 1 then Critical
       else obind (swap_HFSMasterDirectoryBlock cc 0 (chunk 1024 (sizeof HFSMasterDirectoryBlock_t) buffer)) (\<lambda>mdb.
         Done (True, mdb)))"

text \<open>The buffer is one block; a block shorter than the structure is copied beyond its end.\<close>

definition hfsplus_get_JournalInfoBlock :: "HFSPlus \<Rightarrow> (bool \<times> buffer option) outcome" where
  "hfsplus_get_JournalInfoBlock hfs =
     (let journalInfoBlock = rd (vh hfs) (fld HFSPlusVolumeHeader_t ''journalInfoBlock'' 0) :: u32 in
      if journalInfoBlock \<noteq> 0
      then
        obind (hfs_read_blocks (replicate (unat (block_size hfs)) 0) hfs 1 (ucast journalInfoBlock))
          (\<lambda>(bytes_read, buffer).
           if sint bytes_read < 1 then Critical
           else if \<not> fits 0 (sizeof JournalInfoBlock_t) buffer then Fault
           else obind (swap_JournalInfoBlock 0 (chunk 0 (sizeof JournalInfoBlock_t) buffer)) (\<lambda>block.
             Done (True, Some block)))
      else Done (False, None))"

abbreviation (input) kJIJournalInFSMask :: u32 where "kJIJournalInFSMask \<equiv> 0x00000001"

definition hfsplus_get_journalheader :: "buffer \<Rightarrow> buffer \<Rightarrow> HFSPlus \<Rightarrow> (bool \<times> buffer) outcome" where
  "hfsplus_get_journalheader vhdr info hfs =
     (let flags = rd info (fld JournalInfoBlock_t ''flags'' 0) :: u32;
          offset = rd info (fld JournalInfoBlock_t ''offset'' 0) :: u64 in
      if flags AND kJIJournalInFSMask \<noteq> 0 \<and> offset \<noteq> 0
      then
        obind (hfs_read vhdr hfs (of_nat (sizeof journal_header_t)) offset) (\<lambda>(nbytes, vhdr).
          Done (\<not> sint nbytes < 0, vhdr))
      else Done (False, vhdr))"

text \<open>
  \<open>hfs_get_btree\<close> initialises a tree that it does not deliver: the value of its first argument is not
  changed on any path.
\<close>

definition hfs_get_btree ::
  "(HFSPlusFork \<Rightarrow> u64 \<Rightarrow> 's \<Rightarrow> (int \<times> (extent_record \<times> u32) option \<times> 's) outcome) \<Rightarrow>
   (HFSPlusFork \<Rightarrow> (u64 \<Rightarrow> u64 \<Rightarrow> u64 \<times> buffer) option) \<Rightarrow> nat \<Rightarrow> HFSPlus \<Rightarrow> u32 \<Rightarrow>
   btree option \<Rightarrow> 's \<Rightarrow> (int \<times> btree option \<times> 's) outcome option" where
  "hfs_get_btree lookup fopen fuel hfs cnid tree s =
     (case hfsplus_get_special_fork lookup fuel hfs cnid s of
        None \<Rightarrow> None
      | Some r \<Rightarrow> Some (obind r (\<lambda>(rc, fork, s).
          if rc < 0 then Done (- 1, tree, s)
          else case fork of None \<Rightarrow> Fault
          | Some fork \<Rightarrow>
              (case fopen fork of None \<Rightarrow> Done (- 1, tree, s)
               | Some fp \<Rightarrow> obind (btree_init btree_zero fp) (\<lambda>(rc, _).
                   Done (if rc < 0 then - 1 else 0, tree, s))))))"


section \<open>Reading at the place of the headers\<close>

text \<open>A volume that is read in blocks of one of the usual sizes and has its first blocks.\<close>

definition has_header :: "volume \<Rightarrow> bool" where
  "has_header vol \<longleftrightarrow>
     geometry_ok (geom vol) \<and> block_size_of (geom vol) \<in> {512, 1024, 2048, 4096} \<and>
     (vol_length (geom vol) = 0 \<or> 1536 \<le> unat (vol_length (geom vol))) \<and>
     unat (vol_offset (geom vol)) + 4096 \<le> length (source (geom vol))"

text \<open>The bytes at the place of the headers.\<close>

definition header_bytes :: "volume \<Rightarrow> buffer" where
  "header_bytes vol = chunk (unat (vol_offset (geom vol)) + 1024) 512 (source (geom vol))"

lemma length_header_bytes: "has_header vol \<Longrightarrow> length (header_bytes vol) = 512"
  by (auto simp: has_header_def header_bytes_def)

lemma read_header:
  assumes vol: "has_header vol" and n: "n = 162 \<or> n = 512" and buf: "unat n \<le> length buf"
  shows "vol_read (geom vol) buf n 1024 = Done (n, store 0 (chunk 0 (unat n) (header_bytes vol)) buf)"
proof -
  let ?g = "geom vol"
  have g: "geometry_ok ?g" "vol_length ?g = 0 \<or> 1536 \<le> unat (vol_length ?g)"
    "unat (vol_offset ?g) + 4096 \<le> length (source ?g)" using vol by (simp_all add: has_header_def)
  have u: "unat (1024 :: u64) = 1024" by simp
  have n': "unat n = 162 \<or> unat n = 512" using n by auto
  have sz: "0 < unat n" "unat n < 2 ^ 62" "unat (1024 :: u64) + unat n \<le> 1536" "unat n \<le> 512" using n' by auto
  have b: "unat (block_size_of ?g) \<in> {512, 1024, 2048, 4096}" using vol by (auto simp: has_header_def)
  have cross: "unat (1024 :: u64) mod unat (block_size_of ?g) + unat n mod unat (block_size_of ?g) < unat (block_size_of ?g)"
    using b n' by auto
  have fit: "unat (vol_offset ?g) + unat (1024 :: u64) div unat (block_size_of ?g) * unat (block_size_of ?g) +
      blocks_read (unat (block_size_of ?g)) (unat n) (unat (1024 :: u64)) * unat (block_size_of ?g) \<le> length (source ?g)"
  proof -
    have "unat (1024 :: u64) div unat (block_size_of ?g) * unat (block_size_of ?g) +
      blocks_read (unat (block_size_of ?g)) (unat n) (unat (1024 :: u64)) * unat (block_size_of ?g) \<le> 4096"
      using b n' by (auto simp: blocks_read_def)
    then show ?thesis using g(3) by linarith
  qed
  have "vol_read ?g buf n 1024 = Done (n, store 0 (chunk (unat (vol_offset ?g) + unat (1024 :: u64)) (unat n) (source ?g)) buf)"
    by (rule vol_read_whole [OF g(1) _ sz(2,1) _ refl cross fit]) (use g(2) sz buf in \<open>auto simp: fits_def\<close>)
  moreover have "chunk (unat (vol_offset ?g) + unat (1024 :: u64)) (unat n) (source ?g) = chunk 0 (unat n) (header_bytes vol)"
    using sz(4) by (simp add: header_bytes_def chunk_chunk)
  ultimately show ?thesis by simp
qed

text \<open>A field that no other field of the list touches.\<close>

lemma rd_swap_fields_split:
  assumes fit: "list_all (\<lambda>(p, n). fits p n m) (A @ (q, width TYPE('a)) # B)"
    and A: "list_all (\<lambda>(p, n). p + n \<le> q \<or> q + width TYPE('a) \<le> p) A"
    and B: "list_all (\<lambda>(p, n). p + n \<le> q \<or> q + width TYPE('a) \<le> p) B"
  shows "(rd (swap_fields (A @ (q, width TYPE('a)) # B) m) q :: 'a::len word) = be_at m q"
proof -
  let ?k = "width TYPE('a)" and ?m = "swap_fields A m"
  have len: "length ?m = length m" using fit by simp
  then have fit': "list_all (\<lambda>(p, n). fits p n (rev_at q ?k ?m)) B" "q + ?k \<le> length ?m"
    using fit by (simp_all add: fits_def)
  have "chunk q ?k (swap_fields (A @ (q, ?k) # B) m) = chunk q ?k (swap_fields B (rev_at q ?k ?m))"
    by (simp add: swap_fields_def)
  also have "\<dots> = chunk q ?k (rev_at q ?k ?m)" by (rule chunk_swap_fields_disjoint [OF fit'(1) B])
  also have "\<dots> = rev (chunk q ?k ?m)" using fit'(2) by (rule chunk_rev_at_same)
  also have "chunk q ?k ?m = chunk q ?k m" using fit A by (intro chunk_swap_fields_disjoint) simp_all
  finally show ?thesis by (simp add: rd_def be_at_def)
qed

lemma mdb_fields_fit: "length m = 1600 \<Longrightarrow> list_all (\<lambda>(p, n). fits p n m) (shifted 0 mdb_fields)"
  by (simp add: mdb_fields_def fits_def)

lemma mdb_read:
  assumes "length m = 1600"
  shows "\<exists>m'. swap_HFSMasterDirectoryBlock Clang 0 m = Done m' \<and> length m' = 1600 \<and>
    (rd m' 0 :: u16) = be_at m 0 \<and> (rd m' 124 :: u16) = be_at m 124 \<and>
    (rd m' 28 :: u16) = be_at m 28 \<and> (rd m' 20 :: u32) = be_at m 20 \<and> (rd m' 126 :: u16) = be_at m 126"
proof -
  let ?fs = "shifted 0 mdb_fields"
  have fit: "list_all (\<lambda>(p, n). fits p n m) ?fs" using assms by (rule mdb_fields_fit)
  have one: "(rd (swap_fields ?fs m) q :: 'a::len word) = be_at m q"
    if "?fs = A @ (q, width TYPE('a)) # B"
      "list_all (\<lambda>(p, n). p + n \<le> q \<or> q + width TYPE('a) \<le> p) A"
      "list_all (\<lambda>(p, n). p + n \<le> q \<or> q + width TYPE('a) \<le> p) B" for q A B
    using rd_swap_fields_split [of m A q B, where 'a = 'a] fit that by simp
  have "(rd (swap_fields ?fs m) 0 :: u16) = be_at m 0" by (rule one [of "take 0 ?fs" _ "drop 1 ?fs"]) (simp_all add: mdb_fields_def)
  moreover have "(rd (swap_fields ?fs m) 124 :: u16) = be_at m 124" by (rule one [of "take 21 ?fs" _ "drop 22 ?fs"]) (simp_all add: mdb_fields_def)
  moreover have "(rd (swap_fields ?fs m) 28 :: u16) = be_at m 28" by (rule one [of "take 10 ?fs" _ "drop 11 ?fs"]) (simp_all add: mdb_fields_def)
  moreover have "(rd (swap_fields ?fs m) 20 :: u32) = be_at m 20" by (rule one [of "take 8 ?fs" _ "drop 9 ?fs"]) (simp_all add: mdb_fields_def)
  moreover have "(rd (swap_fields ?fs m) 126 :: u16) = be_at m 126" by (rule one [of "take 22 ?fs" _ "drop 23 ?fs"]) (simp_all add: mdb_fields_def)
  moreover have "swap_HFSMasterDirectoryBlock Clang 0 m = Done (swap_fields ?fs m)"
    using fit by (simp add: swap_HFSMasterDirectoryBlock_fields swaps_def)
  ultimately show ?thesis using fit assms by auto
qed

lemma load_mdb:
  assumes vol: "has_header vol"
  shows "\<exists>mdb. hfs_load_mbd Clang vol = Done (Some mdb) \<and>
    drSigWord mdb = be_at (header_bytes vol) 0 \<and> drEmbedSigWord mdb = be_at (header_bytes vol) 124 \<and>
    (rd mdb (fld HFSMasterDirectoryBlock_t ''drAlBlSt'' 0) :: u16) = be_at (header_bytes vol) 28 \<and>
    (rd mdb (fld HFSMasterDirectoryBlock_t ''drAlBlkSiz'' 0) :: u32) = be_at (header_bytes vol) 20 \<and>
    (rd mdb (fld HFSExtentDescriptor_t ''startBlock'' (fld HFSMasterDirectoryBlock_t ''drEmbedExtent'' 0)) :: u16) =
      be_at (header_bytes vol) 126"
proof -
  let ?hb = "header_bytes vol"
  let ?m = "store 0 (chunk 0 162 ?hb) (replicate 1600 0)"
  have sz: "sizeof HFSMasterDirectoryBlock_t = 162" by code_simp
  have len: "length ?hb = 512" using vol by (rule length_header_bytes)
  have read: "vol_read (geom vol) (replicate 1600 0) 162 1024 = Done (162, ?m)"
    using read_header [OF vol, of 162 "replicate 1600 0"] by simp
  have be: "(be_at ?m q :: 'a::len word) = be_at ?hb q" if "q + width TYPE('a) \<le> 162" for q
    using that len by (simp add: be_at_store_0 be_at_chunk)
  obtain m' where m': "swap_HFSMasterDirectoryBlock Clang 0 ?m = Done m'"
    "(rd m' 0 :: u16) = be_at ?m 0" "(rd m' 124 :: u16) = be_at ?m 124" "(rd m' 28 :: u16) = be_at ?m 28"
    "(rd m' 20 :: u32) = be_at ?m 20" "(rd m' 126 :: u16) = be_at ?m 126"
    using mdb_read [of ?m] len by auto
  have "hfs_load_mbd Clang vol = Done (Some (chunk 0 162 m'))"
    using read m'(1) by (simp add: hfs_load_mbd_def sz)
  then show ?thesis
    using m'(2-) by (intro exI [of _ "chunk 0 162 m'"])
      (simp add: fld_def HFSMasterDirectoryBlock_offsets HFSExtentDescriptor_offsets rd_chunk be)
qed

lemma load_header:
  assumes vol: "has_header vol"
  shows "\<exists>h. hfsplus_load_header vol = Done (Some h) \<and> converted 0 volume_header_fields (header_bytes vol) h"
proof -
  let ?hb = "header_bytes vol"
  have sz: "sizeof HFSPlusVolumeHeader_t = 512" by code_simp
  have len: "length ?hb = 512" using vol by (rule length_header_bytes)
  have read: "vol_read (geom vol) (replicate 512 0) 512 1024 = Done (512, ?hb)"
    using read_header [OF vol, of 512 "replicate 512 0"] len by (simp add: store_def chunk_def)
  have "fits 0 512 ?hb" using len by (simp add: fits_def)
  then obtain h where "swap_HFSPlusVolumeHeader 0 ?hb = Done h" "converted 0 volume_header_fields ?hb h"
    using swap_HFSPlusVolumeHeader_converts [of 0 ?hb] by (auto simp: sz)
  then show ?thesis using read by (simp add: hfsplus_load_header_def sz)
qed


lemma header_fields:
  assumes "converted 0 volume_header_fields m h"
  shows "vh_signature h = be_at m 0"
    and "(rd h (fld HFSPlusVolumeHeader_t ''blockSize'' 0) :: u32) = be_at m 40"
    and "(rd h (fld HFSPlusVolumeHeader_t ''totalBlocks'' 0) :: u32) = be_at m 44"
proof -
  have "(0, 2) \<in> set volume_header_fields" "(40, 4) \<in> set volume_header_fields" "(44, 4) \<in> set volume_header_fields"
    by (simp_all add: volume_header_fields_def scalars_HFSPlusVolumeHeader)
  then have "chunk 0 2 h = rev (chunk 0 2 m)" "chunk 40 4 h = rev (chunk 40 4 m)" "chunk 44 4 h = rev (chunk 44 4 m)"
    using assms by (fastforce simp: converted_def list_all_iff)+
  then show "vh_signature h = be_at m 0"
    "(rd h (fld HFSPlusVolumeHeader_t ''blockSize'' 0) :: u32) = be_at m 40"
    "(rd h (fld HFSPlusVolumeHeader_t ''totalBlocks'' 0) :: u32) = be_at m 44"
    by (simp_all add: rd_def be_at_def fld_def HFSPlusVolumeHeader_offsets)
qed

text \<open>The type of a file system by the bytes at the place of its header.\<close>

definition detected :: "buffer \<Rightarrow> u32" where
  "detected m =
     (if be_at m 0 = kHFSSigWord
      then if be_at m 124 = kHFSPlusSigWord then kFSTypeWrappedHFSPlus else kFSTypeHFS
      else if be_at m 0 = kHFSPlusSigWord \<or> be_at m 0 = kHFSXSigWord then kFSTypeHFSPlus
      else kTypeUnknown)"

lemma hfs_test_detected:
  assumes "has_header vol"
  shows "hfs_test Clang vol = Done (Some (detected (header_bytes vol)))"
proof -
  obtain mdb where mdb: "hfs_load_mbd Clang vol = Done (Some mdb)"
    "drSigWord mdb = be_at (header_bytes vol) 0" "drEmbedSigWord mdb = be_at (header_bytes vol) 124"
    using load_mdb [OF assms] by blast
  obtain h where h: "hfsplus_load_header vol = Done (Some h)" "vh_signature h = be_at (header_bytes vol) 0"
    using load_header [OF assms] header_fields by blast
  show ?thesis
    using mdb h by (simp add: hfs_test_def detected_def Let_def)
qed

section \<open>Correctness\<close>

text \<open>
  Recognising a file system: on a volume with its first blocks, built with Clang, the type is decided by
  the big-endian signatures at byte 1024 and, for an HFS volume, at byte 124 of its master directory block.
  HFSX is reported as HFS+.
\<close>

lemma hfs_test_correct:
  assumes "has_header vol"
  shows "hfs_test Clang vol = Done (Some
    (if be_at (header_bytes vol) 0 = (0x4244 :: u16)
     then if be_at (header_bytes vol) 124 = (0x482B :: u16) then kFSTypeWrappedHFSPlus else kFSTypeHFS
     else if be_at (header_bytes vol) 0 \<in> {0x482B, 0x4858 :: u16} then kFSTypeHFSPlus else 0))"
  using hfs_test_detected [OF assms] by (simp add: detected_def)

text \<open>
  C30. Opening a file system that was recognised: the sizes come from the volume header 1024 bytes into the
  volume, the offset is that of the volume. For a volume wrapped in HFS the offset of the embedded volume is
  added (modulo \<open>2 ^ 32\<close>), but the header is read from the same place, where the wrapper has its own.
\<close>

theorem hfs_open_correct:
  assumes "has_header vol" "m = header_bytes vol"
    and "be_at m 0 \<in> {0x482B, 0x4858 :: u16} \<or> be_at m 0 = (0x4244 :: u16) \<and> be_at m 124 = (0x482B :: u16)"
  shows "\<exists>hfs. hfs_open Clang vol = Done (0, Some hfs) \<and> hfs_vol hfs = vol \<and>
    converted 0 volume_header_fields m (vh hfs) \<and>
    block_size hfs = ucast (be_at m 40 :: u32) \<and> block_count hfs = ucast (be_at m 44 :: u32) \<and>
    hfs_length hfs = (if vol_length (geom vol) \<noteq> 0 then vol_length (geom vol) else block_size hfs * block_count hfs) \<and>
    hfs_offset hfs = vol_offset (geom vol) +
      (if be_at m 0 = (0x4244 :: u16)
       then ucast (ucast (be_at m 28 :: u16) * 512 + ucast (be_at m 126 :: u16) * be_at m 20 :: u32) else 0)"
proof -
  obtain mdb where mdb: "hfs_load_mbd Clang vol = Done (Some mdb)"
    "(rd mdb (fld HFSMasterDirectoryBlock_t ''drAlBlSt'' 0) :: u16) = be_at m 28"
    "(rd mdb (fld HFSMasterDirectoryBlock_t ''drAlBlkSiz'' 0) :: u32) = be_at m 20"
    "(rd mdb (fld HFSExtentDescriptor_t ''startBlock'' (fld HFSMasterDirectoryBlock_t ''drEmbedExtent'' 0)) :: u16) =
      be_at m 126"
    using load_mdb [OF assms(1)] unfolding assms(2) by blast
  obtain h where h: "hfsplus_load_header vol = Done (Some h)" "converted 0 volume_header_fields m h"
    using load_header [OF assms(1)] unfolding assms(2) by blast
  have "hfs_test Clang vol = Done (Some (detected m))" using hfs_test_detected [OF assms(1)] by (simp add: assms(2))
  with mdb h header_fields [OF h(2)] show ?thesis
    using assms(3) by (auto simp: hfs_open_def detected_def Let_def)
qed

text \<open>The volumes that the search of a tree visits, in its order.\<close>

fun visited :: "volume \<Rightarrow> volume list" where
  "visited (Volume g t s d n ps) =
     Volume g t s d n ps # concat (map (\<lambda>p. case p of None \<Rightarrow> [] | Some v \<Rightarrow> visited v) (take n ps))"

definition accepted :: "compiler \<Rightarrow> volume \<Rightarrow> bool" where
  "accepted cc vol \<longleftrightarrow>
     (case hfs_test cc vol of
        Done r \<Rightarrow> (case r of None \<Rightarrow> - 1 | Some type \<Rightarrow> type) AND (kFSTypeHFSPlus OR kFSTypeWrappedHFSPlus) \<noteq> 0
      | _ \<Rightarrow> False)"

fun counts_ok :: "volume \<Rightarrow> bool" where
  "counts_ok (Volume g t s d n ps) \<longleftrightarrow> 
     n \<le> length ps \<and> list_all (\<lambda>p. case p of None \<Rightarrow> True | Some v \<Rightarrow> counts_ok v) (take n ps)"


lemma find_in_visited:
  assumes "\<And>v. Some v \<in> set ps \<Longrightarrow> look v = Done (find P (visited v))"
  shows "find_in look ps = Done (find P (concat (map (\<lambda>p. case p of None \<Rightarrow> [] | Some v \<Rightarrow> visited v) ps)))"
  using assms
proof (induction ps)
  case (Cons p ps)
  have app: "find P (xs @ ys) = (case find P xs of None \<Rightarrow> find P ys | Some x \<Rightarrow> Some x)" for xs ys :: "volume list"
    by (induction xs) simp_all
  show ?case
  proof (cases p)
    case None
    with Cons show ?thesis by simp
  next
    case (Some v)
    with Cons have "look v = Done (find P (visited v))"
      "find_in look ps = Done (find P (concat (map (\<lambda>p. case p of None \<Rightarrow> [] | Some v \<Rightarrow> visited v) ps)))" by simp_all
    then show ?thesis by (cases "find P (visited v)") (simp_all add: Some app)
  qed
qed simp

lemma find_first_visited:
  assumes "counts_ok vol" "\<forall>v \<in> set (visited vol). returns (hfs_test cc v)"
  shows "hfsplus_find cc vol = Done (find (accepted cc) (visited vol))"
  using assms
proof (induction cc vol rule: hfsplus_find.induct)
  case (1 cc g t s d n ps)
  let ?vol = "Volume g t s d n ps"
  obtain r where r: "hfs_test cc ?vol = Done r" using "1.prems"(2) by (auto simp: returns_iff)
  show ?case
  proof (cases "accepted cc ?vol")
    case True
    then show ?thesis by (simp add: r accepted_def)
  next
    case False
    then have no: "(case r of None \<Rightarrow> - 1 | Some type \<Rightarrow> type) AND (kFSTypeHFSPlus OR kFSTypeWrappedHFSPlus) = 0"
      by (simp add: accepted_def r)
    have n: "\<not> length ps < n" using "1.prems"(1) by simp
    have "hfsplus_find cc v = Done (find (accepted cc) (visited v))" if v: "Some v \<in> set (take n ps)" for v
    proof (rule "1.IH" [OF r refl])
      show "counts_ok v" using "1.prems"(1) v by (auto simp: list_all_iff)
      show "\<forall>v \<in> set (visited v). returns (hfs_test cc v)"
        using "1.prems"(2) v by fastforce
    qed (use no n v in simp_all)
    then have "find_in (hfsplus_find cc) (take n ps) =
        Done (find (accepted cc) (concat (map (\<lambda>p. case p of None \<Rightarrow> [] | Some v \<Rightarrow> visited v) (take n ps))))"
      by (rule find_in_visited)
    with False no n r show ?thesis by simp
  qed
qed

text \<open>
  C31. The search of a tree of volumes returns the first one in preorder that is accepted, if no test aborts
  or faults. Accepted is not only HFS+: the type codes are compared by their common bits, so a plain HFS
  volume passes as well, and so does a volume whose test failed with -1.
\<close>

theorem hfsplus_find_correct:
  assumes "counts_ok vol" "\<forall>v \<in> set (visited vol). returns (hfs_test cc v)"
  shows "hfsplus_find cc vol = Done (find (\<lambda>v. hfs_test cc v \<in>
    Done ` ({None, Some kFSTypeHFSPlus, Some kFSTypeWrappedHFSPlus, Some kFSTypeHFS})) (visited vol))"
proof -
  have types: "hfs_test cc v = Done (Some type) \<Longrightarrow> type \<in> {kFSTypeHFSPlus, kFSTypeWrappedHFSPlus, kFSTypeHFS, 0}" for v type
    by (auto simp: hfs_test_def Let_def obind_Done_iff split: option.splits if_splits)
  have "accepted cc v \<longleftrightarrow> hfs_test cc v \<in>
      Done ` ({None, Some kFSTypeHFSPlus, Some kFSTypeWrappedHFSPlus, Some kFSTypeHFS})" for v
    using types [of v] by (auto simp: accepted_def split: outcome.splits option.splits)
  then have "accepted cc = (\<lambda>v. hfs_test cc v \<in>
      Done ` ({None, Some kFSTypeHFSPlus, Some kFSTypeWrappedHFSPlus, Some kFSTypeHFS}))" by (rule ext)
  with find_first_visited [OF assms] show ?thesis by simp
qed


section \<open>A wrapped volume in a partition\<close>

definition sample_mdb :: buffer where
  "sample_mdb = [0x42,0x44] @ replicate 18 0 @ [0,0,2,0] @ replicate 4 0 @ [0,4] @ replicate 94 0 @
     [0x48,0x2B, 0,3] @ replicate 384 0"

definition sample_source :: stream where
  "sample_source = replicate 5120 0 @ sample_mdb @ replicate 2560 0"

definition sample_geometry :: "u64 \<Rightarrow> geometry" where
  "sample_geometry off = \<lparr>source = sample_source, sector_count = 8, sector_size = 512, phy_sector_size = 0,
     vol_offset = off, vol_length = 4096\<rparr>"

definition sample_inner :: volume where
  "sample_inner = Volume (sample_geometry 4096) 0 0 1 0 []"

definition sample_outer :: volume where
  "sample_outer = Volume (sample_geometry 0) 0 0 0 1 [Some sample_inner]"

lemma length_sample_mdb: "length sample_mdb = 512"
  by (simp add: sample_mdb_def)

lemma sample_has_header: "has_header sample_inner" "has_header sample_outer"
  by (simp_all add: has_header_def sample_inner_def sample_outer_def sample_geometry_def geometry_ok_def
      block_size_of_def sample_source_def length_sample_mdb)

lemma sample_header_bytes: "header_bytes sample_inner = sample_mdb" "header_bytes sample_outer = replicate 512 0"
  by (simp_all add: header_bytes_def sample_inner_def sample_outer_def sample_geometry_def sample_source_def
      chunk_def length_sample_mdb)

lemma sample_fields:
  "(be_at sample_mdb 0 :: u16) = 0x4244" "(be_at sample_mdb 124 :: u16) = 0x482B"
  "(be_at sample_mdb 20 :: u32) = 512" "(be_at sample_mdb 28 :: u16) = 4" "(be_at sample_mdb 126 :: u16) = 3"
  "(be_at (replicate 512 0) 0 :: u16) = 0"
  by code_simp+

lemma hfs_test_correct_witness: "hfs_test Clang sample_inner = Done (Some kFSTypeWrappedHFSPlus)"
  using hfs_test_correct [OF sample_has_header(1)] by (simp add: sample_header_bytes sample_fields)

lemma hfs_open_correct_witness:
  "\<exists>hfs. hfs_open Clang sample_inner = Done (0, Some hfs) \<and> hfs_offset hfs = 4096 + (4 * 512 + 3 * 512)"
proof -
  have "vol_offset (geom sample_inner) = 4096" by (simp add: sample_inner_def sample_geometry_def)
  then show ?thesis
    using hfs_open_correct [OF sample_has_header(1) refl] by (auto simp: sample_header_bytes sample_fields)
qed

lemma hfsplus_find_correct_witness: "hfsplus_find Clang sample_outer = Done (Some sample_inner)"
proof -
  have v: "visited sample_outer = [sample_outer, sample_inner]" by (simp add: sample_outer_def sample_inner_def)
  have t: "hfs_test Clang sample_outer = Done (Some 0)" "hfs_test Clang sample_inner = Done (Some kFSTypeWrappedHFSPlus)"
    using sample_has_header by (simp_all add: hfs_test_detected sample_header_bytes detected_def sample_fields)
  have "counts_ok sample_outer" by (simp add: sample_outer_def sample_inner_def)
  then show ?thesis using hfsplus_find_correct [of sample_outer Clang] by (simp add: v t)
qed

end
