(* ===== verification/Command_Line.thy ===== *)
theory Command_Line
  imports Volume_Dump Hfs_Volume
begin

text \<open>
  The program, \<^verbatim>\<open>src/src/hfsinspect.c\<close>: its options, the search for a file system, and the requests that it performs.
  What the operating system answers is in \<open>host\<close>; \<open>getopt_long\<close> is the list of options and arguments that it
  returns. The operations on the open file system are those of the other theories, and are
  arguments here (\<open>commands\<close>), on a state \<open>'s\<close>. The platform is Linux: the parts for BSD are not compiled.
  A \<open>run\<close> ends in a value, or in the exit status of the process; \<open>None\<close> is a run that does not end.
\<close>

section \<open>Runs\<close>

type_synonym 'a run = "(int + 'a) outcome option"

abbreviation (input) ret :: "'a \<Rightarrow> 'a run" where "ret a \<equiv> Some (Done (Inr a))"
abbreviation (input) exits :: "int \<Rightarrow> 'a run" where "exits n \<equiv> Some (Done (Inl n))"
abbreviation (input) fault :: "'a run" where "fault \<equiv> Some Fault"

fun rbind :: "'a run \<Rightarrow> ('a \<Rightarrow> 'b run) \<Rightarrow> 'b run" where
  "rbind None f = None"
| "rbind (Some Critical) f = Some Critical"
| "rbind (Some Fault) f = Some Fault"
| "rbind (Some (Done (Inl n))) f = Some (Done (Inl n))"
| "rbind (Some (Done (Inr a))) f = f a"

type_synonym 's process = "screen \<times> 's \<Rightarrow> (screen \<times> 's) run"

definition printing :: "'s printer \<Rightarrow> 's process" where
  "printing p x = Some (obind (p x) (\<lambda>x. Done (Inr x)))"

fun in_turn :: "'s process list \<Rightarrow> 's process" where
  "in_turn [] x = ret x"
| "in_turn (p # ps) x = rbind (p x) (in_turn ps)"

definition on_mode :: "u32 \<Rightarrow> nat \<Rightarrow> 's process \<Rightarrow> 's process" where
  "on_mode modes m p = (if check_mode modes m then p else ret)"

section \<open>Options\<close>

abbreviation (input) HIModeShowVolumeInfo :: nat where "HIModeShowVolumeInfo \<equiv> 0"
abbreviation (input) HIModeShowJournalInfo :: nat where "HIModeShowJournalInfo \<equiv> 1"
abbreviation (input) HIModeShowSummary :: nat where "HIModeShowSummary \<equiv> 2"
abbreviation (input) HIModeShowBTreeInfo :: nat where "HIModeShowBTreeInfo \<equiv> 3"
abbreviation (input) HIModeShowBTreeNode :: nat where "HIModeShowBTreeNode \<equiv> 4"
abbreviation (input) HIModeShowCatalogRecord :: nat where "HIModeShowCatalogRecord \<equiv> 5"
abbreviation (input) HIModeShowCNID :: nat where "HIModeShowCNID \<equiv> 6"
abbreviation (input) HIModeShowPathInfo :: nat where "HIModeShowPathInfo \<equiv> 7"
abbreviation (input) HIModeExtractFile :: nat where "HIModeExtractFile \<equiv> 8"
abbreviation (input) HIModeShowDiskInfo :: nat where "HIModeShowDiskInfo \<equiv> 10"
abbreviation (input) HIModeYankFS :: nat where "HIModeYankFS \<equiv> 11"
abbreviation (input) HIModeFreeSpace :: nat where "HIModeFreeSpace \<equiv> 12"

datatype BTreeTypes = BTreeTypeCatalog | BTreeTypeExtents | BTreeTypeAttributes | BTreeTypeHotfiles

record HIOptions =
  opt_mode :: u32
  record_parent :: u32
  opt_cnid :: u32
  node_id :: u32
  tree_type :: BTreeTypes
  device_path :: string
  file_path :: string
  record_filename :: string
  extract_path :: string
  use_decimal :: bool
  opt_log_level :: int

definition no_options :: HIOptions where
  "no_options = \<lparr>opt_mode = 0, record_parent = 0, opt_cnid = 0, node_id = 0, tree_type = BTreeTypeCatalog,
     device_path = [], file_path = [], record_filename = [], extract_path = [], use_decimal = False,
     opt_log_level = 3\<rparr>"

abbreviation (input) PATH_MAX :: nat where "PATH_MAX \<equiv> 4096"

definition with_mode :: "nat \<Rightarrow> HIOptions \<Rightarrow> HIOptions" where
  "with_mode m opts = opts\<lparr>opt_mode := set_mode (opt_mode opts) m\<rparr>"

text \<open>
  \<open>sscanf\<close> with \<open>%u\<close>: -1 at the end of the input, 0 where no number starts, 1 with the number, which
  \<open>strtoul\<close> bounds and the conversion cuts to 32 bits.
\<close>

definition scan_unsigned :: "string \<Rightarrow> int \<times> u32 option" where
  "scan_unsigned s =
     (let s = dropWhile (\<lambda>c. c \<in> {CHR '' '', CHR 0x09, CHR 0x0A, CHR 0x0B, CHR 0x0C, CHR 0x0D}) s;
          neg = (s \<noteq> [] \<and> hd s = CHR ''-'');
          t = (if s \<noteq> [] \<and> hd s \<in> {CHR ''-'', CHR ''+''} then tl s else s);
          ds = takeWhile (\<lambda>c. 48 \<le> (of_char c :: nat) \<and> (of_char c :: nat) \<le> 57) t;
          n = foldl (\<lambda>n c. 10 * n + (of_char c - 48)) (0 :: nat) ds in
      if s = [] then (- 1, None)
      else if ds = [] then (0, None)
      else (1, Some (if n \<ge> 2 ^ 64 then - 1 else if neg then - of_nat n else of_nat n)))"

text \<open>\<open>strsep\<close> at a colon: the piece before it, and what follows if there is one.\<close>

definition strsep :: "string \<Rightarrow> string \<times> string option" where
  "strsep s =
     (let piece = takeWhile (\<lambda>c. c \<noteq> CHR '':'') s; rest = dropWhile (\<lambda>c. c \<noteq> CHR '':'') s in
      (piece, if rest = [] then None else Some (tl rest)))"

definition parse_fsspec :: "string \<Rightarrow> HIOptions \<Rightarrow> HIOptions run" where
  "parse_fsspec arg opts =
     (let (parent, option) = strsep arg;
          filename = map_option (\<lambda>s. fst (strsep s)) option;
          id = (if parent \<noteq> [] then (case snd (scan_unsigned parent) of None \<Rightarrow> 0 | Some n \<Rightarrow> n) else 0);
          opts = opts\<lparr>record_parent := id, record_filename := (case filename of None \<Rightarrow> [] | Some f \<Rightarrow> strlcpy PATH_MAX f)\<rparr> in
      if record_parent opts = 0 then exits 1 else ret opts)"

definition tree_names :: "(string \<times> BTreeTypes) list" where
  "tree_names =
     [(''attributes'', BTreeTypeAttributes), (''catalog'', BTreeTypeCatalog), (''extents'', BTreeTypeExtents),
      (''hotfiles'', BTreeTypeHotfiles)]"

text \<open>
  One option. There is no \<open>statfs\<close>: \<open>deviceAtPath\<close> gives a null pointer, which \<open>-V\<close> copies from, and
  \<open>resolveDeviceAndPath\<close> fails, so that \<open>-p\<close> ends the program. Help and version end it with status 0.
\<close>

definition process_option :: "char \<times> string \<Rightarrow> HIOptions \<Rightarrow> HIOptions run" where
  "process_option = (\<lambda>(opt, optarg) opts.
     if opt = CHR ''L'' then ret (opts\<lparr>opt_log_level := opt_log_level opts + 1\<rparr>)
     else if opt = CHR ''B'' then ret (opts\<lparr>opt_log_level := 5\<rparr>)
     else if opt = CHR ''S'' then ret (opts\<lparr>use_decimal := True\<rparr>)
     else if opt = CHR ''l'' then ret (with_mode HIModeListFolder opts)
     else if opt = CHR ''v'' then exits 0
     else if opt = CHR ''h'' then exits 0
     else if opt = CHR ''j'' then ret (with_mode HIModeShowJournalInfo opts)
     else if opt = CHR ''D'' then ret (with_mode HIModeShowDiskInfo opts)
     else if opt = CHR ''d'' then ret (opts\<lparr>device_path := strlcpy PATH_MAX optarg\<rparr>)
     else if opt = CHR ''V'' then fault
     else if opt = CHR ''r'' then ret (with_mode HIModeShowVolumeInfo opts)
     else if opt = CHR ''p'' then exits 1
     else if opt = CHR ''P'' then
       (let opts = (with_mode HIModeShowPathInfo opts)\<lparr>file_path := strlcpy PATH_MAX optarg\<rparr> in
        if file_path opts = [] \<or> hd (file_path opts) \<noteq> CHR ''/'' then exits 1 else ret opts)
     else if opt = CHR ''b'' then
       (case map_of tree_names (cstr optarg) of
          None \<Rightarrow> exits 1
        | Some t \<Rightarrow> ret ((with_mode HIModeShowBTreeInfo opts)\<lparr>tree_type := t\<rparr>))
     else if opt = CHR ''F'' then parse_fsspec optarg (with_mode HIModeShowCatalogRecord opts)
     else if opt = CHR ''y'' then ret ((with_mode HIModeYankFS opts)\<lparr>extract_path := strlcpy PATH_MAX optarg\<rparr>)
     else if opt = CHR ''o'' then ret ((with_mode HIModeExtractFile opts)\<lparr>extract_path := strlcpy PATH_MAX optarg\<rparr>)
     else if opt = CHR ''n'' then
       (let (n, v) = scan_unsigned optarg; opts = with_mode HIModeShowBTreeNode opts in
        if n = 0 then exits 1 else ret (case v of None \<Rightarrow> opts | Some v \<Rightarrow> opts\<lparr>node_id := v\<rparr>))
     else if opt = CHR ''c'' then
       (let (n, v) = scan_unsigned optarg; opts = with_mode HIModeShowCNID opts in
        if n = 0 then exits 1 else ret (case v of None \<Rightarrow> opts | Some v \<Rightarrow> opts\<lparr>opt_cnid := v\<rparr>))
     else if opt = CHR ''s'' then ret (with_mode HIModeShowSummary opts)
     else if opt = CHR ''0'' then ret (with_mode HIModeFreeSpace opts)
     else exits 1)"

fun process_options :: "(char \<times> string) list \<Rightarrow> HIOptions \<Rightarrow> HIOptions run" where
  "process_options [] opts = ret opts"
| "process_options (a # as) opts = rbind (process_option a opts) (process_options as)"

section \<open>The system and the operations\<close>

text \<open>
  The answers of the system: \<open>dirname\<close>, which may cut its argument as well; the error of \<open>stat\<close>; whether the
  process belongs to root, and may change its user; the error of opening a path, or the file; \<open>mkdir\<close>; and
  \<open>fopen\<close> for writing with what is written, which is \<open>None\<close> where the file cannot be opened.
\<close>

record 's host =
  host_dirname :: "string \<Rightarrow> string \<times> string"
  host_stat :: "string \<Rightarrow> int option"
  host_root :: bool
  host_drop :: bool
  host_open :: "string \<Rightarrow> int + stream \<times> file_status"
  host_mkdir :: "string \<Rightarrow> 's \<Rightarrow> int option \<times> 's"
  host_write :: "string \<Rightarrow> buffer \<Rightarrow> 's \<Rightarrow> 's option"

text \<open>
  The operations on the open file system, by the names of their functions: \<open>cmd_make\<close> is \<open>hfsfork_make\<close>,
  \<open>cmd_lookup\<close> is \<open>HFSPlusGetCatalogInfoByPath\<close>, \<open>cmd_tree\<close> fetches a tree and gives its number, \<open>cmd_node\<close>
  is \<open>PrintTreeNode\<close>, \<open>cmd_special\<close> is \<open>hfsplus_get_special_fork\<close>.
\<close>

record 's commands =
  cmd_volume_info :: "'s process"
  cmd_summary :: "'s process"
  cmd_volume_header :: "'s process"
  cmd_journal_block :: "'s \<Rightarrow> (bool \<times> buffer \<times> 's) outcome"
  cmd_print_block :: "buffer \<Rightarrow> 's process"
  cmd_journal_header :: "buffer \<Rightarrow> 's \<Rightarrow> (bool \<times> buffer \<times> 's) outcome"
  cmd_print_header :: "buffer \<Rightarrow> 's process"
  cmd_free_space :: "'s process"
  cmd_path :: "string \<Rightarrow> 's process"
  cmd_record :: "FSSpec \<Rightarrow> bool \<Rightarrow> 's process"
  cmd_tree :: "BTreeTypes \<Rightarrow> 's \<Rightarrow> (int \<times> u32 \<times> 's) outcome"
  cmd_node :: "BTreeTypes \<Rightarrow> u32 \<Rightarrow> 's process"
  cmd_special :: "u32 \<Rightarrow> 's \<Rightarrow> (HFSPlusFork option \<times> 's) outcome"
  cmd_make :: "HFSPlusForkData \<Rightarrow> u8 \<Rightarrow> u32 \<Rightarrow> 's \<Rightarrow> (int \<times> HFSPlusFork \<times> 's) outcome"
  cmd_extract :: "HFSPlusFork \<Rightarrow> string \<Rightarrow> 's process"
  cmd_lookup :: "string \<Rightarrow> 's \<Rightarrow> (int \<times> buffer option \<times> 's) outcome"

definition run_call :: "('s \<Rightarrow> ('a \<times> 'b \<times> 's) outcome) \<Rightarrow> ('a \<Rightarrow> 'b \<Rightarrow> 's process) \<Rightarrow> 's process" where
  "run_call f k = (\<lambda>(scr, s).
     case f s of Done (a, b, s) \<Rightarrow> k a b (scr, s) | Critical \<Rightarrow> Some Critical | Fault \<Rightarrow> fault)"

section \<open>The essential files\<close>

definition yank_name :: "string \<Rightarrow> string \<Rightarrow> string" where
  "yank_name dir name = take (PATH_MAX - 1) (dir @ name)"

text \<open>A result that is negative is not looked at: the fork is then null.\<close>

definition yank_fork :: "'s commands \<Rightarrow> HFSPlusForkData \<Rightarrow> u32 \<Rightarrow> string \<Rightarrow> 's process" where
  "yank_fork cmds forkData cnid path =
     run_call (cmd_make cmds forkData HFSDataForkType cnid) (\<lambda>rc fork.
       if rc < 0 then (\<lambda>_. fault) else cmd_extract cmds fork path)"

definition yank_special :: "'s commands \<Rightarrow> HFSPlus \<Rightarrow> string \<Rightarrow> 's process list" where
  "yank_special cmds hfs dir =
     map (\<lambda>(f, cnid, name).
       let forkData = fork_at HFSPlusVolumeHeader_t (vh hfs) 0 f in
       if logicalSize forkData < 1 then ret else yank_fork cmds forkData cnid (yank_name dir name))
     [(''extentsFile'', kHFSExtentsFileID, ''/extents.btree''), (''catalogFile'', kHFSCatalogFileID, ''/catalog.btree''),
      (''allocationFile'', kHFSAllocationFileID, ''/allocation.bmap''), (''startupFile'', kHFSStartupFileID, ''/startupFile''),
      (''attributesFile'', kHFSAttributesFileID, ''/attributes.btree'')]"

text \<open>
  The files that are looked up: the result 0 of a path that is found counts as false, so that the record of
  the last path that was found, or zeros, is taken for one that is not.
\<close>

fun yank_paths :: "'s commands \<Rightarrow> string \<Rightarrow> (string \<times> string) list \<Rightarrow> buffer \<Rightarrow> 's process" where
  "yank_paths cmds dir [] catalogRecord = ret"
| "yank_paths cmds dir ((path, name) # ps) catalogRecord =
     run_call (cmd_lookup cmds path) (\<lambda>rc r.
       let catalogRecord = (case r of None \<Rightarrow> catalogRecord | Some r \<Rightarrow> r);
           fileID = rd catalogRecord (fld HFSPlusCatalogFile_t ''fileID'' 0) :: u32 in
       in_turn
        [if rc \<noteq> 0 then yank_fork cmds (file_fork ''dataFork'' catalogRecord) fileID (yank_name dir name) else ret,
         yank_paths cmds dir ps catalogRecord])"

abbreviation (input) EBUSY :: int where "EBUSY \<equiv> 16"
abbreviation (input) EEXIST :: int where "EEXIST \<equiv> 17"

definition yank_header :: "'s host \<Rightarrow> HFSPlus \<Rightarrow> string \<Rightarrow> 's process" where
  "yank_header host hfs dir = (\<lambda>(scr, s).
     let vol = hfs_vol hfs; readSize = sector_size (geom vol) * 16 in
     case vol_read (geom vol) (replicate (unat readSize) 0) (ucast readSize) 0 of
       Done (nbytes, buf) \<Rightarrow>
         if sint (ucast nbytes :: u32) < 0 then exits 0
         else (case host_write host (yank_name dir ''/header.block'') buf s of None \<Rightarrow> fault | Some s \<Rightarrow> ret (scr, s))
     | Critical \<Rightarrow> Some Critical
     | Fault \<Rightarrow> fault)"

definition yank :: "'s host \<Rightarrow> 's commands \<Rightarrow> HFSPlus \<Rightarrow> string \<Rightarrow> 's process" where
  "yank host cmds hfs dir = (\<lambda>(scr, s).
     let (err, s) = host_mkdir host dir s in
     if err \<noteq> None \<and> err \<noteq> Some EEXIST then exits 0
     else in_turn
       ([yank_header host hfs dir] @ yank_special cmds hfs dir @
        [yank_paths cmds dir
          [(''/.hotfiles.btree'', ''/hotfiles.btree''), (''/.journal_info_block'', ''/journal.block''),
           (''/.journal'', ''/journal.buf'')] (replicate (sizeof HFSPlusCatalogRecord_t) 0)]) (scr, s))"

section \<open>Requests\<close>

definition show_journal :: "'s commands \<Rightarrow> HFSPlus \<Rightarrow> 's process" where
  "show_journal cmds hfs =
     (let v = member HFSPlusVolumeHeader_t (vh hfs) 0 in
      if v ''attributes'' AND 0x2000 = 0 \<or> v ''journalInfoBlock'' = 0 then ret
      else run_call (cmd_journal_block cmds) (\<lambda>success block.
        if \<not> success then (\<lambda>_. exits 1)
        else in_turn
         [cmd_print_block cmds block,
          run_call (cmd_journal_header cmds block) (\<lambda>success header.
            if \<not> success then (\<lambda>_. exits 1) else cmd_print_header cmds header)]))"

text \<open>\<open>loadBTree\<close>, with the number of the tree.\<close>

definition loadBTree :: "'s commands \<Rightarrow> BTreeTypes \<Rightarrow> screen \<times> 's \<Rightarrow> (u32 \<times> screen \<times> 's) run" where
  "loadBTree cmds t = (\<lambda>(scr, s).
     case cmd_tree cmds t s of
       Done (rc, tid, s) \<Rightarrow> if rc < 0 then exits 1 else ret (tid, scr, s)
     | Critical \<Rightarrow> Some Critical
     | Fault \<Rightarrow> fault)"

fun tree_label :: "BTreeTypes \<Rightarrow> string" where
  "tree_label BTreeTypeCatalog = ''Catalog''"
| "tree_label BTreeTypeExtents = ''Extents''"
| "tree_label BTreeTypeAttributes = ''Attributes''"
| "tree_label BTreeTypeHotfiles = ''Hotfiles''"

text \<open>The title comes from the number of the tree, for hot files from the type.\<close>

definition header_title :: "BTreeTypes \<Rightarrow> u32 \<Rightarrow> string option" where
  "header_title t tid =
     (if tid = kHFSCatalogFileID then Some ''Catalog B-Tree Header''
      else if tid = kHFSExtentsFileID then Some ''Extents B-Tree Header''
      else if tid = kHFSAttributesFileID then Some ''Attributes B-Tree Header''
      else if t = BTreeTypeHotfiles then Some ''Hotfiles B-Tree Header''
      else None)"

definition in_titled :: "string \<Rightarrow> 's process \<Rightarrow> 's process" where
  "in_titled title p = in_turn [printing (BeginSection title), p, printing EndSection]"

definition show_tree :: "'s commands \<Rightarrow> HIOptions \<Rightarrow> screen \<times> 's \<Rightarrow> (u32 option \<times> screen \<times> 's) run" where
  "show_tree cmds opts x = rbind (loadBTree cmds (tree_type opts) x) (\<lambda>(tid, x).
     case header_title (tree_type opts) tid of
       None \<Rightarrow> exits 1
     | Some title \<Rightarrow> rbind (in_titled title (cmd_node cmds (tree_type opts) 0) x) (\<lambda>x. ret (Some tid, x)))"

definition show_node :: "'s commands \<Rightarrow> HIOptions \<Rightarrow> screen \<times> 's \<Rightarrow> (u32 option \<times> screen \<times> 's) run" where
  "show_node cmds opts x = rbind (loadBTree cmds (tree_type opts) x) (\<lambda>(tid, x).
     rbind (in_titled (tree_label (tree_type opts) @ '' B-Tree Node '' @ dec_int (sint (node_id opts)))
              (cmd_node cmds (tree_type opts) (node_id opts)) x) (\<lambda>x. ret (Some tid, x)))"

text \<open>
  Only the file of a tree that was loaded is extracted: nothing sets the fork of a file that was found. A
  tree that is no special file leaves the pointer uninitialised.
\<close>

definition extract_found :: "'s commands \<Rightarrow> HIOptions \<Rightarrow> u32 option \<Rightarrow> 's process" where
  "extract_found cmds opts tree = (\<lambda>(scr, s).
     case tree of
       None \<Rightarrow> ret (scr, s)
     | Some tid \<Rightarrow>
         if tid = 0 then ret (scr, s)
         else (case cmd_special cmds tid s of
             Done (fork, s) \<Rightarrow>
               if extract_path opts = [] then ret (scr, s)
               else (case fork of None \<Rightarrow> fault | Some fork \<Rightarrow> cmd_extract cmds fork (extract_path opts) (scr, s))
           | Critical \<Rightarrow> Some Critical
           | Fault \<Rightarrow> fault))"

definition show_fsspec :: "'s commands \<Rightarrow> HIOptions \<Rightarrow> 's process" where
  "show_fsspec cmds opts x =
     (case str_to_hfsuc (map of_char (record_filename opts)) of
        Done (_, name) \<Rightarrow> cmd_record cmds \<lparr>spec_parentID = record_parent opts, spec_name = name\<rparr> False x
      | Critical \<Rightarrow> Some Critical
      | Fault \<Rightarrow> fault)"

text \<open>The requests on trees, with the number of the tree that is loaded last.\<close>

definition tree_requests :: "'s commands \<Rightarrow> u32 \<Rightarrow> HIOptions \<Rightarrow> screen \<times> 's \<Rightarrow> (u32 option \<times> screen \<times> 's) run" where
  "tree_requests cmds modes opts x =
     rbind (if check_mode modes HIModeShowBTreeInfo then show_tree cmds opts x else ret (None, x)) (\<lambda>(tree, x).
     if check_mode modes HIModeShowBTreeNode then show_node cmds opts x else ret (tree, x))"

definition perform_requests :: "'s commands \<Rightarrow> HFSPlus \<Rightarrow> HIOptions \<Rightarrow> 's process" where
  "perform_requests cmds hfs opts x =
     (let modes = (if opt_mode opts = 0 then set_mode (opt_mode opts) HIModeShowVolumeInfo else opt_mode opts) in
      rbind (in_turn
       [cmd_volume_info cmds,
        on_mode modes HIModeShowSummary (cmd_summary cmds),
        on_mode modes HIModeShowVolumeInfo (cmd_volume_header cmds),
        on_mode modes HIModeShowJournalInfo (show_journal cmds hfs),
        on_mode modes HIModeFreeSpace (cmd_free_space cmds),
        on_mode modes HIModeShowPathInfo (cmd_path cmds (file_path opts)),
        on_mode modes HIModeShowCatalogRecord (show_fsspec cmds opts),
        on_mode modes HIModeShowCNID (cmd_record cmds \<lparr>spec_parentID = opt_cnid opts, spec_name = []\<rparr> True)] x) (\<lambda>x.
      rbind (tree_requests cmds modes opts x) (\<lambda>(tree, x).
      on_mode modes HIModeExtractFile (extract_found cmds opts tree) x)))"

section \<open>The program\<close>

text \<open>
  Opening the device: a busy one is tried again as the raw disk, as long as its path says that it is a
  disk. Without a device the program copies from the null pointer that \<open>deviceAtPath\<close> gives.
\<close>

definition raw_path :: "string \<Rightarrow> string" where
  "raw_path path = take (PATH_MAX - 1) (''/dev/rdisk'' @ drop 9 path)"

definition is_disk :: "string \<Rightarrow> bool" where
  "is_disk path \<longleftrightarrow> (\<exists>i < length path + 1. take 9 (drop i path) = ''/dev/disk'')"

fun open_device :: "'s host \<Rightarrow> nat \<Rightarrow> string \<Rightarrow> volume run" where
  "open_device host 0 path = None"
| "open_device host (Suc fuel) path =
     (case host_open host path of
        Inr (f, st) \<Rightarrow> ret (Volume (vol_open f st 0 0 0) 0 0 0 0 (replicate 128 None))
      | Inl err \<Rightarrow>
          if err = EBUSY \<and> is_disk path then open_device host fuel (raw_path path)
          else exits err)"

text \<open>
  What becomes of the path for output, where \<open>dirname\<close> is applied to it, and giving up the rights of
  root. The user that the process turns into is that of the directory.
\<close>

definition check_output :: "'s host \<Rightarrow> HIOptions \<Rightarrow> HIOptions run" where
  "check_output host opts =
     (if check_mode (opt_mode opts) HIModeExtractFile \<or> check_mode (opt_mode opts) HIModeYankFS
      then
        let (dir, rest) = host_dirname host (extract_path opts) in
        if dir = [] then exits 1
        else (case host_stat host dir of Some err \<Rightarrow> exits err | None \<Rightarrow> ret (opts\<lparr>extract_path := rest\<rparr>))
      else ret opts)"

definition drop_rights :: "'s host \<Rightarrow> HIOptions \<Rightarrow> HIOptions run" where
  "drop_rights host opts = (if host_root host \<and> \<not> host_drop host then exits 1 else ret opts)"

definition load_volumes ::
  "dump_env \<Rightarrow> (u32 \<Rightarrow> buffer \<Rightarrow> u32) \<Rightarrow> nat \<Rightarrow> HIOptions \<Rightarrow> volume \<Rightarrow> screen \<times> 's \<Rightarrow> (volume \<times> screen \<times> 's) run" where
  "load_volumes env crc32c fuel opts vol x =
     (if check_mode (opt_mode opts) HIModeShowDiskInfo
      then map_option (\<lambda>r. obind r (\<lambda>(_, vol, x). Done (Inr (vol, x)))) (volumes_dump env crc32c fuel vol x)
      else map_option (\<lambda>r. obind r (\<lambda>(_, vol). Done (Inr (vol, x)))) (volumes_load (dump_uuid_is env) crc32c fuel vol))"

definition find_filesystem :: "compiler \<Rightarrow> volume \<Rightarrow> HFSPlus run" where
  "find_filesystem cc vol =
     Some (obind (hfsplus_find cc vol) (\<lambda>r.
       case r of None \<Rightarrow> Done (Inl 1)
       | Some vol \<Rightarrow> obind (hfs_open cc vol) (\<lambda>(rc, hfs).
           if rc < 0 then Done (Inl 1) else case hfs of None \<Rightarrow> Fault | Some hfs \<Rightarrow> Done (Inr hfs))))"

text \<open>
  The whole program, after the options: the value is the state at the clean exit. The context of the
  volume takes the units that were asked for once the file system is open.
\<close>

definition with_device ::
  "dump_env \<Rightarrow> (u32 \<Rightarrow> buffer \<Rightarrow> u32) \<Rightarrow> compiler \<Rightarrow> 's host \<Rightarrow> (HFSPlus \<Rightarrow> 's commands) \<Rightarrow> nat \<Rightarrow> HIOptions \<Rightarrow> 's \<Rightarrow>
   (screen \<times> 's) run" where
  "with_device env crc32c cc host commands fuel opts s =
     (if device_path opts = [] then fault
      else
        rbind (open_device host fuel (device_path opts)) (\<lambda>vol.
        rbind (load_volumes env crc32c fuel opts vol (\<lparr>scr_ctx = OCMake False 2 (Some ''volume''), scr_out = []\<rparr>, s)) (\<lambda>(vol, x).
        rbind (find_filesystem cc vol) (\<lambda>hfs.
        rbind (check_output host opts) (\<lambda>opts.
        rbind (drop_rights host opts) (\<lambda>opts.
          let (scr, s) = x; x = (scr\<lparr>scr_ctx := (scr_ctx scr)\<lparr>decimal_sizes := use_decimal opts\<rparr>\<rparr>, s) in
          rbind (if check_mode (opt_mode opts) HIModeYankFS
                 then yank host (commands hfs) hfs (extract_path opts) x else ret x) (\<lambda>x.
          rbind (perform_requests (commands hfs) hfs opts x) (\<lambda>x.
          Some (obind (hfs_close hfs) (\<lambda>_. Done (Inr x)))))))))))"

text \<open>The program from its options on; \<open>args\<close> is what \<open>getopt_long\<close> returns.\<close>

definition hfsinspect ::
  "dump_env \<Rightarrow> (u32 \<Rightarrow> buffer \<Rightarrow> u32) \<Rightarrow> compiler \<Rightarrow> 's host \<Rightarrow> (HFSPlus \<Rightarrow> 's commands) \<Rightarrow> nat \<Rightarrow> (char \<times> string) list \<Rightarrow> 's \<Rightarrow>
   (screen \<times> 's) run" where
  "hfsinspect env crc32c cc host commands fuel args s =
     rbind (process_options args no_options) (\<lambda>opts. with_device env crc32c cc host commands fuel opts s)"

text \<open>\<open>main\<close> itself: without any argument, be it an option or another, the program prints its usage and ends.\<close>

definition hfsinspect_main ::
  "dump_env \<Rightarrow> (u32 \<Rightarrow> buffer \<Rightarrow> u32) \<Rightarrow> compiler \<Rightarrow> 's host \<Rightarrow> (HFSPlus \<Rightarrow> 's commands) \<Rightarrow> nat \<Rightarrow> nat \<Rightarrow>
   (char \<times> string) list \<Rightarrow> 's \<Rightarrow> (screen \<times> 's) run" where
  "hfsinspect_main env crc32c cc host commands fuel argc args s =
     (if argc = 1 then exits 0 else hfsinspect env crc32c cc host commands fuel args s)"

end
