(* ===== verification/Command_Line_Correct.thy ===== *)
theory Command_Line_Correct
  imports Command_Line Operations_Correct
begin

text \<open>
  What the command line means: which options end the program and how, that the order of the others does
  not matter, which requests a command line makes, that opening the device ends, and what the
  extraction of the essential files leaves out.
\<close>

section \<open>One option\<close>

text \<open>The modes that the options set, and the options that end the program: with a status, or in a fault.\<close>

definition option_mode :: "char \<Rightarrow> nat option" where
  "option_mode = map_of
     [(CHR ''r'', HIModeShowVolumeInfo), (CHR ''j'', HIModeShowJournalInfo), (CHR ''s'', HIModeShowSummary),
      (CHR ''b'', HIModeShowBTreeInfo), (CHR ''n'', HIModeShowBTreeNode), (CHR ''F'', HIModeShowCatalogRecord),
      (CHR ''c'', HIModeShowCNID), (CHR ''P'', HIModeShowPathInfo), (CHR ''o'', HIModeExtractFile),
      (CHR ''l'', HIModeListFolder), (CHR ''D'', HIModeShowDiskInfo), (CHR ''y'', HIModeYankFS),
      (CHR ''0'', HIModeFreeSpace)]"

definition option_refusal :: "char \<times> string \<Rightarrow> int outcome option" where
  "option_refusal = (\<lambda>(c, a).
     if c \<in> {CHR ''v'', CHR ''h''} then Some (Done 0)
     else if c = CHR ''V'' then Some Fault
     else if option_mode c = None \<and> c \<notin> {CHR ''L'', CHR ''B'', CHR ''S'', CHR ''d''} then Some (Done 1)
     else if c = CHR ''P'' \<and> take 1 a \<noteq> ''/'' then Some (Done 1)
     else if c = CHR ''b'' \<and> cstr a \<notin> fst ` set tree_names then Some (Done 1)
     else if c = CHR ''F'' \<and> snd (scan_unsigned (fst (strsep a))) \<in> {None, Some 0} then Some (Done 1)
     else if c \<in> {CHR ''n'', CHR ''c''} \<and> fst (scan_unsigned a) = 0 then Some (Done 1)
     else None)"

definition option_update :: "char \<times> string \<Rightarrow> HIOptions \<Rightarrow> HIOptions" where
  "option_update x opts = (case process_option x opts of Some (Done (Inr opts)) \<Rightarrow> opts | _ \<Rightarrow> opts)"

lemma strlcpy_slash: "take (Suc 0) a = ''/'' \<Longrightarrow> strlcpy PATH_MAX a \<noteq> [] \<and> hd (strlcpy PATH_MAX a) = CHR ''/''"
  and strlcpy_no_slash: "take (Suc 0) a \<noteq> ''/'' \<Longrightarrow> strlcpy PATH_MAX a = [] \<or> hd (strlcpy PATH_MAX a) \<noteq> CHR ''/''"
  by (cases a; auto simp: strlcpy_def cstr_def)+

lemma scan_unsigned_nil [simp]: "scan_unsigned [] = (- 1, None)"
  by (simp add: scan_unsigned_def)

lemma parse_fsspec_refusal:
  "parse_fsspec a opts =
     (if snd (scan_unsigned (fst (strsep a))) \<in> {None, Some 0} then exits 1
      else ret (opts\<lparr>record_parent := the (snd (scan_unsigned (fst (strsep a)))),
        record_filename := (case map_option (\<lambda>s. fst (strsep s)) (snd (strsep a)) of
            None \<Rightarrow> [] | Some f \<Rightarrow> strlcpy PATH_MAX f)\<rparr>))"
  by (auto simp: parse_fsspec_def Let_def split: prod.splits option.splits)

lemma option_cases:
  fixes c :: char
  obtains (known) "c \<in> set ''LBSlvhjDdVrpPbFyoncs0''" | (unknown) "c \<notin> set ''LBSlvhjDdVrpPbFyoncs0''"
  by blast

lemma process_option_unknown:
  "c \<notin> set ''LBSlvhjDdVrpPbFyoncs0'' \<Longrightarrow> process_option (c, a) opts = exits 1 \<and> option_refusal (c, a) = Some (Done 1)"
  by (simp add: process_option_def option_refusal_def option_mode_def)

lemma process_option_refusal:
  "process_option x opts =
     (case option_refusal x of None \<Rightarrow> ret (option_update x opts) | Some (Done n) \<Rightarrow> exits n
      | Some Critical \<Rightarrow> Some Critical | Some Fault \<Rightarrow> fault)"
proof -
  obtain c a where x: "x = (c, a)" by (cases x)
  show ?thesis
  proof (cases "c \<in> set ''LBSlvhjDdVrpPbFyoncs0''")
    case False
    then show ?thesis by (simp add: x process_option_unknown)
  next
    case True
    then show ?thesis
      unfolding x
      by (simp only: list.set insert_iff empty_iff)
        (elim disjE FalseE;
         simp add: option_update_def process_option_def option_refusal_def option_mode_def Let_def parse_fsspec_refusal;
         auto dest: strlcpy_slash strlcpy_no_slash simp: domIff simp flip: dom_map_of_conv_image_fst split: option.splits prod.splits)
  qed
qed

lemma option_known:
  "option_refusal (c, a) = None \<Longrightarrow> c \<in> set ''LBSljDdrPbFyoncs0''"
  by (auto simp: option_refusal_def option_mode_def split: if_splits)

text \<open>What an option that is accepted changes, field by field.\<close>

lemma option_update_fields:
  assumes "option_refusal (c, a) = None"
  shows "option_update (c, a) opts = opts\<lparr>
    opt_mode := (case option_mode c of None \<Rightarrow> opt_mode opts | Some m \<Rightarrow> set_mode (opt_mode opts) m),
    record_parent := (if c = CHR ''F'' then the (snd (scan_unsigned (fst (strsep a)))) else record_parent opts),
    opt_cnid := (if c = CHR ''c'' \<and> snd (scan_unsigned a) \<noteq> None then the (snd (scan_unsigned a)) else opt_cnid opts),
    node_id := (if c = CHR ''n'' \<and> snd (scan_unsigned a) \<noteq> None then the (snd (scan_unsigned a)) else node_id opts),
    tree_type := (if c = CHR ''b'' then the (map_of tree_names (cstr a)) else tree_type opts),
    device_path := (if c = CHR ''d'' then strlcpy PATH_MAX a else device_path opts),
    file_path := (if c = CHR ''P'' then strlcpy PATH_MAX a else file_path opts),
    record_filename := (if c = CHR ''F''
      then (case map_option (\<lambda>s. fst (strsep s)) (snd (strsep a)) of None \<Rightarrow> [] | Some f \<Rightarrow> strlcpy PATH_MAX f)
      else record_filename opts),
    extract_path := (if c \<in> {CHR ''y'', CHR ''o''} then strlcpy PATH_MAX a else extract_path opts),
    use_decimal := (use_decimal opts \<or> c = CHR ''S''),
    opt_log_level := (if c = CHR ''L'' then opt_log_level opts + 1 else if c = CHR ''B'' then 5 else opt_log_level opts)\<rparr>"
  using option_known [OF assms] assms
  by (simp only: list.set insert_iff empty_iff)
    (elim disjE FalseE;
     simp add: option_update_def process_option_def option_refusal_def option_mode_def Let_def parse_fsspec_refusal with_mode_def;
     auto dest: strlcpy_slash simp: domIff image_iff with_mode_def simp flip: dom_map_of_conv_image_fst split: option.splits prod.splits if_splits)

lemma set_mode_commute: "set_mode (set_mode w m) n = set_mode (set_mode w n) m"
  by (simp add: set_mode_def or.assoc or.commute or.left_commute)

lemma option_update_field:
  assumes "option_refusal (c, a) = None"
  shows
    "opt_mode (option_update (c, a) opts) = (case option_mode c of None \<Rightarrow> opt_mode opts | Some m \<Rightarrow> set_mode (opt_mode opts) m)"
    "record_parent (option_update (c, a) opts) =
       (if c = CHR ''F'' then the (snd (scan_unsigned (fst (strsep a)))) else record_parent opts)"
    "opt_cnid (option_update (c, a) opts) =
       (if c = CHR ''c'' \<and> snd (scan_unsigned a) \<noteq> None then the (snd (scan_unsigned a)) else opt_cnid opts)"
    "node_id (option_update (c, a) opts) =
       (if c = CHR ''n'' \<and> snd (scan_unsigned a) \<noteq> None then the (snd (scan_unsigned a)) else node_id opts)"
    "tree_type (option_update (c, a) opts) = (if c = CHR ''b'' then the (map_of tree_names (cstr a)) else tree_type opts)"
    "device_path (option_update (c, a) opts) = (if c = CHR ''d'' then strlcpy PATH_MAX a else device_path opts)"
    "file_path (option_update (c, a) opts) = (if c = CHR ''P'' then strlcpy PATH_MAX a else file_path opts)"
    "record_filename (option_update (c, a) opts) = (if c = CHR ''F''
       then (case map_option (\<lambda>s. fst (strsep s)) (snd (strsep a)) of None \<Rightarrow> [] | Some f \<Rightarrow> strlcpy PATH_MAX f)
       else record_filename opts)"
    "extract_path (option_update (c, a) opts) = (if c \<in> {CHR ''y'', CHR ''o''} then strlcpy PATH_MAX a else extract_path opts)"
    "use_decimal (option_update (c, a) opts) = (use_decimal opts \<or> c = CHR ''S'')"
    "opt_log_level (option_update (c, a) opts) =
       (if c = CHR ''L'' then opt_log_level opts + 1 else if c = CHR ''B'' then 5 else opt_log_level opts)"
  by (simp_all add: option_update_fields [OF assms])

text \<open>Two options that are accepted can be exchanged, unless they write the same field.\<close>

lemma option_update_commute:
  assumes "option_refusal (c, a) = None" "option_refusal (d, b) = None" "c \<noteq> d"
    "{c, d} \<noteq> {CHR ''L'', CHR ''B''}" "{c, d} \<noteq> {CHR ''y'', CHR ''o''}"
  shows "option_update (c, a) (option_update (d, b) opts) = option_update (d, b) (option_update (c, a) opts)"
proof -
  note field = option_update_field [OF assms(1)] option_update_field [OF assms(2)]
  have more: "HIOptions.more x = HIOptions.more y" for x y :: HIOptions by simp
  have ne: "\<not> (c = CHR ''L'' \<and> d = CHR ''B'')" "\<not> (c = CHR ''B'' \<and> d = CHR ''L'')"
    "\<not> (c = CHR ''y'' \<and> d = CHR ''o'')" "\<not> (c = CHR ''o'' \<and> d = CHR ''y'')"
    using assms(4,5) by (auto simp only: insert_commute)
  show ?thesis
    apply (rule HIOptions.equality; (simp only: field | rule more))
    subgoal by (simp add: set_mode_commute split: option.split)
    subgoal using assms(3) by auto
    subgoal using assms(3) by auto
    subgoal using assms(3) by auto
    subgoal using assms(3) by auto
    subgoal using assms(3) by auto
    subgoal using assms(3) by auto
    subgoal using assms(3) by (simp split: if_split) blast
    subgoal using assms(3) ne by auto
    subgoal by auto
    subgoal using assms(3) ne by auto
    done
qed

section \<open>The options together\<close>

lemma process_options_accepted:
  "(\<forall>x \<in> set args. option_refusal x = None) \<Longrightarrow> process_options args opts = ret (fold option_update args opts)"
  by (induction args arbitrary: opts) (simp_all add: process_option_refusal)

lemma process_options_refused:
  "x \<in> set args \<Longrightarrow> option_refusal x \<noteq> None \<Longrightarrow>
   process_options args opts =
     (case the (option_refusal (hd (filter (\<lambda>x. option_refusal x \<noteq> None) args))) of
        Done n \<Rightarrow> exits n | Critical \<Rightarrow> Some Critical | Fault \<Rightarrow> fault)"
  by (induction args arbitrary: opts) (auto simp: process_option_refusal split: outcome.splits)

lemma process_options_ret:
  "process_options args opts = ret opts' \<longleftrightarrow>
     (\<forall>x \<in> set args. option_refusal x = None) \<and> opts' = fold option_update args opts"
proof (cases "\<forall>x \<in> set args. option_refusal x = None")
  case True
  then show ?thesis by (auto simp: process_options_accepted)
next
  case False
  then obtain x where "x \<in> set args" "option_refusal x \<noteq> None" by blast
  then show ?thesis
    using process_options_refused [of x args opts] by (auto split: outcome.splits)
qed

lemma check_set_mode:
  "m < 32 \<Longrightarrow> n < 32 \<Longrightarrow> check_mode (set_mode w m) n \<longleftrightarrow> n = m \<or> check_mode w n"
  by (auto simp: check_mode_bit set_mode_def bit_simps)

lemma option_mode_less: "option_mode c = Some m \<Longrightarrow> m < 32"
  by (auto simp: option_mode_def split: if_splits)

definition option_modes :: "(char \<times> string) list \<Rightarrow> nat set" where
  "option_modes args = {m. \<exists>x \<in> set args. option_mode (fst x) = Some m}"

lemma option_modes_less: "m \<in> option_modes args \<Longrightarrow> m < 32"
  by (auto simp: option_modes_def option_mode_less)

lemma check_mode_fold:
  "\<forall>x \<in> set args. option_refusal x = None \<Longrightarrow> m < 32 \<Longrightarrow>
   check_mode (opt_mode (fold option_update args opts)) m \<longleftrightarrow> m \<in> option_modes args \<or> check_mode (opt_mode opts) m"
proof (induction args arbitrary: opts)
  case (Cons x args)
  obtain c a where x: "x = (c, a)" by (cases x)
  from Cons show ?case
    by (auto simp: x option_update_field(1) option_modes_def check_set_mode option_mode_less split: option.splits)
qed (simp add: option_modes_def)

lemma check_mode_options:
  assumes "process_options args no_options = ret opts" "m < 32"
  shows "check_mode (opt_mode opts) m \<longleftrightarrow> m \<in> option_modes args"
proof -
  have "\<not> check_mode (opt_mode no_options) m" by (simp add: no_options_def check_mode_def)
  with assms show ?thesis by (auto simp only: process_options_ret check_mode_fold)
qed


lemma set_mode_set:
  assumes "\<forall>x \<in> set args. option_refusal x = None" "mset args' = mset args" "distinct (map fst args)"
    "\<not> {CHR ''L'', CHR ''B''} \<subseteq> fst ` set args" "\<not> {CHR ''y'', CHR ''o''} \<subseteq> fst ` set args"
  shows "fold option_update args' opts = fold option_update args opts"
proof -
  have "fold option_update args = fold option_update args'"
  proof (rule fold_multiset_equiv)
    fix x y assume xy: "x \<in> set args" "y \<in> set args"
    obtain c a d b where eq: "x = (c, a)" "y = (d, b)" by (cases x, cases y)
    show "option_update x \<circ> option_update y = option_update y \<circ> option_update x"
    proof (cases "x = y")
      case False
      have "inj_on fst (set args)" using assms(3) by (simp add: distinct_map)
      then have "fst x \<noteq> fst y" using False xy by (auto dest: inj_onD)
      then have "c \<noteq> d" by (simp add: eq)
      have "c \<in> fst ` set args" "d \<in> fst ` set args" using xy eq by force+
      then have "{c, d} \<noteq> {CHR ''L'', CHR ''B''}" "{c, d} \<noteq> {CHR ''y'', CHR ''o''}"
        using assms(4,5) by (metis empty_subsetI insert_subset)+
      moreover have "option_refusal (c, a) = None" "option_refusal (d, b) = None" using assms(1) xy eq by blast+
      ultimately show ?thesis
        unfolding eq comp_def fun_eq_iff using option_update_commute [OF _ _ \<open>c \<noteq> d\<close>] by blast
    qed simp
  qed (simp add: assms(2))
  then show ?thesis by simp
qed

lemma same_options:
  assumes "mset args' = mset args" shows "set args' = set args"
  using mset_eq_setD [OF assms] .

text \<open>
  C21. The options of a command line may be given in any order, provided that each is given once and none is
  refused: the program does the same. The exceptions are pairs that write the same field, \<open>-L\<close> with
  \<open>--debug\<close> and \<open>-y\<close> with \<open>-o\<close>.
\<close>

theorem options_permute:
  assumes "\<forall>x \<in> set args. option_refusal x = None" "mset args' = mset args" "distinct (map fst args)"
    "\<not> {CHR ''L'', CHR ''B''} \<subseteq> fst ` set args" "\<not> {CHR ''y'', CHR ''o''} \<subseteq> fst ` set args"
  shows "hfsinspect env crc32c cc host commands fuel args' s = hfsinspect env crc32c cc host commands fuel args s"
  using set_mode_set [OF assms] assms(1) same_options [OF assms(2)]
  by (simp add: hfsinspect_def process_options_accepted)

lemma options_permute_witness:
  "\<forall>env crc32c cc (host :: nat host) commands fuel s.
     hfsinspect env crc32c cc host commands fuel [(CHR ''s'', []), (CHR ''d'', ''a.img''), (CHR ''c'', ''5'')] s =
     hfsinspect env crc32c cc host commands fuel [(CHR ''c'', ''5''), (CHR ''s'', []), (CHR ''d'', ''a.img'')] s"
  by (intro allI options_permute) (simp_all add: option_refusal_def option_mode_def scan_unsigned_def)

text \<open>
  C22. An option that is not accepted ends the program before anything is opened: the first such option of the
  command line alone says how, whatever the device, the system and the other options are. Help and
  version end it with status 0, \<open>-V\<close> in a fault, the others with status 1.
\<close>

theorem refused_option_ends:
  assumes "x \<in> set args" "option_refusal x \<noteq> None"
  shows "hfsinspect env crc32c cc host commands fuel args s =
     (case the (option_refusal (hd (filter (\<lambda>x. option_refusal x \<noteq> None) args))) of
        Done n \<Rightarrow> exits n | Critical \<Rightarrow> Some Critical | Fault \<Rightarrow> fault)"
  using process_options_refused [OF assms] by (simp add: hfsinspect_def split: outcome.splits)

lemma refused_option_ends_witness:
  "\<forall>env crc32c cc (host :: nat host) commands fuel s.
     hfsinspect env crc32c cc host commands fuel
       [(CHR ''d'', ''a.img''), (CHR ''b'', ''folders''), (CHR ''h'', [])] s = exits 1 \<and>
     hfsinspect env crc32c cc host commands fuel
       [(CHR ''d'', ''a.img''), (CHR ''h'', []), (CHR ''b'', ''folders'')] s = exits 0"
  by (intro allI)
    (simp add: refused_option_ends [of "(CHR ''h'', [])"] option_refusal_def option_mode_def tree_names_def cstr_def)

section \<open>Requests\<close>

lemma in_turn_modes:
  "in_turn (map (\<lambda>(m, p). on_mode modes m p) ps) = in_turn (map snd (filter (\<lambda>(m, p). check_mode modes m) ps))"
proof (induction ps)
  case (Cons mp ps)
  obtain m p where "mp = (m, p)" by (cases mp)
  then show ?case
    by (intro ext) (simp add: Cons on_mode_def [of modes m p])
qed simp

text \<open>The requests that show records, in the order in which they are made.\<close>

definition record_requests :: "'s commands \<Rightarrow> HFSPlus \<Rightarrow> HIOptions \<Rightarrow> (nat \<times> 's process) list" where
  "record_requests cmds hfs opts =
     [(HIModeShowSummary, cmd_summary cmds), (HIModeShowVolumeInfo, cmd_volume_header cmds),
      (HIModeShowJournalInfo, show_journal cmds hfs), (HIModeFreeSpace, cmd_free_space cmds),
      (HIModeShowPathInfo, cmd_path cmds (file_path opts)), (HIModeShowCatalogRecord, show_fsspec cmds opts),
      (HIModeShowCNID, cmd_record cmds \<lparr>spec_parentID = opt_cnid opts, spec_name = []\<rparr> True)]"

lemma perform_requests_modes:
  "perform_requests cmds hfs opts x =
     (let modes = (if opt_mode opts = 0 then set_mode (opt_mode opts) HIModeShowVolumeInfo else opt_mode opts) in
      rbind (in_turn (cmd_volume_info cmds #
        map snd (filter (\<lambda>(m, p). check_mode modes m) (record_requests cmds hfs opts))) x) (\<lambda>x.
      rbind (tree_requests cmds modes opts x) (\<lambda>(tree, x).
      on_mode modes HIModeExtractFile (extract_found cmds opts tree) x)))"
proof -
  have "in_turn (cmd_volume_info cmds # map snd (filter (\<lambda>(m, p). check_mode modes m) (record_requests cmds hfs opts))) =
        in_turn (cmd_volume_info cmds # map (\<lambda>(m, p). on_mode modes m p) (record_requests cmds hfs opts))" for modes
    by (rule ext) (simp only: in_turn_modes in_turn.simps)
  then show ?thesis
    by (simp only: perform_requests_def record_requests_def list.map case_prod_conv Let_def)
qed

lemma mode_zero: "(w :: u32) = 0 \<longleftrightarrow> (\<forall>m < 32. \<not> check_mode w m)"
  by (auto simp: check_mode_bit intro!: bit_word_eqI)

lemma show_volume_info: "m < 32 \<Longrightarrow> check_mode (set_mode 0 HIModeShowVolumeInfo) m \<longleftrightarrow> m = HIModeShowVolumeInfo"
  by (simp add: check_set_mode) (simp add: check_mode_def)

lemma rbind_rbind: "rbind (rbind m f) g = rbind m (\<lambda>a. rbind (f a) g)"
  by (cases "(m, f)" rule: rbind.cases) simp_all

text \<open>
  C20. The requests are those that the options name, each once and in an order of the program's own: the volume
  is always told, then what was asked for of the records, then of the trees, then what is extracted. A
  command line that names none of them asks for the volume header.
\<close>

theorem requests_of_options:
  assumes "process_options args no_options = ret opts"
    and "modes = (if option_modes args = {} then {HIModeShowVolumeInfo} else option_modes args)"
  shows "perform_requests cmds hfs opts x =
     rbind (in_turn (cmd_volume_info cmds #
       map snd (filter (\<lambda>(m, p). m \<in> modes) (record_requests cmds hfs opts))) x) (\<lambda>x.
     rbind (if HIModeShowBTreeInfo \<in> modes then show_tree cmds opts x else ret (None, x)) (\<lambda>(tree, x).
     rbind (if HIModeShowBTreeNode \<in> modes then show_node cmds opts x else ret (tree, x)) (\<lambda>(tree, x).
       if HIModeExtractFile \<in> modes then extract_found cmds opts tree x else ret x)))"
proof -
  define actual where "actual = (if opt_mode opts = 0 then set_mode (opt_mode opts) HIModeShowVolumeInfo else opt_mode opts)"
  have check: "check_mode actual m \<longleftrightarrow> m \<in> modes" if "m < 32" for m
  proof -
    have "opt_mode opts = 0 \<longleftrightarrow> option_modes args = {}"
      using check_mode_options [OF assms(1)] option_modes_less by (auto simp: mode_zero)
    then show ?thesis
      using check_mode_options [OF assms(1) that]
      by (cases "opt_mode opts = 0") (simp_all add: actual_def show_volume_info that assms(2))
  qed
  have "filter (\<lambda>(m, p). check_mode actual m) (record_requests cmds hfs opts) =
      filter (\<lambda>(m, p). m \<in> modes) (record_requests cmds hfs opts)"
    by (rule filter_cong) (auto simp: record_requests_def check)
  then show ?thesis
    unfolding perform_requests_modes Let_def tree_requests_def on_mode_def actual_def [symmetric]
    by (cases "HIModeExtractFile \<in> modes") (simp_all add: check rbind_rbind split_beta')
qed

lemma requests_of_options_witness:
  "\<forall>(cmds :: nat commands) hfs x. \<exists>opts.
     process_options [(CHR ''d'', ''a.img''), (CHR ''c'', ''5''), (CHR ''s'', [])] no_options = ret opts \<and> opt_cnid opts = 5 \<and>
     perform_requests cmds hfs opts x =
       rbind (in_turn [cmd_volume_info cmds, cmd_summary cmds,
         cmd_record cmds \<lparr>spec_parentID = 5, spec_name = []\<rparr> True] x) ret"
proof (intro allI)
  fix cmds :: "nat commands" and hfs x
  let ?args = "[(CHR ''d'', ''a.img''), (CHR ''c'', ''5''), (CHR ''s'', [])]"
  let ?opts = "fold option_update ?args no_options"
  have ok: "process_options ?args no_options = ret ?opts"
    by (rule process_options_accepted) (simp add: option_refusal_def option_mode_def scan_unsigned_def)
  have "opt_cnid ?opts = 5"
    by (simp add: option_update_def process_option_def with_mode_def no_options_def scan_unsigned_def)
  moreover have "option_modes ?args = {6, 2}"
    by (auto simp: option_modes_def option_mode_def)
  ultimately have "perform_requests cmds hfs ?opts x =
      rbind (in_turn [cmd_volume_info cmds, cmd_summary cmds, cmd_record cmds \<lparr>spec_parentID = 5, spec_name = []\<rparr> True] x) ret"
    using requests_of_options [OF ok refl, of cmds hfs x] by (simp add: record_requests_def)
  with ok \<open>opt_cnid ?opts = 5\<close> show "\<exists>opts. process_options ?args no_options = ret opts \<and> opt_cnid opts = 5 \<and>
     perform_requests cmds hfs opts x =
       rbind (in_turn [cmd_volume_info cmds, cmd_summary cmds,
         cmd_record cmds \<lparr>spec_parentID = 5, spec_name = []\<rparr> True] x) ret"
    by blast
qed

section \<open>The device\<close>

lemma raw_path_disk:
  assumes "take 9 (drop i (raw_path path)) = ''/dev/disk''"
  shows "10 \<le> i \<and> take 9 (drop (i - 1) path) = ''/dev/disk''"
proof -
  have at: "i + k < length (raw_path path) \<and> raw_path path ! (i + k) = ''/dev/disk'' ! k" if "k < 9" for k
  proof -
    have "length (take 9 (drop i (raw_path path))) = 9" by (simp add: assms)
    then have "i + k < length (raw_path path)" using that by simp
    moreover have "take 9 (drop i (raw_path path)) ! k = ''/dev/disk'' ! k" by (simp only: assms)
    ultimately show ?thesis using that by simp
  qed
  have raw: "raw_path path ! j = (if j < 10 then ''/dev/rdisk'' ! j else path ! (j - 1))" if "j < length (raw_path path)" for j
    using that by (auto simp: raw_path_def nth_append nth_Cons')
  have slash: "j \<noteq> i" if "j \<in> {1, 2, 3, 5, 6, 7, 8, 9}" for j
    using that at [of 0] raw [of i] by (auto split: if_splits)
  have "i \<noteq> 0" using at [of 6] raw [of 6] by (intro notI) simp
  moreover have "i \<noteq> 4" using at [of 1] raw [of 5] by (intro notI) simp
  ultimately have "10 \<le> i" using slash by (cases "i < 10") (auto simp: less_Suc_eq numeral_eq_Suc)
  moreover have "take 9 (drop (i - 1) path) = ''/dev/disk''"
  proof (rule nth_equalityI)
    have "length (raw_path path) \<le> length path + 1 \<or> length path < 9"
      by (auto simp: raw_path_def)
    moreover have "i + 8 < length (raw_path path)" using at [of 8] by simp
    moreover have "length (raw_path path) \<le> 10 + (length path - 9)" by (simp add: raw_path_def)
    ultimately have len: "i - 1 + 9 \<le> length path" using \<open>10 \<le> i\<close> by simp
    then show "length (take 9 (drop (i - 1) path)) = length ''/dev/disk''" by simp
    fix k assume "k < length (take 9 (drop (i - 1) path))"
    then have "k < 9" by simp
    then show "take 9 (drop (i - 1) path) ! k = ''/dev/disk'' ! k"
      using at [of k] raw [of "i + k"] len \<open>10 \<le> i\<close> by simp
  qed
  ultimately show ?thesis by simp
qed

text \<open>
  C23. Opening the device ends, even though a busy device is tried again and again under another path: each
  time the name of a disk in the path moves on by one place, and the path is cut at its end.
\<close>

theorem open_device_returns:
  assumes "length path < PATH_MAX" "4088 \<le> fuel"
  shows "open_device host fuel path \<noteq> None"
proof -
  have "open_device host fuel path \<noteq> None"
    if "length path < PATH_MAX" "0 < fuel" "\<forall>i. take 9 (drop i path) = ''/dev/disk'' \<longrightarrow> 4088 \<le> i + fuel" for path fuel
    using that
  proof (induction fuel arbitrary: path)
    case (Suc fuel)
    show ?case
    proof (cases "is_disk path")
      case True
      then obtain i where i: "take 9 (drop i path) = ''/dev/disk''" by (auto simp: is_disk_def)
      then have "length (take 9 (drop i path)) = 9" by simp
      then have "i + 9 \<le> length path" by simp
      moreover have "4088 \<le> i + Suc fuel" using Suc.prems(3) i by blast
      ultimately have "0 < fuel" using Suc.prems(1) by simp
      moreover have "length (raw_path path) < PATH_MAX" by (simp add: raw_path_def)
      moreover have "4088 \<le> j + fuel" if "take 9 (drop j (raw_path path)) = ''/dev/disk''" for j
      proof -
        from raw_path_disk [OF that] have "10 \<le> j" "4088 \<le> j - 1 + Suc fuel" using Suc.prems(3) by blast+
        then show ?thesis by simp
      qed
      ultimately show ?thesis
        using Suc.IH by (simp split: sum.split)
    qed (simp split: sum.split)
  qed simp
  with assms show ?thesis by simp
qed

lemma open_device_returns_witness:
  "\<forall>host :: nat host. open_device host 4088 ''/dev/disk/dev/disk2'' \<noteq> None"
  by (intro allI open_device_returns) simp_all

text \<open>
  The files that are looked up for the extraction of the essential files are left out when they are found:
  the extraction is the same whatever making and extracting a fork do.
\<close>

lemma yank_leaves_out_found:
  assumes "\<forall>path \<in> fst ` set ps. \<forall>s. \<exists>r s'. cmd_lookup cmds path s = Done (0, r, s')"
  shows "yank_paths (cmds\<lparr>cmd_make := make_fork, cmd_extract := extract_fork\<rparr>) dir ps rcd x = yank_paths cmds dir ps rcd x"
  using assms
proof (induction ps arbitrary: rcd x)
  case (Cons p ps)
  obtain path name scr s where p: "p = (path, name)" "x = (scr, s)" by (cases p, cases x)
  obtain r s' where "cmd_lookup cmds path s = Done (0, r, s')" using Cons.prems p by force
  with Cons show ?case by (simp add: p run_call_def)
qed simp

lemma yank_leaves_out_found_witness:
  "\<forall>(cmds :: nat commands) make_fork extract_fork scr.
     let cmds = cmds\<lparr>cmd_lookup := \<lambda>path s. Done (0, Some [1], Suc s)\<rparr> in
     yank_paths (cmds\<lparr>cmd_make := make_fork, cmd_extract := extract_fork\<rparr>) ''out''
       [(''/.hotfiles.btree'', ''/hotfiles.btree''), (''/.journal'', ''/journal.buf'')] [] (scr, 0) =
     yank_paths cmds ''out'' [(''/.hotfiles.btree'', ''/hotfiles.btree''), (''/.journal'', ''/journal.buf'')] [] (scr, 0)"
  unfolding Let_def by (intro allI yank_leaves_out_found) simp

end
