(* ===== verification/Spec2Isabelle.thy ===== *)
theory Spec2Isabelle
  imports Catalog_Correct Partition_Tree Metadata Operations_Correct Hfs_Output_Correct Dump_Correct Command_Line_Correct
begin

text \<open>
  A verification library for hfsinspect, a program that reads HFS+ volumes and prints what it finds. File names
  are those under \<^verbatim>\<open>src/src\<close>.

  \<^bold>\<open>The program.\<close> The command line names a device or file and what is asked for. The source is opened as
  a volume and searched for partition maps, which make a tree of volumes; the first volume of it that holds
  an HFS+ file system is read through \<open>vol_read\<close>. The files of the file system are forks, whose blocks are found
  through extent lists. The B-trees (catalog, extents overflow, attributes, hot files) are read as streams over
  forks, node by node, through a cache; each node is converted from the big-endian disk format in place and
  searched by key. The operations walk the trees and print what they find, with indented sections, or
  write forks to files.

  \<^bold>\<open>The theories.\<close> A theory that is named \<open>_Correct\<close>, and \<open>Partition_Tree\<close>, only proves; the others hold the
  definitions with their lemmas.
  \<^item> \<open>Hfs_Prelude\<close>: machine integers, outcomes of calls, loads and stores on buffers.
  \<^item> \<open>Byte_Order\<close> (\<^verbatim>\<open>volumes/_endian.h\<close>), \<open>Disk_Layout\<close> (\<^verbatim>\<open>hfs/Apple/hfs_format.h\<close>), \<open>Disk_Swap\<close>
    (\<^verbatim>\<open>hfs/hfs_endian.c\<close>, \<^verbatim>\<open>hfs/btree/btree_endian.c\<close>): on-disk structures and their conversion. The
    lemmas show which fields each conversion reverses and that it leaves the rest alone.
  \<^item> \<open>Block_Range\<close> (\<^verbatim>\<open>hfs/range.c\<close>), \<open>Extent_List\<close> (\<^verbatim>\<open>hfs/hfs_extentlist.c\<close>): ranges of blocks and the
    map from the blocks of a fork to those of the volume, with its interface \<open>block_map\<close>.
  \<^item> \<open>Node_Cache\<close> (\<^verbatim>\<open>hfs/btree/cache.c\<close>): the cache of nodes, a refinement of a least-recently-used list,
    with its interface \<open>node_store\<close>.
  \<^item> \<open>Volume_IO\<close> (\<^verbatim>\<open>volumes/volume.c\<close>, \<^verbatim>\<open>volumes/utilities.c\<close>): volumes, reads, the partition tree.
  \<^item> \<open>Crc32\<close> (\<^verbatim>\<open>volumes/crc32/crc32.c\<close>, \<^verbatim>\<open>tools/makecrc.c\<close>): the checksum and its table.
  \<^item> \<open>Partition_Maps\<close>, \<open>Volumes_Load\<close> (\<^verbatim>\<open>volumes/mbr.c\<close>, \<^verbatim>\<open>gpt.c\<close>, \<^verbatim>\<open>apm.c\<close>, \<^verbatim>\<open>corestorage.c\<close>, \<^verbatim>\<open>volumes.c\<close>):
    testing and loading the four kinds of partition map, and the descent into nested ones.
    \<open>Partition_Correct\<close> shows which partitions are made and when the descent ends, \<open>Partition_Tree\<close> that the
    tree of volumes stays well formed.
  \<^item> \<open>BTree_Node\<close>, \<open>Key_Order\<close>, \<open>BTree_Search\<close>, \<open>BTree_File\<close> (\<^verbatim>\<open>hfs/btree/btree.c\<close>,
    \<^verbatim>\<open>hfs/btree/btree_endian.c\<close>, \<^verbatim>\<open>hfs/catalog.c\<close>, \<^verbatim>\<open>hfs/Apple/hfs_unicode.c\<close>): nodes, the orders of
    keys, the search, and trees on files. A search relies on the interfaces \<open>key_order\<close>,
    \<open>stored_keys\<close> and \<open>node_source\<close>; \<open>BTree_File\<close> provides the nodes, each tree its keys.
  \<^item> \<open>Extents_Overflow\<close> (\<^verbatim>\<open>hfs/extents.c\<close>): the extents overflow tree and the extent list of a fork.
  \<^item> \<open>Fork_IO\<close> (\<^verbatim>\<open>hfs/hfs_io.c\<close>): reading blocks and bytes of a fork, compared with the fork's content.
  \<^item> \<open>Utf_Data\<close> (\<^verbatim>\<open>hfs/Apple/utfconvdata.h\<close>), \<open>Utf_Conv\<close> (\<^verbatim>\<open>hfs/Apple/utfconv.c\<close>, \<^verbatim>\<open>hfs/unicode.c\<close>),
    \<open>Utf_Correct\<close>: the tables, the conversion of names between UTF-16 and UTF-8, and its round trip.
  \<^item> \<open>Catalog\<close>, \<open>Catalog_Correct\<close> (\<^verbatim>\<open>hfs/catalog.c\<close>): lookups by key, identifier and path, compared with the
    entries of a well-formed tree; \<open>Metadata\<close> (\<^verbatim>\<open>hfsplus/attributes.c\<close>, \<^verbatim>\<open>hfsplus/hotfiles.c\<close>): the other trees.
  \<^item> \<open>Hfs_Volume\<close> (\<^verbatim>\<open>hfs/hfs.c\<close>, \<^verbatim>\<open>hfs/hfs_btree.c\<close>): recognising, finding and opening a file system.
  \<^item> \<open>Operations\<close>, \<open>Operations_Correct\<close> (\<^verbatim>\<open>operations\<close>): free space, the summary, records, paths, extraction.
  \<^item> \<open>Output\<close> (\<^verbatim>\<open>volumes/output.c\<close>), \<open>Hfs_Output\<close>, \<open>Folder_Listing\<close> (\<^verbatim>\<open>hfs/output_hfs.c\<close>, \<^verbatim>\<open>hfsplus/journal.c\<close>),
    \<open>Volume_Dump\<close> (the dumps of the partition maps, of volumes and of a summary), \<open>Logging\<close>
    (\<^verbatim>\<open>logging/logging.c\<close>): what is printed, as functions on a screen. \<open>Hfs_Output_Correct\<close> and \<open>Dump_Correct\<close> show
    which printers close their sections and what a listing or a dump shows.
  \<^item> \<open>Command_Line\<close>, \<open>Command_Line_Correct\<close> (\<^verbatim>\<open>hfsinspect.c\<close>): the options, the search for a file system and the
    requests in their order. The operations on trees are arguments there; those of the volumes are the
    definitions of the other theories.

  \<^bold>\<open>Conventions.\<close> The host is little-endian Linux, allocation succeeds and is zeroed, \<open>assert\<close> is compiled out
  (the default build), \<open>critical\<close> ends the process (\<open>Critical\<close>), and an access outside an object, a null
  pointer or an undefined operation is a \<open>Fault\<close>. \<open>dup\<close> and \<open>fdopen\<close> succeed: where \<open>vol_make_partition\<close> would run
  out of file descriptors, which \<open>gpt_load\<close> skips and which \<open>mbr_load\<close> and \<open>apm_load\<close> do not survive, the model
  makes the partition. A static variable that caches a tree is an argument and part of
  the result. Integers have their widths wherever they can wrap.

  \<^bold>\<open>Bounds and fuel.\<close> Loops that the data bounds are total functions. The others take fuel and are \<open>None\<close> without
  enough of it: the search of a tree and the node map (more than the depth of the tree, the chain of map
  nodes), the extents of a fork (one more than its records), the rounds of a fork read (one for each block),
  \<open>volumes_load\<close> (\<open>volumes_load_returns\<close> says how much, \<open>volumes_load_endless\<close> that none may be enough), the leaves
  of a summary and of a listing (more than there are records), the threads of \<open>showCatalogRecord\<close>, and the
  opening of a busy device (\<open>open_device_returns\<close>: 4088).

  \<^bold>\<open>Not modelled.\<close> Code that is not in the repository is a parameter: \<open>memdmp\<close> and \<open>memstr\<close>, the UUID
  functions, \<open>crc32c\<close>, \<open>strftime\<close>, the conversion of wide characters, \<open>backtrace\<close>, colour sequences, \<open>getopt_long\<close>,
  \<open>dirname\<close> and the system calls. Left out are the code for BSD systems, the usage texts, the function
  \<open>cs_dump_all_blocks\<close>, which nothing calls, the journal structures of the kernel in \<^verbatim>\<open>vfs_journal.h\<close>, and the
  rounding of floating-point quotients, which are exact here. The descriptions of partitions are a parameter
  of the dump. What the operations of \<open>Operations\<close> print is given as data, without its layout.
\<close>

end
